(* ===== verification/Fleetum_Prelude.thy ===== *)
theory Fleetum_Prelude
  imports Main
begin

text \<open>
  Shared vocabulary of the development: the error values the services throw, the
  programs that read and write a database and may throw, their rule collections, and
  the table operations the services use through the database client.

  A service method is a \<open>prog\<close>: it takes the state of the world and returns either an
  error or a value, together with the new state.  A thrown error keeps the writes made
  before it; a database transaction (\<open>atomicP\<close>) undoes them.
\<close>

section \<open>Errors, programs and their combinators\<close>

text \<open>
  \<open>AppError\<close> of \<^verbatim>\<open>shared/errors/app-error.ts\<close> with its HTTP status and its code (the
  human-readable message is not kept); \<open>PrismaError\<close> is an error of the database client
  by its code, for instance \<open>P2002\<close> for a violated unique index; \<open>SystemError\<close> is an error of the
  operating system by its code, for instance \<open>ENOENT\<close>, or a plain \<open>Error\<close> by its message.
\<close>

datatype app_error = AppError (statusCode: nat) (errorCode: string) | PrismaError string | SystemError string

type_synonym ('e, 's, 'a) prog = "'s \<Rightarrow> ('e + 'a) \<times> 's"

definition returnP :: "'a \<Rightarrow> ('e, 's, 'a) prog" where
  "returnP x s = (Inr x, s)"

definition throwP :: "'e \<Rightarrow> ('e, 's, 'a) prog" where
  "throwP e s = (Inl e, s)"

definition bindP :: "('e, 's, 'a) prog \<Rightarrow> ('a \<Rightarrow> ('e, 's, 'b) prog) \<Rightarrow> ('e, 's, 'b) prog" where
  "bindP m f s = (case m s of (Inl e, s') \<Rightarrow> (Inl e, s') | (Inr x, s') \<Rightarrow> f x s')"

definition seqP :: "('e, 's, 'a) prog \<Rightarrow> ('e, 's, 'b) prog \<Rightarrow> ('e, 's, 'b) prog" where
  "seqP m n = bindP m (\<lambda>_. n)"

definition getsP :: "('s \<Rightarrow> 'a) \<Rightarrow> ('e, 's, 'a) prog" where
  "getsP f s = (Inr (f s), s)"

definition modifyP :: "('s \<Rightarrow> 's) \<Rightarrow> ('e, 's, unit) prog" where
  "modifyP f s = (Inr (), f s)"

definition whenP :: "bool \<Rightarrow> ('e, 's, unit) prog \<Rightarrow> ('e, 's, unit) prog" where
  "whenP b m = (if b then m else returnP ())"

definition assertP :: "bool \<Rightarrow> 'e \<Rightarrow> ('e, 's, unit) prog" where
  "assertP b e = (if b then returnP () else throwP e)"

definition ofOptionP :: "'e \<Rightarrow> 'a option \<Rightarrow> ('e, 's, 'a) prog" where
  "ofOptionP e x = (case x of None \<Rightarrow> throwP e | Some y \<Rightarrow> returnP y)"

text \<open>\<open>tryP m h\<close> is \<open>try m catch h\<close>; \<open>atomicP m\<close> is a transaction, rolled back on a throw.\<close>

definition tryP :: "('e, 's, 'a) prog \<Rightarrow> ('e \<Rightarrow> ('e, 's, 'a) prog) \<Rightarrow> ('e, 's, 'a) prog" where
  "tryP m h s = (case m s of (Inl e, s') \<Rightarrow> h e s' | (Inr x, s') \<Rightarrow> (Inr x, s'))"

definition atomicP :: "('e, 's, 'a) prog \<Rightarrow> ('e, 's, 'a) prog" where
  "atomicP m s = (case m s of (Inl e, s') \<Rightarrow> (Inl e, s) | (Inr x, s') \<Rightarrow> (Inr x, s'))"

primrec forEachP :: "('a \<Rightarrow> ('e, 's, 'b) prog) \<Rightarrow> 'a list \<Rightarrow> ('e, 's, 'b list) prog" where
  "forEachP f [] = returnP []"
| "forEachP f (x # xs) =
     bindP (f x) (\<lambda>y. bindP (forEachP f xs) (\<lambda>ys. returnP (y # ys)))"

section \<open>Transactions whose fate is uncertain\<close>

text \<open>
  The fate of a transaction whose body returned: it commits; it commits and the reply is lost; it is rolled back; or a statement
  of it fails before the body is over.
\<close>

datatype txOutcome = Commits | ReplyLost app_error | RollsBack app_error | Aborts app_error

text \<open>\<open>Promise.allSettled\<close> of one promise, and a transaction; what the body had computed survives in the error.\<close>

definition settleP :: "('e, 's, 'a) prog \<Rightarrow> (app_error, 's, 'e + 'a) prog" where
  "settleP m s = (case m s of (r, t) \<Rightarrow> (Inr r, t))"

definition transactionP :: "('s \<Rightarrow> txOutcome) \<Rightarrow> (app_error, 's, 'a) prog \<Rightarrow> ('a option \<times> app_error, 's, 'a) prog" where
  "transactionP outcome body s =
     (case body s of
        (Inl e, t) \<Rightarrow> (Inl (None, e), s)
      | (Inr x, t) \<Rightarrow>
          (case outcome t of
             Commits \<Rightarrow> (Inr x, t)
           | ReplyLost e \<Rightarrow> (Inl (Some x, e), t)
           | RollsBack e \<Rightarrow> (Inl (Some x, e), s)
           | Aborts e \<Rightarrow> (Inl (None, e), s)))"

definition catchP :: "('e, 's, 'a) prog \<Rightarrow> ('e \<Rightarrow> ('f, 's, 'a) prog) \<Rightarrow> ('f, 's, 'a) prog" where
  "catchP m h s = (case m s of (Inl e, t) \<Rightarrow> h e t | (Inr x, t) \<Rightarrow> (Inr x, t))"

section \<open>Invariants and outcomes of programs\<close>

text \<open>
  \<open>keeps I m\<close>: the program \<open>m\<close> keeps the invariant \<open>I\<close> of the state, also when it throws.
  \<open>yields P m Q\<close>: started in a state with \<open>P\<close>, every value \<open>m\<close> returns satisfies \<open>Q\<close>
  together with the final state.
\<close>

definition keeps :: "('s \<Rightarrow> bool) \<Rightarrow> ('e, 's, 'a) prog \<Rightarrow> bool" where
  "keeps I m \<longleftrightarrow> (\<forall>s. I s \<longrightarrow> I (snd (m s)))"

definition yields :: "('s \<Rightarrow> bool) \<Rightarrow> ('e, 's, 'a) prog \<Rightarrow> ('a \<Rightarrow> 's \<Rightarrow> bool) \<Rightarrow> bool" where
  "yields P m Q \<longleftrightarrow> (\<forall>s x s'. P s \<longrightarrow> m s = (Inr x, s') \<longrightarrow> Q x s')"

named_theorems prog_simps "running programs on a state"
named_theorems keeps_intros "introduction rules for keeps"

lemma run_returnP [prog_simps]: "returnP x s = (Inr x, s)"
  by (simp add: returnP_def)

lemma run_throwP [prog_simps]: "throwP e s = (Inl e, s)"
  by (simp add: throwP_def)

lemma run_bindP [prog_simps]:
  "m s = (Inl e, s') \<Longrightarrow> bindP m f s = (Inl e, s')"
  "m s = (Inr x, s') \<Longrightarrow> bindP m f s = f x s'"
  by (simp_all add: bindP_def)

lemma run_getsP [prog_simps]: "getsP f s = (Inr (f s), s)"
  by (simp add: getsP_def)

lemma run_modifyP [prog_simps]: "modifyP f s = (Inr (), f s)"
  by (simp add: modifyP_def)

lemmas prog_defs = returnP_def throwP_def bindP_def seqP_def getsP_def modifyP_def whenP_def
  assertP_def ofOptionP_def

lemma keepsI: "(\<And>s. I s \<Longrightarrow> I (snd (m s))) \<Longrightarrow> keeps I m"
  by (simp add: keeps_def)

lemma keepsD: "keeps I m \<Longrightarrow> I s \<Longrightarrow> m s = (r, s') \<Longrightarrow> I s'"
  unfolding keeps_def by (metis snd_conv)

lemma keeps_returnP [keeps_intros]: "keeps I (returnP x)"
  by (simp add: keeps_def returnP_def)

lemma keeps_throwP [keeps_intros]: "keeps I (throwP e)"
  by (simp add: keeps_def throwP_def)

lemma keeps_getsP [keeps_intros]: "keeps I (getsP f)"
  by (simp add: keeps_def getsP_def)

lemma keeps_bindP [keeps_intros]:
  assumes "keeps I m" and "\<And>x. keeps I (f x)"
  shows "keeps I (bindP m f)"
proof (rule keepsI)
  fix s assume "I s"
  obtain r s' where m: "m s = (r, s')" by (cases "m s")
  with assms(1) \<open>I s\<close> have "I s'" by (blast dest: keepsD)
  with assms(2) m show "I (snd (bindP m f s))"
    by (cases r) (auto simp: bindP_def keeps_def)
qed

lemma keeps_seqP [keeps_intros]: "keeps I m \<Longrightarrow> keeps I n \<Longrightarrow> keeps I (seqP m n)"
  unfolding seqP_def by (rule keeps_bindP)

lemma keeps_modifyP: "(\<And>s. I s \<Longrightarrow> I (f s)) \<Longrightarrow> keeps I (modifyP f)"
  by (simp add: keeps_def modifyP_def)

lemma keeps_if [keeps_intros]:
  "(b \<Longrightarrow> keeps I m) \<Longrightarrow> (\<not> b \<Longrightarrow> keeps I n) \<Longrightarrow> keeps I (if b then m else n)"
  by simp

lemma keeps_whenP [keeps_intros]: "(b \<Longrightarrow> keeps I m) \<Longrightarrow> keeps I (whenP b m)"
  by (simp add: whenP_def keeps_returnP)

lemma keeps_assertP [keeps_intros]: "keeps I (assertP b e)"
  by (simp add: assertP_def keeps_returnP keeps_throwP)

lemma keeps_ofOptionP [keeps_intros]: "keeps I (ofOptionP e x)"
  by (simp add: ofOptionP_def keeps_returnP keeps_throwP split: option.split)

lemma keeps_case_option [keeps_intros]:
  "keeps I m \<Longrightarrow> (\<And>y. x = Some y \<Longrightarrow> keeps I (n y)) \<Longrightarrow> keeps I (case x of None \<Rightarrow> m | Some y \<Rightarrow> n y)"
  by (cases x) simp_all

lemma keeps_tryP [keeps_intros]:
  assumes "keeps I m" and "\<And>e. keeps I (h e)"
  shows "keeps I (tryP m h)"
proof (rule keepsI)
  fix s assume "I s"
  obtain r s' where m: "m s = (r, s')" by (cases "m s")
  with assms(1) \<open>I s\<close> have "I s'" by (blast dest: keepsD)
  with assms(2) m show "I (snd (tryP m h s))"
    by (cases r) (auto simp: tryP_def keeps_def)
qed

lemma keeps_atomicP [keeps_intros]: "keeps I m \<Longrightarrow> keeps I (atomicP m)"
  unfolding keeps_def atomicP_def by (auto split: prod.split sum.split dest: arg_cong [where f = snd])

lemma settleP_run: "m s = (q, u) \<Longrightarrow> settleP m s = (Inr q, u)"
  by (simp add: settleP_def)

lemma keeps_settleP [keeps_intros]: "keeps I m \<Longrightarrow> keeps I (settleP m)"
  by (auto simp: keeps_def settleP_def split: prod.split)

lemma keeps_catchP [keeps_intros]:
  assumes "keeps I m" and "\<And>e. keeps I (h e)"
  shows "keeps I (catchP m h)"
proof (rule keepsI)
  fix s assume "I s"
  obtain r s' where m: "m s = (r, s')" by (cases "m s")
  with assms(1) \<open>I s\<close> have "I s'" by (blast dest: keepsD)
  with assms(2) m show "I (snd (catchP m h s))"
    by (cases r) (auto simp: catchP_def keeps_def)
qed

text \<open>A transaction is undone or ends where its body returned.\<close>

lemma keeps_transactionP: "yields I body (\<lambda>_. I) \<Longrightarrow> keeps I (transactionP outcome body)"
  by (auto simp: keeps_def yields_def transactionP_def split: prod.split sum.split txOutcome.split)

lemma keeps_yields: "keeps I m \<Longrightarrow> yields I m (\<lambda>_. I)"
  unfolding yields_def keeps_def by (metis snd_conv)

lemma keeps_case_sum [keeps_intros]:
  "(\<And>e. x = Inl e \<Longrightarrow> keeps I (f e)) \<Longrightarrow> (\<And>y. x = Inr y \<Longrightarrow> keeps I (g y)) \<Longrightarrow> keeps I (case x of Inl e \<Rightarrow> f e | Inr y \<Rightarrow> g y)"
  by (cases x) simp_all

lemma keeps_case_prod [keeps_intros]: "(\<And>a b. x = (a, b) \<Longrightarrow> keeps I (f a b)) \<Longrightarrow> keeps I (case x of (a, b) \<Rightarrow> f a b)"
  by (cases x) simp_all

lemma keeps_forEachP [keeps_intros]: "(\<And>x. keeps I (f x)) \<Longrightarrow> keeps I (forEachP f xs)"
  by (induction xs) (auto intro!: keeps_intros)

lemma keeps_forEachP_set: "(\<And>x. x \<in> set xs \<Longrightarrow> keeps I (f x)) \<Longrightarrow> keeps I (forEachP f xs)"
  by (induction xs) (auto intro!: keeps_intros)

lemma yieldsI: "(\<And>s x s'. P s \<Longrightarrow> m s = (Inr x, s') \<Longrightarrow> Q x s') \<Longrightarrow> yields P m Q"
  by (simp add: yields_def)

lemma yieldsD: "yields P m Q \<Longrightarrow> P s \<Longrightarrow> m s = (Inr x, s') \<Longrightarrow> Q x s'"
  by (simp add: yields_def)

lemma bindP_Inr:
  "bindP m f s = (Inr y, t) \<longleftrightarrow> (\<exists>x s'. m s = (Inr x, s') \<and> f x s' = (Inr y, t))"
  by (auto simp: bindP_def split: prod.split sum.split)

lemma seqP_Inr:
  "seqP m n s = (Inr y, t) \<longleftrightarrow> (\<exists>x s'. m s = (Inr x, s') \<and> n s' = (Inr y, t))"
  by (simp add: seqP_def bindP_Inr)

lemma bindP_Inl:
  "bindP m f s = (Inl e, t) \<longleftrightarrow> m s = (Inl e, t) \<or> (\<exists>x s'. m s = (Inr x, s') \<and> f x s' = (Inl e, t))"
  by (auto simp: bindP_def split: prod.split sum.split)

lemma tryP_Inl: "tryP m h s = (Inl e, t) \<longleftrightarrow> (\<exists>e' s'. m s = (Inl e', s') \<and> h e' s' = (Inl e, t))"
  by (auto simp: tryP_def split: prod.split sum.split)

lemma atomicP_Inr: "atomicP m s = (Inr y, t) \<longleftrightarrow> m s = (Inr y, t)"
  by (auto simp: atomicP_def split: prod.split sum.split)

lemma atomicP_Inl: "atomicP m s = (Inl e, t) \<Longrightarrow> t = s"
  by (auto simp: atomicP_def split: prod.splits sum.splits)

lemma assertP_Inr [simp]: "assertP b e s = (Inr y, t) \<longleftrightarrow> b \<and> t = s"
  by (auto simp: assertP_def returnP_def throwP_def)

lemma returnP_Inr [simp]: "returnP x s = (Inr y, t) \<longleftrightarrow> y = x \<and> t = s"
  by (auto simp: returnP_def)

lemma throwP_Inr [simp]: "throwP e s \<noteq> (Inr y, t)"
  by (simp add: throwP_def)

lemma getsP_Inr [simp]: "getsP f s = (Inr y, t) \<longleftrightarrow> y = f s \<and> t = s"
  by (auto simp: getsP_def)

lemma modifyP_Inr [simp]: "modifyP f s = (Inr y, t) \<longleftrightarrow> t = f s"
  by (auto simp: modifyP_def)

lemma ofOptionP_Inr [simp]: "ofOptionP e x s = (Inr y, t) \<longleftrightarrow> x = Some y \<and> t = s"
  by (auto simp: ofOptionP_def returnP_def throwP_def split: option.split)

lemma tryP_Inr:
  "tryP m h s = (Inr y, t) \<longleftrightarrow> m s = (Inr y, t) \<or> (\<exists>e s'. m s = (Inl e, s') \<and> h e s' = (Inr y, t))"
  by (auto simp: tryP_def split: prod.split sum.split)

lemma whenP_Inr: "whenP b m s = (Inr y, t) \<longleftrightarrow> (if b then m s = (Inr (), t) else t = s)"
  by (auto simp: whenP_def)

lemma run_seq_modify: "seqP (modifyP f) n s = n (f s)"
  by (simp add: seqP_def bindP_def modifyP_def)

lemma seqP_assoc: "seqP a (seqP b c) = seqP (seqP a b) c"
  by (simp add: seqP_def bindP_def fun_eq_iff split: prod.split sum.split)

section \<open>Tables\<close>

text \<open>
  A table is the list of its rows in insertion order.  \<open>findFirst\<close>, \<open>findMany\<close> and
  \<open>updateMany\<close> are the client operations of the same name with the \<open>where\<close> clause as a
  predicate; \<open>countWhere\<close> is the \<open>count\<close> that \<open>updateMany\<close> reports.
\<close>

abbreviation findFirst :: "('r \<Rightarrow> bool) \<Rightarrow> 'r list \<Rightarrow> 'r option" where
  "findFirst P t \<equiv> List.find P t"

definition updateMany :: "('r \<Rightarrow> bool) \<Rightarrow> ('r \<Rightarrow> 'r) \<Rightarrow> 'r list \<Rightarrow> 'r list" where
  "updateMany P f t = map (\<lambda>r. if P r then f r else r) t"

definition countWhere :: "('r \<Rightarrow> bool) \<Rightarrow> 'r list \<Rightarrow> nat" where
  "countWhere P t = length (filter P t)"

lemma set_updateMany: "set (updateMany P f t) = {if P r then f r else r |r. r \<in> set t}"
  by (auto simp: updateMany_def)

lemma in_updateMany:
  "r' \<in> set (updateMany P f t) \<longleftrightarrow> (\<exists>r \<in> set t. r' = (if P r then f r else r))"
  by (auto simp: updateMany_def)

lemma map_key_updateMany: "(\<And>r. P r \<Longrightarrow> key (f r) = key r) \<Longrightarrow> map key (updateMany P f t) = map key t"
  by (simp add: updateMany_def)

lemma updateMany_id: "(\<And>r. r \<in> set t \<Longrightarrow> \<not> P r) \<Longrightarrow> updateMany P f t = t"
  by (simp add: updateMany_def map_idI)

lemma length_updateMany [simp]: "length (updateMany P f t) = length t"
  by (simp add: updateMany_def)

lemma countWhere_pos: "0 < countWhere P t \<longleftrightarrow> (\<exists>r \<in> set t. P r)"
  by (auto simp: countWhere_def filter_empty_conv length_greater_0_conv[symmetric] simp del: length_greater_0_conv)

lemma find_Some_iff_mem: "List.find P t = Some r \<Longrightarrow> r \<in> set t \<and> P r"
  by (induction t) (auto split: if_splits)

lemma distinct_key_unique:
  "distinct (map key t) \<Longrightarrow> r \<in> set t \<Longrightarrow> r' \<in> set t \<Longrightarrow> key r = key r' \<Longrightarrow> r = r'"
  by (simp add: distinct_map inj_on_def)

lemma countWhere_key:
  assumes "distinct (map key t)" and "r \<in> set t" and "P r" and "\<And>r'. P r' \<Longrightarrow> key r' = key r"
  shows "countWhere P t = 1"
proof -
  have "set (filter P t) = {r}"
    using assms by (auto dest: distinct_key_unique)
  moreover have "distinct (filter P t)"
    using assms(1) by (simp add: distinct_map)
  ultimately show ?thesis
    unfolding countWhere_def using distinct_card [of "filter P t"] by simp
qed

lemma find_by_key:
  assumes "distinct (map key t)" and "r \<in> set t" and "P r" and "\<And>r'. P r' \<Longrightarrow> key r' = key r"
  shows "List.find P t = Some r"
proof -
  obtain r' where "List.find P t = Some r'"
    using assms(2,3) by (cases "List.find P t") (auto simp: find_None_iff)
  with assms show ?thesis
    by (metis distinct_key_unique find_Some_iff_mem)
qed

lemma ex_updateMany: "(\<exists>r \<in> set (updateMany P f t). Q r) \<longleftrightarrow> (\<exists>r \<in> set t. Q (if P r then f r else r))"
  by (auto simp: updateMany_def)

lemma set_updateMany_key:
  assumes "distinct (map key t)" and "x \<in> set t"
  shows "set (updateMany (\<lambda>r. key r = key x) f t) = insert (f x) (set t - {r. key r = key x})"
proof -
  have "r = x" if "r \<in> set t" "key r = key x" for r
    using assms that by (blast dest: distinct_key_unique)
  then show ?thesis
    using assms(2) by (fastforce simp: updateMany_def)
qed

lemma filter_updateMany: "(\<And>r. P r \<Longrightarrow> \<not> Q r \<and> \<not> Q (f r)) \<Longrightarrow> filter Q (updateMany P f rows) = filter Q rows"
  by (induction rows) (auto simp: updateMany_def)

lemma set_updateMany_only:
  assumes "x \<in> set rows" and "P x" and "\<And>v. v \<in> set rows \<Longrightarrow> P v \<Longrightarrow> v = x"
  shows "set (updateMany P f rows) = insert (f x) (set rows - {x})"
proof -
  have "(if P v then f v else v) = (if v = x then f x else v)" if "v \<in> set rows" for v
  proof (cases "P v")
    case True
    then show ?thesis using assms(3) [OF that True] by simp
  next
    case False
    with assms(2) show ?thesis by (cases "v = x") simp_all
  qed
  then have "set (updateMany P f rows) = (\<lambda>v. if v = x then f x else v) ` set rows"
    unfolding updateMany_def set_map by (rule image_cong [OF refl])
  also have "\<dots> = insert (f x) (set rows - {x})"
    using assms(1) by (auto simp: image_iff)
  finally show ?thesis .
qed

lemma ball_updateMany: "(\<forall>r \<in> set (updateMany P f rows). Q r) \<longleftrightarrow> (\<forall>r \<in> set rows. if P r then Q (f r) else Q r)"
  by (auto simp: updateMany_def)

lemma mem_updateMany: "r \<in> set rows \<Longrightarrow> \<not> P r \<Longrightarrow> r \<in> set (updateMany P f rows)"
  by (force simp: updateMany_def)

end
