(* ===== verification/Js_Number.thy ===== *)
theory Js_Number
  imports Fleetum_Prelude "HOL-Library.Log_Nat"
begin

text \<open>
  The numbers of the source are IEEE 754 binary64 values.  A finite number is modelled by
  its exact value, a rational; every arithmetic operation computes the exact result and
  rounds it with \<open>fl\<close>, round to nearest with ties to even on 53 significant bits.  The
  exponent is not bounded: amounts, kilometres, hours and milliseconds stay far inside the
  range of binary64, so overflow to infinity and subnormal rounding are left out, and so is
  the sign of zero.  The locale \<open>rounding\<close> states what the pricing proofs use of the
  rounding; \<open>b64\<close> interprets it on \<open>fl\<close>.
\<close>

section \<open>Rounding to binary64\<close>

type_synonym number = rat

text \<open>Nearest integer, ties to even.\<close>

definition rne :: "rat \<Rightarrow> int" where
  "rne x = (let f = \<lfloor>x\<rfloor>; d = x - of_int f in
     if d < 1 / 2 then f else if 1 / 2 < d then f + 1 else if even f then f else f + 1)"

text \<open>The exponent of the leading bit of a positive number.\<close>

definition binexp :: "rat \<Rightarrow> int" where
  "binexp x = (let (n, d) = quotient_of x;
                   k = bitlen n - bitlen d
               in if 2 powi k \<le> x then k else k - 1)"

definition fl :: "rat \<Rightarrow> rat" where
  "fl x = (if x = 0 then 0
     else let u = 2 powi (binexp \<bar>x\<bar> - 52) in sgn x * (of_int (rne (\<bar>x\<bar> / u)) * u))"

section \<open>The operators and the functions of the language\<close>

definition jadd :: "number \<Rightarrow> number \<Rightarrow> number" where "jadd a b = fl (a + b)"
definition jsub :: "number \<Rightarrow> number \<Rightarrow> number" where "jsub a b = fl (a - b)"
definition jmul :: "number \<Rightarrow> number \<Rightarrow> number" where "jmul a b = fl (a * b)"
definition jdiv :: "number \<Rightarrow> number \<Rightarrow> number" where "jdiv a b = fl (a / b)"

text \<open>\<open>Math.round\<close> rounds to the nearest integer, ties towards plus infinity.\<close>

definition jround :: "number \<Rightarrow> int" where "jround x = \<lfloor>x + 1 / 2\<rfloor>"

definition EPSILON :: number where "EPSILON = 2 powi (- 52)"

text \<open>
  \<open>Number(n.toFixed(2))\<close> for a non-negative \<open>n\<close> below \<open>10^21\<close>: the nearest hundredth of the
  exact value, the larger one on a tie, read back as a number.
\<close>

definition toFixed2 :: "number \<Rightarrow> number" where
  "toFixed2 n = fl (of_int \<lfloor>n * 100 + 1 / 2\<rfloor> / 100)"

section \<open>The interface of a rounding\<close>

locale rounding =
  fixes rnd :: "rat \<Rightarrow> rat"
  assumes rnd_mono: "x \<le> y \<Longrightarrow> rnd x \<le> rnd y"
    and rnd_int: "\<bar>m\<bar> \<le> 2 ^ 53 \<Longrightarrow> rnd (of_int m) = of_int m"
    and rnd_error: "\<bar>rnd x - x\<bar> \<le> \<bar>x\<bar> / 2 ^ 53"
    and rnd_idem: "rnd (rnd x) = rnd x"
begin

lemma rnd_0: "rnd 0 = 0"
  using rnd_int [of 0] by simp

lemma rnd_1: "rnd 1 = 1"
  using rnd_int [of 1] by simp

lemma rnd_nonneg: "0 \<le> x \<Longrightarrow> 0 \<le> rnd x"
  using rnd_mono [of 0 x] by (simp add: rnd_0)

lemma rnd_ge_int: "\<bar>m\<bar> \<le> 2 ^ 53 \<Longrightarrow> of_int m \<le> x \<Longrightarrow> of_int m \<le> rnd x"
  using rnd_mono [of "of_int m" x] by (simp add: rnd_int)

lemma rnd_le_int: "\<bar>m\<bar> \<le> 2 ^ 53 \<Longrightarrow> x \<le> of_int m \<Longrightarrow> rnd x \<le> of_int m"
  using rnd_mono [of x "of_int m"] by (simp add: rnd_int)

lemma rnd_le_rounded: "x \<le> rnd y \<Longrightarrow> rnd x \<le> rnd y"
  using rnd_mono [of x "rnd y"] by (simp add: rnd_idem)

lemma rnd_upper: "0 \<le> x \<Longrightarrow> rnd x \<le> x * (1 + 1 / 2 ^ 53)"
  using abs_le_D1 [OF rnd_error [of x]] by (simp add: field_simps)

lemma rnd_lower: "0 \<le> x \<Longrightarrow> x * (1 - 1 / 2 ^ 53) \<le> rnd x"
  using abs_le_D2 [OF rnd_error [of x]] by (simp add: field_simps)

lemma rnd_pos: "0 < x \<Longrightarrow> 0 < rnd x"
proof -
  assume "0 < x"
  then have "0 < x * (1 - 1 / 2 ^ 53)" by simp
  also have "\<dots> \<le> rnd x" using \<open>0 < x\<close> by (intro rnd_lower) simp
  finally show ?thesis .
qed

end

section \<open>The rounding of binary64 meets the interface\<close>

lemma rne_mono: "x \<le> y \<Longrightarrow> rne x \<le> rne y"
proof -
  assume xy: "x \<le> y"
  then have f: "\<lfloor>x\<rfloor> \<le> \<lfloor>y\<rfloor>" by (rule floor_mono)
  have up: "rne x \<le> \<lfloor>x\<rfloor> + 1" and lo: "\<lfloor>y\<rfloor> \<le> rne y"
    by (auto simp: rne_def Let_def)
  show ?thesis
  proof (cases "\<lfloor>x\<rfloor> = \<lfloor>y\<rfloor>")
    case True
    with xy show ?thesis by (auto simp: rne_def Let_def)
  next
    case False
    with f up lo show ?thesis by simp
  qed
qed

lemma rne_of_int [simp]: "rne (of_int m) = m"
  by (simp add: rne_def Let_def)

lemma rne_error: "\<bar>of_int (rne x) - x\<bar> \<le> 1 / 2"
proof -
  have "of_int \<lfloor>x\<rfloor> \<le> x" and "x < of_int \<lfloor>x\<rfloor> + 1" by linarith+
  then show ?thesis by (auto simp: rne_def Let_def abs_le_iff)
qed

lemma floorlog2_powi:
  assumes "0 < n"
  shows "2 powi (int (floorlog 2 n) - 1) \<le> (of_nat n :: rat)"
    and "(of_nat n :: rat) < 2 powi (int (floorlog 2 n))"
proof -
  let ?b = "floorlog 2 n"
  have b: "0 < ?b" using assms by (simp add: floorlog_def)
  have "2 ^ (?b - 1) \<le> n \<and> n < 2 ^ ?b"
    using floorlog_bounds [of n 2] assms by simp
  then have lo: "(2::rat) ^ (?b - 1) \<le> of_nat n" and hi: "of_nat n < (2::rat) ^ ?b"
    by (metis of_nat_le_iff of_nat_numeral of_nat_power)
       (metis \<open>2 ^ (?b - 1) \<le> n \<and> n < 2 ^ ?b\<close> of_nat_less_iff of_nat_numeral of_nat_power)
  have "int ?b - 1 = int (?b - 1)" using b by simp
  with lo show "2 powi (int ?b - 1) \<le> (of_nat n :: rat)" by (simp only: power_int_of_nat)
  from hi show "(of_nat n :: rat) < 2 powi (int ?b)" by simp
qed

lemma binexp_bounds:
  assumes "0 < x"
  shows "2 powi (binexp x) \<le> x" and "x < 2 powi (binexp x + 1)"
proof -
  obtain n d where q: "quotient_of x = (n, d)" by (cases "quotient_of x")
  then have d: "0 < d" by (rule quotient_of_denom_pos)
  from q have x: "x = of_int n / of_int d" by (rule quotient_of_div)
  with assms d have n: "0 < n" by (simp add: zero_less_divide_iff)
  define a b where "a = floorlog 2 (nat n)" and "b = floorlog 2 (nat d)"
  have nn: "of_nat (nat n) = (of_int n :: rat)" and dd: "of_nat (nat d) = (of_int d :: rat)"
    using n d by simp_all
  have A: "2 powi (int a - 1) \<le> (of_int n :: rat)" "(of_int n :: rat) < 2 powi (int a)"
    using floorlog2_powi [of "nat n"] n by (simp_all add: a_def nn)
  have B: "2 powi (int b - 1) \<le> (of_int d :: rat)" "(of_int d :: rat) < 2 powi (int b)"
    using floorlog2_powi [of "nat d"] d by (simp_all add: b_def dd)
  have "x < 2 powi (int a) / 2 powi (int b - 1)"
    unfolding x using A B n d by (intro frac_less) (auto simp: zero_less_power_int)
  also have "\<dots> = 2 powi (int a - int b + 1)"
    by (simp add: power_int_diff power_int_add field_simps)
  finally have up: "x < 2 powi (int a - int b + 1)" .
  have "2 powi (int a - int b - 1) = 2 powi (int a - 1) / (2 powi (int b) :: rat)"
    by (simp add: power_int_diff power_int_add field_simps)
  also have "\<dots> < x"
    unfolding x using A B n d by (intro frac_less2) auto
  finally have lo: "2 powi (int a - int b - 1) < x" .
  have e: "binexp x = (if 2 powi (int a - int b) \<le> x then int a - int b else int a - int b - 1)"
    by (simp add: binexp_def q a_def b_def bitlen_def Let_def)
  show "2 powi (binexp x) \<le> x" and "x < 2 powi (binexp x + 1)"
    using up lo by (auto simp: e)
qed

lemma powi_mono2: "i \<le> j \<Longrightarrow> (2::rat) powi i \<le> 2 powi j"
  by (rule power_int_increasing) simp_all

lemma powi_less_iff2: "(2::rat) powi i < 2 powi j \<longleftrightarrow> i < j"
  by (meson linorder_not_less one_less_numeral_iff power_int_strict_increasing powi_mono2 semiring_norm(76))

lemma binexp_eqI:
  assumes "2 powi e \<le> x" and "x < 2 powi (e + 1)"
  shows "binexp x = e"
proof -
  have x: "0 < x" using assms(1) by (rule less_le_trans [rotated]) simp
  have "(2::rat) powi (binexp x) < 2 powi (e + 1)" "(2::rat) powi e < 2 powi (binexp x + 1)"
    using binexp_bounds [OF x] assms by linarith+
  then show ?thesis by (simp add: powi_less_iff2)
qed

lemma binexp_mono: "0 < x \<Longrightarrow> x \<le> y \<Longrightarrow> binexp x \<le> binexp y"
proof -
  assume "0 < x" "x \<le> y"
  then have "(2::rat) powi (binexp x) < 2 powi (binexp y + 1)"
    using binexp_bounds [of x] binexp_bounds [of y] by linarith
  then show ?thesis by (simp add: powi_less_iff2)
qed

lemma fl_pos: "0 < x \<Longrightarrow> fl x = of_int (rne (x / 2 powi (binexp x - 52))) * 2 powi (binexp x - 52)"
  by (simp add: fl_def Let_def)

lemma fl_minus: "fl (- x) = - fl x"
  by (simp add: fl_def Let_def sgn_minus)

lemma powi_split: "(2::rat) powi e = 2 ^ 52 * 2 powi (e - 52)"
proof -
  have "(2::rat) powi e = 2 powi (52 + (e - 52))" by simp
  also have "\<dots> = 2 powi 52 * 2 powi (e - 52)" by (rule power_int_add) simp
  finally show ?thesis by simp
qed

lemma fl_binade:
  assumes "0 < x"
  shows "2 powi (binexp x) \<le> fl x" and "fl x \<le> 2 powi (binexp x + 1)"
proof -
  let ?u = "2 powi (binexp x - 52) :: rat"
  have u: "0 < ?u" by simp
  have top: "2 powi (binexp x + 1) = 2 ^ 53 * ?u"
    using powi_split [of "binexp x"] by (simp add: power_int_add)
  have "of_int (2 ^ 52) \<le> x / ?u"
    using binexp_bounds(1) [OF assms] u by (simp add: powi_split [of "binexp x"] field_simps)
  from rne_mono [OF this] have "2 ^ 52 \<le> rne (x / ?u)" by (simp only: rne_of_int)
  then have "(2 ^ 52 :: rat) \<le> of_int (rne (x / ?u))" by (metis of_int_le_iff of_int_numeral of_int_power)
  with u show "2 powi (binexp x) \<le> fl x"
    unfolding fl_pos [OF assms] powi_split [of "binexp x"] by (intro mult_right_mono) simp_all
  have "x < 2 ^ 53 * ?u"
    using binexp_bounds(2) [OF assms] unfolding top .
  then have "x / ?u \<le> of_int (2 ^ 53)"
    using u by (simp add: pos_divide_le_eq)
  from rne_mono [OF this] have "rne (x / ?u) \<le> 2 ^ 53" by (simp only: rne_of_int)
  then have "of_int (rne (x / ?u)) \<le> (2 ^ 53 :: rat)" by (metis of_int_le_iff of_int_numeral of_int_power)
  with u show "fl x \<le> 2 powi (binexp x + 1)"
    unfolding fl_pos [OF assms] top by (intro mult_right_mono) simp_all
qed

lemma fl_mono_pos: "0 < x \<Longrightarrow> x \<le> y \<Longrightarrow> fl x \<le> fl y"
proof -
  assume x: "0 < x" and xy: "x \<le> y"
  then have y: "0 < y" by simp
  show ?thesis
  proof (cases "binexp x = binexp y")
    case True
    have "rne (x / 2 powi (binexp x - 52)) \<le> rne (y / 2 powi (binexp x - 52))"
      using xy by (intro rne_mono divide_right_mono) simp_all
    then show ?thesis by (simp add: fl_pos x y True)
  next
    case False
    with binexp_mono [OF x xy] have "(2::rat) powi (binexp x + 1) \<le> 2 powi (binexp y)"
      by (intro powi_mono2) simp
    with fl_binade(2) [OF x] fl_binade(1) [OF y] show ?thesis by linarith
  qed
qed

lemma fl_0 [simp]: "fl 0 = 0"
  by (simp add: fl_def)

lemma fl_nonneg: "0 \<le> x \<Longrightarrow> 0 \<le> fl x"
proof (cases "x = 0")
  case False
  assume "0 \<le> x"
  with False have "0 < x" by simp
  with fl_binade(1) show ?thesis by (meson less_imp_le less_le_trans zero_less_numeral zero_less_power_int)
qed simp

lemma fl_mono: "x \<le> y \<Longrightarrow> fl x \<le> fl y"
proof -
  assume xy: "x \<le> y"
  consider "0 < x" | "x \<le> 0" "0 \<le> y" | "y < 0" by linarith
  then show ?thesis
  proof cases
    case 1
    then show ?thesis using xy by (rule fl_mono_pos)
  next
    case 2
    then have "0 \<le> fl (- x)" "0 \<le> fl y" by (simp_all add: fl_nonneg)
    then show ?thesis by (simp add: fl_minus)
  next
    case 3
    then have "fl (- y) \<le> fl (- x)" using xy by (intro fl_mono_pos) simp_all
    then show ?thesis by (simp add: fl_minus)
  qed
qed

lemma fl_error_pos: "0 < x \<Longrightarrow> \<bar>fl x - x\<bar> \<le> x / 2 ^ 53"
proof -
  assume x: "0 < x"
  let ?u = "2 powi (binexp x - 52) :: rat"
  have u: "0 < ?u" by simp
  have "fl x - x = (of_int (rne (x / ?u)) - x / ?u) * ?u"
    using u by (simp add: fl_pos [OF x] left_diff_distrib)
  then have "\<bar>fl x - x\<bar> = \<bar>of_int (rne (x / ?u)) - x / ?u\<bar> * ?u"
    using u by (simp add: abs_mult)
  also have "\<dots> \<le> 1 / 2 * ?u"
    using rne_error u by (intro mult_right_mono) simp_all
  also have "\<dots> = 2 powi (binexp x) / 2 ^ 53"
    by (simp add: powi_split [of "binexp x"])
  also have "\<dots> \<le> x / 2 ^ 53"
    using binexp_bounds(1) [OF x] by (intro divide_right_mono) simp_all
  finally show ?thesis .
qed

lemma fl_error: "\<bar>fl x - x\<bar> \<le> \<bar>x\<bar> / 2 ^ 53"
proof -
  consider "0 < x" | "x = 0" | "0 < - x" by linarith
  then show ?thesis
    using fl_error_pos [of x] fl_error_pos [of "- x"] by cases (simp_all add: fl_minus abs_minus_commute)
qed

lemma fl_exact_pos:
  assumes m: "0 < m" "m < 2 ^ 53"
  shows "fl (of_int m * 2 powi k) = of_int m * 2 powi k"
proof -
  let ?x = "of_int m * 2 powi k :: rat"
  have x: "0 < ?x" using m by simp
  have "of_int m < (2 ^ 53 :: rat)" using m(2) by (metis of_int_less_iff of_int_numeral of_int_power)
  then have "?x < 2 ^ 53 * 2 powi k" by simp
  also have "\<dots> = 2 powi (53 + k)" by (simp add: power_int_add)
  finally have "(2::rat) powi (binexp ?x) < 2 powi (53 + k)"
    using binexp_bounds(1) [OF x] by linarith
  then have e: "0 \<le> k - (binexp ?x - 52)" by (simp add: powi_less_iff2)
  define j where "j = nat (k - (binexp ?x - 52))"
  have "?x / 2 powi (binexp ?x - 52) = of_int m * (2 powi k / 2 powi (binexp ?x - 52))" by simp
  also have "\<dots> = of_int m * 2 powi (k - (binexp ?x - 52))" by (simp add: power_int_diff)
  also have "\<dots> = of_int (m * 2 ^ j)" using e by (simp add: j_def power_int_def)
  finally have q: "?x / 2 powi (binexp ?x - 52) = of_int (m * 2 ^ j)" .
  have "fl ?x = of_int (m * 2 ^ j) * 2 powi (binexp ?x - 52)"
    by (simp only: fl_pos [OF x] q rne_of_int)
  also have "\<dots> = ?x" by (simp only: q [symmetric]) simp
  finally show ?thesis .
qed

lemma fl_exact:
  assumes "\<bar>m\<bar> \<le> 2 ^ 53"
  shows "fl (of_int m * 2 powi k) = of_int m * 2 powi k"
proof -
  have *: "fl (of_int n * 2 powi k) = of_int n * 2 powi k" if "0 < n" "n \<le> 2 ^ 53" for n :: int
  proof (cases "n = 2 ^ 53")
    case True
    then have "of_int n * (2::rat) powi k = of_int 1 * 2 powi (53 + k)"
      by (simp add: power_int_add)
    moreover have "fl (of_int 1 * 2 powi (53 + k)) = of_int 1 * 2 powi (53 + k)"
      by (rule fl_exact_pos) simp_all
    ultimately show ?thesis by (simp only:)
  next
    case False
    with that show ?thesis by (intro fl_exact_pos) simp_all
  qed
  consider "0 < m" | "m = 0" | "0 < - m" by linarith
  then show ?thesis
    using assms * [of m] * [of "- m"] by cases (simp_all add: fl_minus)
qed

lemma fl_of_int: "\<bar>m\<bar> \<le> 2 ^ 53 \<Longrightarrow> fl (of_int m) = of_int m"
  using fl_exact [of m 0] by simp

lemma fl_idem: "fl (fl x) = fl x"
proof -
  have *: "fl (fl y) = fl y" if y: "0 < y" for y
  proof -
    let ?u = "2 powi (binexp y - 52) :: rat" and ?m = "rne (y / 2 powi (binexp y - 52))"
    have u: "0 < ?u" by simp
    have "of_int ?m * ?u \<le> 2 ^ 53 * ?u"
      using fl_binade(2) [OF y] powi_split [of "binexp y"] by (simp add: fl_pos y power_int_add)
    then have "of_int ?m \<le> (of_int (2 ^ 53) :: rat)" using u by simp
    then have "?m \<le> 2 ^ 53" by (simp only: of_int_le_iff)
    moreover have "0 \<le> ?m"
      using rne_mono [of "of_int 0" "y / ?u"] y u unfolding rne_of_int by simp
    ultimately have "\<bar>?m\<bar> \<le> 2 ^ 53" by simp
    then show ?thesis unfolding fl_pos [OF y] by (rule fl_exact)
  qed
  consider "0 < x" | "x = 0" | "0 < - x" by linarith
  then show ?thesis
    using * [of x] * [of "- x"] by cases (simp_all add: fl_minus)
qed

interpretation b64: rounding fl
  by unfold_locales (fact fl_mono fl_of_int fl_error fl_idem)+

section \<open>Facts on the operators\<close>

lemmas js_ops = jadd_def jsub_def jmul_def jdiv_def

lemma jadd_mono: "a \<le> c \<Longrightarrow> b \<le> d \<Longrightarrow> jadd a b \<le> jadd c d"
  by (simp add: jadd_def b64.rnd_mono)

lemma jsub_mono: "a \<le> c \<Longrightarrow> d \<le> b \<Longrightarrow> jsub a b \<le> jsub c d"
  by (simp add: jsub_def b64.rnd_mono)

lemma jmul_mono: "0 \<le> b \<Longrightarrow> 0 \<le> c \<Longrightarrow> a \<le> c \<Longrightarrow> b \<le> d \<Longrightarrow> jmul a b \<le> jmul c d"
  by (simp add: jmul_def b64.rnd_mono mult_mono)

lemma jdiv_mono: "0 < b \<Longrightarrow> a \<le> c \<Longrightarrow> jdiv a b \<le> jdiv c b"
  by (simp add: jdiv_def b64.rnd_mono divide_right_mono)

lemma jround_mono: "a \<le> b \<Longrightarrow> jround a \<le> jround b"
  by (simp add: jround_def floor_mono)

lemma jadd_nonneg: "0 \<le> a \<Longrightarrow> 0 \<le> b \<Longrightarrow> 0 \<le> jadd a b"
  by (simp add: jadd_def b64.rnd_nonneg)

lemma jmul_nonneg: "0 \<le> a \<Longrightarrow> 0 \<le> b \<Longrightarrow> 0 \<le> jmul a b"
  by (simp add: jmul_def b64.rnd_nonneg)

lemma jdiv_nonneg: "0 \<le> a \<Longrightarrow> 0 < b \<Longrightarrow> 0 \<le> jdiv a b"
  by (simp add: jdiv_def b64.rnd_nonneg)

lemma jmul_mono_left: "0 \<le> c \<Longrightarrow> a \<le> b \<Longrightarrow> jmul a c \<le> jmul b c"
  by (simp add: jmul_def b64.rnd_mono mult_right_mono)

lemma near_trans: "\<bar>a - b\<bar> \<le> e \<Longrightarrow> \<bar>b - c\<bar> \<le> f \<Longrightarrow> \<bar>a - c\<bar> \<le> e + (f :: rat)"
  by linarith

lemma near_bound: "\<bar>a - b\<bar> \<le> e \<Longrightarrow> \<bar>b\<bar> \<le> f \<Longrightarrow> \<bar>a\<bar> \<le> e + (f :: rat)"
  by linarith

lemma fl_near: "\<bar>x\<bar> \<le> b \<Longrightarrow> \<bar>fl x - x\<bar> \<le> b / 2 ^ 53"
  by (rule order_trans [OF b64.rnd_error]) (rule divide_right_mono, simp_all)

text \<open>Evaluation on whole numbers.\<close>

lemma fl_numeral: "numeral n \<le> (2 ^ 53 :: int) \<Longrightarrow> fl (numeral n) = numeral n"
  using fl_of_int [of "numeral n"] by simp

lemma jround_of_int: "jround (of_int m) = m"
  unfolding jround_def by (rule floor_unique) simp_all

lemma jround_numeral: "jround (numeral n) = numeral n"
  using jround_of_int [of "numeral n"] by simp

end
