(* ===== verification/Js_Value.thy ===== *)
theory Js_Value
  imports Js_Number
begin

text \<open>
  Values of the language that cross a boundary untyped: JSON documents (the \<open>metadata\<close> and
  \<open>details\<close> columns, the objects of the payment provider), strings with \<open>trim\<close>, \<open>toLowerCase\<close>
  and \<open>toUpperCase\<close> on the ASCII range, and the string enumerations of the database schema.
  A string is a list of characters of one code unit each; case conversion of letters outside
  ASCII is not modelled.  The locale \<open>enum_codec\<close> states what reading an enumeration back from
  its string relies on.
\<close>

section \<open>JSON documents\<close>

datatype json = JNull | JBool bool | JNum number | JStr string | JArr "json list" | JObj "(string \<times> json) list"

text \<open>Property access: \<open>None\<close> is \<open>undefined\<close>, the value of a missing property.\<close>

definition jprop :: "json \<Rightarrow> string \<Rightarrow> json option" where
  "jprop v k = (case v of JObj fs \<Rightarrow> map_of fs k | _ \<Rightarrow> None)"

fun isJObj :: "json option \<Rightarrow> bool" where
  "isJObj (Some (JObj fs)) = True"
| "isJObj _ = False"

fun jstring :: "json option \<Rightarrow> string option" where
  "jstring (Some (JStr s)) = Some s"
| "jstring _ = None"

fun jnumber :: "json option \<Rightarrow> number option" where
  "jnumber (Some (JNum n)) = Some n"
| "jnumber _ = None"

section \<open>Strings\<close>

definition isSpace :: "char \<Rightarrow> bool" where
  "isSpace c \<longleftrightarrow> (of_char c :: nat) \<in> {9, 10, 11, 12, 13, 32, 160}"

definition trim :: "string \<Rightarrow> string" where
  "trim s = rev (dropWhile isSpace (rev (dropWhile isSpace s)))"

definition toLowerChar :: "char \<Rightarrow> char" where
  "toLowerChar c = (let n = (of_char c :: nat) in if 65 \<le> n \<and> n \<le> 90 then char_of (n + 32) else c)"

definition toUpperChar :: "char \<Rightarrow> char" where
  "toUpperChar c = (let n = (of_char c :: nat) in if 97 \<le> n \<and> n \<le> 122 then char_of (n - 32) else c)"

definition toLowerCase :: "string \<Rightarrow> string" where
  "toLowerCase = map toLowerChar"

definition toUpperCase :: "string \<Rightarrow> string" where
  "toUpperCase = map toUpperChar"

text \<open>\<open>value ?? dflt\<close>.\<close>

abbreviation orElse :: "'a option \<Rightarrow> 'a \<Rightarrow> 'a" where
  "orElse x d \<equiv> (case x of None \<Rightarrow> d | Some y \<Rightarrow> y)"

text \<open>A string that is present and not empty.\<close>

definition truthy :: "string option \<Rightarrow> bool" where
  "truthy x \<longleftrightarrow> x \<noteq> None \<and> x \<noteq> Some ''''"

section \<open>Conversion to a number\<close>

definition isDigit :: "char \<Rightarrow> bool" where
  "isDigit c \<longleftrightarrow> 48 \<le> (of_char c :: nat) \<and> (of_char c :: nat) \<le> 57"

definition digitVal :: "char \<Rightarrow> nat" where
  "digitVal c = (let n = (of_char c :: nat) in
     if n \<le> 57 then n - 48 else if n \<le> 90 then n - 55 else n - 87)"

definition isHexDigit :: "char \<Rightarrow> bool" where
  "isHexDigit c \<longleftrightarrow> isDigit c \<or> (let n = (of_char c :: nat) in (65 \<le> n \<and> n \<le> 70) \<or> (97 \<le> n \<and> n \<le> 102))"

definition digitsVal :: "nat \<Rightarrow> string \<Rightarrow> nat" where
  "digitsVal base s = foldl (\<lambda>a c. a * base + digitVal c) 0 s"

text \<open>An optional exponent part; \<open>None\<close> when the text is not one.\<close>

definition exponentOf :: "string \<Rightarrow> int option" where
  "exponentOf s =
     (case s of [] \<Rightarrow> Some 0
      | c # t \<Rightarrow>
          if c \<noteq> CHR ''e'' \<and> c \<noteq> CHR ''E'' then None
          else let (sg, ds) = (case t of [] \<Rightarrow> (1, [])
                 | d # u \<Rightarrow> if d = CHR ''-'' then (- 1, u) else if d = CHR ''+'' then (1, u) else (1, t))
               in if ds \<noteq> [] \<and> list_all isDigit ds then Some (sg * int (digitsVal 10 ds)) else None)"

definition unsignedDecimal :: "string \<Rightarrow> number option" where
  "unsignedDecimal s =
     (let whole = takeWhile isDigit s; rest = dropWhile isDigit s;
          (frac, rest') = (case rest of [] \<Rightarrow> ([], [])
             | c # t \<Rightarrow> if c = CHR ''.'' then (takeWhile isDigit t, dropWhile isDigit t) else ([], rest))
      in if whole = [] \<and> frac = [] then None
         else case exponentOf rest' of None \<Rightarrow> None
              | Some e \<Rightarrow> Some (of_nat (digitsVal 10 (whole @ frac)) * 10 powi (e - int (length frac))))"

definition radixLiteral :: "nat \<Rightarrow> (char \<Rightarrow> bool) \<Rightarrow> string \<Rightarrow> number option" where
  "radixLiteral base ok ds = (if ds \<noteq> [] \<and> list_all ok ds then Some (of_nat (digitsVal base ds)) else None)"

text \<open>
  \<open>Number(text)\<close>: the blank text is 0, a decimal literal may carry a sign and an exponent, the
  radix prefixes take no sign.  \<open>None\<close> is a text that gives no finite number (\<open>NaN\<close>, \<open>Infinity\<close>).
\<close>

definition numberOfText :: "string \<Rightarrow> number option" where
  "numberOfText s =
     (let t = trim s in
      if t = [] then Some 0
      else map_option fl
        (case t of
           c # d # ds \<Rightarrow>
             if c = CHR ''0'' \<and> d \<in> {CHR ''x'', CHR ''X''} then radixLiteral 16 isHexDigit ds
             else if c = CHR ''0'' \<and> d \<in> {CHR ''o'', CHR ''O''} then radixLiteral 8 (\<lambda>e. isDigit e \<and> digitVal e < 8) ds
             else if c = CHR ''0'' \<and> d \<in> {CHR ''b'', CHR ''B''} then radixLiteral 2 (\<lambda>e. isDigit e \<and> digitVal e < 2) ds
             else if c = CHR ''-'' then map_option uminus (unsignedDecimal (d # ds))
             else if c = CHR ''+'' then unsignedDecimal (d # ds)
             else unsignedDecimal t
         | _ \<Rightarrow> unsignedDecimal t))"

text \<open>\<open>Number(value)\<close>; an array goes through its text, so only a singleton can be a number.\<close>

fun toNumber :: "json \<Rightarrow> number option" where
  "toNumber JNull = Some 0"
| "toNumber (JBool b) = Some (if b then 1 else 0)"
| "toNumber (JNum n) = Some n"
| "toNumber (JStr s) = numberOfText s"
| "toNumber (JArr []) = Some 0"
| "toNumber (JArr [JNull]) = Some 0"
| "toNumber (JArr [JBool b]) = None"
| "toNumber (JArr [v]) = toNumber v"
| "toNumber (JArr (v # w # vs)) = None"
| "toNumber (JObj fs) = None"

definition toNumberU :: "json option \<Rightarrow> number option" where
  "toNumberU v = (case v of None \<Rightarrow> None | Some x \<Rightarrow> toNumber x)"

section \<open>Dates\<close>

text \<open>
  An instant is a number of milliseconds since the epoch.  \<open>toISOString\<close> writes it in the
  proleptic Gregorian calendar; a year outside 0 to 9999 has six digits and a sign.
\<close>

type_synonym instant = int

fun decimalDigits :: "nat \<Rightarrow> nat \<Rightarrow> string" where
  "decimalDigits 0 n = []"
| "decimalDigits (Suc w) n = decimalDigits w (n div 10) @ [char_of (48 + n mod 10)]"

definition civilDate :: "int \<Rightarrow> int \<times> int \<times> int" where
  "civilDate days =
     (let z = days + 719468; era = z div 146097; doe = z mod 146097;
          yoe = (doe - doe div 1460 + doe div 36524 - doe div 146096) div 365;
          doy = doe - (365 * yoe + yoe div 4 - yoe div 100);
          mp = (5 * doy + 2) div 153;
          d = doy - (153 * mp + 2) div 5 + 1;
          m = (if mp < 10 then mp + 3 else mp - 9)
      in (yoe + era * 400 + (if m \<le> 2 then 1 else 0), m, d))"

definition toISOString :: "instant \<Rightarrow> string" where
  "toISOString t =
     (let (y, m, d) = civilDate (t div 86400000); ms = t mod 86400000;
          year = (if 0 \<le> y \<and> y \<le> 9999 then decimalDigits 4 (nat y)
                  else (if y < 0 then CHR ''-'' else CHR ''+'') # decimalDigits 6 (nat \<bar>y\<bar>))
      in year @ ''-'' @ decimalDigits 2 (nat m) @ ''-'' @ decimalDigits 2 (nat d) @ ''T''
         @ decimalDigits 2 (nat (ms div 3600000)) @ '':'' @ decimalDigits 2 (nat (ms div 60000 mod 60)) @ '':''
         @ decimalDigits 2 (nat (ms div 1000 mod 60)) @ ''.'' @ decimalDigits 3 (nat (ms mod 1000)) @ ''Z'')"

definition jnumOrNull :: "number option \<Rightarrow> json" where
  "jnumOrNull x = (case x of None \<Rightarrow> JNull | Some n \<Rightarrow> JNum n)"

definition jstrOrNull :: "string option \<Rightarrow> json" where
  "jstrOrNull x = (case x of None \<Rightarrow> JNull | Some s \<Rightarrow> JStr s)"

definition jisoOrNull :: "instant option \<Rightarrow> json" where
  "jisoOrNull x = (case x of None \<Rightarrow> JNull | Some t \<Rightarrow> JStr (toISOString t))"

section \<open>Enumerations stored as strings\<close>

definition enumOf :: "('e \<Rightarrow> string) \<Rightarrow> 'e list \<Rightarrow> json option \<Rightarrow> 'e option" where
  "enumOf nm vals v = (case jstring v of None \<Rightarrow> None | Some s \<Rightarrow> List.find (\<lambda>x. nm x = s) vals)"

locale enum_codec =
  fixes nm :: "'e \<Rightarrow> string" and vals :: "'e list"
  assumes nm_inj: "nm x = nm y \<Longrightarrow> x = y"
    and vals_all: "x \<in> set vals"
begin

lemma enumOf_nm: "enumOf nm vals (Some (JStr (nm x))) = Some x"
proof -
  obtain y where y: "List.find (\<lambda>y. nm y = nm x) vals = Some y"
    using vals_all [of x] by (cases "List.find (\<lambda>y. nm y = nm x) vals") (auto simp: find_None_iff)
  then have "y = x" by (auto dest: find_Some_iff_mem nm_inj)
  with y show ?thesis by (simp add: enumOf_def)
qed

lemma enumOf_Some: "enumOf nm vals v = Some x \<Longrightarrow> v = Some (JStr (nm x))"
  by (cases v rule: jstring.cases) (auto simp: enumOf_def dest: find_Some_iff_mem)

end

section \<open>Facts on strings\<close>

lemma toLowerChar_idem [simp]: "toLowerChar (toLowerChar c) = toLowerChar c"
  by (simp add: toLowerChar_def Let_def)

lemma toLowerCase_idem [simp]: "toLowerCase (toLowerCase s) = toLowerCase s"
  by (simp add: toLowerCase_def)

lemma toUpperChar_idem [simp]: "toUpperChar (toUpperChar c) = toUpperChar c"
proof (cases "97 \<le> (of_char c :: nat) \<and> (of_char c :: nat) \<le> 122")
  case True
  then have "((of_char c :: nat) - 32) mod 256 = of_char c - 32" by (intro mod_less) linarith
  with True show ?thesis by (auto simp: toUpperChar_def Let_def)
next
  case False
  then show ?thesis by (auto simp: toUpperChar_def Let_def)
qed

lemma toUpperCase_idem [simp]: "toUpperCase (toUpperCase s) = toUpperCase s"
  by (simp add: toUpperCase_def)

lemma trim_no_space:
  assumes "\<And>c. c \<in> set s \<Longrightarrow> \<not> isSpace c"
  shows "trim s = s"
proof -
  have "dropWhile isSpace t = t" if "set t = set s" for t
    using that assms [of "hd t"] by (cases t) (auto simp: dropWhile_eq_self_iff)
  then show ?thesis by (simp add: trim_def)
qed

lemma trim_eq_Nil: "trim s = [] \<longleftrightarrow> (\<forall>c \<in> set s. isSpace c)"
proof -
  have "trim s = [] \<longleftrightarrow> (\<forall>c \<in> set (dropWhile isSpace s). isSpace c)"
    by (simp add: trim_def)
  also have "\<dots> \<longleftrightarrow> dropWhile isSpace s = []"
    by (metis dropWhile_eq_Nil_conv dropWhile_idem)
  also have "\<dots> \<longleftrightarrow> (\<forall>c \<in> set s. isSpace c)" by simp
  finally show ?thesis .
qed

end
