(* ===== verification/Rental_Pricing.thy ===== *)
theory Rental_Pricing
  imports Js_Value "HOL-Library.Product_Lexorder"
begin

text \<open>
  The quote of a rental, \<^verbatim>\<open>backend/src/application/services/rental-pricing-service.ts\<close> and
  \<^verbatim>\<open>rental-pricing-operations.ts\<close>: charged days and units, included and extra kilometres,
  discount, tax and totals; the snapshot of the agreed terms written to the booking and its
  validated reading; the update of a booking's operational kilometres on the saved terms.
  Amounts, rates, hours and kilometres are numbers of the language (\<open>Js_Number\<close>); dates are
  milliseconds since the epoch; \<open>None\<close> is \<open>null\<close> or \<open>undefined\<close> for an optional number.
\<close>

section \<open>Data\<close>

datatype RentalBaseRateUnit = DAILY | WEEKLY | MONTHLY
datatype RentalKmPackageType = LIMITED | UNLIMITED
datatype RentalKmScope = PER_DAY | PER_RENTAL
datatype RentalExtraKmPolicyType = FLAT | TIERED
datatype RentalHourOverflowRule = NONE | HALF_DAY | FULL_DAY

record RentalExtraKmTierLike =
  fromKm :: number
  toKm :: "number option"
  ratePerKm :: number
  sortOrder :: "number option"

record RentalExtraKmPolicyLike =
  pol_id :: string
  pol_name :: string
  pol_type :: RentalExtraKmPolicyType
  flatRatePerKm :: "number option"
  tiers :: "RentalExtraKmTierLike list option"

record RentalPricePackageLike =
  pkg_id :: string
  pkg_name :: string
  pkg_type :: RentalKmPackageType
  kmIncluded :: "number option"
  kmScope :: RentalKmScope

record RentalPriceListLike =
  pl_id :: string
  pl_name :: string
  baseRateUnit :: RentalBaseRateUnit
  baseRateAmount :: number
  vatRate :: number
  discountPercent :: number
  hourOverflowRule :: RentalHourOverflowRule

record RentalPricingTerms =
  priceList :: RentalPriceListLike
  pricePackage :: "RentalPricePackageLike option"
  extraKmPolicy :: "RentalExtraKmPolicyLike option"

record RentalQuoteInput = RentalPricingTerms +
  pickupAt :: int
  returnAt :: int
  estimatedKm :: "number option"
  actualKm :: "number option"

record QuoteRef =
  q_priceListId :: string
  q_pricePackageId :: "string option"
  q_extraKmPolicyId :: "string option"
  q_priceListName :: string
  q_pricePackageName :: "string option"
  q_extraKmPolicyName :: "string option"

record QuoteDuration =
  q_totalHours :: number
  q_daysCharged :: number
  q_unit :: RentalBaseRateUnit
  q_chargedUnits :: number
  q_overflowRule :: RentalHourOverflowRule

record QuoteKm =
  q_packageType :: "RentalKmPackageType option"
  q_kmScope :: "RentalKmScope option"
  q_includedKmTotal :: "number option"
  q_estimatedKm :: "number option"
  q_actualKm :: "number option"
  q_extraKmEstimated :: number
  q_extraKmActual :: number

record QuotePricing =
  q_baseRateAmount :: number
  q_baseCost :: number
  q_discountPercent :: number
  q_discountedBaseCost :: number
  q_vatRate :: number
  q_extraKmPolicyType :: "RentalExtraKmPolicyType option"
  q_extraKmEstimatedCost :: number
  q_extraKmActualCost :: number
  q_expectedSubtotal :: number
  q_expectedTaxAmount :: number
  q_expectedTotal :: number
  q_finalSubtotal :: number
  q_finalTaxAmount :: number
  q_finalTotal :: number
  q_extraKmEffectiveRateEstimated :: "number option"
  q_extraKmEffectiveRateActual :: "number option"

record RentalQuoteResult =
  q_pricingRef :: QuoteRef
  q_duration :: QuoteDuration
  q_km :: QuoteKm
  q_pricing :: QuotePricing

section \<open>Rounding, clamping and validation helpers\<close>

definition round2 :: "number \<Rightarrow> number" where
  "round2 v = jdiv (of_int (jround (jmul (jadd v EPSILON) 100))) 100"

definition clampNumber :: "number \<Rightarrow> number \<Rightarrow> number \<Rightarrow> number" where
  "clampNumber v lo hi = min hi (max lo v)"

definition isNonEmptyString :: "json option \<Rightarrow> bool" where
  "isNonEmptyString v = (case jstring v of None \<Rightarrow> False | Some s \<Rightarrow> trim s \<noteq> [])"

definition isFiniteNumber :: "json option \<Rightarrow> bool" where
  "isFiniteNumber v = (jnumber v \<noteq> None)"

fun unitName :: "RentalBaseRateUnit \<Rightarrow> string" where
  "unitName DAILY = ''DAILY''" | "unitName WEEKLY = ''WEEKLY''" | "unitName MONTHLY = ''MONTHLY''"

fun overflowName :: "RentalHourOverflowRule \<Rightarrow> string" where
  "overflowName NONE = ''NONE''" | "overflowName HALF_DAY = ''HALF_DAY''" | "overflowName FULL_DAY = ''FULL_DAY''"

fun packageTypeName :: "RentalKmPackageType \<Rightarrow> string" where
  "packageTypeName LIMITED = ''LIMITED''" | "packageTypeName UNLIMITED = ''UNLIMITED''"

fun scopeName :: "RentalKmScope \<Rightarrow> string" where
  "scopeName PER_DAY = ''PER_DAY''" | "scopeName PER_RENTAL = ''PER_RENTAL''"

fun policyTypeName :: "RentalExtraKmPolicyType \<Rightarrow> string" where
  "policyTypeName FLAT = ''FLAT''" | "policyTypeName TIERED = ''TIERED''"

definition rentalBaseRateUnits :: "RentalBaseRateUnit list" where
  "rentalBaseRateUnits = [DAILY, WEEKLY, MONTHLY]"
definition rentalHourOverflowRules :: "RentalHourOverflowRule list" where
  "rentalHourOverflowRules = [NONE, HALF_DAY, FULL_DAY]"
definition rentalKmPackageTypes :: "RentalKmPackageType list" where
  "rentalKmPackageTypes = [LIMITED, UNLIMITED]"
definition rentalKmScopes :: "RentalKmScope list" where
  "rentalKmScopes = [PER_DAY, PER_RENTAL]"
definition rentalExtraKmPolicyTypes :: "RentalExtraKmPolicyType list" where
  "rentalExtraKmPolicyTypes = [FLAT, TIERED]"

section \<open>The snapshot of the agreed terms\<close>

text \<open>The stable sort by \<open>sortOrder ?? 0\<close>, then \<open>fromKm\<close>.\<close>

definition sortTiers :: "RentalExtraKmTierLike list \<Rightarrow> RentalExtraKmTierLike list" where
  "sortTiers ts = sort_key (\<lambda>t. (orElse (sortOrder t) 0, fromKm t)) ts"

definition buildRentalPricingTermsSnapshot :: "RentalPricingTerms \<Rightarrow> json" where
  "buildRentalPricingTermsSnapshot input = JObj
    [(''kind'', JStr ''fleetum.rental-pricing-terms''),
     (''version'', JNum 1),
     (''priceList'', let p = priceList input in JObj
        [(''id'', JStr (pl_id p)),
         (''name'', JStr (pl_name p)),
         (''baseRateUnit'', JStr (unitName (baseRateUnit p))),
         (''baseRateAmount'', JNum (baseRateAmount p)),
         (''vatRate'', JNum (vatRate p)),
         (''discountPercent'', JNum (discountPercent p)),
         (''hourOverflowRule'', JStr (overflowName (hourOverflowRule p)))]),
     (''pricePackage'', case pricePackage input of None \<Rightarrow> JNull | Some p \<Rightarrow> JObj
        [(''id'', JStr (pkg_id p)),
         (''name'', JStr (pkg_name p)),
         (''type'', JStr (packageTypeName (pkg_type p))),
         (''kmIncluded'', jnumOrNull (kmIncluded p)),
         (''kmScope'', JStr (scopeName (kmScope p)))]),
     (''extraKmPolicy'', case extraKmPolicy input of None \<Rightarrow> JNull | Some p \<Rightarrow> JObj
        [(''id'', JStr (pol_id p)),
         (''name'', JStr (pol_name p)),
         (''type'', JStr (policyTypeName (pol_type p))),
         (''flatRatePerKm'', jnumOrNull (flatRatePerKm p)),
         (''tiers'', JArr (map (\<lambda>t. JObj
            [(''fromKm'', JNum (fromKm t)),
             (''toKm'', jnumOrNull (toKm t)),
             (''ratePerKm'', JNum (ratePerKm t)),
             (''sortOrder'', JNum (orElse (sortOrder t) 0))])
           (sortTiers (orElse (tiers p) []))))])]"

definition jnullOrNumber :: "json option \<Rightarrow> number option option" where
  "jnullOrNumber v = (case v of Some JNull \<Rightarrow> Some None | _ \<Rightarrow> map_option Some (jnumber v))"

definition jnonEmpty :: "json option \<Rightarrow> string option" where
  "jnonEmpty v = (if isNonEmptyString v then jstring v else None)"

definition restorePriceList :: "json option \<Rightarrow> RentalPriceListLike option" where
  "restorePriceList v = (case v of Some (JObj fs) \<Rightarrow>
     (case (jnonEmpty (map_of fs ''id''), jnonEmpty (map_of fs ''name''),
            enumOf unitName rentalBaseRateUnits (map_of fs ''baseRateUnit''),
            jnumber (map_of fs ''baseRateAmount''), jnumber (map_of fs ''vatRate''),
            jnumber (map_of fs ''discountPercent''),
            enumOf overflowName rentalHourOverflowRules (map_of fs ''hourOverflowRule'')) of
        (Some i, Some n, Some u, Some b, Some vr, Some dp, Some h) \<Rightarrow>
          Some \<lparr>pl_id = i, pl_name = n, baseRateUnit = u, baseRateAmount = b, vatRate = vr,
                discountPercent = dp, hourOverflowRule = h\<rparr>
      | _ \<Rightarrow> None)
   | _ \<Rightarrow> None)"

definition restorePackage :: "json option \<Rightarrow> RentalPricePackageLike option option" where
  "restorePackage v = (case v of Some JNull \<Rightarrow> Some None | Some (JObj fs) \<Rightarrow>
     (case (jnonEmpty (map_of fs ''id''), jnonEmpty (map_of fs ''name''),
            enumOf packageTypeName rentalKmPackageTypes (map_of fs ''type''),
            jnullOrNumber (map_of fs ''kmIncluded''),
            enumOf scopeName rentalKmScopes (map_of fs ''kmScope'')) of
        (Some i, Some n, Some t, Some k, Some sc) \<Rightarrow>
          Some (Some \<lparr>pkg_id = i, pkg_name = n, pkg_type = t, kmIncluded = k, kmScope = sc\<rparr>)
      | _ \<Rightarrow> None)
   | _ \<Rightarrow> None)"

definition restoreTier :: "json \<Rightarrow> RentalExtraKmTierLike option" where
  "restoreTier v = (case v of JObj fs \<Rightarrow>
     (case (jnumber (map_of fs ''fromKm''), jnullOrNumber (map_of fs ''toKm''),
            jnumber (map_of fs ''ratePerKm''), jnumber (map_of fs ''sortOrder'')) of
        (Some f, Some t, Some r, Some so) \<Rightarrow>
          Some \<lparr>fromKm = f, toKm = t, ratePerKm = r, sortOrder = Some so\<rparr>
      | _ \<Rightarrow> None)
   | _ \<Rightarrow> None)"

fun restoreTiers :: "json list \<Rightarrow> RentalExtraKmTierLike list option" where
  "restoreTiers [] = Some []"
| "restoreTiers (v # vs) = (case restoreTier v of None \<Rightarrow> None
     | Some t \<Rightarrow> (case restoreTiers vs of None \<Rightarrow> None | Some ts \<Rightarrow> Some (t # ts)))"

definition restorePolicy :: "json option \<Rightarrow> RentalExtraKmPolicyLike option option" where
  "restorePolicy v = (case v of Some JNull \<Rightarrow> Some None | Some (JObj fs) \<Rightarrow>
     (case (jnonEmpty (map_of fs ''id''), jnonEmpty (map_of fs ''name''),
            enumOf policyTypeName rentalExtraKmPolicyTypes (map_of fs ''type''),
            jnullOrNumber (map_of fs ''flatRatePerKm''),
            map_of fs ''tiers'') of
        (Some i, Some n, Some t, Some r, Some (JArr vs)) \<Rightarrow>
          (case restoreTiers vs of None \<Rightarrow> None | Some ts \<Rightarrow>
            Some (Some \<lparr>pol_id = i, pol_name = n, pol_type = t, flatRatePerKm = r, tiers = Some ts\<rparr>))
      | _ \<Rightarrow> None)
   | _ \<Rightarrow> None)"

definition restoreRentalPricingTermsSnapshot :: "json \<Rightarrow> RentalPricingTerms option" where
  "restoreRentalPricingTermsSnapshot metadata =
    (if \<not> isJObj (Some metadata) then None
     else if jprop metadata ''kind'' \<noteq> Some (JStr ''fleetum.rental-pricing-terms'')
       \<or> jprop metadata ''version'' \<noteq> Some (JNum 1) then None
     else case restorePriceList (jprop metadata ''priceList'') of None \<Rightarrow> None | Some pl \<Rightarrow>
       (case restorePackage (jprop metadata ''pricePackage'') of None \<Rightarrow> None | Some pkg \<Rightarrow>
         (case restorePolicy (jprop metadata ''extraKmPolicy'') of None \<Rightarrow> None | Some pol \<Rightarrow>
           Some \<lparr>priceList = pl, pricePackage = pkg, extraKmPolicy = pol\<rparr>)))"

section \<open>The quote\<close>

text \<open>Every caller passes a number, \<open>null\<close> or \<open>undefined\<close>.\<close>

definition toSafeNonNegativeInt :: "number option \<Rightarrow> number option" where
  "toSafeNonNegativeInt v = (case v of None \<Rightarrow> None | Some n \<Rightarrow> Some (of_int (max 0 (jround n))))"

definition computeChargedDays :: "int \<Rightarrow> int \<Rightarrow> RentalHourOverflowRule \<Rightarrow> number \<times> number" where
  "computeChargedDays pickup ret overflowRule =
    (let diffMs = max 0 (ret - pickup);
         totalHours = jdiv (of_int diffMs) 3600000
     in if totalHours \<le> 0 then (0, 1)
        else let fullDays = \<lfloor>jdiv totalHours 24\<rfloor>;
                 remainderHours = jsub totalHours (jmul (of_int fullDays) 24);
                 chargedDays = (if fullDays > 0 then of_int fullDays else 1);
                 chargedDays = (if fullDays > 0 \<and> remainderHours > 0
                   then (case overflowRule of FULL_DAY \<Rightarrow> jadd chargedDays 1
                         | HALF_DAY \<Rightarrow> jadd chargedDays (1 / 2) | NONE \<Rightarrow> chargedDays)
                   else chargedDays)
             in (totalHours, max 1 chargedDays))"

definition toChargeUnits :: "number \<Rightarrow> RentalBaseRateUnit \<Rightarrow> number" where
  "toChargeUnits daysCharged unit = (case unit of
     WEEKLY \<Rightarrow> max 1 (of_int \<lceil>jdiv daysCharged 7\<rceil>)
   | MONTHLY \<Rightarrow> max 1 (of_int \<lceil>jdiv daysCharged 30\<rceil>)
   | DAILY \<Rightarrow> max 1 daysCharged)"

definition computeIncludedKm :: "RentalPricePackageLike option \<Rightarrow> number \<Rightarrow> number option" where
  "computeIncludedKm pkg daysCharged = (case pkg of None \<Rightarrow> Some 0 | Some p \<Rightarrow>
     if pkg_type p = UNLIMITED then None
     else let km = max 0 (orElse (kmIncluded p) 0) in
       if kmScope p = PER_RENTAL then Some km
       else Some (of_int (jround (jmul km (max 1 (of_int \<lceil>daysCharged\<rceil>))))))"

text \<open>One round of the loop over the tiers; \<open>toKm = None\<close> is an unbounded tier.\<close>

definition tierStep :: "number \<Rightarrow> number \<Rightarrow> RentalExtraKmTierLike \<Rightarrow> number" where
  "tierStep extraKm cost tier =
    (let start = max 1 (fromKm tier) in
     if extraKm < start then cost
     else let applicableTo = (case toKm tier of None \<Rightarrow> extraKm | Some t \<Rightarrow> min (max start t) extraKm);
              chunk = jadd (jsub applicableTo start) 1
          in if chunk > 0 then jadd cost (jmul chunk (max 0 (ratePerKm tier))) else cost)"

definition computeExtraKmCost :: "number \<Rightarrow> RentalExtraKmPolicyLike option \<Rightarrow> number \<times> number option" where
  "computeExtraKmCost extraKm policy =
    (if extraKm \<le> 0 then (0, None)
     else case policy of None \<Rightarrow> (0, None) | Some p \<Rightarrow>
       if pol_type p = FLAT then
         let rate = max 0 (orElse (flatRatePerKm p) 0) in (round2 (jmul extraKm rate), Some rate)
       else let ts = sortTiers (orElse (tiers p) []) in
         if ts = [] then (0, None)
         else let rounded = round2 (foldl (tierStep extraKm) 0 ts)
              in (rounded, if extraKm > 0 then Some (round2 (jdiv rounded extraKm)) else None))"

definition computeRentalQuote :: "RentalQuoteInput \<Rightarrow> RentalQuoteResult" where
  "computeRentalQuote input =
    (let pl = priceList input; pkg = pricePackage input; pol = extraKmPolicy input;
         (totalHours, daysCharged) = computeChargedDays (pickupAt input) (returnAt input) (hourOverflowRule pl);
         chargedUnits = toChargeUnits daysCharged (baseRateUnit pl);
         rate = max 0 (baseRateAmount pl);
         baseCost = round2 (jmul chargedUnits rate);
         discount = clampNumber (discountPercent pl) 0 100;
         discountedBaseCost = round2 (jmul baseCost (jsub 1 (jdiv discount 100)));
         vat = clampNumber (vatRate pl) 0 100;
         includedKmTotal = computeIncludedKm pkg daysCharged;
         estKm = toSafeNonNegativeInt (estimatedKm input);
         actKm = toSafeNonNegativeInt (actualKm input);
         extraKmEstimated = (case includedKmTotal of None \<Rightarrow> 0 | Some k \<Rightarrow> max 0 (jsub (orElse estKm 0) k));
         extraKmActual = (case includedKmTotal of None \<Rightarrow> 0 | Some k \<Rightarrow> max 0 (jsub (orElse actKm 0) k));
         estimatedExtra = computeExtraKmCost extraKmEstimated pol;
         actualExtra = computeExtraKmCost extraKmActual pol;
         expectedSubtotal = round2 (jadd discountedBaseCost (fst estimatedExtra));
         expectedTaxAmount = round2 (jdiv (jmul expectedSubtotal vat) 100);
         expectedTotal = round2 (jadd expectedSubtotal expectedTaxAmount);
         finalSubtotal = round2 (jadd discountedBaseCost (fst actualExtra));
         finalTaxAmount = round2 (jdiv (jmul finalSubtotal vat) 100);
         finalTotal = round2 (jadd finalSubtotal finalTaxAmount)
     in \<lparr>q_pricingRef = \<lparr>q_priceListId = pl_id pl, q_pricePackageId = map_option pkg_id pkg,
           q_extraKmPolicyId = map_option pol_id pol, q_priceListName = pl_name pl,
           q_pricePackageName = map_option pkg_name pkg, q_extraKmPolicyName = map_option pol_name pol\<rparr>,
         q_duration = \<lparr>q_totalHours = round2 totalHours, q_daysCharged = round2 daysCharged,
           q_unit = baseRateUnit pl, q_chargedUnits = round2 chargedUnits, q_overflowRule = hourOverflowRule pl\<rparr>,
         q_km = \<lparr>q_packageType = map_option pkg_type pkg, q_kmScope = map_option kmScope pkg,
           q_includedKmTotal = includedKmTotal, q_estimatedKm = estKm, q_actualKm = actKm,
           q_extraKmEstimated = extraKmEstimated, q_extraKmActual = extraKmActual\<rparr>,
         q_pricing = \<lparr>q_baseRateAmount = rate, q_baseCost = baseCost, q_discountPercent = discount,
           q_discountedBaseCost = discountedBaseCost, q_vatRate = vat,
           q_extraKmPolicyType = map_option pol_type pol,
           q_extraKmEstimatedCost = fst estimatedExtra, q_extraKmActualCost = fst actualExtra,
           q_expectedSubtotal = expectedSubtotal, q_expectedTaxAmount = expectedTaxAmount,
           q_expectedTotal = expectedTotal, q_finalSubtotal = finalSubtotal,
           q_finalTaxAmount = finalTaxAmount, q_finalTotal = finalTotal,
           q_extraKmEffectiveRateEstimated = snd estimatedExtra,
           q_extraKmEffectiveRateActual = snd actualExtra\<rparr>\<rparr>)"

section \<open>Operational kilometres on the saved terms\<close>

text \<open>
  A patch field is \<open>None\<close> when absent and \<open>Some None\<close> when \<open>null\<close>; the update lists the
  written columns in the same way.
\<close>

record RentalPricingOperationalPatch =
  patch_estimatedKm :: "number option option"
  patch_actualKm :: "number option option"
  patch_notes :: "string option"

record PricingSnapshotRow =
  snap_metadata :: json
  snap_estimatedKm :: "number option"
  snap_actualKm :: "number option"

record QuoteColumns =
  col_includedKmTotal :: "number option"
  col_extraKmEstimated :: number
  col_extraKmActual :: number
  col_extraKmEstimatedCost :: number
  col_extraKmActualCost :: number
  col_daysCharged :: number
  col_expectedSubtotal :: number
  col_expectedTaxAmount :: number
  col_expectedTotal :: number
  col_finalSubtotal :: "number option"
  col_finalTaxAmount :: "number option"
  col_finalTotal :: "number option"

record PricingSnapshotUpdate =
  upd_estimatedKm :: "number option option"
  upd_actualKm :: "number option option"
  upd_notes :: "string option"
  upd_quote :: "QuoteColumns option"

record OperationalUpdate =
  op_data :: PricingSnapshotUpdate
  op_quote :: "RentalQuoteResult option"
  op_bookingFinalTotal :: "number option option"

definition quoteOnTerms :: "RentalPricingTerms \<Rightarrow> int \<Rightarrow> int \<Rightarrow> number option \<Rightarrow> number option \<Rightarrow> RentalQuoteResult" where
  "quoteOnTerms t pickup ret est act = computeRentalQuote
     \<lparr>priceList = priceList t, pricePackage = pricePackage t, extraKmPolicy = extraKmPolicy t,
      pickupAt = pickup, returnAt = ret, estimatedKm = est, actualKm = act\<rparr>"

definition buildRentalPricingOperationalUpdate ::
  "PricingSnapshotRow \<Rightarrow> int \<Rightarrow> int \<Rightarrow> RentalPricingOperationalPatch \<Rightarrow> OperationalUpdate" where
  "buildRentalPricingOperationalUpdate snapshot pickup ret patch =
    (let changedEstimate = patch_estimatedKm patch \<noteq> None;
         changedActual = patch_actualKm patch \<noteq> None;
         est = (case patch_estimatedKm patch of Some v \<Rightarrow> toSafeNonNegativeInt v | None \<Rightarrow> snap_estimatedKm snapshot);
         act = (case patch_actualKm patch of Some v \<Rightarrow> toSafeNonNegativeInt v | None \<Rightarrow> snap_actualKm snapshot);
         data = \<lparr>upd_estimatedKm = (if changedEstimate then Some est else None),
                 upd_actualKm = (if changedActual then Some act else None),
                 upd_notes = patch_notes patch, upd_quote = None\<rparr>
     in case restoreRentalPricingTermsSnapshot (snap_metadata snapshot) of
          None \<Rightarrow> \<lparr>op_data = data, op_quote = None, op_bookingFinalTotal = None\<rparr>
        | Some terms \<Rightarrow>
          (let quote = quoteOnTerms terms pickup ret est act; km = q_km quote; p = q_pricing quote;
               data = (if changedEstimate \<or> changedActual then data\<lparr>upd_quote := Some
                 \<lparr>col_includedKmTotal = q_includedKmTotal km,
                  col_extraKmEstimated = q_extraKmEstimated km,
                  col_extraKmActual = q_extraKmActual km,
                  col_extraKmEstimatedCost = q_extraKmEstimatedCost p,
                  col_extraKmActualCost = q_extraKmActualCost p,
                  col_daysCharged = q_daysCharged (q_duration quote),
                  col_expectedSubtotal = q_expectedSubtotal p,
                  col_expectedTaxAmount = q_expectedTaxAmount p,
                  col_expectedTotal = q_expectedTotal p,
                  col_finalSubtotal = (if act = None then None else Some (q_finalSubtotal p)),
                  col_finalTaxAmount = (if act = None then None else Some (q_finalTaxAmount p)),
                  col_finalTotal = (if act = None then None else Some (q_finalTotal p))\<rparr>\<rparr> else data)
           in \<lparr>op_data = data, op_quote = Some quote,
               op_bookingFinalTotal = (if changedActual
                 then Some (if act = None then None else Some (q_finalTotal p)) else None)\<rparr>))"

section \<open>Rounding to cents\<close>

lemma round2_mono: "x \<le> y \<Longrightarrow> round2 x \<le> round2 y"
  unfolding round2_def
  by (intro jdiv_mono of_int_le_iff [THEN iffD2] jround_mono jmul_mono_left jadd_mono) simp_all

lemma round2_0 [simp]: "round2 0 = 0"
proof -
  have e: "jadd 0 EPSILON = 2 powi (- 52)"
    using fl_exact [of 1 "- 52"] by (simp add: jadd_def EPSILON_def)
  have "jmul (jadd 0 EPSILON) 100 = 100 * 2 powi (- 52)"
    using fl_exact [of 100 "- 52"] by (simp add: e jmul_def mult.commute)
  also have "jround (100 * 2 powi (- 52)) = 0"
    by (simp add: jround_def floor_eq_iff power_int_minus)
  finally show ?thesis by (simp add: round2_def jdiv_def)
qed

lemma round2_nonneg: "0 \<le> x \<Longrightarrow> 0 \<le> round2 x"
  using round2_mono [of 0 x] by simp

text \<open>
  Multiplying a number of cents by 100 and rounding gives the cents back, as long as the
  amount is below ten billion: the double rounding errors stay under half a cent.
\<close>

lemma cents_stable:
  assumes k: "\<bar>k\<bar> \<le> 2 ^ 40"
  shows "jround (jmul (jadd (fl (of_int k / 100)) EPSILON) 100) = k"
proof -
  define K v w z where "K = (of_int k :: rat)" and "v = fl (K / 100)"
    and "w = jadd v EPSILON" and "z = jmul w 100"
  have K: "\<bar>K / 100\<bar> \<le> 2 ^ 34"
    using k unfolding K_def by (simp add: abs_divide flip: of_int_abs)
  have v1: "\<bar>v - K / 100\<bar> \<le> 2 ^ 34 / 2 ^ 53" unfolding v_def by (rule fl_near [OF K])
  have v2: "\<bar>v + EPSILON\<bar> \<le> 2 ^ 35"
    by (rule order_trans [OF near_bound [OF _ near_bound [OF v1 K]], of _ "2 powi (- 52)"])
       (simp_all add: EPSILON_def power_int_minus)
  have w1: "\<bar>w - (v + EPSILON)\<bar> \<le> 2 ^ 35 / 2 ^ 53" unfolding w_def jadd_def by (rule fl_near [OF v2])
  have w2: "\<bar>w * 100\<bar> \<le> 2 ^ 43"
    using near_bound [OF w1 v2] by (simp add: abs_mult)
  have z1: "\<bar>z - w * 100\<bar> \<le> 2 ^ 43 / 2 ^ 53" unfolding z_def jmul_def by (rule fl_near [OF w2])
  have "\<bar>w - v\<bar> \<le> 2 ^ 35 / 2 ^ 53 + 1 / 2 ^ 52"
    by (rule near_trans [OF w1]) (simp add: EPSILON_def power_int_minus inverse_eq_divide)
  from near_trans [OF this v1] have "\<bar>w - K / 100\<bar> \<le> 1 / 2 ^ 16" by simp
  then have "\<bar>w * 100 - K\<bar> \<le> 100 / 2 ^ 16" by (simp add: abs_le_iff field_simps)
  from near_trans [OF z1 this] have "\<bar>z - K\<bar> \<le> 1 / 4" by simp
  then have "jround z = k"
    unfolding jround_def K_def by (intro floor_unique) linarith+
  then show ?thesis by (simp add: z_def w_def v_def K_def)
qed

lemma round2_cents: "\<bar>k\<bar> \<le> 2 ^ 40 \<Longrightarrow> round2 (fl (of_int k / 100)) = fl (of_int k / 100)"
  by (simp add: round2_def cents_stable jdiv_def)

lemma round2_shape: "\<exists>k. round2 v = fl (of_int k / 100)"
  by (auto simp: round2_def jdiv_def)

text \<open>A rounded amount below a thousand million is a fixed point of the rounding.\<close>

lemma round2_stable:
  assumes "0 \<le> round2 v" and "round2 v \<le> 10 ^ 9"
  shows "round2 (round2 v) = round2 v"
proof -
  obtain k where k: "round2 v = fl (of_int k / 100)" using round2_shape by blast
  have "k \<le> 2 ^ 40"
  proof (rule ccontr)
    assume "\<not> k \<le> 2 ^ 40"
    then have "of_int (10 ^ 9 + 1) \<le> (of_int k / 100 :: rat)" by simp
    then have "of_int (10 ^ 9 + 1) \<le> round2 v" unfolding k by (intro b64.rnd_ge_int) simp_all
    with assms(2) show False by simp
  qed
  moreover have "- (2 ^ 40) \<le> k"
  proof (rule ccontr)
    assume "\<not> - (2 ^ 40) \<le> k"
    then have "(of_int k / 100 :: rat) \<le> of_int (- 1)" by simp
    then have "round2 v \<le> of_int (- 1)" unfolding k by (intro b64.rnd_le_int) simp_all
    with assms(1) show False by simp
  qed
  ultimately show ?thesis unfolding k by (intro round2_cents) simp
qed

lemma round2_fl: "fl (round2 v) = round2 v"
  by (simp add: round2_def jdiv_def b64.rnd_idem)

lemma clampNumber_bounds: "lo \<le> hi \<Longrightarrow> lo \<le> clampNumber v lo hi \<and> clampNumber v lo hi \<le> hi"
  by (simp add: clampNumber_def)

section \<open>Fields of the quote\<close>

named_theorems quote_fields "the fields of a quote in terms of the input and of other fields"

lemma computeRentalQuote_base [quote_fields]:
  "q_baseCost (q_pricing (computeRentalQuote i)) =
     round2 (jmul (toChargeUnits (snd (computeChargedDays (pickupAt i) (returnAt i) (hourOverflowRule (priceList i))))
       (baseRateUnit (priceList i))) (max 0 (baseRateAmount (priceList i))))"
  "q_discountedBaseCost (q_pricing (computeRentalQuote i)) =
     round2 (jmul (q_baseCost (q_pricing (computeRentalQuote i)))
       (jsub 1 (jdiv (clampNumber (discountPercent (priceList i)) 0 100) 100)))"
  "q_vatRate (q_pricing (computeRentalQuote i)) = clampNumber (vatRate (priceList i)) 0 100"
  by (simp_all add: computeRentalQuote_def Let_def split_beta)

lemma computeRentalQuote_km [quote_fields]:
  "q_includedKmTotal (q_km (computeRentalQuote i)) = computeIncludedKm (pricePackage i)
     (snd (computeChargedDays (pickupAt i) (returnAt i) (hourOverflowRule (priceList i))))"
  "q_extraKmEstimated (q_km (computeRentalQuote i)) =
     (case q_includedKmTotal (q_km (computeRentalQuote i)) of None \<Rightarrow> 0
      | Some k \<Rightarrow> max 0 (jsub (orElse (toSafeNonNegativeInt (estimatedKm i)) 0) k))"
  "q_extraKmActual (q_km (computeRentalQuote i)) =
     (case q_includedKmTotal (q_km (computeRentalQuote i)) of None \<Rightarrow> 0
      | Some k \<Rightarrow> max 0 (jsub (orElse (toSafeNonNegativeInt (actualKm i)) 0) k))"
  "q_extraKmEstimatedCost (q_pricing (computeRentalQuote i)) =
     fst (computeExtraKmCost (q_extraKmEstimated (q_km (computeRentalQuote i))) (extraKmPolicy i))"
  "q_extraKmActualCost (q_pricing (computeRentalQuote i)) =
     fst (computeExtraKmCost (q_extraKmActual (q_km (computeRentalQuote i))) (extraKmPolicy i))"
  by (simp_all add: computeRentalQuote_def Let_def split_beta)

lemma computeRentalQuote_totals:
  defines "Q i \<equiv> q_pricing (computeRentalQuote i)"
  shows "q_expectedSubtotal (Q i) = round2 (jadd (q_discountedBaseCost (Q i)) (q_extraKmEstimatedCost (Q i)))"
    and "q_expectedTaxAmount (Q i) = round2 (jdiv (jmul (q_expectedSubtotal (Q i)) (q_vatRate (Q i))) 100)"
    and "q_expectedTotal (Q i) = round2 (jadd (q_expectedSubtotal (Q i)) (q_expectedTaxAmount (Q i)))"
    and "q_finalSubtotal (Q i) = round2 (jadd (q_discountedBaseCost (Q i)) (q_extraKmActualCost (Q i)))"
    and "q_finalTaxAmount (Q i) = round2 (jdiv (jmul (q_finalSubtotal (Q i)) (q_vatRate (Q i))) 100)"
    and "q_finalTotal (Q i) = round2 (jadd (q_finalSubtotal (Q i)) (q_finalTaxAmount (Q i)))"
  unfolding Q_def by (simp_all add: computeRentalQuote_def Let_def split_beta)

section \<open>Extra kilometres\<close>

text \<open>Where a tier starts, the kilometres of it that are charged, and what they cost.\<close>

definition tierStart :: "RentalExtraKmTierLike \<Rightarrow> number" where
  "tierStart t = max 1 (fromKm t)"

definition tierChunk :: "number \<Rightarrow> RentalExtraKmTierLike \<Rightarrow> number" where
  "tierChunk x t = jadd (jsub (case toKm t of None \<Rightarrow> x | Some u \<Rightarrow> min (max (tierStart t) u) x) (tierStart t)) 1"

definition tierCharge :: "number \<Rightarrow> RentalExtraKmTierLike \<Rightarrow> number" where
  "tierCharge x t = jmul (tierChunk x t) (max 0 (ratePerKm t))"

lemma tierChunk_ge_1: "tierStart t \<le> x \<Longrightarrow> 1 \<le> tierChunk x t"
proof -
  assume "tierStart t \<le> x"
  then have "0 \<le> jsub (case toKm t of None \<Rightarrow> x | Some u \<Rightarrow> min (max (tierStart t) u) x) (tierStart t)"
    by (auto simp: jsub_def intro!: b64.rnd_nonneg split: option.split)
  then have "jadd 0 1 \<le> tierChunk x t" unfolding tierChunk_def by (intro jadd_mono) simp_all
  then show ?thesis by (simp add: jadd_def b64.rnd_1)
qed

lemma tierCharge_mono: "x \<le> y \<Longrightarrow> tierCharge x t \<le> tierCharge y t"
  unfolding tierCharge_def tierChunk_def
  by (intro jmul_mono_left jadd_mono jsub_mono) (auto split: option.split)

lemma tierCharge_nonneg: "tierStart t \<le> x \<Longrightarrow> 0 \<le> tierCharge x t"
  using tierChunk_ge_1 [of t x] unfolding tierCharge_def by (intro jmul_nonneg) simp_all

lemma tierStep_alt: "tierStep x c t = (if x < tierStart t then c else jadd c (tierCharge x t))"
proof -
  have "tierStep x c t = (if x < tierStart t then c
      else if 0 < tierChunk x t then jadd c (tierCharge x t) else c)"
    unfolding tierStep_def Let_def tierCharge_def tierChunk_def tierStart_def ..
  then show ?thesis using tierChunk_ge_1 [of t x] by auto
qed

lemma tierStep_rounded: "fl c = c \<Longrightarrow> fl (tierStep x c t) = tierStep x c t"
  by (simp add: tierStep_alt jadd_def b64.rnd_idem)

lemma tierStep_nonneg: "0 \<le> c \<Longrightarrow> 0 \<le> tierStep x c t"
  by (simp add: tierStep_alt jadd_nonneg tierCharge_nonneg)

lemma tierStep_mono:
  assumes "x \<le> y" and "a \<le> b" and "fl b = b"
  shows "tierStep x a t \<le> tierStep y b t"
proof -
  have "b \<le> jadd b (tierCharge y t)" if "tierStart t \<le> y"
    using jadd_mono [of b b 0 "tierCharge y t"] tierCharge_nonneg [OF that] assms(3) by (simp add: jadd_def)
  moreover have "jadd a (tierCharge x t) \<le> jadd b (tierCharge y t)"
    using assms(1,2) by (intro jadd_mono tierCharge_mono)
  ultimately show ?thesis using assms(1,2) by (auto simp: tierStep_alt)
qed

lemma foldl_tierStep_mono:
  "x \<le> y \<Longrightarrow> a \<le> b \<Longrightarrow> fl b = b \<Longrightarrow> foldl (tierStep x) a ts \<le> foldl (tierStep y) b ts"
  by (induction ts arbitrary: a b) (simp_all add: tierStep_mono tierStep_rounded)

lemma foldl_tierStep_nonneg: "0 \<le> a \<Longrightarrow> 0 \<le> foldl (tierStep x) a ts"
  by (induction ts arbitrary: a) (simp_all add: tierStep_nonneg)

lemma computeExtraKmCost_nonneg: "0 \<le> fst (computeExtraKmCost x p)"
  using foldl_tierStep_nonneg [of 0 x]
  by (auto simp: computeExtraKmCost_def Let_def intro!: round2_nonneg jmul_nonneg split: option.split)

lemma computeExtraKmCost_mono: "x \<le> y \<Longrightarrow> fst (computeExtraKmCost x p) \<le> fst (computeExtraKmCost y p)"
proof -
  assume xy: "x \<le> y"
  consider "x \<le> 0" | "0 < x" "p = None" | q where "0 < x" "p = Some q" "pol_type q = FLAT"
    | q where "0 < x" "p = Some q" "pol_type q = TIERED"
    by (metis RentalExtraKmPolicyType.exhaust not_le option.exhaust)
  then show ?thesis
  proof cases
    case 1
    then show ?thesis using computeExtraKmCost_nonneg [of y p] by (simp add: computeExtraKmCost_def)
  next
    case 2
    then show ?thesis by (simp add: computeExtraKmCost_def)
  next
    case (3 q)
    then show ?thesis using xy
      by (auto simp: computeExtraKmCost_def Let_def intro!: round2_mono jmul_mono_left)
  next
    case (4 q)
    then show ?thesis using xy foldl_tierStep_mono [of x y 0 0]
      by (auto simp: computeExtraKmCost_def Let_def intro!: round2_mono)
  qed
qed

section \<open>Charged days\<close>

text \<open>The exact rule on whole milliseconds.\<close>

definition dayMs :: int where "dayMs = 86400000"

definition chargedDaysSpec :: "int \<Rightarrow> int \<Rightarrow> RentalHourOverflowRule \<Rightarrow> number" where
  "chargedDaysSpec pickup ret rule =
    (let d = max 0 (ret - pickup) in
     if d < dayMs then 1
     else of_int (d div dayMs) + (if d mod dayMs = 0 then 0
       else case rule of FULL_DAY \<Rightarrow> 1 | HALF_DAY \<Rightarrow> 1 / 2 | NONE \<Rightarrow> 0))"

lemma hours_to_days:
  assumes d: "0 \<le> d" "d < 2 ^ 43"
  shows "\<lfloor>jdiv (jdiv (of_int d) 3600000) 24\<rfloor> = d div dayMs"
    and "0 < jsub (jdiv (of_int d) 3600000) (of_int (d div dayMs * 24)) \<longleftrightarrow> d mod dayMs \<noteq> 0"
proof -
  define q r where "q = d div dayMs" and "r = d mod dayMs"
  have dq: "d = q * dayMs + r" and r: "0 \<le> r" "r < dayMs" and q: "0 \<le> q" "q \<le> 101806"
    using d by (auto simp: q_def r_def dayMs_def)
  define y where "y = (of_int d :: rat) / 3600000"
  define h where "h = jdiv (of_int d) 3600000"
  have h: "h = fl y" by (simp add: h_def y_def jdiv_def)
  have y: "y = of_int (24 * q) + of_int r / 3600000"
    unfolding y_def dq by (simp add: dayMs_def field_simps)
  have y0: "of_int (24 * q) \<le> y" using r by (simp add: y)
  have y1: "y \<le> of_int (24 * q) + 24 - 1 / 3600000"
    using r unfolding y dayMs_def by (simp add: field_simps)
  have h0: "of_int (24 * q) \<le> h" unfolding h using q y0 by (intro b64.rnd_ge_int) simp_all
  have near: "\<bar>h - y\<bar> \<le> 2 ^ 22 / 2 ^ 53"
    unfolding h using y0 y1 q by (intro fl_near) (simp add: abs_le_iff)
  have "of_int q \<le> jdiv h 24"
    unfolding jdiv_def using h0 q by (intro b64.rnd_ge_int) simp_all
  moreover have "jdiv h 24 < of_int q + 1"
  proof -
    have "h \<le> 24 * of_int q + 24 - 1 / 3600000 + 1 / 2 ^ 31"
      using abs_le_D1 [OF near] y1 by simp
    then have h24: "h / 24 \<le> of_int q + 1 - 1 / 86400000 + 1 / 2 ^ 31"
      by simp
    have "\<bar>jdiv h 24 - h / 24\<bar> \<le> 2 ^ 22 / 2 ^ 53"
      unfolding jdiv_def using h24 h0 q by (intro fl_near) (simp add: abs_le_iff)
    with h24 have "jdiv h 24 \<le> of_int q + 1 - 1 / 86400000 + 1 / 2 ^ 31 + 2 ^ 22 / 2 ^ 53"
      by linarith
    then show ?thesis by simp
  qed
  ultimately show "\<lfloor>jdiv (jdiv (of_int d) 3600000) 24\<rfloor> = d div dayMs"
    unfolding h_def [symmetric] q_def [symmetric] by (simp add: floor_eq_iff)
  have "0 < jsub h (of_int (q * 24)) \<longleftrightarrow> r \<noteq> 0"
  proof (cases "r = 0")
    case True
    then have "h = of_int (24 * q)" using fl_of_int [of "24 * q"] q unfolding h y by simp
    with True show ?thesis by (simp add: jsub_def mult.commute)
  next
    case False
    with r have "1 \<le> r" by simp
    then have "of_int (24 * q) + 1 / 3600000 \<le> y" by (simp add: y field_simps)
    with abs_le_D2 [OF near] have "of_int (q * 24) < h" by simp
    with False show ?thesis by (simp add: jsub_def b64.rnd_pos)
  qed
  then show "0 < jsub (jdiv (of_int d) 3600000) (of_int (d div dayMs * 24)) \<longleftrightarrow> d mod dayMs \<noteq> 0"
    unfolding h_def [symmetric] q_def [symmetric] r_def [symmetric] .
qed

lemma computeChargedDays_spec:
  assumes "ret - pickup < 2 ^ 43"
  shows "snd (computeChargedDays pickup ret rule) = chargedDaysSpec pickup ret rule"
proof -
  define d q where "d = max 0 (ret - pickup)" and "q = d div dayMs"
  have d: "0 \<le> d" "d < 2 ^ 43" using assms by (simp_all add: d_def)
  have q: "0 \<le> q" "q \<le> 101806" using d by (simp_all add: q_def dayMs_def)
  have floor: "\<lfloor>jdiv (jdiv (of_int d) 3600000) 24\<rfloor> = q"
    using hours_to_days(1) [OF d] by (simp add: q_def)
  have rem: "0 < jsub (jdiv (of_int d) 3600000) (jmul (of_int q) 24) \<longleftrightarrow> d mod dayMs \<noteq> 0"
    using hours_to_days(2) [OF d] fl_of_int [of "q * 24"] q by (simp add: q_def jmul_def)
  have small: "d < dayMs \<longleftrightarrow> q = 0"
    using d by (auto simp: q_def dayMs_def zdiv_eq_0_iff)
  have half: "jadd (of_int q) (1 / 2) = of_int q + 1 / 2"
    using fl_exact [of "2 * q + 1" "- 1"] q by (simp add: jadd_def power_int_minus field_simps)
  have one: "jadd (of_int q) 1 = of_int q + 1"
    using fl_of_int [of "q + 1"] q by (simp add: jadd_def)
  have zero: "jdiv (of_int d) 3600000 \<le> 0 \<Longrightarrow> d = 0"
    using d b64.rnd_pos [of "of_int d / 3600000"] by (cases "0 < d") (auto simp: jdiv_def)
  have model: "snd (computeChargedDays pickup ret rule) =
      (if jdiv (of_int d) 3600000 \<le> 0 then 1
       else max 1 (if 0 < q \<and> d mod dayMs \<noteq> 0
         then (case rule of FULL_DAY \<Rightarrow> jadd (if 0 < q then of_int q else 1) 1
           | HALF_DAY \<Rightarrow> jadd (if 0 < q then of_int q else 1) (1 / 2) | NONE \<Rightarrow> if 0 < q then of_int q else 1)
         else if 0 < q then of_int q else 1))"
    unfolding computeChargedDays_def Let_def d_def [symmetric] floor rem by simp
  have spec: "chargedDaysSpec pickup ret rule = (if q = 0 then 1 else of_int q +
      (if d mod dayMs = 0 then 0 else case rule of FULL_DAY \<Rightarrow> 1 | HALF_DAY \<Rightarrow> 1 / 2 | NONE \<Rightarrow> 0))"
    unfolding chargedDaysSpec_def Let_def d_def [symmetric] q_def [symmetric] small ..
  show ?thesis
  proof (cases "q = 0")
    case True
    then show ?thesis by (simp add: model spec)
  next
    case False
    with q have q1: "1 \<le> q" by simp
    then have "(1::rat) \<le> of_int q" by simp
    moreover have "\<not> jdiv (of_int d) 3600000 \<le> 0" using zero False by (auto simp: q_def)
    ultimately show ?thesis
      using q1 unfolding model spec by (cases rule) (simp_all add: one half)
  qed
qed

text \<open>
  C37: the number of charged days the service computes with floating-point hours is the
  exact rule on whole milliseconds: one day below twenty-four hours, otherwise the full days
  plus a full day, half a day or nothing for a started one, by the overflow rule.  The bound
  is 278 years.
\<close>

theorem computeChargedDays_exact:
  assumes "ret - pickup < 2 ^ 43"
  shows "snd (computeChargedDays pickup ret rule) = chargedDaysSpec pickup ret rule"
  using assms by (rule computeChargedDays_spec)

section \<open>Bounds and monotonicity of the quote\<close>

lemma toChargeUnits_ge_1: "1 \<le> toChargeUnits d u"
  by (cases u) (simp_all add: toChargeUnits_def)

lemma quote_parts_nonneg:
  defines "P i \<equiv> q_pricing (computeRentalQuote i)"
  shows "0 \<le> q_baseCost (P i)" and "0 \<le> q_discountedBaseCost (P i)" and "0 \<le> q_vatRate (P i)"
    and "0 \<le> q_extraKmEstimatedCost (P i)" and "0 \<le> q_extraKmActualCost (P i)"
proof -
  show b: "0 \<le> q_baseCost (P i)"
    unfolding P_def quote_fields using toChargeUnits_ge_1 order_trans [OF zero_le_one]
    by (intro round2_nonneg jmul_nonneg) auto
  have "0 \<le> jsub 1 (jdiv (clampNumber x 0 100) 100)" for x
  proof -
    have "jdiv (clampNumber x 0 100) 100 \<le> jdiv 100 100"
      using clampNumber_bounds [of 0 100 x] by (intro jdiv_mono) simp_all
    then have "jdiv (clampNumber x 0 100) 100 \<le> 1" by (simp add: jdiv_def b64.rnd_1)
    then show ?thesis by (simp add: jsub_def b64.rnd_nonneg)
  qed
  with b show "0 \<le> q_discountedBaseCost (P i)"
    unfolding P_def by (subst quote_fields) (intro round2_nonneg jmul_nonneg)
  show "0 \<le> q_vatRate (P i)"
    unfolding P_def quote_fields using clampNumber_bounds [of 0 100] by simp
  show "0 \<le> q_extraKmEstimatedCost (P i)" "0 \<le> q_extraKmActualCost (P i)"
    unfolding P_def quote_fields by (simp_all add: computeExtraKmCost_nonneg)
qed

lemma tax_nonneg: "0 \<le> s \<Longrightarrow> 0 \<le> v \<Longrightarrow> 0 \<le> round2 (jdiv (jmul s v) 100)"
  by (intro round2_nonneg jdiv_nonneg jmul_nonneg) simp_all

text \<open>
  no component of a quote is negative, whatever the price list, the package, the
  policy, the dates and the kilometres: negative rates, discounts and taxes are clamped.
\<close>

theorem computeRentalQuote_nonneg:
  "let p = q_pricing (computeRentalQuote i) in
     0 \<le> q_baseCost p \<and> 0 \<le> q_discountedBaseCost p \<and>
     0 \<le> q_extraKmEstimatedCost p \<and> 0 \<le> q_extraKmActualCost p \<and>
     0 \<le> q_expectedSubtotal p \<and> 0 \<le> q_expectedTaxAmount p \<and> 0 \<le> q_expectedTotal p \<and>
     0 \<le> q_finalSubtotal p \<and> 0 \<le> q_finalTaxAmount p \<and> 0 \<le> q_finalTotal p"
proof -
  note parts = quote_parts_nonneg [of i] and totals = computeRentalQuote_totals [of i]
  have sub: "0 \<le> q_expectedSubtotal (q_pricing (computeRentalQuote i))"
      "0 \<le> q_finalSubtotal (q_pricing (computeRentalQuote i))"
    unfolding totals using parts by (simp_all add: round2_nonneg jadd_nonneg)
  then have tax: "0 \<le> q_expectedTaxAmount (q_pricing (computeRentalQuote i))"
      "0 \<le> q_finalTaxAmount (q_pricing (computeRentalQuote i))"
    unfolding totals(2,5) using parts(3) by (simp_all only: tax_nonneg)
  from sub tax have "0 \<le> q_expectedTotal (q_pricing (computeRentalQuote i))"
      "0 \<le> q_finalTotal (q_pricing (computeRentalQuote i))"
    unfolding totals(3,6) by (simp_all add: round2_nonneg jadd_nonneg)
  with sub tax parts show ?thesis unfolding Let_def by blast
qed

lemma jmul_le_left:
  assumes "0 \<le> a" "fl a = a" "b \<le> 1"
  shows "jmul a b \<le> a"
proof -
  have "a * b \<le> a * 1" using assms by (intro mult_left_mono) simp_all
  then have "fl (a * b) \<le> fl a" by (intro b64.rnd_mono) simp
  with assms show ?thesis by (simp add: jmul_def)
qed

lemma jadd_ge_left: "fl a = a \<Longrightarrow> 0 \<le> b \<Longrightarrow> a \<le> jadd a b"
  using b64.rnd_mono [of a "a + b"] by (simp add: jadd_def)

lemma round2_sum_ge:
  assumes "s = round2 v" "0 \<le> s" "s \<le> 10 ^ 9" "0 \<le> b"
  shows "s \<le> round2 (jadd s b)"
  using round2_mono [OF jadd_ge_left [OF round2_fl [of v] assms(4)]] round2_stable [of v] assms by simp

lemma discount_le_base: "q_baseCost (q_pricing (computeRentalQuote i)) \<le> 10 ^ 9 \<Longrightarrow>
  q_discountedBaseCost (q_pricing (computeRentalQuote i)) \<le> q_baseCost (q_pricing (computeRentalQuote i))"
proof -
  define b where "b = q_baseCost (q_pricing (computeRentalQuote i))"
  assume "q_baseCost (q_pricing (computeRentalQuote i)) \<le> 10 ^ 9"
  then have b: "0 \<le> b" "b \<le> 10 ^ 9" "fl b = b" "round2 b = b"
    using quote_parts_nonneg(1) [of i] round2_stable
    by (simp_all only: b_def) (simp_all add: computeRentalQuote_base(1) round2_fl round2_stable)
  have "jsub 1 (jdiv (clampNumber x 0 100) 100) \<le> jsub 1 0" for x
    using clampNumber_bounds [of 0 100 x] by (intro jsub_mono jdiv_nonneg) simp_all
  then have "jmul b (jsub 1 (jdiv (clampNumber x 0 100) 100)) \<le> b" for x
    using b by (intro jmul_le_left) (simp_all add: jsub_def b64.rnd_1)
  from round2_mono [OF this] have "round2 (jmul b (jsub 1 (jdiv (clampNumber x 0 100) 100))) \<le> b" for x
    using b by simp
  then show ?thesis by (simp add: computeRentalQuote_base(2) b_def [symmetric])
qed

text \<open>
  the discount never raises the price and surcharges never lower it: the discounted
  base is at most the base, each subtotal at least the discounted base and each total at
  least its subtotal (amounts up to a thousand million, where a cent is still exact).
\<close>

theorem computeRentalQuote_ordered:
  assumes "q_baseCost (q_pricing (computeRentalQuote i)) \<le> 10 ^ 9"
    and "q_expectedSubtotal (q_pricing (computeRentalQuote i)) \<le> 10 ^ 9"
    and "q_finalSubtotal (q_pricing (computeRentalQuote i)) \<le> 10 ^ 9"
  shows "let p = q_pricing (computeRentalQuote i) in
     q_discountedBaseCost p \<le> q_baseCost p \<and>
     q_discountedBaseCost p \<le> q_expectedSubtotal p \<and> q_expectedSubtotal p \<le> q_expectedTotal p \<and>
     q_discountedBaseCost p \<le> q_finalSubtotal p \<and> q_finalSubtotal p \<le> q_finalTotal p"
proof -
  define p where "p = q_pricing (computeRentalQuote i)"
  note parts = quote_parts_nonneg [of i, folded p_def] and totals = computeRentalQuote_totals [of i, folded p_def]
  have d: "q_discountedBaseCost p \<le> q_baseCost p"
    using discount_le_base [OF assms(1)] by (simp add: p_def)
  obtain x where x: "q_discountedBaseCost p = round2 x"
    by (simp add: p_def computeRentalQuote_base(2))
  have dx: "q_discountedBaseCost p \<le> 10 ^ 9" using d assms(1) [folded p_def] by linarith
  note sum_ge = round2_sum_ge [OF x parts(2) dx]
  have s1: "q_discountedBaseCost p \<le> q_expectedSubtotal p" and s2: "q_discountedBaseCost p \<le> q_finalSubtotal p"
    unfolding totals(1,4) using parts(4,5) by (simp_all only: sum_ge)
  have sub: "0 \<le> q_expectedSubtotal p" "0 \<le> q_finalSubtotal p" using s1 s2 parts(2) by linarith+
  have "q_expectedSubtotal p \<le> q_expectedTotal p"
    unfolding totals(3) using totals(1) sub(1) assms(2) [folded p_def]
    by (rule round2_sum_ge) (simp add: totals(2) tax_nonneg sub parts)
  moreover have "q_finalSubtotal p \<le> q_finalTotal p"
    unfolding totals(6) using totals(4) sub(2) assms(3) [folded p_def]
    by (rule round2_sum_ge) (simp add: totals(5) tax_nonneg sub parts)
  ultimately show ?thesis using d s1 s2 unfolding Let_def p_def by blast
qed

text \<open>
  driving further never makes a rental cheaper: with the same terms and dates the final
  total grows with the actual kilometres.
\<close>

theorem finalTotal_mono_actualKm:
  assumes "a \<le> b"
  shows "q_finalTotal (q_pricing (computeRentalQuote (i\<lparr>actualKm := Some a\<rparr>)))
       \<le> q_finalTotal (q_pricing (computeRentalQuote (i\<lparr>actualKm := Some b\<rparr>)))"
proof -
  define p where "p x = q_pricing (computeRentalQuote (i\<lparr>actualKm := Some x\<rparr>))" for x
  define e where "e x = q_extraKmActual (q_km (computeRentalQuote (i\<lparr>actualKm := Some x\<rparr>)))" for x
  note totals = computeRentalQuote_totals [of "i\<lparr>actualKm := Some x\<rparr>" for x, folded p_def]
  have disc: "q_discountedBaseCost (p a) = q_discountedBaseCost (p b)" and vat: "q_vatRate (p a) = q_vatRate (p b)"
    by (simp_all add: p_def quote_fields)
  have km: "(of_int (max 0 (jround a)) :: rat) \<le> of_int (max 0 (jround b))"
    using jround_mono [OF assms] by (simp only: of_int_le_iff max.mono)
  have "e a \<le> e b"
  proof (cases "computeIncludedKm (pricePackage i)
      (snd (computeChargedDays (pickupAt i) (returnAt i) (hourOverflowRule (priceList i))))")
    case None
    then show ?thesis by (simp add: e_def quote_fields)
  next
    case (Some k)
    have "jsub (of_int (max 0 (jround a))) k \<le> jsub (of_int (max 0 (jround b))) k"
      using km by (intro jsub_mono) simp_all
    with Some show ?thesis
      by (simp add: e_def quote_fields toSafeNonNegativeInt_def le_max_iff_disj del: of_int_max) linarith
  qed
  then have "q_extraKmActualCost (p a) \<le> q_extraKmActualCost (p b)"
    unfolding p_def computeRentalQuote_km(5) e_def [symmetric] by (simp add: computeExtraKmCost_mono)
  then have sub: "q_finalSubtotal (p a) \<le> q_finalSubtotal (p b)"
    unfolding totals(4) disc by (intro round2_mono jadd_mono) simp_all
  have "q_finalTaxAmount (p a) \<le> q_finalTaxAmount (p b)"
    unfolding totals(5) vat using sub quote_parts_nonneg(3) [of "i\<lparr>actualKm := Some b\<rparr>", folded p_def]
    by (intro round2_mono jdiv_mono jmul_mono_left) simp_all
  with sub show ?thesis unfolding p_def [symmetric] totals(6) by (intro round2_mono jadd_mono)
qed

section \<open>The snapshot keeps the agreed terms\<close>

interpretation unit_codec: enum_codec unitName rentalBaseRateUnits
proof
  show "x = y" if "unitName x = unitName y" for x y using that by (cases x; cases y) simp_all
  show "x \<in> set rentalBaseRateUnits" for x by (cases x) (simp_all add: rentalBaseRateUnits_def)
qed

interpretation overflow_codec: enum_codec overflowName rentalHourOverflowRules
proof
  show "x = y" if "overflowName x = overflowName y" for x y using that by (cases x; cases y) simp_all
  show "x \<in> set rentalHourOverflowRules" for x by (cases x) (simp_all add: rentalHourOverflowRules_def)
qed

interpretation package_codec: enum_codec packageTypeName rentalKmPackageTypes
proof
  show "x = y" if "packageTypeName x = packageTypeName y" for x y using that by (cases x; cases y) simp_all
  show "x \<in> set rentalKmPackageTypes" for x by (cases x) (simp_all add: rentalKmPackageTypes_def)
qed

interpretation scope_codec: enum_codec scopeName rentalKmScopes
proof
  show "x = y" if "scopeName x = scopeName y" for x y using that by (cases x; cases y) simp_all
  show "x \<in> set rentalKmScopes" for x by (cases x) (simp_all add: rentalKmScopes_def)
qed

interpretation policy_codec: enum_codec policyTypeName rentalExtraKmPolicyTypes
proof
  show "x = y" if "policyTypeName x = policyTypeName y" for x y using that by (cases x; cases y) simp_all
  show "x \<in> set rentalExtraKmPolicyTypes" for x by (cases x) (simp_all add: rentalExtraKmPolicyTypes_def)
qed

lemmas codec_simps = unit_codec.enumOf_nm overflow_codec.enumOf_nm package_codec.enumOf_nm
  scope_codec.enumOf_nm policy_codec.enumOf_nm

text \<open>The terms as the snapshot keeps them: the tiers sorted, every sort order present.\<close>

definition savedTier :: "RentalExtraKmTierLike \<Rightarrow> RentalExtraKmTierLike" where
  "savedTier t = t\<lparr>sortOrder := Some (orElse (sortOrder t) 0)\<rparr>"

definition savedTerms :: "RentalPricingTerms \<Rightarrow> RentalPricingTerms" where
  "savedTerms t = t\<lparr>extraKmPolicy := map_option
     (\<lambda>p. p\<lparr>tiers := Some (map savedTier (sortTiers (orElse (tiers p) [])))\<rparr>) (extraKmPolicy t)\<rparr>"

definition namedTerms :: "RentalPricingTerms \<Rightarrow> bool" where
  "namedTerms t \<longleftrightarrow> trim (pl_id (priceList t)) \<noteq> [] \<and> trim (pl_name (priceList t)) \<noteq> [] \<and>
     (case pricePackage t of None \<Rightarrow> True | Some p \<Rightarrow> trim (pkg_id p) \<noteq> [] \<and> trim (pkg_name p) \<noteq> []) \<and>
     (case extraKmPolicy t of None \<Rightarrow> True | Some p \<Rightarrow> trim (pol_id p) \<noteq> [] \<and> trim (pol_name p) \<noteq> [])"

lemma jnullOrNumber_jnumOrNull [simp]: "jnullOrNumber (Some (jnumOrNull x)) = Some x"
  by (cases x) (simp_all add: jnullOrNumber_def jnumOrNull_def)

lemma jnonEmpty_str [simp]: "trim s \<noteq> [] \<Longrightarrow> jnonEmpty (Some (JStr s)) = Some s"
  by (simp add: jnonEmpty_def isNonEmptyString_def)

lemma restoreTiers_saved:
  "restoreTiers (map (\<lambda>t. JObj [(''fromKm'', JNum (fromKm t)), (''toKm'', jnumOrNull (toKm t)),
     (''ratePerKm'', JNum (ratePerKm t)), (''sortOrder'', JNum (orElse (sortOrder t) 0))]) ts)
   = Some (map savedTier ts)"
  by (induction ts) (simp_all add: restoreTier_def savedTier_def)

lemma restore_build:
  assumes "namedTerms t"
  shows "restoreRentalPricingTermsSnapshot (buildRentalPricingTermsSnapshot t) = Some (savedTerms t)"
proof -
  define S where "S = buildRentalPricingTermsSnapshot t"
  have pl: "restorePriceList (jprop S ''priceList'') = Some (priceList t)"
    using assms by (simp add: S_def buildRentalPricingTermsSnapshot_def jprop_def restorePriceList_def
      codec_simps namedTerms_def Let_def)
  have pkg: "restorePackage (jprop S ''pricePackage'') = Some (pricePackage t)"
    using assms by (cases "pricePackage t") (simp_all add: S_def buildRentalPricingTermsSnapshot_def jprop_def
      restorePackage_def codec_simps namedTerms_def)
  have pol: "restorePolicy (jprop S ''extraKmPolicy'') = Some (extraKmPolicy (savedTerms t))"
    using assms by (cases "extraKmPolicy t") (simp_all add: S_def buildRentalPricingTermsSnapshot_def jprop_def
      restorePolicy_def codec_simps namedTerms_def restoreTiers_saved savedTerms_def)
  have "isJObj (Some S)" "jprop S ''kind'' = Some (JStr ''fleetum.rental-pricing-terms'')"
      "jprop S ''version'' = Some (JNum 1)"
    by (simp_all add: S_def buildRentalPricingTermsSnapshot_def jprop_def)
  then show ?thesis
    unfolding S_def [symmetric]
    by (simp add: restoreRentalPricingTermsSnapshot_def pl pkg pol savedTerms_def)
qed

lemma savedTier_sel [simp]:
  "fromKm (savedTier t) = fromKm t" "toKm (savedTier t) = toKm t" "ratePerKm (savedTier t) = ratePerKm t"
  "sortOrder (savedTier t) = Some (orElse (sortOrder t) 0)"
  by (simp_all add: savedTier_def)

lemma tierStep_savedTier: "tierStep x c (savedTier t) = tierStep x c t"
  unfolding tierStep_def savedTier_sel ..

lemma foldl_savedTier: "foldl (tierStep x) c (map savedTier ts) = foldl (tierStep x) c ts"
  by (induction ts arbitrary: c) (simp_all add: tierStep_savedTier)

lemma sortTiers_saved: "sortTiers (map savedTier (sortTiers ts)) = map savedTier (sortTiers ts)"
  unfolding sortTiers_def
  using sorted_sort_key [of "\<lambda>t. (orElse (sortOrder t) 0, fromKm t)" ts]
  by (intro sort_key_id_if_sorted) (simp add: comp_def)

lemma computeExtraKmCost_saved:
  "computeExtraKmCost x (extraKmPolicy (savedTerms t)) = computeExtraKmCost x (extraKmPolicy t)"
  by (cases "extraKmPolicy t")
     (simp_all add: savedTerms_def computeExtraKmCost_def Let_def sortTiers_saved foldl_savedTier)


lemma final_ignores_estimate:
  obtains F :: "number option \<Rightarrow> number \<times> number \<times> number" where
    "\<And>e a. q_finalSubtotal (q_pricing (quoteOnTerms t p r e a)) = fst (F a)"
    "\<And>e a. q_finalTaxAmount (q_pricing (quoteOnTerms t p r e a)) = fst (snd (F a))"
    "\<And>e a. q_finalTotal (q_pricing (quoteOnTerms t p r e a)) = snd (snd (F a))"
proof (rule that [of "\<lambda>a. let p = q_pricing (quoteOnTerms t p r None a) in
    (q_finalSubtotal p, q_finalTaxAmount p, q_finalTotal p)"])
qed (simp_all add: quoteOnTerms_def computeRentalQuote_def Let_def split_beta)

text \<open>
  an operational edit cannot move the final price through the estimate or the notes: two
  patches with the same actual kilometres write the same final total on the booking and the
  same final columns on the snapshot, and a patch without actual kilometres leaves the
  booking's total alone.
\<close>

theorem operational_update_isolated:
  assumes "patch_actualKm p1 = patch_actualKm p2"
  shows "op_bookingFinalTotal (buildRentalPricingOperationalUpdate snap pickup ret p1) =
         op_bookingFinalTotal (buildRentalPricingOperationalUpdate snap pickup ret p2) \<and>
       (patch_actualKm p1 = None \<longrightarrow>
         op_bookingFinalTotal (buildRentalPricingOperationalUpdate snap pickup ret p1) = None) \<and>
       (\<forall>c1 c2. upd_quote (op_data (buildRentalPricingOperationalUpdate snap pickup ret p1)) = Some c1 \<longrightarrow>
         upd_quote (op_data (buildRentalPricingOperationalUpdate snap pickup ret p2)) = Some c2 \<longrightarrow>
         col_finalSubtotal c1 = col_finalSubtotal c2 \<and> col_finalTaxAmount c1 = col_finalTaxAmount c2 \<and>
         col_finalTotal c1 = col_finalTotal c2)"
proof (cases "restoreRentalPricingTermsSnapshot (snap_metadata snap)")
  case None
  then show ?thesis by (simp add: buildRentalPricingOperationalUpdate_def Let_def)
next
  case (Some terms)
  obtain F :: "number option \<Rightarrow> number \<times> number \<times> number" where F:
    "\<And>e a. q_finalSubtotal (q_pricing (quoteOnTerms terms pickup ret e a)) = fst (F a)"
    "\<And>e a. q_finalTaxAmount (q_pricing (quoteOnTerms terms pickup ret e a)) = fst (snd (F a))"
    "\<And>e a. q_finalTotal (q_pricing (quoteOnTerms terms pickup ret e a)) = snd (snd (F a))"
    using final_ignores_estimate [of terms pickup ret] by blast
  show ?thesis
    using Some assms
    by (auto simp: buildRentalPricingOperationalUpdate_def Let_def F split: if_splits option.splits)
qed

section \<open>Evaluation on a sample quote, and the witnesses\<close>

text \<open>Evaluation on small whole amounts.\<close>

lemma fl_half: "fl (1 / 2) = 1 / 2"
  using fl_exact [of 1 "- 1"] by (simp add: power_int_minus)

lemma round2_of_int: "\<bar>k\<bar> \<le> 10 ^ 9 \<Longrightarrow> round2 (of_int k) = of_int k"
  using round2_cents [of "100 * k"] fl_of_int [of k] by simp

lemma round2_numeral: "numeral n \<le> (10 ^ 9 :: int) \<Longrightarrow> round2 (numeral n) = numeral n"
  using round2_of_int [of "numeral n"] by simp

lemmas eval_small = fl_numeral fl_half b64.rnd_1 round2_numeral jround_numeral jadd_def jsub_def jmul_def jdiv_def

definition sampleTerms :: RentalPricingTerms where
  "sampleTerms = \<lparr>priceList = \<lparr>pl_id = ''pl1'', pl_name = ''Base'', baseRateUnit = DAILY,
      baseRateAmount = 50, vatRate = 20, discountPercent = 50, hourOverflowRule = FULL_DAY\<rparr>,
    pricePackage = Some \<lparr>pkg_id = ''pk1'', pkg_name = ''100 km'', pkg_type = LIMITED,
      kmIncluded = Some 100, kmScope = PER_RENTAL\<rparr>,
    extraKmPolicy = Some \<lparr>pol_id = ''po1'', pol_name = ''Flat'', pol_type = FLAT, flatRatePerKm = Some 2,
      tiers = Some [\<lparr>fromKm = 101, toKm = None, ratePerKm = 2, sortOrder = Some 1\<rparr>,
                    \<lparr>fromKm = 1, toKm = Some 100, ratePerKm = 1, sortOrder = None\<rparr>]\<rparr>\<rparr>"

definition sampleInput :: RentalQuoteInput where
  "sampleInput = \<lparr>priceList = priceList sampleTerms, pricePackage = pricePackage sampleTerms,
     extraKmPolicy = extraKmPolicy sampleTerms, pickupAt = 0, returnAt = 172800000,
     estimatedKm = Some 110, actualKm = Some 150\<rparr>"

lemma sample_days: "snd (computeChargedDays 0 172800000 FULL_DAY) = 2"
  using computeChargedDays_spec [of 172800000 0 FULL_DAY] by (simp add: chargedDaysSpec_def dayMs_def)

lemma sample_base: "q_baseCost (q_pricing (computeRentalQuote sampleInput)) = 100"
  by (simp add: quote_fields sample_days toChargeUnits_def eval_small sampleInput_def sampleTerms_def)
lemma sample_disc: "q_discountedBaseCost (q_pricing (computeRentalQuote sampleInput)) = 50"
  by (simp add: computeRentalQuote_base(2) sample_base) (simp add: eval_small clampNumber_def sampleInput_def sampleTerms_def)
lemma sample_extra: "q_extraKmActualCost (q_pricing (computeRentalQuote sampleInput)) = 100"
   "q_extraKmEstimatedCost (q_pricing (computeRentalQuote sampleInput)) = 20"
  by (simp_all add: computeRentalQuote_km sample_days sampleInput_def sampleTerms_def computeIncludedKm_def toSafeNonNegativeInt_def
   eval_small computeExtraKmCost_def)

text \<open>Witness of C37.\<close>

theorem computeChargedDays_exact_witness:
  "(90000000 :: int) - 0 < 2 ^ 43 \<and> snd (computeChargedDays 0 90000000 HALF_DAY) = 3 / 2"
  using computeChargedDays_exact [of 90000000 0 HALF_DAY] by (simp add: chargedDaysSpec_def dayMs_def)

text \<open>An instance of the preceding theorem.\<close>

theorem computeRentalQuote_ordered_witness:
  "q_discountedBaseCost (q_pricing (computeRentalQuote sampleInput)) = 50 \<and>
   (50 :: rat) \<le> q_finalSubtotal (q_pricing (computeRentalQuote sampleInput)) \<and>
   q_finalSubtotal (q_pricing (computeRentalQuote sampleInput)) = 150"
proof -
  have sub: "q_expectedSubtotal (q_pricing (computeRentalQuote sampleInput)) = 70"
      "q_finalSubtotal (q_pricing (computeRentalQuote sampleInput)) = 150"
    by (simp_all add: computeRentalQuote_totals(1,4) sample_disc sample_extra eval_small)
  have "let p = q_pricing (computeRentalQuote sampleInput) in
     q_discountedBaseCost p \<le> q_baseCost p \<and>
     q_discountedBaseCost p \<le> q_expectedSubtotal p \<and> q_expectedSubtotal p \<le> q_expectedTotal p \<and>
     q_discountedBaseCost p \<le> q_finalSubtotal p \<and> q_finalSubtotal p \<le> q_finalTotal p"
    by (rule computeRentalQuote_ordered) (simp_all add: sample_base sub)
  then show ?thesis by (simp add: Let_def sample_disc sub)
qed

text \<open>An instance of the preceding theorem.\<close>

theorem finalTotal_mono_actualKm_witness:
  "(150 :: rat) \<le> 151 \<and> q_finalTotal (q_pricing (computeRentalQuote (sampleInput\<lparr>actualKm := Some 150\<rparr>)))
     \<le> q_finalTotal (q_pricing (computeRentalQuote (sampleInput\<lparr>actualKm := Some 151\<rparr>)))"
  using finalTotal_mono_actualKm [of 150 151 sampleInput] by simp


definition sampleSnapshot :: PricingSnapshotRow where
  "sampleSnapshot = \<lparr>snap_metadata = buildRentalPricingTermsSnapshot sampleTerms,
     snap_estimatedKm = Some 110, snap_actualKm = None\<rparr>"

text \<open>An instance of the preceding theorem.\<close>

theorem operational_update_isolated_witness:
  "op_bookingFinalTotal (buildRentalPricingOperationalUpdate sampleSnapshot 0 172800000
     \<lparr>patch_estimatedKm = Some (Some 900), patch_actualKm = Some (Some 150), patch_notes = None\<rparr>) =
   op_bookingFinalTotal (buildRentalPricingOperationalUpdate sampleSnapshot 0 172800000
     \<lparr>patch_estimatedKm = None, patch_actualKm = Some (Some 150), patch_notes = Some ''x''\<rparr>)"
  using operational_update_isolated [of
      "\<lparr>patch_estimatedKm = Some (Some 900), patch_actualKm = Some (Some 150), patch_notes = None\<rparr>"
      "\<lparr>patch_estimatedKm = None, patch_actualKm = Some (Some 150), patch_notes = Some ''x''\<rparr>"
      sampleSnapshot 0 172800000, THEN conjunct1] by simp

end
