(* ===== verification/Plan_Catalog.thy ===== *)
theory Plan_Catalog
  imports Js_Value
begin

text \<open>
  The commercial plans and what they entitle to: \<^verbatim>\<open>packages/commercial-plan-catalog/index.js\<close>
  and \<^verbatim>\<open>backend/src/application/services/feature-entitlements-service.ts\<close>.  A plan code read
  from the database or from a request is a string or \<open>null\<close>; \<open>normalizeSaasPlan\<close> makes it one of
  the three plans.  The plans are ordered by \<open>PLAN_LEVELS\<close>; the lemmas show that entitlements grow
  along this order and that the plan a refused feature asks for is the least one that has it.
\<close>

section \<open>The catalog\<close>

datatype SaasPlan = STARTER | PRO | ENTERPRISE
datatype BillingCycle = Monthly | Yearly

fun planCode :: "SaasPlan \<Rightarrow> string" where
  "planCode STARTER = ''STARTER''" | "planCode PRO = ''PRO''" | "planCode ENTERPRISE = ''ENTERPRISE''"

definition SAAS_PLAN_CODES :: "SaasPlan list" where
  "SAAS_PLAN_CODES = [STARTER, PRO, ENTERPRISE]"

definition STARTER_FEATURES :: "string list" where
  "STARTER_FEATURES = [''dashboard_overview'', ''tenant_basic_view'', ''users_basic'', ''vehicles_basic'',
     ''fermi_basic'', ''reports_basic'', ''alerts_basic'', ''export_pdf_basic'']"

definition PRO_FEATURES :: "string list" where
  "PRO_FEATURES = [''reports_advanced'', ''export_csv'', ''advanced_filters'', ''scheduled_reports'',
     ''bulk_actions'', ''alerts_advanced'', ''integrations_basic'', ''audit_standard'']"

definition ENTERPRISE_FEATURES :: "string list" where
  "ENTERPRISE_FEATURES = [''api_access'', ''sso'', ''custom_roles'', ''audit_advanced'',
     ''automations_advanced'', ''webhooks'', ''multi_workspace_controls'', ''priority_support_flags'',
     ''security_insights'', ''white_label_flags'']"

text \<open>The features a plan adds, and the insertion-ordered set of all it entitles to.\<close>

fun PLAN_ENTITLEMENTS :: "SaasPlan \<Rightarrow> string list" where
  "PLAN_ENTITLEMENTS STARTER = STARTER_FEATURES"
| "PLAN_ENTITLEMENTS PRO = PRO_FEATURES"
| "PLAN_ENTITLEMENTS ENTERPRISE = ENTERPRISE_FEATURES"

fun cumulativeEntitlements :: "SaasPlan \<Rightarrow> string list" where
  "cumulativeEntitlements STARTER = STARTER_FEATURES"
| "cumulativeEntitlements PRO = STARTER_FEATURES @ PRO_FEATURES"
| "cumulativeEntitlements ENTERPRISE = STARTER_FEATURES @ PRO_FEATURES @ ENTERPRISE_FEATURES"

definition normalizeSaasPlan :: "string option \<Rightarrow> SaasPlan" where
  "normalizeSaasPlan code =
     (case code of None \<Rightarrow> STARTER
      | Some c \<Rightarrow> orElse (List.find (\<lambda>p. planCode p = c) SAAS_PLAN_CODES) STARTER)"

definition hasCommercialPlanFeature :: "string option \<Rightarrow> string \<Rightarrow> bool" where
  "hasCommercialPlanFeature code feature \<longleftrightarrow> feature \<in> set (cumulativeEntitlements (normalizeSaasPlan code))"

definition getCommercialPlanFeatures :: "string option \<Rightarrow> string list" where
  "getCommercialPlanFeatures code = cumulativeEntitlements (normalizeSaasPlan code)"

definition getCommercialFeatureRequiredPlan :: "string \<Rightarrow> SaasPlan option" where
  "getCommercialFeatureRequiredPlan feature =
     List.find (\<lambda>p. feature \<in> set (cumulativeEntitlements p)) SAAS_PLAN_CODES"

definition ANNUAL_DISCOUNT_BASIS_POINTS :: number where
  "ANNUAL_DISCOUNT_BASIS_POINTS = 1500"

definition annualPrice :: "number \<Rightarrow> int" where
  "annualPrice cents =
     jround (jdiv (jmul (jmul cents 12) (jsub 10000 ANNUAL_DISCOUNT_BASIS_POINTS)) 10000)"

fun monthlyPriceCents :: "SaasPlan \<Rightarrow> number" where
  "monthlyPriceCents STARTER = 14900"
| "monthlyPriceCents PRO = 19900"
| "monthlyPriceCents ENTERPRISE = 24900"

definition yearlyPriceCents :: "SaasPlan \<Rightarrow> number" where
  "yearlyPriceCents p = of_int (annualPrice (monthlyPriceCents p))"

definition PLAN_MONTHLY_PRICING_EUR :: "SaasPlan \<Rightarrow> number" where
  "PLAN_MONTHLY_PRICING_EUR p = jdiv (monthlyPriceCents p) 100"

definition PLAN_YEARLY_PRICING_EUR :: "SaasPlan \<Rightarrow> number" where
  "PLAN_YEARLY_PRICING_EUR p = jdiv (yearlyPriceCents p) 100"

definition getCommercialPlanPriceCents :: "string option \<Rightarrow> BillingCycle \<Rightarrow> number" where
  "getCommercialPlanPriceCents code cycle =
     (let p = normalizeSaasPlan code in
      case cycle of Yearly \<Rightarrow> yearlyPriceCents p | Monthly \<Rightarrow> monthlyPriceCents p)"

section \<open>The entitlements service\<close>

fun PLAN_LEVELS :: "SaasPlan \<Rightarrow> nat" where
  "PLAN_LEVELS STARTER = 1" | "PLAN_LEVELS PRO = 2" | "PLAN_LEVELS ENTERPRISE = 3"

definition ensureKnownPlan :: "string option \<Rightarrow> SaasPlan" where
  "ensureKnownPlan plan = normalizeSaasPlan plan"

definition getFeatureListForPlan :: "string option \<Rightarrow> string list" where
  "getFeatureListForPlan plan = getCommercialPlanFeatures plan"

definition hasFeature :: "string option \<Rightarrow> string \<Rightarrow> bool" where
  "hasFeature plan feature = hasCommercialPlanFeature plan feature"

definition getRequiredPlanForFeature :: "string \<Rightarrow> SaasPlan option" where
  "getRequiredPlanForFeature feature = getCommercialFeatureRequiredPlan feature"

definition getAllowedPlansForFeature :: "string \<Rightarrow> SaasPlan list" where
  "getAllowedPlansForFeature feature =
     filter (\<lambda>p. hasCommercialPlanFeature (Some (planCode p)) feature) SAAS_PLAN_CODES"

definition getPlanMonthlyPrice :: "string option \<Rightarrow> number" where
  "getPlanMonthlyPrice plan = PLAN_MONTHLY_PRICING_EUR (ensureKnownPlan plan)"

definition getPlanYearlyPrice :: "string option \<Rightarrow> number" where
  "getPlanYearlyPrice plan = PLAN_YEARLY_PRICING_EUR (ensureKnownPlan plan)"

definition normalizeBillingCycle :: "string option \<Rightarrow> BillingCycle" where
  "normalizeBillingCycle v = (if v = Some ''yearly'' then Yearly else Monthly)"

fun cycleName :: "BillingCycle \<Rightarrow> string" where
  "cycleName Monthly = ''monthly''" | "cycleName Yearly = ''yearly''"

record RevenueEstimate =
  r_plan :: SaasPlan
  r_basePriceMonthly :: number
  r_seatsFactor :: number
  r_estimatedMrr :: number

text \<open>\<open>None\<close> for the price or the seats is a value that is missing or not a finite number.\<close>

definition estimateLicenseMonthlyRevenue ::
  "string option \<Rightarrow> number option \<Rightarrow> number option \<Rightarrow> string option \<Rightarrow> RevenueEstimate" where
  "estimateLicenseMonthlyRevenue plan seats priceMonthly billingCycle =
     (let p = ensureKnownPlan plan;
          configuredMonthly =
            (case priceMonthly of Some x \<Rightarrow> if 0 < x then x else getPlanMonthlyPrice (Some (planCode p))
             | None \<Rightarrow> getPlanMonthlyPrice (Some (planCode p)));
          monthlyBase =
            (if normalizeBillingCycle billingCycle = Yearly then jdiv configuredMonthly 12 else configuredMonthly);
          n = (case seats of Some x \<Rightarrow> max 1 (of_int \<lfloor>x\<rfloor>) | None \<Rightarrow> 1);
          mrr = jmul monthlyBase n
      in \<lparr>r_plan = p, r_basePriceMonthly = toFixed2 monthlyBase, r_seatsFactor = n,
          r_estimatedMrr = toFixed2 mrr\<rparr>)"

section \<open>The order of the plans\<close>

instantiation SaasPlan :: linorder
begin

definition less_eq_SaasPlan :: "SaasPlan \<Rightarrow> SaasPlan \<Rightarrow> bool" where
  "less_eq_SaasPlan p q \<longleftrightarrow> PLAN_LEVELS p \<le> PLAN_LEVELS q"

definition less_SaasPlan :: "SaasPlan \<Rightarrow> SaasPlan \<Rightarrow> bool" where
  "less_SaasPlan p q \<longleftrightarrow> PLAN_LEVELS p < PLAN_LEVELS q"

instance
proof
  fix p q :: SaasPlan
  show "p \<le> q \<Longrightarrow> q \<le> p \<Longrightarrow> p = q"
    by (cases p; cases q) (simp_all add: less_eq_SaasPlan_def)
qed (auto simp: less_eq_SaasPlan_def less_SaasPlan_def)

end

lemma planCode_inj [simp]: "planCode p = planCode q \<longleftrightarrow> p = q"
  by (cases p; cases q) simp_all

lemma mem_SAAS_PLAN_CODES [simp]: "p \<in> set SAAS_PLAN_CODES"
  by (cases p) (simp_all add: SAAS_PLAN_CODES_def)

lemma sorted_SAAS_PLAN_CODES: "sorted SAAS_PLAN_CODES"
  by (simp add: SAAS_PLAN_CODES_def less_eq_SaasPlan_def)

interpretation plan_codec: enum_codec planCode SAAS_PLAN_CODES
  by unfold_locales simp_all

lemma normalizeSaasPlan_code [simp]: "normalizeSaasPlan (Some (planCode p)) = p"
  using plan_codec.enumOf_nm [of p] by (simp add: normalizeSaasPlan_def enumOf_def)

lemma cumulativeEntitlements_mono: "p \<le> q \<Longrightarrow> set (cumulativeEntitlements p) \<subseteq> set (cumulativeEntitlements q)"
  by (cases p; cases q) (auto simp: less_eq_SaasPlan_def)

lemma find_sorted_least:
  assumes "sorted xs" and "List.find P xs = Some x"
  shows "P x \<and> (\<forall>y \<in> set xs. P y \<longrightarrow> x \<le> y)"
  using assms by (induction xs) (auto split: if_splits)

lemma requiredPlan_least:
  "getCommercialFeatureRequiredPlan f = Some p \<longleftrightarrow>
     f \<in> set (cumulativeEntitlements p) \<and> (\<forall>q. f \<in> set (cumulativeEntitlements q) \<longrightarrow> p \<le> q)"
proof
  assume "getCommercialFeatureRequiredPlan f = Some p"
  from find_sorted_least [OF sorted_SAAS_PLAN_CODES this [unfolded getCommercialFeatureRequiredPlan_def]]
  show "f \<in> set (cumulativeEntitlements p) \<and> (\<forall>q. f \<in> set (cumulativeEntitlements q) \<longrightarrow> p \<le> q)"
    by auto
next
  assume p: "f \<in> set (cumulativeEntitlements p) \<and> (\<forall>q. f \<in> set (cumulativeEntitlements q) \<longrightarrow> p \<le> q)"
  then obtain q where q: "getCommercialFeatureRequiredPlan f = Some q"
    unfolding getCommercialFeatureRequiredPlan_def
    by (cases "List.find (\<lambda>p. f \<in> set (cumulativeEntitlements p)) SAAS_PLAN_CODES") (auto simp: find_None_iff)
  from find_sorted_least [OF sorted_SAAS_PLAN_CODES this [unfolded getCommercialFeatureRequiredPlan_def]] p
  have "q = p" by (meson mem_SAAS_PLAN_CODES order_antisym)
  with q show "getCommercialFeatureRequiredPlan f = Some p" by simp
qed

text \<open>
  The plan a refused feature asks for is exactly the threshold of the feature.  If
  \<open>getRequiredPlanForFeature\<close> names a plan, a tenant has the feature precisely on that plan and on
  every plan of a higher level, whatever string its plan code is read from, and
  \<open>getAllowedPlansForFeature\<close> lists precisely those plans; if it names none, no plan has the feature.
\<close>

theorem required_plan_is_threshold:
  "case getRequiredPlanForFeature feature of
     Some p \<Rightarrow> (\<forall>code. hasFeature code feature \<longleftrightarrow> p \<le> ensureKnownPlan code) \<and>
                set (getAllowedPlansForFeature feature) = {q. p \<le> q}
   | None \<Rightarrow> (\<forall>code. \<not> hasFeature code feature) \<and> getAllowedPlansForFeature feature = []"
proof (cases "getRequiredPlanForFeature feature")
  case None
  then have no: "feature \<notin> set (cumulativeEntitlements q)" for q
    by (auto simp: getRequiredPlanForFeature_def getCommercialFeatureRequiredPlan_def find_None_iff)
  with None show ?thesis
    by (simp add: hasFeature_def hasCommercialPlanFeature_def getAllowedPlansForFeature_def)
next
  case (Some p)
  then have p: "feature \<in> set (cumulativeEntitlements p)"
      "feature \<in> set (cumulativeEntitlements q) \<Longrightarrow> p \<le> q" for q
    by (auto simp: getRequiredPlanForFeature_def requiredPlan_least)
  then have iff: "feature \<in> set (cumulativeEntitlements q) \<longleftrightarrow> p \<le> q" for q
    using cumulativeEntitlements_mono by blast
  with Some show ?thesis
    by (auto simp: hasFeature_def hasCommercialPlanFeature_def ensureKnownPlan_def getAllowedPlansForFeature_def)
qed

text \<open>The catalog prices in whole euros per month, and what a year costs.\<close>

lemma getPlanMonthlyPrice_code:
  "getPlanMonthlyPrice (Some (planCode p)) = (case p of STARTER \<Rightarrow> 149 | PRO \<Rightarrow> 199 | ENTERPRISE \<Rightarrow> 249)"
  by (cases p) (simp_all add: getPlanMonthlyPrice_def ensureKnownPlan_def PLAN_MONTHLY_PRICING_EUR_def
    jdiv_def fl_numeral del: planCode.simps)

lemma yearlyPriceCents_eq: "yearlyPriceCents p = monthlyPriceCents p * 12 * 85 / 100"
  by (cases p) (simp_all add: yearlyPriceCents_def annualPrice_def ANNUAL_DISCOUNT_BASIS_POINTS_def
    js_ops fl_numeral jround_numeral)

lemma yearly_per_month_ge:
  "(case p of STARTER \<Rightarrow> 126 | PRO \<Rightarrow> 169 | ENTERPRISE \<Rightarrow> 211) \<le> jdiv (getPlanYearlyPrice (Some (planCode p))) 12"
proof -
  have ge: "of_int m \<le> jdiv (jdiv x 100) 12" if "\<bar>m\<bar> \<le> 10 ^ 9" "1200 * of_int m \<le> x" for m x
    using that unfolding jdiv_def by (intro b64.rnd_ge_int) (auto intro!: order_trans [OF _ b64.rnd_ge_int [of "12 * m"]])
  show ?thesis
    using ge [of 126 "yearlyPriceCents STARTER"] ge [of 169 "yearlyPriceCents PRO"]
      ge [of 211 "yearlyPriceCents ENTERPRISE"]
    by (cases p) (simp_all add: getPlanYearlyPrice_def ensureKnownPlan_def PLAN_YEARLY_PRICING_EUR_def
      yearlyPriceCents_eq del: planCode.simps)
qed

lemma toFixed2_le_int: "\<bar>m\<bar> \<le> 10 ^ 9 \<Longrightarrow> x \<le> of_int m \<Longrightarrow> toFixed2 x \<le> of_int m"
proof -
  assume m: "\<bar>m\<bar> \<le> 10 ^ 9" and "x \<le> of_int m"
  then have "x * 100 + 1 / 2 < of_int (100 * m + 1)" by simp
  then have "\<lfloor>x * 100 + 1 / 2\<rfloor> \<le> 100 * m" by linarith
  then have "(of_int \<lfloor>x * 100 + 1 / 2\<rfloor> :: rat) \<le> of_int (100 * m)" by (simp only: of_int_le_iff)
  then show ?thesis unfolding toFixed2_def using m by (intro b64.rnd_le_int) simp_all
qed

text \<open>
  Monthly revenue of a yearly subscription.  A yearly subscription without a price of its own,
  or with the catalog's monthly price, which is what the billing service stores, is estimated at
  a twelfth of the plan's \<^emph>\<open>monthly\<close> price: less than a ninth of what the tenant pays per month, the
  yearly price divided by twelve.  This is a defect of the estimate: the division by twelve belongs
  to the yearly price.
\<close>

theorem yearly_mrr_underestimated:
  "r_basePriceMonthly (estimateLicenseMonthlyRevenue (Some (planCode p)) (Some 1) None (Some ''yearly''))
     = toFixed2 (jdiv (getPlanMonthlyPrice (Some (planCode p))) 12) \<and>
   estimateLicenseMonthlyRevenue (Some (planCode p)) (Some 1)
     (Some (getPlanMonthlyPrice (Some (planCode p)))) (Some ''yearly'')
     = estimateLicenseMonthlyRevenue (Some (planCode p)) (Some 1) None (Some ''yearly'') \<and>
   9 * r_estimatedMrr (estimateLicenseMonthlyRevenue (Some (planCode p)) (Some 1) None (Some ''yearly''))
     < jdiv (getPlanYearlyPrice (Some (planCode p))) 12"
proof -
  have le: "toFixed2 (jmul (jdiv x 12) 1) \<le> of_int m" if "\<bar>m\<bar> \<le> 10 ^ 9" "x \<le> 12 * of_int m" for x m
    using that unfolding jmul_def jdiv_def by (intro toFixed2_le_int b64.rnd_le_int) (simp_all add: b64.rnd_idem b64.rnd_le_int)
  show ?thesis
    using yearly_per_month_ge [of p] le [of 13 149] le [of 17 199] le [of 21 249]
    by (cases p) (simp_all add: estimateLicenseMonthlyRevenue_def Let_def normalizeBillingCycle_def
      ensureKnownPlan_def getPlanMonthlyPrice_code del: planCode.simps)
qed

end
