(* ===== verification/Exact_Money.thy ===== *)
theory Exact_Money
  imports Js_Value
begin

text \<open>
  Reading money from its exact decimal column: \<^verbatim>\<open>backend/src/infrastructure/database/exact-money-reader.ts\<close>
  and the registry \<^verbatim>\<open>backend/src/domain/money/exact-money-fields.ts\<close>.  A record keeps a legacy binary64
  amount and an exact decimal one; the read mode decides which of the two a caller sees.

  The decimal library of the database client is a parameter, \<open>decimal_lib\<close>: how it reads a number and how
  it rounds.  A record of any table is accessed through a \<open>moneyView\<close>, its identifier and its money
  fields by name; the locale \<open>money_view\<close> states what the reader relies on.
\<close>

section \<open>The registry\<close>

record ExactNumericField =
  f_model :: string
  f_table :: string
  f_legacyField :: string
  f_exactField :: string
  f_legacyColumn :: string
  f_exactColumn :: string
  f_scale :: nat
  f_nullable :: bool

text \<open>In every entry the table is the model, and the exact field and columns are named after the legacy field.\<close>

definition exactField :: "string \<Rightarrow> string \<Rightarrow> nat \<Rightarrow> bool \<Rightarrow> ExactNumericField" where
  "exactField model legacy scale nullable =
     \<lparr>f_model = model, f_table = model, f_legacyField = legacy, f_exactField = legacy @ ''Exact'',
      f_legacyColumn = legacy, f_exactColumn = legacy @ ''Exact'', f_scale = scale, f_nullable = nullable\<rparr>"

definition EXACT_NUMERIC_FIELDS :: "ExactNumericField list" where
  "EXACT_NUMERIC_FIELDS =
    [exactField ''TenantSubscription'' ''priceMonthly'' 2 True,
     exactField ''Vehicle'' ''purchasePrice'' 2 True,
     exactField ''Vehicle'' ''residualValue'' 2 True,
     exactField ''Vehicle'' ''monthlyFixedCost'' 2 True,
     exactField ''VehicleCost'' ''amount'' 2 False,
     exactField ''VehicleMaintenance'' ''cost'' 2 True,
     exactField ''VehicleMaintenanceAttachment'' ''invoiceTotalAmount'' 2 True,
     exactField ''RentalBooking'' ''expectedTotal'' 2 True,
     exactField ''RentalBooking'' ''finalTotal'' 2 True,
     exactField ''RentalPriceList'' ''baseRateAmount'' 4 False,
     exactField ''RentalPriceList'' ''vatRate'' 4 False,
     exactField ''RentalPriceList'' ''discountPercent'' 4 False,
     exactField ''RentalExtraKmPolicy'' ''flatRatePerKm'' 4 True,
     exactField ''RentalExtraKmTier'' ''ratePerKm'' 4 False,
     exactField ''RentalBookingPricingSnapshot'' ''baseRateAmount'' 4 True,
     exactField ''RentalBookingPricingSnapshot'' ''vatRate'' 4 True,
     exactField ''RentalBookingPricingSnapshot'' ''discountPercent'' 4 True,
     exactField ''RentalBookingPricingSnapshot'' ''extraKmEstimatedCost'' 2 True,
     exactField ''RentalBookingPricingSnapshot'' ''extraKmActualCost'' 2 True,
     exactField ''RentalBookingPricingSnapshot'' ''expectedSubtotal'' 2 True,
     exactField ''RentalBookingPricingSnapshot'' ''expectedTaxAmount'' 2 True,
     exactField ''RentalBookingPricingSnapshot'' ''expectedTotal'' 2 True,
     exactField ''RentalBookingPricingSnapshot'' ''finalSubtotal'' 2 True,
     exactField ''RentalBookingPricingSnapshot'' ''finalTaxAmount'' 2 True,
     exactField ''RentalBookingPricingSnapshot'' ''finalTotal'' 2 True,
     exactField ''Stoppage'' ''estimatedCostPerDay'' 2 True,
     exactField ''Invoice'' ''subtotal'' 2 False,
     exactField ''Invoice'' ''taxRate'' 4 False,
     exactField ''Invoice'' ''taxAmount'' 2 False,
     exactField ''Invoice'' ''total'' 2 False,
     exactField ''InvoiceItem'' ''unitPrice'' 2 False,
     exactField ''InvoiceItem'' ''subtotal'' 2 False,
     exactField ''InvoiceItem'' ''taxRate'' 4 False,
     exactField ''InvoiceItem'' ''taxAmount'' 2 False,
     exactField ''InvoiceItem'' ''total'' 2 False]"

definition fieldsByModel :: "string \<Rightarrow> ExactNumericField list" where
  "fieldsByModel model = filter (\<lambda>f. f_model f = model) EXACT_NUMERIC_FIELDS"

section \<open>The reader\<close>

datatype ExactMoneyReadMode = LegacyMode | CompareMode | ExactMode

text \<open>
  The decimal library: \<open>newDecimal\<close> reads a number, \<open>toDecimalPlaces\<close> rounds a decimal to a number
  of places, half up.
\<close>

record decimal_lib =
  newDecimal :: "number \<Rightarrow> rat"
  toDecimalPlaces :: "rat \<Rightarrow> nat \<Rightarrow> rat"

record 'r moneyView =
  mv_id :: "'r \<Rightarrow> string"
  mv_has :: "'r \<Rightarrow> string \<Rightarrow> bool"
  mv_get :: "'r \<Rightarrow> string \<Rightarrow> number option"
  mv_set :: "'r \<Rightarrow> string \<Rightarrow> number option \<Rightarrow> 'r"

text \<open>A row of the exact columns: the identifier and the decimal of each field, \<open>None\<close> for null.\<close>

type_synonym exactRow = "string \<times> (string \<Rightarrow> rat option)"

record ExactMoneyReport =
  em_recordsChecked :: nat
  em_fieldsChecked :: nat
  em_mismatchCount :: nat
  em_fallbackCount :: nat
  em_logged :: bool

text \<open>The fixed-point text \<open>normalizeDecimal\<close> returns is represented by its value.\<close>

definition normalizeDecimal :: "decimal_lib \<Rightarrow> rat option \<Rightarrow> nat \<Rightarrow> rat option" where
  "normalizeDecimal L v scale = map_option (\<lambda>x. toDecimalPlaces L x scale) v"

text \<open>One round of the loop over the selected fields.\<close>

definition hydrateField ::
  "ExactMoneyReadMode \<Rightarrow> decimal_lib \<Rightarrow> 'r moneyView \<Rightarrow> 'r \<Rightarrow> (string \<Rightarrow> rat option) option \<Rightarrow>
   'r \<times> nat \<times> nat \<Rightarrow> ExactNumericField \<Rightarrow> 'r \<times> nat \<times> nat" where
  "hydrateField mode L V source exactRow acc f =
     (case acc of (nxt, mismatchCount, fallbackCount) \<Rightarrow>
      if \<not> mv_has V source (f_legacyField f) then acc
      else let legacyValue = mv_get V source (f_legacyField f);
               exactValue = (case exactRow of None \<Rightarrow> None | Some r \<Rightarrow> r (f_exactField f));
               normalizedLegacy = normalizeDecimal L (map_option (newDecimal L) legacyValue) (f_scale f);
               normalizedExact = normalizeDecimal L exactValue (f_scale f);
               mm = mismatchCount + (if normalizedLegacy \<noteq> normalizedExact then 1 else 0)
           in if mode \<noteq> ExactMode then (nxt, mm, fallbackCount)
              else if normalizedExact = None \<and> normalizedLegacy \<noteq> None then (nxt, mm, fallbackCount + 1)
              else (mv_set V nxt (f_legacyField f) (map_option fl normalizedExact), mm, fallbackCount))"

definition hydrateFields ::
  "ExactMoneyReadMode \<Rightarrow> decimal_lib \<Rightarrow> 'r moneyView \<Rightarrow> ExactNumericField list \<Rightarrow>
   (string \<Rightarrow> rat option) option \<Rightarrow> 'r \<Rightarrow> 'r \<times> nat \<times> nat" where
  "hydrateFields mode L V fs exactRow r = foldl (hydrateField mode L V r exactRow) (r, 0, 0) fs"

text \<open>
  \<open>query\<close> selects the exact columns of the given identifiers, within a tenant if one is given; \<open>None\<close>
  is a query that throws.  The report is what is observed and logged, \<open>None\<close> when the reader returns early.
\<close>

definition hydrate ::
  "ExactMoneyReadMode \<Rightarrow> decimal_lib \<Rightarrow> 'r moneyView \<Rightarrow>
   (string \<Rightarrow> string list \<Rightarrow> string option \<Rightarrow> exactRow list option) \<Rightarrow>
   string \<Rightarrow> 'r list \<Rightarrow> string option \<Rightarrow> 'r list \<times> ExactMoneyReport option" where
  "hydrate mode L V query model records tenantId =
     (if mode = LegacyMode \<or> records = [] then (records, None)
      else let selectedFields =
                 filter (\<lambda>f. \<exists>r \<in> set records. mv_has V r (f_legacyField f)) (fieldsByModel model)
           in if selectedFields = [] then (records, None)
              else case query (f_table (hd selectedFields)) (remdups (map (mv_id V) records)) tenantId of
                None \<Rightarrow> (records, Some \<lparr>em_recordsChecked = length records, em_fieldsChecked = length selectedFields,
                          em_mismatchCount = 0, em_fallbackCount = length records, em_logged = True\<rparr>)
              | Some exactRows \<Rightarrow>
                  let results = map (\<lambda>r. hydrateFields mode L V selectedFields (map_of (rev exactRows) (mv_id V r)) r) records;
                      mm = sum_list (map (fst \<circ> snd) results); fb = sum_list (map (snd \<circ> snd) results)
                  in (map fst results, Some \<lparr>em_recordsChecked = length records, em_fieldsChecked = length selectedFields,
                        em_mismatchCount = mm, em_fallbackCount = fb, em_logged = (0 < mm \<or> 0 < fb)\<rparr>))"

definition hydrateOne ::
  "ExactMoneyReadMode \<Rightarrow> decimal_lib \<Rightarrow> 'r moneyView \<Rightarrow>
   (string \<Rightarrow> string list \<Rightarrow> string option \<Rightarrow> exactRow list option) \<Rightarrow> string \<Rightarrow> 'r \<Rightarrow> string option \<Rightarrow> 'r" where
  "hydrateOne mode L V query model r tenantId = hd (fst (hydrate mode L V query model [r] tenantId))"

section \<open>What the reader guarantees\<close>

text \<open>
  The documented behaviour of the decimal library the proofs use: a decimal read from a number reads
  back as this number, and rounding gives a multiple of the last place within half of it.
\<close>

definition decimal_ok :: "decimal_lib \<Rightarrow> bool" where
  "decimal_ok L \<longleftrightarrow>
     (\<forall>n. fl n = n \<longrightarrow> fl (newDecimal L n) = n) \<and>
     (\<forall>x s. \<bar>toDecimalPlaces L x s - x\<bar> \<le> 1 / (2 * 10 ^ s) \<and> (\<exists>k. toDecimalPlaces L x s = of_int k / 10 ^ s))"

lemma two_places_unique:
  assumes "decimal_ok L" and "\<bar>x - of_int k / 100\<bar> < 1 / 200"
  shows "toDecimalPlaces L x 2 = of_int k / 100"
proof -
  have p: "(10::rat) ^ 2 = 100" "(2::rat) * 100 = 200" by simp_all
  have "\<bar>toDecimalPlaces L x 2 - x\<bar> \<le> 1 / (2 * 10 ^ 2)" and "\<exists>j. toDecimalPlaces L x 2 = of_int j / 10 ^ 2"
    using assms(1) unfolding decimal_ok_def by blast+
  then obtain j where j: "toDecimalPlaces L x 2 = of_int j / 100" and "\<bar>toDecimalPlaces L x 2 - x\<bar> \<le> 1 / 200"
    unfolding p by blast
  then have e: "\<bar>of_int j / 100 - x\<bar> \<le> 1 / 200" by (simp only:)
  from e assms(2) have "\<bar>of_int j - of_int k :: rat\<bar> < 1" by linarith
  then have "j = k" by linarith
  with j show ?thesis by simp
qed

text \<open>What the reader relies on: setting a money field changes this field only.\<close>

locale money_view =
  fixes V :: "'r moneyView"
  assumes id_set: "mv_id V (mv_set V r f v) = mv_id V r"
    and has_set: "mv_has V (mv_set V r f v) g = mv_has V r g"
    and get_set: "mv_has V r f \<Longrightarrow> mv_get V (mv_set V r f v) f = v"
    and get_set_other: "f \<noteq> g \<Longrightarrow> mv_get V (mv_set V r f v) g = mv_get V r g"
    and set_get: "mv_has V r f \<Longrightarrow> mv_set V r f (mv_get V r f) = r"
begin

lemma hydrateField_id: "mv_id V (fst (hydrateField mode L V src row acc f)) = mv_id V (fst acc)"
  by (cases acc) (simp add: hydrateField_def Let_def id_set)

lemma hydrateFields_id: "mv_id V (fst (hydrateFields mode L V fs row r)) = mv_id V r"
proof -
  have "mv_id V (fst (foldl (hydrateField mode L V r row) acc fs)) = mv_id V (fst acc)" for acc
    by (induction fs arbitrary: acc) (simp_all add: hydrateField_id)
  then show ?thesis by (simp add: hydrateFields_def)
qed

lemma hydrateFields_not_exact: "mode \<noteq> ExactMode \<Longrightarrow> fst (hydrateFields mode L V fs row r) = r"
proof -
  assume "mode \<noteq> ExactMode"
  then have "fst (foldl (hydrateField mode L V r row) acc fs) = fst acc" for acc
    by (induction fs arbitrary: acc) (auto simp: hydrateField_def Let_def split: prod.split)
  then show ?thesis by (simp add: hydrateFields_def)
qed

text \<open>A money field that has a value keeps one: the exact amount when there is one, else its own.\<close>

lemma hydrateField_keeps_value:
  assumes "mv_get V src g \<noteq> None" and "mv_get V (fst acc) g \<noteq> None" and "mv_has V (fst acc) = mv_has V src"
  shows "mv_get V (fst (hydrateField mode L V src row acc f)) g \<noteq> None"
proof (cases "f_legacyField f = g")
  case True
  with assms show ?thesis
    by (cases acc) (auto simp: hydrateField_def Let_def get_set normalizeDecimal_def split: option.splits)
next
  case False
  with assms show ?thesis
    by (cases acc) (auto simp: hydrateField_def Let_def get_set_other)
qed

lemma hydrateField_has: "mv_has V (fst (hydrateField mode L V src row acc f)) = mv_has V (fst acc)"
  by (cases acc) (auto simp: hydrateField_def Let_def has_set fun_eq_iff)

lemma hydrateFields_keeps_value:
  assumes "mv_get V r g \<noteq> None"
  shows "mv_get V (fst (hydrateFields mode L V fs row r)) g \<noteq> None"
proof -
  have "mv_get V (fst acc) g \<noteq> None \<Longrightarrow> mv_has V (fst acc) = mv_has V r \<Longrightarrow>
      mv_get V (fst (foldl (hydrateField mode L V r row) acc fs)) g \<noteq> None" for acc
    by (induction fs arbitrary: acc) (simp_all add: hydrateField_keeps_value [OF assms] hydrateField_has del: not_None_eq)
  with assms show ?thesis by (simp add: hydrateFields_def del: not_None_eq)
qed

text \<open>
  Whatever the mode and the query, the reader returns the same records in the same order, changed at
  most in their money fields, and never drops an amount.
\<close>

lemma hydrate_shape:
  assumes "hydrate mode L V query model records tenantId = (out, report)"
  shows "map (mv_id V) out = map (mv_id V) records"
    and "mode \<noteq> ExactMode \<Longrightarrow> out = records"
    and "\<And>i g. i < length records \<Longrightarrow> mv_get V (records ! i) g \<noteq> None \<Longrightarrow> mv_get V (out ! i) g \<noteq> None"
proof -
  consider "out = records" | fs rows where "out = map (\<lambda>r. fst (hydrateFields mode L V fs (map_of rows (mv_id V r)) r)) records"
    using assms by (auto simp: hydrate_def Let_def comp_def split: if_splits option.splits)
  then show "map (mv_id V) out = map (mv_id V) records" and "mode \<noteq> ExactMode \<Longrightarrow> out = records"
    and "\<And>i g. i < length records \<Longrightarrow> mv_get V (records ! i) g \<noteq> None \<Longrightarrow> mv_get V (out ! i) g \<noteq> None"
    by (cases; simp add: comp_def hydrateFields_id hydrateFields_not_exact hydrateFields_keeps_value del: not_None_eq)+
qed

end

end
