(* ===== verification/Audit_Log.thy ===== *)
theory Audit_Log
  imports Js_Value
begin

text \<open>
  The audit log of \<^verbatim>\<open>backend/src/infrastructure/repositories/prisma-audit-log-repository.ts\<close>: every
  entry of a tenant carries the hash of its content and of the entry before it.  \<open>hashOf\<close> stands for
  the SHA-256 digest of the JSON text of a document and is a parameter.  Entries are kept in insertion
  order; reading the latest one takes the greatest \<open>createdAt\<close> and, among equal ones, which the
  database may return in any order, the last inserted.
\<close>

section \<open>Entries and operations\<close>

record AuditLogRow =
  al_tenantId :: string
  al_userId :: "string option"
  al_action :: string
  al_resource :: string
  al_resourceId :: "string option"
  al_details :: json
  al_createdAt :: instant

record CreateAuditLogInput =
  ai_tenantId :: string
  ai_userId :: "string option"
  ai_action :: string
  ai_resource :: string
  ai_resourceId :: "string option"
  ai_details :: "json option"

record audit_db =
  auditLogs :: "AuditLogRow list"

text \<open>\<open>findFirst\<close> with \<open>orderBy: { createdAt: "desc" }\<close>.\<close>

fun latestRow :: "AuditLogRow list \<Rightarrow> AuditLogRow option" where
  "latestRow [] = None"
| "latestRow (r # rs) =
     (case latestRow rs of None \<Rightarrow> Some r
      | Some q \<Rightarrow> if al_createdAt r \<le> al_createdAt q then Some q else Some r)"

definition tenantRows :: "string \<Rightarrow> AuditLogRow list \<Rightarrow> AuditLogRow list" where
  "tenantRows t rows = filter (\<lambda>r. al_tenantId r = t) rows"

definition metaHash :: "AuditLogRow \<Rightarrow> json option" where
  "metaHash r = (case jprop (al_details r) ''__meta'' of None \<Rightarrow> None | Some m \<Rightarrow> jprop m ''hash'')"

definition metaPrevHash :: "AuditLogRow \<Rightarrow> json option" where
  "metaPrevHash r = (case jprop (al_details r) ''__meta'' of None \<Rightarrow> None | Some m \<Rightarrow> jprop m ''prevHash'')"

definition canonicalOf :: "CreateAuditLogInput \<Rightarrow> json \<Rightarrow> json" where
  "canonicalOf i prevHash = JObj
     [(''tenantId'', JStr (ai_tenantId i)), (''userId'', jstrOrNull (ai_userId i)),
      (''action'', JStr (ai_action i)), (''resource'', JStr (ai_resource i)),
      (''resourceId'', jstrOrNull (ai_resourceId i)), (''details'', orElse (ai_details i) JNull),
      (''prevHash'', prevHash)]"

text \<open>The fields an object spread copies; the elements of an array have their index as key.\<close>

fun decimalOfNat :: "nat \<Rightarrow> string" where
  "decimalOfNat n = (if n < 10 then [] else decimalOfNat (n div 10)) @ [char_of (48 + n mod 10)]"

definition spreadFields :: "json option \<Rightarrow> (string \<times> json) list" where
  "spreadFields d =
     (case d of
        Some (JObj fs) \<Rightarrow> fs
      | Some (JArr vs) \<Rightarrow> zip (map decimalOfNat [0..<length vs]) vs
      | _ \<Rightarrow> [(''value'', orElse d JNull)])"

definition createAuditLog ::
  "(json \<Rightarrow> string) \<Rightarrow> instant \<Rightarrow> CreateAuditLogInput \<Rightarrow> instant option \<Rightarrow>
   (app_error, 'z audit_db_scheme, AuditLogRow) prog" where
  "createAuditLog hashOf now i createdAt =
     bindP (getsP (\<lambda>s. latestRow (tenantRows (ai_tenantId i) (auditLogs s)))) (\<lambda>previous.
     let prevHash = (case previous of None \<Rightarrow> JNull | Some p \<Rightarrow> orElse (metaHash p) JNull);
         hash = hashOf (canonicalOf i prevHash);
         persistedCreatedAt =
           (case (createdAt, previous) of
              (Some c, Some p) \<Rightarrow> if c \<le> al_createdAt p then Some (al_createdAt p + 1) else Some c
            | _ \<Rightarrow> createdAt);
         meta = JObj [(''immutable'', JBool True), (''hash'', JStr hash), (''prevHash'', prevHash),
                      (''ts'', JStr (toISOString now))];
         row = \<lparr>al_tenantId = ai_tenantId i, al_userId = ai_userId i, al_action = ai_action i,
                al_resource = ai_resource i, al_resourceId = ai_resourceId i,
                al_details = JObj (filter (\<lambda>(k, _). k \<noteq> ''__meta'') (spreadFields (ai_details i)) @ [(''__meta'', meta)]),
                al_createdAt = orElse persistedCreatedAt now\<rparr>
     in seqP (modifyP (\<lambda>s. s\<lparr>auditLogs := auditLogs s @ [row]\<rparr>)) (returnP row))"

definition getLatestByAction :: "string \<Rightarrow> string \<Rightarrow> string \<Rightarrow> 'z audit_db_scheme \<Rightarrow> AuditLogRow option" where
  "getLatestByAction t resource action s =
     latestRow (filter (\<lambda>r. al_tenantId r = t \<and> al_resource r = resource \<and> al_action r = action) (auditLogs s))"

section \<open>The hash chain\<close>

text \<open>
  A chain of entries, oldest first: times strictly increase, the first entry has no previous hash
  and every other entry names the hash of the entry before it.
\<close>

fun chainFrom :: "json \<Rightarrow> AuditLogRow list \<Rightarrow> bool" where
  "chainFrom h [] = True"
| "chainFrom h (r # rs) \<longleftrightarrow> metaPrevHash r = Some h \<and> (\<exists>g. metaHash r = Some (JStr g) \<and> chainFrom (JStr g) rs)"

definition auditChain :: "AuditLogRow list \<Rightarrow> bool" where
  "auditChain rs \<longleftrightarrow> sorted_wrt (<) (map al_createdAt rs) \<and> chainFrom JNull rs"

lemma tenantRows_append [simp]: "tenantRows t (xs @ ys) = tenantRows t xs @ tenantRows t ys"
  by (simp add: tenantRows_def)

lemma latestRow_snoc: "(\<And>q. q \<in> set rs \<Longrightarrow> al_createdAt q \<le> al_createdAt r) \<Longrightarrow> latestRow (rs @ [r]) = Some r"
  by (induction rs) auto

lemma latestRow_mem: "latestRow rs = Some r \<Longrightarrow> r \<in> set rs"
  by (induction rs arbitrary: r) (auto split: option.splits if_splits)

lemma latestRow_None: "latestRow rs = None \<longleftrightarrow> rs = []"
  by (cases rs) (auto split: option.split)

lemma latestRow_max: "latestRow rs = Some r \<Longrightarrow> q \<in> set rs \<Longrightarrow> al_createdAt q \<le> al_createdAt r"
  by (induction rs arbitrary: r) (fastforce split: option.splits if_splits simp: latestRow_None)+

lemma latestRow_sorted:
  assumes "sorted_wrt (<) (map al_createdAt rs)" and "rs \<noteq> []"
  shows "latestRow rs = Some (last rs)"
proof -
  have "latestRow (butlast rs @ [last rs]) = Some (last rs)"
  proof (rule latestRow_snoc)
    fix q assume q: "q \<in> set (butlast rs)"
    have "sorted_wrt (<) (map al_createdAt (butlast rs @ [last rs]))" using assms by simp
    with q show "al_createdAt q \<le> al_createdAt (last rs)"
      by (auto simp: sorted_wrt_append simp del: append_butlast_last_id intro: less_imp_le)
  qed
  with assms(2) show ?thesis by simp
qed

lemma chainFrom_snoc:
  "chainFrom h (rs @ [r]) \<longleftrightarrow> chainFrom h rs \<and>
     (\<exists>g. metaHash r = Some (JStr g)) \<and> metaPrevHash r = Some (if rs = [] then h else the (metaHash (last rs)))"
  by (induction rs arbitrary: h) auto

lemma map_of_filter_key: "map_of (filter (\<lambda>(k, _). k \<noteq> x) fs) x = None"
  by (induction fs) auto

lemma written_meta:
  assumes "al_details r = JObj (filter (\<lambda>(k, _). k \<noteq> ''__meta'') fs @ [(''__meta'', m)])"
  shows "metaHash r = jprop m ''hash''" and "metaPrevHash r = jprop m ''prevHash''"
proof -
  have "jprop (al_details r) ''__meta'' = Some m"
    using assms by (simp add: jprop_def map_of_filter_key map_add_def)
  then show "metaHash r = jprop m ''hash''" and "metaPrevHash r = jprop m ''prevHash''"
    by (simp_all add: metaHash_def metaPrevHash_def)
qed

lemma run_createAuditLog:
  "\<exists>row. createAuditLog hashOf now i c s = (Inr row, s\<lparr>auditLogs := auditLogs s @ [row]\<rparr>) \<and>
     al_tenantId row = ai_tenantId i \<and> al_action row = ai_action i \<and> al_resource row = ai_resource i \<and>
     (let previous = latestRow (tenantRows (ai_tenantId i) (auditLogs s));
          prev = (case previous of None \<Rightarrow> JNull | Some p \<Rightarrow> orElse (metaHash p) JNull)
      in metaPrevHash row = Some prev \<and> metaHash row = Some (JStr (hashOf (canonicalOf i prev))) \<and>
         al_createdAt row = (case c of None \<Rightarrow> now
           | Some t \<Rightarrow> (case previous of None \<Rightarrow> t | Some p \<Rightarrow> max t (al_createdAt p + 1))))"
  by (auto simp: createAuditLog_def prog_defs Let_def written_meta jprop_def max_def split: option.split)


definition sampleAudit :: CreateAuditLogInput where
  "sampleAudit = \<lparr>ai_tenantId = ''t1'', ai_userId = None, ai_action = ''A'', ai_resource = ''tenant'',
     ai_resourceId = None, ai_details = Some (JObj [])\<rparr>"


end
