(* ===== verification/Tenant_Subscription.thy ===== *)
theory Tenant_Subscription
  imports Plan_Catalog Exact_Money Audit_Log
begin

text \<open>
  The subscription of a tenant and the job that suspends unpaid ones:
  \<^verbatim>\<open>backend/src/application/services/tenant-subscription-service.ts\<close> and
  \<^verbatim>\<open>backend/src/application/services/billing-dunning-service.ts\<close>.  The database keeps one row per
  tenant; its exact price column is written by the trigger of the migration
  \<^verbatim>\<open>20260713130000_exact_money_shadow_columns\<close>.  \<open>money_env\<close> collects what is configured or outside the
  program: the read mode, the decimal library, the database's conversion of a binary64 value to
  \<open>numeric\<close>, and whether the raw query of the exact columns succeeds.
\<close>

section \<open>Data\<close>

datatype TenantSubscriptionStatus = PENDING | ACTIVE | SUSPENDED | EXPIRED | TRIAL | PAST_DUE | CANCELED
datatype Provider = Stripe | Local

fun statusName :: "TenantSubscriptionStatus \<Rightarrow> string" where
  "statusName PENDING = ''PENDING''" | "statusName ACTIVE = ''ACTIVE''" | "statusName SUSPENDED = ''SUSPENDED''"
| "statusName EXPIRED = ''EXPIRED''" | "statusName TRIAL = ''TRIAL''" | "statusName PAST_DUE = ''PAST_DUE''"
| "statusName CANCELED = ''CANCELED''"

definition subscriptionStatuses :: "TenantSubscriptionStatus list" where
  "subscriptionStatuses = [PENDING, ACTIVE, SUSPENDED, EXPIRED, TRIAL, PAST_DUE, CANCELED]"

fun providerName :: "Provider \<Rightarrow> string" where
  "providerName Stripe = ''stripe''" | "providerName Local = ''local''"

text \<open>A row of the table \<open>TenantSubscription\<close>.\<close>

record TenantSubscription =
  ts_id :: string
  ts_tenantId :: string
  ts_provider :: string
  ts_plan :: string
  ts_billingCycle :: string
  ts_status :: string
  ts_seats :: int
  ts_priceMonthly :: "number option"
  ts_priceMonthlyExact :: "rat option"
  ts_stripeCustomerId :: "string option"
  ts_stripeSubscriptionId :: "string option"
  ts_currentPeriodEnd :: "instant option"
  ts_trialEndsAt :: "instant option"
  ts_canceledAt :: "instant option"
  ts_createdAt :: instant
  ts_updatedAt :: instant

record TenantSubscriptionSnapshot =
  sn_plan :: SaasPlan
  sn_seats :: int
  sn_status :: TenantSubscriptionStatus
  sn_expiresAt :: "instant option"
  sn_updatedAt :: "instant option"
  sn_priceMonthly :: "number option"
  sn_billingCycle :: BillingCycle
  sn_provider :: Provider
  sn_stripeCustomerId :: "string option"
  sn_stripeSubscriptionId :: "string option"

text \<open>A date of the input is the instant its text denotes, \<open>None\<close> when it is missing or denotes none.\<close>

record TenantSubscriptionUpsertInput =
  in_tenantId :: string
  in_plan :: string
  in_seats :: number
  in_status :: string
  in_expiresAt :: "instant option"
  in_priceMonthly :: "number option"
  in_billingCycle :: "string option"
  in_provider :: "Provider option"
  in_stripeCustomerId :: "string option"
  in_stripeSubscriptionId :: "string option"

text \<open>\<open>gd_expectedCurrent = None\<close> is a guard without an expectation, \<open>Some None\<close> expects no row.\<close>

record StripeTenantSubscriptionGuard =
  gd_stripeSubscriptionId :: string
  gd_stripeCustomerId :: "string option"
  gd_allowSubscriptionReplacement :: bool
  gd_expectedCurrent :: "TenantSubscriptionSnapshot option option"

datatype RefusalReason = SUBSCRIPTION_REPLACED | CUSTOMER_MISMATCH | STALE_SNAPSHOT

record StripeTenantSubscriptionMutationResult =
  mr_applied :: bool
  mr_previous :: "TenantSubscriptionSnapshot option"
  mr_subscription :: "TenantSubscriptionSnapshot option"
  mr_reason :: "RefusalReason option"

record sub_db = audit_db +
  subscriptions :: "TenantSubscription list"

record money_env =
  me_mode :: ExactMoneyReadMode
  me_lib :: decimal_lib
  me_numeric :: "number \<Rightarrow> rat"
  me_queryOk :: bool

section \<open>Normalisation\<close>

definition toValidStatus :: "json option \<Rightarrow> TenantSubscriptionStatus" where
  "toValidStatus v = orElse (enumOf statusName subscriptionStatuses v) PENDING"

definition toPositiveSeats :: "number \<Rightarrow> int" where
  "toPositiveSeats n = (if 0 < n then \<lfloor>n\<rfloor> else 3)"

definition toPositivePriceOrNull :: "number option \<Rightarrow> number option" where
  "toPositivePriceOrNull v = (case v of None \<Rightarrow> None | Some n \<Rightarrow> if 0 < n then Some (toFixed2 n) else None)"

definition providerOf :: "string \<Rightarrow> Provider" where
  "providerOf s = (if s = ''stripe'' then Stripe else Local)"

definition snapshotFromRow :: "TenantSubscription \<Rightarrow> TenantSubscriptionSnapshot" where
  "snapshotFromRow row =
     \<lparr>sn_plan = ensureKnownPlan (Some (ts_plan row)),
      sn_seats = toPositiveSeats (of_int (ts_seats row)),
      sn_status = toValidStatus (Some (JStr (ts_status row))),
      sn_expiresAt = (case ts_currentPeriodEnd row of None \<Rightarrow> ts_trialEndsAt row | Some e \<Rightarrow> Some e),
      sn_updatedAt = Some (ts_updatedAt row),
      sn_priceMonthly = toPositivePriceOrNull (ts_priceMonthly row),
      sn_billingCycle = normalizeBillingCycle (Some (ts_billingCycle row)),
      sn_provider = providerOf (ts_provider row),
      sn_stripeCustomerId = ts_stripeCustomerId row,
      sn_stripeSubscriptionId = ts_stripeSubscriptionId row\<rparr>"

fun sameSubscriptionSnapshot ::
  "TenantSubscriptionSnapshot option \<Rightarrow> TenantSubscriptionSnapshot option \<Rightarrow> bool" where
  "sameSubscriptionSnapshot (Some a) (Some e) \<longleftrightarrow>
     sn_plan a = sn_plan e \<and> sn_seats a = sn_seats e \<and> sn_status a = sn_status e \<and>
     sn_expiresAt a = sn_expiresAt e \<and> sn_updatedAt a = sn_updatedAt e \<and>
     sn_priceMonthly a = sn_priceMonthly e \<and> sn_billingCycle a = sn_billingCycle e \<and>
     sn_provider a = sn_provider e \<and> sn_stripeCustomerId a = sn_stripeCustomerId e \<and>
     sn_stripeSubscriptionId a = sn_stripeSubscriptionId e"
| "sameSubscriptionSnapshot None None \<longleftrightarrow> True"
| "sameSubscriptionSnapshot _ _ \<longleftrightarrow> False"

section \<open>The table\<close>

text \<open>\<open>ROUND(price::numeric, 2)\<close> of the trigger, half away from zero.\<close>

definition pgRound2 :: "rat \<Rightarrow> rat" where
  "pgRound2 x = sgn x * (of_int \<lfloor>\<bar>x\<bar> * 100 + 1 / 2\<rfloor> / 100)"

definition syncExactPrice :: "money_env \<Rightarrow> TenantSubscription \<Rightarrow> TenantSubscription" where
  "syncExactPrice E row = row\<lparr>ts_priceMonthlyExact := map_option (\<lambda>n. pgRound2 (me_numeric E n)) (ts_priceMonthly row)\<rparr>"

record SubscriptionData =
  sd_provider :: Provider
  sd_plan :: SaasPlan
  sd_billingCycle :: BillingCycle
  sd_status :: TenantSubscriptionStatus
  sd_seats :: int
  sd_priceMonthly :: "number option"
  sd_stripeCustomerId :: "string option"
  sd_stripeSubscriptionId :: "string option"
  sd_currentPeriodEnd :: "instant option"

text \<open>The columns \<open>create\<close> and \<open>update\<close> write, the trigger included.\<close>

definition writeData :: "money_env \<Rightarrow> instant \<Rightarrow> SubscriptionData \<Rightarrow> TenantSubscription \<Rightarrow> TenantSubscription" where
  "writeData E now d row = syncExactPrice E
     (row\<lparr>ts_provider := providerName (sd_provider d), ts_plan := planCode (sd_plan d),
          ts_billingCycle := cycleName (sd_billingCycle d), ts_status := statusName (sd_status d),
          ts_seats := sd_seats d, ts_priceMonthly := sd_priceMonthly d,
          ts_stripeCustomerId := sd_stripeCustomerId d, ts_stripeSubscriptionId := sd_stripeSubscriptionId d,
          ts_currentPeriodEnd := sd_currentPeriodEnd d,
          ts_trialEndsAt := (if sd_status d = TRIAL then sd_currentPeriodEnd d else None),
          ts_canceledAt := (if sd_status d = CANCELED then Some now else None),
          ts_updatedAt := now\<rparr>)"

definition blankRow :: "string \<Rightarrow> string \<Rightarrow> instant \<Rightarrow> TenantSubscription" where
  "blankRow newId t now =
     \<lparr>ts_id = newId, ts_tenantId = t, ts_provider = ''local'', ts_plan = ''STARTER'', ts_billingCycle = ''monthly'',
      ts_status = ''ACTIVE'', ts_seats = 3, ts_priceMonthly = None, ts_priceMonthlyExact = None,
      ts_stripeCustomerId = None, ts_stripeSubscriptionId = None, ts_currentPeriodEnd = None, ts_trialEndsAt = None,
      ts_canceledAt = None, ts_createdAt = now, ts_updatedAt = now\<rparr>"

definition findByTenant :: "string \<Rightarrow> TenantSubscription list \<Rightarrow> TenantSubscription option" where
  "findByTenant t rows = findFirst (\<lambda>r. ts_tenantId r = t) rows"

definition upsertRow ::
  "money_env \<Rightarrow> instant \<Rightarrow> string \<Rightarrow> string \<Rightarrow> SubscriptionData \<Rightarrow> TenantSubscription list \<Rightarrow>
   TenantSubscription \<times> TenantSubscription list" where
  "upsertRow E now newId t d rows =
     (case findByTenant t rows of
        None \<Rightarrow> (let row = writeData E now d (blankRow newId t now) in (row, rows @ [row]))
      | Some r \<Rightarrow> (writeData E now d r, updateMany (\<lambda>q. ts_tenantId q = t) (writeData E now d) rows))"

text \<open>The table through the exact-money reader.\<close>

definition subscriptionView :: "TenantSubscription moneyView" where
  "subscriptionView =
     \<lparr>mv_id = ts_id, mv_has = (\<lambda>r f. f = ''priceMonthly''),
      mv_get = (\<lambda>r f. if f = ''priceMonthly'' then ts_priceMonthly r else None),
      mv_set = (\<lambda>r f v. if f = ''priceMonthly'' then r\<lparr>ts_priceMonthly := v\<rparr> else r)\<rparr>"

definition exactPriceQuery ::
  "money_env \<Rightarrow> TenantSubscription list \<Rightarrow> string \<Rightarrow> string list \<Rightarrow> string option \<Rightarrow> exactRow list option" where
  "exactPriceQuery E rows table ids tenantId =
     (if me_queryOk E \<and> table = ''TenantSubscription''
      then Some (map (\<lambda>r. (ts_id r, \<lambda>f. if f = ''priceMonthlyExact'' then ts_priceMonthlyExact r else None))
             (filter (\<lambda>r. ts_id r \<in> set ids \<and> (case tenantId of None \<Rightarrow> True | Some t \<Rightarrow> t = '''' \<or> ts_tenantId r = t)) rows))
      else None)"

definition hydrateSubscriptions ::
  "money_env \<Rightarrow> TenantSubscription list \<Rightarrow> TenantSubscription list \<Rightarrow> string option \<Rightarrow> TenantSubscription list" where
  "hydrateSubscriptions E table rows tenantId =
     fst (hydrate (me_mode E) (me_lib E) subscriptionView (exactPriceQuery E table) ''TenantSubscription'' rows tenantId)"

section \<open>Operations\<close>

definition readTenantSubscription :: "money_env \<Rightarrow> string \<Rightarrow> 'z sub_db_scheme \<Rightarrow> TenantSubscriptionSnapshot option" where
  "readTenantSubscription E t s =
     (case findByTenant t (subscriptions s) of None \<Rightarrow> None
      | Some row \<Rightarrow> Some (snapshotFromRow (hd (hydrateSubscriptions E (subscriptions s) [row] (Some t)))))"

definition subscriptionData ::
  "TenantSubscriptionUpsertInput \<Rightarrow> Provider \<Rightarrow> string option \<Rightarrow> string option \<Rightarrow> SubscriptionData" where
  "subscriptionData i provider customer subscription =
     \<lparr>sd_provider = provider, sd_plan = ensureKnownPlan (Some (in_plan i)),
      sd_billingCycle = normalizeBillingCycle (in_billingCycle i),
      sd_status = toValidStatus (Some (JStr (in_status i))), sd_seats = toPositiveSeats (in_seats i),
      sd_priceMonthly = toPositivePriceOrNull (in_priceMonthly i),
      sd_stripeCustomerId = customer, sd_stripeSubscriptionId = subscription, sd_currentPeriodEnd = in_expiresAt i\<rparr>"

definition upsertTenantSubscription ::
  "money_env \<Rightarrow> instant \<Rightarrow> string \<Rightarrow> TenantSubscriptionUpsertInput \<Rightarrow>
   (app_error, 'z sub_db_scheme, TenantSubscriptionSnapshot) prog" where
  "upsertTenantSubscription E now newId i =
     (let provider = (if in_provider i = Some Stripe then Stripe else Local);
          customer = (if provider = Stripe then in_stripeCustomerId i else None);
          subscription = (if provider = Stripe then in_stripeSubscriptionId i else None)
      in bindP (getsP (\<lambda>s. upsertRow E now newId (in_tenantId i) (subscriptionData i provider customer subscription) (subscriptions s)))
         (\<lambda>(row, rows). seqP (modifyP (\<lambda>s. s\<lparr>subscriptions := rows\<rparr>))
           (getsP (\<lambda>s. snapshotFromRow (hd (hydrateSubscriptions E (subscriptions s) [row] (Some (in_tenantId i))))))))"

definition upsertStripeTenantSubscriptionIfCurrent ::
  "money_env \<Rightarrow> instant \<Rightarrow> string \<Rightarrow> TenantSubscriptionUpsertInput \<Rightarrow> StripeTenantSubscriptionGuard \<Rightarrow>
   (app_error, 'z sub_db_scheme, StripeTenantSubscriptionMutationResult) prog" where
  "upsertStripeTenantSubscriptionIfCurrent E now newId i g =
     (let customer = (case gd_stripeCustomerId g of None \<Rightarrow> in_stripeCustomerId i | Some c \<Rightarrow> Some c) in
      atomicP (bindP (getsP (\<lambda>s. findByTenant (in_tenantId i) (subscriptions s))) (\<lambda>currentRow.
        let previous = map_option snapshotFromRow currentRow;
            refuse = (\<lambda>reason. returnP \<lparr>mr_applied = False, mr_previous = previous, mr_subscription = previous, mr_reason = Some reason\<rparr>);
            replacementAllowed = gd_allowSubscriptionReplacement g
        in if (case gd_expectedCurrent g of None \<Rightarrow> False | Some e \<Rightarrow> \<not> sameSubscriptionSnapshot previous e)
           then refuse STALE_SNAPSHOT
           else if (case currentRow of None \<Rightarrow> False
              | Some r \<Rightarrow> ts_provider r = ''stripe'' \<and> truthy (ts_stripeSubscriptionId r) \<and>
                  ts_stripeSubscriptionId r \<noteq> Some (gd_stripeSubscriptionId g)) \<and> \<not> replacementAllowed
           then refuse SUBSCRIPTION_REPLACED
           else if (case currentRow of None \<Rightarrow> False
              | Some r \<Rightarrow> ts_provider r = ''stripe'' \<and> truthy (ts_stripeCustomerId r) \<and> truthy customer \<and>
                  ts_stripeCustomerId r \<noteq> customer) \<and> \<not> replacementAllowed
           then refuse CUSTOMER_MISMATCH
           else bindP (getsP (\<lambda>s. upsertRow E now newId (in_tenantId i)
                    (subscriptionData i Stripe customer (Some (gd_stripeSubscriptionId g))) (subscriptions s)))
                (\<lambda>(row, rows). seqP (modifyP (\<lambda>s. s\<lparr>subscriptions := rows\<rparr>))
                  (returnP \<lparr>mr_applied = True, mr_previous = previous, mr_subscription = Some (snapshotFromRow row), mr_reason = None\<rparr>)))))"

section \<open>Suspending unpaid subscriptions\<close>

definition findOverduePastDueSubscriptions ::
  "money_env \<Rightarrow> instant \<Rightarrow> nat \<Rightarrow> TenantSubscription list \<Rightarrow> TenantSubscription list" where
  "findOverduePastDueSubscriptions E cutoff n rows =
     hydrateSubscriptions E rows
       (take n (sort_key ts_updatedAt
         (filter (\<lambda>r. ts_provider r = ''stripe'' \<and> ts_status r = ''PAST_DUE'' \<and> ts_updatedAt r \<le> cutoff) rows)))
       None"

definition dunningSnapshot :: "TenantSubscription \<Rightarrow> TenantSubscriptionSnapshot" where
  "dunningSnapshot row =
     \<lparr>sn_plan = ensureKnownPlan (Some (ts_plan row)), sn_seats = ts_seats row, sn_status = PAST_DUE,
      sn_expiresAt = ts_currentPeriodEnd row, sn_updatedAt = Some (ts_updatedAt row),
      sn_priceMonthly = ts_priceMonthly row, sn_billingCycle = normalizeBillingCycle (Some (ts_billingCycle row)),
      sn_provider = Stripe, sn_stripeCustomerId = ts_stripeCustomerId row,
      sn_stripeSubscriptionId = ts_stripeSubscriptionId row\<rparr>"

definition snapshotJson :: "TenantSubscriptionSnapshot \<Rightarrow> json" where
  "snapshotJson n = JObj
     [(''plan'', JStr (planCode (sn_plan n))), (''seats'', JNum (of_int (sn_seats n))),
      (''status'', JStr (statusName (sn_status n))), (''expiresAt'', jisoOrNull (sn_expiresAt n)),
      (''updatedAt'', jisoOrNull (sn_updatedAt n)), (''priceMonthly'', jnumOrNull (sn_priceMonthly n)),
      (''billingCycle'', JStr (cycleName (sn_billingCycle n))), (''provider'', JStr (providerName (sn_provider n))),
      (''stripeCustomerId'', jstrOrNull (sn_stripeCustomerId n)),
      (''stripeSubscriptionId'', jstrOrNull (sn_stripeSubscriptionId n))]"

text \<open>\<open>notifyOk t\<close>: the notifier sends the mail to the tenant \<open>t\<close>; otherwise it throws.\<close>

definition notifySuspended ::
  "(json \<Rightarrow> string) \<Rightarrow> (string \<Rightarrow> bool) \<Rightarrow> instant \<Rightarrow> string \<Rightarrow> (app_error, 'z sub_db_scheme, unit) prog" where
  "notifySuspended hashOf notifyOk clock t =
     (if notifyOk t then returnP ()
      else seqP (createAuditLog hashOf clock
        \<lparr>ai_tenantId = t, ai_userId = None, ai_action = ''BILLING_NOTIFICATION_FAILED'', ai_resource = ''billing'',
         ai_resourceId = Some t,
         ai_details = Some (JObj [(''action'', JStr ''BILLING_SUBSCRIPTION_SUSPENDED''),
           (''source'', JStr ''billing_dunning_cron'')])\<rparr> None) (returnP ()))"

definition suspendInput :: "TenantSubscription \<Rightarrow> TenantSubscriptionUpsertInput" where
  "suspendInput row =
     \<lparr>in_tenantId = ts_tenantId row, in_plan = ts_plan row, in_seats = of_int (ts_seats row),
      in_status = ''SUSPENDED'', in_expiresAt = ts_currentPeriodEnd row, in_priceMonthly = ts_priceMonthly row,
      in_billingCycle = Some (ts_billingCycle row), in_provider = Some Stripe,
      in_stripeCustomerId = ts_stripeCustomerId row, in_stripeSubscriptionId = ts_stripeSubscriptionId row\<rparr>"

text \<open>
  The body of the loop over the overdue rows; \<open>clock\<close> is the time of its writes and \<open>newId\<close> the
  identifier of a row the upsert would have to create.
\<close>

definition suspendOne ::
  "money_env \<Rightarrow> (json \<Rightarrow> string) \<Rightarrow> (string \<Rightarrow> bool) \<Rightarrow> instant \<Rightarrow> string \<Rightarrow> int \<Rightarrow> instant \<Rightarrow> TenantSubscription \<Rightarrow>
   (app_error, 'z sub_db_scheme, string) prog" where
  "suspendOne E hashOf notifyOk clock newId graceDays cutoff row =
     (let previous = dunningSnapshot row in
      bindP (upsertTenantSubscription E clock newId (suspendInput row)) (\<lambda>nxt.
      seqP (createAuditLog hashOf clock
        \<lparr>ai_tenantId = ts_tenantId row, ai_userId = None, ai_action = ''PLATFORM_LICENSE_UPDATED'',
         ai_resource = ''tenant'', ai_resourceId = Some (ts_tenantId row),
         ai_details = Some (JObj [(''source'', JStr ''billing_dunning_cron''), (''persisted'', JBool True),
           (''graceDays'', JNum (of_int graceDays)), (''cutoff'', JStr (toISOString cutoff)),
           (''before'', snapshotJson previous), (''after'', snapshotJson nxt)])\<rparr> None)
      (seqP (notifySuspended hashOf notifyOk clock (ts_tenantId row))
      (returnP (ts_tenantId row)))))"

record DunningResult =
  dr_checked :: nat
  dr_suspended :: nat
  dr_tenantIds :: "string list"

definition suspendOverduePastDueSubscriptions ::
  "money_env \<Rightarrow> (json \<Rightarrow> string) \<Rightarrow> (string \<Rightarrow> bool) \<Rightarrow> instant \<Rightarrow> string \<Rightarrow> int \<Rightarrow> int \<Rightarrow> instant \<Rightarrow>
   (app_error, 'z sub_db_scheme, DunningResult) prog" where
  "suspendOverduePastDueSubscriptions E hashOf notifyOk clock newId envGraceDays envBatchSize now =
     (let graceDays = max 0 envGraceDays;
          batchSize = max 1 envBatchSize;
          cutoff = now - graceDays * 24 * 60 * 60 * 1000
      in bindP (getsP (\<lambda>s. findOverduePastDueSubscriptions E cutoff (nat batchSize) (subscriptions s))) (\<lambda>rows.
         bindP (forEachP (suspendOne E hashOf notifyOk clock newId graceDays cutoff) rows) (\<lambda>ids.
         returnP \<lparr>dr_checked = length rows, dr_suspended = length ids, dr_tenantIds = ids\<rparr>)))"

section \<open>Prices in cents\<close>

text \<open>
  What the proofs use of the environment: the documented behaviour of the decimal library and that the
  database converts a binary64 value to \<open>numeric\<close> with at least fourteen correct digits.
\<close>

definition money_ok :: "money_env \<Rightarrow> bool" where
  "money_ok E \<longleftrightarrow> decimal_ok (me_lib E) \<and> (\<forall>n. \<bar>me_numeric E n - n\<bar> \<le> \<bar>n\<bar> / 10 ^ 14)"

text \<open>A stored price is the number nearest to an amount in cents, and the exact column is this amount.\<close>

definition wfPrice :: "number option \<Rightarrow> rat option \<Rightarrow> bool" where
  "wfPrice price exact \<longleftrightarrow>
     (case price of None \<Rightarrow> exact = None
      | Some n \<Rightarrow> \<exists>k. 0 \<le> k \<and> k \<le> 10 ^ 11 \<and> n = fl (of_int k / 100) \<and> exact = Some (of_int k / 100))"

lemma cents_near:
  assumes "0 \<le> k" "k \<le> 10 ^ 11"
  shows "\<bar>fl (of_int k / 100) - of_int k / 100\<bar> \<le> 10 ^ 9 / 2 ^ 53"
proof (rule fl_near)
  have "(of_int k :: rat) \<le> of_int (10 ^ 11)" using assms(2) by (simp only: of_int_le_iff)
  then show "\<bar>of_int k / 100 :: rat\<bar> \<le> 10 ^ 9" using assms(1) by simp
qed

lemma floor_cents: "\<bar>x - of_int k / 100\<bar> < 1 / 200 \<Longrightarrow> \<lfloor>x * 100 + 1 / 2\<rfloor> = (k :: int)" for x :: rat
proof -
  assume "\<bar>x - of_int k / 100\<bar> < 1 / 200"
  then have "of_int k \<le> x * 100 + 1 / 2" and "x * 100 + 1 / 2 < of_int k + 1" by linarith+
  then show ?thesis by (rule floor_unique)
qed

lemma toFixed2_cents: "0 \<le> k \<Longrightarrow> k \<le> 10 ^ 11 \<Longrightarrow> toFixed2 (fl (of_int k / 100)) = fl (of_int k / 100)"
  unfolding toFixed2_def by (subst floor_cents [of _ k]) (use cents_near [of k] in simp_all)

lemma toFixed2_shape:
  assumes "0 < n" "n \<le> 10 ^ 9"
  shows "\<exists>k. 0 \<le> k \<and> k \<le> 10 ^ 11 \<and> toFixed2 n = fl (of_int k / 100)"
proof (intro exI conjI)
  have "n * 100 + 1 / 2 < of_int (10 ^ 11 + 1)" using assms(2) by simp
  then show "\<lfloor>n * 100 + 1 / 2\<rfloor> \<le> 10 ^ 11" by linarith
  show "0 \<le> \<lfloor>n * 100 + 1 / 2\<rfloor>" using assms(1) by simp
  show "toFixed2 n = fl (of_int \<lfloor>n * 100 + 1 / 2\<rfloor> / 100)" by (rule toFixed2_def)
qed

lemma numeric_cents:
  assumes "money_ok E" "0 \<le> k" "k \<le> 10 ^ 11"
  shows "pgRound2 (me_numeric E (fl (of_int k / 100))) = of_int k / 100"
proof -
  let ?n = "fl (of_int k / 100)" let ?x = "me_numeric E ?n"
  have b: "(of_int k :: rat) \<le> 10 ^ 11" "(0 :: rat) \<le> of_int k"
    using assms(2,3) by (metis of_int_le_iff of_int_numeral of_int_power) (use assms(2) in simp)
  have near: "\<bar>?n - of_int k / 100\<bar> \<le> 10 ^ 9 / 2 ^ 53" using assms by (intro cents_near)
  have n0: "0 \<le> ?n" using assms(2) by (intro fl_nonneg) simp
  have err: "\<bar>?x - ?n\<bar> \<le> \<bar>?n\<bar> / 10 ^ 14" using assms(1) by (simp add: money_ok_def)
  have "(10 ^ 9 / 2 ^ 53 :: rat) \<le> 10 ^ 9" by simp
  moreover have "0 \<le> (of_int k / 100 :: rat)" "(of_int k / 100 :: rat) \<le> 10 ^ 9" using b by simp_all
  ultimately have "\<bar>?n\<bar> \<le> 2 * 10 ^ 9" using near by linarith
  then have "\<bar>?n\<bar> / 10 ^ 14 \<le> 2 * 10 ^ 9 / 10 ^ 14" by (intro divide_right_mono) simp_all
  moreover have "2 * 10 ^ 9 / 10 ^ 14 + 10 ^ 9 / 2 ^ 53 < (1 / 200 :: rat)" by simp
  ultimately have close: "\<bar>?x - of_int k / 100\<bar> < 1 / 200" using near err by linarith
  have x0: "0 \<le> ?x"
  proof -
    have "?n / 10 ^ 14 \<le> ?n" using n0 by (simp add: field_simps)
    then show ?thesis using err n0 by linarith
  qed
  show ?thesis
  proof (cases "?x = 0")
    case True
    with close have "\<bar>of_int k :: rat\<bar> < 1" by simp
    then have "k = 0" by linarith
    with True show ?thesis by (simp add: pgRound2_def)
  next
    case False
    with x0 have "0 < ?x" by simp
    then show ?thesis using floor_cents [OF close] by (simp add: pgRound2_def)
  qed
qed

lemma wfPrice_written:
  assumes "money_ok E" and "\<And>n. p = Some n \<Longrightarrow> n \<le> 10 ^ 9"
  shows "wfPrice (toPositivePriceOrNull p) (map_option (\<lambda>n. pgRound2 (me_numeric E n)) (toPositivePriceOrNull p))"
proof (cases "toPositivePriceOrNull p")
  case None
  then show ?thesis by (simp add: wfPrice_def)
next
  case (Some m)
  then obtain n where "p = Some n" "0 < n" "m = toFixed2 n"
    by (auto simp: toPositivePriceOrNull_def split: option.splits if_splits)
  with assms(2) toFixed2_shape [of n] obtain k where "0 \<le> k" "k \<le> 10 ^ 11" "m = fl (of_int k / 100)" by auto
  with Some show ?thesis using numeric_cents [OF assms(1)] by (auto simp: wfPrice_def)
qed

section \<open>The invariant of the table\<close>

definition wfRow :: "TenantSubscription \<Rightarrow> bool" where
  "wfRow r \<longleftrightarrow>
     wfPrice (ts_priceMonthly r) (ts_priceMonthlyExact r) \<and>
     (\<exists>p. ts_provider r = providerName p) \<and> (\<exists>p. ts_plan r = planCode p) \<and>
     (\<exists>c. ts_billingCycle r = cycleName c) \<and> (\<exists>st. ts_status r = statusName st) \<and>
     (ts_currentPeriodEnd r = None \<longrightarrow> ts_trialEndsAt r = None)"

definition subInv :: "'z sub_db_scheme \<Rightarrow> bool" where
  "subInv s \<longleftrightarrow> distinct (map ts_id (subscriptions s)) \<and> distinct (map ts_tenantId (subscriptions s)) \<and>
     (\<forall>r \<in> set (subscriptions s). wfRow r)"

interpretation sub_view: money_view subscriptionView
  by unfold_locales (auto simp: subscriptionView_def)

lemma selected_price [simp]:
  "filter (\<lambda>f. \<exists>r \<in> set rows. mv_has subscriptionView r (f_legacyField f)) (fieldsByModel ''TenantSubscription'')
     = (if rows = [] then [] else [exactField ''TenantSubscription'' ''priceMonthly'' 2 True])"
  by (cases rows) (auto simp: fieldsByModel_def EXACT_NUMERIC_FIELDS_def exactField_def subscriptionView_def)

lemma exactField_table: "f_table (exactField m l sc b) = m"
  by (simp add: exactField_def)

lemma subscriptionView_id: "mv_id subscriptionView = ts_id"
  by (simp add: subscriptionView_def)

text \<open>On a row of the table the exact price reads as the stored price, so every mode returns the row as it is.\<close>

lemma hydrateFields_wf:
  assumes "money_ok E" and "wfPrice (ts_priceMonthly r) (ts_priceMonthlyExact r)"
    and row: "row = Some (\<lambda>f. if f = ''priceMonthlyExact'' then ts_priceMonthlyExact r else None)"
  shows "fst (hydrateFields m (me_lib E) subscriptionView [exactField ''TenantSubscription'' ''priceMonthly'' 2 True] row r) = r"
proof (cases "ts_priceMonthly r")
  case None
  with assms show ?thesis
    by (simp add: hydrateFields_def hydrateField_def exactField_def subscriptionView_def wfPrice_def normalizeDecimal_def Let_def)
next
  case (Some n)
  with assms(2) obtain k where k: "n = fl (of_int k / 100)" "ts_priceMonthlyExact r = Some (of_int k / 100)"
    by (auto simp: wfPrice_def)
  have "toDecimalPlaces (me_lib E) (of_int k / 100) 2 = of_int k / 100 \<and> r\<lparr>ts_priceMonthly := Some n\<rparr> = r"
    using assms(1) Some by (intro conjI two_places_unique) (simp_all add: money_ok_def)
  with Some k row show ?thesis
    by (simp del: eq_divide_eq_numeral1 divide_eq_eq_numeral1 add: hydrateFields_def hydrateField_def exactField_def subscriptionView_def normalizeDecimal_def Let_def)
qed

lemma hydrateSubscriptions_wf:
  assumes "money_ok E" and inv: "distinct (map ts_id table)" and wf: "\<forall>r \<in> set table. wfRow r"
    and rows: "set rows \<subseteq> set table" and tenant: "\<And>t r. tid = Some t \<Longrightarrow> r \<in> set rows \<Longrightarrow> ts_tenantId r = t"
  shows "hydrateSubscriptions E table rows tid = rows"
proof -
  let ?f = "\<lambda>r. (ts_id r, \<lambda>f. if f = ''priceMonthlyExact'' then ts_priceMonthlyExact r else None)"
  let ?q = "map ?f (filter (\<lambda>r. ts_id r \<in> set (map ts_id rows) \<and> (case tid of None \<Rightarrow> True | Some t \<Rightarrow> t = '''' \<or> ts_tenantId r = t)) table)"
  have dist: "distinct (map fst (rev ?q))"
    using inv by (auto simp: comp_def distinct_map inj_on_def)
  have found: "map_of (rev ?q) (ts_id r) = Some (snd (?f r))" if "r \<in> set rows" for r
    using that rows tenant dist by (intro map_of_is_SomeI) (auto split: option.split)
  have "fst (hydrateFields (me_mode E) (me_lib E) subscriptionView [exactField ''TenantSubscription'' ''priceMonthly'' 2 True]
      (map_of (rev ?q) (ts_id r)) r) = r" if "r \<in> set rows" for r
    using found [OF that] that rows wf by (intro hydrateFields_wf [OF assms(1)]) (auto simp: wfRow_def)
  then show ?thesis
    by (auto simp: hydrateSubscriptions_def hydrate_def exactPriceQuery_def Let_def exactField_table subscriptionView_id
      intro!: map_idI)
qed

lemma findByTenant_Some: "findByTenant t rows = Some r \<Longrightarrow> r \<in> set rows \<and> ts_tenantId r = t"
  unfolding findByTenant_def by (auto dest: find_Some_iff_mem)

lemma findByTenant_None: "findByTenant t rows = None \<longleftrightarrow> (\<forall>r \<in> set rows. ts_tenantId r \<noteq> t)"
  by (auto simp: findByTenant_def find_None_iff)

lemma findByTenant_mem: "distinct (map ts_tenantId rows) \<Longrightarrow> r \<in> set rows \<Longrightarrow> findByTenant (ts_tenantId r) rows = Some r"
  unfolding findByTenant_def by (rule find_by_key [where key = ts_tenantId]) auto

lemma readTenantSubscription_raw:
  assumes "money_ok E" and "subInv s"
  shows "readTenantSubscription E t s = map_option snapshotFromRow (findByTenant t (subscriptions s))"
proof (cases "findByTenant t (subscriptions s)")
  case (Some r)
  with assms have "hydrateSubscriptions E (subscriptions s) [r] (Some t) = [r]"
    by (intro hydrateSubscriptions_wf) (auto simp: subInv_def dest: findByTenant_Some)
  with Some show ?thesis by (simp add: readTenantSubscription_def)
qed (simp add: readTenantSubscription_def)

text \<open>
  C32: The read mode of the exact money columns is unobservable in a subscription.  On a table whose exact
  prices the trigger has written, reading a subscription in the modes legacy, compare and exact, with the
  raw query of the exact columns succeeding or failing, returns the same snapshot, that of the tenant's row.
\<close>

theorem readTenantSubscription_any_mode:
  assumes "money_ok E" and "subInv s"
  shows "readTenantSubscription (E\<lparr>me_mode := m, me_queryOk := q\<rparr>) t s =
    map_option snapshotFromRow (findByTenant t (subscriptions s))"
  using assms by (intro readTenantSubscription_raw) (simp_all add: money_ok_def)

section \<open>Writing a subscription\<close>

lemma writeData_keys [simp]:
  "ts_id (writeData E now d r) = ts_id r" "ts_tenantId (writeData E now d r) = ts_tenantId r"
  by (simp_all add: writeData_def syncExactPrice_def)

lemma blankRow_keys [simp]: "ts_id (blankRow n t now) = n" "ts_tenantId (blankRow n t now) = t"
  by (simp_all add: blankRow_def)

lemma wfRow_writeData:
  assumes "money_ok E" and "\<And>n. in_priceMonthly i = Some n \<Longrightarrow> n \<le> 10 ^ 9"
  shows "wfRow (writeData E now (subscriptionData i pr c sb) r)"
  using wfPrice_written [OF assms]
  by (simp add: wfRow_def writeData_def syncExactPrice_def subscriptionData_def) (metis statusName.simps(5))

lemma findByTenant_update:
  assumes "\<And>r. ts_tenantId (f r) = ts_tenantId r"
  shows "findByTenant t' (updateMany (\<lambda>q. ts_tenantId q = t) f rows) =
    map_option (\<lambda>r. if t' = t then f r else r) (findByTenant t' rows)"
  by (induction rows) (auto simp: findByTenant_def updateMany_def assms)

lemma findByTenant_snoc:
  "findByTenant t (rows @ [r]) = (case findByTenant t rows of None \<Rightarrow> if ts_tenantId r = t then Some r else None | Some q \<Rightarrow> Some q)"
  by (induction rows) (auto simp: findByTenant_def)

text \<open>An upsert writes the tenant's row, no other one, and keeps the invariant.\<close>

lemma upsertRow_spec:
  assumes "upsertRow E now newId t d rows = (row, rows')"
  shows "row = writeData E now d (orElse (findByTenant t rows) (blankRow newId t now))"
    and "findByTenant t' rows' = (if t' = t then Some row else findByTenant t' rows)"
    and "findByTenant t rows \<noteq> None \<Longrightarrow> map ts_id rows' = map ts_id rows \<and> map ts_tenantId rows' = map ts_tenantId rows"
    and "findByTenant t rows = None \<Longrightarrow> rows' = rows @ [row]"
    and "r \<in> set rows' \<Longrightarrow> (r \<in> set rows \<and> ts_tenantId r \<noteq> t) \<or> (\<exists>q. r = writeData E now d q)"
proof -
  have fresh: "findByTenant t rows = None \<Longrightarrow> r \<in> set rows \<Longrightarrow> ts_tenantId r \<noteq> t"
    by (simp add: findByTenant_None)
  show "row = writeData E now d (orElse (findByTenant t rows) (blankRow newId t now))"
    and "findByTenant t' rows' = (if t' = t then Some row else findByTenant t' rows)"
    and "findByTenant t rows \<noteq> None \<Longrightarrow> map ts_id rows' = map ts_id rows \<and> map ts_tenantId rows' = map ts_tenantId rows"
    and "findByTenant t rows = None \<Longrightarrow> rows' = rows @ [row]"
    and "r \<in> set rows' \<Longrightarrow> (r \<in> set rows \<and> ts_tenantId r \<noteq> t) \<or> (\<exists>q. r = writeData E now d q)"
    using assms fresh
    by (auto simp: upsertRow_def Let_def findByTenant_update findByTenant_snoc in_updateMany map_key_updateMany
      option.map_ident split: option.splits if_splits)
qed

lemma upsertRow_inv:
  assumes "money_ok E" and "subInv s"
    and "findByTenant t (subscriptions s) = None \<Longrightarrow> newId \<notin> ts_id ` set (subscriptions s)"
    and "\<And>n. in_priceMonthly i = Some n \<Longrightarrow> n \<le> 10 ^ 9"
    and up: "upsertRow E now newId t (subscriptionData i pr c sb) (subscriptions s) = (row, rows)"
  shows "subInv (s\<lparr>subscriptions := rows\<rparr>)"
proof -
  have wf: "\<forall>r \<in> set rows. wfRow r"
    using upsertRow_spec(5) [OF up] wfRow_writeData [OF assms(1,4)] assms(2) unfolding subInv_def by blast
  show ?thesis
  proof (cases "findByTenant t (subscriptions s)")
    case None
    then have "rows = subscriptions s @ [row]" "ts_id row = newId" "ts_tenantId row = t"
      using upsertRow_spec(1,4) [OF up] by simp_all
    with None wf assms(2,3) show ?thesis by (auto simp: subInv_def findByTenant_None)
  next
    case (Some r)
    with upsertRow_spec(3) [OF up] wf assms(2) show ?thesis by (auto simp: subInv_def)
  qed
qed

lemma run_upsertTenantSubscription:
  assumes "money_ok E" and "subInv s"
    and "findByTenant (in_tenantId i) (subscriptions s) = None \<Longrightarrow> newId \<notin> ts_id ` set (subscriptions s)"
    and "\<And>n. in_priceMonthly i = Some n \<Longrightarrow> n \<le> 10 ^ 9"
    and pr: "pr = (if in_provider i = Some Stripe then Stripe else Local)"
    and c: "c = (if pr = Stripe then in_stripeCustomerId i else None)"
    and sb: "sb = (if pr = Stripe then in_stripeSubscriptionId i else None)"
    and up: "upsertRow E now newId (in_tenantId i) (subscriptionData i pr c sb) (subscriptions s) = (row, rows)"
  shows "upsertTenantSubscription E now newId i s = (Inr (snapshotFromRow row), s\<lparr>subscriptions := rows\<rparr>)"
    and "subInv (s\<lparr>subscriptions := rows\<rparr>)"
proof -
  show inv: "subInv (s\<lparr>subscriptions := rows\<rparr>)" by (rule upsertRow_inv [OF assms(1-4) up])
  have "row \<in> set rows" "ts_tenantId row = in_tenantId i"
    using upsertRow_spec(2) [OF up, of "in_tenantId i"] by (auto dest: findByTenant_Some)
  then have "hydrateSubscriptions E rows [row] (Some (in_tenantId i)) = [row]"
    using inv assms(1) by (intro hydrateSubscriptions_wf) (auto simp: subInv_def)
  then show "upsertTenantSubscription E now newId i s = (Inr (snapshotFromRow row), s\<lparr>subscriptions := rows\<rparr>)"
    unfolding upsertTenantSubscription_def using up unfolding pr c sb by (simp add: Let_def prog_defs)
qed

lemma statusName_inj [simp]: "statusName a = statusName b \<longleftrightarrow> a = b"
  by (cases a; cases b) simp_all

interpretation status_codec: enum_codec statusName subscriptionStatuses
proof
  show "x \<in> set subscriptionStatuses" for x
    by (cases x) (simp_all add: subscriptionStatuses_def)
qed simp

lemma toValidStatus_name [simp]: "toValidStatus (Some (JStr (statusName st))) = st"
  by (simp add: toValidStatus_def status_codec.enumOf_nm)

lemma normalizeBillingCycle_name [simp]: "normalizeBillingCycle (Some (cycleName c)) = c"
  by (cases c) (simp_all add: normalizeBillingCycle_def)

lemma providerOf_name [simp]: "providerOf (providerName p) = p"
  by (cases p) (simp_all add: providerOf_def)

lemma ensureKnownPlan_code [simp]: "ensureKnownPlan (Some (planCode p)) = p"
  by (simp add: ensureKnownPlan_def)

text \<open>The snapshot of a written row, field by field.\<close>

lemma snapshot_writeData:
  "snapshotFromRow (writeData E now d r) =
     \<lparr>sn_plan = sd_plan d, sn_seats = toPositiveSeats (of_int (sd_seats d)), sn_status = sd_status d,
      sn_expiresAt = sd_currentPeriodEnd d, sn_updatedAt = Some now,
      sn_priceMonthly = toPositivePriceOrNull (sd_priceMonthly d), sn_billingCycle = sd_billingCycle d,
      sn_provider = sd_provider d, sn_stripeCustomerId = sd_stripeCustomerId d,
      sn_stripeSubscriptionId = sd_stripeSubscriptionId d\<rparr>"
  unfolding snapshotFromRow_def writeData_def syncExactPrice_def
  by (simp del: statusName.simps cycleName.simps planCode.simps providerName.simps split: option.split)

lemma toPositivePriceOrNull_again:
  assumes "\<And>n. p = Some n \<Longrightarrow> n \<le> 10 ^ 9"
  shows "toPositivePriceOrNull (toPositivePriceOrNull p) =
    (if toPositivePriceOrNull p = Some 0 then None else toPositivePriceOrNull p)"
proof (cases "toPositivePriceOrNull p")
  case (Some m)
  then obtain n where "p = Some n" "0 < n" "m = toFixed2 n"
    by (auto simp: toPositivePriceOrNull_def split: option.splits if_splits)
  with assms toFixed2_shape [of n] obtain k where k: "0 \<le> k" "k \<le> 10 ^ 11" "m = fl (of_int k / 100)" by auto
  then have "0 \<le> m" "toFixed2 m = m" using toFixed2_cents [of k] by (simp_all add: fl_nonneg)
  with Some show ?thesis by (auto simp: toPositivePriceOrNull_def [of "Some m"])
qed (simp add: toPositivePriceOrNull_def)

text \<open>
  C33: Writing and reading back a subscription.  An upsert with a price of at most a thousand million
  returns, keeps the invariant of the table (one row per tenant, known plan, status, cycle and provider,
  exact price in step with the price), and the snapshot it returns is the one a following read returns in
  any mode: unknown plans, statuses and cycles become STARTER, PENDING and monthly, less than one seat
  becomes three, a price that rounds to nothing becomes none, Stripe identifiers are dropped for a local
  subscription.  No other tenant's subscription changes.
\<close>

theorem upsert_then_read:
  assumes "money_ok E" and "subInv s" and "newId \<notin> ts_id ` set (subscriptions s)"
    and "\<And>n. in_priceMonthly i = Some n \<Longrightarrow> n \<le> 10 ^ 9"
  shows "\<exists>snap s'. upsertTenantSubscription E now newId i s = (Inr snap, s') \<and> subInv s' \<and>
    readTenantSubscription E (in_tenantId i) s' = Some snap \<and>
    (\<forall>t. t \<noteq> in_tenantId i \<longrightarrow> readTenantSubscription E t s' = readTenantSubscription E t s) \<and>
    snap = \<lparr>sn_plan = ensureKnownPlan (Some (in_plan i)), sn_seats = (if 1 \<le> in_seats i then \<lfloor>in_seats i\<rfloor> else 3),
      sn_status = toValidStatus (Some (JStr (in_status i))), sn_expiresAt = in_expiresAt i, sn_updatedAt = Some now,
      sn_priceMonthly = (if toPositivePriceOrNull (in_priceMonthly i) = Some 0 then None else toPositivePriceOrNull (in_priceMonthly i)),
      sn_billingCycle = normalizeBillingCycle (in_billingCycle i),
      sn_provider = (if in_provider i = Some Stripe then Stripe else Local),
      sn_stripeCustomerId = (if in_provider i = Some Stripe then in_stripeCustomerId i else None),
      sn_stripeSubscriptionId = (if in_provider i = Some Stripe then in_stripeSubscriptionId i else None)\<rparr>"
proof -
  define pr c sb where defs: "pr = (if in_provider i = Some Stripe then Stripe else Local)"
    "c = (if pr = Stripe then in_stripeCustomerId i else None)" "sb = (if pr = Stripe then in_stripeSubscriptionId i else None)"
  obtain row rows where up: "upsertRow E now newId (in_tenantId i) (subscriptionData i pr c sb) (subscriptions s) = (row, rows)"
    by (meson surj_pair)
  note run = run_upsertTenantSubscription [OF assms(1,2) assms(3) assms(4) defs up]
  note row = upsertRow_spec(1) [OF up]
  have "toPositiveSeats (of_int (toPositiveSeats (in_seats i))) = (if 1 \<le> in_seats i then \<lfloor>in_seats i\<rfloor> else 3)"
    by (auto simp: toPositiveSeats_def)
  with run row upsertRow_spec(2) [OF up] assms(1,2) show ?thesis
    by (auto simp: readTenantSubscription_raw snapshot_writeData subscriptionData_def toPositivePriceOrNull_again [OF assms(4)] defs)
qed

section \<open>Guarded writes of the payment webhook\<close>

lemma sameSubscriptionSnapshot_eq: "sameSubscriptionSnapshot a e \<longleftrightarrow> a = e"
  by (cases "(a, e)" rule: sameSubscriptionSnapshot.cases) auto

lemmas stripe_run_defs = upsertStripeTenantSubscriptionIfCurrent_def atomicP_def prog_defs Let_def

lemma stripe_outcome:
  assumes "upsertStripeTenantSubscriptionIfCurrent E now newId i g s = (r, s')"
  shows "(\<exists>res. r = Inr res \<and> \<not> mr_applied res \<and> mr_reason res \<noteq> None \<and> s' = s \<and> mr_subscription res = mr_previous res) \<or>
    (\<exists>res. r = Inr res \<and> mr_applied res \<and> mr_reason res = None \<and>
      (\<exists>row rows. upsertRow E now newId (in_tenantId i)
         (subscriptionData i Stripe (case gd_stripeCustomerId g of None \<Rightarrow> in_stripeCustomerId i | Some c \<Rightarrow> Some c)
           (Some (gd_stripeSubscriptionId g))) (subscriptions s) = (row, rows) \<and>
         s' = s\<lparr>subscriptions := rows\<rparr> \<and> mr_subscription res = Some (snapshotFromRow row)))"
  using assms unfolding stripe_run_defs by (auto split: if_splits prod.splits)

text \<open>
  C34: What a Stripe webhook can overwrite.  The guarded write always returns.  It changes the database
  only when it reports that it applied, and then only the tenant's own subscription, which becomes the Stripe
  subscription the guard names.  Unless the guard allows a replacement, it never overwrites a Stripe subscription
  with another subscription identifier, nor one of another customer when the event names its customer; it never
  writes when an expected snapshot is given and the stored one differs.
\<close>

theorem stripe_write_guarded:
  "\<exists>res s'. upsertStripeTenantSubscriptionIfCurrent E now newId i g s = (Inr res, s') \<and>
    (if mr_applied res
     then (\<exists>snap. mr_subscription res = Some snap \<and> sn_provider snap = Stripe \<and>
             sn_stripeSubscriptionId snap = Some (gd_stripeSubscriptionId g) \<and>
             map_option snapshotFromRow (findByTenant (in_tenantId i) (subscriptions s')) = Some snap) \<and>
          {t. findByTenant t (subscriptions s') \<noteq> findByTenant t (subscriptions s)} \<subseteq> {in_tenantId i} \<and>
          auditLogs s' = auditLogs s \<and>
          (gd_expectedCurrent g = None \<or>
           gd_expectedCurrent g = Some (map_option snapshotFromRow (findByTenant (in_tenantId i) (subscriptions s)))) \<and>
          (gd_allowSubscriptionReplacement g \<or>
           (case findByTenant (in_tenantId i) (subscriptions s) of None \<Rightarrow> True
            | Some r \<Rightarrow> if ts_provider r = ''stripe''
                then (if truthy (ts_stripeSubscriptionId r) then ts_stripeSubscriptionId r = Some (gd_stripeSubscriptionId g) else True) \<and>
                     (if truthy (ts_stripeCustomerId r) \<and> truthy (gd_stripeCustomerId g) then ts_stripeCustomerId r = gd_stripeCustomerId g else True)
                else True))
     else s' = s \<and> mr_reason res \<noteq> None \<and> mr_subscription res = mr_previous res)"
proof -
  obtain r s' where run: "upsertStripeTenantSubscriptionIfCurrent E now newId i g s = (r, s')" by (meson surj_pair)
  from stripe_outcome [OF run] consider
      (refused) res where "r = Inr res" "\<not> mr_applied res" "mr_reason res \<noteq> None" "s' = s" "mr_subscription res = mr_previous res"
    | (applied) res row rows where "r = Inr res" "mr_applied res" "mr_reason res = None" "s' = s\<lparr>subscriptions := rows\<rparr>"
      "upsertRow E now newId (in_tenantId i)
         (subscriptionData i Stripe (case gd_stripeCustomerId g of None \<Rightarrow> in_stripeCustomerId i | Some c \<Rightarrow> Some c)
           (Some (gd_stripeSubscriptionId g))) (subscriptions s) = (row, rows)"
      "mr_subscription res = Some (snapshotFromRow row)" by blast
  then show ?thesis
  proof cases
    case refused
    with run show ?thesis by auto
  next
    case applied
    note row = upsertRow_spec(1,2) [OF applied(5)]
    have snap: "sn_provider (snapshotFromRow row) = Stripe"
      "sn_stripeSubscriptionId (snapshotFromRow row) = Some (gd_stripeSubscriptionId g)"
      unfolding row(1) snapshot_writeData by (simp_all add: subscriptionData_def)
    have guards: "gd_expectedCurrent g = None \<or>
        gd_expectedCurrent g = Some (map_option snapshotFromRow (findByTenant (in_tenantId i) (subscriptions s)))"
      "gd_allowSubscriptionReplacement g \<or>
       (case findByTenant (in_tenantId i) (subscriptions s) of None \<Rightarrow> True
        | Some r \<Rightarrow> if ts_provider r = ''stripe''
            then (if truthy (ts_stripeSubscriptionId r) then ts_stripeSubscriptionId r = Some (gd_stripeSubscriptionId g) else True) \<and>
                 (if truthy (ts_stripeCustomerId r) \<and> truthy (gd_stripeCustomerId g) then ts_stripeCustomerId r = gd_stripeCustomerId g else True)
            else True)"
      using run applied(1,2) unfolding stripe_run_defs
      by (auto simp: sameSubscriptionSnapshot_eq truthy_def split: if_splits option.splits)
    show ?thesis
      using run applied row snap guards by (auto simp: row(2))
  qed
qed

text \<open>
  Optimistic writes are exact.  A webhook that read the subscription earlier, in a state and a read
  mode of its own, and passes what it read as the expected snapshot, is refused as stale if and only if the
  tenant's subscription now reads differently; in particular never because of the read mode.
\<close>

theorem stale_iff_changed:
  assumes "money_ok E" and "subInv s" and "money_ok E0" and "subInv s0"
    and "gd_expectedCurrent g = Some (readTenantSubscription E0 (in_tenantId i) s0)"
    and "upsertStripeTenantSubscriptionIfCurrent E now newId i g s = (Inr res, s')"
  shows "mr_reason res = Some STALE_SNAPSHOT \<longleftrightarrow>
    readTenantSubscription E (in_tenantId i) s \<noteq> readTenantSubscription E0 (in_tenantId i) s0"
  using assms(5,6) unfolding stripe_run_defs
  by (auto simp: readTenantSubscription_raw [OF assms(1,2)] sameSubscriptionSnapshot_eq split: if_splits prod.splits)

section \<open>What the dunning job does\<close>

definition overdue :: "instant \<Rightarrow> TenantSubscription \<Rightarrow> bool" where
  "overdue cutoff r \<longleftrightarrow> ts_provider r = ''stripe'' \<and> ts_status r = ''PAST_DUE'' \<and> ts_updatedAt r \<le> cutoff"

definition suspendedSnapshot :: "instant \<Rightarrow> TenantSubscription \<Rightarrow> TenantSubscriptionSnapshot" where
  "suspendedSnapshot clock r = (snapshotFromRow r)\<lparr>sn_status := SUSPENDED, sn_updatedAt := Some clock\<rparr>"

lemma subInv_audit [simp]: "subInv (s\<lparr>auditLogs := a\<rparr>) = subInv s"
  by (simp add: subInv_def)

lemma wfRow_price: "wfRow r \<Longrightarrow> ts_priceMonthly r = Some n \<Longrightarrow> 0 \<le> n \<and> toFixed2 n = n"
  by (auto simp: wfRow_def wfPrice_def toFixed2_cents fl_nonneg)

lemma wfPrice_rewritten:
  assumes "money_ok E" and "wfRow r"
  shows "wfPrice (toPositivePriceOrNull (ts_priceMonthly r))
      (map_option (\<lambda>n. pgRound2 (me_numeric E n)) (toPositivePriceOrNull (ts_priceMonthly r)))"
    and "toPositivePriceOrNull (toPositivePriceOrNull (ts_priceMonthly r)) = toPositivePriceOrNull (ts_priceMonthly r)"
proof -
  have p: "toPositivePriceOrNull (ts_priceMonthly r) = (if ts_priceMonthly r = Some 0 then None else ts_priceMonthly r)"
    using wfRow_price [OF assms(2)] by (auto simp: toPositivePriceOrNull_def split: option.split)
  then show "toPositivePriceOrNull (toPositivePriceOrNull (ts_priceMonthly r)) = toPositivePriceOrNull (ts_priceMonthly r)"
    by (auto simp: toPositivePriceOrNull_def split: option.split)
  show "wfPrice (toPositivePriceOrNull (ts_priceMonthly r))
      (map_option (\<lambda>n. pgRound2 (me_numeric E n)) (toPositivePriceOrNull (ts_priceMonthly r)))"
    using assms(2) numeric_cents [OF assms(1)] unfolding p wfRow_def wfPrice_def by (auto split: option.splits)
qed

text \<open>The row an iteration of the loop writes over the tenant's current row \<open>q\<close>: only what the job has read counts.\<close>

lemma suspend_row:
  assumes "money_ok E" and "wfRow r" and "ts_provider r = ''stripe''"
    and r'_def: "r' = writeData E clock (subscriptionData (suspendInput r) Stripe (ts_stripeCustomerId r) (ts_stripeSubscriptionId r)) q"
  shows "wfRow r'" and "snapshotFromRow r' = suspendedSnapshot clock r"
proof -
  have st: "toValidStatus (Some (JStr ''SUSPENDED'')) = SUSPENDED"
    using toValidStatus_name [of SUSPENDED] by (simp del: toValidStatus_name)
  show "wfRow r'"
    using wfPrice_rewritten(1) [OF assms(1,2)]
    by (auto simp: wfRow_def r'_def writeData_def syncExactPrice_def subscriptionData_def suspendInput_def st
      intro: exI [of _ SUSPENDED] exI [of _ Stripe])
  have exp: "ts_currentPeriodEnd r = (case ts_currentPeriodEnd r of None \<Rightarrow> ts_trialEndsAt r | Some e \<Rightarrow> Some e)"
    using assms(2) by (auto simp: wfRow_def split: option.split)
  have seats: "toPositiveSeats (of_int (toPositiveSeats (of_int k))) = toPositiveSeats (of_int k)" for k
    by (simp add: toPositiveSeats_def)
  show "snapshotFromRow r' = suspendedSnapshot clock r"
    unfolding r'_def snapshot_writeData suspendedSnapshot_def snapshotFromRow_def [of r]
    using assms(3) wfPrice_rewritten(2) [OF assms(1,2)] exp
    by (simp add: subscriptionData_def suspendInput_def st seats providerOf_def)
qed

lemma suspendOne_run:
  assumes "money_ok E" and "subInv s" and wf: "wfRow r" and stripe: "ts_provider r = ''stripe''"
    and found: "findByTenant (ts_tenantId r) (subscriptions s) = Some q"
  shows "\<exists>s'. suspendOne E hashOf notifyOk clock newId graceDays cutoff r s = (Inr (ts_tenantId r), s') \<and> subInv s' \<and>
    (\<forall>t. t \<noteq> ts_tenantId r \<longrightarrow> findByTenant t (subscriptions s') = findByTenant t (subscriptions s)) \<and>
    map_option snapshotFromRow (findByTenant (ts_tenantId r) (subscriptions s')) = Some (suspendedSnapshot clock r) \<and>
    set (auditLogs s) \<subseteq> set (auditLogs s') \<and>
    (\<exists>a \<in> set (auditLogs s'). al_tenantId a = ts_tenantId r \<and> al_action a = ''PLATFORM_LICENSE_UPDATED'')"
proof -
  note written = suspend_row [OF assms(1) wf stripe refl, where clock = clock]
  let ?d = "subscriptionData (suspendInput r) Stripe (ts_stripeCustomerId r) (ts_stripeSubscriptionId r)"
  let ?row = "writeData E clock ?d q"
  let ?rows = "updateMany (\<lambda>q. ts_tenantId q = ts_tenantId r) (writeData E clock ?d) (subscriptions s)"
  let ?s1 = "s\<lparr>subscriptions := ?rows\<rparr>"
  have "wfRow p" if "p \<in> set ?rows" for p
    using that assms(2) written(1) unfolding in_updateMany subInv_def by metis
  then have inv: "subInv ?s1"
    using assms(2) by (auto simp: subInv_def map_key_updateMany)
  have found': "findByTenant t ?rows = (if t = ts_tenantId r then Some ?row else findByTenant t (subscriptions s))" for t
    using found by (simp add: findByTenant_update option.map_ident)
  then have "hydrateSubscriptions E ?rows [?row] (Some (ts_tenantId r)) = [?row]"
    using inv assms(1) findByTenant_Some [OF found' [of "ts_tenantId r", simplified]]
    by (intro hydrateSubscriptions_wf) (auto simp: subInv_def)
  then have up: "upsertTenantSubscription E clock newId (suspendInput r) s = (Inr (suspendedSnapshot clock r), ?s1)"
    using found written(2)
    by (simp add: upsertTenantSubscription_def Let_def prog_defs upsertRow_def suspendInput_def)
  obtain a where a: "createAuditLog hashOf clock
      \<lparr>ai_tenantId = ts_tenantId r, ai_userId = None, ai_action = ''PLATFORM_LICENSE_UPDATED'',
         ai_resource = ''tenant'', ai_resourceId = Some (ts_tenantId r),
         ai_details = Some (JObj [(''source'', JStr ''billing_dunning_cron''), (''persisted'', JBool True),
           (''graceDays'', JNum (of_int graceDays)), (''cutoff'', JStr (toISOString cutoff)),
           (''before'', snapshotJson (dunningSnapshot r)), (''after'', snapshotJson (suspendedSnapshot clock r))])\<rparr> None ?s1
      = (Inr a, ?s1\<lparr>auditLogs := auditLogs ?s1 @ [a]\<rparr>)"
    "al_tenantId a = ts_tenantId r" "al_action a = ''PLATFORM_LICENSE_UPDATED''"
    using run_createAuditLog [where s = ?s1] by fastforce
  let ?s2 = "?s1\<lparr>auditLogs := auditLogs ?s1 @ [a]\<rparr>"
  obtain as where n: "notifySuspended hashOf notifyOk clock (ts_tenantId r) ?s2 = (Inr (), ?s2\<lparr>auditLogs := auditLogs ?s2 @ as\<rparr>)"
  proof (cases "notifyOk (ts_tenantId r)")
    case True
    then show ?thesis using that [of "[]"] by (simp add: notifySuspended_def returnP_def)
  next
    case False
    obtain b where "createAuditLog hashOf clock
        \<lparr>ai_tenantId = ts_tenantId r, ai_userId = None, ai_action = ''BILLING_NOTIFICATION_FAILED'', ai_resource = ''billing'',
         ai_resourceId = Some (ts_tenantId r),
         ai_details = Some (JObj [(''action'', JStr ''BILLING_SUBSCRIPTION_SUSPENDED''),
           (''source'', JStr ''billing_dunning_cron'')])\<rparr> None ?s2 = (Inr b, ?s2\<lparr>auditLogs := auditLogs ?s2 @ [b]\<rparr>)"
      using run_createAuditLog [where s = ?s2] by blast
    with False show ?thesis using that [of "[b]"] by (simp add: notifySuspended_def seqP_def bindP_def returnP_def)
  qed
  have "suspendOne E hashOf notifyOk clock newId graceDays cutoff r s = (Inr (ts_tenantId r), ?s2\<lparr>auditLogs := auditLogs ?s2 @ as\<rparr>)"
    unfolding suspendOne_def Let_def using up a(1) n by (simp add: seqP_def bindP_def returnP_def)
  then show ?thesis
    using inv found' written(2) a(2,3)
    by (intro exI [of _ "?s2\<lparr>auditLogs := auditLogs ?s2 @ as\<rparr>"]) auto
qed

lemma suspendAll_run:
  assumes "money_ok E" and "subInv s" and "set rows \<subseteq> set (subscriptions s)"
    and "\<And>r. r \<in> set rows \<Longrightarrow> ts_provider r = ''stripe''" and "distinct (map ts_tenantId rows)"
  shows "\<exists>s'. forEachP (suspendOne E hashOf notifyOk clock newId graceDays cutoff) rows s = (Inr (map ts_tenantId rows), s') \<and>
    subInv s' \<and> set (auditLogs s) \<subseteq> set (auditLogs s') \<and>
    (\<forall>t. map_option snapshotFromRow (findByTenant t (subscriptions s')) =
       map_option (\<lambda>r. if r \<in> set rows then suspendedSnapshot clock r else snapshotFromRow r) (findByTenant t (subscriptions s))) \<and>
    (\<forall>r \<in> set rows. \<exists>a \<in> set (auditLogs s'). al_tenantId a = ts_tenantId r \<and> al_action a = ''PLATFORM_LICENSE_UPDATED'')"
  using assms(2-5)
proof (induction rows arbitrary: s)
  case Nil
  then show ?case by (simp add: returnP_def)
next
  case (Cons r rows)
  have r: "wfRow r" "ts_provider r = ''stripe''" "findByTenant (ts_tenantId r) (subscriptions s) = Some r"
    using Cons.prems by (auto simp: subInv_def intro: findByTenant_mem)
  from suspendOne_run [OF assms(1) Cons.prems(1) r, of hashOf notifyOk clock newId graceDays cutoff]
  obtain s1 where s1: "suspendOne E hashOf notifyOk clock newId graceDays cutoff r s = (Inr (ts_tenantId r), s1)" "subInv s1"
    "\<And>t. t \<noteq> ts_tenantId r \<Longrightarrow> findByTenant t (subscriptions s1) = findByTenant t (subscriptions s)"
    "map_option snapshotFromRow (findByTenant (ts_tenantId r) (subscriptions s1)) = Some (suspendedSnapshot clock r)"
    "set (auditLogs s) \<subseteq> set (auditLogs s1)"
    "\<exists>a \<in> set (auditLogs s1). al_tenantId a = ts_tenantId r \<and> al_action a = ''PLATFORM_LICENSE_UPDATED''" by blast
  have other: "q \<in> set rows \<Longrightarrow> ts_tenantId q \<noteq> ts_tenantId r" for q
    using Cons.prems(4) by (auto simp: image_iff)
  have "set rows \<subseteq> set (subscriptions s1)"
  proof
    fix q assume q: "q \<in> set rows"
    then have "findByTenant (ts_tenantId q) (subscriptions s) = Some q"
      using Cons.prems(1,2) by (auto simp: subInv_def intro: findByTenant_mem)
    then show "q \<in> set (subscriptions s1)" using s1(3) [OF other [OF q]] by (auto dest: findByTenant_Some)
  qed
  then obtain s' where s': "forEachP (suspendOne E hashOf notifyOk clock newId graceDays cutoff) rows s1 = (Inr (map ts_tenantId rows), s')"
    "subInv s'" "set (auditLogs s1) \<subseteq> set (auditLogs s')"
    "\<And>t. map_option snapshotFromRow (findByTenant t (subscriptions s')) =
       map_option (\<lambda>r. if r \<in> set rows then suspendedSnapshot clock r else snapshotFromRow r) (findByTenant t (subscriptions s1))"
    "\<forall>r \<in> set rows. \<exists>a \<in> set (auditLogs s'). al_tenantId a = ts_tenantId r \<and> al_action a = ''PLATFORM_LICENSE_UPDATED''"
    using Cons.IH [OF s1(2)] Cons.prems(3,4) by fastforce
  have "map_option snapshotFromRow (findByTenant t (subscriptions s')) =
      map_option (\<lambda>q. if q \<in> set (r # rows) then suspendedSnapshot clock q else snapshotFromRow q) (findByTenant t (subscriptions s))" for t
  proof (cases "t = ts_tenantId r")
    case True
    then obtain q where q: "findByTenant t (subscriptions s1) = Some q" "snapshotFromRow q = suspendedSnapshot clock r"
      using s1(4) by auto
    then have "q \<notin> set rows" using other True by (auto dest: findByTenant_Some)
    with True q r(3) s'(4) [of t] show ?thesis by simp
  next
    case False
    then show ?thesis using s'(4) [of t] s1(3) [OF False]
      by (auto simp: option.map_comp intro!: option.map_cong0 dest: findByTenant_Some intro: map_option_cong)
  qed
  with s1 s' show ?case by (auto simp: bindP_def returnP_def)
qed

lemma selection_facts:
  assumes "distinct (map key xs)"
  shows "distinct (map key (take n (sort_key f (filter P xs))))"
    and "set (take n (sort_key f (filter P xs))) \<subseteq> {x \<in> set xs. P x}"
    and "x \<in> set (take n (sort_key f (filter P xs))) \<Longrightarrow> y \<in> set xs \<Longrightarrow> P y \<Longrightarrow>
      y \<notin> set (take n (sort_key f (filter P xs))) \<Longrightarrow> f x \<le> f y"
proof -
  let ?ys = "sort_key f (filter P xs)"
  show sub: "set (take n ?ys) \<subseteq> {x \<in> set xs. P x}" using set_take_subset [of n ?ys] by auto
  have "distinct ?ys" "inj_on key (set ?ys)"
    using assms by (auto simp: distinct_map inj_on_def)
  then show "distinct (map key (take n ?ys))"
    by (simp add: distinct_map inj_on_subset [OF _ set_take_subset])
  assume x: "x \<in> set (take n ?ys)" and y: "y \<in> set xs" "P y" "y \<notin> set (take n ?ys)"
  have "set ?ys = set (take n ?ys) \<union> set (drop n ?ys)" by (metis append_take_drop_id set_append)
  with y have "y \<in> set (drop n ?ys)" by auto
  moreover have "sorted (map f (take n ?ys @ drop n ?ys))" by (simp only: append_take_drop_id sorted_sort_key)
  ultimately show "f x \<le> f y" using x by (auto simp: sorted_append simp del: append_take_drop_id)
qed

lemma dunning_run:
  assumes "money_ok E" and "subInv s" and cutoff: "cutoff = now - max 0 graceDays * 24 * 60 * 60 * 1000"
    and rows: "rows = take (nat (max 1 batchSize)) (sort_key ts_updatedAt (filter (overdue cutoff) (subscriptions s)))"
  shows "\<exists>s'. suspendOverduePastDueSubscriptions E hashOf notifyOk clock newId graceDays batchSize now s =
      (Inr \<lparr>dr_checked = length rows, dr_suspended = length rows, dr_tenantIds = map ts_tenantId rows\<rparr>, s') \<and>
    subInv s' \<and>
    (\<forall>t. map_option snapshotFromRow (findByTenant t (subscriptions s')) =
       map_option (\<lambda>r. if r \<in> set rows then suspendedSnapshot clock r else snapshotFromRow r) (findByTenant t (subscriptions s))) \<and>
    (\<forall>r \<in> set rows. \<exists>a \<in> set (auditLogs s'). al_tenantId a = ts_tenantId r \<and> al_action a = ''PLATFORM_LICENSE_UPDATED'')"
proof -
  have sel: "distinct (map ts_tenantId rows)" "set rows \<subseteq> {r \<in> set (subscriptions s). overdue cutoff r}"
    unfolding rows using assms(2) by (auto simp: subInv_def intro!: selection_facts)
  have "findOverduePastDueSubscriptions E cutoff (nat (max 1 batchSize)) (subscriptions s) = hydrateSubscriptions E (subscriptions s) rows None"
    by (simp add: findOverduePastDueSubscriptions_def rows overdue_def [abs_def])
  also have "\<dots> = rows"
    using sel assms(1,2) by (intro hydrateSubscriptions_wf) (auto simp: subInv_def)
  finally have found: "findOverduePastDueSubscriptions E cutoff (nat (max 1 batchSize)) (subscriptions s) = rows" .
  obtain s' where s': "forEachP (suspendOne E hashOf notifyOk clock newId (max 0 graceDays) cutoff) rows s = (Inr (map ts_tenantId rows), s')"
    "subInv s'" "\<forall>t. map_option snapshotFromRow (findByTenant t (subscriptions s')) =
       map_option (\<lambda>r. if r \<in> set rows then suspendedSnapshot clock r else snapshotFromRow r) (findByTenant t (subscriptions s))"
    "\<forall>r \<in> set rows. \<exists>a \<in> set (auditLogs s'). al_tenantId a = ts_tenantId r \<and> al_action a = ''PLATFORM_LICENSE_UPDATED''"
    using suspendAll_run [OF assms(1,2), of rows hashOf notifyOk clock newId "max 0 graceDays" cutoff] sel
    by (auto simp: overdue_def)
  have "suspendOverduePastDueSubscriptions E hashOf notifyOk clock newId graceDays batchSize now s =
      (Inr \<lparr>dr_checked = length rows, dr_suspended = length rows, dr_tenantIds = map ts_tenantId rows\<rparr>, s')"
    unfolding suspendOverduePastDueSubscriptions_def Let_def cutoff [symmetric]
    by (simp add: bindP_def getsP_def found s'(1) returnP_def)
  with s' show ?thesis by blast
qed

text \<open>
  C35: What a run of the dunning job does.  It returns, keeps the invariant, and reports exactly the tenants it
  suspended.  These are subscriptions paid through Stripe that have been past due for at least the grace period, at
  most a batch of them, and none is passed over for a more recent one; all of them when they fit in the batch.  A
  suspended subscription keeps its plan, seats, price, cycle, end of period and Stripe identifiers and has an audit
  entry; no other subscription changes.
\<close>

theorem dunning_suspends_exactly_overdue:
  assumes "money_ok E" and "subInv s"
  shows "\<exists>res s'. suspendOverduePastDueSubscriptions E hashOf notifyOk clock newId graceDays batchSize now s = (Inr res, s') \<and>
    subInv s' \<and> dr_suspended res = dr_checked res \<and> dr_checked res = length (dr_tenantIds res) \<and>
    dr_checked res = min (nat (max 1 batchSize))
      (length (filter (overdue (now - max 0 graceDays * 24 * 60 * 60 * 1000)) (subscriptions s))) \<and>
    (\<forall>t. case findByTenant t (subscriptions s) of
       None \<Rightarrow> findByTenant t (subscriptions s') = None \<and> t \<notin> set (dr_tenantIds res)
     | Some r \<Rightarrow>
         map_option snapshotFromRow (findByTenant t (subscriptions s')) =
           Some (if t \<in> set (dr_tenantIds res)
                 then (snapshotFromRow r)\<lparr>sn_status := SUSPENDED, sn_updatedAt := Some clock\<rparr> else snapshotFromRow r) \<and>
         (t \<in> set (dr_tenantIds res) \<longrightarrow>
            overdue (now - max 0 graceDays * 24 * 60 * 60 * 1000) r \<and>
            (\<exists>a \<in> set (auditLogs s'). al_tenantId a = t \<and> al_action a = ''PLATFORM_LICENSE_UPDATED'') \<and>
            (\<forall>q \<in> set (subscriptions s). overdue (now - max 0 graceDays * 24 * 60 * 60 * 1000) q \<longrightarrow>
               ts_tenantId q \<notin> set (dr_tenantIds res) \<longrightarrow> ts_updatedAt r \<le> ts_updatedAt q)))"
proof -
  define cutoff where cutoff: "cutoff = now - max 0 graceDays * 24 * 60 * 60 * 1000"
  define rows where rows: "rows = take (nat (max 1 batchSize)) (sort_key ts_updatedAt (filter (overdue cutoff) (subscriptions s)))"
  have dist: "distinct (map ts_tenantId (subscriptions s))" using assms(2) by (simp add: subInv_def)
  note sel = selection_facts [OF dist, where n = "nat (max 1 batchSize)" and f = ts_updatedAt and P = "overdue cutoff", folded rows]
  have mem: "t \<in> set (map ts_tenantId rows) \<longleftrightarrow> r \<in> set rows" if "findByTenant t (subscriptions s) = Some r" for t r
    using that sel(2) findByTenant_Some [OF that] by (auto dest: distinct_key_unique [OF dist])
  have none: "t \<notin> set (map ts_tenantId rows)" if "findByTenant t (subscriptions s) = None" for t
    using that sel(2) by (auto simp: findByTenant_None)
  have len: "length rows = min (nat (max 1 batchSize)) (length (filter (overdue cutoff) (subscriptions s)))"
    unfolding rows by simp
  obtain s' where s': "suspendOverduePastDueSubscriptions E hashOf notifyOk clock newId graceDays batchSize now s =
      (Inr \<lparr>dr_checked = length rows, dr_suspended = length rows, dr_tenantIds = map ts_tenantId rows\<rparr>, s')"
    "subInv s'"
    "\<And>t. map_option snapshotFromRow (findByTenant t (subscriptions s')) =
       map_option (\<lambda>r. if r \<in> set rows then suspendedSnapshot clock r else snapshotFromRow r) (findByTenant t (subscriptions s))"
    "\<forall>r \<in> set rows. \<exists>a \<in> set (auditLogs s'). al_tenantId a = ts_tenantId r \<and> al_action a = ''PLATFORM_LICENSE_UPDATED''"
    using dunning_run [OF assms cutoff rows, of hashOf notifyOk clock newId] by blast
  have each: "case findByTenant t (subscriptions s) of
       None \<Rightarrow> findByTenant t (subscriptions s') = None \<and> t \<notin> set (map ts_tenantId rows)
     | Some r \<Rightarrow>
         map_option snapshotFromRow (findByTenant t (subscriptions s')) =
           Some (if t \<in> set (map ts_tenantId rows)
                 then (snapshotFromRow r)\<lparr>sn_status := SUSPENDED, sn_updatedAt := Some clock\<rparr> else snapshotFromRow r) \<and>
         (t \<in> set (map ts_tenantId rows) \<longrightarrow> overdue cutoff r \<and>
            (\<exists>a \<in> set (auditLogs s'). al_tenantId a = t \<and> al_action a = ''PLATFORM_LICENSE_UPDATED'') \<and>
            (\<forall>q \<in> set (subscriptions s). overdue cutoff q \<longrightarrow>
               ts_tenantId q \<notin> set (map ts_tenantId rows) \<longrightarrow> ts_updatedAt r \<le> ts_updatedAt q))" for t
  proof (cases "findByTenant t (subscriptions s)")
    case None
    with none [OF None] s'(3) [of t] show ?thesis by simp
  next
    case (Some r)
    note r = findByTenant_Some [OF Some]
    have old: "ts_updatedAt r \<le> ts_updatedAt q" if "r \<in> set rows" "q \<in> set (subscriptions s)" "overdue cutoff q"
        "ts_tenantId q \<notin> set (map ts_tenantId rows)" for q
      using sel(3) [of r q] that by auto
    show ?thesis
      using Some mem [OF Some] s'(3) [of t] s'(4) r sel(2) old
      by (auto simp: suspendedSnapshot_def simp del: set_map)
  qed
  show ?thesis
    unfolding cutoff [symmetric]
    by (rule exI [of _ "\<lparr>dr_checked = length rows, dr_suspended = length rows, dr_tenantIds = map ts_tenantId rows\<rparr>"],
      rule exI [of _ s'], simp only: DunningResult.simps length_map s'(1,2) len) (use each in blast)
qed

text \<open>
  The dunning job does not see a reactivation.  Between reading the overdue rows and writing them the
  payment webhook may set a subscription active again; the job then writes back what it had read, so the tenant
  ends suspended although it has paid, with the plan, seats and price of before.  The guarded write of the
  webhook (C12, C13) would refuse such a stale write.
\<close>

theorem dunning_overwrites_reactivation:
  assumes "money_ok E" and "subInv s" and "wfRow r" and "overdue cutoff r"
    and "findByTenant (ts_tenantId r) (subscriptions s) = Some q" and "sn_status (snapshotFromRow q) = ACTIVE"
  shows "\<exists>s'. suspendOne E hashOf notifyOk clock newId graceDays cutoff r s = (Inr (ts_tenantId r), s') \<and>
    readTenantSubscription E (ts_tenantId r) s' =
      Some ((snapshotFromRow r)\<lparr>sn_status := SUSPENDED, sn_updatedAt := Some clock\<rparr>)"
  using suspendOne_run [OF assms(1-3) _ assms(5), of hashOf notifyOk clock newId graceDays cutoff] assms(1,4)
  by (auto simp: overdue_def readTenantSubscription_raw suspendedSnapshot_def)

section \<open>A sample table, and the witnesses\<close>

definition sampleEnv :: money_env where
  "sampleEnv = \<lparr>me_mode = ExactMode,
     me_lib = \<lparr>newDecimal = (\<lambda>n. n), toDecimalPlaces = (\<lambda>x n. of_int \<lfloor>x * 10 ^ n + 1 / 2\<rfloor> / 10 ^ n)\<rparr>,
     me_numeric = (\<lambda>n. n), me_queryOk = True\<rparr>"

definition sampleRow :: TenantSubscription where
  "sampleRow = \<lparr>ts_id = ''s1'', ts_tenantId = ''t1'', ts_provider = ''stripe'', ts_plan = ''PRO'', ts_billingCycle = ''monthly'',
     ts_status = ''PAST_DUE'', ts_seats = 5, ts_priceMonthly = Some 199, ts_priceMonthlyExact = Some 199,
     ts_stripeCustomerId = Some ''cus_1'', ts_stripeSubscriptionId = Some ''sub_1'', ts_currentPeriodEnd = Some 1000,
     ts_trialEndsAt = None, ts_canceledAt = None, ts_createdAt = 0, ts_updatedAt = 10\<rparr>"

definition sampleDb :: sub_db where
  "sampleDb = \<lparr>auditLogs = [], subscriptions = [sampleRow]\<rparr>"

definition activeDb :: sub_db where
  "activeDb = \<lparr>auditLogs = [], subscriptions = [sampleRow\<lparr>ts_status := ''ACTIVE'', ts_updatedAt := 20\<rparr>]\<rparr>"

definition sampleSubInput :: TenantSubscriptionUpsertInput where
  "sampleSubInput = \<lparr>in_tenantId = ''t2'', in_plan = ''GOLD'', in_seats = 4, in_status = ''ACTIVE'', in_expiresAt = None,
     in_priceMonthly = Some 149, in_billingCycle = None, in_provider = None, in_stripeCustomerId = Some ''cus_2'',
     in_stripeSubscriptionId = None\<rparr>"

definition sampleGuard :: StripeTenantSubscriptionGuard where
  "sampleGuard = \<lparr>gd_stripeSubscriptionId = ''sub_1'', gd_stripeCustomerId = None, gd_allowSubscriptionReplacement = False,
     gd_expectedCurrent = Some (readTenantSubscription sampleEnv ''t2'' sampleDb)\<rparr>"

lemma sample_money_ok: "money_ok sampleEnv"
proof -
  have "\<bar>of_int \<lfloor>x * 10 ^ s + 1 / 2\<rfloor> / 10 ^ s - x\<bar> \<le> 1 / (2 * 10 ^ s)" for x :: rat and s :: nat
  proof -
    have "\<bar>of_int \<lfloor>x * 10 ^ s + 1 / 2\<rfloor> - x * 10 ^ s\<bar> \<le> 1 / 2" by linarith
    then have "\<bar>of_int \<lfloor>x * 10 ^ s + 1 / 2\<rfloor> - x * 10 ^ s\<bar> / 10 ^ s \<le> 1 / 2 / 10 ^ s"
      by (rule divide_right_mono) simp
    moreover have "\<bar>of_int \<lfloor>x * 10 ^ s + 1 / 2\<rfloor> - x * 10 ^ s\<bar> / 10 ^ s = \<bar>of_int \<lfloor>x * 10 ^ s + 1 / 2\<rfloor> / 10 ^ s - x\<bar>"
    proof -
      have "of_int \<lfloor>x * 10 ^ s + 1 / 2\<rfloor> / 10 ^ s - x = (of_int \<lfloor>x * 10 ^ s + 1 / 2\<rfloor> - x * 10 ^ s) / 10 ^ s"
        by (simp add: diff_divide_distrib)
      then show ?thesis by (simp only: abs_divide) simp
    qed
    ultimately show ?thesis by simp
  qed
  then show ?thesis by (auto simp: money_ok_def decimal_ok_def sampleEnv_def)
qed

lemma sample_wf: "wfRow sampleRow" "wfRow (sampleRow\<lparr>ts_status := ''ACTIVE'', ts_updatedAt := 20\<rparr>)"
proof -
  have "wfPrice (Some 199) (Some 199)"
    unfolding wfPrice_def by (auto intro!: exI [of _ 19900] simp: fl_numeral)
  then show "wfRow sampleRow" "wfRow (sampleRow\<lparr>ts_status := ''ACTIVE'', ts_updatedAt := 20\<rparr>)"
    unfolding wfRow_def sampleRow_def
    by (simp_all, (intro conjI exI [of _ Stripe] exI [of _ PRO] exI [of _ Monthly] exI [of _ PAST_DUE]; simp),
      (intro conjI exI [of _ Stripe] exI [of _ PRO] exI [of _ Monthly] exI [of _ ACTIVE]; simp))
qed

lemma sample_inv: "subInv sampleDb" "subInv activeDb"
  using sample_wf by (simp_all add: subInv_def sampleDb_def activeDb_def)

text \<open>Witness of C32.\<close>

theorem readTenantSubscription_any_mode_witness:
  "readTenantSubscription (sampleEnv\<lparr>me_mode := CompareMode, me_queryOk := False\<rparr>) ''t1'' sampleDb = Some (snapshotFromRow sampleRow)"
  using readTenantSubscription_any_mode [OF sample_money_ok sample_inv(1), where m = CompareMode and q = False and t = "''t1''"]
  by (simp add: sampleDb_def findByTenant_def sampleRow_def)

text \<open>Witness of C33.\<close>

theorem upsert_then_read_witness:
  "\<exists>snap s'. upsertTenantSubscription sampleEnv 50 ''s2'' sampleSubInput sampleDb = (Inr snap, s') \<and>
     readTenantSubscription sampleEnv ''t2'' s' = Some snap \<and> sn_stripeCustomerId snap = None \<and> sn_seats snap = 4"
  using upsert_then_read [OF sample_money_ok sample_inv(1), of "''s2''" sampleSubInput 50]
  by (auto simp: sampleSubInput_def sampleDb_def sampleRow_def)

text \<open>An instance of the preceding theorem.\<close>

theorem stale_iff_changed_witness:
  "\<exists>res s'. upsertStripeTenantSubscriptionIfCurrent sampleEnv 50 ''s2'' sampleSubInput sampleGuard activeDb = (Inr res, s') \<and>
     mr_reason res \<noteq> Some STALE_SNAPSHOT"
proof -
  obtain r s' where run: "upsertStripeTenantSubscriptionIfCurrent sampleEnv 50 ''s2'' sampleSubInput sampleGuard activeDb = (r, s')"
    by (meson surj_pair)
  then obtain res where r: "r = Inr res" using stripe_outcome [OF run] by blast
  have e: "gd_expectedCurrent sampleGuard = Some (readTenantSubscription sampleEnv (in_tenantId sampleSubInput) sampleDb)"
    by (simp add: sampleGuard_def sampleSubInput_def)
  have "readTenantSubscription sampleEnv ''t2'' activeDb = readTenantSubscription sampleEnv ''t2'' sampleDb"
    by (simp add: readTenantSubscription_def findByTenant_def sampleDb_def activeDb_def sampleRow_def)
  with stale_iff_changed [OF sample_money_ok sample_inv(2) sample_money_ok sample_inv(1) e run [unfolded r]] run r
  show ?thesis by (auto simp: sampleSubInput_def)
qed

text \<open>Witness of C35.\<close>

theorem dunning_suspends_exactly_overdue_witness:
  "\<exists>res s'. suspendOverduePastDueSubscriptions sampleEnv (\<lambda>_. ''h'') (\<lambda>_. True) 700 ''n'' 0 10 600 sampleDb = (Inr res, s') \<and>
     dr_suspended res = 1"
  using dunning_suspends_exactly_overdue [OF sample_money_ok sample_inv(1), of "\<lambda>_. ''h''" "\<lambda>_. True" 700 "''n''" 0 10 600]
  by (auto simp: sampleDb_def sampleRow_def overdue_def)

text \<open>An instance of the preceding theorem.\<close>

theorem dunning_overwrites_reactivation_witness:
  "\<exists>s'. suspendOne sampleEnv (\<lambda>_. ''h'') (\<lambda>_. True) 700 ''n'' 0 15 sampleRow activeDb = (Inr ''t1'', s') \<and>
     map_option sn_status (readTenantSubscription sampleEnv ''t1'' s') = Some SUSPENDED"
proof -
  have t: "ts_tenantId sampleRow = ''t1''" and o: "overdue 15 sampleRow" by (simp_all add: sampleRow_def overdue_def)
  have f: "findByTenant (ts_tenantId sampleRow) (subscriptions activeDb) = Some (sampleRow\<lparr>ts_status := ''ACTIVE'', ts_updatedAt := 20\<rparr>)"
    by (simp add: activeDb_def findByTenant_def sampleRow_def)
  have a: "sn_status (snapshotFromRow (sampleRow\<lparr>ts_status := ''ACTIVE'', ts_updatedAt := 20\<rparr>)) = ACTIVE"
    using toValidStatus_name [of ACTIVE] by (simp add: snapshotFromRow_def del: toValidStatus_name)
  show ?thesis
    using dunning_overwrites_reactivation [OF sample_money_ok sample_inv(2) sample_wf(1) o f a, of "\<lambda>_. ''h''" "\<lambda>_. True" 700 "''n''" 0]
    by (auto simp: t)
qed

end
