(* ===== verification/License_Policy.thy ===== *)
theory License_Policy
  imports Tenant_Subscription
begin

text \<open>
  The licence of a tenant and the guards that rest on it:
  \<^verbatim>\<open>backend/src/application/services/license-policy-service.ts\<close> and the middlewares
  \<^verbatim>\<open>license-guard.ts\<close> and \<^verbatim>\<open>feature-entitlements.ts\<close> of \<^verbatim>\<open>backend/src/interfaces/http/middlewares\<close>.
  The service gets the subscription through a reader it is given; the locale \<open>subscription_reader\<close>
  states what it relies on, and \<open>exact_reader\<close> interprets it on \<open>readTenantSubscription\<close>.  A tenant without
  a subscription falls back on its last audit entry, whose dates are texts; \<open>dateParse\<close> is the language's
  reading of a date text, which is implementation-defined outside the ISO format and so a parameter.
\<close>

section \<open>Licences\<close>

datatype dateText = Iso instant | RawDate string

text \<open>\<open>l_daysRemaining\<close>: \<open>None\<close> is \<open>null\<close>, \<open>Some None\<close> is \<open>NaN\<close>.\<close>

record LicenseInfo =
  l_plan :: SaasPlan
  l_seats :: number
  l_status :: TenantSubscriptionStatus
  l_expiresAt :: "dateText option"
  l_daysRemaining :: "int option option"
  l_expiringSoon :: bool
  l_priceMonthly :: "number option"
  l_billingCycle :: BillingCycle
  l_provider :: Provider

record TenantRow =
  tn_id :: string
  tn_isActive :: bool
  tn_name :: string
  tn_vatNumber :: "string option"
  tn_deletedAt :: "instant option"

record lic_db = sub_db +
  tenants :: "TenantRow list"

definition isObject :: "json \<Rightarrow> bool" where
  "isObject v = (case v of JObj _ \<Rightarrow> True | JArr _ \<Rightarrow> True | _ \<Rightarrow> False)"

definition pickLicenseSource :: "json \<Rightarrow> json" where
  "pickLicenseSource details =
     (if \<not> isObject details then JObj []
      else case jprop details ''after'' of
        Some a \<Rightarrow> if isObject a then a else
          (case jprop details ''value'' of
             Some v \<Rightarrow> if isObject v then (case jprop v ''after'' of Some b \<Rightarrow> if isObject b then b else v | None \<Rightarrow> v) else details
           | None \<Rightarrow> details)
      | None \<Rightarrow>
          (case jprop details ''value'' of
             Some v \<Rightarrow> if isObject v then (case jprop v ''after'' of Some b \<Rightarrow> if isObject b then b else v | None \<Rightarrow> v) else details
           | None \<Rightarrow> details))"

definition toPositiveNumberOrNull :: "json option \<Rightarrow> number option" where
  "toPositiveNumberOrNull v = (case toNumberU v of None \<Rightarrow> None | Some n \<Rightarrow> if n \<le> 0 then None else Some (toFixed2 n))"

text \<open>\<open>Math.ceil((expiresMs - now) / 86400000)\<close>.\<close>

definition daysUntil :: "instant \<Rightarrow> instant \<Rightarrow> int" where
  "daysUntil now expires = \<lceil>jdiv (of_int (expires - now)) 86400000\<rceil>"

definition expiringSoon :: "int option option \<Rightarrow> bool" where
  "expiringSoon d = (case d of Some (Some n) \<Rightarrow> 0 \<le> n \<and> n \<le> 7 | _ \<Rightarrow> False)"

definition licenseOfSubscription :: "instant \<Rightarrow> TenantSubscriptionSnapshot \<Rightarrow> LicenseInfo" where
  "licenseOfSubscription now persisted =
     (let expiresMs = sn_expiresAt persisted;
          daysRemaining = map_option (\<lambda>e. Some (daysUntil now e)) expiresMs;
          status = (case expiresMs of Some e \<Rightarrow> if e < now then EXPIRED else sn_status persisted | None \<Rightarrow> sn_status persisted)
      in \<lparr>l_plan = sn_plan persisted, l_seats = of_int (sn_seats persisted), l_status = status,
          l_expiresAt = map_option Iso expiresMs, l_daysRemaining = daysRemaining,
          l_expiringSoon = expiringSoon daysRemaining, l_priceMonthly = sn_priceMonthly persisted,
          l_billingCycle = sn_billingCycle persisted, l_provider = sn_provider persisted\<rparr>)"

definition licenseOfAudit :: "(string \<Rightarrow> instant option) \<Rightarrow> instant \<Rightarrow> json \<Rightarrow> LicenseInfo" where
  "licenseOfAudit dateParse now raw =
     (let expiresAt = (case jstring (jprop raw ''expiresAt'') of Some d \<Rightarrow> if d = [] then None else Some d | None \<Rightarrow> None);
          expiresMs = map_option dateParse expiresAt;
          daysRemaining = map_option (map_option (daysUntil now)) expiresMs;
          status0 = toValidStatus (jprop raw ''status'');
          status = (case expiresMs of Some (Some e) \<Rightarrow> if e < now then EXPIRED else status0 | _ \<Rightarrow> status0);
          seats = (case toNumberU (jprop raw ''seats'') of Some n \<Rightarrow> if 0 < n then n else 3 | None \<Rightarrow> 3)
      in \<lparr>l_plan = ensureKnownPlan (Some (orElse (jstring (jprop raw ''plan'')) ''STARTER'')), l_seats = seats,
          l_status = status, l_expiresAt = map_option RawDate expiresAt, l_daysRemaining = daysRemaining,
          l_expiringSoon = expiringSoon daysRemaining,
          l_priceMonthly = toPositiveNumberOrNull (jprop raw ''priceMonthly''),
          l_billingCycle = normalizeBillingCycle (Some (orElse (jstring (jprop raw ''billingCycle'')) ''monthly'')),
          l_provider = (if jprop raw ''provider'' = Some (JStr ''stripe'') then Stripe else Local)\<rparr>)"

type_synonym 's subscriptionReader = "string \<Rightarrow> 's \<Rightarrow> TenantSubscriptionSnapshot option"

definition getTenantLicense ::
  "(string \<Rightarrow> instant option) \<Rightarrow> 'z lic_db_scheme subscriptionReader \<Rightarrow> instant \<Rightarrow> string \<Rightarrow> 'z lic_db_scheme \<Rightarrow> LicenseInfo" where
  "getTenantLicense dateParse reader now t s =
     (case reader t s of
        Some persisted \<Rightarrow> licenseOfSubscription now persisted
      | None \<Rightarrow>
          licenseOfAudit dateParse now
            (pickLicenseSource (case getLatestByAction t ''tenant'' ''PLATFORM_LICENSE_UPDATED'' s of
               None \<Rightarrow> JObj [] | Some row \<Rightarrow> if al_details row = JNull then JObj [] else al_details row)))"

record LicenseAccess =
  ac_blocked :: bool
  ac_reason :: "string option"
  ac_license :: LicenseInfo

definition evaluateAccess ::
  "(string \<Rightarrow> instant option) \<Rightarrow> 'z lic_db_scheme subscriptionReader \<Rightarrow> instant \<Rightarrow> string \<Rightarrow> 'z lic_db_scheme \<Rightarrow> LicenseAccess" where
  "evaluateAccess dateParse reader now t s =
     (let tenantActive = (case findFirst (\<lambda>r. tn_id r = t) (tenants s) of None \<Rightarrow> False | Some r \<Rightarrow> tn_isActive r);
          license = getTenantLicense dateParse reader now t s;
          status = l_status license
      in \<lparr>ac_blocked = (\<not> tenantActive \<or> status = PENDING \<or> status = SUSPENDED \<or> status = EXPIRED \<or>
            status = PAST_DUE \<or> status = CANCELED),
          ac_reason =
            (if \<not> tenantActive then Some ''TENANT_INACTIVE''
             else if status = PENDING then Some ''LICENSE_PENDING''
             else if status = SUSPENDED then Some ''LICENSE_SUSPENDED''
             else if status = EXPIRED then Some ''LICENSE_EXPIRED''
             else if status = PAST_DUE then Some ''LICENSE_PAST_DUE''
             else if status = CANCELED then Some ''LICENSE_CANCELED''
             else None),
          ac_license = license\<rparr>)"

record TenantEntitlements =
  te_plan :: SaasPlan
  te_priceMonthly :: number
  te_features :: "string list"
  te_license :: LicenseInfo

definition getTenantEntitlements ::
  "(string \<Rightarrow> instant option) \<Rightarrow> 'z lic_db_scheme subscriptionReader \<Rightarrow> instant \<Rightarrow> string \<Rightarrow> 'z lic_db_scheme \<Rightarrow> TenantEntitlements" where
  "getTenantEntitlements dateParse reader now t s =
     (let license = getTenantLicense dateParse reader now t s in
      \<lparr>te_plan = l_plan license,
       te_priceMonthly = orElse (l_priceMonthly license) (getPlanMonthlyPrice (Some (planCode (l_plan license)))),
       te_features = getFeatureListForPlan (Some (planCode (l_plan license))),
       te_license = license\<rparr>)"

section \<open>Guards\<close>

text \<open>The tenant and the user of the request's authentication; the result is the licence put on the request.\<close>

definition requireValidLicense ::
  "(string \<Rightarrow> instant option) \<Rightarrow> 'z lic_db_scheme subscriptionReader \<Rightarrow> instant \<Rightarrow> string option \<Rightarrow>
   (app_error, 'z lic_db_scheme, LicenseInfo) prog" where
  "requireValidLicense dateParse reader now tenantId =
     (case tenantId of
        None \<Rightarrow> throwP (AppError 401 ''UNAUTHORIZED'')
      | Some t \<Rightarrow>
          if t = [] then throwP (AppError 401 ''UNAUTHORIZED'')
          else bindP (getsP (evaluateAccess dateParse reader now t)) (\<lambda>access.
            if ac_blocked access then
              (if ac_reason access = Some ''TENANT_INACTIVE'' then throwP (AppError 403 ''TENANT_INACTIVE'')
               else if ac_reason access = Some ''LICENSE_SUSPENDED'' then throwP (AppError 403 ''LICENSE_SUSPENDED'')
               else if ac_reason access = Some ''LICENSE_PENDING'' then throwP (AppError 402 ''LICENSE_PENDING'')
               else if ac_reason access = Some ''LICENSE_PAST_DUE'' then throwP (AppError 402 ''LICENSE_PAST_DUE'')
               else if ac_reason access = Some ''LICENSE_CANCELED'' then throwP (AppError 402 ''LICENSE_CANCELED'')
               else throwP (AppError 402 ''LICENSE_EXPIRED''))
            else returnP (ac_license access)))"

record RequestInfo =
  rq_sourceIp :: string
  rq_method :: string
  rq_path :: string

definition createRequireFeature ::
  "(string \<Rightarrow> instant option) \<Rightarrow> 'z lic_db_scheme subscriptionReader \<Rightarrow> (json \<Rightarrow> string) \<Rightarrow> instant \<Rightarrow> string \<Rightarrow>
   string option \<Rightarrow> string option \<Rightarrow> RequestInfo \<Rightarrow> (app_error, 'z lic_db_scheme, unit) prog" where
  "createRequireFeature dateParse reader hashOf now feature tenantId userId req =
     (case (tenantId, userId) of
        (Some t, Some u) \<Rightarrow>
          if t = [] \<or> u = [] then throwP (AppError 401 ''UNAUTHORIZED'')
          else bindP (getsP (getTenantEntitlements dateParse reader now t)) (\<lambda>entitlements.
            if hasFeature (Some (planCode (te_plan entitlements))) feature then returnP ()
            else let requiredPlan = getRequiredPlanForFeature feature;
                     allowedPlans = getAllowedPlansForFeature feature
                 in seqP (createAuditLog hashOf now
                      \<lparr>ai_tenantId = t, ai_userId = Some u, ai_action = ''FEATURE_ACCESS_DENIED'', ai_resource = ''feature'',
                       ai_resourceId = Some feature,
                       ai_details = Some (JObj [(''feature'', JStr feature),
                         (''currentPlan'', JStr (planCode (te_plan entitlements))),
                         (''requiredPlan'', jstrOrNull (map_option planCode requiredPlan)),
                         (''allowedPlans'', JArr (map (JStr \<circ> planCode) allowedPlans)),
                         (''sourceIp'', JStr (rq_sourceIp req)), (''method'', JStr (rq_method req)),
                         (''path'', JStr (rq_path req)), (''happenedAt'', JStr (toISOString now))])\<rparr> None)
                    (throwP (AppError 403 ''PLAN_LIMIT'')))
      | _ \<Rightarrow> throwP (AppError 401 ''UNAUTHORIZED''))"

section \<open>What the service relies on\<close>

text \<open>
  A reader answers from the tenant's own row, in everything but the price: it finds a subscription exactly
  when there is a row.
\<close>

locale subscription_reader =
  fixes reader :: "'z lic_db_scheme subscriptionReader"
  assumes reader_row:
    "map_option (sn_priceMonthly_update (\<lambda>_. None)) (reader t s) =
     map_option (\<lambda>r. (snapshotFromRow r)\<lparr>sn_priceMonthly := None\<rparr>) (findByTenant t (subscriptions s))"
begin

lemma reader_status:
  assumes "findByTenant t (subscriptions s) = Some r"
  obtains n where "reader t s = Some n" "sn_status n = sn_status (snapshotFromRow r)"
    "sn_expiresAt n = sn_expiresAt (snapshotFromRow r)" "sn_plan n = sn_plan (snapshotFromRow r)"
proof -
  from assms reader_row [of t s] obtain n where n: "reader t s = Some n"
    "n\<lparr>sn_priceMonthly := None\<rparr> = (snapshotFromRow r)\<lparr>sn_priceMonthly := None\<rparr>" by auto
  have "sn_status n = sn_status (snapshotFromRow r)" "sn_expiresAt n = sn_expiresAt (snapshotFromRow r)"
    "sn_plan n = sn_plan (snapshotFromRow r)"
    using arg_cong [OF n(2), of sn_status] arg_cong [OF n(2), of sn_expiresAt] arg_cong [OF n(2), of sn_plan]
    by simp_all
  with n(1) that show thesis by blast
qed

lemma reader_None: "reader t s = None \<longleftrightarrow> findByTenant t (subscriptions s) = None"
  using reader_row [of t s] by (cases "reader t s"; cases "findByTenant t (subscriptions s)") auto

lemma license_status:
  assumes "findByTenant t (subscriptions s) = Some r"
  shows "l_status (getTenantLicense dp reader now t s) =
    (case sn_expiresAt (snapshotFromRow r) of
       Some e \<Rightarrow> if e < now then EXPIRED else sn_status (snapshotFromRow r)
     | None \<Rightarrow> sn_status (snapshotFromRow r))"
    and "l_plan (getTenantLicense dp reader now t s) = sn_plan (snapshotFromRow r)"
proof -
  obtain n where n: "reader t s = Some n" "sn_status n = sn_status (snapshotFromRow r)"
    "sn_expiresAt n = sn_expiresAt (snapshotFromRow r)" "sn_plan n = sn_plan (snapshotFromRow r)"
    using reader_status [OF assms] .
  then show "l_status (getTenantLicense dp reader now t s) =
    (case sn_expiresAt (snapshotFromRow r) of
       Some e \<Rightarrow> if e < now then EXPIRED else sn_status (snapshotFromRow r)
     | None \<Rightarrow> sn_status (snapshotFromRow r))"
    and "l_plan (getTenantLicense dp reader now t s) = sn_plan (snapshotFromRow r)"
    by (simp_all add: getTenantLicense_def licenseOfSubscription_def Let_def split: option.split)
qed

end

lemma hydrate_price_only:
  "ts_priceMonthly_update (\<lambda>_. None) (fst (hydrateFields m L subscriptionView fs row r)) = r\<lparr>ts_priceMonthly := None\<rparr>"
proof -
  have "ts_priceMonthly_update (\<lambda>_. None) (fst (foldl (hydrateField m L subscriptionView r row) acc fs))
      = (fst acc)\<lparr>ts_priceMonthly := None\<rparr>" for acc
  proof (induction fs arbitrary: acc)
    case (Cons f fs)
    have "(fst (hydrateField m L subscriptionView r row acc f))\<lparr>ts_priceMonthly := None\<rparr> = (fst acc)\<lparr>ts_priceMonthly := None\<rparr>"
      by (cases acc) (simp add: hydrateField_def subscriptionView_def Let_def)
    with Cons show ?case by simp
  qed simp
  then show ?thesis by (simp add: hydrateFields_def)
qed

lemma hydrateSubscriptions_price_only:
  "\<exists>r'. hydrateSubscriptions E table [r] t = [r'] \<and> r'\<lparr>ts_priceMonthly := None\<rparr> = r\<lparr>ts_priceMonthly := None\<rparr>"
  by (auto simp: hydrateSubscriptions_def hydrate_def Let_def hydrate_price_only split: option.split)

lemma snapshot_price_only:
  assumes "r'\<lparr>ts_priceMonthly := None\<rparr> = r\<lparr>ts_priceMonthly := None\<rparr>"
  shows "(snapshotFromRow r')\<lparr>sn_priceMonthly := None\<rparr> = (snapshotFromRow r)\<lparr>sn_priceMonthly := None\<rparr>"
proof -
  have "(snapshotFromRow q)\<lparr>sn_priceMonthly := None\<rparr> = snapshotFromRow (q\<lparr>ts_priceMonthly := None\<rparr>)" for q
    by (simp add: snapshotFromRow_def toPositivePriceOrNull_def split: option.split)
  with assms show ?thesis by simp
qed

interpretation exact_reader: subscription_reader "readTenantSubscription E" for E
proof
  fix t and s :: "'a lic_db_scheme"
  show "map_option (sn_priceMonthly_update (\<lambda>_. None)) (readTenantSubscription E t s) =
     map_option (\<lambda>r. (snapshotFromRow r)\<lparr>sn_priceMonthly := None\<rparr>) (findByTenant t (subscriptions s))"
  proof (cases "findByTenant t (subscriptions s)")
    case (Some r)
    obtain r' where "hydrateSubscriptions E (subscriptions s) [r] (Some t) = [r']"
      and eq: "r'\<lparr>ts_priceMonthly := None\<rparr> = r\<lparr>ts_priceMonthly := None\<rparr>"
      using hydrateSubscriptions_price_only by blast
    with Some show ?thesis using snapshot_price_only [OF eq] by (simp only: readTenantSubscription_def) simp
  qed (simp add: readTenantSubscription_def)
qed

section \<open>Access\<close>

definition tenantActive :: "string \<Rightarrow> 'z lic_db_scheme \<Rightarrow> bool" where
  "tenantActive t s \<longleftrightarrow> (case findFirst (\<lambda>r. tn_id r = t) (tenants s) of None \<Rightarrow> False | Some r \<Rightarrow> tn_isActive r)"

lemma blocked_iff:
  "ac_blocked (evaluateAccess dp rd now t s) \<longleftrightarrow>
     \<not> (tenantActive t s \<and> l_status (getTenantLicense dp rd now t s) \<in> {ACTIVE, TRIAL})"
  by (cases "l_status (getTenantLicense dp rd now t s)") (simp_all add: evaluateAccess_def tenantActive_def Let_def)

lemma reason_iff: "ac_reason (evaluateAccess dp rd now t s) = None \<longleftrightarrow> \<not> ac_blocked (evaluateAccess dp rd now t s)"
  by (auto simp: evaluateAccess_def Let_def)

lemma requireValidLicense_run:
  "requireValidLicense dp rd now (Some t) s =
    (if t = [] then Inl (AppError 401 ''UNAUTHORIZED'')
     else case ac_reason (evaluateAccess dp rd now t s) of
       None \<Rightarrow> Inr (getTenantLicense dp rd now t s)
     | Some reason \<Rightarrow> Inl (AppError (if reason = ''TENANT_INACTIVE'' \<or> reason = ''LICENSE_SUSPENDED'' then 403 else 402) reason), s)"
  by (simp add: requireValidLicense_def evaluateAccess_def Let_def prog_defs)

text \<open>
  C36: Who passes the licence guard.  For a tenant with a subscription, the guard lets a request through exactly
  when the tenant is active, the stored status is ACTIVE or TRIAL and the subscription has not ended; a subscription
  ending at this very millisecond still passes.  Otherwise the request fails with the reason as its error code, 403
  for an inactive tenant or a suspended licence and 402 for the rest; the guard changes nothing.
\<close>

theorem license_guard_exact:
  assumes "findByTenant t (subscriptions s) = Some r" and "t \<noteq> []"
  shows "case requireValidLicense dateParse (readTenantSubscription E) now (Some t) s of
    (Inr license, s') \<Rightarrow> s' = s \<and> tenantActive t s \<and> sn_status (snapshotFromRow r) \<in> {ACTIVE, TRIAL} \<and>
      (case sn_expiresAt (snapshotFromRow r) of None \<Rightarrow> True | Some e \<Rightarrow> now \<le> e) \<and>
      l_plan license = sn_plan (snapshotFromRow r)
  | (Inl err, s') \<Rightarrow> s' = s \<and>
      (if \<not> tenantActive t s then err = AppError 403 ''TENANT_INACTIVE''
       else if (case sn_expiresAt (snapshotFromRow r) of None \<Rightarrow> False | Some e \<Rightarrow> e < now) then err = AppError 402 ''LICENSE_EXPIRED''
       else sn_status (snapshotFromRow r) \<notin> {ACTIVE, TRIAL} \<and>
         err = AppError (if sn_status (snapshotFromRow r) = SUSPENDED then 403 else 402)
                 (''LICENSE_'' @ statusName (sn_status (snapshotFromRow r))))"
proof -
  note st = exact_reader.license_status [OF assms(1), of dateParse E now]
  show ?thesis
    unfolding requireValidLicense_run using assms(2) st
    by (cases "sn_status (snapshotFromRow r)")
      (auto simp: evaluateAccess_def tenantActive_def Let_def split: option.splits if_splits)
qed

text \<open>
  No subscription, no access.  A tenant that has neither a subscription nor an audit entry of a licence is
  refused by the licence guard as pending, or as inactive if it is not active, whatever the reader's mode.
\<close>

theorem unlicensed_tenant_refused:
  assumes "findByTenant t (subscriptions s) = None" and "t \<noteq> []"
    and "getLatestByAction t ''tenant'' ''PLATFORM_LICENSE_UPDATED'' s = None"
  shows "requireValidLicense dateParse (readTenantSubscription E) now (Some t) s =
    (Inl (if tenantActive t s then AppError 402 ''LICENSE_PENDING'' else AppError 403 ''TENANT_INACTIVE''), s)"
proof -
  have "readTenantSubscription E t s = None" using assms(1) exact_reader.reader_None by blast
  then have "l_status (getTenantLicense dateParse (readTenantSubscription E) now t s) = PENDING"
    using assms(3)
    by (simp add: getTenantLicense_def licenseOfAudit_def pickLicenseSource_def isObject_def jprop_def toValidStatus_def
      enumOf_def Let_def)
  then show ?thesis
    unfolding requireValidLicense_run using assms(2) by (simp add: evaluateAccess_def tenantActive_def Let_def)
qed

text \<open>
  The feature guard.  For a known tenant and user the guard lets a request through exactly when the tenant's
  licence plan has the feature, that is when it is at least the plan the feature requires, and then writes nothing.
  Otherwise it fails with 403 \<open>PLAN_LIMIT\<close> after appending exactly one audit entry, of this tenant, user and feature.
\<close>

theorem feature_guard_exact:
  assumes "t \<noteq> []" and "u \<noteq> []"
  shows "case createRequireFeature dateParse reader hashOf now feature (Some t) (Some u) req s of
    (Inr _, s') \<Rightarrow> s' = s \<and> (\<exists>p. getRequiredPlanForFeature feature = Some p \<and> p \<le> l_plan (getTenantLicense dateParse reader now t s))
  | (Inl err, s') \<Rightarrow> err = AppError 403 ''PLAN_LIMIT'' \<and>
      (case getRequiredPlanForFeature feature of None \<Rightarrow> True | Some p \<Rightarrow> l_plan (getTenantLicense dateParse reader now t s) < p) \<and>
      (\<exists>row. s' = s\<lparr>auditLogs := auditLogs s @ [row]\<rparr> \<and> al_tenantId row = t \<and> al_action row = ''FEATURE_ACCESS_DENIED'')"
proof -
  let ?p = "l_plan (getTenantLicense dateParse reader now t s)"
  have has: "hasFeature (Some (planCode ?p)) feature \<longleftrightarrow> (\<exists>p. getRequiredPlanForFeature feature = Some p \<and> p \<le> ?p)"
    unfolding hasFeature_def hasCommercialPlanFeature_def getRequiredPlanForFeature_def requiredPlan_least
    using cumulativeEntitlements_mono requiredPlan_least
    by (metis (no_types, lifting) mem_SAAS_PLAN_CODES find_None_iff getCommercialFeatureRequiredPlan_def normalizeSaasPlan_code
      not_None_eq subsetD)
  have plan: "te_plan (getTenantEntitlements dateParse reader now t s) = ?p"
    by (simp add: getTenantEntitlements_def Let_def)
  show ?thesis
  proof (cases "hasFeature (Some (planCode ?p)) feature")
    case True
    with has assms plan show ?thesis by (simp add: createRequireFeature_def prog_defs)
  next
    case False
    let ?i = "\<lparr>ai_tenantId = t, ai_userId = Some u, ai_action = ''FEATURE_ACCESS_DENIED'', ai_resource = ''feature'',
       ai_resourceId = Some feature,
       ai_details = Some (JObj [(''feature'', JStr feature), (''currentPlan'', JStr (planCode ?p)),
         (''requiredPlan'', jstrOrNull (map_option planCode (getRequiredPlanForFeature feature))),
         (''allowedPlans'', JArr (map (JStr \<circ> planCode) (getAllowedPlansForFeature feature))),
         (''sourceIp'', JStr (rq_sourceIp req)), (''method'', JStr (rq_method req)),
         (''path'', JStr (rq_path req)), (''happenedAt'', JStr (toISOString now))])\<rparr>"
    obtain row where row: "createAuditLog hashOf now ?i None s = (Inr row, s\<lparr>auditLogs := auditLogs s @ [row]\<rparr>)"
      "al_tenantId row = t" "al_action row = ''FEATURE_ACCESS_DENIED''"
      using run_createAuditLog [of hashOf now ?i None s] by auto
    have "createRequireFeature dateParse reader hashOf now feature (Some t) (Some u) req s =
        (Inl (AppError 403 ''PLAN_LIMIT''), s\<lparr>auditLogs := auditLogs s @ [row]\<rparr>)"
      using False assms plan row(1) by (simp add: createRequireFeature_def Let_def bindP_def seqP_def getsP_def throwP_def)
    with row False has show ?thesis by (auto split: option.split)
  qed
qed

section \<open>A sample database, and the witnesses\<close>

definition sampleLicDb :: lic_db where
  "sampleLicDb = \<lparr>auditLogs = [], subscriptions = [sampleRow\<lparr>ts_status := ''ACTIVE''\<rparr>],
     tenants = [\<lparr>tn_id = ''t1'', tn_isActive = True, tn_name = ''Rossi'', tn_vatNumber = None, tn_deletedAt = None\<rparr>, \<lparr>tn_id = ''t2'', tn_isActive = True, tn_name = ''Bianchi'', tn_vatNumber = None, tn_deletedAt = None\<rparr>]\<rparr>"

lemma sample_found: "findByTenant ''t1'' (subscriptions sampleLicDb) = Some (sampleRow\<lparr>ts_status := ''ACTIVE''\<rparr>)"
  by (simp add: sampleLicDb_def findByTenant_def sampleRow_def)

lemma sample_snapshot:
  "sn_status (snapshotFromRow (sampleRow\<lparr>ts_status := ''ACTIVE''\<rparr>)) = ACTIVE"
  "sn_expiresAt (snapshotFromRow (sampleRow\<lparr>ts_status := ''ACTIVE''\<rparr>)) = Some 1000"
  "sn_plan (snapshotFromRow (sampleRow\<lparr>ts_status := ''ACTIVE''\<rparr>)) = PRO"
  using toValidStatus_name [of ACTIVE] ensureKnownPlan_code [of PRO]
  by (simp_all add: snapshotFromRow_def sampleRow_def del: toValidStatus_name ensureKnownPlan_code)

lemma sample_active: "tenantActive ''t1'' sampleLicDb" "tenantActive ''t2'' sampleLicDb"
  by (simp_all add: tenantActive_def sampleLicDb_def)

text \<open>Witness of C36: the licence passes at its last millisecond and is refused one later.\<close>

theorem license_guard_exact_witness:
  "(\<exists>license. requireValidLicense (\<lambda>_. None) (readTenantSubscription sampleEnv) 1000 (Some ''t1'') sampleLicDb = (Inr license, sampleLicDb)) \<and>
   requireValidLicense (\<lambda>_. None) (readTenantSubscription sampleEnv) 1001 (Some ''t1'') sampleLicDb = (Inl (AppError 402 ''LICENSE_EXPIRED''), sampleLicDb)"
  using license_guard_exact [OF sample_found, where dateParse = "\<lambda>_. None" and E = sampleEnv and now = 1000]
    license_guard_exact [OF sample_found, where dateParse = "\<lambda>_. None" and E = sampleEnv and now = 1001]
  by (simp add: sample_snapshot sample_active split: prod.splits sum.splits)

text \<open>An instance of the preceding theorem.\<close>

theorem unlicensed_tenant_refused_witness:
  "requireValidLicense (\<lambda>_. None) (readTenantSubscription sampleEnv) 5 (Some ''t2'') sampleLicDb = (Inl (AppError 402 ''LICENSE_PENDING''), sampleLicDb)"
  using unlicensed_tenant_refused [of "''t2''" sampleLicDb "\<lambda>_. None" sampleEnv 5] sample_active(2)
  by (simp add: sampleLicDb_def findByTenant_def sampleRow_def getLatestByAction_def)

text \<open>An instance of the preceding theorem: on the plan PRO a request for single sign-on, an ENTERPRISE feature, is refused.\<close>

theorem feature_guard_exact_witness:
  "\<exists>row. createRequireFeature (\<lambda>_. None) (readTenantSubscription sampleEnv) (\<lambda>_. ''h'') 5 ''sso'' (Some ''t1'') (Some ''u1'')
       \<lparr>rq_sourceIp = ''ip'', rq_method = ''GET'', rq_path = ''p''\<rparr> sampleLicDb =
     (Inl (AppError 403 ''PLAN_LIMIT''), sampleLicDb\<lparr>auditLogs := [row]\<rparr>)"
proof -
  have plan: "l_plan (getTenantLicense (\<lambda>_. None) (readTenantSubscription sampleEnv) 5 ''t1'' sampleLicDb) = PRO"
    using exact_reader.license_status(2) [OF sample_found] by (simp add: sample_snapshot)
  have req: "getRequiredPlanForFeature ''sso'' = Some ENTERPRISE" by code_simp
  have less: "\<not> ENTERPRISE \<le> PRO" "PRO < ENTERPRISE" by (simp_all add: less_eq_SaasPlan_def less_SaasPlan_def)
  have logs: "auditLogs sampleLicDb = []" by (simp add: sampleLicDb_def)
  show ?thesis
    using feature_guard_exact [where t = "''t1''" and u = "''u1''" and dateParse = "\<lambda>_. None" and
      reader = "readTenantSubscription sampleEnv" and hashOf = "\<lambda>_. ''h''" and now = 5 and feature = "''sso''" and
      req = "\<lparr>rq_sourceIp = ''ip'', rq_method = ''GET'', rq_path = ''p''\<rparr>" and s = sampleLicDb]
    by (auto simp: plan req less logs split: prod.splits sum.splits)
qed

end
