(* ===== verification/Login_Attempts.thy ===== *)
theory Login_Attempts
  imports Audit_Log
begin

text \<open>
  Counting failed logins: the store of \<^verbatim>\<open>login-attempt-store-service.ts\<close>, the platform guard of
  \<^verbatim>\<open>platform-login-guard-service.ts\<close> and the threat detection of \<^verbatim>\<open>auth-threat-detection-service.ts\<close>, all
  under \<^verbatim>\<open>backend/src/application/services\<close>.  The locale \<open>attempt_store\<close> states what the two clients use of the
  store; \<open>db_store\<close> interprets it on the store's operations.  \<open>registerAttempt\<close> is the composition of the
  read of the counter and of the write computed from it, so that interleavings can be stated.
\<close>

section \<open>The store\<close>

record LoginRateLimitState =
  ls_scope :: string
  ls_identifier :: string
  ls_attempts :: int
  ls_windowStartedAt :: instant
  ls_blockedUntil :: "instant option"

record RegisterAttemptOptions =
  windowMs :: int
  maxAttempts :: int
  lockMs :: int

record RegisterAttemptResult =
  ra_locked :: bool
  ra_failures :: int
  ra_blockedUntil :: "instant option"

record att_db = audit_db +
  loginStates :: "LoginRateLimitState list"

definition isKey :: "string \<Rightarrow> string \<Rightarrow> LoginRateLimitState \<Rightarrow> bool" where
  "isKey sc i r \<longleftrightarrow> ls_scope r = sc \<and> ls_identifier r = i"

definition findState :: "string \<Rightarrow> string \<Rightarrow> 'z att_db_scheme \<Rightarrow> LoginRateLimitState option" where
  "findState sc i s = findFirst (isKey sc i) (loginStates s)"

text \<open>\<open>update\<close> on the unique key throws when there is no row.\<close>

definition updateState ::
  "string \<Rightarrow> string \<Rightarrow> (LoginRateLimitState \<Rightarrow> LoginRateLimitState) \<Rightarrow> (app_error, 'z att_db_scheme, LoginRateLimitState) prog" where
  "updateState sc i f =
     bindP (getsP (findState sc i)) (\<lambda>r. case r of
        None \<Rightarrow> throwP (PrismaError ''P2025'')
      | Some row \<Rightarrow> seqP (modifyP (\<lambda>s. s\<lparr>loginStates := updateMany (isKey sc i) f (loginStates s)\<rparr>)) (returnP (f row)))"

definition assertAllowed :: "instant \<Rightarrow> string \<Rightarrow> string \<Rightarrow> (app_error, 'z att_db_scheme, instant option) prog" where
  "assertAllowed now sc i =
     bindP (getsP (findState sc i)) (\<lambda>state.
       case (case state of None \<Rightarrow> None | Some r \<Rightarrow> ls_blockedUntil r) of
         None \<Rightarrow> returnP None
       | Some until \<Rightarrow>
           if until \<le> now
           then seqP (updateState sc i (\<lambda>r. r\<lparr>ls_blockedUntil := None, ls_attempts := 0, ls_windowStartedAt := now\<rparr>)) (returnP None)
           else returnP (Some until))"

text \<open>The write of \<open>registerAttempt\<close>, from the row it has read.\<close>

definition recordAttempt ::
  "instant \<Rightarrow> string \<Rightarrow> string \<Rightarrow> RegisterAttemptOptions \<Rightarrow> LoginRateLimitState option \<Rightarrow>
   (app_error, 'z att_db_scheme, RegisterAttemptResult) prog" where
  "recordAttempt now sc i opts state =
     (if (case state of None \<Rightarrow> True | Some r \<Rightarrow> windowMs opts < now - ls_windowStartedAt r)
      then seqP (modifyP (\<lambda>s.
             if findState sc i s = None
             then s\<lparr>loginStates := loginStates s @ [\<lparr>ls_scope = sc, ls_identifier = i, ls_attempts = 1,
                    ls_windowStartedAt = now, ls_blockedUntil = None\<rparr>]\<rparr>
             else s\<lparr>loginStates := updateMany (isKey sc i)
                    (\<lambda>r. r\<lparr>ls_attempts := 1, ls_windowStartedAt := now, ls_blockedUntil := None\<rparr>) (loginStates s)\<rparr>))
           (returnP \<lparr>ra_locked = False, ra_failures = 1, ra_blockedUntil = None\<rparr>)
      else let nextAttempts = ls_attempts (the state) + 1;
               shouldLock = (maxAttempts opts \<le> nextAttempts);
               blockedUntil = (if shouldLock then Some (now + lockMs opts) else None)
           in bindP (updateState sc i (\<lambda>r. r\<lparr>ls_attempts := nextAttempts, ls_blockedUntil := blockedUntil\<rparr>)) (\<lambda>updated.
              returnP \<lparr>ra_locked = shouldLock, ra_failures = ls_attempts updated, ra_blockedUntil = ls_blockedUntil updated\<rparr>))"

definition registerAttempt ::
  "instant \<Rightarrow> string \<Rightarrow> string \<Rightarrow> RegisterAttemptOptions \<Rightarrow> (app_error, 'z att_db_scheme, RegisterAttemptResult) prog" where
  "registerAttempt now sc i opts = bindP (getsP (findState sc i)) (recordAttempt now sc i opts)"

definition clearAttempts :: "string \<Rightarrow> string \<Rightarrow> (app_error, 'z att_db_scheme, unit) prog" where
  "clearAttempts sc i = modifyP (\<lambda>s. s\<lparr>loginStates := filter (\<lambda>r. \<not> isKey sc i r) (loginStates s)\<rparr>)"

section \<open>The platform guard\<close>

definition makeKey :: "string \<Rightarrow> string \<Rightarrow> string" where
  "makeKey ip email = toLowerCase ip @ ''::'' @ toLowerCase email"

definition PLATFORM_LOGIN_SCOPE :: string where "PLATFORM_LOGIN_SCOPE = ''platform-login''"
definition PLATFORM_PASSWORD_RESET_SCOPE :: string where "PLATFORM_PASSWORD_RESET_SCOPE = ''platform-password-reset''"

definition platformResetOptions :: RegisterAttemptOptions where
  "platformResetOptions = \<lparr>windowMs = 60 * 60 * 1000, maxAttempts = 4, lockMs = 60 * 60 * 1000\<rparr>"

definition platformAssertAllowed :: "instant \<Rightarrow> string \<Rightarrow> string \<Rightarrow> (app_error, 'z att_db_scheme, unit) prog" where
  "platformAssertAllowed now ip email =
     bindP (assertAllowed now PLATFORM_LOGIN_SCOPE (makeKey ip email)) (\<lambda>blockedUntil.
       if blockedUntil = None then returnP () else throwP (AppError 429 ''PLATFORM_LOGIN_LOCKED''))"

text \<open>The options of the platform login come from the environment.\<close>

definition platformRegisterFailure ::
  "RegisterAttemptOptions \<Rightarrow> instant \<Rightarrow> string \<Rightarrow> string \<Rightarrow> (app_error, 'z att_db_scheme, RegisterAttemptResult) prog" where
  "platformRegisterFailure env now ip email = registerAttempt now PLATFORM_LOGIN_SCOPE (makeKey ip email) env"

definition platformRegisterSuccess :: "string \<Rightarrow> string \<Rightarrow> (app_error, 'z att_db_scheme, unit) prog" where
  "platformRegisterSuccess ip email = clearAttempts PLATFORM_LOGIN_SCOPE (makeKey ip email)"

definition assertPasswordResetAllowed :: "instant \<Rightarrow> string \<Rightarrow> string \<Rightarrow> (app_error, 'z att_db_scheme, unit) prog" where
  "assertPasswordResetAllowed now ip email =
     bindP (assertAllowed now PLATFORM_PASSWORD_RESET_SCOPE (makeKey ip email)) (\<lambda>blockedUntil.
       if blockedUntil \<noteq> None then throwP (AppError 429 ''PLATFORM_PASSWORD_RESET_RATE_LIMITED'') else returnP ())"

definition requestPasswordReset :: "instant \<Rightarrow> string \<Rightarrow> string \<Rightarrow> (app_error, 'z att_db_scheme, unit) prog" where
  "requestPasswordReset now ip email =
     seqP (assertPasswordResetAllowed now ip email)
       (bindP (registerAttempt now PLATFORM_PASSWORD_RESET_SCOPE (makeKey ip email) platformResetOptions) (\<lambda>result.
          if ra_locked result then throwP (AppError 429 ''PLATFORM_PASSWORD_RESET_RATE_LIMITED'') else returnP ()))"

definition clearPasswordReset :: "string \<Rightarrow> string \<Rightarrow> (app_error, 'z att_db_scheme, unit) prog" where
  "clearPasswordReset ip email = clearAttempts PLATFORM_PASSWORD_RESET_SCOPE (makeKey ip email)"

section \<open>Threat detection of the tenant login\<close>

definition AUTH_LOGIN_SCOPE :: string where "AUTH_LOGIN_SCOPE = ''auth-login''"

definition authLoginOptions :: RegisterAttemptOptions where
  "authLoginOptions = \<lparr>windowMs = 15 * 60 * 1000, maxAttempts = 8, lockMs = 15 * 60 * 1000\<rparr>"

definition threatKey :: "string option \<Rightarrow> string \<Rightarrow> string" where
  "threatKey ip email = toLowerCase (orElse ip ''unknown'') @ ''::'' @ toLowerCase email"

definition threatAssertAllowed :: "instant \<Rightarrow> string option \<Rightarrow> string \<Rightarrow> (app_error, 'z att_db_scheme, unit) prog" where
  "threatAssertAllowed now ip email =
     bindP (assertAllowed now AUTH_LOGIN_SCOPE (threatKey ip email)) (\<lambda>blockedUntil.
       if blockedUntil = None then returnP () else throwP (AppError 429 ''AUTH_RATE_LIMITED''))"

definition onFailure ::
  "(json \<Rightarrow> string) \<Rightarrow> instant \<Rightarrow> string option \<Rightarrow> string \<Rightarrow> string option \<Rightarrow> (app_error, 'z att_db_scheme, unit) prog" where
  "onFailure hashOf now ip email tenantIdForAudit =
     bindP (registerAttempt now AUTH_LOGIN_SCOPE (threatKey ip email) authLoginOptions) (\<lambda>result.
       case tenantIdForAudit of
         None \<Rightarrow> returnP ()
       | Some t \<Rightarrow>
           if ra_locked result \<and> t \<noteq> []
           then seqP (createAuditLog hashOf now
                  \<lparr>ai_tenantId = t, ai_userId = None, ai_action = ''SECURITY_ALERT_AUTH_BRUTE_FORCE'', ai_resource = ''security'',
                   ai_resourceId = None,
                   ai_details = Some (JObj ([(''email'', JStr email), (''ipAddress'', JStr (orElse ip ''unknown''))] @
                     (case ra_blockedUntil result of None \<Rightarrow> [] | Some b \<Rightarrow> [(''blockedUntil'', JStr (toISOString b))]) @
                     [(''attempts'', JNum (of_int (ra_failures result)))]))\<rparr> None) (returnP ())
           else returnP ())"

definition onSuccess :: "string option \<Rightarrow> string \<Rightarrow> (app_error, 'z att_db_scheme, unit) prog" where
  "onSuccess ip email = clearAttempts AUTH_LOGIN_SCOPE (threatKey ip email)"

section \<open>The interface of the store\<close>

text \<open>
  A counter is the number of attempts, the start of the window and the end of a block.  \<open>blockOf\<close> is the block in force
  at a time, \<open>expire\<close> what a check leaves, \<open>bump\<close> what an attempt leaves.
\<close>

type_synonym counter = "(int \<times> instant \<times> instant option) option"

fun blockOf :: "instant \<Rightarrow> counter \<Rightarrow> instant option" where
  "blockOf now (Some (n, w, Some b)) = (if b \<le> now then None else Some b)"
| "blockOf now _ = None"

fun expire :: "instant \<Rightarrow> counter \<Rightarrow> counter" where
  "expire now (Some (n, w, Some b)) = (if b \<le> now then Some (0, now, None) else Some (n, w, Some b))"
| "expire now c = c"

fun bump :: "instant \<Rightarrow> RegisterAttemptOptions \<Rightarrow> counter \<Rightarrow> int \<times> instant \<times> instant option" where
  "bump now opts None = (1, now, None)"
| "bump now opts (Some (n, w, b)) =
     (if windowMs opts < now - w then (1, now, None)
      else (n + 1, w, if maxAttempts opts \<le> n + 1 then Some (now + lockMs opts) else None))"

text \<open>A failed login: refused if the key is blocked, else counted; the result says whether it was refused.\<close>

definition failedLogin ::
  "(instant \<Rightarrow> string \<Rightarrow> string \<Rightarrow> (app_error, 's, instant option) prog) \<Rightarrow>
   (instant \<Rightarrow> string \<Rightarrow> string \<Rightarrow> RegisterAttemptOptions \<Rightarrow> (app_error, 's, RegisterAttemptResult) prog) \<Rightarrow>
   string \<Rightarrow> string \<Rightarrow> RegisterAttemptOptions \<Rightarrow> instant \<Rightarrow> (app_error, 's, bool) prog" where
  "failedLogin allow register sc i opts now =
     bindP (allow now sc i) (\<lambda>b. if b = None then seqP (register now sc i opts) (returnP False) else returnP True)"

text \<open>The counter after \<open>k\<close> attempts of one window, the last counted one at \<open>te\<close>.\<close>

definition counted :: "RegisterAttemptOptions \<Rightarrow> nat \<Rightarrow> instant \<Rightarrow> instant \<Rightarrow> counter" where
  "counted opts k t1 te =
     (if k = 0 then None else Some (int k, t1, if maxAttempts opts \<le> int k then Some (te + lockMs opts) else None))"

locale attempt_store =
  fixes look :: "string \<Rightarrow> string \<Rightarrow> 's \<Rightarrow> counter"
    and allow :: "instant \<Rightarrow> string \<Rightarrow> string \<Rightarrow> (app_error, 's, instant option) prog"
    and register :: "instant \<Rightarrow> string \<Rightarrow> string \<Rightarrow> RegisterAttemptOptions \<Rightarrow> (app_error, 's, RegisterAttemptResult) prog"
    and clr :: "string \<Rightarrow> string \<Rightarrow> (app_error, 's, unit) prog"
  assumes allow_run: "\<exists>s'. allow now sc i s = (Inr (blockOf now (look sc i s)), s') \<and>
      (\<forall>sc' i'. look sc' i' s' = (if sc' = sc \<and> i' = i then expire now (look sc i s) else look sc' i' s))"
    and register_run: "\<exists>res s'. register now sc i opts s = (Inr res, s') \<and>
      (\<forall>sc' i'. look sc' i' s' = (if sc' = sc \<and> i' = i then Some (bump now opts (look sc i s)) else look sc' i' s)) \<and>
      ra_failures res = fst (bump now opts (look sc i s)) \<and> ra_blockedUntil res = snd (snd (bump now opts (look sc i s))) \<and>
      (ra_locked res \<longleftrightarrow> ra_blockedUntil res \<noteq> None)"
    and clear_run: "\<exists>s'. clr sc i s = (Inr (), s') \<and>
      (\<forall>sc' i'. look sc' i' s' = (if sc' = sc \<and> i' = i then None else look sc' i' s))"
begin

lemma failedLogin_step:
  assumes "look sc i s = counted opts k t1 te" and "2 \<le> maxAttempts opts" and "k = 0 \<longrightarrow> t1 = now"
    and "now - t1 \<le> windowMs opts" and "now < te + lockMs opts" and "int k \<le> maxAttempts opts"
  shows "\<exists>s'. failedLogin allow register sc i opts now s = (Inr (maxAttempts opts \<le> int k), s') \<and>
    look sc i s' = (if maxAttempts opts \<le> int k then counted opts k t1 te else counted opts (Suc k) t1 now) \<and>
    (\<forall>sc' i'. sc' = sc \<and> i' = i \<or> look sc' i' s' = look sc' i' s)"
proof -
  obtain s1 where s1: "allow now sc i s = (Inr (blockOf now (look sc i s)), s1)"
    "\<And>sc' i'. look sc' i' s1 = (if sc' = sc \<and> i' = i then expire now (look sc i s) else look sc' i' s)"
    using allow_run [of now sc i s] by blast
  have same: "expire now (look sc i s) = look sc i s"
    using assms(1,5) by (auto simp: counted_def)
  show ?thesis
  proof (cases "maxAttempts opts \<le> int k")
    case True
    then have "blockOf now (look sc i s) \<noteq> None" using assms(1,2,5) by (auto simp: counted_def)
    with True s1 same assms(1) show ?thesis by (auto simp: failedLogin_def bindP_def returnP_def)
  next
    case False
    then have none: "blockOf now (look sc i s) = None" using assms(1) by (auto simp: counted_def)
    obtain res s2 where s2: "register now sc i opts s1 = (Inr res, s2)"
      "\<And>sc' i'. look sc' i' s2 = (if sc' = sc \<and> i' = i then Some (bump now opts (look sc i s1)) else look sc' i' s1)"
      using register_run [of now sc i opts s1] by blast
    have "Some (bump now opts (look sc i s1)) = counted opts (Suc k) t1 now"
      using s1(2) [of sc i] same assms(1-4) False by (auto simp: counted_def)
    with s1 s2 none same False show ?thesis
      by (auto simp: failedLogin_def bindP_def seqP_def returnP_def)
  qed
qed

end

text \<open>
  A guarded login over such a counter: as long as the counter is that of one window, an attempt is refused exactly when
  the maximum has been counted, and counted otherwise.
\<close>

locale login_guard =
  fixes look :: "'s \<Rightarrow> counter" and opts :: RegisterAttemptOptions and step :: "instant \<Rightarrow> (app_error, 's, bool) prog"
  assumes step_run: "look s = counted opts k t1 te \<Longrightarrow> 2 \<le> maxAttempts opts \<Longrightarrow> k = 0 \<longrightarrow> t1 = now \<Longrightarrow>
    now - t1 \<le> windowMs opts \<Longrightarrow> now < te + lockMs opts \<Longrightarrow> int k \<le> maxAttempts opts \<Longrightarrow>
    \<exists>s'. step now s = (Inr (maxAttempts opts \<le> int k), s') \<and>
      look s' = (if maxAttempts opts \<le> int k then counted opts k t1 te else counted opts (Suc k) t1 now)"
begin

lemma attempts_refused:
  assumes "look s = counted opts k t1 te" and "2 \<le> maxAttempts opts" and "windowMs opts \<le> lockMs opts"
    and "k = 0 \<Longrightarrow> ts \<noteq> [] \<Longrightarrow> t1 = hd ts \<and> te = hd ts" and "int k \<le> maxAttempts opts"
    and "\<forall>t \<in> set ts. t1 \<le> t \<and> t < t1 + windowMs opts" and "t1 \<le> te"
  shows "\<exists>s'. forEachP step ts s =
      (Inr (replicate (min (length ts) (nat (maxAttempts opts) - k)) False @
            replicate (length ts - (nat (maxAttempts opts) - k)) True), s')"
  using assms
proof (induction ts arbitrary: s k te)
  case Nil
  then show ?case by (simp add: returnP_def)
next
  case (Cons t ts)
  have t: "t1 \<le> t" "t < t1 + windowMs opts" "k = 0 \<longrightarrow> t1 = t" using Cons.prems(4,6) by auto
  have before: "t < te + lockMs opts" "t - t1 \<le> windowMs opts" using t Cons.prems(3,7) by linarith+
  from step_run [OF Cons.prems(1,2) t(3) before(2,1) Cons.prems(5)]
  obtain s1 where s1: "step t s = (Inr (maxAttempts opts \<le> int k), s1)"
    "look s1 = (if maxAttempts opts \<le> int k then counted opts k t1 te else counted opts (Suc k) t1 t)" by blast
  let ?out = "\<lambda>j n. replicate (min n (nat (maxAttempts opts) - j)) False @ replicate (n - (nat (maxAttempts opts) - j)) True"
  let ?j = "if maxAttempts opts \<le> int k then k else Suc k"
  let ?te = "if maxAttempts opts \<le> int k then te else t"
  have "\<exists>s'. forEachP step ts s1 = (Inr (?out ?j (length ts)), s')"
    by (rule Cons.IH [of s1 ?j ?te]) (use s1(2) Cons.prems t in auto)
  then obtain s2 where s2: "forEachP step ts s1 = (Inr (?out ?j (length ts)), s2)" by blast
  have out: "(maxAttempts opts \<le> int k) # ?out ?j (length ts) = ?out k (length (t # ts))"
  proof (cases "maxAttempts opts \<le> int k")
    case False
    then have "nat (maxAttempts opts) - k = Suc (nat (maxAttempts opts) - Suc k)" by linarith
    with False show ?thesis by simp
  qed simp
  have "forEachP step (t # ts) s = (Inr (?out k (length (t # ts))), s2)"
    unfolding out [symmetric] by (simp add: bindP_def returnP_def s1(1) s2(1))
  then show ?case by blast
qed

text \<open>From a key without a counter: the first \<open>maxAttempts\<close> attempts of a window are counted, all later ones refused.\<close>

corollary window_budget:
  assumes "look s = None" and "2 \<le> maxAttempts opts" and "windowMs opts \<le> lockMs opts"
    and "\<forall>t \<in> set ts. hd ts \<le> t \<and> t < hd ts + windowMs opts"
  shows "\<exists>s'. forEachP step ts s =
      (Inr (replicate (min (length ts) (nat (maxAttempts opts))) False @
            replicate (length ts - nat (maxAttempts opts)) True), s')"
  using attempts_refused [of s 0 "hd ts" "hd ts" ts] assms by (simp add: counted_def)

end

section \<open>The store implements its interface\<close>

definition dbLook :: "string \<Rightarrow> string \<Rightarrow> 'z att_db_scheme \<Rightarrow> counter" where
  "dbLook sc i s = map_option (\<lambda>r. (ls_attempts r, ls_windowStartedAt r, ls_blockedUntil r)) (findState sc i s)"

lemma isKey_upd [simp]:
  "isKey sc i (r\<lparr>ls_attempts := a\<rparr>) = isKey sc i r" "isKey sc i (r\<lparr>ls_windowStartedAt := w\<rparr>) = isKey sc i r"
  "isKey sc i (r\<lparr>ls_blockedUntil := b\<rparr>) = isKey sc i r"
  by (simp_all add: isKey_def)

lemma isKey_new [simp]:
  "isKey sc' i' \<lparr>ls_scope = sc, ls_identifier = i, ls_attempts = a, ls_windowStartedAt = w, ls_blockedUntil = b\<rparr> \<longleftrightarrow> sc' = sc \<and> i' = i"
  by (auto simp: isKey_def)

lemma isKey_unique: "isKey sc i r \<Longrightarrow> isKey sc' i' r \<longleftrightarrow> sc' = sc \<and> i' = i"
  by (auto simp: isKey_def)

lemma findState_update:
  assumes "\<And>r. isKey sc i r \<Longrightarrow> isKey sc i (f r)"
  shows "findState sc' i' (s\<lparr>loginStates := updateMany (isKey sc i) f (loginStates s)\<rparr>) =
    (if sc' = sc \<and> i' = i then map_option f (findState sc i s) else findState sc' i' s)"
proof -
  have "List.find (isKey sc' i') (updateMany (isKey sc i) f rs) =
      (if sc' = sc \<and> i' = i then map_option f (List.find (isKey sc i) rs) else List.find (isKey sc' i') rs)" for rs
  proof (induction rs)
    case (Cons r rs)
    have "isKey sc i r \<Longrightarrow> isKey sc' i' (f r) \<longleftrightarrow> sc' = sc \<and> i' = i" "isKey sc i r \<Longrightarrow> isKey sc' i' r \<longleftrightarrow> sc' = sc \<and> i' = i"
      using assms [of r] by (auto simp: isKey_def)
    with Cons show ?case by (auto simp: updateMany_def)
  qed (simp add: updateMany_def)
  then show ?thesis by (simp add: findState_def)
qed

lemma findState_snoc:
  "findState sc' i' (s\<lparr>loginStates := loginStates s @ [r]\<rparr>) =
    (case findState sc' i' s of None \<Rightarrow> if isKey sc' i' r then Some r else None | Some q \<Rightarrow> Some q)"
proof -
  have "List.find P (rs @ [r]) = (case List.find P rs of None \<Rightarrow> if P r then Some r else None | Some q \<Rightarrow> Some q)" for P rs
    by (induction rs) auto
  then show ?thesis by (simp add: findState_def)
qed

lemma findState_filter:
  "findState sc' i' (s\<lparr>loginStates := filter (\<lambda>r. \<not> isKey sc i r) (loginStates s)\<rparr>) =
    (if sc' = sc \<and> i' = i then None else findState sc' i' s)"
proof -
  have "List.find (isKey sc' i') (filter (\<lambda>r. \<not> isKey sc i r) rs) =
      (if sc' = sc \<and> i' = i then None else List.find (isKey sc' i') rs)" for rs
    by (induction rs) (auto simp: isKey_unique)
  then show ?thesis by (simp add: findState_def)
qed

lemma run_updateState:
  assumes "findState sc i s = Some r"
  shows "updateState sc i f s = (Inr (f r), s\<lparr>loginStates := updateMany (isKey sc i) f (loginStates s)\<rparr>)"
  using assms by (simp add: updateState_def prog_defs)

lemma findState_key: "findState sc i s = Some r \<Longrightarrow> isKey sc i r"
  unfolding findState_def by (auto dest: find_Some_iff_mem)

interpretation db_store: attempt_store dbLook assertAllowed registerAttempt clearAttempts
proof
  fix now sc i and s :: "'a att_db_scheme"
  show "\<exists>s'. assertAllowed now sc i s = (Inr (blockOf now (dbLook sc i s)), s') \<and>
      (\<forall>sc' i'. dbLook sc' i' s' = (if sc' = sc \<and> i' = i then expire now (dbLook sc i s) else dbLook sc' i' s))"
  proof (cases "findState sc i s")
    case None
    then show ?thesis by (auto simp: assertAllowed_def prog_defs dbLook_def)
  next
    case (Some r)
    show ?thesis
    proof (cases "ls_blockedUntil r")
      case None
      with Some show ?thesis by (auto simp: assertAllowed_def prog_defs dbLook_def)
    next
      case (Some b)
      with \<open>findState sc i s = Some r\<close> show ?thesis
        by (auto simp: assertAllowed_def bindP_def seqP_def getsP_def returnP_def run_updateState findState_update dbLook_def)
    qed
  qed
next
  fix now sc i opts and s :: "'a att_db_scheme"
  show "\<exists>res s'. registerAttempt now sc i opts s = (Inr res, s') \<and>
      (\<forall>sc' i'. dbLook sc' i' s' = (if sc' = sc \<and> i' = i then Some (bump now opts (dbLook sc i s)) else dbLook sc' i' s)) \<and>
      ra_failures res = fst (bump now opts (dbLook sc i s)) \<and> ra_blockedUntil res = snd (snd (bump now opts (dbLook sc i s))) \<and>
      (ra_locked res \<longleftrightarrow> ra_blockedUntil res \<noteq> None)"
  proof (cases "findState sc i s")
    case None
    then show ?thesis
      by (auto simp: registerAttempt_def recordAttempt_def bindP_def seqP_def getsP_def modifyP_def returnP_def dbLook_def
        findState_snoc split: option.split)
  next
    case (Some r)
    then show ?thesis
      by (auto simp: registerAttempt_def recordAttempt_def bindP_def seqP_def getsP_def modifyP_def returnP_def dbLook_def
        findState_update run_updateState Let_def)
  qed
next
  fix sc i and s :: "'a att_db_scheme"
  show "\<exists>s'. clearAttempts sc i s = (Inr (), s') \<and>
      (\<forall>sc' i'. dbLook sc' i' s' = (if sc' = sc \<and> i' = i then None else dbLook sc' i' s))"
    by (auto simp: clearAttempts_def modifyP_def dbLook_def findState_filter)
qed

section \<open>How many wrong passwords a window allows\<close>

text \<open>A wrong password at the tenant login and at the platform login, as the callers compose the guards; the result says whether it was refused.\<close>

definition wrongTenantLogin ::
  "(json \<Rightarrow> string) \<Rightarrow> string option \<Rightarrow> string \<Rightarrow> string option \<Rightarrow> instant \<Rightarrow> (app_error, 'z att_db_scheme, bool) prog" where
  "wrongTenantLogin hashOf ip email tid now =
     tryP (seqP (threatAssertAllowed now ip email) (seqP (onFailure hashOf now ip email tid) (returnP False))) (\<lambda>_. returnP True)"

definition wrongPlatformLogin ::
  "RegisterAttemptOptions \<Rightarrow> string \<Rightarrow> string \<Rightarrow> instant \<Rightarrow> (app_error, 'z att_db_scheme, bool) prog" where
  "wrongPlatformLogin env ip email now =
     tryP (seqP (platformAssertAllowed now ip email) (seqP (platformRegisterFailure env now ip email) (returnP False))) (\<lambda>_. returnP True)"

lemma dbLook_audit [simp]: "dbLook sc i (s\<lparr>auditLogs := a\<rparr>) = dbLook sc i s"
  by (simp add: dbLook_def findState_def)

lemma onFailure_run:
  assumes "registerAttempt now AUTH_LOGIN_SCOPE (threatKey ip email) authLoginOptions s = (Inr res, s1)"
  shows "\<exists>a. onFailure hashOf now ip email tid s = (Inr (), s1\<lparr>auditLogs := a\<rparr>)"
proof -
  have "\<exists>row. createAuditLog hashOf now i None s1 = (Inr row, s1\<lparr>auditLogs := auditLogs s1 @ [row]\<rparr>)" for i
    using run_createAuditLog [of hashOf now i None s1] by blast
  then have audit: "\<exists>a row. createAuditLog hashOf now i None s1 = (Inr row, s1\<lparr>auditLogs := a\<rparr>)" for i by blast
  have none: "\<exists>a. s1 = s1\<lparr>auditLogs := a\<rparr>" by (intro exI [of _ "auditLogs s1"]) simp
  show ?thesis
  proof (cases "\<exists>t. tid = Some t \<and> ra_locked res \<and> t \<noteq> []")
    case True
    then obtain t where t: "tid = Some t" "ra_locked res" "t \<noteq> []" by blast
    let ?i = "\<lparr>ai_tenantId = t, ai_userId = None, ai_action = ''SECURITY_ALERT_AUTH_BRUTE_FORCE'', ai_resource = ''security'',
       ai_resourceId = None,
       ai_details = Some (JObj ([(''email'', JStr email), (''ipAddress'', JStr (orElse ip ''unknown''))] @
         (case ra_blockedUntil res of None \<Rightarrow> [] | Some b \<Rightarrow> [(''blockedUntil'', JStr (toISOString b))]) @
         [(''attempts'', JNum (of_int (ra_failures res)))]))\<rparr>"
    obtain a row where "createAuditLog hashOf now ?i None s1 = (Inr row, s1\<lparr>auditLogs := a\<rparr>)" using audit by blast
    with t assms show ?thesis
      by (auto simp: onFailure_def bindP_def seqP_def returnP_def)
  next
    case False
    with assms none show ?thesis
      by (auto simp: onFailure_def bindP_def returnP_def split: option.split)
  qed
qed

lemma wrongTenantLogin_run:
  "\<exists>a s1. wrongTenantLogin hashOf ip email tid now s =
     (fst (failedLogin assertAllowed registerAttempt AUTH_LOGIN_SCOPE (threatKey ip email) authLoginOptions now s), s1\<lparr>auditLogs := a\<rparr>) \<and>
     s1 = snd (failedLogin assertAllowed registerAttempt AUTH_LOGIN_SCOPE (threatKey ip email) authLoginOptions now s)"
proof -
  obtain b s1 where allow: "assertAllowed now AUTH_LOGIN_SCOPE (threatKey ip email) s = (Inr b, s1)"
    using db_store.allow_run [of now AUTH_LOGIN_SCOPE "threatKey ip email" s] by blast
  obtain res s2 where reg: "registerAttempt now AUTH_LOGIN_SCOPE (threatKey ip email) authLoginOptions s1 = (Inr res, s2)"
    using db_store.register_run [of now AUTH_LOGIN_SCOPE "threatKey ip email" authLoginOptions s1] by blast
  obtain a where fail: "onFailure hashOf now ip email tid s1 = (Inr (), s2\<lparr>auditLogs := a\<rparr>)"
    using onFailure_run [OF reg] by blast
  have same: "\<exists>a. s1 = s1\<lparr>auditLogs := a\<rparr>" by (intro exI [of _ "auditLogs s1"]) simp
  show ?thesis
    using allow reg fail same
    by (auto simp: wrongTenantLogin_def failedLogin_def threatAssertAllowed_def tryP_def bindP_def seqP_def returnP_def throwP_def)
qed

lemma wrongPlatformLogin_run:
  "wrongPlatformLogin env ip email now s =
     failedLogin assertAllowed registerAttempt PLATFORM_LOGIN_SCOPE (makeKey ip email) env now s"
proof -
  obtain b s1 where allow: "assertAllowed now PLATFORM_LOGIN_SCOPE (makeKey ip email) s = (Inr b, s1)"
    using db_store.allow_run [of now PLATFORM_LOGIN_SCOPE "makeKey ip email" s] by blast
  obtain res s2 where reg: "registerAttempt now PLATFORM_LOGIN_SCOPE (makeKey ip email) env s1 = (Inr res, s2)"
    using db_store.register_run [of now PLATFORM_LOGIN_SCOPE "makeKey ip email" env s1] by blast
  show ?thesis
    using allow reg
    by (auto simp: wrongPlatformLogin_def failedLogin_def platformAssertAllowed_def platformRegisterFailure_def
      tryP_def bindP_def seqP_def returnP_def throwP_def)
qed

interpretation tenant_guard: login_guard "dbLook AUTH_LOGIN_SCOPE (threatKey ip email)" authLoginOptions
    "wrongTenantLogin hashOf ip email tid" for ip email hashOf tid
proof
  fix s :: "'a att_db_scheme" and k t1 te now
  assume "dbLook AUTH_LOGIN_SCOPE (threatKey ip email) s = counted authLoginOptions k t1 te" "2 \<le> maxAttempts authLoginOptions"
    "k = 0 \<longrightarrow> t1 = now" "now - t1 \<le> windowMs authLoginOptions" "now < te + lockMs authLoginOptions" "int k \<le> maxAttempts authLoginOptions"
  from db_store.failedLogin_step [OF this] wrongTenantLogin_run [of hashOf ip email tid now s]
  show "\<exists>s'. wrongTenantLogin hashOf ip email tid now s = (Inr (maxAttempts authLoginOptions \<le> int k), s') \<and>
      dbLook AUTH_LOGIN_SCOPE (threatKey ip email) s' =
        (if maxAttempts authLoginOptions \<le> int k then counted authLoginOptions k t1 te else counted authLoginOptions (Suc k) t1 now)"
    by (metis dbLook_audit fst_conv snd_conv)
qed

interpretation platform_guard: login_guard "dbLook PLATFORM_LOGIN_SCOPE (makeKey ip email)" env
    "wrongPlatformLogin env ip email" for ip email env
proof
  fix s :: "'a att_db_scheme" and k t1 te now
  assume "dbLook PLATFORM_LOGIN_SCOPE (makeKey ip email) s = counted env k t1 te" "2 \<le> maxAttempts env"
    "k = 0 \<longrightarrow> t1 = now" "now - t1 \<le> windowMs env" "now < te + lockMs env" "int k \<le> maxAttempts env"
  from db_store.failedLogin_step [OF this]
  show "\<exists>s'. wrongPlatformLogin env ip email now s = (Inr (maxAttempts env \<le> int k), s') \<and>
      dbLook PLATFORM_LOGIN_SCOPE (makeKey ip email) s' =
        (if maxAttempts env \<le> int k then counted env k t1 te else counted env (Suc k) t1 now)"
    unfolding wrongPlatformLogin_run by blast
qed


text \<open>
  Counters do not leak between keys.  A failed tenant login of one address and e-mail, its check and its success change
  no counter of another scope or key; a success removes the key's own counter, so the next check passes; the key ignores
  the case of address and e-mail.
\<close>

theorem login_counters_isolated:
  "let own = (\<lambda>sc i. sc = AUTH_LOGIN_SCOPE \<and> i = threatKey ip email);
       untouched = (\<lambda>s'. \<forall>sc i. own sc i \<or> dbLook sc i s' = dbLook sc i s)
   in untouched (snd (threatAssertAllowed now ip email s)) \<and>
      untouched (snd (onFailure hashOf now ip email tid s)) \<and>
      untouched (snd (onSuccess ip email s)) \<and>
      fst (threatAssertAllowed now ip email (snd (onSuccess ip email s))) = Inr () \<and>
      threatKey (map_option toUpperCase ip) (toUpperCase email) = threatKey ip email"
proof -
  have up: "toLowerCase (toUpperCase t) = toLowerCase t" for t
  proof -
    have "toLowerChar (toUpperChar c) = toLowerChar c" for c
    proof (cases "97 \<le> (of_char c :: nat) \<and> (of_char c :: nat) \<le> 122")
      case True
      then have b: "((of_char c :: nat) - 32) mod 256 = of_char c - 32" by (intro mod_less) linarith
      have "(of_char c - 32 + 32 :: nat) = of_char c" using True by linarith
      then show ?thesis using True b by (auto simp: toLowerChar_def toUpperChar_def Let_def)
    qed (auto simp: toUpperChar_def Let_def)
    then show ?thesis by (simp add: toLowerCase_def toUpperCase_def)
  qed
  obtain b s1 where allow: "assertAllowed now AUTH_LOGIN_SCOPE (threatKey ip email) s = (Inr b, s1)"
    "\<And>sc i. dbLook sc i s1 = (if sc = AUTH_LOGIN_SCOPE \<and> i = threatKey ip email then expire now (dbLook AUTH_LOGIN_SCOPE (threatKey ip email) s) else dbLook sc i s)"
    using db_store.allow_run [of now AUTH_LOGIN_SCOPE "threatKey ip email" s] by blast
  obtain res s2 where reg: "registerAttempt now AUTH_LOGIN_SCOPE (threatKey ip email) authLoginOptions s = (Inr res, s2)"
    "\<And>sc i. dbLook sc i s2 = (if sc = AUTH_LOGIN_SCOPE \<and> i = threatKey ip email then Some (bump now authLoginOptions (dbLook AUTH_LOGIN_SCOPE (threatKey ip email) s)) else dbLook sc i s)"
    using db_store.register_run [of now AUTH_LOGIN_SCOPE "threatKey ip email" authLoginOptions s] by blast
  obtain a where fail: "onFailure hashOf now ip email tid s = (Inr (), s2\<lparr>auditLogs := a\<rparr>)"
    using onFailure_run [OF reg(1)] by blast
  obtain s3 where clr: "clearAttempts AUTH_LOGIN_SCOPE (threatKey ip email) s = (Inr (), s3)"
    "\<And>sc i. dbLook sc i s3 = (if sc = AUTH_LOGIN_SCOPE \<and> i = threatKey ip email then None else dbLook sc i s)"
    using db_store.clear_run [of AUTH_LOGIN_SCOPE "threatKey ip email" s] by blast
  obtain s4 where again: "assertAllowed now AUTH_LOGIN_SCOPE (threatKey ip email) s3 = (Inr None, s4)"
    using db_store.allow_run [of now AUTH_LOGIN_SCOPE "threatKey ip email" s3] clr(2) by auto
  have "snd (threatAssertAllowed now ip email s) = s1"
    using allow(1) by (simp add: threatAssertAllowed_def bindP_def returnP_def throwP_def)
  moreover have "fst (threatAssertAllowed now ip email s3) = Inr ()"
    using again by (simp add: threatAssertAllowed_def bindP_def returnP_def)
  ultimately show ?thesis
    using allow(2) reg(2) fail clr by (cases ip) (simp_all add: Let_def onSuccess_def threatKey_def up)
qed

text \<open>
  Parallel wrong passwords are counted once.  The store reads the counter and writes the incremented value in two
  steps: any number of attempts that have all read the counter before the first of them writes leave it
  incremented by one and unlocked, and none of them is reported as locked.  The limit of C19 holds only for attempts
  that follow one another.
\<close>

theorem parallel_attempts_counted_once:
  assumes "findState sc i s = Some r" and "ls_attempts r + 1 < maxAttempts opts" and "ts \<noteq> []"
    and "\<forall>t \<in> set ts. t - ls_windowStartedAt r \<le> windowMs opts"
  shows "\<exists>res s'. forEachP (\<lambda>t. recordAttempt t sc i opts (Some r)) ts s = (Inr res, s') \<and>
    dbLook sc i s' = Some (ls_attempts r + 1, ls_windowStartedAt r, None) \<and> (\<forall>x \<in> set res. \<not> ra_locked x)"
proof -
  let ?f = "\<lambda>q. q\<lparr>ls_attempts := ls_attempts r + 1, ls_blockedUntil := None\<rparr>"
  have step: "recordAttempt t sc i opts (Some r) u =
      (Inr \<lparr>ra_locked = False, ra_failures = ls_attempts r + 1, ra_blockedUntil = None\<rparr>,
       u\<lparr>loginStates := updateMany (isKey sc i) ?f (loginStates u)\<rparr>)"
    if "findState sc i u = Some q" "t \<in> set ts" for t u q
    using that assms(2,4) by (auto simp: recordAttempt_def Let_def run_updateState bindP_def returnP_def)
  have "\<exists>res s'. forEachP (\<lambda>t. recordAttempt t sc i opts (Some r)) us u = (Inr res, s') \<and>
      findState sc i s' = Some (if us = [] then q else ?f q) \<and> (\<forall>x \<in> set res. \<not> ra_locked x)"
    if "findState sc i u = Some q" "set us \<subseteq> set ts" for us u q
    using that
  proof (induction us arbitrary: u q)
    case Nil
    then show ?case by (simp add: returnP_def)
  next
    case (Cons t us)
    let ?u = "u\<lparr>loginStates := updateMany (isKey sc i) ?f (loginStates u)\<rparr>"
    have "findState sc i ?u = Some (?f q)" using Cons.prems(1) by (simp add: findState_update)
    from Cons.IH [OF this] Cons.prems(2) obtain res s' where
      "forEachP (\<lambda>t. recordAttempt t sc i opts (Some r)) us ?u = (Inr res, s')"
      "findState sc i s' = Some (if us = [] then ?f q else ?f (?f q))" "\<forall>x \<in> set res. \<not> ra_locked x" by auto
    then show ?case
      using step [OF Cons.prems(1)] Cons.prems(2) by (auto simp: bindP_def returnP_def split: if_splits)
  qed
  from this [OF assms(1) order_refl] assms(3) show ?thesis by (auto simp: dbLook_def)
qed

section \<open>Witnesses\<close>

definition sampleAttempts :: att_db where
  "sampleAttempts = \<lparr>auditLogs = [], loginStates = [\<lparr>ls_scope = ''auth-login'', ls_identifier = ''k'', ls_attempts = 1,
     ls_windowStartedAt = 0, ls_blockedUntil = None\<rparr>]\<rparr>"


text \<open>An instance of the preceding theorem: three parallel attempts on a counter at one leave it at two.\<close>

theorem parallel_attempts_counted_once_witness:
  "\<exists>res s'. forEachP (\<lambda>t. recordAttempt t ''auth-login'' ''k'' authLoginOptions (findState ''auth-login'' ''k'' sampleAttempts)) [1, 2, 3] sampleAttempts = (Inr res, s') \<and>
     dbLook ''auth-login'' ''k'' s' = Some (2, 0, None)"
proof -
  obtain r where r: "findState ''auth-login'' ''k'' sampleAttempts = Some r" "ls_attempts r = 1" "ls_windowStartedAt r = 0"
    by (simp add: findState_def sampleAttempts_def isKey_def)
  then show ?thesis
    using parallel_attempts_counted_once [OF r(1), of authLoginOptions "[1, 2, 3]"] by (auto simp: authLoginOptions_def)
qed

end
