(* ===== verification/Auth_Session.thy ===== *)
theory Auth_Session
  imports License_Policy
begin

text \<open>
  Sessions and credentials of tenant users: \<^verbatim>\<open>application/services/auth-session-service.ts\<close>,
  \<^verbatim>\<open>application/usecases/auth/login-usecase.ts\<close> and \<^verbatim>\<open>reset-password-usecase.ts\<close>, the middlewares \<^verbatim>\<open>auth.ts\<close>,
  \<^verbatim>\<open>permissions.ts\<close> and \<^verbatim>\<open>csrf-protection.ts\<close>, and \<^verbatim>\<open>authorization-policy-service.ts\<close>, all under \<^verbatim>\<open>backend/src\<close>.

  Parameters stand for what is outside: \<open>hashTok\<close> the SHA-256 digest of a token, \<open>sign\<close> and \<open>verify\<close> the
  JSON web tokens, \<open>bcryptHash\<close> and \<open>bcryptOk\<close> the password hash, fresh identifiers and random tokens.
  A transaction first waits for the row lock of the user; \<open>rely\<close> is what other transactions have
  committed when it gets the lock.  A rollback undoes the transaction's own writes, which all come after the lock.
\<close>

section \<open>Data\<close>

datatype UserStatus = ACTIVE | INVITED | SUSPENDED

record RoleRow =
  ro_key :: string
  ro_permissions :: "string list"

record User =
  u_id :: string
  u_tenantId :: string
  u_email :: string
  u_passwordHash :: string
  u_firstName :: string
  u_lastName :: string
  u_status :: UserStatus
  u_deletedAt :: "instant option"
  u_roles :: "RoleRow list"

record RefreshSession =
  rs_id :: string
  rs_userId :: string
  rs_tenantId :: string
  rs_tokenHash :: string
  rs_userAgent :: "string option"
  rs_ipAddress :: "string option"
  rs_expiresAt :: instant
  rs_revokedAt :: "instant option"
  rs_replacedById :: "string option"
  rs_createdAt :: instant

record PasswordResetToken =
  pt_id :: string
  pt_userId :: string
  pt_tokenHash :: string
  pt_expiresAt :: instant
  pt_usedAt :: "instant option"

record auth_db = lic_db +
  users :: "User list"
  refreshSessions :: "RefreshSession list"
  resetTokens :: "PasswordResetToken list"

text \<open>The claims of a token; a claim that is missing or has another type is \<open>None\<close>.\<close>

record JwtPayload =
  jp_userId :: "string option"
  jp_tenantId :: "string option"
  jp_roles :: "string list"
  jp_permissions :: "string list"
  jp_tokenType :: "string option"
  jp_sessionId :: "string option"

record SessionUser =
  su_id :: string
  su_tenantId :: string
  su_email :: string
  su_firstName :: string
  su_lastName :: string
  su_status :: UserStatus
  su_roles :: "string list"
  su_permissions :: "string list"

record SessionInput =
  si_userId :: string
  si_tenantId :: string
  si_roles :: "string list"
  si_permissions :: "string list"
  si_userAgent :: "string option"
  si_ipAddress :: "string option"
  si_expectedPasswordHash :: "string option"

record IssuedSession =
  is_accessToken :: string
  is_refreshToken :: string
  is_sessionId :: string
  is_refreshExpiresAt :: instant

section \<open>Rows\<close>

text \<open>The distinct elements in the order of their first occurrence, as a \<open>Set\<close> built from an array has them.\<close>

definition setOf :: "'a list \<Rightarrow> 'a list" where
  "setOf xs = rev (remdups (rev xs))"

definition toSessionUser :: "User \<Rightarrow> SessionUser" where
  "toSessionUser user =
     \<lparr>su_id = u_id user, su_tenantId = u_tenantId user, su_email = u_email user, su_firstName = u_firstName user,
      su_lastName = u_lastName user, su_status = u_status user, su_roles = map ro_key (u_roles user),
      su_permissions = setOf (concat (map ro_permissions (u_roles user)))\<rparr>"

definition activeUser :: "string \<Rightarrow> string \<Rightarrow> User \<Rightarrow> bool" where
  "activeUser userId tenantId u \<longleftrightarrow> u_id u = userId \<and> u_tenantId u = tenantId \<and> u_deletedAt u = None \<and> u_status u = ACTIVE"

text \<open>\<open>tx.auditLog.create\<close>: the entry as it is given.\<close>

definition rawAudit ::
  "instant \<Rightarrow> string \<Rightarrow> string \<Rightarrow> string \<Rightarrow> string \<Rightarrow> string option \<Rightarrow> json \<Rightarrow> (app_error, 'z auth_db_scheme, unit) prog" where
  "rawAudit now tenantId userId action resource resourceId details =
     modifyP (\<lambda>s. s\<lparr>auditLogs := auditLogs s @
       [\<lparr>al_tenantId = tenantId, al_userId = Some userId, al_action = action, al_resource = resource,
         al_resourceId = resourceId, al_details = details, al_createdAt = now\<rparr>]\<rparr>)"

text \<open>\<open>tx.refreshSession.create\<close>; identifier and token hash are unique.\<close>

definition insertSession :: "RefreshSession \<Rightarrow> (app_error, 'z auth_db_scheme, RefreshSession) prog" where
  "insertSession row =
     bindP (getsP refreshSessions) (\<lambda>rows.
       if \<exists>r \<in> set rows. rs_id r = rs_id row \<or> rs_tokenHash r = rs_tokenHash row then throwP (PrismaError ''P2002'')
       else seqP (modifyP (\<lambda>s. s\<lparr>refreshSessions := refreshSessions s @ [row]\<rparr>)) (returnP row))"

text \<open>The lock on the user's row, after which the transaction sees what others have committed.\<close>

definition lockUserForAuthMutation ::
  "('z auth_db_scheme \<Rightarrow> 'z auth_db_scheme) \<Rightarrow> string \<Rightarrow> (app_error, 'z auth_db_scheme, bool) prog" where
  "lockUserForAuthMutation rely userId =
     seqP (modifyP rely) (getsP (\<lambda>s. length (filter (\<lambda>u. u_id u = userId) (users s)) = 1))"

definition REFRESH_TTL_DAYS :: int where "REFRESH_TTL_DAYS = 30"

definition auditIpAnomaly ::
  "instant \<Rightarrow> string \<Rightarrow> string \<Rightarrow> string option \<Rightarrow> (app_error, 'z auth_db_scheme, unit) prog" where
  "auditIpAnomaly now tenantId userId ipAddress =
     (case ipAddress of None \<Rightarrow> returnP ()
      | Some ip \<Rightarrow>
          if ip = [] then returnP ()
          else bindP (getsP (\<lambda>s. take 30 (sort_key (\<lambda>r. - rs_createdAt r)
                 (filter (\<lambda>r. rs_userId r = userId \<and> now - 24 * 60 * 60 * 1000 \<le> rs_createdAt r) (refreshSessions s))))) (\<lambda>recentSessions.
               let uniqueIps = setOf (filter (\<lambda>x. x \<noteq> []) (List.map_filter rs_ipAddress recentSessions))
               in whenP (4 \<le> length uniqueIps)
                    (rawAudit now tenantId userId ''SECURITY_ALERT_SESSION_ANOMALY'' ''security'' None
                      (JObj [(''uniqueIpsLast24h'', JNum (of_nat (length uniqueIps))), (''ipAddress'', JStr ip),
                             (''sample'', JArr (map JStr (take 6 uniqueIps)))]))))"

definition sessionDetails :: "string \<Rightarrow> string option \<Rightarrow> string option \<Rightarrow> json" where
  "sessionDetails sid ip ua = JObj [(''sessionId'', JStr sid), (''ipAddress'', jstrOrNull ip), (''userAgent'', jstrOrNull ua)]"

section \<open>The session service\<close>

definition createSession ::
  "(string \<Rightarrow> string) \<Rightarrow> (JwtPayload \<Rightarrow> string) \<Rightarrow> ('z auth_db_scheme \<Rightarrow> 'z auth_db_scheme) \<Rightarrow> instant \<Rightarrow> string \<Rightarrow> string \<Rightarrow>
   SessionInput \<Rightarrow> (app_error, 'z auth_db_scheme, IssuedSession) prog" where
  "createSession hashTok sign rely now rawRefresh newId i =
     (let expiresAt = now + REFRESH_TTL_DAYS * 86400000 in
      bindP (bindP (lockUserForAuthMutation rely (si_userId i)) (\<lambda>userExists. atomicP
        (if \<not> userExists then throwP (AppError 404 ''NOT_FOUND'')
         else bindP (getsP (\<lambda>s. findFirst (activeUser (si_userId i) (si_tenantId i)) (users s))) (\<lambda>currentUser.
           case currentUser of None \<Rightarrow> throwP (AppError 403 ''FORBIDDEN'')
           | Some u \<Rightarrow>
             if (case si_expectedPasswordHash i of None \<Rightarrow> False | Some h \<Rightarrow> h \<noteq> [] \<and> u_passwordHash u \<noteq> h)
             then throwP (AppError 401 ''UNAUTHORIZED'')
             else bindP (insertSession \<lparr>rs_id = newId, rs_userId = si_userId i, rs_tenantId = si_tenantId i,
                    rs_tokenHash = hashTok rawRefresh, rs_userAgent = si_userAgent i, rs_ipAddress = si_ipAddress i,
                    rs_expiresAt = expiresAt, rs_revokedAt = None, rs_replacedById = None, rs_createdAt = now\<rparr>) (\<lambda>created.
                  seqP (auditIpAnomaly now (si_tenantId i) (si_userId i) (si_ipAddress i))
                  (seqP (rawAudit now (si_tenantId i) (si_userId i) ''AUTH_SESSION_CREATED'' ''auth_session'' (Some (rs_id created))
                     (sessionDetails (rs_id created) (si_ipAddress i) (si_userAgent i)))
                  (returnP created)))))))
      (\<lambda>session. returnP
        \<lparr>is_accessToken = sign \<lparr>jp_userId = Some (si_userId i), jp_tenantId = Some (si_tenantId i), jp_roles = si_roles i,
           jp_permissions = si_permissions i, jp_tokenType = Some ''access'', jp_sessionId = Some (rs_id session)\<rparr>,
         is_refreshToken = rawRefresh, is_sessionId = rs_id session, is_refreshExpiresAt = expiresAt\<rparr>))"

definition auditReuse :: "instant \<Rightarrow> string option \<Rightarrow> string option \<Rightarrow> RefreshSession \<Rightarrow> (app_error, 'z auth_db_scheme, unit) prog" where
  "auditReuse now ip ua r =
     (case rs_replacedById r of None \<Rightarrow> returnP ()
      | Some by \<Rightarrow> if by = [] then returnP () else
          rawAudit now (rs_tenantId r) (rs_userId r) ''SECURITY_ALERT_REFRESH_REUSE'' ''auth_session'' (Some (rs_id r))
            (JObj [(''sessionId'', JStr (rs_id r)), (''replacedBySessionId'', JStr by), (''ipAddress'', jstrOrNull ip),
                   (''userAgent'', jstrOrNull ua)]))"

definition findToken :: "string \<Rightarrow> 'z auth_db_scheme \<Rightarrow> RefreshSession option" where
  "findToken h s = findFirst (\<lambda>r. rs_tokenHash r = h) (refreshSessions s)"

text \<open>The part of the rotation that follows the consumption of the presented session.\<close>

definition rotateTo ::
  "instant \<Rightarrow> string \<Rightarrow> string \<Rightarrow> instant \<Rightarrow> string option \<Rightarrow> string option \<Rightarrow> RefreshSession \<Rightarrow>
   (app_error, 'z auth_db_scheme, (string \<times> SessionUser) option) prog" where
  "rotateTo now newId newHash refreshExpiresAt ua ip cur =
     bindP (getsP (\<lambda>s. findFirst (activeUser (rs_userId cur) (rs_tenantId cur)) (users s))) (\<lambda>userRecord.
     case userRecord of None \<Rightarrow> throwP (AppError 403 ''FORBIDDEN'')
     | Some u \<Rightarrow>
       bindP (insertSession \<lparr>rs_id = newId, rs_userId = u_id u, rs_tenantId = u_tenantId u, rs_tokenHash = newHash,
         rs_userAgent = ua, rs_ipAddress = ip, rs_expiresAt = refreshExpiresAt, rs_revokedAt = None,
         rs_replacedById = None, rs_createdAt = now\<rparr>) (\<lambda>successor.
       seqP (modifyP (\<lambda>s. s\<lparr>refreshSessions := updateMany (\<lambda>r. rs_id r = rs_id cur)
              (\<lambda>r. r\<lparr>rs_replacedById := Some (rs_id successor)\<rparr>) (refreshSessions s)\<rparr>))
       (seqP (rawAudit now (u_tenantId u) (u_id u) ''AUTH_SESSION_CREATED'' ''auth_session'' (Some (rs_id successor))
          (sessionDetails (rs_id successor) ip ua))
       (seqP (rawAudit now (rs_tenantId cur) (rs_userId cur) ''AUTH_SESSION_REFRESHED'' ''auth_session'' (Some (rs_id cur))
          (JObj [(''oldSessionId'', JStr (rs_id cur)), (''newSessionId'', JStr (rs_id successor)),
                 (''ipAddress'', jstrOrNull ip), (''userAgent'', jstrOrNull ua)]))
       (seqP (auditIpAnomaly now (u_tenantId u) (u_id u) ip)
       (returnP (Some (rs_id successor, toSessionUser u))))))))"

record RefreshResult =
  rr_sessionId :: string
  rr_user :: SessionUser
  rr_accessToken :: string
  rr_refreshToken :: string
  rr_refreshExpiresAt :: instant

definition refresh ::
  "(string \<Rightarrow> string) \<Rightarrow> (JwtPayload \<Rightarrow> string) \<Rightarrow> ('z auth_db_scheme \<Rightarrow> 'z auth_db_scheme) \<Rightarrow> instant \<Rightarrow> string \<Rightarrow> string \<Rightarrow>
   string \<Rightarrow> string option \<Rightarrow> string option \<Rightarrow> (app_error, 'z auth_db_scheme, RefreshResult) prog" where
  "refresh hashTok sign rely now rawRotated newId rawRefreshToken ua ip =
     (let tokenHash = hashTok rawRefreshToken; refreshExpiresAt = now + REFRESH_TTL_DAYS * 86400000 in
      bindP (bindP (getsP (findToken tokenHash)) (\<lambda>candidate.
        if (case candidate of None \<Rightarrow> True | Some c \<Rightarrow> rs_expiresAt c \<le> now) then returnP None
        else bindP (lockUserForAuthMutation rely (rs_userId (the candidate))) (\<lambda>userExists. atomicP
          (if \<not> userExists then returnP None
           else bindP (getsP (findToken tokenHash)) (\<lambda>current.
             case current of None \<Rightarrow> returnP None
             | Some cur \<Rightarrow>
               if rs_expiresAt cur \<le> now then returnP None
               else if rs_revokedAt cur \<noteq> None then seqP (auditReuse now ip ua cur) (returnP None)
               else bindP (getsP (\<lambda>s. countWhere (\<lambda>r. rs_id r = rs_id cur \<and> rs_tokenHash r = tokenHash \<and> rs_revokedAt r = None \<and>
                          now < rs_expiresAt r) (refreshSessions s))) (\<lambda>consumed.
                    seqP (modifyP (\<lambda>s. s\<lparr>refreshSessions := updateMany (\<lambda>r. rs_id r = rs_id cur \<and> rs_tokenHash r = tokenHash \<and>
                          rs_revokedAt r = None \<and> now < rs_expiresAt r) (\<lambda>r. r\<lparr>rs_revokedAt := Some now\<rparr>) (refreshSessions s)\<rparr>))
                    (if consumed \<noteq> 1
                     then bindP (getsP (findToken tokenHash)) (\<lambda>latest.
                       seqP (case latest of None \<Rightarrow> returnP () | Some l \<Rightarrow> auditReuse now ip ua l) (returnP None))
                     else rotateTo now newId (hashTok rawRotated) refreshExpiresAt ua ip cur)))))))
      (\<lambda>rotated. case rotated of None \<Rightarrow> throwP (AppError 401 ''UNAUTHORIZED'')
       | Some (sid, user) \<Rightarrow> returnP
          \<lparr>rr_sessionId = sid, rr_user = user,
           rr_accessToken = sign \<lparr>jp_userId = Some (su_id user), jp_tenantId = Some (su_tenantId user), jp_roles = su_roles user,
             jp_permissions = su_permissions user, jp_tokenType = Some ''access'', jp_sessionId = Some sid\<rparr>,
           rr_refreshToken = rawRotated, rr_refreshExpiresAt = refreshExpiresAt\<rparr>))"

section \<open>Revocation\<close>

lemma filter_less_length:
  assumes "x \<in> set xs" and "P x" and "\<not> Q x" and "\<And>y. Q y \<Longrightarrow> P y"
  shows "length (filter Q xs) < length (filter P xs)"
  using assms(1)
proof (induction xs)
  case (Cons y ys)
  have "length (filter Q ys) \<le> length (filter P ys)"
    by (induction ys) (auto simp: assms(4) le_SucI)
  with Cons assms(2-4) show ?case by (auto simp: less_Suc_eq_le)
qed simp

text \<open>The loop that follows \<open>replacedById\<close> from a session; \<open>visited\<close> makes it stop on a cycle.\<close>

function chainFromSession ::
  "RefreshSession list \<Rightarrow> string \<Rightarrow> string option \<Rightarrow> string list \<Rightarrow> RefreshSession list" where
  "chainFromSession rows userId cursor visited =
     (case cursor of None \<Rightarrow> []
      | Some c \<Rightarrow>
          if c = [] \<or> c \<in> set visited then []
          else case findFirst (\<lambda>r. rs_id r = c \<and> rs_userId r = userId) rows of
            None \<Rightarrow> []
          | Some r \<Rightarrow> r # chainFromSession rows userId (rs_replacedById r) (c # visited))"
  by pat_completeness auto

termination
proof (relation "measure (\<lambda>(rows, userId, cursor, visited). length (filter (\<lambda>r. rs_id r \<notin> set visited) rows))")
  fix rows :: "RefreshSession list" and userId cursor visited c r
  assume "cursor = Some c" "\<not> (c = [] \<or> c \<in> set visited)"
    "findFirst (\<lambda>r. rs_id r = c \<and> rs_userId r = userId) rows = Some r"
  then have "r \<in> set rows" "rs_id r = c" "c \<notin> set visited" by (auto dest: find_Some_iff_mem)
  then show "((rows, userId, rs_replacedById r, c # visited), rows, userId, cursor, visited)
      \<in> measure (\<lambda>(rows, userId, cursor, visited). length (filter (\<lambda>r. rs_id r \<notin> set visited) rows))"
    by (auto intro!: filter_less_length [where x = r])
qed simp

definition revokeSessionChain ::
  "('z auth_db_scheme \<Rightarrow> 'z auth_db_scheme) \<Rightarrow> instant \<Rightarrow> string \<Rightarrow> string \<Rightarrow> string \<Rightarrow> (app_error, 'z auth_db_scheme, bool) prog" where
  "revokeSessionChain rely now sessionId userId action =
     seqP (bindP (lockUserForAuthMutation rely userId) (\<lambda>userExists. atomicP
       (if \<not> userExists then returnP ()
        else bindP (getsP (\<lambda>s. chainFromSession (refreshSessions s) userId (Some sessionId) [])) (\<lambda>chain.
          case chain of [] \<Rightarrow> returnP ()
          | first # _ \<Rightarrow>
            if rs_tenantId first = [] then returnP ()
            else let P = (\<lambda>r. rs_id r \<in> rs_id ` set chain \<and> rs_userId r = userId \<and> rs_revokedAt r = None) in
              bindP (getsP (\<lambda>s. countWhere P (refreshSessions s))) (\<lambda>count.
              seqP (modifyP (\<lambda>s. s\<lparr>refreshSessions := updateMany P (\<lambda>r. r\<lparr>rs_revokedAt := Some now\<rparr>) (refreshSessions s)\<rparr>))
                (whenP (0 < count) (rawAudit now (rs_tenantId first) userId action ''auth_session'' (Some sessionId)
                  (JObj [(''count'', JNum (of_nat count))]))))))))
     (returnP True)"

definition revokeCurrent ::
  "('z auth_db_scheme \<Rightarrow> 'z auth_db_scheme) \<Rightarrow> instant \<Rightarrow> string \<Rightarrow> string \<Rightarrow> (app_error, 'z auth_db_scheme, bool) prog" where
  "revokeCurrent rely now sessionId userId = revokeSessionChain rely now sessionId userId ''AUTH_SESSION_REVOKED_CURRENT''"

definition revokeById ::
  "('z auth_db_scheme \<Rightarrow> 'z auth_db_scheme) \<Rightarrow> instant \<Rightarrow> string \<Rightarrow> string \<Rightarrow> (app_error, 'z auth_db_scheme, bool) prog" where
  "revokeById rely now sessionId userId = revokeSessionChain rely now sessionId userId ''AUTH_SESSION_REVOKED_BY_ID''"

definition revokeAll ::
  "('z auth_db_scheme \<Rightarrow> 'z auth_db_scheme) \<Rightarrow> instant \<Rightarrow> string \<Rightarrow> (app_error, 'z auth_db_scheme, bool) prog" where
  "revokeAll rely now userId =
     seqP (bindP (lockUserForAuthMutation rely userId) (\<lambda>userExists. atomicP
       (if \<not> userExists then returnP ()
        else let P = (\<lambda>r. rs_userId r = userId \<and> rs_revokedAt r = None) in
          bindP (getsP (\<lambda>s. (findFirst P (refreshSessions s), countWhere P (refreshSessions s)))) (\<lambda>(session, count).
          seqP (modifyP (\<lambda>s. s\<lparr>refreshSessions := updateMany P (\<lambda>r. r\<lparr>rs_revokedAt := Some now\<rparr>) (refreshSessions s)\<rparr>))
            (case session of None \<Rightarrow> returnP ()
             | Some x \<Rightarrow> whenP (0 < count) (rawAudit now (rs_tenantId x) userId ''AUTH_SESSIONS_REVOKED_ALL'' ''auth_session'' None
                 (JObj [(''count'', JNum (of_nat count))])))))))
     (returnP True)"

definition listSessions :: "instant \<Rightarrow> string \<Rightarrow> 'z auth_db_scheme \<Rightarrow> RefreshSession list" where
  "listSessions now userId s =
     (let active = sort_key (\<lambda>r. - rs_createdAt r)
            (filter (\<lambda>r. rs_userId r = userId \<and> rs_revokedAt r = None \<and> now < rs_expiresAt r) (refreshSessions s));
          historyLimit = 20 - length active;
          history = take historyLimit (sort_key (\<lambda>r. - rs_createdAt r)
            (filter (\<lambda>r. rs_userId r = userId \<and> (rs_revokedAt r \<noteq> None \<or> rs_expiresAt r \<le> now)) (refreshSessions s)))
      in active @ history)"

section \<open>Password reset\<close>

text \<open>\<open>rely\<close> is what is committed between the first check and the lock, while the new password is hashed.\<close>

definition resetPassword ::
  "(string \<Rightarrow> string) \<Rightarrow> (string \<Rightarrow> string) \<Rightarrow> ('z auth_db_scheme \<Rightarrow> 'z auth_db_scheme) \<Rightarrow> instant \<Rightarrow> instant \<Rightarrow> string \<Rightarrow> string \<Rightarrow>
   (app_error, 'z auth_db_scheme, bool) prog" where
  "resetPassword hashTok bcryptHash rely preflightAt now token newPassword =
     bindP (getsP (\<lambda>s. findFirst (\<lambda>t. pt_tokenHash t = hashTok token \<and> pt_usedAt t = None \<and> preflightAt < pt_expiresAt t \<and>
              (\<exists>u \<in> set (users s). u_id u = pt_userId t \<and> u_deletedAt u = None \<and> u_status u = ACTIVE)) (resetTokens s))) (\<lambda>found.
     case found of None \<Rightarrow> throwP (AppError 400 ''INVALID_TOKEN'')
     | Some record \<Rightarrow>
       bindP (lockUserForAuthMutation rely (pt_userId record)) (\<lambda>userExists. atomicP
         (if \<not> userExists then throwP (AppError 400 ''INVALID_TOKEN'')
          else let P = (\<lambda>t. pt_id t = pt_id record \<and> pt_usedAt t = None \<and> now < pt_expiresAt t);
                   U = (\<lambda>u. u_id u = pt_userId record \<and> u_deletedAt u = None \<and> u_status u = ACTIVE) in
            bindP (getsP (\<lambda>s. countWhere P (resetTokens s))) (\<lambda>consumed.
            seqP (modifyP (\<lambda>s. s\<lparr>resetTokens := updateMany P (\<lambda>t. t\<lparr>pt_usedAt := Some now\<rparr>) (resetTokens s)\<rparr>))
            (if consumed \<noteq> 1 then throwP (AppError 400 ''INVALID_TOKEN'')
             else bindP (getsP (\<lambda>s. countWhere U (users s))) (\<lambda>updated.
               seqP (modifyP (\<lambda>s. s\<lparr>users := updateMany U (\<lambda>u. u\<lparr>u_passwordHash := bcryptHash newPassword\<rparr>) (users s)\<rparr>))
               (if updated \<noteq> 1 then throwP (AppError 400 ''INVALID_TOKEN'')
                else seqP (modifyP (\<lambda>s. s\<lparr>resetTokens := updateMany (\<lambda>t. pt_userId t = pt_userId record \<and> pt_id t \<noteq> pt_id record \<and>
                         pt_usedAt t = None) (\<lambda>t. t\<lparr>pt_usedAt := Some now\<rparr>) (resetTokens s)\<rparr>))
                  (seqP (modifyP (\<lambda>s. s\<lparr>refreshSessions := updateMany (\<lambda>r. rs_userId r = pt_userId record \<and> rs_revokedAt r = None)
                         (\<lambda>r. r\<lparr>rs_revokedAt := Some now\<rparr>) (refreshSessions s)\<rparr>))
                  (returnP True)))))))))"

section \<open>Login\<close>

definition findUserById :: "string \<Rightarrow> 'z auth_db_scheme \<Rightarrow> SessionUser option" where
  "findUserById userId s = map_option toSessionUser (findFirst (\<lambda>u. u_id u = userId \<and> u_deletedAt u = None) (users s))"

record LoginContext =
  lc_userAgent :: "string option"
  lc_ipAddress :: "string option"

record LoginResult =
  lr_token :: string
  lr_refreshToken :: string
  lr_refreshExpiresAt :: instant
  lr_user :: SessionUser

text \<open>What the login gets from outside: token hash, token signature, password check, licence evaluation, lock waits, fresh values.\<close>

record 's login_env =
  le_hashTok :: "string \<Rightarrow> string"
  le_sign :: "JwtPayload \<Rightarrow> string"
  le_bcryptOk :: "string \<Rightarrow> string \<Rightarrow> bool"
  le_evaluate :: "string \<Rightarrow> 's \<Rightarrow> LicenseAccess"
  le_rely :: "'s \<Rightarrow> 's"
  le_now :: instant
  le_rawRefresh :: string
  le_newId :: string

definition issueSessionForUser ::
  "'z auth_db_scheme login_env \<Rightarrow> string \<Rightarrow> LoginContext \<Rightarrow> string option \<Rightarrow> (app_error, 'z auth_db_scheme, LoginResult) prog" where
  "issueSessionForUser E userId ctx expectedPasswordHash =
     bindP (getsP (findUserById userId)) (\<lambda>found.
     case found of None \<Rightarrow> throwP (AppError 404 ''NOT_FOUND'')
     | Some user \<Rightarrow>
       if su_status user \<noteq> ACTIVE then throwP (AppError 403 ''FORBIDDEN'')
       else bindP (getsP (le_evaluate E (su_tenantId user))) (\<lambda>access.
         let canAuthenticateForBilling = ac_reason access \<in> {Some ''LICENSE_PENDING'', Some ''LICENSE_EXPIRED'',
               Some ''LICENSE_PAST_DUE'', Some ''LICENSE_SUSPENDED'', Some ''LICENSE_CANCELED''}
         in if ac_blocked access \<and> \<not> canAuthenticateForBilling
            then (if ac_reason access = Some ''TENANT_INACTIVE'' then throwP (AppError 403 ''TENANT_INACTIVE'')
                  else if ac_reason access = Some ''LICENSE_SUSPENDED'' then throwP (AppError 403 ''LICENSE_SUSPENDED'')
                  else throwP (AppError 402 ''LICENSE_EXPIRED''))
            else bindP (createSession (le_hashTok E) (le_sign E) (le_rely E) (le_now E) (le_rawRefresh E) (le_newId E)
                   \<lparr>si_userId = su_id user, si_tenantId = su_tenantId user, si_roles = su_roles user,
                    si_permissions = su_permissions user, si_userAgent = lc_userAgent ctx, si_ipAddress = lc_ipAddress ctx,
                    si_expectedPasswordHash = expectedPasswordHash\<rparr>) (\<lambda>session.
                 returnP \<lparr>lr_token = le_sign E \<lparr>jp_userId = Some (su_id user), jp_tenantId = Some (su_tenantId user),
                     jp_roles = su_roles user, jp_permissions = su_permissions user, jp_tokenType = Some ''access'',
                     jp_sessionId = Some (is_sessionId session)\<rparr>,
                   lr_refreshToken = is_refreshToken session, lr_refreshExpiresAt = is_refreshExpiresAt session, lr_user = user\<rparr>)))"

definition loginExecute ::
  "'z auth_db_scheme login_env \<Rightarrow> string \<Rightarrow> string \<Rightarrow> LoginContext \<Rightarrow> (app_error, 'z auth_db_scheme, LoginResult) prog" where
  "loginExecute E email password ctx =
     bindP (getsP (\<lambda>s. filter (\<lambda>u. u_email u = email \<and> u_deletedAt u = None) (users s))) (\<lambda>candidates.
     if candidates = [] then throwP (AppError 401 ''UNAUTHORIZED'')
     else case filter (\<lambda>c. le_bcryptOk E password (u_passwordHash c)) candidates of
         [] \<Rightarrow> throwP (AppError 401 ''UNAUTHORIZED'')
       | [matched] \<Rightarrow>
           bindP (getsP (findUserById (u_id matched))) (\<lambda>user.
             issueSessionForUser E (case user of None \<Rightarrow> [] | Some u \<Rightarrow> su_id u) ctx (Some (u_passwordHash matched)))
       | _ \<Rightarrow> throwP (AppError 409 ''AMBIGUOUS_LOGIN''))"

definition executeTrustedEmail ::
  "'z auth_db_scheme login_env \<Rightarrow> string \<Rightarrow> LoginContext \<Rightarrow> (app_error, 'z auth_db_scheme, LoginResult) prog" where
  "executeTrustedEmail E email ctx =
     (let normalized = toLowerCase (trim email) in
      if normalized = [] then throwP (AppError 400 ''INVALID_SOCIAL_EMAIL'')
      else bindP (getsP (\<lambda>s. filter (\<lambda>u. u_email u = normalized \<and> u_deletedAt u = None) (users s))) (\<lambda>candidates.
        case candidates of
          [] \<Rightarrow> throwP (AppError 404 ''SOCIAL_USER_NOT_FOUND'')
        | [c] \<Rightarrow> issueSessionForUser E (u_id c) ctx None
        | _ \<Rightarrow> throwP (AppError 409 ''AMBIGUOUS_LOGIN'')))"

section \<open>Request guards\<close>

record AuthContext =
  ax_userId :: string
  ax_tenantId :: string
  ax_roles :: "string list"
  ax_permissions :: "string list"
  ax_sessionId :: string

text \<open>\<open>verify\<close> gives the claims of a token with a valid signature; \<open>None\<close> is the error of the token library.\<close>

definition requireAuth ::
  "(string \<Rightarrow> JwtPayload option) \<Rightarrow> instant \<Rightarrow> string option \<Rightarrow> string option \<Rightarrow> (app_error, 'z auth_db_scheme, AuthContext) prog" where
  "requireAuth verify now authHeader cookieToken =
     (let bearerToken = (case authHeader of None \<Rightarrow> None
            | Some h \<Rightarrow> if take 7 h = ''Bearer '' then Some (drop 7 h) else None);
          token = (if truthy bearerToken then bearerToken else cookieToken)
      in if \<not> truthy token then throwP (AppError 401 ''UNAUTHORIZED'')
         else case verify (the token) of
           None \<Rightarrow> throwP (AppError 401 ''UNAUTHORIZED'')
         | Some p \<Rightarrow>
             if jp_tokenType p \<noteq> Some ''access'' \<or> \<not> truthy (jp_sessionId p) \<or> jp_userId p = None \<or> jp_tenantId p = None
             then throwP (AppError 401 ''UNAUTHORIZED'')
             else bindP (getsP (\<lambda>s. (users s, findFirst (\<lambda>r. rs_id r = the (jp_sessionId p) \<and> rs_userId r = the (jp_userId p) \<and>
                      rs_tenantId r = the (jp_tenantId p) \<and> rs_revokedAt r = None \<and> now < rs_expiresAt r \<and>
                      (\<exists>u \<in> set (users s). activeUser (the (jp_userId p)) (the (jp_tenantId p)) u)) (refreshSessions s)))) (\<lambda>(us, session).
               case session of None \<Rightarrow> throwP (AppError 401 ''UNAUTHORIZED'')
               | Some r \<Rightarrow>
                 (case findFirst (\<lambda>u. u_id u = rs_userId r) us of None \<Rightarrow> throwP (AppError 401 ''UNAUTHORIZED'')
                  | Some u \<Rightarrow> returnP \<lparr>ax_userId = u_id u, ax_tenantId = u_tenantId u, ax_roles = map ro_key (u_roles u),
                      ax_permissions = setOf (concat (map ro_permissions (u_roles u))), ax_sessionId = rs_id r\<rparr>)))"

definition assertPermissions :: "string list \<Rightarrow> string list option \<Rightarrow> string list \<Rightarrow> (app_error, 's, unit) prog" where
  "assertPermissions permissions roles required =
     (if (case roles of None \<Rightarrow> False | Some rs \<Rightarrow> ''ADMIN'' \<in> set rs) then returnP ()
      else if list_all (\<lambda>p. p \<in> set permissions) required then returnP ()
      else throwP (AppError 403 ''FORBIDDEN''))"

definition requirePermissions :: "string list \<Rightarrow> AuthContext option \<Rightarrow> (app_error, 's, unit) prog" where
  "requirePermissions required auth =
     (case auth of None \<Rightarrow> throwP (AppError 401 ''UNAUTHORIZED'')
      | Some a \<Rightarrow> assertPermissions (ax_permissions a) (Some (ax_roles a)) required)"

text \<open>\<open>csrfHeader\<close> is the header as text, empty when it is missing.\<close>

definition requireCsrfProtection :: "string \<Rightarrow> string option \<Rightarrow> string option \<Rightarrow> string \<Rightarrow> (app_error, 's, unit) prog" where
  "requireCsrfProtection httpMethod authHeader cookieToken csrfHeader =
     (if toUpperCase httpMethod \<notin> {''POST'', ''PUT'', ''PATCH'', ''DELETE''} then returnP ()
      else if (case authHeader of None \<Rightarrow> False | Some h \<Rightarrow> take 7 h = ''Bearer '') then returnP ()
      else if \<not> truthy cookieToken \<or> csrfHeader = [] \<or> cookieToken \<noteq> Some csrfHeader then throwP (AppError 403 ''CSRF_INVALID'')
      else returnP ())"

section \<open>Rotation of refresh tokens\<close>

definition authInv :: "'z auth_db_scheme \<Rightarrow> bool" where
  "authInv s \<longleftrightarrow> distinct (map u_id (users s)) \<and> distinct (map rs_id (refreshSessions s)) \<and>
     distinct (map rs_tokenHash (refreshSessions s)) \<and> distinct (map pt_id (resetTokens s))"

text \<open>Programs that only append audit entries.\<close>

definition auditOnly :: "(app_error, 'z auth_db_scheme, 'a) prog \<Rightarrow> bool" where
  "auditOnly m \<longleftrightarrow> (\<forall>s. \<exists>x a. m s = (Inr x, s\<lparr>auditLogs := auditLogs s @ a\<rparr>))"

lemma auditOnlyE: "auditOnly m \<Longrightarrow> \<exists>x a. m s = (Inr x, s\<lparr>auditLogs := auditLogs s @ a\<rparr>)"
  by (simp add: auditOnly_def)

lemma auditOnly_return: "auditOnly (returnP x)"
  by (auto simp: auditOnly_def returnP_def intro!: exI [of _ "[]"])

lemma auditOnly_raw: "auditOnly (rawAudit now t u a res rid d)"
  by (auto simp: auditOnly_def rawAudit_def modifyP_def)

lemma auditOnly_gets: "(\<And>x. auditOnly (g x)) \<Longrightarrow> auditOnly (bindP (getsP f) g)"
  by (simp add: auditOnly_def bindP_def getsP_def)

lemma auditOnly_when: "auditOnly m \<Longrightarrow> auditOnly (whenP b m)"
  by (simp add: whenP_def auditOnly_return)

lemma auditOnly_anomaly: "auditOnly (auditIpAnomaly now t u ip)"
  unfolding auditIpAnomaly_def Let_def
  by (cases ip) (simp_all add: auditOnly_return auditOnly_gets auditOnly_when auditOnly_raw)

lemma auditOnly_reuse: "auditOnly (auditReuse now ip ua r)"
  unfolding auditReuse_def
  by (cases "rs_replacedById r") (simp_all add: auditOnly_return auditOnly_raw)

lemma auditOnly_seq:
  assumes "auditOnly m" and "auditOnly n"
  shows "auditOnly (seqP m n)"
  unfolding auditOnly_def
proof
  fix s
  obtain x a where 1: "m s = (Inr x, s\<lparr>auditLogs := auditLogs s @ a\<rparr>)" using auditOnlyE [OF assms(1)] by blast
  obtain y b where "n (s\<lparr>auditLogs := auditLogs s @ a\<rparr>) = (Inr y, s\<lparr>auditLogs := auditLogs s @ a\<rparr>\<lparr>auditLogs := auditLogs s @ a @ b\<rparr>)"
    using auditOnlyE [OF assms(2), of "s\<lparr>auditLogs := auditLogs s @ a\<rparr>"] by auto
  with 1 show "\<exists>x a. seqP m n s = (Inr x, s\<lparr>auditLogs := auditLogs s @ a\<rparr>)"
    by (auto simp: seqP_def bindP_def)
qed

lemma run_insertSession:
  "insertSession row s =
    (if \<exists>r \<in> set (refreshSessions s). rs_id r = rs_id row \<or> rs_tokenHash r = rs_tokenHash row then (Inl (PrismaError ''P2002''), s)
     else (Inr row, s\<lparr>refreshSessions := refreshSessions s @ [row]\<rparr>))"
  by (simp add: insertSession_def bindP_def getsP_def throwP_def seqP_def modifyP_def returnP_def)

lemma run_lock:
  "lockUserForAuthMutation rely userId s = (Inr (length (filter (\<lambda>u. u_id u = userId) (users (rely s))) = 1), rely s)"
  by (simp add: lockUserForAuthMutation_def seqP_def bindP_def modifyP_def getsP_def)

text \<open>The sessions a rotation leaves.\<close>

definition rotatedRows :: "instant \<Rightarrow> RefreshSession \<Rightarrow> RefreshSession \<Rightarrow> RefreshSession list \<Rightarrow> RefreshSession list" where
  "rotatedRows now cur successor rows =
     updateMany (\<lambda>r. rs_id r = rs_id cur) (\<lambda>r. r\<lparr>rs_revokedAt := Some now, rs_replacedById := Some (rs_id successor)\<rparr>) rows @ [successor]"

definition successorOf ::
  "instant \<Rightarrow> string \<Rightarrow> string \<Rightarrow> string option \<Rightarrow> string option \<Rightarrow> User \<Rightarrow> RefreshSession" where
  "successorOf now newId newHash ua ip u =
     \<lparr>rs_id = newId, rs_userId = u_id u, rs_tenantId = u_tenantId u, rs_tokenHash = newHash, rs_userAgent = ua, rs_ipAddress = ip,
      rs_expiresAt = now + REFRESH_TTL_DAYS * 86400000, rs_revokedAt = None, rs_replacedById = None, rs_createdAt = now\<rparr>"

lemma audit_then_return: "auditOnly m \<Longrightarrow> \<exists>a. seqP m (returnP x) s = (Inr x, s\<lparr>auditLogs := auditLogs s @ a\<rparr>)"
  using auditOnlyE [of m s] by (auto simp: seqP_def bindP_def returnP_def)

lemma rotateTo_fails:
  "findFirst (activeUser (rs_userId cur) (rs_tenantId cur)) (users s) = None \<Longrightarrow>
    rotateTo now newId newHash e ua ip cur s = (Inl (AppError 403 ''FORBIDDEN''), s)"
  "findFirst (activeUser (rs_userId cur) (rs_tenantId cur)) (users s) = Some u \<Longrightarrow>
    \<exists>r \<in> set (refreshSessions s). rs_id r = newId \<or> rs_tokenHash r = newHash \<Longrightarrow>
    rotateTo now newId newHash e ua ip cur s = (Inl (PrismaError ''P2002''), s)"
  by (simp_all add: rotateTo_def bindP_def getsP_def throwP_def run_insertSession)

lemma rotateTo_run:
  assumes "findFirst (activeUser (rs_userId cur) (rs_tenantId cur)) (users s) = Some u"
    and "\<not> (\<exists>r \<in> set (refreshSessions s). rs_id r = newId \<or> rs_tokenHash r = newHash)"
  shows "\<exists>a. rotateTo now newId newHash (now + REFRESH_TTL_DAYS * 86400000) ua ip cur s =
    (Inr (Some (newId, toSessionUser u)),
     s\<lparr>refreshSessions := updateMany (\<lambda>r. rs_id r = rs_id cur) (\<lambda>r. r\<lparr>rs_replacedById := Some newId\<rparr>)
         (refreshSessions s @ [successorOf now newId newHash ua ip u]), auditLogs := auditLogs s @ a\<rparr>)"
proof -
  let ?t = "s\<lparr>refreshSessions := updateMany (\<lambda>r. rs_id r = rs_id cur) (\<lambda>r. r\<lparr>rs_replacedById := Some newId\<rparr>)
         (refreshSessions s @ [successorOf now newId newHash ua ip u])\<rparr>"
  let ?m = "seqP (seqP (rawAudit now (u_tenantId u) (u_id u) ''AUTH_SESSION_CREATED'' ''auth_session'' (Some newId) (sessionDetails newId ip ua))
      (rawAudit now (rs_tenantId cur) (rs_userId cur) ''AUTH_SESSION_REFRESHED'' ''auth_session'' (Some (rs_id cur))
          (JObj [(''oldSessionId'', JStr (rs_id cur)), (''newSessionId'', JStr newId),
                 (''ipAddress'', jstrOrNull ip), (''userAgent'', jstrOrNull ua)])))
      (auditIpAnomaly now (u_tenantId u) (u_id u) ip)"
  have "auditOnly ?m" by (intro auditOnly_seq auditOnly_raw auditOnly_anomaly)
  from audit_then_return [OF this, of "Some (newId, toSessionUser u)" ?t]
  obtain a where a: "seqP ?m (returnP (Some (newId, toSessionUser u))) ?t = (Inr (Some (newId, toSessionUser u)), ?t\<lparr>auditLogs := auditLogs ?t @ a\<rparr>)"
    by blast
  have "rotateTo now newId newHash (now + REFRESH_TTL_DAYS * 86400000) ua ip cur s = seqP ?m (returnP (Some (newId, toSessionUser u))) ?t"
    using assms
    by (simp add: rotateTo_def bindP_def [of "getsP _"] getsP_def bindP_def [of "insertSession _"] run_insertSession
      run_seq_modify successorOf_def seqP_assoc [symmetric])
  with a show ?thesis by auto
qed

text \<open>The rotation once the user's row is locked, and the whole in terms of it.\<close>

definition rotateLocked ::
  "(string \<Rightarrow> string) \<Rightarrow> instant \<Rightarrow> string \<Rightarrow> string \<Rightarrow> string \<Rightarrow> string option \<Rightarrow> string option \<Rightarrow>
   (app_error, 'z auth_db_scheme, (string \<times> SessionUser) option) prog" where
  "rotateLocked hashTok now rawRotated newId tokenHash ua ip =
     bindP (getsP (findToken tokenHash)) (\<lambda>current.
       case current of None \<Rightarrow> returnP None
       | Some cur \<Rightarrow>
         if rs_expiresAt cur \<le> now then returnP None
         else if rs_revokedAt cur \<noteq> None then seqP (auditReuse now ip ua cur) (returnP None)
         else bindP (getsP (\<lambda>s. countWhere (\<lambda>r. rs_id r = rs_id cur \<and> rs_tokenHash r = tokenHash \<and> rs_revokedAt r = None \<and>
                    now < rs_expiresAt r) (refreshSessions s))) (\<lambda>consumed.
              seqP (modifyP (\<lambda>s. s\<lparr>refreshSessions := updateMany (\<lambda>r. rs_id r = rs_id cur \<and> rs_tokenHash r = tokenHash \<and>
                    rs_revokedAt r = None \<and> now < rs_expiresAt r) (\<lambda>r. r\<lparr>rs_revokedAt := Some now\<rparr>) (refreshSessions s)\<rparr>))
              (if consumed \<noteq> 1
               then bindP (getsP (findToken tokenHash)) (\<lambda>latest.
                 seqP (case latest of None \<Rightarrow> returnP () | Some l \<Rightarrow> auditReuse now ip ua l) (returnP None))
               else rotateTo now newId (hashTok rawRotated) (now + REFRESH_TTL_DAYS * 86400000) ua ip cur)))"

lemma run_refresh:
  "refresh hashTok sign rely now rawRotated newId raw ua ip s =
    (let t = rely s; h = hashTok raw in
     if (case findToken h s of None \<Rightarrow> True | Some c \<Rightarrow> rs_expiresAt c \<le> now) then (Inl (AppError 401 ''UNAUTHORIZED''), s)
     else if length (filter (\<lambda>u. u_id u = rs_userId (the (findToken h s))) (users t)) \<noteq> 1 then (Inl (AppError 401 ''UNAUTHORIZED''), t)
     else case atomicP (rotateLocked hashTok now rawRotated newId h ua ip) t of
       (Inl e, t') \<Rightarrow> (Inl e, t')
     | (Inr None, t') \<Rightarrow> (Inl (AppError 401 ''UNAUTHORIZED''), t')
     | (Inr (Some (sid, user)), t') \<Rightarrow>
         (Inr \<lparr>rr_sessionId = sid, rr_user = user,
            rr_accessToken = sign \<lparr>jp_userId = Some (su_id user), jp_tenantId = Some (su_tenantId user), jp_roles = su_roles user,
              jp_permissions = su_permissions user, jp_tokenType = Some ''access'', jp_sessionId = Some sid\<rparr>,
            rr_refreshToken = rawRotated, rr_refreshExpiresAt = now + REFRESH_TTL_DAYS * 86400000\<rparr>, t'))"
  unfolding refresh_def Let_def rotateLocked_def [symmetric]
  by (auto simp: bindP_def [of "bindP _ _"] bindP_def [of "getsP _"] bindP_def [of "lockUserForAuthMutation _ _"] getsP_def run_lock
    throwP_def returnP_def atomicP_def split: option.split prod.split sum.split)

lemma findToken_mem: "findToken h s = Some r \<Longrightarrow> r \<in> set (refreshSessions s) \<and> rs_tokenHash r = h"
  unfolding findToken_def by (auto dest: find_Some_iff_mem)

lemma findToken_unique:
  "distinct (map rs_tokenHash (refreshSessions s)) \<Longrightarrow> r \<in> set (refreshSessions s) \<Longrightarrow> rs_tokenHash r = h \<Longrightarrow> findToken h s = Some r"
  unfolding findToken_def by (rule find_by_key [where key = rs_tokenHash]) auto

lemma rotate_rows:
  assumes "distinct (map rs_id rows)" and "cur \<in> set rows" and "rs_revokedAt cur = None" and "now < rs_expiresAt cur"
    and "rs_id succ \<noteq> rs_id cur" and "h = rs_tokenHash cur"
  shows "updateMany (\<lambda>r. rs_id r = rs_id cur) (\<lambda>r. r\<lparr>rs_replacedById := Some (rs_id succ)\<rparr>)
      (updateMany (\<lambda>r. rs_id r = rs_id cur \<and> rs_tokenHash r = h \<and> rs_revokedAt r = None \<and> now < rs_expiresAt r)
        (\<lambda>r. r\<lparr>rs_revokedAt := Some now\<rparr>) rows @ [succ]) = rotatedRows now cur succ rows"
proof -
  have only: "r = cur" if "r \<in> set rows" "rs_id r = rs_id cur" for r
    using assms(1,2) that by (auto dest: distinct_key_unique)
  show ?thesis
    using assms(3-6) by (auto simp: rotatedRows_def updateMany_def dest: only)
qed

lemma keyed_updateMany:
  assumes "\<And>r. rs_id (f r) = rs_id r" and "\<And>r. rs_tokenHash (f r) = rs_tokenHash r"
  shows "(\<exists>r \<in> set (updateMany P f rows). rs_id r = i \<or> rs_tokenHash r = h) \<longleftrightarrow> (\<exists>r \<in> set rows. rs_id r = i \<or> rs_tokenHash r = h)"
  unfolding ex_updateMany by (rule bex_cong) (simp_all add: assms)

lemma rotateLocked_success:
  assumes inv: "authInv t" and run: "rotateLocked hashTok now rawRotated newId h ua ip t = (Inr (Some (sid, user)), t')"
  shows "\<exists>cur u a. findToken h t = Some cur \<and> rs_revokedAt cur = None \<and> now < rs_expiresAt cur \<and>
    findFirst (activeUser (rs_userId cur) (rs_tenantId cur)) (users t) = Some u \<and> sid = newId \<and> user = toSessionUser u \<and>
    (\<forall>r \<in> set (refreshSessions t). rs_id r \<noteq> newId \<and> rs_tokenHash r \<noteq> hashTok rawRotated) \<and>
    t' = t\<lparr>refreshSessions := rotatedRows now cur (successorOf now newId (hashTok rawRotated) ua ip u) (refreshSessions t),
           auditLogs := auditLogs t @ a\<rparr>"
proof -
  have reuse: "\<not> (seqP (auditReuse now ip ua c) (returnP None) t = (Inr (Some (sid, user)), t'))" for c
    using auditOnlyE [OF auditOnly_reuse [of now ip ua c], of t] by (auto simp: seqP_def bindP_def returnP_def)
  obtain cur where cur: "findToken h t = Some cur" "now < rs_expiresAt cur" "rs_revokedAt cur = None"
    using run reuse by (auto simp: rotateLocked_def bindP_def [of "getsP _"] getsP_def returnP_def split: option.splits if_splits)
  note mem = findToken_mem [OF cur(1)]
  let ?P = "\<lambda>r. rs_id r = rs_id cur \<and> rs_tokenHash r = h \<and> rs_revokedAt r = None \<and> now < rs_expiresAt r"
  have one: "countWhere ?P (refreshSessions t) = 1"
    using inv mem cur by (intro countWhere_key [where key = rs_id and r = cur]) (auto simp: authInv_def)
  let ?t1 = "t\<lparr>refreshSessions := updateMany ?P (\<lambda>r. r\<lparr>rs_revokedAt := Some now\<rparr>) (refreshSessions t)\<rparr>"
  have rot: "rotateTo now newId (hashTok rawRotated) (now + REFRESH_TTL_DAYS * 86400000) ua ip cur ?t1 = (Inr (Some (sid, user)), t')"
    using run cur one by (simp add: rotateLocked_def bindP_def [of "getsP _"] getsP_def run_seq_modify)
  obtain u where u: "findFirst (activeUser (rs_userId cur) (rs_tenantId cur)) (users ?t1) = Some u"
    using rot rotateTo_fails(1) [of cur ?t1] by (cases "findFirst (activeUser (rs_userId cur) (rs_tenantId cur)) (users ?t1)") auto
  have fresh: "\<not> (\<exists>r \<in> set (refreshSessions ?t1). rs_id r = newId \<or> rs_tokenHash r = hashTok rawRotated)"
  proof
    assume "\<exists>r \<in> set (refreshSessions ?t1). rs_id r = newId \<or> rs_tokenHash r = hashTok rawRotated"
    from rotateTo_fails(2) [OF u this] rot show False by simp
  qed
  then have fresh': "\<forall>r \<in> set (refreshSessions t). rs_id r \<noteq> newId \<and> rs_tokenHash r \<noteq> hashTok rawRotated"
    using keyed_updateMany [where P = ?P and f = "\<lambda>r. r\<lparr>rs_revokedAt := Some now\<rparr>" and i = newId and h = "hashTok rawRotated" and rows = "refreshSessions t"] by simp
  from rotateTo_run [OF u fresh, of now ua ip] rot obtain a where
    "sid = newId" "user = toSessionUser u"
    "t' = ?t1\<lparr>refreshSessions := updateMany (\<lambda>r. rs_id r = rs_id cur) (\<lambda>r. r\<lparr>rs_replacedById := Some newId\<rparr>)
       (refreshSessions ?t1 @ [successorOf now newId (hashTok rawRotated) ua ip u]), auditLogs := auditLogs ?t1 @ a\<rparr>" by auto
  moreover have "updateMany (\<lambda>r. rs_id r = rs_id cur) (\<lambda>r. r\<lparr>rs_replacedById := Some newId\<rparr>)
       (refreshSessions ?t1 @ [successorOf now newId (hashTok rawRotated) ua ip u])
      = rotatedRows now cur (successorOf now newId (hashTok rawRotated) ua ip u) (refreshSessions t)"
    using rotate_rows [of "refreshSessions t" cur now "successorOf now newId (hashTok rawRotated) ua ip u" h] inv mem cur
    fresh' [rule_format, of cur] by (simp add: authInv_def successorOf_def eq_commute [of newId])
  ultimately show ?thesis using cur u fresh' by auto
qed

lemma rotateLocked_revoked:
  assumes "findToken h t = Some c" and "rs_revokedAt c \<noteq> None"
  shows "\<exists>a. rotateLocked hashTok now rawRotated newId h ua ip t = (Inr None, t\<lparr>auditLogs := auditLogs t @ a\<rparr>)"
proof (cases "rs_expiresAt c \<le> now")
  case True
  with assms show ?thesis
    by (auto simp: rotateLocked_def bindP_def getsP_def returnP_def intro!: exI [of _ "[]"])
next
  case False
  with assms have "rotateLocked hashTok now rawRotated newId h ua ip t = seqP (auditReuse now ip ua c) (returnP None) t"
    by (simp add: rotateLocked_def bindP_def getsP_def)
  then show ?thesis using audit_then_return [OF auditOnly_reuse] by metis
qed

lemma refresh_success:
  assumes "authInv (rely s)" and "refresh hashTok sign rely now rawRotated newId raw ua ip s = (Inr res, s')"
  shows "\<exists>cur u a. findToken (hashTok raw) (rely s) = Some cur \<and> rs_revokedAt cur = None \<and> now < rs_expiresAt cur \<and>
    findFirst (activeUser (rs_userId cur) (rs_tenantId cur)) (users (rely s)) = Some u \<and>
    rr_sessionId res = newId \<and> rr_user res = toSessionUser u \<and>
    (\<forall>r \<in> set (refreshSessions (rely s)). rs_id r \<noteq> newId \<and> rs_tokenHash r \<noteq> hashTok rawRotated) \<and>
    s' = (rely s)\<lparr>refreshSessions := rotatedRows now cur (successorOf now newId (hashTok rawRotated) ua ip u) (refreshSessions (rely s)),
           auditLogs := auditLogs (rely s) @ a\<rparr>"
proof -
  obtain sid user where "rotateLocked hashTok now rawRotated newId (hashTok raw) ua ip (rely s) = (Inr (Some (sid, user)), s')"
    "rr_sessionId res = sid" "rr_user res = user"
    using assms(2) unfolding run_refresh Let_def
    by (auto simp: atomicP_Inr split: if_splits prod.splits sum.splits option.splits)
  with rotateLocked_success [OF assms(1)] show ?thesis by blast
qed

lemma refresh_revoked:
  assumes "findToken (hashTok raw) (rely s) = Some c" and "rs_revokedAt c \<noteq> None"
  shows "\<exists>s'. refresh hashTok sign rely now rawRotated newId raw ua ip s = (Inl (AppError 401 ''UNAUTHORIZED''), s') \<and>
    refreshSessions s' \<in> {refreshSessions s, refreshSessions (rely s)}"
proof -
  obtain a where "rotateLocked hashTok now rawRotated newId (hashTok raw) ua ip (rely s) = (Inr None, (rely s)\<lparr>auditLogs := auditLogs (rely s) @ a\<rparr>)"
    using rotateLocked_revoked [OF assms] by blast
  then show ?thesis unfolding run_refresh Let_def by (simp add: atomicP_def)
qed

lemma rotated_facts:
  assumes "authInv t" and "findToken h t = Some cur" and "\<forall>r \<in> set (refreshSessions t). rs_id r \<noteq> rs_id n \<and> rs_tokenHash r \<noteq> rs_tokenHash n"
    and s': "refreshSessions s' = rotatedRows now cur n (refreshSessions t)"
  shows "findToken h s' = Some (cur\<lparr>rs_revokedAt := Some now, rs_replacedById := Some (rs_id n)\<rparr>)"
    and "n \<in> set (refreshSessions s')"
    and "distinct (map rs_id (refreshSessions s'))" and "distinct (map rs_tokenHash (refreshSessions s'))"
proof -
  note mem = findToken_mem [OF assms(2)]
  show "n \<in> set (refreshSessions s')" by (simp add: s' rotatedRows_def)
  show "distinct (map rs_id (refreshSessions s'))" and dh: "distinct (map rs_tokenHash (refreshSessions s'))"
    using assms(1,3) by (auto simp: authInv_def s' rotatedRows_def map_key_updateMany in_updateMany)
  have "cur\<lparr>rs_revokedAt := Some now, rs_replacedById := Some (rs_id n)\<rparr> \<in> set (refreshSessions s')"
    using mem by (force simp: s' rotatedRows_def in_updateMany)
  with dh show "findToken h s' = Some (cur\<lparr>rs_revokedAt := Some now, rs_replacedById := Some (rs_id n)\<rparr>)"
    using mem by (intro findToken_unique) simp_all
qed

text \<open>
  C26: A refresh token works once.  A refresh that returns has revoked the session of the presented token, linked it to the
  session it issued, and issued exactly one session, unrevoked, for the same user and tenant and for thirty days.  Every later refresh with
  the same token is refused with 401 and issues nothing, whatever other transactions do while it waits, as
  long as the old session stays revoked.
\<close>

theorem refresh_single_use:
  assumes "authInv (rely s)" and "refresh hashTok sign rely now rawRotated newId raw ua ip s = (Inr res, s')"
  shows "\<exists>old new. findToken (hashTok raw) s' = Some old \<and> rs_revokedAt old = Some now \<and>
    rs_replacedById old = Some (rr_sessionId res) \<and>
    set (refreshSessions s') = insert new (insert old (set (refreshSessions (rely s)) - {r. rs_id r = rs_id old})) \<and>
    rs_id new = rr_sessionId res \<and> rs_userId new = rs_userId old \<and> rs_tenantId new = rs_tenantId old \<and>
    rs_revokedAt new = None \<and> rs_tokenHash new = hashTok rawRotated \<and> rs_expiresAt new = now + 30 * 86400000 \<and>
    (\<forall>rely2 now2 raw2 id2 ua2 ip2.
       (\<exists>c. findToken (hashTok raw) (rely2 s') = Some c \<and> rs_revokedAt c \<noteq> None) \<longrightarrow>
       (\<exists>s2. refresh hashTok sign rely2 now2 raw2 id2 raw ua2 ip2 s' = (Inl (AppError 401 ''UNAUTHORIZED''), s2) \<and>
             refreshSessions s2 \<in> {refreshSessions s', refreshSessions (rely2 s')}))"
proof -
  obtain cur u a where c: "findToken (hashTok raw) (rely s) = Some cur"
    "findFirst (activeUser (rs_userId cur) (rs_tenantId cur)) (users (rely s)) = Some u" "rr_sessionId res = newId"
    "\<forall>r \<in> set (refreshSessions (rely s)). rs_id r \<noteq> newId \<and> rs_tokenHash r \<noteq> hashTok rawRotated"
    "s' = (rely s)\<lparr>refreshSessions := rotatedRows now cur (successorOf now newId (hashTok rawRotated) ua ip u) (refreshSessions (rely s)),
           auditLogs := auditLogs (rely s) @ a\<rparr>"
    using refresh_success [OF assms] by blast
  let ?n = "successorOf now newId (hashTok rawRotated) ua ip u"
  let ?old = "cur\<lparr>rs_revokedAt := Some now, rs_replacedById := Some newId\<rparr>"
  have u: "u_id u = rs_userId cur" "u_tenantId u = rs_tenantId cur"
    using find_Some_iff_mem [OF c(2)] by (auto simp: activeUser_def)
  have n: "rs_id ?n = newId" "rs_tokenHash ?n = hashTok rawRotated" by (simp_all add: successorOf_def)
  have rows: "refreshSessions s' = rotatedRows now cur ?n (refreshSessions (rely s))" using c(5) by simp
  have old: "findToken (hashTok raw) s' = Some ?old"
    using rotated_facts(1) [OF assms(1) c(1) _ rows] c(4) n by simp
  have "set (refreshSessions s') = insert ?n (insert ?old (set (refreshSessions (rely s)) - {r. rs_id r = rs_id ?old}))"
    unfolding rows rotatedRows_def using assms(1) findToken_mem [OF c(1)] n(1)
    by (simp add: set_updateMany_key [of rs_id] authInv_def insert_commute)
  then show ?thesis
    using old c(3) u refresh_revoked [where hashTok = hashTok and raw = raw and s = s' and sign = sign]
    by (intro exI [of _ ?old] exI [of _ ?n]) (auto simp: successorOf_def REFRESH_TTL_DAYS_def)
qed

section \<open>Effect of a password reset\<close>

text \<open>The reset once the user's row is locked: the rec it consumes and the rows it leaves.\<close>

definition resetRows :: "(string \<Rightarrow> string) \<Rightarrow> instant \<Rightarrow> PasswordResetToken \<Rightarrow> string \<Rightarrow> 'z auth_db_scheme \<Rightarrow> 'z auth_db_scheme" where
  "resetRows bcryptHash now rec newPassword t =
     t\<lparr>users := updateMany (\<lambda>u. u_id u = pt_userId rec \<and> u_deletedAt u = None \<and> u_status u = ACTIVE)
         (\<lambda>u. u\<lparr>u_passwordHash := bcryptHash newPassword\<rparr>) (users t),
       resetTokens := updateMany (\<lambda>x. pt_userId x = pt_userId rec \<and> pt_id x \<noteq> pt_id rec \<and> pt_usedAt x = None)
         (\<lambda>x. x\<lparr>pt_usedAt := Some now\<rparr>)
         (updateMany (\<lambda>x. pt_id x = pt_id rec \<and> pt_usedAt x = None \<and> now < pt_expiresAt x) (\<lambda>x. x\<lparr>pt_usedAt := Some now\<rparr>) (resetTokens t)),
       refreshSessions := updateMany (\<lambda>r. rs_userId r = pt_userId rec \<and> rs_revokedAt r = None)
         (\<lambda>r. r\<lparr>rs_revokedAt := Some now\<rparr>) (refreshSessions t)\<rparr>"

definition usableToken :: "(string \<Rightarrow> string) \<Rightarrow> instant \<Rightarrow> string \<Rightarrow> 'z auth_db_scheme \<Rightarrow> PasswordResetToken option" where
  "usableToken hashTok start token s =
     findFirst (\<lambda>t. pt_tokenHash t = hashTok token \<and> pt_usedAt t = None \<and> start < pt_expiresAt t \<and>
       (\<exists>u \<in> set (users s). u_id u = pt_userId t \<and> u_deletedAt u = None \<and> u_status u = ACTIVE)) (resetTokens s)"

lemma run_resetPassword:
  "resetPassword hashTok bcryptHash rely preflightAt now token newPassword s =
    (case usableToken hashTok preflightAt token s of None \<Rightarrow> (Inl (AppError 400 ''INVALID_TOKEN''), s)
     | Some rec \<Rightarrow>
        if length (filter (\<lambda>u. u_id u = pt_userId rec) (users (rely s))) = 1 \<and>
           countWhere (\<lambda>t. pt_id t = pt_id rec \<and> pt_usedAt t = None \<and> now < pt_expiresAt t) (resetTokens (rely s)) = 1 \<and>
           countWhere (\<lambda>u. u_id u = pt_userId rec \<and> u_deletedAt u = None \<and> u_status u = ACTIVE) (users (rely s)) = 1
        then (Inr True, resetRows bcryptHash now rec newPassword (rely s))
        else (Inl (AppError 400 ''INVALID_TOKEN''), rely s))"
  unfolding resetPassword_def usableToken_def [symmetric] Let_def
  by (cases "usableToken hashTok preflightAt token s")
    (simp_all add: bindP_def getsP_def run_lock atomicP_def throwP_def returnP_def run_seq_modify resetRows_def)

lemma resetRows_revokes: "\<forall>r \<in> set (refreshSessions (resetRows b now rec p t)). rs_userId r = pt_userId rec \<longrightarrow> rs_revokedAt r \<noteq> None"
  by (simp add: resetRows_def ball_updateMany)

lemma resetRows_uses:
  assumes "countWhere (\<lambda>x. pt_id x = pt_id rec \<and> pt_usedAt x = None \<and> now < pt_expiresAt x) (resetTokens t) = 1"
    and "distinct (map pt_id (resetTokens t))"
  shows "\<forall>x \<in> set (resetTokens (resetRows b now rec p t)). pt_userId x = pt_userId rec \<or> pt_id x = pt_id rec \<longrightarrow> pt_usedAt x \<noteq> None"
proof -
  obtain y where y: "y \<in> set (resetTokens t)" "pt_id y = pt_id rec" "pt_usedAt y = None" "now < pt_expiresAt y"
    using assms(1) countWhere_pos [of "\<lambda>x. pt_id x = pt_id rec \<and> pt_usedAt x = None \<and> now < pt_expiresAt x" "resetTokens t"] by auto
  have "z = y" if "z \<in> set (resetTokens t)" "pt_id z = pt_id rec" for z
    using assms(2) that y by (auto dest: distinct_key_unique)
  with y(4) have "now < pt_expiresAt z" if "z \<in> set (resetTokens t)" "pt_id z = pt_id rec" for z
    using that by simp
  then show ?thesis
    by (simp add: resetRows_def ball_updateMany) blast
qed

text \<open>
  C27: A password reset is all or nothing and locks everyone out.  It succeeds only with an unused,
  unexpired token of a user that is active and not deleted when the user's row is locked; then that user's password is the new
  one, none of the user's reset tokens is usable any more, every session of the user is revoked, and neither tokens and
  sessions of other users nor their passwords change.  In every other case the answer is 400 and the
  database holds only what others committed.
\<close>

theorem reset_password_effect:
  assumes "authInv (rely s)"
  shows "case resetPassword hashTok bcryptHash rely preflightAt now token newPassword s of
      (Inl e, s') \<Rightarrow> e = AppError 400 ''INVALID_TOKEN'' \<and> s' \<in> {s, rely s}
    | (Inr _, s') \<Rightarrow> \<exists>rec u. rec \<in> set (resetTokens s) \<and> pt_tokenHash rec = hashTok token \<and> pt_usedAt rec = None \<and>
        preflightAt < pt_expiresAt rec \<and>
        u \<in> set (users (rely s)) \<and> u_id u = pt_userId rec \<and> u_deletedAt u = None \<and> u_status u = ACTIVE \<and>
        set (users s') = insert (u\<lparr>u_passwordHash := bcryptHash newPassword\<rparr>) (set (users (rely s)) - {u}) \<and>
        (\<forall>x \<in> set (resetTokens s'). pt_userId x = u_id u \<longrightarrow> pt_usedAt x \<noteq> None) \<and>
        (\<forall>r \<in> set (refreshSessions s'). rs_userId r = u_id u \<longrightarrow> rs_revokedAt r \<noteq> None) \<and>
        filter (\<lambda>r. rs_userId r \<noteq> u_id u) (refreshSessions s') = filter (\<lambda>r. rs_userId r \<noteq> u_id u) (refreshSessions (rely s)) \<and>
        (\<forall>x \<in> set (resetTokens (rely s)). pt_userId x \<noteq> u_id u \<and> pt_id x \<noteq> pt_id rec \<longrightarrow> x \<in> set (resetTokens s'))"
proof (cases "usableToken hashTok preflightAt token s")
  case None
  then show ?thesis by (simp add: run_resetPassword)
next
  case (Some rec)
  let ?U = "\<lambda>u. u_id u = pt_userId rec \<and> u_deletedAt u = None \<and> u_status u = ACTIVE"
  let ?t = "rely s"
  have recs: "rec \<in> set (resetTokens s)" "pt_tokenHash rec = hashTok token" "pt_usedAt rec = None" "preflightAt < pt_expiresAt rec"
    using find_Some_iff_mem [OF Some [unfolded usableToken_def]] by auto
  show ?thesis
  proof (cases "countWhere (\<lambda>t. pt_id t = pt_id rec \<and> pt_usedAt t = None \<and> now < pt_expiresAt t) (resetTokens ?t) = 1 \<and> countWhere ?U (users ?t) = 1
      \<and> length (filter (\<lambda>u. u_id u = pt_userId rec) (users ?t)) = 1")
    case False
    then show ?thesis using Some by (auto simp: run_resetPassword)
  next
    case True
    then obtain u where u: "u \<in> set (users ?t)" "?U u"
      using countWhere_pos [of ?U "users ?t"] by (simp only: zero_less_one simp_thms) blast
    have only: "v = u" if "v \<in> set (users ?t)" "u_id v = pt_userId rec" for v
      using assms u that by (auto simp: authInv_def dest: distinct_key_unique)
    let ?s = "resetRows bcryptHash now rec newPassword ?t"
    have "set (updateMany ?U (\<lambda>u. u\<lparr>u_passwordHash := bcryptHash newPassword\<rparr>) (users ?t)) =
        insert (u\<lparr>u_passwordHash := bcryptHash newPassword\<rparr>) (set (users ?t) - {u})"
      by (rule set_updateMany_only [where P = ?U]) (use u only in blast)+
    then have "set (users ?s) = insert (u\<lparr>u_passwordHash := bcryptHash newPassword\<rparr>) (set (users ?t) - {u})"
      by (simp add: resetRows_def)
    moreover have "\<forall>x \<in> set (resetTokens ?s). pt_userId x = u_id u \<longrightarrow> pt_usedAt x \<noteq> None"
      using resetRows_uses [of rec now ?t] True assms u(2) by (simp add: authInv_def)
    moreover have "filter (\<lambda>r. rs_userId r \<noteq> u_id u) (refreshSessions ?s) = filter (\<lambda>r. rs_userId r \<noteq> u_id u) (refreshSessions ?t)"
      using u(2) by (simp add: resetRows_def) (rule filter_updateMany, simp)
    moreover have "\<forall>x \<in> set (resetTokens ?t). pt_userId x \<noteq> u_id u \<and> pt_id x \<noteq> pt_id rec \<longrightarrow> x \<in> set (resetTokens ?s)"
      using u(2) by (simp add: resetRows_def mem_updateMany)
    moreover have "\<forall>r \<in> set (refreshSessions ?s). rs_userId r = u_id u \<longrightarrow> rs_revokedAt r \<noteq> None"
      using resetRows_revokes u(2) by simp
    moreover have "resetPassword hashTok bcryptHash rely preflightAt now token newPassword s = (Inr True, ?s)"
      using Some True by (simp add: run_resetPassword)
    ultimately show ?thesis
      using recs u by (simp only: prod.case sum.case) (rule exI [of _ rec], rule exI [of _ u], simp only: simp_thms)
  qed
qed

section \<open>A sample database, and the witnesses\<close>

definition sampleUser :: User where
  "sampleUser = \<lparr>u_id = ''u1'', u_tenantId = ''t1'', u_email = ''a@b'', u_passwordHash = ''p'', u_firstName = ''A'', u_lastName = ''B'',
     u_status = ACTIVE, u_deletedAt = None, u_roles = [\<lparr>ro_key = ''VIEWER'', ro_permissions = [''bookings:read'']\<rparr>]\<rparr>"

definition sampleSession :: RefreshSession where
  "sampleSession = \<lparr>rs_id = ''r1'', rs_userId = ''u1'', rs_tenantId = ''t1'', rs_tokenHash = ''tok'', rs_userAgent = None,
     rs_ipAddress = None, rs_expiresAt = 1000, rs_revokedAt = None, rs_replacedById = None, rs_createdAt = 0\<rparr>"

definition sampleAuthDb :: auth_db where
  "sampleAuthDb = \<lparr>auditLogs = [], subscriptions = [sampleRow\<lparr>ts_status := ''ACTIVE''\<rparr>], tenants = [\<lparr>tn_id = ''t1'', tn_isActive = True, tn_name = ''Rossi'', tn_vatNumber = None, tn_deletedAt = None\<rparr>],
     users = [sampleUser], refreshSessions = [sampleSession],
     resetTokens = [\<lparr>pt_id = ''k1'', pt_userId = ''u1'', pt_tokenHash = ''rst'', pt_expiresAt = 1000, pt_usedAt = None\<rparr>]\<rparr>"

lemmas sample_auth_defs = sampleAuthDb_def sampleSession_def sampleUser_def

lemma sample_auth_inv: "authInv sampleAuthDb"
  by (simp add: authInv_def sample_auth_defs)

lemma sample_refresh:
  "\<exists>res s'. refresh (\<lambda>x. x) (\<lambda>_. ''jwt'') (\<lambda>s. s) 5 ''new'' ''r2'' ''tok'' None None sampleAuthDb = (Inr res, s')"
  by (simp add: run_refresh atomicP_def rotateLocked_def rotateTo_def prog_defs run_insertSession auditIpAnomaly_def rawAudit_def
    findToken_def countWhere_def updateMany_def activeUser_def sample_auth_defs)

text \<open>Witness of C26: the session of the sample database, refreshed at time 5.\<close>

theorem refresh_single_use_witness:
  "\<exists>res s' old. refresh (\<lambda>x. x) (\<lambda>_. ''jwt'') (\<lambda>s. s) 5 ''new'' ''r2'' ''tok'' None None sampleAuthDb = (Inr res, s') \<and>
     findToken ''tok'' s' = Some old \<and> rs_revokedAt old = Some 5 \<and>
     (\<exists>s2. refresh (\<lambda>x. x) (\<lambda>_. ''jwt'') (\<lambda>s. s) 6 ''new2'' ''r3'' ''tok'' None None s' = (Inl (AppError 401 ''UNAUTHORIZED''), s2))"
proof -
  obtain res s' where r: "refresh (\<lambda>x. x) (\<lambda>_. ''jwt'') (\<lambda>s. s) 5 ''new'' ''r2'' ''tok'' None None sampleAuthDb = (Inr res, s')"
    using sample_refresh by blast
  from refresh_single_use [where rely = "\<lambda>s. s" and s = sampleAuthDb, OF sample_auth_inv r]
  obtain old where old: "findToken ''tok'' s' = Some old" "rs_revokedAt old = Some 5" and
    later: "\<forall>rely2 now2 raw2 id2 ua2 ip2. (\<exists>c. findToken ''tok'' (rely2 s') = Some c \<and> rs_revokedAt c \<noteq> None) \<longrightarrow>
       (\<exists>s2. refresh (\<lambda>x. x) (\<lambda>_. ''jwt'') rely2 now2 raw2 id2 ''tok'' ua2 ip2 s' = (Inl (AppError 401 ''UNAUTHORIZED''), s2) \<and>
             refreshSessions s2 \<in> {refreshSessions s', refreshSessions (rely2 s')})" by blast
  have "\<exists>s2. refresh (\<lambda>x. x) (\<lambda>_. ''jwt'') (\<lambda>s. s) 6 ''new2'' ''r3'' ''tok'' None None s' = (Inl (AppError 401 ''UNAUTHORIZED''), s2)"
    using later [rule_format, of "\<lambda>s. s" 6 "''new2''" "''r3''" None None] old by auto
  with r old show ?thesis by blast
qed

text \<open>Witness of C27: the token of the sample database, used at time 5, revokes the session.\<close>

theorem reset_password_effect_witness:
  "\<exists>s'. resetPassword (\<lambda>x. x) (\<lambda>x. x) (\<lambda>s. s) 4 5 ''rst'' ''q'' sampleAuthDb = (Inr True, s') \<and>
     (\<forall>r \<in> set (refreshSessions s'). rs_userId r = ''u1'' \<longrightarrow> rs_revokedAt r \<noteq> None)"
proof -
  have "\<exists>s'. resetPassword (\<lambda>x. x) (\<lambda>x. x) (\<lambda>s. s) 4 5 ''rst'' ''q'' sampleAuthDb = (Inr True, s')"
    by (simp add: run_resetPassword usableToken_def countWhere_def sample_auth_defs)
  then obtain s' where r: "resetPassword (\<lambda>x. x) (\<lambda>x. x) (\<lambda>s. s) 4 5 ''rst'' ''q'' sampleAuthDb = (Inr True, s')" by blast
  show ?thesis
    using reset_password_effect [where rely = "\<lambda>s. s" and hashTok = "\<lambda>x. x" and bcryptHash = "\<lambda>x. x" and preflightAt = 4 and now = 5
      and token = "''rst''" and newPassword = "''q''", OF sample_auth_inv]
    unfolding r prod.case sum.case by (auto simp: sample_auth_defs)
qed

end
