(* ===== verification/Auth_Access.thy ===== *)
theory Auth_Access
  imports Auth_Session
begin

text \<open>
  What the session component promises to the rest of the program: which requests
  \<open>requireAuth\<close> admits and on whose behalf, what a logout closes, who can log in, and how the
  entries the session service writes to the audit log interact with its hash chain.
\<close>

section \<open>Requests\<close>

definition presentedToken :: "string option \<Rightarrow> string option \<Rightarrow> string option" where
  "presentedToken authHeader cookieToken =
     (case authHeader of
        Some h \<Rightarrow> if take 7 h = ''Bearer '' \<and> drop 7 h \<noteq> [] then Some (drop 7 h) else cookieToken
      | None \<Rightarrow> cookieToken)"

definition liveSession :: "instant \<Rightarrow> JwtPayload \<Rightarrow> RefreshSession \<Rightarrow> bool" where
  "liveSession now p r \<longleftrightarrow> jp_sessionId p = Some (rs_id r) \<and> jp_userId p = Some (rs_userId r) \<and> jp_tenantId p = Some (rs_tenantId r) \<and>
     rs_id r \<noteq> [] \<and> rs_revokedAt r = None \<and> now < rs_expiresAt r"

definition contextOf :: "User \<Rightarrow> RefreshSession \<Rightarrow> AuthContext" where
  "contextOf u r = \<lparr>ax_userId = u_id u, ax_tenantId = u_tenantId u, ax_roles = map ro_key (u_roles u),
     ax_permissions = setOf (concat (map ro_permissions (u_roles u))), ax_sessionId = rs_id r\<rparr>"

lemma set_setOf [simp]: "set (setOf xs) = set xs"
  by (simp add: setOf_def)

lemma distinct_setOf [simp]: "distinct (setOf xs)"
  by (simp add: setOf_def)

definition backingSession :: "instant \<Rightarrow> JwtPayload \<Rightarrow> 'z auth_db_scheme \<Rightarrow> RefreshSession option" where
  "backingSession now p s =
     findFirst (\<lambda>r. rs_id r = the (jp_sessionId p) \<and> rs_userId r = the (jp_userId p) \<and>
       rs_tenantId r = the (jp_tenantId p) \<and> rs_revokedAt r = None \<and> now < rs_expiresAt r \<and>
       (\<exists>u \<in> set (users s). activeUser (the (jp_userId p)) (the (jp_tenantId p)) u)) (refreshSessions s)"

lemma requireAuth_token:
  "requireAuth verify now hdr ck s =
    (case presentedToken hdr ck of None \<Rightarrow> (Inl (AppError 401 ''UNAUTHORIZED''), s)
     | Some tok \<Rightarrow> if tok = [] then (Inl (AppError 401 ''UNAUTHORIZED''), s) else
       (case verify tok of None \<Rightarrow> (Inl (AppError 401 ''UNAUTHORIZED''), s)
        | Some p \<Rightarrow>
          if jp_tokenType p \<noteq> Some ''access'' \<or> \<not> truthy (jp_sessionId p) \<or> jp_userId p = None \<or> jp_tenantId p = None
          then (Inl (AppError 401 ''UNAUTHORIZED''), s)
          else (case backingSession now p s of
              None \<Rightarrow> (Inl (AppError 401 ''UNAUTHORIZED''), s)
            | Some r \<Rightarrow> (case findFirst (\<lambda>u. u_id u = rs_userId r) (users s) of
                 None \<Rightarrow> (Inl (AppError 401 ''UNAUTHORIZED''), s)
               | Some u \<Rightarrow> (Inr (contextOf u r), s)))))"
  unfolding requireAuth_def presentedToken_def Let_def contextOf_def backingSession_def
  by (auto simp: truthy_def bindP_def getsP_def throwP_def returnP_def split: option.split)

lemma requireAuth_valid:
  assumes "presentedToken hdr ck = Some tok" and "tok \<noteq> []" and "verify tok = Some p" and "jp_tokenType p = Some ''access''"
    and "truthy (jp_sessionId p)" and "jp_userId p \<noteq> None" and "jp_tenantId p \<noteq> None"
  shows "requireAuth verify now hdr ck s =
    (case backingSession now p s of None \<Rightarrow> (Inl (AppError 401 ''UNAUTHORIZED''), s)
     | Some r \<Rightarrow> (case findFirst (\<lambda>u. u_id u = rs_userId r) (users s) of
          None \<Rightarrow> (Inl (AppError 401 ''UNAUTHORIZED''), s) | Some u \<Rightarrow> (Inr (contextOf u r), s)))"
  using assms(5-7) by (simp only: requireAuth_token assms(1-4) option.case if_False simp_thms)

lemma requireAuth_Inr:
  assumes "authInv s"
  shows "requireAuth verify now hdr ck s = (Inr ax, s') \<longleftrightarrow>
    s' = s \<and> (\<exists>tok p r u. presentedToken hdr ck = Some tok \<and> tok \<noteq> [] \<and> verify tok = Some p \<and> jp_tokenType p = Some ''access'' \<and>
      r \<in> set (refreshSessions s) \<and> liveSession now p r \<and> u \<in> set (users s) \<and> activeUser (rs_userId r) (rs_tenantId r) u \<and>
      ax = contextOf u r)" (is "?L \<longleftrightarrow> ?R")
proof
  assume L: ?L
  obtain tok p where tok: "presentedToken hdr ck = Some tok" "tok \<noteq> []" "verify tok = Some p" "jp_tokenType p = Some ''access''"
    "truthy (jp_sessionId p)" "jp_userId p \<noteq> None" "jp_tenantId p \<noteq> None"
  proof (cases "presentedToken hdr ck")
    case (Some tok)
    show thesis
    proof (cases "verify tok")
      case None
      with Some L show thesis by (cases "tok = []") (simp_all add: requireAuth_token)
    next
      case (Some p)
      show thesis
      proof (rule ccontr)
        assume "\<not> thesis"
        with that \<open>presentedToken hdr ck = Some tok\<close> Some
        have "tok = [] \<or> jp_tokenType p \<noteq> Some ''access'' \<or> \<not> truthy (jp_sessionId p) \<or> jp_userId p = None \<or> jp_tenantId p = None" by blast
        with L \<open>presentedToken hdr ck = Some tok\<close> Some show False by (cases "tok = []") (simp_all add: requireAuth_token)
      qed
    qed
  qed (use L in \<open>simp add: requireAuth_token\<close>)
  obtain r u where r: "backingSession now p s = Some r" and u: "findFirst (\<lambda>u. u_id u = rs_userId r) (users s) = Some u"
    and ax: "ax = contextOf u r" "s' = s"
  proof -
    have run: "(case backingSession now p s of None \<Rightarrow> (Inl (AppError 401 ''UNAUTHORIZED''), s)
        | Some r \<Rightarrow> (case findFirst (\<lambda>u. u_id u = rs_userId r) (users s) of
             None \<Rightarrow> (Inl (AppError 401 ''UNAUTHORIZED''), s) | Some u \<Rightarrow> (Inr (contextOf u r), s))) = (Inr ax, s')"
      using requireAuth_valid [where verify = verify, OF tok, of now s] L by (simp only:)
    show thesis
    proof (cases "backingSession now p s")
      case (Some r)
      show thesis
      proof (cases "findFirst (\<lambda>u. u_id u = rs_userId r) (users s)")
        case (Some u)
        with run \<open>backingSession now p s = Some r\<close> have "ax = contextOf u r" "s' = s" by simp_all
        with Some \<open>backingSession now p s = Some r\<close> show thesis by (intro that)
      qed (use run Some in simp)
    qed (use run in simp)
  qed
  have rm: "r \<in> set (refreshSessions s)" "rs_id r = the (jp_sessionId p)" "rs_userId r = the (jp_userId p)"
    "rs_tenantId r = the (jp_tenantId p)" "rs_revokedAt r = None" "now < rs_expiresAt r"
    "\<exists>u \<in> set (users s). activeUser (the (jp_userId p)) (the (jp_tenantId p)) u"
    using find_Some_iff_mem [OF r [unfolded backingSession_def]] by blast+
  then obtain v where v: "v \<in> set (users s)" "activeUser (rs_userId r) (rs_tenantId r) v" by auto
  have "u = v"
    using find_Some_iff_mem [OF u] v assms by (auto simp: authInv_def activeUser_def dest: distinct_key_unique)
  moreover have "liveSession now p r"
    using rm tok by (auto simp: liveSession_def truthy_def split: option.splits)
  ultimately show ?R
    using rm(1) tok(1-4) v ax by blast
next
  assume ?R
  then obtain tok p r u where h: "s' = s" "presentedToken hdr ck = Some tok" "tok \<noteq> []" "verify tok = Some p" "jp_tokenType p = Some ''access''"
    "r \<in> set (refreshSessions s)" "liveSession now p r" "u \<in> set (users s)" "activeUser (rs_userId r) (rs_tenantId r) u" "ax = contextOf u r"
    by blast
  have "backingSession now p s = Some r"
    unfolding backingSession_def using assms h by (intro find_by_key [where key = rs_id]) (auto simp: authInv_def liveSession_def)
  moreover have "findFirst (\<lambda>v. u_id v = rs_userId r) (users s) = Some u"
    using assms h by (intro find_by_key [where key = u_id]) (auto simp: authInv_def activeUser_def)
  ultimately show ?L
    using h unfolding requireAuth_token by (simp add: liveSession_def truthy_def)
qed

lemma requireAuth_Inl: "requireAuth verify now hdr ck s = (Inl e, s') \<Longrightarrow> e = AppError 401 ''UNAUTHORIZED'' \<and> s' = s"
  unfolding requireAuth_token by (auto split: option.splits if_splits)

text \<open>
  C28: A request is admitted exactly on a live session.  \<open>requireAuth\<close> lets a request pass if and
  only if the presented token verifies as an access token whose session exists, is neither revoked nor
  expired and belongs to the named user and tenant, and that user is active and not deleted; the request then
  runs as this user with exactly the roles and permissions the database holds now, whatever the token
  says.  Everything else is refused with 401, and no request changes the database here.
\<close>

theorem require_auth_exact:
  assumes "authInv s"
  shows "case requireAuth verify now hdr ck s of
      (Inr ax, s') \<Rightarrow> s' = s \<and> (\<exists>tok p r u. presentedToken hdr ck = Some tok \<and> verify tok = Some p \<and> jp_tokenType p = Some ''access'' \<and>
        r \<in> set (refreshSessions s) \<and> liveSession now p r \<and> u \<in> set (users s) \<and> activeUser (rs_userId r) (rs_tenantId r) u \<and>
        ax_userId ax = u_id u \<and> ax_tenantId ax = u_tenantId u \<and> ax_sessionId ax = rs_id r \<and>
        set (ax_roles ax) = ro_key ` set (u_roles u) \<and>
        set (ax_permissions ax) = (\<Union>ro \<in> set (u_roles u). set (ro_permissions ro)) \<and> distinct (ax_permissions ax))
    | (Inl e, s') \<Rightarrow> s' = s \<and> e = AppError 401 ''UNAUTHORIZED'' \<and>
        \<not> (\<exists>tok p r u. presentedToken hdr ck = Some tok \<and> tok \<noteq> [] \<and> verify tok = Some p \<and> jp_tokenType p = Some ''access'' \<and>
          r \<in> set (refreshSessions s) \<and> liveSession now p r \<and> u \<in> set (users s) \<and> activeUser (rs_userId r) (rs_tenantId r) u)"
proof (cases "requireAuth verify now hdr ck s")
  case (Pair res s')
  show ?thesis
  proof (cases res)
    case (Inr ax)
    then obtain tok p r u where "s' = s" "presentedToken hdr ck = Some tok" "verify tok = Some p" "jp_tokenType p = Some ''access''"
      "r \<in> set (refreshSessions s)" "liveSession now p r" "u \<in> set (users s)" "activeUser (rs_userId r) (rs_tenantId r) u" "ax = contextOf u r"
      using Pair requireAuth_Inr [OF assms] by blast
    then show ?thesis
      unfolding Pair Inr prod.case sum.case
      by (intro conjI exI [of _ tok] exI [of _ p] exI [of _ r] exI [of _ u]) (simp_all add: contextOf_def)
  next
    case (Inl e)
    then have e: "e = AppError 401 ''UNAUTHORIZED''" "s' = s" using Pair requireAuth_Inl by blast+
    have "requireAuth verify now hdr ck s \<noteq> (Inr ax, s)" for ax using Pair Inl by simp
    then have "\<not> (\<exists>tok p r u. presentedToken hdr ck = Some tok \<and> tok \<noteq> [] \<and> verify tok = Some p \<and> jp_tokenType p = Some ''access'' \<and>
          r \<in> set (refreshSessions s) \<and> liveSession now p r \<and> u \<in> set (users s) \<and> activeUser (rs_userId r) (rs_tenantId r) u)"
      unfolding requireAuth_Inr [OF assms] by blast
    with e show ?thesis unfolding Pair Inl prod.case sum.case by (intro conjI)
  qed
qed

section \<open>Logout\<close>

text \<open>The sessions a session was replaced by, directly or through others.\<close>

inductive reaches :: "RefreshSession list \<Rightarrow> string \<Rightarrow> string \<Rightarrow> RefreshSession \<Rightarrow> bool" for rows userId c where
  start: "c \<noteq> [] \<Longrightarrow> findFirst (\<lambda>r. rs_id r = c \<and> rs_userId r = userId) rows = Some r \<Longrightarrow> reaches rows userId c r"
| step: "reaches rows userId c r \<Longrightarrow> rs_replacedById r = Some d \<Longrightarrow> d \<noteq> [] \<Longrightarrow>
     findFirst (\<lambda>r. rs_id r = d \<and> rs_userId r = userId) rows = Some r' \<Longrightarrow> reaches rows userId c r'"

declare chainFromSession.simps [simp del]

lemma chain_head:
  "c \<noteq> [] \<Longrightarrow> c \<notin> set visited \<Longrightarrow> findFirst (\<lambda>r. rs_id r = c \<and> rs_userId r = userId) rows = Some r \<Longrightarrow>
   chainFromSession rows userId (Some c) visited = r # chainFromSession rows userId (rs_replacedById r) (c # visited)"
  by (subst chainFromSession.simps) simp

lemma chainE:
  assumes "x \<in> set (chainFromSession rows userId cursor visited)"
  obtains c r0 where "cursor = Some c" and "c \<noteq> []" and "c \<notin> set visited"
    and "findFirst (\<lambda>r. rs_id r = c \<and> rs_userId r = userId) rows = Some r0"
    and "chainFromSession rows userId cursor visited = r0 # chainFromSession rows userId (rs_replacedById r0) (c # visited)"
proof (cases cursor)
  case None
  with assms show thesis by (subst (asm) chainFromSession.simps) simp
next
  case (Some c)
  then have c: "c \<noteq> []" "c \<notin> set visited"
    using assms by (subst (asm) chainFromSession.simps, simp split: if_splits)+
  show thesis
  proof (cases "findFirst (\<lambda>r. rs_id r = c \<and> rs_userId r = userId) rows")
    case None
    with Some c assms show thesis by (subst (asm) chainFromSession.simps) simp
  next
    case (Some r0)
    from that [OF \<open>cursor = Some c\<close> c Some] chain_head [OF c Some] \<open>cursor = Some c\<close> show thesis by simp
  qed
qed

lemma chain_fresh:
  "distinct (map rs_id (chainFromSession rows userId cursor visited)) \<and>
   (\<forall>x \<in> set (chainFromSession rows userId cursor visited). x \<in> set rows \<and> rs_id x \<notin> set visited)"
proof (induction rows userId cursor visited rule: chainFromSession.induct)
  case (1 rows userId cursor visited)
  show ?case
  proof (cases "chainFromSession rows userId cursor visited")
    case (Cons x xs)
    then have "x \<in> set (chainFromSession rows userId cursor visited)" by simp
    then show ?thesis
    proof (cases rule: chainE)
      case (1 c r0)
      then have r0: "r0 \<in> set rows" "rs_id r0 = c" by (auto dest: find_Some_iff_mem)
      with 1 "1.IH" [OF 1(1) _ 1(4)] show ?thesis by fastforce
    qed
  qed simp
qed

lemma chain_closed:
  "r \<in> set (chainFromSession rows userId cursor visited) \<Longrightarrow> rs_replacedById r = Some d \<Longrightarrow> d \<noteq> [] \<Longrightarrow>
   findFirst (\<lambda>r. rs_id r = d \<and> rs_userId r = userId) rows = Some r' \<Longrightarrow>
   r' \<in> set (chainFromSession rows userId cursor visited) \<or> d \<in> set visited"
proof (induction rows userId cursor visited rule: chainFromSession.induct)
  case (1 rows userId cursor visited)
  obtain c r0 where c: "cursor = Some c" "c \<noteq> []" "c \<notin> set visited"
    and r0: "findFirst (\<lambda>r. rs_id r = c \<and> rs_userId r = userId) rows = Some r0"
    and hd': "chainFromSession rows userId cursor visited = r0 # chainFromSession rows userId (rs_replacedById r0) (c # visited)"
    by (rule chainE [OF 1(2)])
  note head = hd' [unfolded c(1)]
  consider "d = c" | "d \<in> set visited" | "d \<noteq> c" "d \<notin> set visited" by blast
  then show ?case
  proof cases
    case 1
    with r0 \<open>findFirst (\<lambda>r. rs_id r = d \<and> rs_userId r = userId) rows = Some r'\<close> show ?thesis by (simp add: c head)
  next
    case 3
    show ?thesis
    proof (cases "r \<in> set (chainFromSession rows userId (rs_replacedById r0) (c # visited))")
      case True
      from "1.IH" [OF c(1) _ r0 True "1.prems"(2-4)] c 3 show ?thesis by (auto simp: head)
    next
      case False
      with "1.prems"(1) have "r = r0" by (simp add: c head)
      with "1.prems"(2-4) 3 chain_head [of d "c # visited" userId rows r'] show ?thesis by (simp add: c head)
    qed
  qed blast
qed

lemma chain_reaches:
  "r \<in> set (chainFromSession rows userId (Some c) []) \<longleftrightarrow> reaches rows userId c r"
proof
  have "\<forall>x \<in> set (chainFromSession rows userId cursor visited). reaches rows userId c x"
    if "\<And>d r. cursor = Some d \<Longrightarrow> d \<noteq> [] \<Longrightarrow> findFirst (\<lambda>r. rs_id r = d \<and> rs_userId r = userId) rows = Some r \<Longrightarrow> reaches rows userId c r"
    for cursor visited
    using that
  proof (induction rows userId cursor visited rule: chainFromSession.induct)
    case (1 rows userId cursor visited)
    show ?case
    proof
      fix x assume "x \<in> set (chainFromSession rows userId cursor visited)"
      then show "reaches rows userId c x"
      proof (cases rule: chainE)
        case (1 d r0)
        have r0: "reaches rows userId c r0" using "1.prems" 1 by blast
        moreover have "\<forall>x \<in> set (chainFromSession rows userId (rs_replacedById r0) (d # visited)). reaches rows userId c x"
          using "1.IH" [OF 1(1) _ 1(4)] 1(2,3) reaches.step [OF r0] by simp
        ultimately show ?thesis using 1(5) \<open>x \<in> _\<close> by auto
      qed
    qed
  qed
  then show "r \<in> set (chainFromSession rows userId (Some c) []) \<Longrightarrow> reaches rows userId c r"
    using reaches.start [of c userId rows] by blast
  assume "reaches rows userId c r"
  then show "r \<in> set (chainFromSession rows userId (Some c) [])"
  proof induction
    case (start r)
    then show ?case by (simp add: chain_head)
  next
    case (step r d r')
    then show ?case using chain_closed [of r rows userId "Some c" "[]" d r'] by simp
  qed
qed

lemma reaches_mem: "reaches rows userId c r \<Longrightarrow> r \<in> set rows \<and> rs_userId r = userId"
  by (induction rule: reaches.induct) (auto dest: find_Some_iff_mem)

lemma user_locked: "authInv t \<Longrightarrow> u \<in> set (users t) \<Longrightarrow> length (filter (\<lambda>v. u_id v = u_id u) (users t)) = 1"
  using countWhere_key [of u_id "users t" u "\<lambda>v. u_id v = u_id u"] by (simp add: authInv_def countWhere_def)

definition revokedRows :: "instant \<Rightarrow> (RefreshSession \<Rightarrow> bool) \<Rightarrow> RefreshSession list \<Rightarrow> RefreshSession list" where
  "revokedRows now P rows = updateMany (\<lambda>r. P r \<and> rs_revokedAt r = None) (\<lambda>r. r\<lparr>rs_revokedAt := Some now\<rparr>) rows"

lemma chain_ids:
  assumes "authInv t" and "r \<in> set (refreshSessions t)"
  shows "rs_id r \<in> rs_id ` set (chainFromSession (refreshSessions t) userId (Some c) []) \<and> rs_userId r = userId
    \<longleftrightarrow> reaches (refreshSessions t) userId c r"
proof -
  have "q = r" if "reaches (refreshSessions t) userId c q" "rs_id q = rs_id r" for q
    using assms reaches_mem [OF that(1)] that(2) by (auto simp: authInv_def dest: distinct_key_unique)
  then show ?thesis
    unfolding image_iff Bex_def chain_reaches using reaches_mem [of "refreshSessions t" userId c r] by metis
qed

lemma when_raw_run:
  "whenP b (rawAudit now t u act res rid d) s = (Inr (), s\<lparr>auditLogs := auditLogs s @ (if b then
    [\<lparr>al_tenantId = t, al_userId = Some u, al_action = act, al_resource = res, al_resourceId = rid, al_details = d, al_createdAt = now\<rparr>] else [])\<rparr>)"
  by (simp add: whenP_def rawAudit_def modifyP_def returnP_def)

lemma revokeSessionChain_run:
  assumes "authInv (rely s)" and "u \<in> set (users (rely s))" and "u_id u = userId"
    and "\<forall>r \<in> set (refreshSessions (rely s)). rs_tenantId r \<noteq> []"
  shows "\<exists>a. revokeSessionChain rely now sid userId act s =
    (Inr True, (rely s)\<lparr>refreshSessions := revokedRows now (reaches (refreshSessions (rely s)) userId sid) (refreshSessions (rely s)),
       auditLogs := auditLogs (rely s) @ a\<rparr>)"
proof -
  let ?t = "rely s"
  let ?chain = "chainFromSession (refreshSessions ?t) userId (Some sid) []"
  have one: "length (filter (\<lambda>v. u_id v = userId) (users ?t)) = 1" using user_locked [OF assms(1,2)] assms(3) by simp
  show ?thesis
  proof (cases ?chain)
    case Nil
    then have "\<not> reaches (refreshSessions ?t) userId sid r" for r
      using chain_reaches [of r "refreshSessions ?t" userId sid] by simp
    then have "revokedRows now (reaches (refreshSessions ?t) userId sid) (refreshSessions ?t) = refreshSessions ?t"
      by (simp add: revokedRows_def updateMany_id)
    with Nil one show ?thesis
      by (intro exI [of _ "[]"]) (simp add: revokeSessionChain_def seqP_def bindP_def run_lock atomicP_def getsP_def returnP_def)
  next
    case (Cons first rest)
    let ?P = "\<lambda>r. rs_id r \<in> rs_id ` set ?chain \<and> rs_userId r = userId \<and> rs_revokedAt r = None"
    have "first \<in> set (refreshSessions ?t)"
      using Cons reaches_mem chain_reaches [of first "refreshSessions ?t" userId sid] by auto
    then have tenant: "rs_tenantId first \<noteq> []" using assms(4) by blast
    have rows: "updateMany ?P (\<lambda>r. r\<lparr>rs_revokedAt := Some now\<rparr>) (refreshSessions ?t)
        = revokedRows now (reaches (refreshSessions ?t) userId sid) (refreshSessions ?t)"
      unfolding revokedRows_def updateMany_def by (rule map_cong [OF refl]) (simp add: chain_ids [OF assms(1)] conj_assoc [symmetric])
    have "\<exists>a. revokeSessionChain rely now sid userId act s =
        (Inr True, ?t\<lparr>refreshSessions := updateMany ?P (\<lambda>r. r\<lparr>rs_revokedAt := Some now\<rparr>) (refreshSessions ?t), auditLogs := auditLogs ?t @ a\<rparr>)"
      using tenant one Cons by (simp add: revokeSessionChain_def seqP_def [of "bindP _ _"] bindP_def run_lock atomicP_def getsP_def
        returnP_def run_seq_modify when_raw_run) (intro conjI impI; (rule exI, rule refl | rule exI [of _ "[]"], simp))
    then show ?thesis unfolding rows .
  qed
qed

text \<open>
  C29: Logging out closes the whole chain.  Revoking a session of a user revokes exactly the sessions of that
  user that it was replaced by, directly or through others, and the session itself, even when a
  refresh that ran just before has already replaced it; no other session changes, and afterwards no
  request is admitted on any session of the chain.
\<close>

theorem logout_closes_chain:
  assumes "authInv (rely s)" and "\<exists>u \<in> set (users (rely s)). u_id u = userId"
    and "\<forall>r \<in> set (refreshSessions (rely s)). rs_tenantId r \<noteq> []"
  shows "\<exists>s'. revokeSessionChain rely now sid userId act s = (Inr True, s') \<and> users s' = users (rely s) \<and>
    refreshSessions s' = updateMany (\<lambda>r. reaches (refreshSessions (rely s)) userId sid r \<and> rs_revokedAt r = None)
      (\<lambda>r. r\<lparr>rs_revokedAt := Some now\<rparr>) (refreshSessions (rely s)) \<and>
    (\<forall>verify now2 hdr ck ax s2 r. requireAuth verify now2 hdr ck s' = (Inr ax, s2) \<and> reaches (refreshSessions (rely s)) userId sid r \<longrightarrow>
       ax_sessionId ax \<noteq> rs_id r)"
proof -
  let ?rows = "refreshSessions (rely s)" and ?R = "reaches (refreshSessions (rely s)) userId sid"
  obtain a where run: "revokeSessionChain rely now sid userId act s =
      (Inr True, (rely s)\<lparr>refreshSessions := revokedRows now ?R ?rows, auditLogs := auditLogs (rely s) @ a\<rparr>)" (is "_ = (_, ?s)")
    using revokeSessionChain_run [where rely = rely and s = s, OF assms(1) _ _ assms(3)] assms(2) by blast
  have inv: "authInv ?s"
    using assms(1) by (simp add: authInv_def revokedRows_def map_key_updateMany)
  have "ax_sessionId ax \<noteq> rs_id r" if ok: "requireAuth verify now2 hdr ck ?s = (Inr ax, s2)" and r: "?R r" for verify now2 hdr ck ax s2 r
  proof
    assume eq: "ax_sessionId ax = rs_id r"
    obtain q p where q: "q \<in> set (refreshSessions ?s)" "liveSession now2 p q" "ax_sessionId ax = rs_id q"
      using ok unfolding requireAuth_Inr [OF inv] by (auto simp: contextOf_def)
    have "\<forall>x \<in> set (refreshSessions ?s). rs_id x = rs_id r \<longrightarrow> rs_revokedAt x \<noteq> None"
    proof -
      have "x = r" if "x \<in> set ?rows" "rs_id x = rs_id r" for x
        using assms(1) reaches_mem [OF r] that by (auto simp: authInv_def dest: distinct_key_unique)
      then show ?thesis using r by (auto simp: revokedRows_def ball_updateMany)
    qed
    with q(1) have "rs_id q = rs_id r \<longrightarrow> rs_revokedAt q \<noteq> None" by blast
    with q(2,3) eq show False by (simp add: liveSession_def)
  qed
  then have "\<forall>verify now2 hdr ck ax s2 r. requireAuth verify now2 hdr ck ?s = (Inr ax, s2) \<and> ?R r \<longrightarrow> ax_sessionId ax \<noteq> rs_id r"
    by blast
  with run show ?thesis by (intro exI [of _ ?s] conjI) (simp_all add: revokedRows_def)
qed

text \<open>
  The walk along the replacements of a session ends on every table, also on one whose replacements form a cycle: it
  visits no session twice, only sessions of the table, and makes at most as many steps as the table has rows.
\<close>

theorem session_chain_terminates:
  "distinct (chainFromSession rows userId cursor []) \<and> set (chainFromSession rows userId cursor []) \<subseteq> set rows \<and>
   length (chainFromSession rows userId cursor []) \<le> length rows"
proof -
  let ?c = "chainFromSession rows userId cursor []"
  have *: "distinct ?c" "set ?c \<subseteq> set rows"
    using chain_fresh [of rows userId cursor "[]"] by (auto simp: distinct_map)
  then have "length ?c \<le> card (set rows)" by (metis card_mono distinct_card finite_set)
  also have "\<dots> \<le> length rows" by (rule card_length)
  finally show ?thesis using * by blast
qed

section \<open>Login\<close>

lemma createSession_run:
  assumes "authInv (rely s)"
  shows "case createSession hashTok sign rely now rawRefresh newId i s of
     (Inr res, s') \<Rightarrow> \<exists>u a. u \<in> set (users (rely s)) \<and> activeUser (si_userId i) (si_tenantId i) u \<and>
        si_expectedPasswordHash i \<in> {None, Some [], Some (u_passwordHash u)} \<and>
        is_sessionId res = newId \<and> is_refreshToken res = rawRefresh \<and>
        s' = (rely s)\<lparr>refreshSessions := refreshSessions (rely s) @
          [\<lparr>rs_id = newId, rs_userId = si_userId i, rs_tenantId = si_tenantId i, rs_tokenHash = hashTok rawRefresh, rs_userAgent = si_userAgent i,
            rs_ipAddress = si_ipAddress i, rs_expiresAt = now + REFRESH_TTL_DAYS * 86400000, rs_revokedAt = None, rs_replacedById = None,
            rs_createdAt = now\<rparr>], auditLogs := auditLogs (rely s) @ a\<rparr>
   | (Inl e, s') \<Rightarrow> s' = rely s \<and> (
        e = AppError 404 ''NOT_FOUND'' \<and> \<not> (\<exists>u \<in> set (users (rely s)). u_id u = si_userId i) \<or>
        e = AppError 403 ''FORBIDDEN'' \<and> \<not> (\<exists>u \<in> set (users (rely s)). activeUser (si_userId i) (si_tenantId i) u) \<or>
        e = AppError 401 ''UNAUTHORIZED'' \<and> (\<exists>u \<in> set (users (rely s)). activeUser (si_userId i) (si_tenantId i) u \<and>
          si_expectedPasswordHash i \<notin> {None, Some [], Some (u_passwordHash u)}) \<or>
        e = PrismaError ''P2002'' \<and> (\<exists>r \<in> set (refreshSessions (rely s)). rs_id r = newId \<or> rs_tokenHash r = hashTok rawRefresh))"
proof -
  let ?t = "rely s"
  let ?row = "\<lparr>rs_id = newId, rs_userId = si_userId i, rs_tenantId = si_tenantId i, rs_tokenHash = hashTok rawRefresh, rs_userAgent = si_userAgent i,
            rs_ipAddress = si_ipAddress i, rs_expiresAt = now + REFRESH_TTL_DAYS * 86400000, rs_revokedAt = None, rs_replacedById = None,
            rs_createdAt = now\<rparr>"
  show ?thesis
  proof (cases "\<exists>u \<in> set (users ?t). u_id u = si_userId i")
    case False
    then have "filter (\<lambda>u. u_id u = si_userId i) (users ?t) = []" by (simp add: filter_empty_conv)
    then show ?thesis using False by (simp add: createSession_def Let_def bindP_def run_lock atomicP_def throwP_def)
  next
    case True
    then have one: "length (filter (\<lambda>u. u_id u = si_userId i) (users ?t)) = 1" using user_locked [OF assms] by metis
    show ?thesis
    proof (cases "findFirst (activeUser (si_userId i) (si_tenantId i)) (users ?t)")
      case None
      then have "\<not> (\<exists>u \<in> set (users ?t). activeUser (si_userId i) (si_tenantId i) u)" by (auto simp: find_None_iff)
      with None show ?thesis using one by (simp add: createSession_def Let_def bindP_def run_lock atomicP_def throwP_def getsP_def)
    next
      case (Some u)
      then have u: "u \<in> set (users ?t)" "activeUser (si_userId i) (si_tenantId i) u" by (auto dest: find_Some_iff_mem)
      let ?bad = "case si_expectedPasswordHash i of None \<Rightarrow> False | Some h \<Rightarrow> h \<noteq> [] \<and> u_passwordHash u \<noteq> h"
      have bad: "?bad \<longleftrightarrow> si_expectedPasswordHash i \<notin> {None, Some [], Some (u_passwordHash u)}" by (auto split: option.split)
      let ?m = "seqP (auditIpAnomaly now (si_tenantId i) (si_userId i) (si_ipAddress i))
         (rawAudit now (si_tenantId i) (si_userId i) ''AUTH_SESSION_CREATED'' ''auth_session'' (Some newId)
                     (sessionDetails newId (si_ipAddress i) (si_userAgent i)))"
      obtain a where a: "seqP ?m (returnP ?row) (?t\<lparr>refreshSessions := refreshSessions ?t @ [?row]\<rparr>) =
          (Inr ?row, ?t\<lparr>refreshSessions := refreshSessions ?t @ [?row], auditLogs := auditLogs ?t @ a\<rparr>)"
        using audit_then_return [OF auditOnly_seq [OF auditOnly_anomaly auditOnly_raw], of now "si_tenantId i" "si_userId i" "si_ipAddress i"
          now "si_tenantId i" "si_userId i" "''AUTH_SESSION_CREATED''" "''auth_session''" "Some newId"
          "sessionDetails newId (si_ipAddress i) (si_userAgent i)" ?row "?t\<lparr>refreshSessions := refreshSessions ?t @ [?row]\<rparr>"] by auto
      show ?thesis
      proof (cases "?bad \<or> (\<exists>r \<in> set (refreshSessions ?t). rs_id r = newId \<or> rs_tokenHash r = hashTok rawRefresh)")
        case True
        then show ?thesis using one Some u bad
          by (auto simp: createSession_def Let_def bindP_def run_lock atomicP_def throwP_def getsP_def run_insertSession)
      next
        case False
        then have "createSession hashTok sign rely now rawRefresh newId i s = (Inr
          \<lparr>is_accessToken = sign \<lparr>jp_userId = Some (si_userId i), jp_tenantId = Some (si_tenantId i), jp_roles = si_roles i,
             jp_permissions = si_permissions i, jp_tokenType = Some ''access'', jp_sessionId = Some newId\<rparr>,
           is_refreshToken = rawRefresh, is_sessionId = newId, is_refreshExpiresAt = now + REFRESH_TTL_DAYS * 86400000\<rparr>,
          ?t\<lparr>refreshSessions := refreshSessions ?t @ [?row], auditLogs := auditLogs ?t @ a\<rparr>)"
          using one Some a [unfolded seqP_assoc [symmetric]]
          by (simp add: createSession_def Let_def bindP_def run_lock atomicP_def getsP_def run_insertSession returnP_def)
        then show ?thesis using u False bad by auto
      qed
    qed
  qed
qed

text \<open>Only an inactive tenant keeps a user from logging in; a licence that needs payment does not.\<close>

abbreviation billingReasons :: "string option set" where
  "billingReasons \<equiv> {Some ''LICENSE_PENDING'', Some ''LICENSE_EXPIRED'', Some ''LICENSE_PAST_DUE'', Some ''LICENSE_SUSPENDED'', Some ''LICENSE_CANCELED''}"

lemma login_blocked_iff:
  "ac_blocked (evaluateAccess dp rd now t s) \<and> ac_reason (evaluateAccess dp rd now t s) \<notin> billingReasons \<longleftrightarrow> \<not> tenantActive t s"
  by (cases "l_status (getTenantLicense dp rd now t s)") (simp_all add: evaluateAccess_def tenantActive_def Let_def)

lemma inactive_reason: "\<not> tenantActive t s \<Longrightarrow> ac_reason (evaluateAccess dp rd now t s) = Some ''TENANT_INACTIVE''"
  by (simp add: evaluateAccess_def tenantActive_def Let_def)

definition sessionInput :: "User \<Rightarrow> LoginContext \<Rightarrow> string option \<Rightarrow> SessionInput" where
  "sessionInput c ctx h = \<lparr>si_userId = u_id c, si_tenantId = u_tenantId c, si_roles = su_roles (toSessionUser c),
     si_permissions = su_permissions (toSessionUser c), si_userAgent = lc_userAgent ctx, si_ipAddress = lc_ipAddress ctx, si_expectedPasswordHash = h\<rparr>"

definition credentialMatches :: "'z auth_db_scheme login_env \<Rightarrow> string \<Rightarrow> string \<Rightarrow> 'z auth_db_scheme \<Rightarrow> User list" where
  "credentialMatches E email password s =
     filter (\<lambda>u. u_email u = email \<and> u_deletedAt u = None \<and> le_bcryptOk E password (u_passwordHash u)) (users s)"

lemma run_gets_bind: "bindP (getsP f) g s = g (f s) s"
  by (simp add: bindP_def getsP_def)

lemma issueSession_run:
  assumes "authInv s" and "c \<in> set (users s)" and "u_deletedAt c = None" and "le_evaluate E = evaluateAccess dp rd at0"
  shows "issueSessionForUser E (u_id c) ctx h s =
    (if u_status c \<noteq> ACTIVE then (Inl (AppError 403 ''FORBIDDEN''), s)
     else if \<not> tenantActive (u_tenantId c) s then (Inl (AppError 403 ''TENANT_INACTIVE''), s)
     else case createSession (le_hashTok E) (le_sign E) (le_rely E) (le_now E) (le_rawRefresh E) (le_newId E) (sessionInput c ctx h) s of
       (Inl e, s') \<Rightarrow> (Inl e, s')
     | (Inr x, s') \<Rightarrow> (Inr \<lparr>lr_token = le_sign E \<lparr>jp_userId = Some (u_id c), jp_tenantId = Some (u_tenantId c),
           jp_roles = su_roles (toSessionUser c), jp_permissions = su_permissions (toSessionUser c), jp_tokenType = Some ''access'',
           jp_sessionId = Some (is_sessionId x)\<rparr>,
         lr_refreshToken = is_refreshToken x, lr_refreshExpiresAt = is_refreshExpiresAt x, lr_user = toSessionUser c\<rparr>, s'))"
proof -
  have "findFirst (\<lambda>u. u_id u = u_id c \<and> u_deletedAt u = None) (users s) = Some c"
    using assms(1-3) by (intro find_by_key [where key = u_id]) (auto simp: authInv_def)
  then have found: "findUserById (u_id c) s = Some (toSessionUser c)" by (simp add: findUserById_def)
  have proj: "su_status (toSessionUser c) = u_status c" "su_tenantId (toSessionUser c) = u_tenantId c" "su_id (toSessionUser c) = u_id c"
    by (simp_all add: toSessionUser_def)
  show ?thesis
  proof (cases "tenantActive (u_tenantId c) s")
    case True
    then have nb: "(ac_blocked (evaluateAccess dp rd at0 (u_tenantId c) s) \<and> ac_reason (evaluateAccess dp rd at0 (u_tenantId c) s) \<notin> billingReasons) = False"
      using login_blocked_iff [of dp rd at0 "u_tenantId c" s] by blast
    have "issueSessionForUser E (u_id c) ctx h s =
      (if u_status c \<noteq> ACTIVE then throwP (AppError 403 ''FORBIDDEN'') s
       else bindP (createSession (le_hashTok E) (le_sign E) (le_rely E) (le_now E) (le_rawRefresh E) (le_newId E) (sessionInput c ctx h)) (\<lambda>x.
         returnP \<lparr>lr_token = le_sign E \<lparr>jp_userId = Some (u_id c), jp_tenantId = Some (u_tenantId c),
           jp_roles = su_roles (toSessionUser c), jp_permissions = su_permissions (toSessionUser c), jp_tokenType = Some ''access'',
           jp_sessionId = Some (is_sessionId x)\<rparr>,
         lr_refreshToken = is_refreshToken x, lr_refreshExpiresAt = is_refreshExpiresAt x, lr_user = toSessionUser c\<rparr>) s)"
      by (cases "u_status c = ACTIVE")
        (simp_all only: issueSessionForUser_def run_gets_bind found option.case proj assms(4) Let_def nb if_False if_True simp_thms sessionInput_def)
    with True show ?thesis by (simp add: throwP_def bindP_def returnP_def split: prod.split sum.split)
  next
    case False
    then have "ac_blocked (evaluateAccess dp rd at0 (u_tenantId c) s)" "ac_reason (evaluateAccess dp rd at0 (u_tenantId c) s) = Some ''TENANT_INACTIVE''"
      using login_blocked_iff [of dp rd at0 "u_tenantId c" s] inactive_reason by auto
    with False found show ?thesis
      by (simp add: issueSessionForUser_def bindP_def getsP_def proj assms(4) Let_def throwP_def)
  qed
qed

lemma login_run:
  assumes "authInv s"
  shows "loginExecute E email password ctx s =
    (case credentialMatches E email password s of
       [] \<Rightarrow> (Inl (AppError 401 ''UNAUTHORIZED''), s)
     | [c] \<Rightarrow> issueSessionForUser E (u_id c) ctx (Some (u_passwordHash c)) s
     | _ \<Rightarrow> (Inl (AppError 409 ''AMBIGUOUS_LOGIN''), s))"
proof -
  have m: "filter (\<lambda>c. le_bcryptOk E password (u_passwordHash c)) (filter (\<lambda>u. u_email u = email \<and> u_deletedAt u = None) (users s))
      = credentialMatches E email password s"
    unfolding credentialMatches_def filter_filter by (rule filter_cong) auto
  have found: "findUserById (u_id c) s = Some (toSessionUser c)" if "c \<in> set (credentialMatches E email password s)" for c
  proof -
    have "findFirst (\<lambda>u. u_id u = u_id c \<and> u_deletedAt u = None) (users s) = Some c"
      using that assms by (intro find_by_key [where key = u_id]) (auto simp: authInv_def credentialMatches_def)
    then show ?thesis by (simp add: findUserById_def)
  qed
  show ?thesis
  proof (cases "credentialMatches E email password s")
    case Nil
    with m show ?thesis by (auto simp: loginExecute_def bindP_def getsP_def throwP_def)
  next
    case (Cons c rest)
    then have ne: "filter (\<lambda>u. u_email u = email \<and> u_deletedAt u = None) (users s) \<noteq> []"
      using m by (metis filter.simps(1) list.distinct(1))
    show ?thesis
      using found [of c] Cons ne unfolding loginExecute_def bindP_def [of "getsP _"] getsP_def prod.case sum.case m
      by (cases rest) (simp_all add: throwP_def toSessionUser_def bindP_def del: filter_empty_conv)
  qed
qed


section \<open>Audit entries of the session service\<close>

definition createdEntry :: "instant \<Rightarrow> string \<Rightarrow> SessionInput \<Rightarrow> AuditLogRow" where
  "createdEntry now newId i = \<lparr>al_tenantId = si_tenantId i, al_userId = Some (si_userId i), al_action = ''AUTH_SESSION_CREATED'',
     al_resource = ''auth_session'', al_resourceId = Some newId, al_details = sessionDetails newId (si_ipAddress i) (si_userAgent i), al_createdAt = now\<rparr>"

lemma entry_unhashed: "metaHash (createdEntry now newId i) = None"
  by (simp add: metaHash_def createdEntry_def sessionDetails_def jprop_def)

lemma anomaly_entries:
  "\<exists>a. auditIpAnomaly now t u ip s = (Inr (), s\<lparr>auditLogs := auditLogs s @ a\<rparr>) \<and> (\<forall>r \<in> set a. al_createdAt r = now)"
proof -
  have no: "\<exists>a. returnP () s = (Inr (), s\<lparr>auditLogs := auditLogs s @ a\<rparr>) \<and> (\<forall>r \<in> set a. al_createdAt r = now)"
    by (intro exI [of _ "[]"]) (simp add: returnP_def)
  have yes: "\<exists>a. whenP b (rawAudit now t u act res rid d) s = (Inr (), s\<lparr>auditLogs := auditLogs s @ a\<rparr>) \<and> (\<forall>r \<in> set a. al_createdAt r = now)"
    for b act res rid d
    unfolding when_raw_run by (intro exI conjI) (rule refl, simp)
  show ?thesis
    unfolding auditIpAnomaly_def Let_def using no
    by (cases ip) (simp_all add: run_gets_bind yes del: set_append)
qed

lemma createSession_entries:
  assumes "createSession hashTok sign (\<lambda>t. t) now rawRefresh newId i s = (Inr res, s1)"
  shows "\<exists>a. auditLogs s1 = auditLogs s @ a @ [createdEntry now newId i] \<and> (\<forall>r \<in> set a. al_createdAt r = now)"
proof -
  let ?row = "\<lparr>rs_id = newId, rs_userId = si_userId i, rs_tenantId = si_tenantId i, rs_tokenHash = hashTok rawRefresh, rs_userAgent = si_userAgent i,
            rs_ipAddress = si_ipAddress i, rs_expiresAt = now + REFRESH_TTL_DAYS * 86400000, rs_revokedAt = None, rs_replacedById = None,
            rs_createdAt = now\<rparr>"
  let ?s = "s\<lparr>refreshSessions := refreshSessions s @ [?row]\<rparr>"
  let ?m = "seqP (auditIpAnomaly now (si_tenantId i) (si_userId i) (si_ipAddress i))
     (seqP (rawAudit now (si_tenantId i) (si_userId i) ''AUTH_SESSION_CREATED'' ''auth_session'' (Some newId)
        (sessionDetails newId (si_ipAddress i) (si_userAgent i))) (returnP ?row))"
  have "\<exists>x. ?m ?s = (Inr x, s1)"
    using assms unfolding createSession_def Let_def bindP_Inr run_lock
    by (auto simp: atomicP_Inr bindP_Inr run_insertSession split: if_splits option.splits)
  moreover obtain a where "auditIpAnomaly now (si_tenantId i) (si_userId i) (si_ipAddress i) ?s = (Inr (), ?s\<lparr>auditLogs := auditLogs ?s @ a\<rparr>)"
    "\<forall>r \<in> set a. al_createdAt r = now" using anomaly_entries by blast
  ultimately show ?thesis
    by (auto simp: seqP_Inr rawAudit_def createdEntry_def)
qed

text \<open>
  Audit entries of sessions break the hash chain.  The session service writes its audit entries directly,
  without the hash the repository adds.  So after a session has been created, the next
  entry the repository writes for that tenant names no previous hash, although the tenant has
  entries, and the tenant's entries no longer form a chain.
\<close>

theorem session_entries_break_chain:
  assumes "createSession hashTok sign (\<lambda>t. t) now rawRefresh newId i s = (Inr res, s1)"
    and "\<forall>r \<in> set (tenantRows (si_tenantId i) (auditLogs s)). al_createdAt r \<le> now"
    and "ai_tenantId j = si_tenantId i"
  shows "\<exists>row s2. createAuditLog hashOf now2 j createdAt s1 = (Inr row, s2) \<and> metaPrevHash row = Some JNull \<and>
    tenantRows (si_tenantId i) (auditLogs s1) \<noteq> [] \<and> \<not> auditChain (tenantRows (si_tenantId i) (auditLogs s1))"
proof -
  let ?t = "si_tenantId i"
  obtain a where a: "auditLogs s1 = auditLogs s @ a @ [createdEntry now newId i]" "\<forall>r \<in> set a. al_createdAt r = now"
    using createSession_entries [OF assms(1)] by blast
  then have rows: "tenantRows ?t (auditLogs s1) = tenantRows ?t (auditLogs s @ a) @ [createdEntry now newId i]"
    by (simp add: tenantRows_def createdEntry_def)
  have "latestRow (tenantRows ?t (auditLogs s1)) = Some (createdEntry now newId i)"
    unfolding rows using assms(2) a(2) by (intro latestRow_snoc) (auto simp: createdEntry_def tenantRows_def)
  then obtain row where "createAuditLog hashOf now2 j createdAt s1 = (Inr row, s1\<lparr>auditLogs := auditLogs s1 @ [row]\<rparr>)" "metaPrevHash row = Some JNull"
    using run_createAuditLog [of hashOf now2 j createdAt s1] assms(3) by (auto simp: Let_def entry_unhashed)
  moreover have "\<not> auditChain (tenantRows ?t (auditLogs s1))"
    unfolding rows auditChain_def chainFrom_snoc by (simp add: entry_unhashed)
  ultimately show ?thesis using rows by (intro exI conjI) simp_all
qed

section \<open>Witnesses\<close>

text \<open>Witness of C28: an access token of the sample session is admitted at time 5 with the role the database holds.\<close>

theorem require_auth_exact_witness:
  "\<exists>ax. requireAuth (\<lambda>_. Some \<lparr>jp_userId = Some ''u1'', jp_tenantId = Some ''t1'', jp_roles = [''ADMIN''], jp_permissions = [],
      jp_tokenType = Some ''access'', jp_sessionId = Some ''r1''\<rparr>) 5 (Some ''Bearer x'') None sampleAuthDb = (Inr ax, sampleAuthDb) \<and>
     ax_roles ax = [''VIEWER''] \<and> set (ax_permissions ax) = {''bookings:read''}"
proof -
  let ?v = "\<lambda>_. Some \<lparr>jp_userId = Some ''u1'', jp_tenantId = Some ''t1'', jp_roles = [''ADMIN''], jp_permissions = [],
      jp_tokenType = Some ''access'', jp_sessionId = Some ''r1''\<rparr>"
  have run: "requireAuth ?v 5 (Some ''Bearer x'') None sampleAuthDb = (Inr (contextOf sampleUser sampleSession), sampleAuthDb)"
    by (simp add: requireAuth_token presentedToken_def backingSession_def truthy_def activeUser_def sample_auth_defs)
  show ?thesis
    using require_auth_exact [where verify = ?v and now = 5 and hdr = "Some ''Bearer x''" and ck = None, OF sample_auth_inv] unfolding run prod.case sum.case
    by (auto simp: contextOf_def sample_auth_defs)
qed

text \<open>Witness of C29: the sample session is revoked at time 7.\<close>

theorem logout_closes_chain_witness:
  "\<exists>s'. revokeSessionChain (\<lambda>s. s) 7 ''r1'' ''u1'' ''AUTH_SESSION_REVOKED_CURRENT'' sampleAuthDb = (Inr True, s') \<and>
     refreshSessions s' = [sampleSession\<lparr>rs_revokedAt := Some 7\<rparr>]"
proof -
  have "reaches (refreshSessions sampleAuthDb) ''u1'' ''r1'' sampleSession"
    by (rule reaches.start) (simp_all add: sample_auth_defs)
  then show ?thesis
    using logout_closes_chain [where rely = "\<lambda>s. s" and s = sampleAuthDb and userId = "''u1''" and sid = "''r1''" and now = 7 and
      act = "''AUTH_SESSION_REVOKED_CURRENT''", OF sample_auth_inv]
    by (auto simp: sample_auth_defs updateMany_def)
qed

definition sampleLoginEnv :: "auth_db login_env" where
  "sampleLoginEnv = \<lparr>le_hashTok = (\<lambda>x. x), le_sign = (\<lambda>_. ''jwt''), le_bcryptOk = (=), le_evaluate = evaluateAccess (\<lambda>_. None) (\<lambda>_ _. None) 5,
     le_rely = (\<lambda>s. s), le_now = 5, le_rawRefresh = ''raw'', le_newId = ''r9''\<rparr>"


text \<open>An instance of the preceding theorem: the login of the sample user.\<close>

theorem session_entries_break_chain_witness:
  "\<exists>res s1 row s2. createSession (\<lambda>x. x) (\<lambda>_. ''jwt'') (\<lambda>t. t) 5 ''raw'' ''r9'' (sessionInput sampleUser \<lparr>lc_userAgent = None, lc_ipAddress = None\<rparr> None)
       sampleAuthDb = (Inr res, s1) \<and>
     createAuditLog (\<lambda>_. ''h'') 6 sampleAudit None s1 = (Inr row, s2) \<and> metaPrevHash row = Some JNull"
proof -
  let ?i = "sessionInput sampleUser \<lparr>lc_userAgent = None, lc_ipAddress = None\<rparr> None"
  have "\<exists>res s1. createSession (\<lambda>x. x) (\<lambda>_. ''jwt'') (\<lambda>t. t) 5 ''raw'' ''r9'' ?i sampleAuthDb = (Inr res, s1)"
    by (simp add: createSession_def Let_def bindP_def run_lock atomicP_def getsP_def run_insertSession auditIpAnomaly_def rawAudit_def prog_defs
      sessionInput_def activeUser_def toSessionUser_def sample_auth_defs)
  then obtain res s1 where run: "createSession (\<lambda>x. x) (\<lambda>_. ''jwt'') (\<lambda>t. t) 5 ''raw'' ''r9'' ?i sampleAuthDb = (Inr res, s1)" by blast
  have "tenantRows (si_tenantId ?i) (auditLogs sampleAuthDb) = []" "ai_tenantId sampleAudit = si_tenantId ?i"
    by (simp_all add: tenantRows_def sampleAudit_def sessionInput_def sample_auth_defs)
  then show ?thesis
    using session_entries_break_chain [OF run, of sampleAudit "\<lambda>_. ''h''" 6 None] run by auto
qed

end
