(* ===== verification/Rental_Payment.thy ===== *)
theory Rental_Payment
  imports Audit_Log
begin

text \<open>
  Guarantee cards, deposits and extra charges of rentals: the data and the operations of
  \<^verbatim>\<open>backend/src/application/services/rental-payment-service.ts\<close>, with its database functions \<open>defaultDeps\<close>.

  The payment provider is a parameter: a record of its calls.  A call may change the database, because other
  requests run while it is awaited.  A transaction first waits for a lock; \<open>pe_rely\<close> is what
  others have committed when it gets it.  The clock, fresh identifiers and the audit hash are parameters too.
  Inserts check the unique indexes; foreign keys are not modelled.  Statements between two such points run without
  interruption.  An event without a data object, which the provider does not send, has no fields here.
\<close>

section \<open>Statuses\<close>

datatype RentalPaymentMethodStatus = M_SETUP_PENDING | M_ACTIVE | M_FAILED | M_REQUIRES_ACTION | M_EXPIRED | M_REMOVED

datatype RentalDepositStatus = D_DRAFT | D_AUTHORIZING | D_AUTHORIZED | D_PARTIALLY_CAPTURED | D_CAPTURED | D_RELEASED | D_CANCELED | D_FAILED | D_EXPIRED

datatype RentalExtraChargeStatus = X_DRAFT | X_PENDING_APPROVAL | X_APPROVED | X_NOTIFIED | X_PAYMENT_PROCESSING | X_PAID | X_FAILED |
  X_REQUIRES_ACTION | X_CANCELED | X_REFUNDED | X_DISPUTED

datatype RentalExtraChargeType = T_FINE | T_DAMAGE | T_DEDUCTIBLE | T_FUEL | T_TOLL | T_LATE_RETURN | T_CLEANING | T_MISSING_ACCESSORY | T_ADMIN_FEE | T_OTHER

fun depositStatusName :: "RentalDepositStatus \<Rightarrow> string" where
  "depositStatusName D_DRAFT = ''DRAFT''"
| "depositStatusName D_AUTHORIZING = ''AUTHORIZING''"
| "depositStatusName D_AUTHORIZED = ''AUTHORIZED''"
| "depositStatusName D_PARTIALLY_CAPTURED = ''PARTIALLY_CAPTURED''"
| "depositStatusName D_CAPTURED = ''CAPTURED''"
| "depositStatusName D_RELEASED = ''RELEASED''"
| "depositStatusName D_CANCELED = ''CANCELED''"
| "depositStatusName D_FAILED = ''FAILED''"
| "depositStatusName D_EXPIRED = ''EXPIRED''"

fun extraStatusName :: "RentalExtraChargeStatus \<Rightarrow> string" where
  "extraStatusName X_DRAFT = ''DRAFT''"
| "extraStatusName X_PENDING_APPROVAL = ''PENDING_APPROVAL''"
| "extraStatusName X_APPROVED = ''APPROVED''"
| "extraStatusName X_NOTIFIED = ''NOTIFIED''"
| "extraStatusName X_PAYMENT_PROCESSING = ''PAYMENT_PROCESSING''"
| "extraStatusName X_PAID = ''PAID''"
| "extraStatusName X_FAILED = ''FAILED''"
| "extraStatusName X_REQUIRES_ACTION = ''REQUIRES_ACTION''"
| "extraStatusName X_CANCELED = ''CANCELED''"
| "extraStatusName X_REFUNDED = ''REFUNDED''"
| "extraStatusName X_DISPUTED = ''DISPUTED''"

fun extraTypeName :: "RentalExtraChargeType \<Rightarrow> string" where
  "extraTypeName T_FINE = ''FINE''"
| "extraTypeName T_DAMAGE = ''DAMAGE''"
| "extraTypeName T_DEDUCTIBLE = ''DEDUCTIBLE''"
| "extraTypeName T_FUEL = ''FUEL''"
| "extraTypeName T_TOLL = ''TOLL''"
| "extraTypeName T_LATE_RETURN = ''LATE_RETURN''"
| "extraTypeName T_CLEANING = ''CLEANING''"
| "extraTypeName T_MISSING_ACCESSORY = ''MISSING_ACCESSORY''"
| "extraTypeName T_ADMIN_FEE = ''ADMIN_FEE''"
| "extraTypeName T_OTHER = ''OTHER''"

definition ACTIVE_DEPOSIT_STATUSES :: "RentalDepositStatus list" where
  "ACTIVE_DEPOSIT_STATUSES = [D_AUTHORIZING, D_AUTHORIZED]"

definition CAPTURABLE_DEPOSIT_STATUSES :: "RentalDepositStatus list" where
  "CAPTURABLE_DEPOSIT_STATUSES = [D_AUTHORIZED]"

definition RELEASABLE_DEPOSIT_STATUSES :: "RentalDepositStatus list" where
  "RELEASABLE_DEPOSIT_STATUSES = [D_AUTHORIZING, D_AUTHORIZED]"

definition CHARGEABLE_EXTRA_STATUSES :: "RentalExtraChargeStatus list" where
  "CHARGEABLE_EXTRA_STATUSES = [X_APPROVED, X_NOTIFIED, X_FAILED, X_REQUIRES_ACTION]"

definition APPROVABLE_EXTRA_STATUSES :: "RentalExtraChargeStatus list" where
  "APPROVABLE_EXTRA_STATUSES = [X_DRAFT, X_PENDING_APPROVAL]"

definition NON_CANCELABLE_EXTRA_STATUSES :: "RentalExtraChargeStatus list" where
  "NON_CANCELABLE_EXTRA_STATUSES = [X_PAYMENT_PROCESSING, X_PAID, X_REFUNDED, X_DISPUTED]"

definition RENTAL_CANDIDATE_EVENTS :: "string list" where
  "RENTAL_CANDIDATE_EVENTS = [''payment_intent.succeeded'', ''payment_intent.payment_failed'', ''payment_intent.amount_capturable_updated'',
     ''payment_intent.canceled'', ''charge.refunded'', ''charge.dispute.created'', ''charge.dispute.closed'']"

definition RENTAL_PAYMENT_DOMAIN :: string where "RENTAL_PAYMENT_DOMAIN = ''rental_payments''"
definition SETUP_PURPOSE :: string where "SETUP_PURPOSE = ''rental_guarantee_card''"
definition DEPOSIT_PURPOSE :: string where "DEPOSIT_PURPOSE = ''rental_deposit''"
definition EXTRA_CHARGE_PURPOSE :: string where "EXTRA_CHARGE_PURPOSE = ''rental_extra_charge''"

section \<open>Rows\<close>

record VehicleRow =
  vh_id :: string
  vh_tenantId :: string
  vh_siteId :: string

record SiteRow =
  si_id :: string
  si_siteTenantId :: string

record CustomerRow =
  cu_id :: string
  cu_tenantId :: string
  cu_customerType :: string
  cu_firstName :: string
  cu_lastName :: string
  cu_email :: "string option"
  cu_phone :: "string option"
  cu_companyName :: "string option"
  cu_deletedAt :: "instant option"

record BookingRow =
  bk_id :: string
  bk_tenantId :: string
  bk_code :: string
  bk_customerId :: "string option"
  bk_vehicleId :: string
  bk_customerName :: string
  bk_customerEmail :: "string option"
  bk_customerPhone :: "string option"
  bk_deletedAt :: "instant option"

record PaymentProfileRecord =
  pf_id :: string
  pf_tenantId :: string
  pf_rentalCustomerId :: string
  pf_stripeCustomerId :: string
  pf_status :: string
  pf_deletedAt :: "instant option"

record PaymentMethodRecord =
  pm_id :: string
  pm_tenantId :: string
  pm_paymentProfileId :: string
  pm_rentalCustomerId :: string
  pm_bookingId :: "string option"
  pm_stripeCustomerId :: string
  pm_stripePaymentMethodId :: string
  pm_stripeSetupIntentId :: "string option"
  pm_status :: RentalPaymentMethodStatus
  pm_cardBrand :: "string option"
  pm_cardLast4 :: "string option"
  pm_cardExpMonth :: "number option"
  pm_cardExpYear :: "number option"
  pm_cardholderName :: "string option"
  pm_mandateAccepted :: bool
  pm_mandateAcceptedAt :: "instant option"
  pm_mandateIp :: "string option"
  pm_mandateUserAgent :: "string option"
  pm_termsVersion :: "string option"
  pm_isDefault :: bool
  pm_createdByUserId :: "string option"
  pm_createdAt :: instant
  pm_deletedAt :: "instant option"

record DepositRecord =
  dp_id :: string
  dp_tenantId :: string
  dp_bookingId :: string
  dp_rentalCustomerId :: string
  dp_vehicleId :: "string option"
  dp_paymentMethodId :: string
  dp_stripePaymentIntentId :: "string option"
  dp_amountCents :: int
  dp_capturedAmountCents :: int
  dp_currency :: string
  dp_status :: RentalDepositStatus
  dp_failureReason :: "string option"
  dp_authorizedAt :: "instant option"
  dp_capturedAt :: "instant option"
  dp_releasedAt :: "instant option"
  dp_createdByUserId :: "string option"
  dp_approvedByUserId :: "string option"
  dp_createdAt :: instant
  dp_updatedAt :: instant
  dp_deletedAt :: "instant option"

record ExtraChargeRecord =
  ec_id :: string
  ec_tenantId :: string
  ec_bookingId :: string
  ec_rentalCustomerId :: string
  ec_vehicleId :: "string option"
  ec_paymentMethodId :: "string option"
  ec_stripePaymentIntentId :: "string option"
  ec_type :: RentalExtraChargeType
  ec_description :: string
  ec_amountCents :: int
  ec_adminFeeCents :: int
  ec_totalAmountCents :: int
  ec_currency :: string
  ec_status :: RentalExtraChargeStatus
  ec_evidenceFileUrl :: "string option"
  ec_notifiedAt :: "instant option"
  ec_chargedAt :: "instant option"
  ec_failureReason :: "string option"
  ec_createdByUserId :: "string option"
  ec_approvedByUserId :: "string option"
  ec_createdAt :: instant
  ec_updatedAt :: instant
  ec_deletedAt :: "instant option"

record RentalPaymentEventRefs =
  rf_paymentProfileId :: "string option"
  rf_paymentMethodId :: "string option"
  rf_depositId :: "string option"
  rf_extraChargeId :: "string option"
  rf_bookingId :: "string option"
  rf_rentalCustomerId :: "string option"

record RentalPaymentEventRecord =
  ev_tenantId :: string
  ev_provider :: string
  ev_eventId :: string
  ev_type :: string
  ev_status :: string
  ev_refs :: RentalPaymentEventRefs
  ev_processedAt :: "instant option"
  ev_errorMessage :: "string option"

record pay_db = audit_db +
  sites :: "SiteRow list"
  vehicles :: "VehicleRow list"
  customers :: "CustomerRow list"
  bookings :: "BookingRow list"
  paymentProfiles :: "PaymentProfileRecord list"
  paymentMethods :: "PaymentMethodRecord list"
  deposits :: "DepositRecord list"
  extraCharges :: "ExtraChargeRecord list"
  paymentEvents :: "RentalPaymentEventRecord list"

section \<open>The payment provider\<close>

record StripeError =
  er_type :: "string option"
  er_name :: "string option"
  er_code :: "string option"
  er_declineCode :: "string option"
  er_message :: "string option"
  er_statusCode :: "number option"
  er_paymentIntent :: "json option"
  er_rawPaymentIntent :: "json option"

datatype pay_error = AppErr app_error | StripeErr StripeError

record PaymentIntent =
  pi_object :: string
  pi_id :: string
  pi_status :: string
  pi_amount :: number
  pi_amountReceived :: number
  pi_currency :: "string option"
  pi_customer :: "json option"
  pi_paymentMethod :: "json option"
  pi_metadata :: "json option"
  pi_lastErrorMessage :: "string option"

record StripeCharge =
  ch_id :: string
  ch_paymentIntent :: "json option"
  ch_amount :: number
  ch_currency :: string
  ch_customer :: "json option"
  ch_disputed :: bool
  ch_amountRefunded :: number

record StripeDispute =
  di_id :: string
  di_charge :: "json option"

record SetupIntent =
  st_metadata :: "json option"
  st_paymentMethod :: "json option"

record CardDetails =
  cd_brand :: string
  cd_last4 :: string
  cd_expMonth :: number
  cd_expYear :: number

record StripePaymentMethod =
  sp_card :: "CardDetails option"
  sp_billingName :: "string option"

record SetupSession =
  ss_id :: string
  ss_url :: "string option"
  ss_setupIntent :: "json option"

text \<open>A request to create a payment intent: what is charged to whom, and how.\<close>

record IntentRequest =
  ir_amount :: int
  ir_currency :: string
  ir_customer :: string
  ir_paymentMethod :: string
  ir_manualCapture :: bool
  ir_description :: "string option"
  ir_metadata :: "(string \<times> string) list"

record CustomerRequest =
  cr_email :: "string option"
  cr_phone :: "string option"
  cr_name :: "string option"
  cr_metadata :: "(string \<times> string) list"

record SetupRequest =
  sr_customer :: string
  sr_clientReferenceId :: string
  sr_metadata :: "(string \<times> string) list"

record 's stripe_client =
  sk_createIntent :: "IntentRequest \<Rightarrow> string \<Rightarrow> (StripeError, 's, PaymentIntent) prog"
  sk_retrieveIntent :: "string \<Rightarrow> (StripeError, 's, PaymentIntent) prog"
  sk_captureIntent :: "string \<Rightarrow> int \<Rightarrow> string \<Rightarrow> (StripeError, 's, PaymentIntent) prog"
  sk_cancelIntent :: "string \<Rightarrow> string \<Rightarrow> (StripeError, 's, PaymentIntent) prog"
  sk_retrieveCharge :: "string \<Rightarrow> (StripeError, 's, StripeCharge) prog"
  sk_retrieveDispute :: "string \<Rightarrow> (StripeError, 's, StripeDispute) prog"
  sk_retrieveSetupIntent :: "string \<Rightarrow> (StripeError, 's, SetupIntent) prog"
  sk_retrievePaymentMethod :: "string \<Rightarrow> (StripeError, 's, StripePaymentMethod) prog"
  sk_createCustomer :: "CustomerRequest \<Rightarrow> (StripeError, 's, string) prog"
  sk_createSetupSession :: "SetupRequest \<Rightarrow> (StripeError, 's, SetupSession) prog"

text \<open>What the service is given: the client, if a key is configured, lock waits, clock, hash, error texts.\<close>

record 's pay_env =
  pe_stripe :: "'s stripe_client option"
  pe_rely :: "'s \<Rightarrow> 's"
  pe_now :: instant
  pe_hashOf :: "json \<Rightarrow> string"
  pe_messageOf :: "pay_error \<Rightarrow> string"

definition liftErr :: "('e \<Rightarrow> 'f) \<Rightarrow> ('e, 's, 'a) prog \<Rightarrow> ('f, 's, 'a) prog" where
  "liftErr h m s = (case m s of (Inl e, s') \<Rightarrow> (Inl (h e), s') | (Inr x, s') \<Rightarrow> (Inr x, s'))"

abbreviation failApp :: "nat \<Rightarrow> string \<Rightarrow> (pay_error, 's, 'a) prog" where
  "failApp code name \<equiv> throwP (AppErr (AppError code name))"

type_synonym ('z, 'a) payP = "(pay_error, 'z pay_db_scheme, 'a) prog"
type_synonym 'z penv = "'z pay_db_scheme pay_env"

section \<open>Helpers\<close>

definition optionalString :: "string option \<Rightarrow> string option" where
  "optionalString value = (case value of None \<Rightarrow> None | Some v \<Rightarrow> if trim v = [] then None else Some (trim v))"

definition stripeId :: "json option \<Rightarrow> string option" where
  "stripeId value =
     (case value of
        Some (JStr s) \<Rightarrow> Some s
      | Some v \<Rightarrow> jstring (jprop v ''id'')
      | None \<Rightarrow> None)"

text \<open>The string entries of the \<open>metadata\<close> of an object.\<close>

type_synonym metadata = "string \<Rightarrow> string option"

definition metadataOf :: "json option \<Rightarrow> metadata" where
  "metadataOf m k = (case m of Some (JObj fs) \<Rightarrow> jstring (map_of fs k) | _ \<Rightarrow> None)"

definition metadataFromObject :: "json option \<Rightarrow> metadata" where
  "metadataFromObject source = (case source of None \<Rightarrow> metadataOf None | Some v \<Rightarrow> metadataOf (jprop v ''metadata''))"

record StripeEvent =
  se_id :: string
  se_type :: string
  se_object :: "json option"

definition isRentalStripeEvent :: "StripeEvent \<Rightarrow> json option \<Rightarrow> bool" where
  "isRentalStripeEvent event dataObject =
     (let metadata = metadataFromObject (case dataObject of None \<Rightarrow> se_object event | Some d \<Rightarrow> Some d) in
      metadata ''domain'' = Some RENTAL_PAYMENT_DOMAIN \<or>
      se_type event \<in> set RENTAL_CANDIDATE_EVENTS \<and>
        (truthy (metadata ''rentalDepositId'') \<or> truthy (metadata ''rentalExtraChargeId'') \<or>
         metadata ''purpose'' = Some DEPOSIT_PURPOSE \<or> metadata ''purpose'' = Some EXTRA_CHARGE_PURPOSE))"

definition stripeErrorCode :: "StripeError \<Rightarrow> string option" where
  "stripeErrorCode error = optionalString (er_code error)"

definition stripeDeclineCode :: "StripeError \<Rightarrow> string option" where
  "stripeDeclineCode error = optionalString (er_declineCode error)"

definition stripeErrorMessage :: "StripeError \<Rightarrow> string" where
  "stripeErrorMessage error = orElse (optionalString (er_message error)) ''Errore Stripe''"

definition statusForStripePaymentError :: "StripeError \<Rightarrow> RentalExtraChargeStatus" where
  "statusForStripePaymentError error =
     (if stripeErrorCode error = Some ''authentication_required'' \<or> stripeDeclineCode error = Some ''authentication_required''
      then X_REQUIRES_ACTION else X_FAILED)"

definition isIndeterminateStripeError :: "StripeError \<Rightarrow> bool" where
  "isIndeterminateStripeError error =
     (let ty = (case optionalString (er_type error) of None \<Rightarrow> optionalString (er_name error) | Some t \<Rightarrow> Some t);
          code = optionalString (er_code error);
          statusCode = er_statusCode error
      in (ty \<in> Some ` {''StripeAPIError'', ''StripeConnectionError'', ''StripeRateLimitError'', ''StripeUnknownError''}) \<or>
         (code \<in> Some ` {''ECONNABORTED'', ''ECONNRESET'', ''EPIPE'', ''ETIMEDOUT'', ''idempotency_key_in_use''}) \<or>
         statusCode = Some 409 \<or> statusCode = Some 429 \<or>
         (case statusCode of None \<Rightarrow> False | Some c \<Rightarrow> 500 \<le> c))"

definition isDefinitiveStripeError :: "StripeError \<Rightarrow> bool" where
  "isDefinitiveStripeError error \<longleftrightarrow>
     er_type error \<in> Some ` {''StripeCardError'', ''StripeInvalidRequestError'', ''StripeAuthenticationError'', ''StripePermissionError''} \<or>
     er_statusCode error \<in> {Some 400, Some 401, Some 402, Some 403, Some 404} \<or>
     stripeErrorCode error = Some ''authentication_required''"

definition errorIntentId :: "StripeError \<Rightarrow> string option" where
  "errorIntentId error = (case stripeId (er_paymentIntent error) of None \<Rightarrow> stripeId (er_rawPaymentIntent error) | Some i \<Rightarrow> Some i)"

definition isSafeInteger :: "number \<Rightarrow> bool" where
  "isSafeInteger n \<longleftrightarrow> snd (quotient_of n) = 1 \<and> \<bar>n\<bar> \<le> 9007199254740991"

definition auditP ::
  "'z penv \<Rightarrow> string \<Rightarrow> string option \<Rightarrow> string \<Rightarrow> string \<Rightarrow> string \<Rightarrow> json \<Rightarrow> ('z, unit) payP" where
  "auditP E tenantId userId action resource resourceId details =
     liftErr AppErr (seqP (createAuditLog (pe_hashOf E) (pe_now E)
       \<lparr>ai_tenantId = tenantId, ai_userId = userId, ai_action = action, ai_resource = resource,
        ai_resourceId = Some resourceId, ai_details = Some details\<rparr> None) (returnP ()))"

definition requireStripeClient :: "'z penv \<Rightarrow> ('z, 'z pay_db_scheme stripe_client) payP" where
  "requireStripeClient E = (case pe_stripe E of None \<Rightarrow> failApp 500 ''RENTAL_STRIPE_NOT_CONFIGURED'' | Some k \<Rightarrow> returnP k)"

definition bindingError :: "('z, 'a) payP" where
  "bindingError = failApp 409 ''RENTAL_PAYMENT_BINDING_MISMATCH''"

section \<open>Database functions\<close>

definition ownedVehicle :: "string \<Rightarrow> string \<Rightarrow> 'z pay_db_scheme \<Rightarrow> bool" where
  "ownedVehicle tenantId vehicleId s \<longleftrightarrow>
     (\<exists>v \<in> set (vehicles s). vh_id v = vehicleId \<and> vh_tenantId v = tenantId \<and>
        (\<exists>t \<in> set (sites s). si_id t = vh_siteId v \<and> si_siteTenantId t = tenantId))"

definition findBookingForPayment :: "string \<Rightarrow> string \<Rightarrow> 'z pay_db_scheme \<Rightarrow> (BookingRow \<times> CustomerRow option) option" where
  "findBookingForPayment tenantId bookingId s =
     map_option (\<lambda>b. (b, case bk_customerId b of None \<Rightarrow> None | Some c \<Rightarrow> findFirst (\<lambda>r. cu_id r = c) (customers s)))
       (findFirst (\<lambda>b. bk_id b = bookingId \<and> bk_tenantId b = tenantId \<and> bk_deletedAt b = None \<and> ownedVehicle tenantId (bk_vehicleId b) s \<and>
          (bk_customerId b = None \<or> (\<exists>c \<in> set (customers s). Some (cu_id c) = bk_customerId b \<and> cu_tenantId c = tenantId))) (bookings s))"

definition findPaymentProfile :: "string \<Rightarrow> string \<Rightarrow> 'z pay_db_scheme \<Rightarrow> PaymentProfileRecord option" where
  "findPaymentProfile tenantId rentalCustomerId s =
     findFirst (\<lambda>p. pf_tenantId p = tenantId \<and> pf_rentalCustomerId p = rentalCustomerId) (paymentProfiles s)"

definition createPaymentProfile :: "PaymentProfileRecord \<Rightarrow> ('z, PaymentProfileRecord) payP" where
  "createPaymentProfile row =
     bindP (getsP paymentProfiles) (\<lambda>rows.
       if \<exists>p \<in> set rows. pf_id p = pf_id row \<or> pf_stripeCustomerId p = pf_stripeCustomerId row \<or>
            (pf_tenantId p = pf_tenantId row \<and> pf_rentalCustomerId p = pf_rentalCustomerId row)
       then throwP (AppErr (PrismaError ''P2002''))
       else seqP (modifyP (\<lambda>s. s\<lparr>paymentProfiles := paymentProfiles s @ [row]\<rparr>)) (returnP row))"

definition methodTaken :: "string \<Rightarrow> string \<Rightarrow> PaymentMethodRecord list \<Rightarrow> bool" where
  "methodTaken pmid stripePm rows \<longleftrightarrow> (\<exists>r \<in> set rows. pm_id r \<noteq> pmid \<and> pm_stripePaymentMethodId r = stripePm)"

definition createPendingPaymentMethod :: "PaymentMethodRecord \<Rightarrow> ('z, PaymentMethodRecord) payP" where
  "createPendingPaymentMethod row =
     bindP (getsP paymentMethods) (\<lambda>rows.
       if methodTaken (pm_id row) (pm_stripePaymentMethodId row) rows \<or> (\<exists>r \<in> set rows. pm_id r = pm_id row)
       then throwP (AppErr (PrismaError ''P2002''))
       else seqP (modifyP (\<lambda>s. s\<lparr>paymentMethods := paymentMethods s @ [row]\<rparr>)) (returnP row))"

text \<open>An update that would give two methods one provider identifier throws.\<close>

definition updatePaymentMethod ::
  "string \<Rightarrow> string \<Rightarrow> (PaymentMethodRecord \<Rightarrow> PaymentMethodRecord) \<Rightarrow> ('z, PaymentMethodRecord) payP" where
  "updatePaymentMethod tenantId paymentMethodId f =
     (let P = (\<lambda>r. pm_id r = paymentMethodId \<and> pm_tenantId r = tenantId) in
      bindP (getsP paymentMethods) (\<lambda>rows.
      if countWhere P rows \<noteq> 1 then failApp 404 ''RENTAL_PAYMENT_METHOD_NOT_FOUND''
      else if \<not> distinct (map pm_stripePaymentMethodId (updateMany P f rows)) then throwP (AppErr (PrismaError ''P2002''))
      else seqP (modifyP (\<lambda>s. s\<lparr>paymentMethods := updateMany P f (paymentMethods s)\<rparr>))
        (bindP (getsP (\<lambda>s. findFirst P (paymentMethods s))) (\<lambda>row.
          case row of None \<Rightarrow> failApp 404 ''RENTAL_PAYMENT_METHOD_NOT_FOUND'' | Some r \<Rightarrow> returnP r))))"

definition findPaymentMethodById :: "string \<Rightarrow> string \<Rightarrow> 'z pay_db_scheme \<Rightarrow> PaymentMethodRecord option" where
  "findPaymentMethodById tenantId pmid s = findFirst (\<lambda>r. pm_id r = pmid \<and> pm_tenantId r = tenantId \<and> pm_deletedAt r = None) (paymentMethods s)"

definition findHistoricalPaymentMethodById :: "string \<Rightarrow> string \<Rightarrow> 'z pay_db_scheme \<Rightarrow> PaymentMethodRecord option" where
  "findHistoricalPaymentMethodById tenantId pmid s = findFirst (\<lambda>r. pm_id r = pmid \<and> pm_tenantId r = tenantId) (paymentMethods s)"

definition findPaymentMethodByStripeId :: "string \<Rightarrow> 'z pay_db_scheme \<Rightarrow> PaymentMethodRecord option" where
  "findPaymentMethodByStripeId stripePm s = findFirst (\<lambda>r. pm_stripePaymentMethodId r = stripePm) (paymentMethods s)"

definition findPaymentMethodBySetupIntentId :: "string \<Rightarrow> 'z pay_db_scheme \<Rightarrow> PaymentMethodRecord option" where
  "findPaymentMethodBySetupIntentId si s = findFirst (\<lambda>r. pm_stripeSetupIntentId r = Some si \<and> pm_deletedAt r = None) (paymentMethods s)"

definition listPaymentMethods :: "string \<Rightarrow> string \<Rightarrow> 'z pay_db_scheme \<Rightarrow> PaymentMethodRecord list" where
  "listPaymentMethods tenantId rentalCustomerId s =
     sort_key (\<lambda>r. - pm_createdAt r) (filter (\<lambda>r. pm_tenantId r = tenantId \<and> pm_rentalCustomerId r = rentalCustomerId \<and> pm_deletedAt r = None) (paymentMethods s))"

definition listDepositsByBooking :: "string \<Rightarrow> string \<Rightarrow> 'z pay_db_scheme \<Rightarrow> DepositRecord list" where
  "listDepositsByBooking tenantId bookingId s =
     sort_key (\<lambda>d. - dp_createdAt d) (filter (\<lambda>d. dp_tenantId d = tenantId \<and> dp_bookingId d = bookingId \<and> dp_deletedAt d = None) (deposits s))"

definition activeDeposit :: "DepositRecord \<Rightarrow> bool" where
  "activeDeposit d \<longleftrightarrow> dp_deletedAt d = None \<and> dp_status d \<in> set ACTIVE_DEPOSIT_STATUSES"

definition findActiveDeposit :: "string \<Rightarrow> string \<Rightarrow> 'z pay_db_scheme \<Rightarrow> DepositRecord option" where
  "findActiveDeposit tenantId bookingId s =
     findFirst (\<lambda>d. dp_tenantId d = tenantId \<and> dp_bookingId d = bookingId \<and> activeDeposit d) (deposits s)"

text \<open>The partial unique index on active deposits; every write of the table that would break it throws.\<close>

definition oneActive :: "DepositRecord list \<Rightarrow> bool" where
  "oneActive rows \<longleftrightarrow> distinct (map (\<lambda>d. (dp_tenantId d, dp_bookingId d)) (filter activeDeposit rows))"

definition writeDeposits :: "DepositRecord list \<Rightarrow> ('z, unit) payP" where
  "writeDeposits rows = (if oneActive rows \<and> distinct (map dp_id rows) then modifyP (\<lambda>s. s\<lparr>deposits := rows\<rparr>) else throwP (AppErr (PrismaError ''P2002'')))"

definition claimActiveDeposit :: "'z penv \<Rightarrow> DepositRecord \<Rightarrow> ('z, DepositRecord \<times> bool) payP" where
  "claimActiveDeposit E input =
     seqP (modifyP (pe_rely E)) (atomicP
       (bindP (getsP (findActiveDeposit (dp_tenantId input) (dp_bookingId input))) (\<lambda>existing.
          case existing of Some d \<Rightarrow> returnP (d, False)
          | None \<Rightarrow> bindP (getsP deposits) (\<lambda>rows. seqP (writeDeposits (rows @ [input])) (returnP (input, True))))))"

definition casDeposit :: "DepositRecord \<Rightarrow> DepositRecord \<Rightarrow> bool" where
  "casDeposit expected d \<longleftrightarrow>
     dp_id d = dp_id expected \<and> dp_tenantId d = dp_tenantId expected \<and> dp_deletedAt d = None \<and>
     dp_status d = dp_status expected \<and> dp_stripePaymentIntentId d = dp_stripePaymentIntentId expected \<and>
     dp_paymentMethodId d = dp_paymentMethodId expected \<and> dp_amountCents d = dp_amountCents expected \<and>
     dp_capturedAmountCents d = dp_capturedAmountCents expected \<and> dp_currency d = dp_currency expected \<and>
     dp_bookingId d = dp_bookingId expected \<and> dp_rentalCustomerId d = dp_rentalCustomerId expected \<and>
     dp_updatedAt d = dp_updatedAt expected"

definition compareAndUpdateDeposit ::
  "'z penv \<Rightarrow> DepositRecord \<Rightarrow> (DepositRecord \<Rightarrow> DepositRecord) \<Rightarrow> ('z, unit) payP option \<Rightarrow> ('z, DepositRecord option) payP" where
  "compareAndUpdateDeposit E expected data audit =
     seqP (modifyP (pe_rely E)) (atomicP
       (bindP (getsP deposits) (\<lambda>rows.
        seqP (writeDeposits (updateMany (casDeposit expected) (\<lambda>d. (data d)\<lparr>dp_updatedAt := pe_now E\<rparr>) rows))
        (if countWhere (casDeposit expected) rows \<noteq> 1 then returnP None
         else seqP (case audit of None \<Rightarrow> returnP () | Some a \<Rightarrow> a)
           (getsP (\<lambda>s. findFirst (\<lambda>d. dp_id d = dp_id expected \<and> dp_tenantId d = dp_tenantId expected) (deposits s)))))))"

definition findDepositById :: "string \<Rightarrow> string \<Rightarrow> 'z pay_db_scheme \<Rightarrow> DepositRecord option" where
  "findDepositById tenantId did s = findFirst (\<lambda>d. dp_id d = did \<and> dp_tenantId d = tenantId \<and> dp_deletedAt d = None) (deposits s)"

definition createExtraChargeRow :: "ExtraChargeRecord \<Rightarrow> ('z, ExtraChargeRecord) payP" where
  "createExtraChargeRow row =
     bindP (getsP extraCharges) (\<lambda>rows.
       if \<exists>r \<in> set rows. ec_id r = ec_id row then throwP (AppErr (PrismaError ''P2002''))
       else seqP (modifyP (\<lambda>s. s\<lparr>extraCharges := extraCharges s @ [row]\<rparr>)) (returnP row))"

definition casExtra :: "ExtraChargeRecord \<Rightarrow> ExtraChargeRecord \<Rightarrow> bool" where
  "casExtra expected r \<longleftrightarrow>
     ec_id r = ec_id expected \<and> ec_tenantId r = ec_tenantId expected \<and> ec_deletedAt r = None \<and>
     ec_status r = ec_status expected \<and> ec_stripePaymentIntentId r = ec_stripePaymentIntentId expected \<and>
     ec_paymentMethodId r = ec_paymentMethodId expected \<and> ec_amountCents r = ec_amountCents expected \<and>
     ec_adminFeeCents r = ec_adminFeeCents expected \<and> ec_totalAmountCents r = ec_totalAmountCents expected \<and>
     ec_currency r = ec_currency expected \<and> ec_bookingId r = ec_bookingId expected \<and>
     ec_rentalCustomerId r = ec_rentalCustomerId expected \<and> ec_updatedAt r = ec_updatedAt expected"

definition compareAndUpdateExtraCharge ::
  "'z penv \<Rightarrow> ExtraChargeRecord \<Rightarrow> (ExtraChargeRecord \<Rightarrow> ExtraChargeRecord) \<Rightarrow> ('z, unit) payP option \<Rightarrow> ('z, ExtraChargeRecord option) payP" where
  "compareAndUpdateExtraCharge E expected data audit =
     seqP (modifyP (pe_rely E)) (atomicP
       (bindP (getsP extraCharges) (\<lambda>rows.
        seqP (modifyP (\<lambda>s. s\<lparr>extraCharges := updateMany (casExtra expected) (\<lambda>r. (data r)\<lparr>ec_updatedAt := pe_now E\<rparr>) rows\<rparr>))
        (if countWhere (casExtra expected) rows \<noteq> 1 then returnP None
         else seqP (case audit of None \<Rightarrow> returnP () | Some a \<Rightarrow> a)
           (getsP (\<lambda>s. findFirst (\<lambda>r. ec_id r = ec_id expected \<and> ec_tenantId r = ec_tenantId expected) (extraCharges s)))))))"

definition findExtraChargeById :: "string \<Rightarrow> string \<Rightarrow> 'z pay_db_scheme \<Rightarrow> ExtraChargeRecord option" where
  "findExtraChargeById tenantId xid s = findFirst (\<lambda>r. ec_id r = xid \<and> ec_tenantId r = tenantId \<and> ec_deletedAt r = None) (extraCharges s)"

definition createRentalPaymentEvent ::
  "StripeEvent \<Rightarrow> string \<Rightarrow> RentalPaymentEventRefs \<Rightarrow> ('z, RentalPaymentEventRecord) payP" where
  "createRentalPaymentEvent event tenantId refs =
     bindP (getsP (\<lambda>s. findFirst (\<lambda>r. ev_provider r = ''stripe'' \<and> ev_eventId r = se_id event) (paymentEvents s))) (\<lambda>existing.
       case existing of Some r \<Rightarrow> returnP r
       | None \<Rightarrow>
         let row = \<lparr>ev_tenantId = tenantId, ev_provider = ''stripe'', ev_eventId = se_id event, ev_type = se_type event,
               ev_status = ''RECEIVED'', ev_refs = refs, ev_processedAt = None, ev_errorMessage = None\<rparr>
         in seqP (modifyP (\<lambda>s. s\<lparr>paymentEvents := paymentEvents s @ [row]\<rparr>)) (returnP row))"

text \<open>\<open>processedAt\<close> given as \<open>None\<close> stays as it is; an update of a missing row throws.\<close>

definition updateRentalPaymentEvent :: "string \<Rightarrow> string \<Rightarrow> instant option \<Rightarrow> string option \<Rightarrow> ('z, unit) payP" where
  "updateRentalPaymentEvent eventId status processedAt errorMessage =
     (let P = (\<lambda>r. ev_provider r = ''stripe'' \<and> ev_eventId r = eventId) in
      bindP (getsP paymentEvents) (\<lambda>rows.
        if findFirst P rows = None then throwP (AppErr (PrismaError ''P2025''))
        else modifyP (\<lambda>s. s\<lparr>paymentEvents := updateMany P (\<lambda>r. r\<lparr>ev_status := status,
               ev_processedAt := (case processedAt of None \<Rightarrow> ev_processedAt r | Some t \<Rightarrow> Some t), ev_errorMessage := errorMessage\<rparr>)
               (paymentEvents s)\<rparr>)))"

section \<open>Checks of the service\<close>

definition getBookingOrThrow :: "string \<Rightarrow> string \<Rightarrow> ('z, BookingRow \<times> CustomerRow option) payP" where
  "getBookingOrThrow tenantId bookingId =
     bindP (getsP (findBookingForPayment tenantId bookingId)) (\<lambda>b. case b of None \<Rightarrow> failApp 404 ''RENTAL_BOOKING_NOT_FOUND'' | Some x \<Rightarrow> returnP x)"

definition requireBookingCustomerId :: "BookingRow \<times> CustomerRow option \<Rightarrow> ('z, string) payP" where
  "requireBookingCustomerId booking =
     (case (bk_customerId (fst booking), snd booking) of
        (Some c, Some r) \<Rightarrow> if c = [] \<or> cu_deletedAt r \<noteq> None then failApp 409 ''RENTAL_BOOKING_CUSTOMER_MISSING'' else returnP c
      | _ \<Rightarrow> failApp 409 ''RENTAL_BOOKING_CUSTOMER_MISSING'')"

definition getActivePaymentMethodOrThrow :: "string \<Rightarrow> string \<Rightarrow> string \<Rightarrow> ('z, PaymentMethodRecord) payP" where
  "getActivePaymentMethodOrThrow tenantId pmid rentalCustomerId =
     bindP (getsP (findPaymentMethodById tenantId pmid)) (\<lambda>m.
       case m of None \<Rightarrow> failApp 404 ''RENTAL_PAYMENT_METHOD_NOT_FOUND''
       | Some pm \<Rightarrow>
           if pm_rentalCustomerId pm \<noteq> rentalCustomerId then failApp 404 ''RENTAL_PAYMENT_METHOD_NOT_FOUND''
           else if pm_status pm \<noteq> M_ACTIVE \<or> \<not> pm_mandateAccepted pm then failApp 409 ''RENTAL_PAYMENT_METHOD_NOT_ACTIVE''
           else returnP pm)"

definition getDepositOrThrow :: "string \<Rightarrow> string \<Rightarrow> ('z, DepositRecord) payP" where
  "getDepositOrThrow tenantId did =
     bindP (getsP (findDepositById tenantId did)) (\<lambda>d. case d of None \<Rightarrow> failApp 404 ''RENTAL_DEPOSIT_NOT_FOUND'' | Some x \<Rightarrow> returnP x)"

definition getExtraChargeOrThrow :: "string \<Rightarrow> string \<Rightarrow> ('z, ExtraChargeRecord) payP" where
  "getExtraChargeOrThrow tenantId xid =
     bindP (getsP (findExtraChargeById tenantId xid)) (\<lambda>x. case x of None \<Rightarrow> failApp 404 ''RENTAL_EXTRA_CHARGE_NOT_FOUND'' | Some r \<Rightarrow> returnP r)"

text \<open>What \<open>validateIntent\<close> reads of a row of either kind.\<close>

datatype intentKind = Extra | Deposit

record payable =
  py_id :: string
  py_tenantId :: string
  py_bookingId :: string
  py_rentalCustomerId :: string
  py_paymentMethodId :: "string option"
  py_stripePaymentIntentId :: "string option"
  py_currency :: string
  py_expectedAmount :: int
  py_awaiting :: bool

definition payableExtra :: "ExtraChargeRecord \<Rightarrow> payable" where
  "payableExtra r = \<lparr>py_id = ec_id r, py_tenantId = ec_tenantId r, py_bookingId = ec_bookingId r, py_rentalCustomerId = ec_rentalCustomerId r,
     py_paymentMethodId = ec_paymentMethodId r, py_stripePaymentIntentId = ec_stripePaymentIntentId r, py_currency = ec_currency r,
     py_expectedAmount = ec_totalAmountCents r, py_awaiting = (ec_status r = X_PAYMENT_PROCESSING)\<rparr>"

definition payableDeposit :: "DepositRecord \<Rightarrow> payable" where
  "payableDeposit d = \<lparr>py_id = dp_id d, py_tenantId = dp_tenantId d, py_bookingId = dp_bookingId d, py_rentalCustomerId = dp_rentalCustomerId d,
     py_paymentMethodId = Some (dp_paymentMethodId d), py_stripePaymentIntentId = dp_stripePaymentIntentId d, py_currency = dp_currency d,
     py_expectedAmount = dp_amountCents d, py_awaiting = (dp_status d = D_AUTHORIZING)\<rparr>"

definition intentStatuses :: "string list" where
  "intentStatuses = [''requires_payment_method'', ''requires_confirmation'', ''requires_action'', ''processing'', ''requires_capture'', ''canceled'', ''succeeded'']"

definition intentMatches :: "intentKind \<Rightarrow> payable \<Rightarrow> PaymentIntent \<Rightarrow> bool" where
  "intentMatches kind row intent =
     (let metadata = metadataOf (pi_metadata intent);
          resourceKey = (case kind of Extra \<Rightarrow> ''rentalExtraChargeId'' | Deposit \<Rightarrow> ''rentalDepositId'');
          oppositeKey = (case kind of Extra \<Rightarrow> ''rentalDepositId'' | Deposit \<Rightarrow> ''rentalExtraChargeId'')
      in metadata ''domain'' = Some RENTAL_PAYMENT_DOMAIN \<and>
         metadata ''purpose'' = Some (case kind of Extra \<Rightarrow> EXTRA_CHARGE_PURPOSE | Deposit \<Rightarrow> DEPOSIT_PURPOSE) \<and>
         metadata resourceKey = Some (py_id row) \<and> \<not> truthy (metadata oppositeKey) \<and> metadata ''tenantId'' = Some (py_tenantId row) \<and>
         metadata ''bookingId'' = Some (py_bookingId row) \<and> metadata ''rentalCustomerId'' = Some (py_rentalCustomerId row) \<and>
         truthy (py_paymentMethodId row) \<and> metadata ''paymentMethodId'' = py_paymentMethodId row \<and>
         pi_object intent = ''payment_intent'' \<and> pi_status intent \<in> set intentStatuses \<and>
         pi_id intent \<noteq> [] \<and> isSafeInteger (pi_amount intent) \<and> pi_amount intent = of_int (py_expectedAmount row) \<and>
         map_option toLowerCase (pi_currency intent) = Some (toLowerCase (py_currency row)) \<and>
         isSafeInteger (pi_amountReceived intent) \<and> 0 \<le> pi_amountReceived intent \<and> pi_amountReceived intent \<le> of_int (py_expectedAmount row) \<and>
         (if truthy (py_stripePaymentIntentId row) then py_stripePaymentIntentId row = Some (pi_id intent) else py_awaiting row))"

definition methodMatches :: "payable \<Rightarrow> PaymentIntent \<Rightarrow> PaymentMethodRecord option \<Rightarrow> bool" where
  "methodMatches row intent m \<longleftrightarrow>
     (case m of None \<Rightarrow> False
      | Some pm \<Rightarrow> Some (pm_id pm) = py_paymentMethodId row \<and> pm_tenantId pm = py_tenantId row \<and> pm_rentalCustomerId pm = py_rentalCustomerId row \<and>
          stripeId (pi_customer intent) = Some (pm_stripeCustomerId pm) \<and> stripeId (pi_paymentMethod intent) = Some (pm_stripePaymentMethodId pm))"

definition validateIntent :: "intentKind \<Rightarrow> payable \<Rightarrow> PaymentIntent \<Rightarrow> ('z, unit) payP" where
  "validateIntent kind row intent =
     (if \<not> intentMatches kind row intent then bindingError
      else bindP (getsP (findHistoricalPaymentMethodById (py_tenantId row) (the (py_paymentMethodId row)))) (\<lambda>m.
        if methodMatches row intent m then returnP () else bindingError))"

definition assertMetadataAgreement :: "metadata \<Rightarrow> metadata \<Rightarrow> ('z, unit) payP" where
  "assertMetadataAgreement observed authoritative =
     (if list_all (\<lambda>k. truthy (observed k) \<longrightarrow> observed k = authoritative k)
           [''domain'', ''purpose'', ''tenantId'', ''bookingId'', ''rentalCustomerId'', ''paymentMethodId'', ''rentalDepositId'', ''rentalExtraChargeId'']
      then returnP () else bindingError)"

datatype paymentRow = ExtraRow ExtraChargeRecord | DepositRow DepositRecord

record verifiedIntent =
  vi_intent :: PaymentIntent
  vi_metadata :: metadata
  vi_row :: paymentRow

definition verifiedEventIntent :: "'z penv \<Rightarrow> string \<Rightarrow> metadata \<Rightarrow> ('z, verifiedIntent option) payP" where
  "verifiedEventIntent E intentId observed =
     bindP (requireStripeClient E) (\<lambda>stripe.
     bindP (liftErr StripeErr (sk_retrieveIntent stripe intentId)) (\<lambda>intent.
     if pi_id intent \<noteq> intentId then bindingError
     else let metadata = metadataOf (pi_metadata intent) in
       if metadata ''domain'' \<noteq> Some RENTAL_PAYMENT_DOMAIN
       then (if observed ''domain'' = Some RENTAL_PAYMENT_DOMAIN \<or> truthy (observed ''rentalDepositId'') \<or> truthy (observed ''rentalExtraChargeId'')
             then bindingError else returnP None)
       else seqP (assertMetadataAgreement observed metadata)
        (if \<not> truthy (metadata ''tenantId'') then bindingError
         else if metadata ''purpose'' = Some DEPOSIT_PURPOSE
         then bindP (getsP (\<lambda>s. case metadata ''rentalDepositId'' of None \<Rightarrow> findFirst (\<lambda>d. dp_tenantId d = the (metadata ''tenantId'') \<and> dp_deletedAt d = None) (deposits s)
                 | Some did \<Rightarrow> findDepositById (the (metadata ''tenantId'')) did s)) (\<lambda>row.
              case row of None \<Rightarrow> bindingError
              | Some d \<Rightarrow> seqP (validateIntent Deposit (payableDeposit d) intent)
                  (returnP (Some \<lparr>vi_intent = intent, vi_metadata = metadata, vi_row = DepositRow d\<rparr>)))
         else if metadata ''purpose'' = Some EXTRA_CHARGE_PURPOSE
         then bindP (getsP (\<lambda>s. case metadata ''rentalExtraChargeId'' of None \<Rightarrow> findFirst (\<lambda>r. ec_tenantId r = the (metadata ''tenantId'') \<and> ec_deletedAt r = None) (extraCharges s)
                 | Some xid \<Rightarrow> findExtraChargeById (the (metadata ''tenantId'')) xid s)) (\<lambda>row.
              case row of None \<Rightarrow> bindingError
              | Some r \<Rightarrow> seqP (validateIntent Extra (payableExtra r) intent)
                  (returnP (Some \<lparr>vi_intent = intent, vi_metadata = metadata, vi_row = ExtraRow r\<rparr>)))
         else bindingError)))"

section \<open>Reconciliation with the provider\<close>

definition extraStatusOfIntent :: "PaymentIntent \<Rightarrow> RentalExtraChargeStatus" where
  "extraStatusOfIntent intent =
     (if pi_status intent = ''succeeded'' then X_PAID
      else if pi_status intent = ''canceled'' then X_CANCELED
      else if pi_status intent = ''requires_action'' then X_REQUIRES_ACTION
      else if pi_status intent = ''requires_payment_method'' then X_FAILED
      else X_PAYMENT_PROCESSING)"

definition depositStatusOfIntent :: "DepositRecord \<Rightarrow> PaymentIntent \<Rightarrow> RentalDepositStatus" where
  "depositStatusOfIntent d intent =
     (if pi_status intent = ''succeeded'' then (if pi_amountReceived intent < of_int (dp_amountCents d) then D_PARTIALLY_CAPTURED else D_CAPTURED)
      else if pi_status intent = ''requires_capture'' then D_AUTHORIZED
      else if pi_status intent = ''canceled'' then D_RELEASED
      else if pi_status intent = ''requires_payment_method'' \<or> pi_status intent = ''requires_action'' then D_FAILED
      else D_AUTHORIZING)"

text \<open>The row is brought in line with the intent just read; \<open>again\<close> is the next pass of the loop.\<close>

definition settleExtra ::
  "'z penv \<Rightarrow> string \<Rightarrow> ExtraChargeRecord \<Rightarrow> PaymentIntent \<Rightarrow> ('z, ExtraChargeRecord) payP \<Rightarrow> ('z, ExtraChargeRecord) payP" where
  "settleExtra E tenantId row intent again =
     seqP (validateIntent Extra (payableExtra row) intent)
       (if ec_status row \<in> {X_PAID, X_REFUNDED, X_DISPUTED} then returnP row
        else if ec_status row = X_CANCELED \<and> pi_status intent \<noteq> ''canceled'' then bindingError
        else let status = extraStatusOfIntent intent in
          if status = X_PAID \<and> pi_amountReceived intent \<noteq> of_int (ec_totalAmountCents row) then bindingError
          else if ec_status row = status \<and> ec_stripePaymentIntentId row = Some (pi_id intent) then returnP row
          else bindP (compareAndUpdateExtraCharge E row
                 (\<lambda>r. r\<lparr>ec_stripePaymentIntentId := Some (pi_id intent), ec_status := status,
                    ec_chargedAt := (if status = X_PAID then Some (pe_now E) else ec_chargedAt r),
                    ec_failureReason := (if status = X_FAILED \<or> status = X_REQUIRES_ACTION then optionalString (pi_lastErrorMessage intent) else None)\<rparr>)
                 (if ec_status row \<noteq> status
                  then Some (auditP E tenantId None (''RENTAL_EXTRA_CHARGE_'' @ extraStatusName status) ''rental-extra-charge'' (ec_id row)
                    (JObj [(''bookingId'', JStr (ec_bookingId row)), (''totalAmountCents'', JNum (of_int (ec_totalAmountCents row)))]))
                  else None)) (\<lambda>updated.
               case updated of None \<Rightarrow> again | Some r \<Rightarrow> returnP r))"

definition settleDeposit ::
  "'z penv \<Rightarrow> string \<Rightarrow> DepositRecord \<Rightarrow> PaymentIntent \<Rightarrow> ('z, DepositRecord) payP \<Rightarrow> ('z, DepositRecord) payP" where
  "settleDeposit E tenantId row intent again =
     seqP (validateIntent Deposit (payableDeposit row) intent)
       (if 0 < dp_capturedAmountCents row \<or> dp_status row \<in> {D_CAPTURED, D_PARTIALLY_CAPTURED} then returnP row
        else if dp_status row \<in> {D_RELEASED, D_CANCELED, D_EXPIRED} \<and> pi_status intent \<noteq> ''canceled'' then bindingError
        else let status = depositStatusOfIntent row intent; succeeded = (pi_status intent = ''succeeded'') in
          if succeeded \<and> pi_amountReceived intent \<le> 0 then bindingError
          else if dp_status row = status \<and> dp_stripePaymentIntentId row = Some (pi_id intent) then returnP row
          else bindP (compareAndUpdateDeposit E row
                 (\<lambda>d. d\<lparr>dp_stripePaymentIntentId := Some (pi_id intent), dp_status := status,
                    dp_capturedAmountCents := (if succeeded then \<lfloor>pi_amountReceived intent\<rfloor> else dp_capturedAmountCents row),
                    dp_capturedAt := (if succeeded then Some (pe_now E) else dp_capturedAt d),
                    dp_authorizedAt := (if status = D_AUTHORIZED then Some (pe_now E) else dp_authorizedAt d),
                    dp_releasedAt := (if status = D_RELEASED then Some (pe_now E) else dp_releasedAt d),
                    dp_failureReason := (if status = D_FAILED then optionalString (pi_lastErrorMessage intent) else None)\<rparr>)
                 (if dp_status row \<noteq> status
                  then Some (auditP E tenantId None (''RENTAL_DEPOSIT_'' @ depositStatusName status) ''rental-deposit'' (dp_id row)
                    (JObj [(''bookingId'', JStr (dp_bookingId row)), (''stripePaymentIntentId'', JStr (pi_id intent)),
                           (''capturedTotalCents'', JNum (pi_amountReceived intent))]))
                  else None)) (\<lambda>updated.
               case updated of None \<Rightarrow> again | Some d \<Rightarrow> returnP d))"

text \<open>One pass: the row and the intent are read afresh.\<close>

definition reconcileExtraStep ::
  "'z penv \<Rightarrow> string \<Rightarrow> string \<Rightarrow> string \<Rightarrow> ('z, ExtraChargeRecord) payP \<Rightarrow> ('z, ExtraChargeRecord) payP" where
  "reconcileExtraStep E tenantId recordId intentId again =
     bindP (getExtraChargeOrThrow tenantId recordId) (\<lambda>row.
     bindP (requireStripeClient E) (\<lambda>stripe.
     bindP (liftErr StripeErr (sk_retrieveIntent stripe intentId)) (\<lambda>intent.
     if pi_id intent \<noteq> intentId then bindingError else settleExtra E tenantId row intent again)))"

definition reconcileDepositStep ::
  "'z penv \<Rightarrow> string \<Rightarrow> string \<Rightarrow> string \<Rightarrow> ('z, DepositRecord) payP \<Rightarrow> ('z, DepositRecord) payP" where
  "reconcileDepositStep E tenantId recordId intentId again =
     bindP (getDepositOrThrow tenantId recordId) (\<lambda>row.
     bindP (requireStripeClient E) (\<lambda>stripe.
     bindP (liftErr StripeErr (sk_retrieveIntent stripe intentId)) (\<lambda>intent.
     if pi_id intent \<noteq> intentId then bindingError else settleDeposit E tenantId row intent again)))"

text \<open>The loops with the passes that are left; \<open>reconcileExtra\<close> and \<open>reconcileDeposit\<close> start with five.\<close>

primrec reconcileExtraLoop :: "'z penv \<Rightarrow> string \<Rightarrow> string \<Rightarrow> string \<Rightarrow> nat \<Rightarrow> ('z, ExtraChargeRecord) payP" where
  "reconcileExtraLoop E tenantId recordId intentId 0 = failApp 503 ''RENTAL_PAYMENT_RECONCILIATION_CONFLICT''"
| "reconcileExtraLoop E tenantId recordId intentId (Suc n) =
     reconcileExtraStep E tenantId recordId intentId (reconcileExtraLoop E tenantId recordId intentId n)"

primrec reconcileDepositLoop :: "'z penv \<Rightarrow> string \<Rightarrow> string \<Rightarrow> string \<Rightarrow> nat \<Rightarrow> ('z, DepositRecord) payP" where
  "reconcileDepositLoop E tenantId recordId intentId 0 = failApp 503 ''RENTAL_PAYMENT_RECONCILIATION_CONFLICT''"
| "reconcileDepositLoop E tenantId recordId intentId (Suc n) =
     reconcileDepositStep E tenantId recordId intentId (reconcileDepositLoop E tenantId recordId intentId n)"

definition reconcileExtra :: "'z penv \<Rightarrow> string \<Rightarrow> string \<Rightarrow> string \<Rightarrow> ('z, ExtraChargeRecord) payP" where
  "reconcileExtra E tenantId recordId intentId = reconcileExtraLoop E tenantId recordId intentId 5"

definition reconcileDeposit :: "'z penv \<Rightarrow> string \<Rightarrow> string \<Rightarrow> string \<Rightarrow> ('z, DepositRecord) payP" where
  "reconcileDeposit E tenantId recordId intentId = reconcileDepositLoop E tenantId recordId intentId 5"

definition applyDepositPaymentIntent :: "'z penv \<Rightarrow> string \<Rightarrow> string \<Rightarrow> PaymentIntent \<Rightarrow> ('z, DepositRecord) payP" where
  "applyDepositPaymentIntent E tenantId did paymentIntent = reconcileDeposit E tenantId did (pi_id paymentIntent)"

section \<open>Guarantee cards\<close>

definition catchStripe :: "(StripeError, 's, 'a) prog \<Rightarrow> ('a \<Rightarrow> (pay_error, 's, 'b) prog) \<Rightarrow> (StripeError \<Rightarrow> (pay_error, 's, 'b) prog) \<Rightarrow> (pay_error, 's, 'b) prog" where
  "catchStripe m f h s = (case m s of (Inl e, s') \<Rightarrow> h e s' | (Inr x, s') \<Rightarrow> f x s')"

definition orElseTruthy :: "string option \<Rightarrow> string \<Rightarrow> string" where
  "orElseTruthy x d = (if truthy x then the x else d)"

definition displayName :: "BookingRow \<times> CustomerRow option \<Rightarrow> string" where
  "displayName booking =
     (let b = fst booking in
      case snd booking of
        None \<Rightarrow> bk_customerName b
      | Some c \<Rightarrow>
          if cu_customerType c = ''PERSONA_GIURIDICA'' then orElseTruthy (cu_companyName c) (bk_customerName b)
          else let parts = filter (\<lambda>x. x \<noteq> []) [cu_firstName c, cu_lastName c];
                   joined = (case parts of [] \<Rightarrow> [] | [x] \<Rightarrow> x | x # y # _ \<Rightarrow> x @ '' '' @ y)
               in if joined = [] then bk_customerName b else joined)"

definition getOrCreateRentalStripeCustomer ::
  "'z penv \<Rightarrow> string \<Rightarrow> string \<Rightarrow> string \<Rightarrow> BookingRow \<times> CustomerRow option \<Rightarrow> ('z, PaymentProfileRecord) payP" where
  "getOrCreateRentalStripeCustomer E newId tenantId rentalCustomerId booking =
     bindP (getsP (findPaymentProfile tenantId rentalCustomerId)) (\<lambda>existing.
     case (case existing of Some p \<Rightarrow> if pf_stripeCustomerId p \<noteq> [] \<and> pf_deletedAt p = None then Some p else None | None \<Rightarrow> None) of
       Some p \<Rightarrow> returnP p
     | None \<Rightarrow>
       bindP (requireStripeClient E) (\<lambda>stripe.
       bindP (liftErr StripeErr (sk_createCustomer stripe
         \<lparr>cr_email = (case snd booking of Some c \<Rightarrow> (case cu_email c of None \<Rightarrow> bk_customerEmail (fst booking) | Some e \<Rightarrow> Some e) | None \<Rightarrow> bk_customerEmail (fst booking)),
          cr_phone = (case snd booking of Some c \<Rightarrow> (case cu_phone c of None \<Rightarrow> bk_customerPhone (fst booking) | Some e \<Rightarrow> Some e) | None \<Rightarrow> bk_customerPhone (fst booking)),
          cr_name = (if displayName booking = [] then None else Some (displayName booking)),
          cr_metadata = [(''domain'', RENTAL_PAYMENT_DOMAIN), (''tenantId'', tenantId), (''rentalCustomerId'', rentalCustomerId), (''source'', ''fleetum'')]\<rparr>)) (\<lambda>customerId.
       bindP (createPaymentProfile \<lparr>pf_id = newId, pf_tenantId = tenantId, pf_rentalCustomerId = rentalCustomerId, pf_stripeCustomerId = customerId,
            pf_status = ''ACTIVE'', pf_deletedAt = None\<rparr>) (\<lambda>profile.
       seqP (auditP E tenantId None ''RENTAL_PAYMENT_PROFILE_CREATED'' ''rental-payment-profile'' (pf_id profile)
          (JObj [(''rentalCustomerId'', JStr rentalCustomerId), (''stripeCustomerId'', JStr customerId)]))
       (returnP profile)))))"

record SetupInput =
  su_tenantId :: string
  su_bookingId :: string
  su_userId :: string
  su_mandateAccepted :: bool
  su_termsVersion :: string
  su_mandateIp :: "string option"
  su_mandateUserAgent :: "string option"

record SetupResult =
  sx_checkoutUrl :: string
  sx_paymentMethodId :: string
  sx_stripeSessionId :: string

definition setupMetadata :: "SetupInput \<Rightarrow> string \<Rightarrow> string \<Rightarrow> string \<Rightarrow> (string \<times> string) list" where
  "setupMetadata i bookingId rentalCustomerId pendingId =
     [(''domain'', RENTAL_PAYMENT_DOMAIN), (''purpose'', SETUP_PURPOSE), (''tenantId'', su_tenantId i), (''bookingId'', bookingId),
      (''rentalCustomerId'', rentalCustomerId), (''createdByUserId'', su_userId i), (''paymentMethodRecordId'', pendingId)]"

definition createSetupSession :: "'z penv \<Rightarrow> string \<Rightarrow> string \<Rightarrow> string \<Rightarrow> SetupInput \<Rightarrow> ('z, SetupResult) payP" where
  "createSetupSession E newProfileId newId uuid i =
     (if \<not> su_mandateAccepted i then failApp 400 ''RENTAL_PAYMENT_MANDATE_REQUIRED''
      else bindP (requireStripeClient E) (\<lambda>stripe.
      bindP (getBookingOrThrow (su_tenantId i) (su_bookingId i)) (\<lambda>booking.
      bindP (requireBookingCustomerId booking) (\<lambda>rentalCustomerId.
      bindP (getOrCreateRentalStripeCustomer E newProfileId (su_tenantId i) rentalCustomerId booking) (\<lambda>profile.
      bindP (createPendingPaymentMethod
        \<lparr>pm_id = newId, pm_tenantId = su_tenantId i, pm_paymentProfileId = pf_id profile, pm_rentalCustomerId = rentalCustomerId,
         pm_bookingId = Some (bk_id (fst booking)), pm_stripeCustomerId = pf_stripeCustomerId profile,
         pm_stripePaymentMethodId = ''pending_'' @ uuid, pm_stripeSetupIntentId = None, pm_status = M_SETUP_PENDING,
         pm_cardBrand = None, pm_cardLast4 = None, pm_cardExpMonth = None, pm_cardExpYear = None, pm_cardholderName = None,
         pm_mandateAccepted = True, pm_mandateAcceptedAt = Some (pe_now E), pm_mandateIp = su_mandateIp i, pm_mandateUserAgent = su_mandateUserAgent i,
         pm_termsVersion = Some (su_termsVersion i), pm_isDefault = False, pm_createdByUserId = Some (su_userId i),
         pm_createdAt = pe_now E, pm_deletedAt = None\<rparr>) (\<lambda>pending.
      bindP (liftErr StripeErr (sk_createSetupSession stripe \<lparr>sr_customer = pf_stripeCustomerId profile, sr_clientReferenceId = bk_id (fst booking),
         sr_metadata = setupMetadata i (bk_id (fst booking)) rentalCustomerId (pm_id pending)\<rparr>)) (\<lambda>session.
      bindP (case stripeId (ss_setupIntent session) of None \<Rightarrow> returnP pending
             | Some si \<Rightarrow> if si = [] then returnP pending
                 else updatePaymentMethod (su_tenantId i) (pm_id pending) (\<lambda>r. r\<lparr>pm_stripeSetupIntentId := Some si\<rparr>)) (\<lambda>updated.
      seqP (auditP E (su_tenantId i) (Some (su_userId i)) ''RENTAL_PAYMENT_SETUP_SESSION_CREATED'' ''rental-payment-method'' (pm_id updated)
        (JObj [(''bookingId'', JStr (bk_id (fst booking))), (''rentalCustomerId'', JStr rentalCustomerId),
               (''stripeCustomerId'', JStr (pf_stripeCustomerId profile)), (''stripeSessionId'', JStr (ss_id session)),
               (''termsVersion'', JStr (su_termsVersion i))]))
      (if \<not> truthy (ss_url session) then failApp 502 ''RENTAL_PAYMENT_SETUP_SESSION_FAILED''
       else returnP \<lparr>sx_checkoutUrl = the (ss_url session), sx_paymentMethodId = pm_id updated, sx_stripeSessionId = ss_id session\<rparr>)))))))))"

definition overlay :: "metadata \<Rightarrow> metadata \<Rightarrow> metadata" where
  "overlay fallback m k = (case m k of None \<Rightarrow> fallback k | Some v \<Rightarrow> Some v)"

definition activatePaymentMethodFromSetupIntent :: "'z penv \<Rightarrow> string \<Rightarrow> metadata \<Rightarrow> ('z, unit) payP" where
  "activatePaymentMethodFromSetupIntent E setupIntentId fallbackMetadata =
     (if setupIntentId = [] then returnP ()
      else bindP (requireStripeClient E) (\<lambda>stripe.
      bindP (liftErr StripeErr (sk_retrieveSetupIntent stripe setupIntentId)) (\<lambda>setupIntent.
      let metadata = overlay fallbackMetadata (metadataOf (st_metadata setupIntent)); spm = stripeId (st_paymentMethod setupIntent) in
      if \<not> truthy (metadata ''tenantId'') \<or> \<not> truthy spm then returnP ()
      else let tenantId = the (metadata ''tenantId''); stripePaymentMethodId = the spm in
       bindP (liftErr StripeErr (sk_retrievePaymentMethod stripe stripePaymentMethodId)) (\<lambda>stripePaymentMethod.
       bindP (getsP (\<lambda>s. (findPaymentMethodByStripeId stripePaymentMethodId s,
           if truthy (metadata ''paymentMethodRecordId'') then findPaymentMethodById tenantId (the (metadata ''paymentMethodRecordId'')) s
           else findPaymentMethodBySetupIntentId setupIntentId s))) (\<lambda>(existing, pending).
       case (case existing of Some r \<Rightarrow> Some r | None \<Rightarrow> pending) of None \<Rightarrow> returnP ()
       | Some target \<Rightarrow>
         let card = sp_card stripePaymentMethod in
         bindP (updatePaymentMethod tenantId (pm_id target) (\<lambda>r. r\<lparr>pm_stripePaymentMethodId := stripePaymentMethodId,
            pm_stripeSetupIntentId := Some setupIntentId, pm_cardBrand := map_option cd_brand card, pm_cardLast4 := map_option cd_last4 card,
            pm_cardExpMonth := map_option cd_expMonth card, pm_cardExpYear := map_option cd_expYear card,
            pm_cardholderName := sp_billingName stripePaymentMethod, pm_status := M_ACTIVE, pm_isDefault := True\<rparr>)) (\<lambda>updated.
         auditP E tenantId (metadata ''createdByUserId'') ''RENTAL_PAYMENT_METHOD_ACTIVATED'' ''rental-payment-method'' (pm_id updated)
           (JObj [(''rentalCustomerId'', JStr (pm_rentalCustomerId updated)), (''bookingId'', jstrOrNull (pm_bookingId updated)),
                  (''stripeCustomerId'', JStr (pm_stripeCustomerId updated)), (''stripeSetupIntentId'', JStr setupIntentId),
                  (''cardBrand'', jstrOrNull (pm_cardBrand updated)), (''cardLast4'', jstrOrNull (pm_cardLast4 updated))])))))))"

section \<open>Deposits\<close>

record DepositInput =
  di_tenantId :: string
  di_bookingId :: string
  di_paymentMethodId :: string
  di_amountCents :: int
  di_userId :: string

definition errorDetails :: "StripeError \<Rightarrow> (string \<times> json) list" where
  "errorDetails error = [(''errorCode'', jstrOrNull (stripeErrorCode error)), (''declineCode'', jstrOrNull (stripeDeclineCode error))]"

definition depositRequest :: "DepositInput \<Rightarrow> string \<Rightarrow> string \<Rightarrow> DepositRecord \<Rightarrow> PaymentMethodRecord \<Rightarrow> IntentRequest" where
  "depositRequest i bookingId rentalCustomerId deposit pm =
     \<lparr>ir_amount = di_amountCents i, ir_currency = ''eur'', ir_customer = pm_stripeCustomerId pm, ir_paymentMethod = pm_stripePaymentMethodId pm,
      ir_manualCapture = True, ir_description = None,
      ir_metadata = [(''domain'', RENTAL_PAYMENT_DOMAIN), (''purpose'', DEPOSIT_PURPOSE), (''tenantId'', di_tenantId i), (''bookingId'', bookingId),
        (''rentalCustomerId'', rentalCustomerId), (''rentalDepositId'', dp_id deposit), (''paymentMethodId'', pm_id pm)]\<rparr>"

text \<open>The provider call of a claimed deposit and what follows it.\<close>

definition authorizeDeposit ::
  "'z penv \<Rightarrow> 'z pay_db_scheme stripe_client \<Rightarrow> DepositInput \<Rightarrow> string \<Rightarrow> string \<Rightarrow> PaymentMethodRecord \<Rightarrow> DepositRecord \<Rightarrow> ('z, DepositRecord) payP" where
  "authorizeDeposit E stripe i bookingId rentalCustomerId pm deposit =
     catchStripe (sk_createIntent stripe (depositRequest i bookingId rentalCustomerId deposit pm)
         (''rental-deposit:'' @ di_tenantId i @ '':'' @ dp_id deposit))
       (\<lambda>paymentIntent. applyDepositPaymentIntent E (di_tenantId i) (dp_id deposit) paymentIntent)
       (\<lambda>error. bindP (getDepositOrThrow (di_tenantId i) (dp_id deposit)) (\<lambda>current.
          if truthy (dp_stripePaymentIntentId current)
          then reconcileDeposit E (di_tenantId i) (dp_id current) (the (dp_stripePaymentIntentId current))
          else if truthy (errorIntentId error) then reconcileDeposit E (di_tenantId i) (dp_id current) (the (errorIntentId error))
          else if isIndeterminateStripeError error \<or> \<not> isDefinitiveStripeError error
          then seqP (auditP E (di_tenantId i) (Some (di_userId i)) ''RENTAL_DEPOSIT_AUTHORIZATION_UNCERTAIN'' ''rental-deposit'' (dp_id deposit)
                 (JObj [(''errorCode'', jstrOrNull (stripeErrorCode error))])) (throwP (StripeErr error))
          else bindP (compareAndUpdateDeposit E deposit (\<lambda>d. d\<lparr>dp_status := D_FAILED, dp_failureReason := Some (stripeErrorMessage error)\<rparr>)
                 (Some (auditP E (di_tenantId i) (Some (di_userId i)) ''RENTAL_DEPOSIT_FAILED'' ''rental-deposit'' (dp_id deposit) (JObj (errorDetails error))))) (\<lambda>updated.
               case updated of None \<Rightarrow> getDepositOrThrow (di_tenantId i) (dp_id deposit) | Some _ \<Rightarrow> throwP (StripeErr error))))"

definition createDeposit :: "'z penv \<Rightarrow> string \<Rightarrow> DepositInput \<Rightarrow> ('z, DepositRecord) payP" where
  "createDeposit E newId i =
     (if di_amountCents i \<le> 0 then failApp 400 ''RENTAL_DEPOSIT_AMOUNT_INVALID''
      else bindP (requireStripeClient E) (\<lambda>stripe.
      bindP (getBookingOrThrow (di_tenantId i) (di_bookingId i)) (\<lambda>booking.
      bindP (requireBookingCustomerId booking) (\<lambda>rentalCustomerId.
      bindP (getActivePaymentMethodOrThrow (di_tenantId i) (di_paymentMethodId i) rentalCustomerId) (\<lambda>pm.
      bindP (claimActiveDeposit E
        \<lparr>dp_id = newId, dp_tenantId = di_tenantId i, dp_bookingId = bk_id (fst booking), dp_rentalCustomerId = rentalCustomerId,
         dp_vehicleId = Some (bk_vehicleId (fst booking)), dp_paymentMethodId = pm_id pm, dp_stripePaymentIntentId = None,
         dp_amountCents = di_amountCents i, dp_capturedAmountCents = 0, dp_currency = ''EUR'', dp_status = D_AUTHORIZING, dp_failureReason = None,
         dp_authorizedAt = None, dp_capturedAt = None, dp_releasedAt = None, dp_createdByUserId = Some (di_userId i),
         dp_approvedByUserId = Some (di_userId i), dp_createdAt = pe_now E, dp_updatedAt = pe_now E, dp_deletedAt = None\<rparr>) (\<lambda>(deposit, created).
      if created
      then seqP (auditP E (di_tenantId i) (Some (di_userId i)) ''RENTAL_DEPOSIT_CREATED'' ''rental-deposit'' (dp_id deposit)
             (JObj [(''bookingId'', JStr (bk_id (fst booking))), (''rentalCustomerId'', JStr rentalCustomerId), (''amountCents'', JNum (of_int (di_amountCents i)))]))
           (authorizeDeposit E stripe i (bk_id (fst booking)) rentalCustomerId pm deposit)
      else if \<not> (dp_rentalCustomerId deposit = rentalCustomerId \<and> dp_paymentMethodId deposit = pm_id pm \<and> dp_amountCents deposit = di_amountCents i \<and>
                 toUpperCase (dp_currency deposit) = ''EUR'')
      then failApp 409 ''RENTAL_DEPOSIT_ALREADY_ACTIVE''
      else if truthy (dp_stripePaymentIntentId deposit)
      then reconcileDeposit E (di_tenantId i) (dp_id deposit) (the (dp_stripePaymentIntentId deposit))
      else if 23 * 60 * 60 * 1000 \<le> pe_now E - dp_createdAt deposit then failApp 409 ''RENTAL_DEPOSIT_OUTCOME_UNCERTAIN''
      else authorizeDeposit E stripe i (bk_id (fst booking)) rentalCustomerId pm deposit))))))"

definition captureDeposit :: "'z penv \<Rightarrow> string \<Rightarrow> string \<Rightarrow> int option \<Rightarrow> ('z, DepositRecord) payP" where
  "captureDeposit E tenantId did amountToCaptureCents =
     bindP (requireStripeClient E) (\<lambda>stripe.
     bindP (getDepositOrThrow tenantId did) (\<lambda>deposit.
     if \<not> truthy (dp_stripePaymentIntentId deposit) then failApp 409 ''RENTAL_DEPOSIT_PAYMENT_INTENT_MISSING''
     else if dp_status deposit \<notin> set CAPTURABLE_DEPOSIT_STATUSES then failApp 409 ''RENTAL_DEPOSIT_NOT_CAPTURABLE''
     else let remaining = dp_amountCents deposit - dp_capturedAmountCents deposit;
              amountToCapture = orElse amountToCaptureCents remaining;
              intentId = the (dp_stripePaymentIntentId deposit) in
       if amountToCapture \<le> 0 \<or> remaining < amountToCapture then failApp 400 ''RENTAL_DEPOSIT_CAPTURE_AMOUNT_INVALID''
       else bindP (liftErr StripeErr (sk_retrieveIntent stripe intentId)) (\<lambda>beforeCapture.
         seqP (validateIntent Deposit (payableDeposit deposit) beforeCapture)
         (if pi_status beforeCapture \<noteq> ''requires_capture'' then reconcileDeposit E tenantId (dp_id deposit) intentId
          else bindP (liftErr StripeErr (sk_captureIntent stripe intentId amountToCapture
                 (''rental-deposit-capture:'' @ tenantId @ '':'' @ dp_id deposit @ '':'' @ decimalOfNat (nat amountToCapture)))) (\<lambda>paymentIntent.
               if pi_id paymentIntent \<noteq> intentId then bindingError
               else reconcileDeposit E tenantId (dp_id deposit) intentId)))))"

definition releaseDeposit :: "'z penv \<Rightarrow> string \<Rightarrow> string \<Rightarrow> ('z, DepositRecord) payP" where
  "releaseDeposit E tenantId did =
     bindP (requireStripeClient E) (\<lambda>stripe.
     bindP (getDepositOrThrow tenantId did) (\<lambda>deposit.
     if \<not> truthy (dp_stripePaymentIntentId deposit) then failApp 409 ''RENTAL_DEPOSIT_PAYMENT_INTENT_MISSING''
     else if dp_status deposit \<notin> set RELEASABLE_DEPOSIT_STATUSES then failApp 409 ''RENTAL_DEPOSIT_NOT_RELEASABLE''
     else let intentId = the (dp_stripePaymentIntentId deposit) in
       bindP (liftErr StripeErr (sk_retrieveIntent stripe intentId)) (\<lambda>beforeRelease.
         seqP (validateIntent Deposit (payableDeposit deposit) beforeRelease)
         (if pi_status beforeRelease = ''succeeded'' \<or> pi_status beforeRelease = ''canceled'' then reconcileDeposit E tenantId (dp_id deposit) intentId
          else bindP (liftErr StripeErr (sk_cancelIntent stripe intentId (''rental-deposit-release:'' @ tenantId @ '':'' @ dp_id deposit))) (\<lambda>canceled.
               if pi_id canceled \<noteq> intentId then bindingError
               else reconcileDeposit E tenantId (dp_id deposit) intentId)))))"

section \<open>Extra charges\<close>

record ExtraInput =
  xi_tenantId :: string
  xi_bookingId :: string
  xi_paymentMethodId :: "string option"
  xi_type :: RentalExtraChargeType
  xi_description :: string
  xi_amountCents :: int
  xi_adminFeeCents :: "int option"
  xi_evidenceFileUrl :: "string option"
  xi_userId :: string

definition createExtraCharge :: "'z penv \<Rightarrow> string \<Rightarrow> ExtraInput \<Rightarrow> ('z, ExtraChargeRecord) payP" where
  "createExtraCharge E newId i =
     (if xi_amountCents i \<le> 0 then failApp 400 ''RENTAL_EXTRA_CHARGE_AMOUNT_INVALID''
      else if trim (xi_description i) = [] then failApp 400 ''RENTAL_EXTRA_CHARGE_REASON_REQUIRED''
      else bindP (getBookingOrThrow (xi_tenantId i) (xi_bookingId i)) (\<lambda>booking.
      bindP (requireBookingCustomerId booking) (\<lambda>rentalCustomerId.
      bindP (if truthy (xi_paymentMethodId i)
             then bindP (getActivePaymentMethodOrThrow (xi_tenantId i) (the (xi_paymentMethodId i)) rentalCustomerId) (\<lambda>pm. returnP (Some (pm_id pm)))
             else returnP None) (\<lambda>paymentMethodId.
      let adminFeeCents = orElse (xi_adminFeeCents i) 0; totalAmountCents = xi_amountCents i + adminFeeCents in
      bindP (createExtraChargeRow
        \<lparr>ec_id = newId, ec_tenantId = xi_tenantId i, ec_bookingId = bk_id (fst booking), ec_rentalCustomerId = rentalCustomerId,
         ec_vehicleId = Some (bk_vehicleId (fst booking)), ec_paymentMethodId = paymentMethodId, ec_stripePaymentIntentId = None,
         ec_type = xi_type i, ec_description = trim (xi_description i), ec_amountCents = xi_amountCents i, ec_adminFeeCents = adminFeeCents,
         ec_totalAmountCents = totalAmountCents, ec_currency = ''EUR'', ec_status = X_PENDING_APPROVAL, ec_evidenceFileUrl = xi_evidenceFileUrl i,
         ec_notifiedAt = None, ec_chargedAt = None, ec_failureReason = None, ec_createdByUserId = Some (xi_userId i), ec_approvedByUserId = None,
         ec_createdAt = pe_now E, ec_updatedAt = pe_now E, ec_deletedAt = None\<rparr>) (\<lambda>extraCharge.
      seqP (auditP E (xi_tenantId i) (Some (xi_userId i)) ''RENTAL_EXTRA_CHARGE_CREATED'' ''rental-extra-charge'' (ec_id extraCharge)
        (JObj [(''bookingId'', JStr (bk_id (fst booking))), (''rentalCustomerId'', JStr rentalCustomerId), (''type'', JStr (extraTypeName (xi_type i))),
               (''totalAmountCents'', JNum (of_int totalAmountCents))]))
      (returnP extraCharge))))))"

definition approveExtraCharge :: "'z penv \<Rightarrow> string \<Rightarrow> string \<Rightarrow> string \<Rightarrow> ('z, ExtraChargeRecord) payP" where
  "approveExtraCharge E tenantId extraChargeId userId =
     bindP (getExtraChargeOrThrow tenantId extraChargeId) (\<lambda>extraCharge.
     if ec_status extraCharge \<notin> set APPROVABLE_EXTRA_STATUSES then failApp 409 ''RENTAL_EXTRA_CHARGE_NOT_APPROVABLE''
     else bindP (compareAndUpdateExtraCharge E extraCharge (\<lambda>r. r\<lparr>ec_status := X_APPROVED, ec_approvedByUserId := Some userId\<rparr>)
        (Some (auditP E tenantId (Some userId) ''RENTAL_EXTRA_CHARGE_APPROVED'' ''rental-extra-charge'' extraChargeId
          (JObj [(''bookingId'', JStr (ec_bookingId extraCharge)), (''totalAmountCents'', JNum (of_int (ec_totalAmountCents extraCharge)))])))) (\<lambda>updated.
        case updated of None \<Rightarrow> failApp 409 ''RENTAL_PAYMENT_CONFLICT'' | Some r \<Rightarrow> returnP r))"

definition extraRequest :: "ExtraChargeRecord \<Rightarrow> PaymentMethodRecord \<Rightarrow> IntentRequest" where
  "extraRequest claimed pm =
     \<lparr>ir_amount = ec_totalAmountCents claimed, ir_currency = toLowerCase (ec_currency claimed), ir_customer = pm_stripeCustomerId pm,
      ir_paymentMethod = pm_stripePaymentMethodId pm, ir_manualCapture = False,
      ir_description = Some (''Addebito extra noleggio '' @ ec_bookingId claimed @ '' - '' @ extraTypeName (ec_type claimed)),
      ir_metadata = [(''domain'', RENTAL_PAYMENT_DOMAIN), (''purpose'', EXTRA_CHARGE_PURPOSE), (''tenantId'', ec_tenantId claimed),
        (''bookingId'', ec_bookingId claimed), (''rentalCustomerId'', ec_rentalCustomerId claimed), (''rentalExtraChargeId'', ec_id claimed),
        (''paymentMethodId'', pm_id pm), (''chargeType'', extraTypeName (ec_type claimed))]\<rparr>"

text \<open>The provider call of a claimed charge and what follows it.\<close>

definition payClaimedExtra ::
  "'z penv \<Rightarrow> 'z pay_db_scheme stripe_client \<Rightarrow> string \<Rightarrow> string \<Rightarrow> PaymentMethodRecord \<Rightarrow> ExtraChargeRecord \<Rightarrow> ('z, ExtraChargeRecord) payP" where
  "payClaimedExtra E stripe tenantId userId pm claimed =
     catchStripe (sk_createIntent stripe (extraRequest claimed pm) (''rental-extra-charge:'' @ ec_tenantId claimed @ '':'' @ ec_id claimed))
       (\<lambda>intent. reconcileExtra E (ec_tenantId claimed) (ec_id claimed) (pi_id intent))
       (\<lambda>error. bindP (getExtraChargeOrThrow tenantId (ec_id claimed)) (\<lambda>current.
          if truthy (ec_stripePaymentIntentId current)
          then reconcileExtra E (ec_tenantId current) (ec_id current) (the (ec_stripePaymentIntentId current))
          else if truthy (errorIntentId error) then reconcileExtra E (ec_tenantId current) (ec_id current) (the (errorIntentId error))
          else if isIndeterminateStripeError error \<or> \<not> isDefinitiveStripeError error
          then seqP (auditP E tenantId (Some userId) ''RENTAL_EXTRA_CHARGE_PAYMENT_UNCERTAIN'' ''rental-extra-charge'' (ec_id claimed)
                 (JObj [(''errorCode'', jstrOrNull (stripeErrorCode error))])) (throwP (StripeErr error))
          else let nextStatus = statusForStripePaymentError error in
               bindP (compareAndUpdateExtraCharge E claimed (\<lambda>r. r\<lparr>ec_status := nextStatus, ec_failureReason := Some (stripeErrorMessage error)\<rparr>)
                 (Some (auditP E tenantId (Some userId)
                   (if nextStatus = X_REQUIRES_ACTION then ''RENTAL_EXTRA_CHARGE_REQUIRES_ACTION'' else ''RENTAL_EXTRA_CHARGE_FAILED'')
                   ''rental-extra-charge'' (ec_id claimed) (JObj (errorDetails error))))) (\<lambda>updated.
               case updated of None \<Rightarrow> getExtraChargeOrThrow tenantId (ec_id claimed) | Some r \<Rightarrow> returnP r)))"

definition chargeExtraCharge :: "'z penv \<Rightarrow> string \<Rightarrow> string \<Rightarrow> string option \<Rightarrow> string \<Rightarrow> ('z, ExtraChargeRecord) payP" where
  "chargeExtraCharge E tenantId extraChargeId inputMethodId userId =
     bindP (requireStripeClient E) (\<lambda>stripe.
     bindP (getExtraChargeOrThrow tenantId extraChargeId) (\<lambda>extra.
     if ec_status extra \<notin> set CHARGEABLE_EXTRA_STATUSES \<and> ec_status extra \<noteq> X_PAYMENT_PROCESSING
     then failApp 409 ''RENTAL_EXTRA_CHARGE_NOT_CHARGEABLE''
     else if truthy (ec_stripePaymentIntentId extra)
     then reconcileExtra E (ec_tenantId extra) (ec_id extra) (the (ec_stripePaymentIntentId extra))
     else if ec_status extra \<notin> set CHARGEABLE_EXTRA_STATUSES then failApp 409 ''RENTAL_EXTRA_CHARGE_NOT_CHARGEABLE''
     else let paymentMethodId = (case inputMethodId of None \<Rightarrow> ec_paymentMethodId extra | Some m \<Rightarrow> Some m) in
       if \<not> truthy paymentMethodId then failApp 400 ''RENTAL_EXTRA_CHARGE_PAYMENT_METHOD_REQUIRED''
       else bindP (getActivePaymentMethodOrThrow tenantId (the paymentMethodId) (ec_rentalCustomerId extra)) (\<lambda>pm.
       bindP (compareAndUpdateExtraCharge E extra
           (\<lambda>r. r\<lparr>ec_status := X_PAYMENT_PROCESSING, ec_paymentMethodId := Some (pm_id pm), ec_failureReason := None\<rparr>)
           (Some (auditP E tenantId (Some userId) ''RENTAL_EXTRA_CHARGE_PAYMENT_STARTED'' ''rental-extra-charge'' (ec_id extra)
             (JObj [(''bookingId'', JStr (ec_bookingId extra)), (''totalAmountCents'', JNum (of_int (ec_totalAmountCents extra)))])))) (\<lambda>updated.
       case updated of None \<Rightarrow> failApp 409 ''RENTAL_PAYMENT_CONFLICT''
       | Some claimed \<Rightarrow> payClaimedExtra E stripe tenantId userId pm claimed))))"

definition cancelExtraCharge :: "'z penv \<Rightarrow> string \<Rightarrow> string \<Rightarrow> string \<Rightarrow> ('z, ExtraChargeRecord) payP" where
  "cancelExtraCharge E tenantId extraChargeId userId =
     bindP (getExtraChargeOrThrow tenantId extraChargeId) (\<lambda>extra.
     if ec_status extra \<in> set NON_CANCELABLE_EXTRA_STATUSES \<or> truthy (ec_stripePaymentIntentId extra)
     then failApp 409 ''RENTAL_EXTRA_CHARGE_NOT_CANCELABLE''
     else if ec_status extra = X_CANCELED then returnP extra
     else bindP (compareAndUpdateExtraCharge E extra (\<lambda>r. r\<lparr>ec_status := X_CANCELED\<rparr>)
        (Some (auditP E tenantId (Some userId) ''RENTAL_EXTRA_CHARGE_CANCELED'' ''rental-extra-charge'' (ec_id extra)
          (JObj [(''bookingId'', JStr (ec_bookingId extra))])))) (\<lambda>updated.
        case updated of None \<Rightarrow> failApp 409 ''RENTAL_PAYMENT_CONFLICT'' | Some r \<Rightarrow> returnP r))"

section \<open>Events of the provider\<close>

definition isPrefix :: "string \<Rightarrow> string \<Rightarrow> bool" where
  "isPrefix p s \<longleftrightarrow> take (length p) s = p"

definition eventField :: "StripeEvent \<Rightarrow> string \<Rightarrow> json option" where
  "eventField event k = (case se_object event of None \<Rightarrow> None | Some v \<Rightarrow> jprop v k)"

definition eventCharge :: "'z penv \<Rightarrow> StripeEvent \<Rightarrow> ('z, StripeCharge) payP" where
  "eventCharge E event =
     bindP (requireStripeClient E) (\<lambda>stripe.
     bindP (if isPrefix ''charge.dispute.'' (se_type event)
            then (case stripeId (eventField event ''id'') of None \<Rightarrow> bindingError
                  | Some disputeId \<Rightarrow> if disputeId = [] then bindingError
                      else bindP (liftErr StripeErr (sk_retrieveDispute stripe disputeId)) (\<lambda>dispute.
                        if di_id dispute \<noteq> disputeId then bindingError else returnP (stripeId (di_charge dispute))))
            else returnP (if se_type event = ''charge.refunded'' then stripeId (eventField event ''id'') else stripeId (eventField event ''charge''))) (\<lambda>chargeId.
     if \<not> truthy chargeId then bindingError
     else bindP (liftErr StripeErr (sk_retrieveCharge stripe (the chargeId))) (\<lambda>charge.
       if ch_id charge \<noteq> the chargeId \<or>
          (truthy (stripeId (eventField event ''payment_intent'')) \<and> stripeId (eventField event ''payment_intent'') \<noteq> stripeId (ch_paymentIntent charge))
       then bindingError else returnP charge)))"

text \<open>The status a refund or a dispute gives a charge, \<open>None\<close> for no change.\<close>

definition linkedStatus :: "StripeEvent \<Rightarrow> StripeCharge \<Rightarrow> ExtraChargeRecord \<Rightarrow> RentalExtraChargeStatus option" where
  "linkedStatus event charge row =
     (if isPrefix ''charge.dispute.'' (se_type event) \<or> ch_disputed charge \<or> ec_status row = X_DISPUTED then Some X_DISPUTED
      else if 0 < ch_amountRefunded charge then Some X_REFUNDED else None)"

definition markExtra ::
  "'z penv \<Rightarrow> StripeEvent \<Rightarrow> StripeCharge \<Rightarrow> string \<Rightarrow> PaymentIntent \<Rightarrow> ExtraChargeRecord \<Rightarrow> ('z, unit) payP \<Rightarrow> ('z, unit) payP" where
  "markExtra E event charge intentId intent row again =
     (if ch_amount charge \<noteq> of_int (ec_totalAmountCents row) \<or> toLowerCase (ch_currency charge) \<noteq> toLowerCase (ec_currency row) \<or>
         stripeId (ch_customer charge) \<noteq> stripeId (pi_customer intent) then bindingError
      else case linkedStatus event charge row of None \<Rightarrow> returnP ()
        | Some status \<Rightarrow>
          if ec_status row = status then returnP ()
          else bindP (compareAndUpdateExtraCharge E row (\<lambda>r. r\<lparr>ec_stripePaymentIntentId := Some intentId, ec_status := status\<rparr>)
             (Some (auditP E (ec_tenantId row) None
               (if status = X_DISPUTED then ''RENTAL_EXTRA_CHARGE_DISPUTED'' else ''RENTAL_EXTRA_CHARGE_REFUNDED'')
               ''rental-extra-charge'' (ec_id row)
               (JObj [(''bookingId'', JStr (ec_bookingId row)), (''stripePaymentIntentId'', JStr intentId)])))) (\<lambda>updated.
             case updated of None \<Rightarrow> again | Some _ \<Rightarrow> returnP ()))"

primrec markLinkedLoop :: "'z penv \<Rightarrow> StripeEvent \<Rightarrow> metadata \<Rightarrow> nat \<Rightarrow> ('z, unit) payP" where
  "markLinkedLoop E event metadata 0 = failApp 503 ''RENTAL_PAYMENT_RECONCILIATION_CONFLICT''"
| "markLinkedLoop E event metadata (Suc n) =
     bindP (eventCharge E event) (\<lambda>charge.
     if \<not> truthy (stripeId (ch_paymentIntent charge)) then returnP ()
     else let intentId = the (stripeId (ch_paymentIntent charge)) in
       bindP (verifiedEventIntent E intentId metadata) (\<lambda>verified.
       case verified of None \<Rightarrow> returnP ()
       | Some v \<Rightarrow>
         (case vi_row v of DepositRow _ \<Rightarrow> returnP ()
          | ExtraRow row \<Rightarrow> markExtra E event charge intentId (vi_intent v) row (markLinkedLoop E event metadata n))))"

definition markPaymentIntentLinkedRecord :: "'z penv \<Rightarrow> StripeEvent \<Rightarrow> metadata \<Rightarrow> ('z, unit) payP" where
  "markPaymentIntentLinkedRecord E event metadata = markLinkedLoop E event metadata 5"

definition applyPaymentIntentEvent :: "'z penv \<Rightarrow> json \<Rightarrow> metadata \<Rightarrow> ('z, unit) payP" where
  "applyPaymentIntentEvent E dataObject metadata =
     (case stripeId (jprop dataObject ''id'') of None \<Rightarrow> bindingError
      | Some intentId \<Rightarrow>
        if intentId = [] then bindingError
        else if metadata ''purpose'' = Some EXTRA_CHARGE_PURPOSE
        then seqP (reconcileExtra E (the (metadata ''tenantId'')) (the (metadata ''rentalExtraChargeId'')) intentId) (returnP ())
        else seqP (reconcileDeposit E (the (metadata ''tenantId'')) (the (metadata ''rentalDepositId'')) intentId) (returnP ()))"

definition processRentalStripeEvent :: "'z penv \<Rightarrow> StripeEvent \<Rightarrow> metadata \<Rightarrow> ('z, unit) payP" where
  "processRentalStripeEvent E event metadata =
     (case se_object event of None \<Rightarrow> returnP ()
      | Some dataObject \<Rightarrow>
        if se_type event = ''checkout.session.completed''
        then (if jstring (jprop dataObject ''mode'') = Some ''setup'' \<and> truthy (stripeId (jprop dataObject ''setup_intent''))
              then activatePaymentMethodFromSetupIntent E (the (stripeId (jprop dataObject ''setup_intent''))) metadata
              else returnP ())
        else if se_type event = ''setup_intent.succeeded''
        then activatePaymentMethodFromSetupIntent E (orElse (stripeId (jprop dataObject ''id'')) []) metadata
        else if se_type event = ''setup_intent.setup_failed''
        then (if truthy (metadata ''paymentMethodRecordId'')
              then seqP (updatePaymentMethod (the (metadata ''tenantId'')) (the (metadata ''paymentMethodRecordId'')) (\<lambda>r. r\<lparr>pm_status := M_FAILED\<rparr>))
                (auditP E (the (metadata ''tenantId'')) (metadata ''createdByUserId'') ''RENTAL_PAYMENT_METHOD_FAILED'' ''rental-payment-method''
                  (the (metadata ''paymentMethodRecordId'')) (JObj [(''setupIntentId'', jstrOrNull (stripeId (jprop dataObject ''id'')))]))
              else returnP ())
        else if isPrefix ''payment_intent.'' (se_type event) then applyPaymentIntentEvent E dataObject metadata
        else if se_type event = ''charge.refunded'' then markPaymentIntentLinkedRecord E event metadata
        else if se_type event = ''charge.dispute.created'' \<or> se_type event = ''charge.dispute.closed'' then markPaymentIntentLinkedRecord E event metadata
        else returnP ())"

datatype webhookResult = Ignored | Duplicate string | Received string

definition refsOf :: "metadata \<Rightarrow> RentalPaymentEventRefs" where
  "refsOf metadata = \<lparr>rf_paymentProfileId = metadata ''paymentProfileId'',
     rf_paymentMethodId = (case metadata ''paymentMethodRecordId'' of None \<Rightarrow> metadata ''paymentMethodId'' | Some r \<Rightarrow> Some r),
     rf_depositId = metadata ''rentalDepositId'', rf_extraChargeId = metadata ''rentalExtraChargeId'', rf_bookingId = metadata ''bookingId'',
     rf_rentalCustomerId = metadata ''rentalCustomerId''\<rparr>"

text \<open>The metadata an event is processed with: those of the intent it is about, once verified; \<open>None\<close> to ignore it.\<close>

definition eventMetadata :: "'z penv \<Rightarrow> StripeEvent \<Rightarrow> ('z, metadata option) payP" where
  "eventMetadata E event =
     (let metadata = metadataFromObject (se_object event) in
      if isPrefix ''payment_intent.'' (se_type event)
      then (case stripeId (eventField event ''id'') of None \<Rightarrow> bindingError
            | Some intentId \<Rightarrow> if intentId = [] then bindingError
                else bindP (verifiedEventIntent E intentId metadata) (\<lambda>v. returnP (map_option vi_metadata v)))
      else if se_type event \<in> {''charge.refunded'', ''charge.dispute.created'', ''charge.dispute.closed''}
      then bindP (eventCharge E event) (\<lambda>charge.
             if \<not> truthy (stripeId (ch_paymentIntent charge)) then returnP None
             else bindP (verifiedEventIntent E (the (stripeId (ch_paymentIntent charge))) metadata) (\<lambda>v.
               case v of Some w \<Rightarrow> (case vi_row w of ExtraRow _ \<Rightarrow> returnP (Some (vi_metadata w)) | DepositRow _ \<Rightarrow> returnP None)
               | None \<Rightarrow> returnP None))
      else returnP (Some metadata))"

definition handleStripeEvent :: "'z penv \<Rightarrow> StripeEvent \<Rightarrow> ('z, webhookResult) payP" where
  "handleStripeEvent E event =
     bindP (eventMetadata E event) (\<lambda>m.
     case m of None \<Rightarrow> returnP Ignored
     | Some metadata \<Rightarrow>
       if \<not> truthy (metadata ''tenantId'') then returnP Ignored
       else let tenantId = the (metadata ''tenantId'') in
         bindP (createRentalPaymentEvent event tenantId (refsOf metadata)) (\<lambda>paymentEvent.
         if ev_processedAt paymentEvent \<noteq> None \<and> ev_status paymentEvent = ''PROCESSED'' then returnP (Duplicate tenantId)
         else tryP (seqP (processRentalStripeEvent E event metadata)
                 (seqP (updateRentalPaymentEvent (se_id event) ''PROCESSED'' (Some (pe_now E)) None) (returnP (Received tenantId))))
               (\<lambda>error. seqP (updateRentalPaymentEvent (se_id event) ''FAILED'' None (Some (take 1000 (pe_messageOf E error)))) (throwP error))))"

end
