(* ===== verification/Payment_Guarantee.thy ===== *)
theory Payment_Guarantee
  imports Rental_Payment
begin

text \<open>
  What the payment service guarantees whatever the provider answers and whatever other requests do in between.
  \<open>depositMove\<close> and \<open>extraMove\<close> are the only changes the service makes to a deposit and to an extra charge.  The
  locale \<open>payment_guarantee\<close> has a property of the database that survives those changes; in it every
  operation of the service keeps the property, provided that what runs while a call or a lock is awaited
  keeps it.  \<open>Payment_Service\<close> proves this for every operation, \<open>Payment_Steps\<close> interprets the locale on the
  states that can be reached by such changes.
\<close>

section \<open>The changes the service makes\<close>

definition capturedStatus :: "RentalDepositStatus \<Rightarrow> bool" where
  "capturedStatus st \<longleftrightarrow> st \<in> {D_CAPTURED, D_PARTIALLY_CAPTURED}"

definition settledStatus :: "RentalExtraChargeStatus \<Rightarrow> bool" where
  "settledStatus st \<longleftrightarrow> st \<in> {X_PAID, X_REFUNDED, X_DISPUTED}"

definition depositMove :: "DepositRecord \<Rightarrow> DepositRecord \<Rightarrow> bool" where
  "depositMove d d' \<longleftrightarrow>
     dp_id d' = dp_id d \<and> dp_tenantId d' = dp_tenantId d \<and> dp_bookingId d' = dp_bookingId d \<and> dp_rentalCustomerId d' = dp_rentalCustomerId d \<and>
     dp_paymentMethodId d' = dp_paymentMethodId d \<and> dp_amountCents d' = dp_amountCents d \<and> dp_currency d' = dp_currency d \<and>
     dp_deletedAt d' = dp_deletedAt d \<and> \<not> capturedStatus (dp_status d) \<and> dp_capturedAmountCents d \<le> 0 \<and>
     (if capturedStatus (dp_status d')
      then 0 < dp_capturedAmountCents d' \<and> dp_capturedAmountCents d' \<le> dp_amountCents d \<and>
           (dp_status d' = D_CAPTURED \<longleftrightarrow> dp_capturedAmountCents d' = dp_amountCents d)
      else dp_capturedAmountCents d' = dp_capturedAmountCents d)"

definition depositNew :: "DepositRecord \<Rightarrow> bool" where
  "depositNew d \<longleftrightarrow> 0 < dp_amountCents d \<and> dp_capturedAmountCents d = 0 \<and> dp_status d = D_AUTHORIZING \<and> dp_deletedAt d = None"

text \<open>A charge that becomes paid has an intent the provider reported as succeeded with the whole amount.\<close>

definition paidBy :: "(PaymentIntent \<Rightarrow> bool) \<Rightarrow> ExtraChargeRecord \<Rightarrow> bool" where
  "paidBy seen r \<longleftrightarrow> (\<exists>intent. seen intent \<and> pi_status intent = ''succeeded'' \<and> pi_amountReceived intent = of_int (ec_totalAmountCents r) \<and>
     ec_stripePaymentIntentId r = Some (pi_id intent) \<and> intentMatches Extra (payableExtra r) intent)"

definition extraMove :: "(PaymentIntent \<Rightarrow> bool) \<Rightarrow> ExtraChargeRecord \<Rightarrow> ExtraChargeRecord \<Rightarrow> bool" where
  "extraMove seen r r' \<longleftrightarrow>
     ec_id r' = ec_id r \<and> ec_tenantId r' = ec_tenantId r \<and> ec_bookingId r' = ec_bookingId r \<and> ec_rentalCustomerId r' = ec_rentalCustomerId r \<and>
     ec_amountCents r' = ec_amountCents r \<and> ec_adminFeeCents r' = ec_adminFeeCents r \<and> ec_totalAmountCents r' = ec_totalAmountCents r \<and>
     ec_currency r' = ec_currency r \<and> ec_type r' = ec_type r \<and> ec_deletedAt r' = ec_deletedAt r \<and>
     (truthy (ec_stripePaymentIntentId r) \<longrightarrow> ec_stripePaymentIntentId r' = ec_stripePaymentIntentId r \<and> ec_paymentMethodId r' = ec_paymentMethodId r) \<and>
     (settledStatus (ec_status r) \<longrightarrow> settledStatus (ec_status r') \<and> ec_status r' \<noteq> X_PAID) \<and>
     (settledStatus (ec_status r') \<longrightarrow> truthy (ec_stripePaymentIntentId r')) \<and>
     (ec_status r' = X_PAID \<longrightarrow> paidBy seen r')"

definition extraNew :: "ExtraChargeRecord \<Rightarrow> bool" where
  "extraNew r \<longleftrightarrow> 0 < ec_amountCents r \<and> ec_totalAmountCents r = ec_amountCents r + ec_adminFeeCents r \<and> ec_status r = X_PENDING_APPROVAL \<and>
     ec_stripePaymentIntentId r = None \<and> ec_deletedAt r = None"

section \<open>The invariant of the tables\<close>

definition depositSound :: "DepositRecord \<Rightarrow> bool" where
  "depositSound d \<longleftrightarrow> 0 < dp_amountCents d \<and>
     (if capturedStatus (dp_status d)
      then 0 < dp_capturedAmountCents d \<and> dp_capturedAmountCents d \<le> dp_amountCents d \<and>
           (dp_status d = D_CAPTURED \<longleftrightarrow> dp_capturedAmountCents d = dp_amountCents d)
      else dp_capturedAmountCents d = 0)"

definition extraSound :: "ExtraChargeRecord \<Rightarrow> bool" where
  "extraSound r \<longleftrightarrow> 0 < ec_amountCents r \<and> ec_totalAmountCents r = ec_amountCents r + ec_adminFeeCents r \<and>
     (settledStatus (ec_status r) \<longrightarrow> truthy (ec_stripePaymentIntentId r))"

definition payInv :: "'z pay_db_scheme \<Rightarrow> bool" where
  "payInv s \<longleftrightarrow> distinct (map dp_id (deposits s)) \<and> oneActive (deposits s) \<and> distinct (map ec_id (extraCharges s)) \<and>
     (\<forall>d \<in> set (deposits s). depositSound d) \<and> (\<forall>r \<in> set (extraCharges s). extraSound r)"

lemma depositMove_sound: "depositMove d d' \<Longrightarrow> depositSound d \<Longrightarrow> depositSound d'"
  unfolding depositMove_def depositSound_def by (auto split: if_split_asm)

lemma depositNew_sound: "depositNew d \<Longrightarrow> depositSound d"
  by (simp add: depositNew_def depositSound_def capturedStatus_def)

lemma extraMove_sound: "extraMove seen r r' \<Longrightarrow> extraSound r \<Longrightarrow> extraSound r'"
  by (simp add: extraMove_def extraSound_def)

lemma extraNew_sound: "extraNew r \<Longrightarrow> extraSound r"
  by (simp add: extraNew_def extraSound_def settledStatus_def)

lemma active_uncaptured: "depositSound d \<Longrightarrow> activeDeposit d \<Longrightarrow> \<not> capturedStatus (dp_status d) \<and> dp_capturedAmountCents d \<le> 0"
  by (auto simp: depositSound_def activeDeposit_def capturedStatus_def ACTIVE_DEPOSIT_STATUSES_def)

section \<open>What runs in between\<close>

definition stripeKeeps :: "('s \<Rightarrow> bool) \<Rightarrow> 's stripe_client \<Rightarrow> bool" where
  "stripeKeeps I k \<longleftrightarrow>
     (\<forall>a b. keeps I (sk_createIntent k a b)) \<and> (\<forall>a. keeps I (sk_retrieveIntent k a)) \<and> (\<forall>a b c. keeps I (sk_captureIntent k a b c)) \<and>
     (\<forall>a b. keeps I (sk_cancelIntent k a b)) \<and> (\<forall>a. keeps I (sk_retrieveCharge k a)) \<and> (\<forall>a. keeps I (sk_retrieveDispute k a)) \<and>
     (\<forall>a. keeps I (sk_retrieveSetupIntent k a)) \<and> (\<forall>a. keeps I (sk_retrievePaymentMethod k a)) \<and>
     (\<forall>a. keeps I (sk_createCustomer k a)) \<and> (\<forall>a. keeps I (sk_createSetupSession k a))"

definition stripeReports :: "('s \<Rightarrow> bool) \<Rightarrow> (PaymentIntent \<Rightarrow> bool) \<Rightarrow> 's stripe_client \<Rightarrow> bool" where
  "stripeReports I seen k \<longleftrightarrow> (\<forall>i. yields I (sk_retrieveIntent k i) (\<lambda>x s. seen x))"

definition envKeeps :: "('s \<Rightarrow> bool) \<Rightarrow> (PaymentIntent \<Rightarrow> bool) \<Rightarrow> 's pay_env \<Rightarrow> bool" where
  "envKeeps I seen E \<longleftrightarrow>
     (\<forall>k. pe_stripe E = Some k \<longrightarrow> stripeKeeps I k \<and> stripeReports I seen k) \<and> (\<forall>s. I s \<longrightarrow> I (pe_rely E s))"

section \<open>Rules for programs of the service\<close>

text \<open>
  \<open>keepsR I m Q\<close>: the program keeps \<open>I\<close>, and a value it returns satisfies \<open>Q\<close>.
\<close>

definition keepsR :: "('s \<Rightarrow> bool) \<Rightarrow> ('e, 's, 'a) prog \<Rightarrow> ('a \<Rightarrow> bool) \<Rightarrow> bool" where
  "keepsR I m Q \<longleftrightarrow> (\<forall>s. I s \<longrightarrow> I (snd (m s)) \<and> (\<forall>x. fst (m s) = Inr x \<longrightarrow> Q x))"

lemma keepsR_keeps: "keepsR I m Q \<Longrightarrow> keeps I m"
  by (simp add: keepsR_def keeps_def)

lemma keeps_keepsR: "keeps I m \<Longrightarrow> keepsR I m (\<lambda>_. True)"
  by (simp add: keepsR_def keeps_def)

lemma keepsR_weaken: "keepsR I m Q \<Longrightarrow> (\<And>x. Q x \<Longrightarrow> R x) \<Longrightarrow> keepsR I m R"
  by (auto simp: keepsR_def)

lemma keepsR_bind:
  assumes "keepsR I m Q" and "\<And>x. Q x \<Longrightarrow> keepsR I (f x) R"
  shows "keepsR I (bindP m f) R"
  unfolding keepsR_def
proof (intro allI impI)
  fix s assume "I s"
  obtain r s' where m: "m s = (r, s')" by (cases "m s")
  with assms(1) \<open>I s\<close> have "I s'" "\<And>x. r = Inr x \<Longrightarrow> Q x" by (auto simp: keepsR_def)
  with assms(2) m show "I (snd (bindP m f s)) \<and> (\<forall>x. fst (bindP m f s) = Inr x \<longrightarrow> R x)"
    by (cases r) (auto simp: bindP_def keepsR_def)
qed

lemma keepsR_seq: "keepsR I m Q \<Longrightarrow> keepsR I n R \<Longrightarrow> keepsR I (seqP m n) R"
  unfolding seqP_def by (rule keepsR_bind)

lemma keeps_bindR: "keepsR I m Q \<Longrightarrow> (\<And>x. Q x \<Longrightarrow> keeps I (f x)) \<Longrightarrow> keeps I (bindP m f)"
  by (rule keepsR_keeps [OF keepsR_bind [where Q = Q and R = "\<lambda>_. True"]]) (simp_all add: keeps_keepsR)

lemma keepsR_return: "Q x \<Longrightarrow> keepsR I (returnP x) Q"
  by (simp add: keepsR_def returnP_def)

lemma keepsR_throw: "keepsR I (throwP e) Q"
  by (simp add: keepsR_def throwP_def)

lemma keepsR_gets: "(\<And>s. I s \<Longrightarrow> Q (f s)) \<Longrightarrow> keepsR I (getsP f) Q"
  by (simp add: keepsR_def getsP_def)

lemma keepsR_if: "(b \<Longrightarrow> keepsR I m Q) \<Longrightarrow> (\<not> b \<Longrightarrow> keepsR I n Q) \<Longrightarrow> keepsR I (if b then m else n) Q"
  by simp

lemma keepsR_case_option:
  "keepsR I m Q \<Longrightarrow> (\<And>y. x = Some y \<Longrightarrow> keepsR I (n y) Q) \<Longrightarrow> keepsR I (case x of None \<Rightarrow> m | Some y \<Rightarrow> n y) Q"
  by (cases x) simp_all

lemma keepsR_bindingError: "keepsR I bindingError Q"
  by (simp add: bindingError_def keepsR_throw)

lemma run_seq_throw: "seqP (throwP e) n s = (Inl e, s)"
  by (simp add: seqP_def bindP_def throwP_def)

lemma keeps_liftErr [keeps_intros]: "keeps I m \<Longrightarrow> keeps I (liftErr h m)"
  unfolding keeps_def liftErr_def by (auto split: prod.split sum.split dest: arg_cong [where f = snd])

lemma keepsR_liftErr: "keepsR I m Q \<Longrightarrow> keepsR I (liftErr h m) Q"
  unfolding keepsR_def liftErr_def by (auto split: prod.split sum.split)

lemma keeps_catchStripe [keeps_intros]:
  assumes "keeps I m" and "\<And>x. keeps I (f x)" and "\<And>e. keeps I (h e)"
  shows "keeps I (catchStripe m f h)"
proof (rule keepsI)
  fix s assume "I s"
  obtain r s' where m: "m s = (r, s')" by (cases "m s")
  with assms(1) \<open>I s\<close> have "I s'" by (blast dest: keepsD)
  with assms(2,3) m show "I (snd (catchStripe m f h s))"
    by (cases r) (auto simp: catchStripe_def keeps_def)
qed

lemma keeps_read: "(\<And>s. I s \<Longrightarrow> I (snd (f (g s) s))) \<Longrightarrow> keeps I (bindP (getsP g) f)"
  by (simp add: keeps_def bindP_def getsP_def)

lemma keeps_modify [keeps_intros]: "(\<And>s. I s \<Longrightarrow> I (f s)) \<Longrightarrow> keeps I (modifyP f)"
  by (rule keeps_modifyP)

lemma keeps_Let [keeps_intros]: "keeps I (f x) \<Longrightarrow> keeps I (let y = x in f y)"
  by simp

lemma keeps_bindingError [keeps_intros]: "keeps I bindingError"
  by (simp add: bindingError_def keeps_throwP)

lemma keeps_validateIntent [keeps_intros]: "keeps I (validateIntent kind row intent)"
  unfolding validateIntent_def by (intro keeps_intros)

lemma validateIntent_keepsR: "keepsR I (validateIntent kind row intent) (\<lambda>_. intentMatches kind row intent)"
  unfolding validateIntent_def keepsR_def
  by (simp add: bindP_def getsP_def bindingError_def throwP_def returnP_def)

lemma run_auditP: "\<exists>row. auditP E t u a res rid d s = (Inr (), s\<lparr>auditLogs := auditLogs s @ [row]\<rparr>)"
proof -
  obtain row where "createAuditLog (pe_hashOf E) (pe_now E)
      \<lparr>ai_tenantId = t, ai_userId = u, ai_action = a, ai_resource = res, ai_resourceId = Some rid, ai_details = Some d\<rparr> None s
      = (Inr row, s\<lparr>auditLogs := auditLogs s @ [row]\<rparr>)"
    using run_createAuditLog by blast
  then have "auditP E t u a res rid d s = (Inr (), s\<lparr>auditLogs := auditLogs s @ [row]\<rparr>)"
    by (simp add: auditP_def liftErr_def seqP_def bindP_def returnP_def)
  then show ?thesis by blast
qed

section \<open>The guarantee\<close>

locale payment_guarantee =
  fixes I :: "'z pay_db_scheme \<Rightarrow> bool" and seen :: "PaymentIntent \<Rightarrow> bool" and ten :: "string \<Rightarrow> bool"
  assumes sound: "I s \<Longrightarrow> payInv s"
    and audit_append: "I s \<Longrightarrow> I (s\<lparr>auditLogs := auditLogs s @ [entry]\<rparr>)"
    and event_free: "I s \<Longrightarrow> I (s\<lparr>paymentEvents := events\<rparr>)"
    and profile_free: "I s \<Longrightarrow> I (s\<lparr>paymentProfiles := profiles\<rparr>)"
    and method_free: "I s \<Longrightarrow> I (s\<lparr>paymentMethods := methods\<rparr>)"
    and deposit_move: "I s \<Longrightarrow> (\<And>d. d \<in> set (deposits s) \<Longrightarrow> P d \<Longrightarrow> ten (dp_tenantId d) \<and> depositMove d (f d)) \<Longrightarrow>
      oneActive (updateMany P f (deposits s)) \<Longrightarrow> distinct (map dp_id (updateMany P f (deposits s))) \<Longrightarrow>
      I (s\<lparr>deposits := updateMany P f (deposits s)\<rparr>)"
    and deposit_new: "I s \<Longrightarrow> depositNew d \<Longrightarrow> ten (dp_tenantId d) \<Longrightarrow> oneActive (deposits s @ [d]) \<Longrightarrow>
      distinct (map dp_id (deposits s @ [d])) \<Longrightarrow> I (s\<lparr>deposits := deposits s @ [d]\<rparr>)"
    and extra_move: "I s \<Longrightarrow> (\<And>r. r \<in> set (extraCharges s) \<Longrightarrow> Q r \<Longrightarrow> ten (ec_tenantId r) \<and> extraMove seen r (g r)) \<Longrightarrow>
      I (s\<lparr>extraCharges := updateMany Q g (extraCharges s)\<rparr>)"
    and extra_new: "I s \<Longrightarrow> extraNew r \<Longrightarrow> ten (ec_tenantId r) \<Longrightarrow> (\<And>q. q \<in> set (extraCharges s) \<Longrightarrow> ec_id q \<noteq> ec_id r) \<Longrightarrow>
      I (s\<lparr>extraCharges := extraCharges s @ [r]\<rparr>)"
begin

lemma keeps_audit: "keeps I (auditP E t u a res rid d)"
proof (rule keepsI)
  fix s assume "I s"
  moreover obtain row where "auditP E t u a res rid d s = (Inr (), s\<lparr>auditLogs := auditLogs s @ [row]\<rparr>)"
    using run_auditP by blast
  ultimately show "I (snd (auditP E t u a res rid d s))" by (simp add: audit_append)
qed

lemma keeps_rely: "envKeeps I seen E \<Longrightarrow> keeps I (modifyP (pe_rely E))"
  by (simp add: keeps_modifyP envKeeps_def)

lemma keeps_write:
  assumes "I s" and "oneActive rows \<Longrightarrow> distinct (map dp_id rows) \<Longrightarrow> I (s\<lparr>deposits := rows\<rparr>)" and "keeps I n"
  shows "I (snd (seqP (writeDeposits rows) n s))"
  using assms by (simp add: writeDeposits_def run_seq_modify run_seq_throw keeps_def)

lemma keeps_casDeposit:
  assumes env: "envKeeps I seen E" and ten: "ten (dp_tenantId expected)" and aud: "\<And>a. audit = Some a \<Longrightarrow> keeps I a"
    and move: "\<And>d. casDeposit expected d \<Longrightarrow> depositMove d ((f d)\<lparr>dp_updatedAt := pe_now E\<rparr>)"
  shows "keeps I (compareAndUpdateDeposit E expected f audit)"
  unfolding compareAndUpdateDeposit_def
proof (intro keeps_seqP keeps_atomicP keeps_rely [OF env] keeps_read)
  fix s assume "I s"
  then show "I (snd (seqP (writeDeposits (updateMany (casDeposit expected) (\<lambda>d. (f d)\<lparr>dp_updatedAt := pe_now E\<rparr>) (deposits s)))
     (if countWhere (casDeposit expected) (deposits s) \<noteq> 1 then returnP None
      else seqP (case audit of None \<Rightarrow> returnP () | Some a \<Rightarrow> a)
        (getsP (\<lambda>s. findFirst (\<lambda>d. dp_id d = dp_id expected \<and> dp_tenantId d = dp_tenantId expected) (deposits s)))) s))"
  proof (rule keeps_write)
    show "I (s\<lparr>deposits := updateMany (casDeposit expected) (\<lambda>d. (f d)\<lparr>dp_updatedAt := pe_now E\<rparr>) (deposits s)\<rparr>)"
      if "oneActive (updateMany (casDeposit expected) (\<lambda>d. (f d)\<lparr>dp_updatedAt := pe_now E\<rparr>) (deposits s))"
        and "distinct (map dp_id (updateMany (casDeposit expected) (\<lambda>d. (f d)\<lparr>dp_updatedAt := pe_now E\<rparr>) (deposits s)))"
      using deposit_move [OF \<open>I s\<close> _ that] move ten by (simp add: casDeposit_def)
  qed (use aud in \<open>auto intro!: keeps_intros\<close>)
qed

lemma keeps_casExtra:
  assumes env: "envKeeps I seen E" and ten: "ten (ec_tenantId expected)" and aud: "\<And>a. audit = Some a \<Longrightarrow> keeps I a"
    and move: "\<And>r. casExtra expected r \<Longrightarrow> extraMove seen r ((f r)\<lparr>ec_updatedAt := pe_now E\<rparr>)"
  shows "keeps I (compareAndUpdateExtraCharge E expected f audit)"
  unfolding compareAndUpdateExtraCharge_def
proof (intro keeps_seqP keeps_atomicP keeps_rely [OF env] keeps_read)
  fix s assume "I s"
  then have "I (s\<lparr>extraCharges := updateMany (casExtra expected) (\<lambda>r. (f r)\<lparr>ec_updatedAt := pe_now E\<rparr>) (extraCharges s)\<rparr>)"
    using move ten by (intro extra_move) (simp_all add: casExtra_def)
  moreover have "keeps I (if countWhere (casExtra expected) (extraCharges s) \<noteq> 1 then returnP None
      else seqP (case audit of None \<Rightarrow> returnP () | Some a \<Rightarrow> a)
        (getsP (\<lambda>s. findFirst (\<lambda>r. ec_id r = ec_id expected \<and> ec_tenantId r = ec_tenantId expected) (extraCharges s))))"
    using aud by (auto intro!: keeps_intros)
  ultimately show "I (snd (seqP (modifyP (\<lambda>sa. sa\<lparr>extraCharges := updateMany (casExtra expected) (\<lambda>r. (f r)\<lparr>ec_updatedAt := pe_now E\<rparr>) (extraCharges s)\<rparr>))
     (if countWhere (casExtra expected) (extraCharges s) \<noteq> 1 then returnP None
      else seqP (case audit of None \<Rightarrow> returnP () | Some a \<Rightarrow> a)
        (getsP (\<lambda>s. findFirst (\<lambda>r. ec_id r = ec_id expected \<and> ec_tenantId r = ec_tenantId expected) (extraCharges s)))) s))"
    unfolding run_seq_modify keeps_def by blast
qed

end

section \<open>What the checks establish\<close>

lemma intent_amount:
  assumes "intentMatches Deposit (payableDeposit d) intent" and "pi_status intent = ''succeeded''" and "\<not> pi_amountReceived intent \<le> 0"
  shows "0 < \<lfloor>pi_amountReceived intent\<rfloor>" and "\<lfloor>pi_amountReceived intent\<rfloor> \<le> dp_amountCents d"
    and "of_int \<lfloor>pi_amountReceived intent\<rfloor> = pi_amountReceived intent"
proof -
  let ?n = "pi_amountReceived intent"
  have n: "isSafeInteger ?n" "?n \<le> of_int (dp_amountCents d)"
    using assms(1) by (simp_all add: intentMatches_def payableDeposit_def Let_def)
  have "?n = of_int (fst (quotient_of ?n))"
    using n(1) quotient_of_div [of ?n "fst (quotient_of ?n)" 1] by (metis div_by_1 isSafeInteger_def of_int_1 prod.collapse)
  then show eq: "of_int \<lfloor>?n\<rfloor> = ?n" by (metis floor_of_int)
  show "0 < \<lfloor>?n\<rfloor>" using eq assms(3) by (metis not_le of_int_0_less_iff)
  show "\<lfloor>?n\<rfloor> \<le> dp_amountCents d" using eq n(2) by (metis of_int_le_iff)
qed

lemma depositStatus_captured: "capturedStatus (depositStatusOfIntent d intent) \<longleftrightarrow> pi_status intent = ''succeeded''"
  by (simp add: capturedStatus_def depositStatusOfIntent_def)

lemma reconcile_deposit_move:
  assumes "casDeposit row d" and "intentMatches Deposit (payableDeposit row) intent"
    and "\<not> (0 < dp_capturedAmountCents row \<or> dp_status row \<in> {D_CAPTURED, D_PARTIALLY_CAPTURED})"
    and "\<not> (pi_status intent = ''succeeded'' \<and> pi_amountReceived intent \<le> 0)"
  shows "depositMove d ((d\<lparr>dp_stripePaymentIntentId := i, dp_status := depositStatusOfIntent row intent,
      dp_capturedAmountCents := (if pi_status intent = ''succeeded'' then \<lfloor>pi_amountReceived intent\<rfloor> else dp_capturedAmountCents row),
      dp_capturedAt := a, dp_authorizedAt := b, dp_releasedAt := c, dp_failureReason := e\<rparr>)\<lparr>dp_updatedAt := now\<rparr>)"
proof -
  have d: "\<not> capturedStatus (dp_status d)" "dp_capturedAmountCents d \<le> 0" "dp_amountCents d = dp_amountCents row" "dp_capturedAmountCents row = dp_capturedAmountCents d"
    using assms(1,3) by (simp_all add: casDeposit_def capturedStatus_def)
  show ?thesis
  proof (cases "pi_status intent = ''succeeded''")
    case True
    note am = intent_amount [OF assms(2) True]
    have "depositStatusOfIntent row intent = D_CAPTURED \<longleftrightarrow> \<not> pi_amountReceived intent < of_int (dp_amountCents row)"
      using True by (simp add: depositStatusOfIntent_def)
    also have "\<dots> \<longleftrightarrow> \<lfloor>pi_amountReceived intent\<rfloor> = dp_amountCents row"
      using am assms(4) True by (metis less_le not_less_iff_gr_or_eq of_int_eq_iff of_int_less_iff)
    finally show ?thesis
      using am assms(4) True d by (simp add: depositMove_def depositStatus_captured)
  next
    case False
    with d show ?thesis by (simp add: depositMove_def depositStatus_captured)
  qed
qed

lemma intentMatches_known:
  "intentMatches kind p intent \<Longrightarrow> truthy (py_stripePaymentIntentId p) \<Longrightarrow> py_stripePaymentIntentId p = Some (pi_id intent)"
  unfolding intentMatches_def Let_def by presburger

lemma intentMatches_id: "intentMatches kind p intent \<Longrightarrow> pi_id intent \<noteq> []"
  unfolding intentMatches_def Let_def by presburger

lemma intentMatches_same:
  assumes "intentMatches kind p intent" and "py_id q = py_id p" and "py_tenantId q = py_tenantId p" and "py_bookingId q = py_bookingId p"
    and "py_rentalCustomerId q = py_rentalCustomerId p" and "py_paymentMethodId q = py_paymentMethodId p" and "py_currency q = py_currency p"
    and "py_expectedAmount q = py_expectedAmount p" and "py_stripePaymentIntentId q = Some (pi_id intent)"
  shows "intentMatches kind q intent"
  using assms unfolding intentMatches_def Let_def by (elim conjE) (simp add: truthy_def del: not_None_eq)

lemma reconcile_extra_move:
  assumes "casExtra row r" and "intentMatches Extra (payableExtra row) intent" and "seen intent"
    and "\<not> settledStatus (ec_status row)"
    and "\<not> (extraStatusOfIntent intent = X_PAID \<and> pi_amountReceived intent \<noteq> of_int (ec_totalAmountCents row))"
  shows "extraMove seen r ((r\<lparr>ec_stripePaymentIntentId := Some (pi_id intent), ec_status := extraStatusOfIntent intent,
      ec_chargedAt := a, ec_failureReason := b\<rparr>)\<lparr>ec_updatedAt := now\<rparr>)" (is "extraMove seen r ?r")
proof -
  have m: "intentMatches Extra (payableExtra ?r) intent"
    by (rule intentMatches_same [OF assms(2)]) (use assms(1) in \<open>simp_all add: payableExtra_def casExtra_def\<close>)
  have "extraStatusOfIntent intent = X_PAID \<Longrightarrow> pi_status intent = ''succeeded''"
    by (simp add: extraStatusOfIntent_def split: if_splits)
  with m assms have "ec_status ?r = X_PAID \<longrightarrow> paidBy seen ?r"
    by (auto simp: paidBy_def casExtra_def intro!: exI [of _ intent])
  moreover have "truthy (ec_stripePaymentIntentId r) \<longrightarrow> ec_stripePaymentIntentId r = Some (pi_id intent)"
    using assms(1) intentMatches_known [OF assms(2)] by (simp add: payableExtra_def casExtra_def)
  ultimately show ?thesis
    using assms(1,4) intentMatches_id [OF assms(2)] by (simp add: extraMove_def casExtra_def truthy_def)
qed

lemma linked_extra_move:
  assumes "casExtra row r" and "intentMatches Extra (payableExtra row) intent" and "pi_id intent = i" and "status \<in> {X_DISPUTED, X_REFUNDED}"
  shows "extraMove seen r ((r\<lparr>ec_stripePaymentIntentId := Some i, ec_status := status\<rparr>)\<lparr>ec_updatedAt := now\<rparr>)"
  using assms(1,3,4) intentMatches_known [OF assms(2)] intentMatches_id [OF assms(2)]
  by (auto simp: extraMove_def casExtra_def settledStatus_def payableExtra_def truthy_def)

lemma open_extra_move:
  assumes "casExtra row r" and "\<not> settledStatus (ec_status row)" and "\<not> settledStatus st"
  shows "extraMove seen r ((r\<lparr>ec_status := st\<rparr>)\<lparr>ec_updatedAt := now\<rparr>)"
    and "extraMove seen r ((r\<lparr>ec_status := st, ec_approvedByUserId := u\<rparr>)\<lparr>ec_updatedAt := now\<rparr>)"
    and "extraMove seen r ((r\<lparr>ec_status := st, ec_failureReason := e\<rparr>)\<lparr>ec_updatedAt := now\<rparr>)"
    and "\<not> truthy (ec_stripePaymentIntentId row) \<Longrightarrow>
      extraMove seen r ((r\<lparr>ec_status := st, ec_paymentMethodId := m, ec_failureReason := e\<rparr>)\<lparr>ec_updatedAt := now\<rparr>)"
  using assms by (auto simp: extraMove_def casExtra_def settledStatus_def)

lemma failed_deposit_move:
  "casDeposit row d \<Longrightarrow> \<not> capturedStatus (dp_status row) \<Longrightarrow> dp_capturedAmountCents row \<le> 0 \<Longrightarrow>
   depositMove d ((d\<lparr>dp_status := D_FAILED, dp_failureReason := e\<rparr>)\<lparr>dp_updatedAt := now\<rparr>)"
  by (simp add: depositMove_def casDeposit_def capturedStatus_def)

end
