(* ===== verification/Payment_Service.thy ===== *)
theory Payment_Service
  imports Payment_Guarantee
begin

text \<open>
  Every operation of the payment service keeps what survives its changes to deposits and extra charges:
  the client lemmas of the locale \<open>payment_guarantee\<close>, one for each method of the service.  A call of the provider is
  only assumed to keep the property; what it returns is checked the way the code checks it.
\<close>

section \<open>The operations keep the guarantee\<close>

lemma requireStripe_keepsR: "keepsR I (requireStripeClient E) (\<lambda>k. pe_stripe E = Some k)"
  by (cases "pe_stripe E") (simp_all add: requireStripeClient_def keepsR_def throwP_def returnP_def)

lemma getExtra_keepsR: "keepsR I (getExtraChargeOrThrow t x) (\<lambda>r. ec_id r = x \<and> ec_tenantId r = t \<and> ec_deletedAt r = None)"
  unfolding getExtraChargeOrThrow_def keepsR_def findExtraChargeById_def
  by (auto simp: bindP_def getsP_def throwP_def returnP_def split: option.splits dest: find_Some_iff_mem)

lemma getDeposit_keepsR: "keepsR I (getDepositOrThrow t x) (\<lambda>d. dp_id d = x \<and> dp_tenantId d = t \<and> dp_deletedAt d = None)"
  unfolding getDepositOrThrow_def keepsR_def findDepositById_def
  by (auto simp: bindP_def getsP_def throwP_def returnP_def split: option.splits dest: find_Some_iff_mem)

lemma keeps_requireStripe [keeps_intros]: "keeps I (requireStripeClient E)"
  by (rule keepsR_keeps [OF requireStripe_keepsR])

lemma keeps_getExtra [keeps_intros]: "keeps I (getExtraChargeOrThrow t x)"
  by (rule keepsR_keeps [OF getExtra_keepsR])

lemma keeps_getDeposit [keeps_intros]: "keeps I (getDepositOrThrow t x)"
  by (rule keepsR_keeps [OF getDeposit_keepsR])

lemma keeps_getBooking [keeps_intros]: "keeps I (getBookingOrThrow t b)"
  unfolding getBookingOrThrow_def by (intro keeps_intros)

lemma keeps_requireCustomer [keeps_intros]: "keeps I (requireBookingCustomerId b)"
  unfolding requireBookingCustomerId_def by (auto intro!: keeps_intros split: option.split)

lemma keeps_getMethod [keeps_intros]: "keeps I (getActivePaymentMethodOrThrow t p c)"
  unfolding getActivePaymentMethodOrThrow_def by (intro keeps_intros)

lemma keeps_agreement [keeps_intros]: "keeps I (assertMetadataAgreement a b)"
  unfolding assertMetadataAgreement_def by (intro keeps_intros)

lemma keeps_createEvent [keeps_intros]: "(\<And>s rows. I s \<Longrightarrow> I (s\<lparr>paymentEvents := rows\<rparr>)) \<Longrightarrow> keeps I (createRentalPaymentEvent e t refs)"
  unfolding createRentalPaymentEvent_def Let_def by (intro keeps_intros) auto

lemma keeps_updateEvent [keeps_intros]: "(\<And>s rows. I s \<Longrightarrow> I (s\<lparr>paymentEvents := rows\<rparr>)) \<Longrightarrow> keeps I (updateRentalPaymentEvent e st p m)"
  unfolding updateRentalPaymentEvent_def Let_def by (intro keeps_intros) auto

lemma keeps_updateMethod [keeps_intros]: "(\<And>s rows. I s \<Longrightarrow> I (s\<lparr>paymentMethods := rows\<rparr>)) \<Longrightarrow> keeps I (updatePaymentMethod t x f)"
  unfolding updatePaymentMethod_def Let_def by (intro keeps_intros) auto

lemma keeps_createMethod [keeps_intros]: "(\<And>s rows. I s \<Longrightarrow> I (s\<lparr>paymentMethods := rows\<rparr>)) \<Longrightarrow> keeps I (createPendingPaymentMethod r)"
  unfolding createPendingPaymentMethod_def by (intro keeps_intros) auto

lemma keeps_createProfile [keeps_intros]: "(\<And>s rows. I s \<Longrightarrow> I (s\<lparr>paymentProfiles := rows\<rparr>)) \<Longrightarrow> keeps I (createPaymentProfile r)"
  unfolding createPaymentProfile_def by (intro keeps_intros) auto

lemma keepsR_validated:
  "(intentMatches kind p intent \<Longrightarrow> keepsR I n Q) \<Longrightarrow> keepsR I (seqP (validateIntent kind p intent) n) Q"
  unfolding seqP_def by (rule keepsR_bind [OF validateIntent_keepsR])

lemma keeps_case_row:
  "(\<And>r. x = ExtraRow r \<Longrightarrow> keeps I (f r)) \<Longrightarrow> (\<And>d. x = DepositRow d \<Longrightarrow> keeps I (g d)) \<Longrightarrow> keeps I (case x of ExtraRow r \<Rightarrow> f r | DepositRow d \<Rightarrow> g d)"
  by (cases x) simp_all

lemma keepsR_case_row:
  "(\<And>r. x = ExtraRow r \<Longrightarrow> keepsR I (f r) Q) \<Longrightarrow> (\<And>d. x = DepositRow d \<Longrightarrow> keepsR I (g d) Q) \<Longrightarrow> keepsR I (case x of ExtraRow r \<Rightarrow> f r | DepositRow d \<Rightarrow> g d) Q"
  by (cases x) simp_all

lemma intentMatches_tenant: "intentMatches kind p intent \<Longrightarrow> metadataOf (pi_metadata intent) ''tenantId'' = Some (py_tenantId p)"
  unfolding intentMatches_def Let_def by presburger

context payment_guarantee
begin

lemma stripe_calls:
  assumes "envKeeps I seen E" and "pe_stripe E = Some k"
  shows "keeps I (sk_createIntent k a b)" and "keeps I (sk_retrieveIntent k c)" and "keeps I (sk_captureIntent k c n b)"
    and "keeps I (sk_cancelIntent k c b)" and "keeps I (sk_retrieveCharge k c)" and "keeps I (sk_retrieveDispute k c)"
    and "keeps I (sk_retrieveSetupIntent k c)" and "keeps I (sk_retrievePaymentMethod k c)" and "keeps I (sk_createCustomer k cr)"
    and "keeps I (sk_createSetupSession k sr)"
  using assms unfolding envKeeps_def stripeKeeps_def by blast+

lemma retrieve_keepsR:
  assumes "envKeeps I seen E" and "pe_stripe E = Some k"
  shows "keepsR I (liftErr h (sk_retrieveIntent k i)) seen"
proof (rule keepsR_liftErr)
  have "keeps I (sk_retrieveIntent k i)" by (rule stripe_calls(2) [OF assms])
  moreover have "yields I (sk_retrieveIntent k i) (\<lambda>x s. seen x)"
    using assms unfolding envKeeps_def stripeReports_def by blast
  ultimately show "keepsR I (sk_retrieveIntent k i) seen"
    unfolding keepsR_def keeps_def yields_def by (metis prod.collapse)
qed

lemma keeps_settleExtra:
  assumes env: "envKeeps I seen E" and "ten (ec_tenantId row)" and "seen intent" and again: "keeps I again"
  shows "keeps I (settleExtra E t row intent again)"
  unfolding settleExtra_def seqP_def Let_def
  by (rule keeps_bindR [OF validateIntent_keepsR],
      intro keeps_if keeps_returnP keeps_bindingError keeps_bindP keeps_case_option again keeps_casExtra [OF env] reconcile_extra_move)
    (use assms(2,3) in \<open>auto simp: keeps_audit settledStatus_def split: if_split_asm\<close>)

lemma keeps_settleDeposit:
  assumes env: "envKeeps I seen E" and "ten (dp_tenantId row)" and again: "keeps I again"
  shows "keeps I (settleDeposit E t row intent again)"
  unfolding settleDeposit_def seqP_def Let_def
  by (rule keeps_bindR [OF validateIntent_keepsR],
      intro keeps_if keeps_returnP keeps_bindingError keeps_bindP keeps_case_option again keeps_casDeposit [OF env] reconcile_deposit_move)
    (use assms(2) in \<open>auto simp: keeps_audit split: if_split_asm\<close>)

lemma keeps_reconcileExtraLoop: "envKeeps I seen E \<Longrightarrow> ten t \<Longrightarrow> keeps I (reconcileExtraLoop E t x i n)"
proof (induction n)
  case (Suc n)
  then show ?case
    unfolding reconcileExtraLoop.simps reconcileExtraStep_def
    by (intro keeps_bindR [OF getExtra_keepsR] keeps_bindR [OF requireStripe_keepsR] keeps_bindR [OF retrieve_keepsR]
      keeps_if keeps_bindingError keeps_settleExtra) simp_all
qed (simp add: keeps_throwP)

lemma keeps_reconcileDepositLoop: "envKeeps I seen E \<Longrightarrow> ten t \<Longrightarrow> keeps I (reconcileDepositLoop E t x i n)"
proof (induction n)
  case (Suc n)
  then show ?case
    unfolding reconcileDepositLoop.simps reconcileDepositStep_def
    by (intro keeps_bindR [OF getDeposit_keepsR] keeps_bindR [OF requireStripe_keepsR] keeps_bindR [OF retrieve_keepsR]
      keeps_if keeps_bindingError keeps_settleDeposit) simp_all
qed (simp add: keeps_throwP)

lemma keeps_reconcileExtra: "envKeeps I seen E \<Longrightarrow> ten t \<Longrightarrow> keeps I (reconcileExtra E t x i)"
  by (simp add: reconcileExtra_def keeps_reconcileExtraLoop)

lemma keeps_reconcileDeposit: "envKeeps I seen E \<Longrightarrow> ten t \<Longrightarrow> keeps I (reconcileDeposit E t x i)"
  by (simp add: reconcileDeposit_def keeps_reconcileDepositLoop)

lemma claimed_extra:
  assumes env: "envKeeps I seen E" and ten: "ten (ec_tenantId expected)"
    and move: "\<And>r. casExtra expected r \<Longrightarrow> extraMove seen r ((f r)\<lparr>ec_updatedAt := pe_now E\<rparr>)"
  shows "keepsR I (compareAndUpdateExtraCharge E expected f (Some (auditP E t u a res rid d)))
    (\<lambda>u. \<forall>r. u = Some r \<longrightarrow> (\<exists>q. casExtra expected q \<and> r = (f q)\<lparr>ec_updatedAt := pe_now E\<rparr>))"
  unfolding keepsR_def
proof (intro allI impI conjI)
  let ?P = "casExtra expected" and ?g = "\<lambda>r. (f r)\<lparr>ec_updatedAt := pe_now E\<rparr>"
  fix s assume "I s"
  have keep: "keeps I (compareAndUpdateExtraCharge E expected f (Some (auditP E t u a res rid d)))"
    using move by (intro keeps_casExtra [OF env ten]) (auto simp: keeps_audit)
  with \<open>I s\<close> show "I (snd (compareAndUpdateExtraCharge E expected f (Some (auditP E t u a res rid d)) s))"
    by (simp add: keeps_def)
  fix v r assume run: "fst (compareAndUpdateExtraCharge E expected f (Some (auditP E t u a res rid d)) s) = Inr v" and v: "v = Some r"
  define rows where "rows = extraCharges (pe_rely E s)"
  have "I (pe_rely E s)" using env \<open>I s\<close> by (simp add: envKeeps_def)
  then have dist: "distinct (map ec_id rows)" using sound by (simp add: payInv_def rows_def)
  obtain row where aud: "auditP E t u a res rid d ((pe_rely E s)\<lparr>extraCharges := updateMany ?P ?g rows\<rparr>)
      = (Inr (), ((pe_rely E s)\<lparr>extraCharges := updateMany ?P ?g rows\<rparr>)\<lparr>auditLogs := auditLogs (pe_rely E s) @ [row]\<rparr>)"
    using run_auditP [of E t u a res rid d "(pe_rely E s)\<lparr>extraCharges := updateMany ?P ?g rows\<rparr>"] by auto
  from run v have found: "countWhere ?P rows = 1" "findFirst (\<lambda>r. ec_id r = ec_id expected \<and> ec_tenantId r = ec_tenantId expected) (updateMany ?P ?g rows) = Some r"
    by (auto simp: compareAndUpdateExtraCharge_def run_seq_modify atomicP_def bindP_def getsP_def aud seqP_def modifyP_def returnP_def rows_def [symmetric]
        split: if_split_asm)
  from found(1) obtain q where q: "q \<in> set rows" "?P q" using countWhere_pos [of ?P rows] by auto
  from found(2) obtain p where p: "p \<in> set rows" "r = (if ?P p then ?g p else p)" "ec_id r = ec_id expected"
    by (auto dest!: find_Some_iff_mem simp: updateMany_def)
  then have "ec_id p = ec_id q" using q(2) move [of p] by (auto simp: casExtra_def extraMove_def split: if_split_asm)
  then have "p = q" using dist p(1) q(1) by (metis distinct_map inj_on_eq_iff)
  with p(2) q(2) show "\<exists>q. ?P q \<and> r = ?g q" by auto
qed

lemma claim_keepsR:
  assumes env: "envKeeps I seen E" and "depositNew input" and "ten (dp_tenantId input)"
  shows "keepsR I (claimActiveDeposit E input) (\<lambda>(d, b). depositSound d \<and> activeDeposit d \<and> dp_tenantId d = dp_tenantId input)"
  unfolding keepsR_def
proof (intro allI impI)
  fix s assume "I s"
  let ?t = "pe_rely E s"
  have t: "I ?t" "payInv ?t" using env \<open>I s\<close> sound by (auto simp: envKeeps_def)
  have new: "depositSound input" "activeDeposit input"
    using assms(2) by (simp_all add: depositNew_sound) (simp add: activeDeposit_def depositNew_def ACTIVE_DEPOSIT_STATUSES_def)
  show "I (snd (claimActiveDeposit E input s)) \<and>
      (\<forall>x. fst (claimActiveDeposit E input s) = Inr x \<longrightarrow> (case x of (d, b) \<Rightarrow> depositSound d \<and> activeDeposit d \<and> dp_tenantId d = dp_tenantId input))"
  proof (cases "findActiveDeposit (dp_tenantId input) (dp_bookingId input) ?t")
    case None
    have "I (?t\<lparr>deposits := deposits ?t @ [input]\<rparr>)" if "oneActive (deposits ?t @ [input])" "distinct (map dp_id (deposits ?t @ [input]))"
      using deposit_new [OF t(1) assms(2,3) that] .
    with None t(1) new show ?thesis
      by (auto simp: claimActiveDeposit_def run_seq_modify atomicP_def bindP_def getsP_def writeDeposits_def run_seq_throw returnP_def)
  next
    case (Some d)
    then have "d \<in> set (deposits ?t)" "activeDeposit d" "dp_tenantId d = dp_tenantId input"
      by (auto simp: findActiveDeposit_def dest: find_Some_iff_mem)
    with Some t show ?thesis
      by (auto simp: claimActiveDeposit_def run_seq_modify atomicP_def bindP_def getsP_def returnP_def payInv_def)
  qed
qed

lemma keeps_authorizeDeposit:
  assumes env: "envKeeps I seen E" and k: "pe_stripe E = Some k" and "ten (di_tenantId i)" and "ten (dp_tenantId deposit)"
    and "depositSound deposit" and "activeDeposit deposit"
  shows "keeps I (authorizeDeposit E k i b c pm deposit)"
  unfolding authorizeDeposit_def applyDepositPaymentIntent_def
  by (intro keeps_catchStripe stripe_calls [OF env k] keeps_reconcileDeposit [OF env] keeps_bindP keeps_getDeposit keeps_if keeps_seqP keeps_audit
      keeps_throwP keeps_casDeposit [OF env] failed_deposit_move keeps_case_option)
    (use assms active_uncaptured in \<open>auto simp: keeps_audit\<close>)

lemma keeps_createDeposit: "envKeeps I seen E \<Longrightarrow> ten (di_tenantId i) \<Longrightarrow> keeps I (createDeposit E newId i)"
  unfolding createDeposit_def
  by (intro keeps_if keeps_throwP keeps_bindR [OF requireStripe_keepsR] keeps_bindP [OF keeps_getBooking] keeps_bindP [OF keeps_requireCustomer]
      keeps_bindP [OF keeps_getMethod] keeps_bindR [OF claim_keepsR] keeps_case_prod keeps_seqP keeps_audit keeps_authorizeDeposit keeps_reconcileDeposit)
    (auto simp: depositNew_def)

lemma keeps_captureDeposit: "envKeeps I seen E \<Longrightarrow> ten t \<Longrightarrow> keeps I (captureDeposit E t x n)"
  unfolding captureDeposit_def Let_def
  by (intro keeps_bindR [OF requireStripe_keepsR] keeps_bindR [OF getDeposit_keepsR] keeps_if keeps_throwP keeps_bindP keeps_liftErr keeps_seqP
      keeps_validateIntent stripe_calls keeps_reconcileDeposit keeps_bindingError) auto

lemma keeps_releaseDeposit: "envKeeps I seen E \<Longrightarrow> ten t \<Longrightarrow> keeps I (releaseDeposit E t x)"
  unfolding releaseDeposit_def Let_def
  by (intro keeps_bindR [OF requireStripe_keepsR] keeps_bindR [OF getDeposit_keepsR] keeps_if keeps_throwP keeps_bindP keeps_liftErr keeps_seqP
      keeps_validateIntent stripe_calls keeps_reconcileDeposit keeps_bindingError) auto

lemma keeps_createExtraRow: "extraNew r \<Longrightarrow> ten (ec_tenantId r) \<Longrightarrow> keeps I (createExtraChargeRow r)"
  unfolding createExtraChargeRow_def
  by (rule keeps_read) (auto simp: throwP_def run_seq_modify returnP_def intro!: extra_new)

lemma keeps_createExtraCharge: "ten (xi_tenantId i) \<Longrightarrow> keeps I (createExtraCharge E newId i)"
  unfolding createExtraCharge_def Let_def
  by (intro keeps_if keeps_throwP keeps_bindP keeps_getBooking keeps_requireCustomer keeps_getMethod keeps_returnP keeps_createExtraRow keeps_seqP keeps_audit)
    (auto simp: extraNew_def)

lemma keeps_approveExtraCharge: "envKeeps I seen E \<Longrightarrow> ten t \<Longrightarrow> keeps I (approveExtraCharge E t x u)"
  unfolding approveExtraCharge_def
  by (intro keeps_bindR [OF getExtra_keepsR] keeps_if keeps_throwP keeps_bindP keeps_casExtra open_extra_move keeps_case_option keeps_returnP)
    (auto simp: keeps_audit settledStatus_def APPROVABLE_EXTRA_STATUSES_def)

lemma keeps_cancelExtraCharge: "envKeeps I seen E \<Longrightarrow> ten t \<Longrightarrow> keeps I (cancelExtraCharge E t x u)"
  unfolding cancelExtraCharge_def
  by (intro keeps_bindR [OF getExtra_keepsR] keeps_if keeps_throwP keeps_bindP keeps_casExtra open_extra_move keeps_case_option keeps_returnP)
    (auto simp: keeps_audit settledStatus_def NON_CANCELABLE_EXTRA_STATUSES_def)

lemma keeps_payClaimedExtra:
  assumes env: "envKeeps I seen E" and k: "pe_stripe E = Some k" and "ten t" and "ten (ec_tenantId claimed)" and "\<not> settledStatus (ec_status claimed)"
  shows "keeps I (payClaimedExtra E k t u pm claimed)"
  unfolding payClaimedExtra_def Let_def
  by (intro keeps_catchStripe stripe_calls [OF env k] keeps_reconcileExtra [OF env] keeps_bindR [OF getExtra_keepsR] keeps_if keeps_seqP keeps_audit
      keeps_throwP keeps_bindP [OF keeps_casExtra [OF env]] open_extra_move keeps_case_option keeps_returnP keeps_getExtra)
    (use assms in \<open>auto simp: keeps_audit settledStatus_def statusForStripePaymentError_def\<close>)

lemma keeps_chargeExtraCharge: "envKeeps I seen E \<Longrightarrow> ten t \<Longrightarrow> keeps I (chargeExtraCharge E t x m u)"
  unfolding chargeExtraCharge_def Let_def
  by (intro keeps_bindR [OF requireStripe_keepsR] keeps_bindR [OF getExtra_keepsR] keeps_if keeps_throwP keeps_reconcileExtra keeps_bindP [OF keeps_getMethod]
      keeps_bindR [OF claimed_extra] open_extra_move keeps_case_option keeps_payClaimedExtra)
    (auto simp: settledStatus_def CHARGEABLE_EXTRA_STATUSES_def casExtra_def)

lemma keeps_getOrCreateCustomer: "envKeeps I seen E \<Longrightarrow> keeps I (getOrCreateRentalStripeCustomer E n t c b)"
  unfolding getOrCreateRentalStripeCustomer_def
  by (intro keeps_bindP [OF keeps_getsP] keeps_case_option keeps_returnP keeps_bindR [OF requireStripe_keepsR] keeps_bindP keeps_liftErr stripe_calls
      keeps_createProfile keeps_seqP keeps_audit profile_free)

lemma keeps_createSetupSession: "envKeeps I seen E \<Longrightarrow> keeps I (createSetupSession E n1 n2 uuid i)"
  unfolding createSetupSession_def
  by (intro keeps_if keeps_throwP keeps_bindR [OF requireStripe_keepsR] keeps_bindP keeps_getBooking keeps_requireCustomer keeps_getOrCreateCustomer
      keeps_createMethod method_free keeps_liftErr stripe_calls keeps_case_option keeps_returnP keeps_updateMethod keeps_seqP keeps_audit)

lemma keeps_activateMethod: "envKeeps I seen E \<Longrightarrow> keeps I (activatePaymentMethodFromSetupIntent E si m)"
  unfolding activatePaymentMethodFromSetupIntent_def Let_def
  by (intro keeps_if keeps_returnP keeps_bindR [OF requireStripe_keepsR] keeps_bindP keeps_liftErr stripe_calls keeps_getsP keeps_case_prod
      keeps_case_option keeps_updateMethod method_free keeps_audit)

text \<open>An intent of an event is one the provider reported, bound to a row of the tenant its metadata name.\<close>

lemma verifiedIntent_keepsR:
  assumes env: "envKeeps I seen E"
  shows "keepsR I (verifiedEventIntent E i obs) (\<lambda>v. \<forall>w. v = Some w \<longrightarrow> seen (vi_intent w) \<and> pi_id (vi_intent w) = i \<and>
     vi_metadata w = metadataOf (pi_metadata (vi_intent w)) \<and> truthy (vi_metadata w ''tenantId'') \<and>
     (\<forall>r. vi_row w = ExtraRow r \<longrightarrow> intentMatches Extra (payableExtra r) (vi_intent w)) \<and>
     (\<forall>d. vi_row w = DepositRow d \<longrightarrow> intentMatches Deposit (payableDeposit d) (vi_intent w)))"
  unfolding verifiedEventIntent_def Let_def
proof (intro keepsR_bind [OF requireStripe_keepsR] keepsR_bind [OF retrieve_keepsR [OF env]] keepsR_if keepsR_bindingError keepsR_return keepsR_throw
    keepsR_seq [OF keeps_keepsR [OF keeps_agreement]] keepsR_bind [OF keeps_keepsR [OF keeps_getsP]] keepsR_case_option
    keepsR_validated)
qed auto

lemma keeps_eventCharge: "envKeeps I seen E \<Longrightarrow> keeps I (eventCharge E event)"
  unfolding eventCharge_def
  by (intro keeps_bindR [OF requireStripe_keepsR] keeps_bindP keeps_if keeps_bindingError keeps_returnP keeps_liftErr stripe_calls keeps_case_option)

lemma keeps_markExtra:
  assumes env: "envKeeps I seen E" and "ten (ec_tenantId row)" and "intentMatches Extra (payableExtra row) intent" and "pi_id intent = i" and "keeps I again"
  shows "keeps I (markExtra E event charge i intent row again)"
  unfolding markExtra_def
  by (intro keeps_if keeps_bindingError keeps_case_option keeps_returnP keeps_bindP [OF keeps_casExtra [OF env]] linked_extra_move)
    (use assms in \<open>auto simp: keeps_audit linkedStatus_def split: if_split_asm\<close>)

lemma keeps_markLinkedLoop:
  assumes env: "envKeeps I seen E" and tenants: "\<And>i t. seen i \<Longrightarrow> metadataOf (pi_metadata i) ''tenantId'' = Some t \<Longrightarrow> ten t"
  shows "keeps I (markLinkedLoop E event metadata n)"
proof (induction n)
  case (Suc n)
  have *: "keeps I (markExtra E event c i (vi_intent w) r (markLinkedLoop E event metadata n))"
    if "seen (vi_intent w)" "pi_id (vi_intent w) = i" "intentMatches Extra (payableExtra r) (vi_intent w)" for c i w r
  proof (rule keeps_markExtra [OF env _ that(3,2) Suc])
    show "ten (ec_tenantId r)" using tenants [OF that(1)] intentMatches_tenant [OF that(3)] by (simp add: payableExtra_def)
  qed
  show ?case
    unfolding markLinkedLoop.simps Let_def
    by (intro keeps_bindP [OF keeps_eventCharge [OF env]] keeps_if keeps_returnP keeps_bindR [OF verifiedIntent_keepsR [OF env]] keeps_case_option keeps_case_row)
      (auto intro: *)
qed (simp add: keeps_throwP)

lemma keeps_applyEvent: "envKeeps I seen E \<Longrightarrow> ten (the (m ''tenantId'')) \<Longrightarrow> keeps I (applyPaymentIntentEvent E obj m)"
  unfolding applyPaymentIntentEvent_def
  by (intro keeps_case_option keeps_bindingError keeps_if keeps_seqP keeps_reconcileExtra keeps_reconcileDeposit keeps_returnP)

lemma keeps_processEvent:
  assumes env: "envKeeps I seen E" and tenants: "\<And>i t. seen i \<Longrightarrow> metadataOf (pi_metadata i) ''tenantId'' = Some t \<Longrightarrow> ten t"
    and "isPrefix ''payment_intent.'' (se_type event) \<Longrightarrow> ten (the (m ''tenantId''))"
  shows "keeps I (processRentalStripeEvent E event m)"
  unfolding processRentalStripeEvent_def markPaymentIntentLinkedRecord_def
  by (intro keeps_case_option keeps_returnP keeps_if keeps_activateMethod [OF env] keeps_seqP keeps_updateMethod method_free keeps_audit
      keeps_applyEvent [OF env] keeps_markLinkedLoop [OF env]) (use assms(3) tenants in auto)

lemma eventMetadata_keepsR:
  assumes env: "envKeeps I seen E" and tenants: "\<And>i t. seen i \<Longrightarrow> metadataOf (pi_metadata i) ''tenantId'' = Some t \<Longrightarrow> ten t"
  shows "keepsR I (eventMetadata E event) (\<lambda>m. \<forall>metadata. m = Some metadata \<longrightarrow> isPrefix ''payment_intent.'' (se_type event) \<longrightarrow> ten (the (metadata ''tenantId'')))"
proof -
  have tenant: "ten (the (metadataOf (pi_metadata i) ''tenantId''))" if "seen i" "truthy (metadataOf (pi_metadata i) ''tenantId'')" for i
    using that tenants [of i] by (auto simp: truthy_def)
  show ?thesis
    unfolding eventMetadata_def Let_def
    by (intro keepsR_if keepsR_case_option keepsR_bindingError keepsR_bind [OF verifiedIntent_keepsR [OF env]] keepsR_return
    keepsR_bind [OF keeps_keepsR [OF keeps_eventCharge [OF env]]] keepsR_case_row)
      (auto simp: tenant)
qed

lemma keeps_handleStripeEvent:
  assumes env: "envKeeps I seen E" and tenants: "\<And>i t. seen i \<Longrightarrow> metadataOf (pi_metadata i) ''tenantId'' = Some t \<Longrightarrow> ten t"
  shows "keeps I (handleStripeEvent E event)"
  unfolding handleStripeEvent_def Let_def
  by (intro keeps_bindR [OF eventMetadata_keepsR [OF env]] keeps_case_option keeps_returnP keeps_if keeps_bindP [OF keeps_createEvent] event_free
      keeps_tryP keeps_seqP keeps_processEvent [OF env] keeps_updateEvent keeps_throwP) (use tenants in auto)

end

end
