(* ===== verification/Payment_Steps.thy ===== *)
theory Payment_Steps
  imports Payment_Service
begin

text \<open>
  The abstract behaviour of the payment tables and the proof that the service implements it.  \<open>payStep\<close> is the
  step relation: the audit log grows, cards and events change, a deposit or a charge is moved by \<open>depositMove\<close>
  or \<open>extraMove\<close>, a new one is added.  A run of requests, interleaved at every awaited call and at every lock
  with steps of other requests, is a sequence of such steps; what is said of the steps by rule induction
  holds of every run.
\<close>

section \<open>Steps\<close>

inductive payStep :: "(PaymentIntent \<Rightarrow> bool) \<Rightarrow> (string \<Rightarrow> bool) \<Rightarrow> 'z pay_db_scheme \<Rightarrow> 'z pay_db_scheme \<Rightarrow> bool" for seen ten where
  Audit: "payStep seen ten s (s\<lparr>auditLogs := auditLogs s @ [entry]\<rparr>)"
| Events: "payStep seen ten s (s\<lparr>paymentEvents := events\<rparr>)"
| Profiles: "payStep seen ten s (s\<lparr>paymentProfiles := profiles\<rparr>)"
| Methods: "payStep seen ten s (s\<lparr>paymentMethods := methods\<rparr>)"
| DepositMove: "(\<And>d. d \<in> set (deposits s) \<Longrightarrow> P d \<Longrightarrow> ten (dp_tenantId d) \<and> depositMove d (f d)) \<Longrightarrow> oneActive (updateMany P f (deposits s)) \<Longrightarrow>
    payStep seen ten s (s\<lparr>deposits := updateMany P f (deposits s)\<rparr>)"
| DepositNew: "depositNew d \<Longrightarrow> ten (dp_tenantId d) \<Longrightarrow> oneActive (deposits s @ [d]) \<Longrightarrow> distinct (map dp_id (deposits s @ [d])) \<Longrightarrow>
    payStep seen ten s (s\<lparr>deposits := deposits s @ [d]\<rparr>)"
| ExtraMove: "(\<And>r. r \<in> set (extraCharges s) \<Longrightarrow> Q r \<Longrightarrow> ten (ec_tenantId r) \<and> extraMove seen r (g r)) \<Longrightarrow>
    payStep seen ten s (s\<lparr>extraCharges := updateMany Q g (extraCharges s)\<rparr>)"
| ExtraNew: "extraNew r \<Longrightarrow> ten (ec_tenantId r) \<Longrightarrow> (\<And>q. q \<in> set (extraCharges s) \<Longrightarrow> ec_id q \<noteq> ec_id r) \<Longrightarrow>
    payStep seen ten s (s\<lparr>extraCharges := extraCharges s @ [r]\<rparr>)"

inductive_simps payStep_iff: "payStep seen ten s s'"

abbreviation paySteps :: "(PaymentIntent \<Rightarrow> bool) \<Rightarrow> (string \<Rightarrow> bool) \<Rightarrow> 'z pay_db_scheme \<Rightarrow> 'z pay_db_scheme \<Rightarrow> bool" where
  "paySteps seen ten \<equiv> (payStep seen ten)\<^sup>*\<^sup>*"

lemma move_keys:
  assumes "\<And>d. d \<in> set rows \<Longrightarrow> P d \<Longrightarrow> key (f d) = key d"
  shows "map key (updateMany P f rows) = map key rows"
  using assms by (simp add: updateMany_def)

lemma payStep_payInv: "payStep seen ten s s' \<Longrightarrow> payInv s \<Longrightarrow> payInv s'"
proof (induction rule: payStep.induct)
  case (DepositMove s P f)
  then have "map dp_id (updateMany P f (deposits s)) = map dp_id (deposits s)"
    by (intro move_keys) (auto simp: depositMove_def)
  with DepositMove show ?case
    by (auto simp: payInv_def ball_updateMany intro: depositMove_sound)
next
  case (ExtraMove s Q g)
  then have "map ec_id (updateMany Q g (extraCharges s)) = map ec_id (extraCharges s)"
    by (intro move_keys) (auto simp: extraMove_def)
  with ExtraMove show ?case
    by (auto simp: payInv_def ball_updateMany intro: extraMove_sound)
next
  case (ExtraNew r s)
  then have "ec_id r \<notin> ec_id ` set (extraCharges s)" by fastforce
  with ExtraNew show ?case by (auto simp: payInv_def extraNew_sound)
qed (auto simp: payInv_def depositNew_sound)

lemma paySteps_payInv: "paySteps seen ten s s' \<Longrightarrow> payInv s \<Longrightarrow> payInv s'"
  by (induction rule: rtranclp_induct) (auto intro: payStep_payInv)

section \<open>What runs in between are steps\<close>

definition doesSteps :: "(PaymentIntent \<Rightarrow> bool) \<Rightarrow> (string \<Rightarrow> bool) \<Rightarrow> ('e, 'z pay_db_scheme, 'a) prog \<Rightarrow> bool" where
  "doesSteps seen ten m \<longleftrightarrow> (\<forall>s. payInv s \<longrightarrow> paySteps seen ten s (snd (m s)))"

definition stripeSteps :: "(PaymentIntent \<Rightarrow> bool) \<Rightarrow> (string \<Rightarrow> bool) \<Rightarrow> 'z pay_db_scheme stripe_client \<Rightarrow> bool" where
  "stripeSteps seen ten k \<longleftrightarrow>
     (\<forall>a b. doesSteps seen ten (sk_createIntent k a b)) \<and> (\<forall>a. doesSteps seen ten (sk_retrieveIntent k a)) \<and>
     (\<forall>a b c. doesSteps seen ten (sk_captureIntent k a b c)) \<and> (\<forall>a b. doesSteps seen ten (sk_cancelIntent k a b)) \<and>
     (\<forall>a. doesSteps seen ten (sk_retrieveCharge k a)) \<and> (\<forall>a. doesSteps seen ten (sk_retrieveDispute k a)) \<and>
     (\<forall>a. doesSteps seen ten (sk_retrieveSetupIntent k a)) \<and> (\<forall>a. doesSteps seen ten (sk_retrievePaymentMethod k a)) \<and>
     (\<forall>a. doesSteps seen ten (sk_createCustomer k a)) \<and> (\<forall>a. doesSteps seen ten (sk_createSetupSession k a))"

text \<open>
  The environment of a request: other requests make steps while a call or a lock is awaited, and \<open>seen\<close> holds of the
  intents the provider reports.
\<close>

definition envSteps :: "(PaymentIntent \<Rightarrow> bool) \<Rightarrow> (string \<Rightarrow> bool) \<Rightarrow> 'z penv \<Rightarrow> bool" where
  "envSteps seen ten E \<longleftrightarrow>
     (\<forall>k. pe_stripe E = Some k \<longrightarrow> stripeSteps seen ten k \<and> (\<forall>i s x. fst (sk_retrieveIntent k i s) = Inr x \<longrightarrow> seen x)) \<and>
     (\<forall>s. payInv s \<longrightarrow> paySteps seen ten s (pe_rely E s))"

definition reachedFrom :: "(PaymentIntent \<Rightarrow> bool) \<Rightarrow> (string \<Rightarrow> bool) \<Rightarrow> 'z pay_db_scheme \<Rightarrow> 'z pay_db_scheme \<Rightarrow> bool" where
  "reachedFrom seen ten s0 s \<longleftrightarrow> payInv s0 \<and> paySteps seen ten s0 s"

lemma doesSteps_keeps: "doesSteps seen ten m \<Longrightarrow> keeps (reachedFrom seen ten s0) m"
  unfolding keeps_def doesSteps_def reachedFrom_def by (meson paySteps_payInv rtranclp_trans)

lemma envSteps_keeps:
  assumes "envSteps seen ten E"
  shows "envKeeps (reachedFrom seen ten s0) seen E"
proof -
  have "stripeKeeps (reachedFrom seen ten s0) k" if "stripeSteps seen ten k" for k
    using that unfolding stripeSteps_def stripeKeeps_def by (simp add: doesSteps_keeps)
  moreover have "stripeReports (reachedFrom seen ten s0) seen k" if "\<forall>i s x. fst (sk_retrieveIntent k i s) = Inr x \<longrightarrow> seen x" for k
    using that unfolding stripeReports_def yields_def by (metis fst_conv)
  moreover have "reachedFrom seen ten s0 (pe_rely E s)" if "reachedFrom seen ten s0 s" for s
    using assms that unfolding envSteps_def reachedFrom_def by (meson paySteps_payInv rtranclp_trans)
  ultimately show ?thesis using assms unfolding envSteps_def envKeeps_def by blast
qed

interpretation steps: payment_guarantee "reachedFrom seen ten s0" seen ten for seen ten s0
proof
  show "payInv s" if "reachedFrom seen ten s0 s" for s
    using that paySteps_payInv by (auto simp: reachedFrom_def)
qed (simp only: reachedFrom_def, blast intro: payStep.intros rtranclp.rtrancl_into_rtrancl)+

section \<open>Requests\<close>

text \<open>The requests the service answers; the identifiers of new rows are generated.\<close>

datatype payRequest =
    CreateSetupSession string string string SetupInput
  | CreateDeposit string DepositInput
  | CaptureDeposit string string "int option"
  | ReleaseDeposit string string
  | CreateExtraCharge string ExtraInput
  | ApproveExtraCharge string string string
  | ChargeExtraCharge string string "string option" string
  | CancelExtraCharge string string string
  | HandleStripeEvent StripeEvent

fun perform :: "'z penv \<Rightarrow> payRequest \<Rightarrow> 'z pay_db_scheme \<Rightarrow> 'z pay_db_scheme" where
  "perform E (CreateSetupSession n1 n2 uuid i) s = snd (createSetupSession E n1 n2 uuid i s)"
| "perform E (CreateDeposit n i) s = snd (createDeposit E n i s)"
| "perform E (CaptureDeposit t d a) s = snd (captureDeposit E t d a s)"
| "perform E (ReleaseDeposit t d) s = snd (releaseDeposit E t d s)"
| "perform E (CreateExtraCharge n i) s = snd (createExtraCharge E n i s)"
| "perform E (ApproveExtraCharge t x u) s = snd (approveExtraCharge E t x u s)"
| "perform E (ChargeExtraCharge t x m u) s = snd (chargeExtraCharge E t x m u s)"
| "perform E (CancelExtraCharge t x u) s = snd (cancelExtraCharge E t x u s)"
| "perform E (HandleStripeEvent e) s = snd (handleStripeEvent E e s)"

fun requestTenants :: "(PaymentIntent \<Rightarrow> bool) \<Rightarrow> (string \<Rightarrow> bool) \<Rightarrow> payRequest \<Rightarrow> bool" where
  "requestTenants seen ten (CreateSetupSession n1 n2 uuid i) = ten (su_tenantId i)"
| "requestTenants seen ten (CreateDeposit n i) = ten (di_tenantId i)"
| "requestTenants seen ten (CaptureDeposit t d a) = ten t"
| "requestTenants seen ten (ReleaseDeposit t d) = ten t"
| "requestTenants seen ten (CreateExtraCharge n i) = ten (xi_tenantId i)"
| "requestTenants seen ten (ApproveExtraCharge t x u) = ten t"
| "requestTenants seen ten (ChargeExtraCharge t x m u) = ten t"
| "requestTenants seen ten (CancelExtraCharge t x u) = ten t"
| "requestTenants seen ten (HandleStripeEvent e) = (\<forall>i t. seen i \<and> metadataOf (pi_metadata i) ''tenantId'' = Some t \<longrightarrow> ten t)"

lemma reachedFrom_run: "keeps (reachedFrom seen ten s) m \<Longrightarrow> payInv s \<Longrightarrow> paySteps seen ten s (snd (m s))"
  by (simp add: keeps_def reachedFrom_def)

lemma perform_steps:
  assumes "payInv s" and "envSteps seen ten E" and "requestTenants seen ten q"
  shows "paySteps seen ten s (perform E q s)"
proof -
  note env = envSteps_keeps [OF assms(2), of s]
  show ?thesis
    using assms(3)
    by (cases q) (simp_all add: env reachedFrom_run assms(1) steps.keeps_createSetupSession steps.keeps_createDeposit steps.keeps_captureDeposit
      steps.keeps_releaseDeposit steps.keeps_createExtraCharge steps.keeps_approveExtraCharge steps.keeps_chargeExtraCharge
      steps.keeps_cancelExtraCharge steps.keeps_handleStripeEvent)
qed

inductive payRun :: "(PaymentIntent \<Rightarrow> bool) \<Rightarrow> (string \<Rightarrow> bool) \<Rightarrow> 'z pay_db_scheme \<Rightarrow> 'z pay_db_scheme \<Rightarrow> bool" for seen ten where
  Start: "payRun seen ten s s"
| Request: "payRun seen ten s t \<Longrightarrow> envSteps seen ten E \<Longrightarrow> requestTenants seen ten q \<Longrightarrow> payRun seen ten s (perform E q t)"

lemma payRun_steps: "payRun seen ten s t \<Longrightarrow> payInv s \<Longrightarrow> paySteps seen ten s t"
proof (induction rule: payRun.induct)
  case (Request s t E q)
  then have "paySteps seen ten s t" by simp
  with Request show ?case by (meson paySteps_payInv perform_steps rtranclp_trans)
qed simp

section \<open>What every step keeps\<close>

lemma payRun_stable:
  assumes "payRun seen ten s t" and "payInv s" and "J s" and "\<And>u v. payStep seen ten u v \<Longrightarrow> J u \<Longrightarrow> J v"
  shows "J t"
  using payRun_steps [OF assms(1,2)] assms(3) by (induction rule: rtranclp_induct) (auto intro: assms(4))

lemma step_captured:
  "payStep seen ten s t \<Longrightarrow> capturedStatus (dp_status d) \<Longrightarrow> d \<in> set (deposits s) \<Longrightarrow> d \<in> set (deposits t)"
proof (induction rule: payStep.induct)
  case (DepositMove s P f)
  then have "\<not> P d" by (auto simp: depositMove_def)
  with DepositMove show ?case by (simp add: mem_updateMany)
qed auto

definition settledAs :: "ExtraChargeRecord \<Rightarrow> ExtraChargeRecord \<Rightarrow> bool" where
  "settledAs r r' \<longleftrightarrow> ec_id r' = ec_id r \<and> ec_tenantId r' = ec_tenantId r \<and> ec_totalAmountCents r' = ec_totalAmountCents r \<and>
     ec_stripePaymentIntentId r' = ec_stripePaymentIntentId r \<and> settledStatus (ec_status r') \<and> (ec_status r' = X_PAID \<longrightarrow> r' = r)"

lemma step_settled:
  assumes "payStep seen ten s t" and "truthy (ec_stripePaymentIntentId r)" and "\<exists>r' \<in> set (extraCharges s). settledAs r r'"
  shows "\<exists>r' \<in> set (extraCharges t). settledAs r r'"
  using assms
proof (induction rule: payStep.induct)
  case (ExtraMove s Q g)
  then obtain r' where r': "r' \<in> set (extraCharges s)" "settledAs r r'" by blast
  have "settledAs r (g r')" if "Q r'"
    using ExtraMove(1) [OF r'(1) that] r'(2) ExtraMove.prems(1) by (auto simp: extraMove_def settledAs_def)
  then have "settledAs r (if Q r' then g r' else r')" using r'(2) by simp
  then have "\<exists>q \<in> set (updateMany Q g (extraCharges s)). settledAs r q" using r'(1) unfolding ex_updateMany by blast
  then show ?case by simp
qed auto

lemma step_paid:
  assumes "payStep seen ten s t" and "\<And>r. r \<in> set (extraCharges s) \<Longrightarrow> ec_status r = X_PAID \<Longrightarrow> r \<in> R \<or> paidBy seen r"
    and "r \<in> set (extraCharges t)" and "ec_status r = X_PAID"
  shows "r \<in> R \<or> paidBy seen r"
  using assms
proof (induction rule: payStep.induct)
  case (ExtraMove s Q g)
  then obtain q where "q \<in> set (extraCharges s)" "r = (if Q q then g q else q)" by (auto simp: in_updateMany)
  with ExtraMove show ?case by (auto simp: extraMove_def split: if_split_asm)
qed (auto simp: extraNew_def)

lemma step_foreign:
  assumes "payStep seen ten s t"
  shows "filter (\<lambda>d. \<not> ten (dp_tenantId d)) (deposits t) = filter (\<lambda>d. \<not> ten (dp_tenantId d)) (deposits s) \<and>
    filter (\<lambda>r. \<not> ten (ec_tenantId r)) (extraCharges t) = filter (\<lambda>r. \<not> ten (ec_tenantId r)) (extraCharges s)"
  using assms
proof (induction rule: payStep.induct)
  case (DepositMove s P f)
  then have "updateMany P f (deposits s) = updateMany (\<lambda>d. d \<in> set (deposits s) \<and> P d) f (deposits s)" by (simp add: updateMany_def)
  moreover have "filter (\<lambda>d. \<not> ten (dp_tenantId d)) (updateMany (\<lambda>d. d \<in> set (deposits s) \<and> P d) f (deposits s)) = filter (\<lambda>d. \<not> ten (dp_tenantId d)) (deposits s)"
    using DepositMove by (intro filter_updateMany) (auto simp: depositMove_def)
  ultimately show ?case by simp
next
  case (ExtraMove s Q g)
  then have "updateMany Q g (extraCharges s) = updateMany (\<lambda>r. r \<in> set (extraCharges s) \<and> Q r) g (extraCharges s)" by (simp add: updateMany_def)
  moreover have "filter (\<lambda>r. \<not> ten (ec_tenantId r)) (updateMany (\<lambda>r. r \<in> set (extraCharges s) \<and> Q r) g (extraCharges s)) = filter (\<lambda>r. \<not> ten (ec_tenantId r)) (extraCharges s)"
    using ExtraMove by (intro filter_updateMany) (auto simp: extraMove_def)
  ultimately show ?case by simp
qed auto

lemma step_audit: "payStep seen ten s t \<Longrightarrow> \<exists>new. auditLogs t = auditLogs s @ new"
  by (induction rule: payStep.induct) auto

lemma paySteps_audit: "paySteps seen ten s t \<Longrightarrow> \<exists>new. auditLogs t = auditLogs s @ new"
proof (induction rule: rtranclp_induct)
  case (step u v)
  then show ?case using step_audit [OF step(2)] by auto
qed simp

section \<open>A provider that reports one intent\<close>

definition quietStripe :: "PaymentIntent \<Rightarrow> 'z pay_db_scheme stripe_client" where
  "quietStripe intent =
     \<lparr>sk_createIntent = (\<lambda>_ _. returnP intent), sk_retrieveIntent = (\<lambda>_. returnP intent), sk_captureIntent = (\<lambda>_ _ _. returnP intent),
      sk_cancelIntent = (\<lambda>_ _. returnP intent),
      sk_retrieveCharge = (\<lambda>c. returnP \<lparr>ch_id = c, ch_paymentIntent = Some (JStr (pi_id intent)), ch_amount = pi_amount intent,
        ch_currency = ''eur'', ch_customer = pi_customer intent, ch_disputed = False, ch_amountRefunded = pi_amount intent\<rparr>),
      sk_retrieveDispute = (\<lambda>d. returnP \<lparr>di_id = d, di_charge = Some (JStr ''ch1'')\<rparr>),
      sk_retrieveSetupIntent = (\<lambda>_. returnP \<lparr>st_metadata = None, st_paymentMethod = None\<rparr>),
      sk_retrievePaymentMethod = (\<lambda>_. returnP \<lparr>sp_card = None, sp_billingName = None\<rparr>),
      sk_createCustomer = (\<lambda>_. returnP ''cus1''),
      sk_createSetupSession = (\<lambda>_. returnP \<lparr>ss_id = ''cs1'', ss_url = Some ''url'', ss_setupIntent = None\<rparr>)\<rparr>"

definition quietEnv :: "PaymentIntent \<Rightarrow> instant \<Rightarrow> 'z penv" where
  "quietEnv intent now =
     \<lparr>pe_stripe = Some (quietStripe intent), pe_rely = (\<lambda>s. s), pe_now = now, pe_hashOf = (\<lambda>_. ''h''), pe_messageOf = (\<lambda>_. ''error'')\<rparr>"

lemma quiet_doesSteps: "doesSteps seen ten (returnP x)"
  by (simp add: doesSteps_def returnP_def)

lemma quietEnv_steps: "seen intent \<Longrightarrow> envSteps seen ten (quietEnv intent now)"
  by (simp add: envSteps_def stripeSteps_def quietEnv_def quietStripe_def quiet_doesSteps) (simp add: returnP_def)

definition sampleMethod :: PaymentMethodRecord where
  "sampleMethod = \<lparr>pm_id = ''m1'', pm_tenantId = ''t1'', pm_paymentProfileId = ''p1'', pm_rentalCustomerId = ''c1'', pm_bookingId = Some ''b1'',
     pm_stripeCustomerId = ''cus1'', pm_stripePaymentMethodId = ''pm1'', pm_stripeSetupIntentId = None, pm_status = M_ACTIVE,
     pm_cardBrand = None, pm_cardLast4 = None, pm_cardExpMonth = None, pm_cardExpYear = None, pm_cardholderName = None,
     pm_mandateAccepted = True, pm_mandateAcceptedAt = None, pm_mandateIp = None, pm_mandateUserAgent = None, pm_termsVersion = None,
     pm_isDefault = True, pm_createdByUserId = None, pm_createdAt = 0, pm_deletedAt = None\<rparr>"

definition sampleExtra :: "RentalExtraChargeStatus \<Rightarrow> string option \<Rightarrow> ExtraChargeRecord" where
  "sampleExtra st intentId = \<lparr>ec_id = ''x1'', ec_tenantId = ''t1'', ec_bookingId = ''b1'', ec_rentalCustomerId = ''c1'', ec_vehicleId = None,
     ec_paymentMethodId = Some ''m1'', ec_stripePaymentIntentId = intentId, ec_type = T_FUEL, ec_description = ''fuel'', ec_amountCents = 4000,
     ec_adminFeeCents = 1000, ec_totalAmountCents = 5000, ec_currency = ''EUR'', ec_status = st, ec_evidenceFileUrl = None, ec_notifiedAt = None,
     ec_chargedAt = None, ec_failureReason = None, ec_createdByUserId = None, ec_approvedByUserId = None, ec_createdAt = 0, ec_updatedAt = 0,
     ec_deletedAt = None\<rparr>"

definition sampleDeposit :: "RentalDepositStatus \<Rightarrow> int \<Rightarrow> DepositRecord" where
  "sampleDeposit st captured = \<lparr>dp_id = ''d1'', dp_tenantId = ''t1'', dp_bookingId = ''b1'', dp_rentalCustomerId = ''c1'', dp_vehicleId = None,
     dp_paymentMethodId = ''m1'', dp_stripePaymentIntentId = Some ''pi2'', dp_amountCents = 20000, dp_capturedAmountCents = captured,
     dp_currency = ''EUR'', dp_status = st, dp_failureReason = None, dp_authorizedAt = None, dp_capturedAt = None, dp_releasedAt = None,
     dp_createdByUserId = None, dp_approvedByUserId = None, dp_createdAt = 0, dp_updatedAt = 0, dp_deletedAt = None\<rparr>"

definition sampleIntent :: PaymentIntent where
  "sampleIntent = \<lparr>pi_object = ''payment_intent'', pi_id = ''pi1'', pi_status = ''succeeded'', pi_amount = 5000, pi_amountReceived = 5000,
     pi_currency = Some ''eur'', pi_customer = Some (JStr ''cus1''), pi_paymentMethod = Some (JStr ''pm1''),
     pi_metadata = Some (JObj [(''domain'', JStr RENTAL_PAYMENT_DOMAIN), (''purpose'', JStr EXTRA_CHARGE_PURPOSE), (''tenantId'', JStr ''t1''),
       (''bookingId'', JStr ''b1''), (''rentalCustomerId'', JStr ''c1''), (''rentalExtraChargeId'', JStr ''x1''), (''paymentMethodId'', JStr ''m1'')]),
     pi_lastErrorMessage = None\<rparr>"

definition samplePayDb :: "ExtraChargeRecord list \<Rightarrow> DepositRecord list \<Rightarrow> pay_db" where
  "samplePayDb xs ds = \<lparr>auditLogs = [], sites = [], vehicles = [], customers = [], bookings = [], paymentProfiles = [],
     paymentMethods = [sampleMethod], deposits = ds, extraCharges = xs, paymentEvents = []\<rparr>"

lemmas sample_pay_defs = samplePayDb_def sampleExtra_def sampleDeposit_def sampleMethod_def sampleIntent_def

lemma sample_payInv:
  "settledStatus st \<longrightarrow> truthy i \<Longrightarrow> payInv (samplePayDb [sampleExtra st i] [sampleDeposit D_CAPTURED 20000])"
  by (simp add: payInv_def sample_pay_defs oneActive_def activeDeposit_def ACTIVE_DEPOSIT_STATUSES_def depositSound_def capturedStatus_def extraSound_def)

lemma sample_charge:
  "extraCharges (perform (quietEnv sampleIntent 7) (ChargeExtraCharge ''t1'' ''x1'' None ''u1'') (samplePayDb [sampleExtra X_APPROVED None] [sampleDeposit D_CAPTURED 20000]))
   = [(sampleExtra X_PAID (Some ''pi1''))\<lparr>ec_chargedAt := Some 7, ec_updatedAt := 7\<rparr>]"
  by code_simp

definition sampleStart :: pay_db where
  "sampleStart = samplePayDb [sampleExtra X_APPROVED None] [sampleDeposit D_CAPTURED 20000]"

definition samplePaid :: pay_db where
  "samplePaid = perform (quietEnv sampleIntent 7) (ChargeExtraCharge ''t1'' ''x1'' None ''u1'') sampleStart"

lemma sample_run: "payRun (\<lambda>i. i = sampleIntent) (\<lambda>t. t = ''t1'') sampleStart samplePaid"
  unfolding samplePaid_def by (intro payRun.intros) (auto intro: quietEnv_steps)

lemma sampleStart_inv: "payInv sampleStart"
  unfolding sampleStart_def by (rule sample_payInv) (simp add: settledStatus_def)

lemma samplePaid_charges: "extraCharges samplePaid = [(sampleExtra X_PAID (Some ''pi1''))\<lparr>ec_chargedAt := Some 7, ec_updatedAt := 7\<rparr>]"
  unfolding samplePaid_def sampleStart_def by (rule sample_charge)

definition sampleRefund :: StripeEvent where
  "sampleRefund = \<lparr>se_id = ''ev1'', se_type = ''charge.refunded'', se_object = Some (JObj [(''id'', JStr ''ch1'')])\<rparr>"

lemma sample_refund_run:
  "payRun (\<lambda>i. i = sampleIntent) (\<lambda>t. t = ''t1'') samplePaid (perform (quietEnv sampleIntent 9) (HandleStripeEvent sampleRefund) samplePaid)"
  by (intro payRun.intros) (auto intro: quietEnv_steps simp: sampleIntent_def metadataOf_def)

lemma sample_paid_inv: "payInv samplePaid"
  using paySteps_payInv [OF payRun_steps [OF sample_run sampleStart_inv] sampleStart_inv] .

section \<open>Properties of every run\<close>

text \<open>
  C1: The service implements the step relation: from a state with the invariant, every run of requests, whatever
  the provider answers and whatever steps other requests make while a call or a lock is awaited, goes
  through steps of \<open>payStep\<close> only.  The rows of the steps belong to tenants the requests act for, and the payments
  they record are intents the provider reported.
\<close>

theorem payment_runs_refine_steps:
  assumes "payInv s" and "payRun seen ten s t"
  shows "(payStep seen ten)\<^sup>*\<^sup>* s t"
  using assms by (simp add: payRun_steps)

text \<open>Witness of C1: charging the sample charge is a run of steps.\<close>

theorem payment_runs_refine_steps_witness: "(payStep (\<lambda>i. i = sampleIntent) (\<lambda>t. t = ''t1''))\<^sup>*\<^sup>* sampleStart samplePaid"
  by (rule payment_runs_refine_steps [OF sampleStart_inv sample_run])

text \<open>
  C2: The invariant of the payment tables holds after every run: at most one active deposit per booking, identifiers
  unique, amounts positive, a captured amount only on captured deposits and never above the
  deposit, full capture exactly for \<open>CAPTURED\<close>, totals with the fee, and an intent on every settled charge.
\<close>

theorem payment_invariant:
  assumes "payInv s" and "payRun seen ten s t"
  shows "payInv t"
  using paySteps_payInv [OF payRun_steps] assms by blast

text \<open>Witness of C2: the sample run.\<close>

theorem payment_invariant_witness: "payInv samplePaid"
  by (rule payment_invariant [OF sampleStart_inv sample_run])

text \<open>
  C3: A captured deposit is final: once a deposit is captured, in full or in part, no request and no event
  changes its row in any way.
\<close>

theorem captured_deposit_is_final:
  assumes "payInv s" and "payRun seen ten s t" and "d \<in> set (deposits s)" and "capturedStatus (dp_status d)"
  shows "d \<in> set (deposits t)"
  using payRun_stable [OF assms(2,1), where J = "\<lambda>s. d \<in> set (deposits s)"] assms(3,4) step_captured by blast

text \<open>Witness of C3: the captured deposit of the sample is still there after the charge.\<close>

theorem captured_deposit_is_final_witness: "sampleDeposit D_CAPTURED 20000 \<in> set (deposits samplePaid)"
  by (rule captured_deposit_is_final [OF sampleStart_inv sample_run])
    (simp_all add: sampleStart_def samplePayDb_def sampleDeposit_def capturedStatus_def)

text \<open>
  C4: A settled charge stays settled: a charge that is paid, refunded or disputed never becomes open again, keeps
  its tenant, its amount and its intent, and is never paid a second time (if it is still paid, the row is unchanged).
\<close>

theorem settled_charge_stays_settled:
  assumes "payInv s" and "payRun seen ten s t" and "r \<in> set (extraCharges s)" and "settledStatus (ec_status r)"
  shows "\<exists>r' \<in> set (extraCharges t). ec_id r' = ec_id r \<and> ec_tenantId r' = ec_tenantId r \<and> ec_totalAmountCents r' = ec_totalAmountCents r \<and>
    ec_stripePaymentIntentId r' = ec_stripePaymentIntentId r \<and> settledStatus (ec_status r') \<and> (ec_status r' = X_PAID \<longrightarrow> r' = r)"
proof -
  have "truthy (ec_stripePaymentIntentId r)" using assms(1,3,4) by (simp add: payInv_def extraSound_def)
  moreover have "\<exists>r' \<in> set (extraCharges s). settledAs r r'" using assms(3,4) by (auto simp: settledAs_def)
  ultimately have "\<exists>r' \<in> set (extraCharges t). settledAs r r'"
    using payRun_stable [OF assms(2,1), where J = "\<lambda>s. \<exists>r' \<in> set (extraCharges s). settledAs r r'"] step_settled by blast
  then show ?thesis by (simp add: settledAs_def)
qed

text \<open>Witness of C4: a refund event after the payment of the sample charge.\<close>

theorem settled_charge_stays_settled_witness:
  "(let r = hd (extraCharges samplePaid); t = perform (quietEnv sampleIntent 9) (HandleStripeEvent sampleRefund) samplePaid in
    settledStatus (ec_status r) \<and> (\<exists>r' \<in> set (extraCharges t). ec_id r' = ec_id r \<and> ec_stripePaymentIntentId r' = Some ''pi1'' \<and> settledStatus (ec_status r')))"
proof -
  let ?r = "hd (extraCharges samplePaid)"
  have r: "?r \<in> set (extraCharges samplePaid)" "settledStatus (ec_status ?r)" "ec_stripePaymentIntentId ?r = Some ''pi1''"
    by (simp_all add: samplePaid_charges sampleExtra_def settledStatus_def)
  show ?thesis
    using settled_charge_stays_settled [OF sample_paid_inv sample_refund_run r(1,2)] r unfolding Let_def by fastforce
qed

text \<open>
  C5: A charge is recorded as paid only on the provider's word: every paid row of the table after a run was paid before,
  or the provider reported an intent for it that succeeded, received exactly its total, is the intent stored on the row,
  and names its tenant, booking, customer, card, amount and currency.
\<close>

theorem paid_only_on_evidence:
  assumes "payInv s" and "payRun seen ten s t" and "r \<in> set (extraCharges t)" and "ec_status r = X_PAID"
  shows "r \<in> set (extraCharges s) \<or>
    (\<exists>intent. seen intent \<and> pi_status intent = ''succeeded'' \<and> pi_amountReceived intent = of_int (ec_totalAmountCents r) \<and>
       ec_stripePaymentIntentId r = Some (pi_id intent) \<and> intentMatches Extra (payableExtra r) intent)"
proof -
  let ?J = "\<lambda>u. \<forall>q \<in> set (extraCharges u). ec_status q = X_PAID \<longrightarrow> q \<in> set (extraCharges s) \<or> paidBy seen q"
  have "?J t" by (rule payRun_stable [OF assms(2,1), where J = ?J]) (use step_paid in blast)+
  with assms(3,4) show ?thesis by (auto simp: paidBy_def)
qed

text \<open>Witness of C5: the sample charge, paid by the intent the provider reports.\<close>

theorem paid_only_on_evidence_witness:
  "(let r = hd (extraCharges samplePaid) in ec_status r = X_PAID \<and> pi_amountReceived sampleIntent = of_int (ec_totalAmountCents r) \<and>
     intentMatches Extra (payableExtra r) sampleIntent)"
proof -
  let ?r = "hd (extraCharges samplePaid)"
  have r: "?r \<in> set (extraCharges samplePaid)" "ec_status ?r = X_PAID" "?r \<notin> set (extraCharges sampleStart)"
    by (simp_all add: samplePaid_charges sampleStart_def samplePayDb_def sampleExtra_def)
  show ?thesis using paid_only_on_evidence [OF sampleStart_inv sample_run r(1,2)] r unfolding Let_def by blast
qed

text \<open>
  C6: Tenants are isolated: a run of requests on behalf of some tenants leaves the deposits and the charges of every
  other tenant exactly as they were, in content and in order; an event acts for the tenants named by the
  intents the provider reports, never for one named in the body of the event.
\<close>

theorem payment_tenant_isolation:
  assumes "payInv s" and "payRun seen ten s t"
  shows "filter (\<lambda>d. \<not> ten (dp_tenantId d)) (deposits t) = filter (\<lambda>d. \<not> ten (dp_tenantId d)) (deposits s) \<and>
    filter (\<lambda>r. \<not> ten (ec_tenantId r)) (extraCharges t) = filter (\<lambda>r. \<not> ten (ec_tenantId r)) (extraCharges s)"
  using payRun_steps [OF assms(2,1)]
proof (induction rule: rtranclp_induct)
  case (step u v)
  then show ?case using step_foreign [OF step(2)] by presburger
qed simp

text \<open>Witness of C6: the sample run acts for one tenant.\<close>

theorem payment_tenant_isolation_witness:
  "filter (\<lambda>d. \<not> dp_tenantId d = ''t1'') (deposits samplePaid) = filter (\<lambda>d. \<not> dp_tenantId d = ''t1'') (deposits sampleStart)"
  using payment_tenant_isolation [OF sampleStart_inv sample_run] by blast

end
