(* ===== verification/Payment_Effects.thy ===== *)
theory Payment_Effects
  imports Payment_Steps
begin

text \<open>
  What single payment operations do: which provider calls they may make, how a charge converges to the provider's
  intent when nothing interferes, and that an event takes effect once.
\<close>

section \<open>Which provider calls are made\<close>

lemma bind_returnP: "bindP (returnP x) f = f x"
  by (rule ext) (simp add: bindP_def returnP_def)

lemma stripe_unused:
  "pe_now (E\<lparr>pe_stripe := p\<rparr>) = pe_now E"
  "auditP (E\<lparr>pe_stripe := p\<rparr>) t u a res rid d = auditP E t u a res rid d"
  "compareAndUpdateExtraCharge (E\<lparr>pe_stripe := p\<rparr>) r f audit = compareAndUpdateExtraCharge E r f audit"
  "compareAndUpdateDeposit (E\<lparr>pe_stripe := p\<rparr>) v g audit = compareAndUpdateDeposit E v g audit"
  by (simp_all add: auditP_def compareAndUpdateExtraCharge_def compareAndUpdateDeposit_def)

lemma settle_unused:
  "settleExtra (E\<lparr>pe_stripe := p\<rparr>) t row intent again = settleExtra E t row intent again"
  "settleDeposit (E\<lparr>pe_stripe := p\<rparr>) t dep intent again' = settleDeposit E t dep intent again'"
  unfolding settleExtra_def settleDeposit_def stripe_unused by (rule refl)+

lemma reconcileExtraLoop_calls:
  assumes "pe_stripe E = Some k"
  shows "reconcileExtraLoop (E\<lparr>pe_stripe := Some (k\<lparr>sk_createIntent := c\<rparr>)\<rparr>) t x i n = reconcileExtraLoop E t x i n"
  using assms by (induction n) (simp_all add: reconcileExtraStep_def requireStripeClient_def bind_returnP settle_unused cong: if_cong)

lemma reconcileDepositLoop_calls:
  assumes "pe_stripe E = Some k"
  shows "reconcileDepositLoop (E\<lparr>pe_stripe := Some (k\<lparr>sk_captureIntent := c\<rparr>)\<rparr>) t x i n = reconcileDepositLoop E t x i n"
  using assms by (induction n) (simp_all add: reconcileDepositStep_def requireStripeClient_def bind_returnP settle_unused cong: if_cong)

lemma found_extra: "findExtraChargeById t x s = Some r \<Longrightarrow> ec_id r = x \<and> ec_tenantId r = t \<and> ec_deletedAt r = None \<and> r \<in> set (extraCharges s)"
  unfolding findExtraChargeById_def by (auto dest: find_Some_iff_mem)

lemma found_deposit: "findDepositById t x s = Some d \<Longrightarrow> dp_id d = x \<and> dp_tenantId d = t \<and> dp_deletedAt d = None \<and> d \<in> set (deposits s)"
  unfolding findDepositById_def by (auto dest: find_Some_iff_mem)

lemma run_getExtra: "findExtraChargeById t x s = Some r \<Longrightarrow> getExtraChargeOrThrow t x s = (Inr r, s)"
  by (simp add: getExtraChargeOrThrow_def bindP_def getsP_def returnP_def)

lemma run_getDeposit: "findDepositById t x s = Some d \<Longrightarrow> getDepositOrThrow t x s = (Inr d, s)"
  by (simp add: getDepositOrThrow_def bindP_def getsP_def returnP_def)

lemma run_requireStripe: "pe_stripe E = Some k \<Longrightarrow> requireStripeClient E s = (Inr k, s)"
  by (simp add: requireStripeClient_def returnP_def)

lemma bindP_run: "m s = (Inr x, s') \<Longrightarrow> bindP m f s = f x s'"
  by (simp add: bindP_def)

text \<open>The captures a request may ask for: of an authorized deposit, at most what is left of it.\<close>

definition allowedCapture :: "DepositRecord \<Rightarrow> string \<Rightarrow> int \<Rightarrow> bool" where
  "allowedCapture d i n \<longleftrightarrow> dp_status d = D_AUTHORIZED \<and> dp_stripePaymentIntentId d = Some i \<and> 0 < n \<and> n \<le> dp_amountCents d - dp_capturedAmountCents d"

definition guardedCapture :: "('s stripe_client) \<Rightarrow> DepositRecord \<Rightarrow> (string \<Rightarrow> int \<Rightarrow> string \<Rightarrow> (StripeError, 's, PaymentIntent) prog) \<Rightarrow> 's stripe_client" where
  "guardedCapture k d c = k\<lparr>sk_captureIntent := (\<lambda>i n key. if allowedCapture d i n then sk_captureIntent k i n key else c i n key)\<rparr>"

text \<open>
  C7: A charge with a known intent is reconciled, never charged again: the outcome of \<open>chargeExtraCharge\<close> does not depend on
  the provider's create call, on the card of the request or on the user.
\<close>

theorem known_intent_never_recreated:
  assumes "pe_stripe E = Some k" and "findExtraChargeById t x s = Some r" and "truthy (ec_stripePaymentIntentId r)"
  shows "chargeExtraCharge (E\<lparr>pe_stripe := Some (k\<lparr>sk_createIntent := c\<rparr>)\<rparr>) t x m u s = chargeExtraCharge E t x m' u' s"
proof -
  let ?E = "E\<lparr>pe_stripe := Some (k\<lparr>sk_createIntent := c\<rparr>)\<rparr>"
  have rec: "reconcileExtra ?E a b i = reconcileExtra E a b i" for a b i
    unfolding reconcileExtra_def by (rule reconcileExtraLoop_calls [OF assms(1)])
  have run: "chargeExtraCharge F t x m u s =
      (if ec_status r \<notin> set CHARGEABLE_EXTRA_STATUSES \<and> ec_status r \<noteq> X_PAYMENT_PROCESSING then (Inl (AppErr (AppError 409 ''RENTAL_EXTRA_CHARGE_NOT_CHARGEABLE'')), s)
       else reconcileExtra F (ec_tenantId r) (ec_id r) (the (ec_stripePaymentIntentId r)) s)" if "pe_stripe F = Some l" for F l m u
    unfolding chargeExtraCharge_def bindP_run [where m = "requireStripeClient F", OF run_requireStripe [OF that]]
      bindP_run [where m = "getExtraChargeOrThrow t x", OF run_getExtra [OF assms(2)]]
    using assms(3) by (auto simp: throwP_def)
  show ?thesis using run [of ?E "k\<lparr>sk_createIntent := c\<rparr>"] run [OF assms(1)] rec by simp
qed

text \<open>
  C8: No capture beyond the guarantee: the outcome of \<open>captureDeposit\<close> does not depend on how the provider would answer a
  capture of anything but a positive amount, at most what is left of the deposit, on the intent of
  that deposit while it is authorized.
\<close>

theorem captures_within_guarantee:
  assumes "pe_stripe E = Some k" and "findDepositById t x s = Some d"
  shows "captureDeposit (E\<lparr>pe_stripe := Some (guardedCapture k d c)\<rparr>) t x a s = captureDeposit E t x a s"
proof -
  let ?E = "E\<lparr>pe_stripe := Some (guardedCapture k d c)\<rparr>"
  have rec: "reconcileDeposit ?E t' x' i = reconcileDeposit E t' x' i" for t' x' i
    unfolding reconcileDeposit_def guardedCapture_def by (rule reconcileDepositLoop_calls [OF assms(1)])
  have E: "pe_stripe ?E = Some (guardedCapture k d c)" by simp
  have cap: "sk_captureIntent (guardedCapture k d c) i n key = sk_captureIntent k i n key" if "allowedCapture d i n" for i n key
    using that by (simp add: guardedCapture_def)
  have ret: "sk_retrieveIntent (guardedCapture k d c) = sk_retrieveIntent k" by (simp add: guardedCapture_def)
  note unfold = captureDeposit_def bindP_run [where m = "requireStripeClient ?E", OF run_requireStripe [OF E]]
      bindP_run [where m = "requireStripeClient E", OF run_requireStripe [OF assms(1)]]
      bindP_run [where m = "getDepositOrThrow t x", OF run_getDeposit [OF assms(2)]] Let_def ret rec
  show ?thesis
  proof (cases "allowedCapture d (the (dp_stripePaymentIntentId d)) (orElse a (dp_amountCents d - dp_capturedAmountCents d))")
    case True
    show ?thesis unfolding unfold cap [OF True] by (rule refl)
  next
    case False
    then have "\<not> truthy (dp_stripePaymentIntentId d) \<or> dp_status d \<notin> set CAPTURABLE_DEPOSIT_STATUSES \<or>
        (orElse a (dp_amountCents d - dp_capturedAmountCents d) \<le> 0 \<or>
         dp_amountCents d - dp_capturedAmountCents d < orElse a (dp_amountCents d - dp_capturedAmountCents d))"
      by (auto simp: allowedCapture_def truthy_def CAPTURABLE_DEPOSIT_STATUSES_def)
    then show ?thesis unfolding unfold by auto
  qed
qed

section \<open>Convergence\<close>

lemma casExtra_only:
  assumes "distinct (map ec_id rows)" and "r \<in> set rows" and "ec_deletedAt r = None"
  shows "casExtra r r" and "\<And>v. v \<in> set rows \<Longrightarrow> casExtra r v \<Longrightarrow> v = r" and "countWhere (casExtra r) rows = 1"
proof -
  show self: "casExtra r r" using assms(3) by (simp add: casExtra_def)
  show "v = r" if "v \<in> set rows" "casExtra r v" for v
    using distinct_key_unique [OF assms(1) that(1) assms(2)] that(2) by (simp add: casExtra_def)
  show "countWhere (casExtra r) rows = 1"
    by (rule countWhere_key [where P = "casExtra r", OF assms(1,2) self]) (simp add: casExtra_def)
qed

lemma cas_extra_run:
  assumes quiet: "pe_rely E s = s" and dist: "distinct (map ec_id (extraCharges s))" and r: "r \<in> set (extraCharges s)" "ec_deletedAt r = None"
    and f: "\<And>q. ec_id (f q) = ec_id q \<and> ec_tenantId (f q) = ec_tenantId q"
    and aud: "\<And>a v. audit = Some a \<Longrightarrow> \<exists>row. a v = (Inr (), v\<lparr>auditLogs := auditLogs v @ [row]\<rparr>)"
  shows "\<exists>rows logs. compareAndUpdateExtraCharge E r f audit s =
      (Inr (Some ((f r)\<lparr>ec_updatedAt := pe_now E\<rparr>)), s\<lparr>extraCharges := rows, auditLogs := logs\<rparr>) \<and>
    distinct (map ec_id rows) \<and> set rows = insert ((f r)\<lparr>ec_updatedAt := pe_now E\<rparr>) (set (extraCharges s) - {r})"
proof -
  let ?g = "\<lambda>q. (f q)\<lparr>ec_updatedAt := pe_now E\<rparr>" and ?P = "casExtra r"
  define rows where "rows = updateMany ?P ?g (extraCharges s)"
  note only = casExtra_only [OF dist r]
  have mem: "set rows = insert (?g r) (set (extraCharges s) - {r})"
    unfolding rows_def using only(2) by (intro set_updateMany_only [where P = "casExtra r", OF r(1) only(1)])
  have ids: "map ec_id rows = map ec_id (extraCharges s)"
    unfolding rows_def by (rule map_key_updateMany) (simp add: f)
  have found: "findFirst (\<lambda>q. ec_id q = ec_id r \<and> ec_tenantId q = ec_tenantId r) rows = Some (?g r)"
    by (rule find_by_key [where key = ec_id]) (use ids dist mem f in auto)
  have "\<exists>logs. (case audit of None \<Rightarrow> returnP () | Some a \<Rightarrow> a) (s\<lparr>extraCharges := rows\<rparr>) = (Inr (), s\<lparr>extraCharges := rows, auditLogs := logs\<rparr>)"
  proof (cases audit)
    case None
    have "s\<lparr>extraCharges := rows, auditLogs := auditLogs s\<rparr> = s\<lparr>extraCharges := rows\<rparr>" by simp
    with None show ?thesis by (metis option.simps(4) run_returnP)
  next
    case (Some a)
    then show ?thesis using aud [OF Some, of "s\<lparr>extraCharges := rows\<rparr>"] by fastforce
  qed
  then obtain logs where logs: "(case audit of None \<Rightarrow> returnP () | Some a \<Rightarrow> a) (s\<lparr>extraCharges := rows\<rparr>) = (Inr (), s\<lparr>extraCharges := rows, auditLogs := logs\<rparr>)" ..
  have "compareAndUpdateExtraCharge E r f audit s = (Inr (Some (?g r)), s\<lparr>extraCharges := rows, auditLogs := logs\<rparr>)"
    unfolding compareAndUpdateExtraCharge_def run_seq_modify quiet
    by (simp add: atomicP_def bindP_def getsP_def run_seq_modify only(3) rows_def [symmetric] seqP_def modifyP_def logs found)
  with mem ids dist show ?thesis by auto
qed

text \<open>What a pass finds that can be applied: an intent bound to the row and to its card, with no contradiction.\<close>

definition applicable :: "ExtraChargeRecord \<Rightarrow> PaymentIntent \<Rightarrow> 'z pay_db_scheme \<Rightarrow> bool" where
  "applicable r intent s \<longleftrightarrow> intentMatches Extra (payableExtra r) intent \<and>
     methodMatches (payableExtra r) intent (findHistoricalPaymentMethodById (ec_tenantId r) (the (ec_paymentMethodId r)) s) \<and>
     \<not> settledStatus (ec_status r) \<and> (ec_status r = X_CANCELED \<longrightarrow> pi_status intent = ''canceled'') \<and>
     (pi_status intent = ''succeeded'' \<longrightarrow> pi_amountReceived intent = of_int (ec_totalAmountCents r))"

lemma methodMatches_fields: "methodMatches (p\<lparr>py_stripePaymentIntentId := a, py_awaiting := b\<rparr>) intent m = methodMatches p intent m"
  by (simp add: methodMatches_def split: option.split)

lemma payable_selectors: "py_tenantId (payableExtra r) = ec_tenantId r" "py_paymentMethodId (payableExtra r) = ec_paymentMethodId r"
  by (simp_all add: payableExtra_def)

lemma run_validate:
  "intentMatches kind p intent \<Longrightarrow> methodMatches p intent (findHistoricalPaymentMethodById (py_tenantId p) (the (py_paymentMethodId p)) s) \<Longrightarrow>
   seqP (validateIntent kind p intent) n s = n s"
  by (simp add: validateIntent_def seqP_def bindP_def getsP_def returnP_def)

lemma run_reconcile:
  assumes "pe_stripe E = Some k" and "findExtraChargeById t x s = Some r" and "sk_retrieveIntent k i s = (Inr intent, s)" and "pi_id intent = i"
  shows "reconcileExtra E t x i s = settleExtra E t r intent (reconcileExtraLoop E t x i 4) s"
proof -
  have "reconcileExtra E t x i = reconcileExtraStep E t x i (reconcileExtraLoop E t x i 4)"
    by (simp add: reconcileExtra_def eval_nat_numeral)
  then show ?thesis
    using assms by (simp add: reconcileExtraStep_def bindP_def run_getExtra [OF assms(2)] run_requireStripe [OF assms(1)] liftErr_def)
qed

lemma settle_run:
  assumes quiet: "pe_rely E s = s" and inv: "payInv s" and found: "findExtraChargeById t x s = Some r" and app: "applicable r intent s"
  shows "\<exists>r' rows logs. settleExtra E t r intent again s = (Inr r', s\<lparr>extraCharges := rows, auditLogs := logs\<rparr>) \<and>
    ec_status r' = extraStatusOfIntent intent \<and> ec_stripePaymentIntentId r' = Some (pi_id intent) \<and> findExtraChargeById t x (s\<lparr>extraCharges := rows, auditLogs := logs\<rparr>) = Some r' \<and>
    set rows = insert r' (set (extraCharges s) - {r}) \<and> payableExtra r' = (payableExtra r)\<lparr>py_stripePaymentIntentId := Some (pi_id intent), py_awaiting := (extraStatusOfIntent intent = X_PAYMENT_PROCESSING)\<rparr>"
proof -
  let ?st = "extraStatusOfIntent intent"
  let ?f = "\<lambda>r. r\<lparr>ec_stripePaymentIntentId := Some (pi_id intent), ec_status := ?st,
      ec_chargedAt := (if ?st = X_PAID then Some (pe_now E) else ec_chargedAt r),
      ec_failureReason := (if ?st = X_FAILED \<or> ?st = X_REQUIRES_ACTION then optionalString (pi_lastErrorMessage intent) else None)\<rparr>"
  let ?a = "if ec_status r \<noteq> ?st then Some (auditP E t None (''RENTAL_EXTRA_CHARGE_'' @ extraStatusName ?st) ''rental-extra-charge'' (ec_id r)
      (JObj [(''bookingId'', JStr (ec_bookingId r)), (''totalAmountCents'', JNum (of_int (ec_totalAmountCents r)))])) else None"
  note r = found_extra [OF found]
  have dist: "distinct (map ec_id (extraCharges s))" using inv by (simp add: payInv_def)
  have paid: "?st = X_PAID \<longleftrightarrow> pi_status intent = ''succeeded''" by (simp add: extraStatusOfIntent_def)
  have settle: "settleExtra E t r intent again s =
      (if ec_status r = ?st \<and> ec_stripePaymentIntentId r = Some (pi_id intent) then (Inr r, s)
       else bindP (compareAndUpdateExtraCharge E r ?f ?a) (\<lambda>u. case u of None \<Rightarrow> again | Some r \<Rightarrow> returnP r) s)"
    using app paid unfolding settleExtra_def Let_def applicable_def settledStatus_def
    by (subst run_validate) (auto simp: payableExtra_def returnP_def)
  show ?thesis
  proof (cases "ec_status r = ?st \<and> ec_stripePaymentIntentId r = Some (pi_id intent)")
    case True
    have "set (extraCharges s) = insert r (set (extraCharges s) - {r})" using r by auto
    moreover have "s\<lparr>extraCharges := extraCharges s, auditLogs := auditLogs s\<rparr> = s" by simp
    ultimately show ?thesis using settle True found
      by (intro exI [of _ r] exI [of _ "extraCharges s"] exI [of _ "auditLogs s"]) (auto simp: payableExtra_def)
  next
    case False
    have aud: "\<exists>row. a v = (Inr (), v\<lparr>auditLogs := auditLogs v @ [row]\<rparr>)" if "?a = Some a" for a v
      using that run_auditP by (auto split: if_split_asm)
    have "\<exists>rows logs. compareAndUpdateExtraCharge E r ?f ?a s = (Inr (Some ((?f r)\<lparr>ec_updatedAt := pe_now E\<rparr>)), s\<lparr>extraCharges := rows, auditLogs := logs\<rparr>) \<and>
        distinct (map ec_id rows) \<and> set rows = insert ((?f r)\<lparr>ec_updatedAt := pe_now E\<rparr>) (set (extraCharges s) - {r})"
    proof (rule cas_extra_run [where f = ?f and audit = ?a])
      show "\<exists>row. a v = (Inr (), v\<lparr>auditLogs := auditLogs v @ [row]\<rparr>)" if "?a = Some a" for a v by (rule aud [OF that])
    qed (use quiet dist r in simp_all)
    then obtain rows logs where run: "compareAndUpdateExtraCharge E r ?f ?a s = (Inr (Some ((?f r)\<lparr>ec_updatedAt := pe_now E\<rparr>)), s\<lparr>extraCharges := rows, auditLogs := logs\<rparr>)"
      "distinct (map ec_id rows)" "set rows = insert ((?f r)\<lparr>ec_updatedAt := pe_now E\<rparr>) (set (extraCharges s) - {r})"
      by blast
    define r' where "r' = (?f r)\<lparr>ec_updatedAt := pe_now E\<rparr>"
    have keep: "ec_id r' = ec_id r" "ec_tenantId r' = ec_tenantId r" "ec_deletedAt r' = ec_deletedAt r" "ec_status r' = ?st"
      "ec_stripePaymentIntentId r' = Some (pi_id intent)"
      "payableExtra r' = (payableExtra r)\<lparr>py_stripePaymentIntentId := Some (pi_id intent), py_awaiting := (?st = X_PAYMENT_PROCESSING)\<rparr>"
      by (simp_all add: r'_def payableExtra_def)
    note run = run [folded r'_def]
    have find: "findExtraChargeById t x (s\<lparr>extraCharges := rows, auditLogs := logs\<rparr>) = Some r'"
      unfolding findExtraChargeById_def by (rule find_by_key [where key = ec_id]) (use run(2,3) r keep in auto)
    have "settleExtra E t r intent again s = (Inr r', s\<lparr>extraCharges := rows, auditLogs := logs\<rparr>)"
      unfolding settle if_not_P [OF False] bindP_def run(1) by (simp add: returnP_def)
    with find run(3) keep(4-6) show ?thesis by blast
  qed
qed

text \<open>
  C9: Reconciliation converges when nothing interferes.  If the provider answers with an intent that is bound to the charge
  and to its card and contradicts nothing, \<open>reconcileExtra\<close> returns on the first pass, with the charge in the status
  of the intent and the intent stored on it; no other charge and no deposit changes; and reconciling again changes nothing.
\<close>

theorem reconcile_extra_converges:
  assumes "payInv s" and "pe_stripe E = Some k" and "\<And>v. pe_rely E v = v" and "\<And>v. sk_retrieveIntent k (pi_id intent) v = (Inr intent, v)"
    and "findExtraChargeById t x s = Some r" and "applicable r intent s"
  shows "\<exists>r' s'. reconcileExtra E t x (pi_id intent) s = (Inr r', s') \<and> ec_status r' = extraStatusOfIntent intent \<and>
    ec_stripePaymentIntentId r' = Some (pi_id intent) \<and> set (extraCharges s') = insert r' (set (extraCharges s) - {r}) \<and>
    deposits s' = deposits s \<and> reconcileExtra E t x (pi_id intent) s' = (Inr r', s')"
proof -
  let ?again = "reconcileExtraLoop E t x (pi_id intent) 4"
  obtain r' rows logs where run: "settleExtra E t r intent ?again s = (Inr r', s\<lparr>extraCharges := rows, auditLogs := logs\<rparr>)"
    "ec_status r' = extraStatusOfIntent intent" "ec_stripePaymentIntentId r' = Some (pi_id intent)"
    "findExtraChargeById t x (s\<lparr>extraCharges := rows, auditLogs := logs\<rparr>) = Some r'" "set rows = insert r' (set (extraCharges s) - {r})"
    "payableExtra r' = (payableExtra r)\<lparr>py_stripePaymentIntentId := Some (pi_id intent), py_awaiting := (extraStatusOfIntent intent = X_PAYMENT_PROCESSING)\<rparr>"
    using settle_run [OF assms(3,1,5,6)] by blast
  let ?s = "s\<lparr>extraCharges := rows, auditLogs := logs\<rparr>"
  have first: "reconcileExtra E t x (pi_id intent) s = (Inr r', ?s)"
    using run_reconcile [OF assms(2,5,4) refl] run(1) by simp
  have m: "intentMatches Extra (payableExtra r') intent"
    by (rule intentMatches_same [of Extra "payableExtra r"]) (use assms(6) run(6) in \<open>simp_all add: applicable_def\<close>)
  have pm: "methodMatches (payableExtra r') intent (findHistoricalPaymentMethodById (py_tenantId (payableExtra r')) (the (py_paymentMethodId (payableExtra r'))) ?s)"
    using assms(6) unfolding run(6) methodMatches_fields applicable_def by (simp add: findHistoricalPaymentMethodById_def payable_selectors)
  have total: "ec_totalAmountCents r' = ec_totalAmountCents r" using run(6) by (simp add: payableExtra_def)
  have "settleExtra E t r' intent ?again ?s = (Inr r', ?s)"
    unfolding settleExtra_def run_validate [OF m pm]
    using run(2,3) assms(6) total by (auto simp: applicable_def extraStatusOfIntent_def returnP_def Let_def)
  then have second: "reconcileExtra E t x (pi_id intent) ?s = (Inr r', ?s)"
    using run_reconcile [OF assms(2) run(4) assms(4) refl] by simp
  show ?thesis using first second run(2,3,5) by auto
qed

section \<open>Events\<close>

text \<open>The provider's answers while an event is verified leave the database as it is.\<close>

definition readOnly :: "'z penv \<Rightarrow> bool" where
  "readOnly E \<longleftrightarrow> (\<forall>k. pe_stripe E = Some k \<longrightarrow>
     (\<forall>i v. snd (sk_retrieveIntent k i v) = v) \<and> (\<forall>i v. snd (sk_retrieveCharge k i v) = v) \<and> (\<forall>i v. snd (sk_retrieveDispute k i v) = v))"

lemma eventMetadata_still:
  assumes "readOnly E"
  shows "snd (eventMetadata E event s) = s"
proof -
  have call: "keeps (\<lambda>v. v = s) (sk_retrieveIntent k i)" "keeps (\<lambda>v. v = s) (sk_retrieveCharge k i)" "keeps (\<lambda>v. v = s) (sk_retrieveDispute k i)"
    if "pe_stripe E = Some k" for k i
    using assms that by (simp_all add: readOnly_def keeps_def)
  have verified: "keeps (\<lambda>v. v = s) (verifiedEventIntent E i obs)" for i obs
    unfolding verifiedEventIntent_def Let_def
    by (intro keeps_bindR [OF requireStripe_keepsR] keeps_bindP keeps_liftErr call keeps_if keeps_bindingError keeps_returnP keeps_seqP keeps_agreement
        keeps_getsP keeps_case_option keeps_validateIntent)
  have charge: "keeps (\<lambda>v. v = s) (eventCharge E event)"
    unfolding eventCharge_def
    by (intro keeps_bindR [OF requireStripe_keepsR] keeps_bindP keeps_if keeps_bindingError keeps_returnP keeps_liftErr call keeps_case_option)
  have "keeps (\<lambda>v. v = s) (eventMetadata E event)"
    unfolding eventMetadata_def Let_def
    by (intro keeps_if keeps_case_option keeps_bindingError keeps_bindP verified charge keeps_returnP keeps_case_row)
  then show ?thesis by (simp add: keeps_def)
qed

definition processedEvent :: "string \<Rightarrow> 'z pay_db_scheme \<Rightarrow> bool" where
  "processedEvent e s \<longleftrightarrow> (\<exists>r. findFirst (\<lambda>r. ev_provider r = ''stripe'' \<and> ev_eventId r = e) (paymentEvents s) = Some r \<and>
     ev_status r = ''PROCESSED'' \<and> ev_processedAt r \<noteq> None)"

lemma find_updateMany: "(\<And>r. P r \<Longrightarrow> P (f r)) \<Longrightarrow> List.find P (updateMany P f rows) = map_option f (List.find P rows)"
  by (induction rows) (auto simp: updateMany_def)

lemma update_processes:
  assumes "updateRentalPaymentEvent e ''PROCESSED'' (Some t) m s = (Inr v, s')"
  shows "processedEvent e s'"
proof -
  let ?P = "\<lambda>r. ev_provider r = ''stripe'' \<and> ev_eventId r = e"
  obtain r where r: "findFirst ?P (paymentEvents s) = Some r"
    using assms by (cases "findFirst ?P (paymentEvents s)") (auto simp: updateRentalPaymentEvent_def Let_def bindP_def getsP_def throwP_def)
  with assms have "s' = s\<lparr>paymentEvents := updateMany ?P (\<lambda>r. r\<lparr>ev_status := ''PROCESSED'', ev_processedAt := Some t, ev_errorMessage := m\<rparr>) (paymentEvents s)\<rparr>"
    by (simp add: updateRentalPaymentEvent_def Let_def bindP_def getsP_def modifyP_def)
  with r show ?thesis by (simp add: processedEvent_def find_updateMany)
qed

lemma handle_received:
  assumes "handleStripeEvent E event s = (Inr (Received t), s')"
  shows "processedEvent (se_id event) s'"
proof -
  have body: "processedEvent (se_id event) v'"
    if "tryP (seqP m (seqP (updateRentalPaymentEvent (se_id event) ''PROCESSED'' (Some (pe_now E)) None) (returnP (Received a))))
          (\<lambda>error. seqP (updateRentalPaymentEvent (se_id event) ''FAILED'' None (h error)) (throwP error)) v = (Inr (Received t), v')" for m :: "('z, unit) payP" and a h v v'
  proof -
    from that obtain u w where "updateRentalPaymentEvent (se_id event) ''PROCESSED'' (Some (pe_now E)) None u = (Inr w, v')"
      by (auto simp: tryP_def seqP_Inr split: prod.split_asm sum.split_asm)
    then show ?thesis by (rule update_processes)
  qed
  show ?thesis
    using assms unfolding handleStripeEvent_def Let_def
    by (auto simp: bindP_Inr split: option.split_asm if_split_asm dest: body)
qed

lemma handle_again:
  assumes "readOnly E" and "processedEvent (se_id event) s"
  shows "snd (handleStripeEvent E event s) = s \<and> (\<forall>t. fst (handleStripeEvent E event s) \<noteq> Inr (Received t))"
proof -
  obtain r where r: "findFirst (\<lambda>r. ev_provider r = ''stripe'' \<and> ev_eventId r = se_id event) (paymentEvents s) = Some r"
    "ev_status r = ''PROCESSED''" "ev_processedAt r \<noteq> None"
    using assms(2) by (auto simp: processedEvent_def)
  have create: "createRentalPaymentEvent event t refs s = (Inr r, s)" for t refs
    using r(1) by (simp add: createRentalPaymentEvent_def bindP_def getsP_def returnP_def)
  obtain m where "eventMetadata E event s = (m, s)" using eventMetadata_still [OF assms(1), of event s] by (metis prod.collapse)
  then show ?thesis
    using r(2,3) unfolding handleStripeEvent_def Let_def
    by (auto simp: bindP_def create returnP_def split: sum.split option.split)
qed

text \<open>
  C10: An event takes effect once.  After an event was processed successfully, a repeated delivery, at any later time, changes nothing
  at all and is never reported as received again, whatever the provider then answers.
\<close>

theorem event_takes_effect_once:
  assumes "handleStripeEvent E event s = (Inr (Received t), s')" and "readOnly E'"
  shows "snd (handleStripeEvent E' event s') = s' \<and> (\<forall>t'. fst (handleStripeEvent E' event s') \<noteq> Inr (Received t'))"
  by (rule handle_again [OF assms(2) handle_received [OF assms(1)]])

lemma update_fails:
  "\<not> processedEvent e (snd (seqP (updateRentalPaymentEvent e ''FAILED'' None m) (throwP err) s))"
proof -
  let ?P = "\<lambda>r. ev_provider r = ''stripe'' \<and> ev_eventId r = e"
  show ?thesis
    by (cases "findFirst ?P (paymentEvents s)")
      (simp_all add: updateRentalPaymentEvent_def Let_def seqP_def bindP_def getsP_def throwP_def modifyP_def processedEvent_def find_updateMany)
qed

lemma handle_failed:
  assumes "readOnly E" and "\<not> processedEvent (se_id event) s" and "handleStripeEvent E event s = (Inl err, s')"
  shows "\<not> processedEvent (se_id event) s'"
proof -
  obtain m where m: "eventMetadata E event s = (m, s)" using eventMetadata_still [OF assms(1), of event s] by (metis prod.collapse)
  have body: "\<not> processedEvent (se_id event) v'"
    if "tryP (seqP n (seqP (updateRentalPaymentEvent (se_id event) ''PROCESSED'' (Some (pe_now E)) None) (returnP (Received a))))
          (\<lambda>error. seqP (updateRentalPaymentEvent (se_id event) ''FAILED'' None (h error)) (throwP error)) v = (Inl err, v')" for n :: "('z, unit) payP" and a h v v'
  proof -
    from that obtain error u where "seqP (updateRentalPaymentEvent (se_id event) ''FAILED'' None (h error)) (throwP error) u = (Inl err :: _ + webhookResult, v')"
      by (auto simp: tryP_def split: prod.split_asm sum.split_asm)
    then show ?thesis by (metis snd_conv update_fails)
  qed
  have create: "fst (createRentalPaymentEvent event t refs s) \<noteq> Inl x" for t refs x
    by (simp add: createRentalPaymentEvent_def Let_def bindP_def getsP_def returnP_def seqP_def modifyP_def split: option.split)
  show ?thesis
  proof (cases m)
    case (Inl x)
    then show ?thesis using assms(2,3) m by (simp add: handleStripeEvent_def bindP_def)
  next
    case (Inr y)
    with m assms(3) obtain metadata where meta: "y = Some metadata" "truthy (metadata ''tenantId'')"
      by (cases y) (auto simp: handleStripeEvent_def bindP_def returnP_def Let_def split: if_split_asm)
    obtain pe v where c: "createRentalPaymentEvent event (the (metadata ''tenantId'')) (refsOf metadata) s = (Inr pe, v)"
      using create by (metis fst_conv prod.exhaust sum.exhaust)
    show ?thesis
      using assms(3) m Inr meta c unfolding handleStripeEvent_def Let_def
      by (auto simp: bindP_def returnP_def split: if_split_asm dest: body)
  qed
qed

text \<open>
  A failed event is not lost: when the handling of an event that was not processed before throws, in the checks or in the processing, the
  event is not marked processed, so the provider's next delivery is not taken for a duplicate and is processed again.
\<close>

theorem failed_event_stays_open:
  assumes "readOnly E" and "handleStripeEvent E event s = (Inl err, s')"
    and "\<not> (\<exists>r. findFirst (\<lambda>r. ev_provider r = ''stripe'' \<and> ev_eventId r = se_id event) (paymentEvents s) = Some r \<and> ev_status r = ''PROCESSED'' \<and> ev_processedAt r \<noteq> None)"
  shows "\<not> (\<exists>r. findFirst (\<lambda>r. ev_provider r = ''stripe'' \<and> ev_eventId r = se_id event) (paymentEvents s') = Some r \<and> ev_status r = ''PROCESSED'' \<and> ev_processedAt r \<noteq> None)"
  using handle_failed [OF assms(1) _ assms(2)] assms(3) unfolding processedEvent_def by blast

section \<open>Witnesses\<close>

lemma quiet_readOnly: "readOnly (quietEnv intent now)"
  by (simp add: readOnly_def quietEnv_def quietStripe_def returnP_def)

lemma quiet_stripe: "pe_stripe (quietEnv intent now) = Some (quietStripe intent)"
  by (simp add: quietEnv_def)

text \<open>Witness of C7: the paid sample charge with its intent.\<close>

theorem known_intent_never_recreated_witness:
  "chargeExtraCharge ((quietEnv sampleIntent 7)\<lparr>pe_stripe := Some ((quietStripe sampleIntent)\<lparr>sk_createIntent := (\<lambda>_ _ v. (Inl undefined, v))\<rparr>)\<rparr>)
     ''t1'' ''x1'' (Some ''m9'') ''u9'' (samplePayDb [sampleExtra X_REQUIRES_ACTION (Some ''pi1'')] []) =
   chargeExtraCharge (quietEnv sampleIntent 7) ''t1'' ''x1'' None ''u1'' (samplePayDb [sampleExtra X_REQUIRES_ACTION (Some ''pi1'')] [])"
  by (rule known_intent_never_recreated [OF quiet_stripe, where r = "sampleExtra X_REQUIRES_ACTION (Some ''pi1'')"])
    (simp_all add: findExtraChargeById_def samplePayDb_def sampleExtra_def truthy_def)

text \<open>Witness of C8: a capture of more than the sample deposit.\<close>

theorem captures_within_guarantee_witness:
  "captureDeposit ((quietEnv sampleIntent 7)\<lparr>pe_stripe := Some (guardedCapture (quietStripe sampleIntent) (sampleDeposit D_AUTHORIZED 0) (\<lambda>_ _ _ v. (Inl undefined, v)))\<rparr>)
     ''t1'' ''d1'' (Some 20001) (samplePayDb [] [sampleDeposit D_AUTHORIZED 0]) =
   captureDeposit (quietEnv sampleIntent 7) ''t1'' ''d1'' (Some 20001) (samplePayDb [] [sampleDeposit D_AUTHORIZED 0])"
  by (rule captures_within_guarantee [OF quiet_stripe]) (simp add: findDepositById_def samplePayDb_def sampleDeposit_def)

lemma sample_applicable: "applicable (sampleExtra X_PAYMENT_PROCESSING None) sampleIntent (samplePayDb [sampleExtra X_PAYMENT_PROCESSING None] [])"
  by code_simp

text \<open>Witness of C9: a charge whose payment is being processed becomes paid.\<close>

theorem reconcile_extra_converges_witness:
  "\<exists>r' s'. reconcileExtra (quietEnv sampleIntent 7) ''t1'' ''x1'' ''pi1'' (samplePayDb [sampleExtra X_PAYMENT_PROCESSING None] []) = (Inr r', s') \<and>
     ec_status r' = X_PAID \<and> reconcileExtra (quietEnv sampleIntent 7) ''t1'' ''x1'' ''pi1'' s' = (Inr r', s')"
proof -
  have inv: "payInv (samplePayDb [sampleExtra X_PAYMENT_PROCESSING None] [])"
    by (simp add: payInv_def sample_pay_defs oneActive_def extraSound_def settledStatus_def)
  have found: "findExtraChargeById ''t1'' ''x1'' (samplePayDb [sampleExtra X_PAYMENT_PROCESSING None] []) = Some (sampleExtra X_PAYMENT_PROCESSING None)"
    by (simp add: findExtraChargeById_def samplePayDb_def sampleExtra_def)
  have i: "pi_id sampleIntent = ''pi1''" "extraStatusOfIntent sampleIntent = X_PAID" by (simp_all add: sampleIntent_def extraStatusOfIntent_def)
  show ?thesis
    using reconcile_extra_converges [where E = "quietEnv sampleIntent 7" and k = "quietStripe sampleIntent", OF inv quiet_stripe _ _ found sample_applicable] i
    by (auto simp: quietEnv_def quietStripe_def returnP_def)
qed

lemma sample_received:
  "fst (handleStripeEvent (quietEnv sampleIntent 9) sampleRefund (samplePayDb [sampleExtra X_PAID (Some ''pi1'')] [])) = Inr (Received ''t1'')"
  by code_simp

text \<open>Witness of C10: the refund of the sample charge, delivered twice.\<close>

theorem event_takes_effect_once_witness:
  "(let s' = snd (handleStripeEvent (quietEnv sampleIntent 9) sampleRefund (samplePayDb [sampleExtra X_PAID (Some ''pi1'')] []))
    in snd (handleStripeEvent (quietEnv sampleIntent 10) sampleRefund s') = s')"
  using event_takes_effect_once [OF _ quiet_readOnly, of "quietEnv sampleIntent 9" sampleRefund "samplePayDb [sampleExtra X_PAID (Some ''pi1'')] []" "''t1''"]
    sample_received unfolding Let_def by (metis prod.collapse)

lemma sample_failed:
  "fst (handleStripeEvent (quietEnv sampleIntent 9) (sampleRefund\<lparr>se_type := ''payment_intent.succeeded''\<rparr>) (samplePayDb [sampleExtra X_PAID (Some ''pi1'')] []))
   = Inl (AppErr (AppError 409 ''RENTAL_PAYMENT_BINDING_MISMATCH''))"
  by code_simp

text \<open>An instance of the preceding theorem: an event of an intent the provider does not report.\<close>

theorem failed_event_stays_open_witness:
  "(let s' = snd (handleStripeEvent (quietEnv sampleIntent 9) (sampleRefund\<lparr>se_type := ''payment_intent.succeeded''\<rparr>) (samplePayDb [sampleExtra X_PAID (Some ''pi1'')] []))
    in \<not> (\<exists>r. findFirst (\<lambda>r. ev_provider r = ''stripe'' \<and> ev_eventId r = ''ev1'') (paymentEvents s') = Some r \<and> ev_status r = ''PROCESSED'' \<and> ev_processedAt r \<noteq> None))"
proof -
  have run: "handleStripeEvent (quietEnv sampleIntent 9) (sampleRefund\<lparr>se_type := ''payment_intent.succeeded''\<rparr>) (samplePayDb [sampleExtra X_PAID (Some ''pi1'')] []) =
      (Inl (AppErr (AppError 409 ''RENTAL_PAYMENT_BINDING_MISMATCH'')),
       snd (handleStripeEvent (quietEnv sampleIntent 9) (sampleRefund\<lparr>se_type := ''payment_intent.succeeded''\<rparr>) (samplePayDb [sampleExtra X_PAID (Some ''pi1'')] [])))"
    using sample_failed by (metis prod.collapse)
  have "paymentEvents (samplePayDb [sampleExtra X_PAID (Some ''pi1'')] []) = []" and "se_id (sampleRefund\<lparr>se_type := ''payment_intent.succeeded''\<rparr>) = ''ev1''"
    by (simp_all add: samplePayDb_def sampleRefund_def)
  with failed_event_stays_open [OF quiet_readOnly run] show ?thesis by (simp add: Let_def)
qed

end
