(* ===== verification/Company_Registration.thy ===== *)
theory Company_Registration
  imports Js_Value
begin

text \<open>
  The checks on the data of a company that registers: \<^verbatim>\<open>backend/src/shared/validation/company-registration.ts\<close>.  A missing value is
  \<open>None\<close>.  Regular expressions are written out as predicates on strings.  A message is represented by its code.
  Removing accents is modelled for the letters of Latin-1, the range of a character here.  Case conversion acts on
  the letters A to Z.
\<close>

section \<open>Strings\<close>

text \<open>\<open>String(value ?? "")\<close>, \<open>replace(/\D/g, "")\<close>, \<open>replace(/[^a-zA-Z0-9]/g, "")\<close>, and the replacement of every run of matching characters.\<close>

abbreviation textOf :: "string option \<Rightarrow> string" where
  "textOf value \<equiv> orElse value []"

definition onlyDigits :: "string \<Rightarrow> string" where
  "onlyDigits s = filter isDigit s"

definition isUpper :: "char \<Rightarrow> bool" where
  "isUpper c \<longleftrightarrow> 65 \<le> (of_char c :: nat) \<and> (of_char c :: nat) \<le> 90"

definition isLower :: "char \<Rightarrow> bool" where
  "isLower c \<longleftrightarrow> 97 \<le> (of_char c :: nat) \<and> (of_char c :: nat) \<le> 122"

definition onlyAlnum :: "string \<Rightarrow> string" where
  "onlyAlnum s = filter (\<lambda>c. isUpper c \<or> isLower c \<or> isDigit c) s"

function replaceRuns :: "(char \<Rightarrow> bool) \<Rightarrow> string \<Rightarrow> string \<Rightarrow> string" where
  "replaceRuns P r [] = []"
| "replaceRuns P r (x # xs) = (if P x then r @ replaceRuns P r (dropWhile P xs) else x # replaceRuns P r xs)"
  by pat_completeness auto
termination
  by (relation "measure (\<lambda>(P, r, s). length s)") (auto simp: less_Suc_eq_le length_dropWhile_le)

definition includesText :: "string \<Rightarrow> string \<Rightarrow> bool" where
  "includesText s p = list_ex (\<lambda>i. take (length p) (drop i s) = p) [0..<Suc (length s)]"

definition endsWith :: "string \<Rightarrow> string \<Rightarrow> bool" where
  "endsWith s p \<longleftrightarrow> length p \<le> length s \<and> drop (length s - length p) s = p"

definition allOf :: "(char \<Rightarrow> bool) \<Rightarrow> nat \<Rightarrow> string \<Rightarrow> bool" where
  "allOf P n s \<longleftrightarrow> length s = n \<and> list_all P s"

text \<open>\<open>/^[^\s@]+@[^\s@]+\.[^\s@]+$/\<close>: what follows the only \<open>@\<close> has a dot that is neither first nor last.\<close>

definition emailPattern :: "string \<Rightarrow> bool" where
  "emailPattern s =
     (let l = takeWhile (\<lambda>c. c \<noteq> CHR ''@'') s; r = drop (Suc (length l)) s in
      l \<noteq> [] \<and> length l < length s \<and> list_all (\<lambda>c. \<not> isSpace c) l \<and>
      list_all (\<lambda>c. \<not> isSpace c \<and> c \<noteq> CHR ''@'') r \<and> list_ex (\<lambda>i. r ! i = CHR ''.'') [1..<length r - 1])"

definition sdiPattern :: "string \<Rightarrow> bool" where
  "sdiPattern = allOf (\<lambda>c. isUpper c \<or> isDigit c) 7"

definition italianPostalCodePattern :: "string \<Rightarrow> bool" where
  "italianPostalCodePattern = allOf isDigit 5"

definition countryCodePattern :: "string \<Rightarrow> bool" where
  "countryCodePattern = allOf isUpper 2"

text \<open>Lower case, decomposition and removal of the accents, on Latin-1.\<close>

definition accentBase :: "nat \<Rightarrow> char option" where
  "accentBase n =
     (let m = (if 224 \<le> n \<and> n \<noteq> 255 then n - 32 else n) in
      if 192 \<le> m \<and> m \<le> 197 then Some CHR ''a''
      else if m = 199 then Some CHR ''c''
      else if 200 \<le> m \<and> m \<le> 203 then Some CHR ''e''
      else if 204 \<le> m \<and> m \<le> 207 then Some CHR ''i''
      else if m = 209 then Some CHR ''n''
      else if 210 \<le> m \<and> m \<le> 214 then Some CHR ''o''
      else if 217 \<le> m \<and> m \<le> 220 then Some CHR ''u''
      else if m = 221 \<or> m = 255 then Some CHR ''y''
      else None)"

definition foldChar :: "char \<Rightarrow> char" where
  "foldChar c = (case accentBase (of_char c) of Some b \<Rightarrow> b | None \<Rightarrow> toLowerChar c)"

section \<open>Normal forms\<close>

definition normalizeCountryCode :: "string option \<Rightarrow> string" where
  "normalizeCountryCode value = toUpperCase (trim (orElse value ''IT''))"

definition normalizeItalianVatNumber :: "string option \<Rightarrow> string" where
  "normalizeItalianVatNumber value = onlyDigits (textOf value)"

definition normalizeVatNumberForCountry :: "string option \<Rightarrow> string option \<Rightarrow> string" where
  "normalizeVatNumberForCountry value country =
     (if normalizeCountryCode country = ''IT'' then normalizeItalianVatNumber value
      else take 32 (toUpperCase (replaceRuns isSpace [] (trim (textOf value)))))"

definition normalizeSdiCode :: "string option \<Rightarrow> string" where
  "normalizeSdiCode value = take 7 (toUpperCase (onlyAlnum (trim (textOf value))))"

definition normalizePostalCode :: "string option \<Rightarrow> string" where
  "normalizePostalCode value = take 5 (onlyDigits (textOf value))"

definition normalizePostalCodeForCountry :: "string option \<Rightarrow> string option \<Rightarrow> string" where
  "normalizePostalCodeForCountry value country =
     (if normalizeCountryCode country = ''IT'' then normalizePostalCode value
      else take 16 (toUpperCase (replaceRuns isSpace '' '' (trim (textOf value)))))"

definition normalizeTaxCode :: "string option \<Rightarrow> string" where
  "normalizeTaxCode value = toUpperCase (replaceRuns isSpace [] (trim (textOf value)))"

definition hasText :: "string option \<Rightarrow> bool" where
  "hasText value \<longleftrightarrow> trim (textOf value) \<noteq> []"

definition comparable :: "string option \<Rightarrow> string" where
  "comparable value = trim (replaceRuns (\<lambda>c. \<not> (isLower c \<or> isDigit c)) '' '' (map foldChar (trim (textOf value))))"

section \<open>Placeholders\<close>

definition placeholderExactValues :: "string list" where
  "placeholderExactValues = [''test'', ''demo'', ''prova'', ''fake'', ''finto'', ''fittizio'', ''placeholder'', ''esempio'', ''na'', ''n a'', ''nessuno'',
     ''xxx'', ''xxxx'', ''azienda'', ''azienda demo'', ''azienda test'', ''demo srl'', ''test srl'', ''societa demo'', ''societa test'', ''company test'',
     ''test company'', ''indirizzo test'', ''via test'']"

definition placeholderTokens :: "string list" where
  "placeholderTokens = [''test'', ''demo'', ''prova'', ''fake'', ''finto'', ''fittizio'', ''placeholder'', ''esempio'']"

definition placeholderTokenPattern :: "string \<Rightarrow> bool" where
  "placeholderTokenPattern s =
     list_ex (\<lambda>i. list_ex (\<lambda>w. take (length w) (drop i s) = w \<and> (i = 0 \<or> isSpace (s ! (i - 1))) \<and>
         (length s = i + length w \<or> isSpace (s ! (i + length w)))) placeholderTokens) [0..<length s]"

definition placeholderEmailDomains :: "string list" where
  "placeholderEmailDomains = [''example.com'', ''example.it'', ''example.org'', ''test.com'', ''test.it'', ''demo.com'', ''demo.it'', ''localhost'']"

definition isLikelyPlaceholderText :: "string option \<Rightarrow> bool" where
  "isLikelyPlaceholderText value =
     (let cleaned = comparable value in
      cleaned \<noteq> [] \<and> (cleaned \<in> set placeholderExactValues \<or> placeholderTokenPattern cleaned))"

definition isLikelyPlaceholderEmail :: "string option \<Rightarrow> bool" where
  "isLikelyPlaceholderEmail value =
     (let email = toLowerCase (trim (textOf value)) in
      emailPattern email \<and>
      (let localPart = takeWhile (\<lambda>c. c \<noteq> CHR ''@'') email; domain = drop (Suc (length localPart)) email in
       comparable (Some localPart) \<in> set placeholderExactValues \<or> domain \<in> set placeholderEmailDomains \<or>
       endsWith domain ''.example'' \<or> endsWith domain ''.test'' \<or> includesText domain ''example'' \<or> includesText domain ''localhost''))"

definition isRepeated :: "string \<Rightarrow> bool" where
  "isRepeated value \<longleftrightarrow> 0 < length value \<and> length (remdups value) = 1"

definition isNumericRamp :: "string \<Rightarrow> bool" where
  "isNumericRamp value \<longleftrightarrow> value \<noteq> [] \<and> list_all isDigit value \<and>
     (includesText ''01234567890123456789'' value \<or> includesText ''98765432109876543210'' value)"

definition isSequential :: "string \<Rightarrow> bool" where
  "isSequential value = list_all (\<lambda>i. i = 0 \<or> (of_char (value ! i) :: nat) = of_char (value ! (i - 1)) + 1) [0..<length value]"

section \<open>Identifiers\<close>

definition vatDigit :: "nat \<Rightarrow> char \<Rightarrow> nat" where
  "vatDigit i c = (let digit = digitVal c in if i mod 2 = 1 then (if 9 < digit * 2 then digit * 2 - 9 else digit * 2) else digit)"

definition isValidItalianVatNumber :: "string option \<Rightarrow> bool" where
  "isValidItalianVatNumber value =
     (let vat = normalizeItalianVatNumber value in
      allOf isDigit 11 vat \<and> \<not> (isRepeated vat \<or> isNumericRamp vat) \<and>
      (\<Sum>i\<leftarrow>[0..<length vat]. vatDigit i (vat ! i)) mod 10 = 0)"

definition fiscalChars :: string where
  "fiscalChars = ''0123456789ABCDEFGHIJKLMNOPQRSTUVWXYZ''"

definition fiscalCodeEvenMap :: "char \<Rightarrow> nat option" where
  "fiscalCodeEvenMap = map_of (zip fiscalChars ([0..<10] @ [0..<26]))"

definition fiscalCodeOddMap :: "char \<Rightarrow> nat option" where
  "fiscalCodeOddMap = map_of (zip fiscalChars
     [1, 0, 5, 7, 9, 13, 15, 17, 19, 21, 1, 0, 5, 7, 9, 13, 15, 17, 19, 21, 2, 4, 18, 20, 11, 3, 6, 8, 12, 14, 16, 10, 22, 25, 24, 23])"

definition isValidItalianFiscalCode :: "string option \<Rightarrow> bool" where
  "isValidItalianFiscalCode value =
     (let fiscalCode = normalizeTaxCode value in
      if fiscalCode = [] then True
      else if allOf isDigit 11 fiscalCode then isValidItalianVatNumber (Some fiscalCode)
      else if \<not> allOf (\<lambda>c. isUpper c \<or> isDigit c) 16 fiscalCode then False
      else let total = (\<Sum>i\<leftarrow>[0..<15]. if (i + 1) mod 2 = 0 then orElse (fiscalCodeEvenMap (fiscalCode ! i)) 0 else orElse (fiscalCodeOddMap (fiscalCode ! i)) 0)
           in fiscalCode ! 15 = char_of (65 + total mod 26))"

definition hasEnoughIdentifierEntropy :: "string option \<Rightarrow> bool" where
  "hasEnoughIdentifierEntropy value =
     (let normalized = toUpperCase (onlyAlnum (trim (textOf value))) in
      \<not> length normalized < 4 \<and> \<not> (isRepeated normalized \<or> isSequential normalized \<or> isNumericRamp normalized) \<and>
      \<not> isLikelyPlaceholderText (Some normalized))"

definition isLikelyPlaceholderPhone :: "string option \<Rightarrow> bool" where
  "isLikelyPlaceholderPhone value =
     (let digits = onlyDigits (textOf value) in length digits < 6 \<or> isRepeated digits \<or> isNumericRamp digits)"

definition isLikelyPlaceholderPostalCode :: "string option \<Rightarrow> string option \<Rightarrow> bool" where
  "isLikelyPlaceholderPostalCode value country =
     (let compact = filter (\<lambda>c. isUpper c \<or> isDigit c) (normalizePostalCodeForCountry value country) in
      compact = [] \<or> isRepeated compact \<or> isNumericRamp compact \<or> compact \<in> set [''00000'', ''12345'', ''ABCDE'', ''XXXXX''])"

definition sdiBlacklist :: "string list" where
  "sdiBlacklist = [''0000000'', ''XXXXXXX'', ''ABCDEFG'', ''ABC1234'', ''123ABCD'', ''A1B2C3D'', ''TEST123'', ''PROVA12'', ''DEMO123'', ''FAKE123'',
     ''AAAAAAA'', ''1234567'', ''7654321'']"

definition isLikelyPlaceholderSdiCode :: "string option \<Rightarrow> bool" where
  "isLikelyPlaceholderSdiCode value =
     (let sdi = normalizeSdiCode value in
      sdi \<noteq> [] \<and> (sdi \<in> set sdiBlacklist \<or> isRepeated sdi \<or> isSequential sdi \<or> isNumericRamp sdi \<or> isLikelyPlaceholderText (Some sdi)))"

definition isValidSdiCodeFormat :: "string option \<Rightarrow> bool" where
  "isValidSdiCodeFormat value =
     (let sdi = normalizeSdiCode value in sdi = [] \<or> (sdiPattern sdi \<and> \<not> isLikelyPlaceholderSdiCode (Some sdi)))"

section \<open>The draft\<close>

record CompanyRegistrationDraft =
  cg_country :: "string option"
  cg_tenantName :: "string option"
  cg_vatNumber :: "string option"
  cg_taxCode :: "string option"
  cg_pec :: "string option"
  cg_sdiCode :: "string option"
  cg_legalAddress :: "string option"
  cg_city :: "string option"
  cg_province :: "string option"
  cg_postalCode :: "string option"
  cg_companyEmail :: "string option"
  cg_companyPhone :: "string option"

record CompanyRegistrationValidationError =
  ve_field :: string
  ve_code :: string

definition check :: "bool \<Rightarrow> string \<Rightarrow> string \<Rightarrow> CompanyRegistrationValidationError list" where
  "check wrong field code = (if wrong then [\<lparr>ve_field = field, ve_code = code\<rparr>] else [])"

definition validateCommon :: "CompanyRegistrationDraft \<Rightarrow> CompanyRegistrationValidationError list" where
  "validateCommon input =
     (let companyEmail = toLowerCase (trim (textOf (cg_companyEmail input))) in
      check (\<not> countryCodePattern (normalizeCountryCode (cg_country input))) ''country'' ''COUNTRY_INVALID'' @
      check (\<not> hasText (cg_tenantName input) \<or> isLikelyPlaceholderText (cg_tenantName input)) ''tenantName'' ''COMPANY_NAME_REQUIRED'' @
      check (\<not> hasText (cg_companyEmail input) \<or> \<not> emailPattern companyEmail \<or> isLikelyPlaceholderEmail (Some companyEmail)) ''companyEmail'' ''COMPANY_EMAIL_INVALID'' @
      check (\<not> hasText (cg_companyPhone input) \<or> isLikelyPlaceholderPhone (cg_companyPhone input)) ''companyPhone'' ''COMPANY_PHONE_REQUIRED'' @
      check (\<not> hasText (cg_legalAddress input) \<or> isLikelyPlaceholderText (cg_legalAddress input)) ''legalAddress'' ''LEGAL_ADDRESS_REQUIRED'')"

definition validateItalian :: "CompanyRegistrationDraft \<Rightarrow> string \<Rightarrow> CompanyRegistrationValidationError list" where
  "validateItalian input country =
     (let vat = normalizeVatNumberForCountry (cg_vatNumber input) (Some country);
          sdi = normalizeSdiCode (cg_sdiCode input);
          pec = toLowerCase (trim (textOf (cg_pec input)))
      in check (\<not> isValidItalianVatNumber (Some vat)) ''vatNumber'' ''VAT_NUMBER_INVALID'' @
         check (\<not> isValidItalianFiscalCode (cg_taxCode input)) ''taxCode'' ''TAX_CODE_INVALID'' @
         check (\<not> hasText (cg_city input) \<or> isLikelyPlaceholderText (cg_city input)) ''city'' ''CITY_REQUIRED'' @
         check (\<not> allOf isUpper 2 (toUpperCase (trim (textOf (cg_province input))))) ''province'' ''PROVINCE_INVALID'' @
         check (\<not> italianPostalCodePattern (normalizePostalCode (cg_postalCode input)) \<or>
           isLikelyPlaceholderPostalCode (cg_postalCode input) (Some country)) ''postalCode'' ''POSTAL_CODE_INVALID'' @
         check (pec = [] \<or> \<not> emailPattern pec \<or> isLikelyPlaceholderEmail (Some pec)) ''pec'' ''PEC_REQUIRED'' @
         check (sdi \<noteq> [] \<and> \<not> isValidSdiCodeFormat (Some sdi)) ''sdiCode'' ''SDI_CODE_INVALID'')"

definition validateForeign :: "CompanyRegistrationDraft \<Rightarrow> string \<Rightarrow> CompanyRegistrationValidationError list" where
  "validateForeign input country =
     check (\<not> hasEnoughIdentifierEntropy (Some (normalizeVatNumberForCountry (cg_vatNumber input) (Some country)))) ''vatNumber'' ''VAT_OR_TAX_ID_REQUIRED'' @
     check (\<not> hasText (cg_city input) \<or> isLikelyPlaceholderText (cg_city input)) ''city'' ''CITY_REQUIRED'' @
     check (\<not> hasText (cg_province input) \<or> isLikelyPlaceholderText (cg_province input)) ''province'' ''PROVINCE_REQUIRED'' @
     check (\<not> hasText (cg_postalCode input) \<or> isLikelyPlaceholderPostalCode (cg_postalCode input) (Some country)) ''postalCode'' ''POSTAL_CODE_REQUIRED''"

definition validateCompanyRegistrationDraft :: "CompanyRegistrationDraft \<Rightarrow> CompanyRegistrationValidationError list" where
  "validateCompanyRegistrationDraft input =
     (let country = normalizeCountryCode (cg_country input) in
      validateCommon input @ (if country = ''IT'' then validateItalian input country else validateForeign input country))"

section \<open>A sample\<close>

definition sampleDraft :: CompanyRegistrationDraft where
  "sampleDraft = \<lparr>cg_country = None, cg_tenantName = Some ''Rossi Noleggi S.r.l.'', cg_vatNumber = Some ''IT 0764 3520 567'', cg_taxCode = Some ''RSS MRA 80A01 H501U'',
     cg_pec = Some ''rossi@pec.rossinoleggi.it'', cg_sdiCode = Some ''m5uxcr1'', cg_legalAddress = Some ''Via Roma 5'', cg_city = Some ''Palermo'',
     cg_province = Some ''pa'', cg_postalCode = Some ''90121'', cg_companyEmail = Some ''info@rossinoleggi.it'', cg_companyPhone = Some ''+39 091 555 2841''\<rparr>"

lemma sample_draft_accepted: "validateCompanyRegistrationDraft sampleDraft = []"
  by code_simp


section \<open>The check digit\<close>

definition checkSum :: "string \<Rightarrow> nat" where
  "checkSum vat = (\<Sum>i\<leftarrow>[0..<length vat]. vatDigit i (vat ! i))"

definition digits11 :: "string \<Rightarrow> bool" where
  "digits11 vat \<longleftrightarrow> length vat = 11 \<and> list_all isDigit vat"

definition swapAt :: "nat \<Rightarrow> string \<Rightarrow> string" where
  "swapAt i s = s[i := s ! Suc i, Suc i := s ! i]"

lemma isDigit_values: "isDigit c \<longleftrightarrow> (\<exists>k < 10. c = char_of (48 + k :: nat))"
proof
  assume "isDigit c"
  then have "c = char_of (48 + (of_char c - 48) :: nat)" "of_char c - 48 < (10 :: nat)"
    by (auto simp: isDigit_def)
  then show "\<exists>k < 10. c = char_of (48 + k :: nat)" by blast
qed (auto simp: isDigit_def)

lemma digitVal_of: "k < 10 \<Longrightarrow> digitVal (char_of (48 + k :: nat)) = k"
  by (simp add: digitVal_def Let_def)

lemma digitVal_less: "isDigit c \<Longrightarrow> digitVal c < 10"
  by (auto simp: isDigit_values digitVal_of)

lemma digitVal_inj: "isDigit c \<Longrightarrow> isDigit d \<Longrightarrow> digitVal c = digitVal d \<Longrightarrow> c = d"
  by (auto simp: isDigit_values digitVal_of)

lemma vatDigit_less: "isDigit c \<Longrightarrow> vatDigit i c < 10"
  using digitVal_less [of c] by (auto simp: vatDigit_def Let_def)

lemma vatDigit_inj:
  assumes "isDigit c" and "isDigit d" and "vatDigit i c = vatDigit i d"
  shows "c = d"
proof (rule digitVal_inj [OF assms(1,2)])
  show "digitVal c = digitVal d"
    using assms(3) digitVal_less [OF assms(1)] digitVal_less [OF assms(2)]
    by (simp add: vatDigit_def Let_def split: if_splits; presburger)
qed

lemma checkSum_update:
  assumes "i < length s"
  shows "checkSum (s[i := d]) + vatDigit i (s ! i) = checkSum s + vatDigit i d"
proof -
  have split: "checkSum t = (\<Sum>j\<in>{..<length t} - {i}. vatDigit j (t ! j)) + vatDigit i (t ! i)" if "i < length t" for t
    using that by (simp add: checkSum_def interv_sum_list_conv_sum_set_nat atLeast0LessThan sum.remove add.commute)
  have "(\<Sum>j\<in>{..<length s} - {i}. vatDigit j (s[i := d] ! j)) = (\<Sum>j\<in>{..<length s} - {i}. vatDigit j (s ! j))"
    by (rule sum.cong) auto
  then show ?thesis using split [of "s[i := d]"] split [of s] assms by simp
qed

lemma valid_vat_iff:
  "digits11 vat \<Longrightarrow> isValidItalianVatNumber (Some vat) \<longleftrightarrow> \<not> isRepeated vat \<and> \<not> isNumericRamp vat \<and> checkSum vat mod 10 = 0"
  by (simp add: isValidItalianVatNumber_def normalizeItalianVatNumber_def onlyDigits_def digits11_def allOf_def
      checkSum_def Let_def list_all_iff filter_True)

lemma cancel_mod:
  assumes "a + x = b + y" and "a mod n = b mod (n :: nat)"
  shows "x mod n = y mod n"
proof -
  have "x + n * (a div n) = y + n * (b div n)"
    using assms mult_div_mod_eq [of n a] mult_div_mod_eq [of n b] by linarith
  then have "(x + n * (a div n)) mod n = (y + n * (b div n)) mod n" by simp
  then show ?thesis by simp
qed

lemma checkSum_mod_update:
  assumes "i < length s" and "isDigit d" and "isDigit (s ! i)" and "d \<noteq> s ! i"
  shows "checkSum (s[i := d]) mod 10 \<noteq> checkSum s mod 10"
proof
  assume eq: "checkSum (s[i := d]) mod 10 = checkSum s mod 10"
  have "vatDigit i d mod 10 = vatDigit i (s ! i) mod 10"
    using cancel_mod [OF checkSum_update [OF assms(1), of d] eq] by simp
  then have "vatDigit i d = vatDigit i (s ! i)"
    using vatDigit_less [OF assms(2)] vatDigit_less [OF assms(3)] by simp
  with vatDigit_inj assms(2-4) show False by blast
qed

definition doubled :: "nat \<Rightarrow> nat" where
  "doubled a = (if 9 < a * 2 then a * 2 - 9 else a * 2)"

lemma vatDigit_doubled: "vatDigit i c = (if odd i then doubled (digitVal c) else digitVal c)"
  by (simp add: vatDigit_def doubled_def Let_def odd_iff_mod_2_eq_one)

lemma weight_table: "\<forall>a \<in> set [0..<10]. \<forall>b \<in> set [0..<10]. (doubled a + b) mod 10 = (doubled b + a) mod 10 \<longrightarrow> a = b \<or> (a, b) \<in> {(0, 9), (9, 0)}"
  by code_simp

lemma weight_gap:
  "a < 10 \<Longrightarrow> b < 10 \<Longrightarrow> (doubled a + b) mod 10 = (doubled b + a) mod 10 \<Longrightarrow> a = b \<or> (a, b) \<in> {(0, 9), (9, 0)}"
  using weight_table by simp

lemma checkSum_mod_swap:
  assumes "Suc i < length s" and "isDigit (s ! i)" and "isDigit (s ! Suc i)" and "s ! i \<noteq> s ! Suc i"
    and "{s ! i, s ! Suc i} \<noteq> {CHR ''0'', CHR ''9''}"
  shows "checkSum (swapAt i s) mod 10 \<noteq> checkSum s mod 10"
proof
  assume eq: "checkSum (swapAt i s) mod 10 = checkSum s mod 10"
  let ?a = "s ! i" and ?b = "s ! Suc i"
  have "checkSum (swapAt i s) + vatDigit (Suc i) ?b + vatDigit i ?a = checkSum s + vatDigit (Suc i) ?a + vatDigit i ?b"
    using checkSum_update [of "Suc i" "s[i := ?b]" ?a] checkSum_update [of i s ?b] assms(1) by (simp add: swapAt_def)
  then have "(vatDigit (Suc i) ?b + vatDigit i ?a) mod 10 = (vatDigit (Suc i) ?a + vatDigit i ?b) mod 10"
    using cancel_mod [OF _ eq] by (metis add.assoc)
  then have "digitVal ?a = digitVal ?b \<or> (digitVal ?a, digitVal ?b) \<in> {(0, 9), (9, 0)}"
    using weight_gap [of "digitVal ?a" "digitVal ?b"] weight_gap [of "digitVal ?b" "digitVal ?a"] digitVal_less [OF assms(2)] digitVal_less [OF assms(3)]
    by (cases "even i") (auto simp: vatDigit_doubled add.commute)
  moreover have "c = CHR ''0''" if "isDigit c" "digitVal c = 0" for c
    using digitVal_inj [of c "CHR ''0''"] that by (simp add: isDigit_def digitVal_def)
  moreover have "c = CHR ''9''" if "isDigit c" "digitVal c = 9" for c
    using digitVal_inj [of c "CHR ''9''"] that by (simp add: isDigit_def digitVal_def)
  ultimately show False
    using assms(2-5) digitVal_inj [of ?a ?b] by (auto simp: doubleton_eq_iff)
qed

text \<open>
  The check digit of an Italian VAT number catches typing errors: in an accepted number of eleven digits, changing any
  one digit, or exchanging two different neighbouring digits other than 0 and 9, gives a number the validation refuses.
\<close>
theorem vat_check_digit_detects_errors:
  assumes "digits11 vat" and "isValidItalianVatNumber (Some vat)"
  shows "(\<forall>i < 11. \<forall>d. isDigit d \<and> d \<noteq> vat ! i \<longrightarrow> \<not> isValidItalianVatNumber (Some (vat[i := d]))) \<and>
         (\<forall>i < 10. vat ! i \<noteq> vat ! Suc i \<and> {vat ! i, vat ! Suc i} \<noteq> {CHR ''0'', CHR ''9''} \<longrightarrow>
            \<not> isValidItalianVatNumber (Some (swapAt i vat)))"
proof -
  have ok: "checkSum vat mod 10 = 0" using assms by (simp add: valid_vat_iff)
  have dig: "isDigit (vat ! k)" if "k < 11" for k using assms(1) that by (simp add: digits11_def list_all_length)
  have one: "\<not> isValidItalianVatNumber (Some (vat[i := d]))" if "i < 11" "isDigit d" "d \<noteq> vat ! i" for i d
  proof -
    have "digits11 (vat[i := d])" using assms(1) that by (auto simp: digits11_def list_all_iff dest: subsetD [OF set_update_subset_insert])
    with ok that dig show ?thesis using checkSum_mod_update [of i vat d] assms(1) by (auto simp: valid_vat_iff digits11_def)
  qed
  have two: "\<not> isValidItalianVatNumber (Some (swapAt j vat))"
    if "j < 10" "vat ! j \<noteq> vat ! Suc j" "{vat ! j, vat ! Suc j} \<noteq> {CHR ''0'', CHR ''9''}" for j
  proof -
    have "digits11 (swapAt j vat)" using assms(1) that dig by (auto simp: digits11_def swapAt_def list_all_length nth_list_update)
    moreover have "checkSum (swapAt j vat) mod 10 \<noteq> 0"
      using checkSum_mod_swap [of j vat] ok that dig [of j] dig [of "Suc j"] assms(1) by (auto simp: digits11_def)
    ultimately show ?thesis by (simp add: valid_vat_iff)
  qed
  show ?thesis using one two by blast
qed

text \<open>An instance of the preceding theorem: the number of the sample, with a wrong digit and with two digits exchanged.\<close>
theorem vat_check_digit_detects_errors_witness:
  "isValidItalianVatNumber (Some ''07643520567'') \<and> \<not> isValidItalianVatNumber (Some ''07643520568'') \<and> \<not> isValidItalianVatNumber (Some ''07643250567'')"
proof -
  have a: "digits11 ''07643520567''" "isValidItalianVatNumber (Some ''07643520567'')" by code_simp+
  note two = vat_check_digit_detects_errors [OF this]
  have "\<not> isValidItalianVatNumber (Some (''07643520567''[10 := CHR ''8'']))"
    using conjunct1 [OF two, rule_format, of 10 "CHR ''8''"] by (simp add: isDigit_def)
  moreover have "\<not> isValidItalianVatNumber (Some (swapAt 5 ''07643520567''))"
    using conjunct2 [OF two, rule_format, of 5] by (simp add: doubleton_eq_iff)
  ultimately show ?thesis using a(2) by (simp add: swapAt_def)
qed

section \<open>Normal forms are stable\<close>

text \<open>What the service stores is a normal form of what was entered; the lemmas say that every check reads both alike.\<close>

named_theorems normal_forms "normalisations applied twice"

lemma isSpace_toUpperChar [simp]: "isSpace (toUpperChar c) = isSpace c"
  by (auto simp: isSpace_def toUpperChar_def Let_def)

lemma isSpace_toLowerChar [simp]: "isSpace (toLowerChar c) = isSpace c"
  by (auto simp: isSpace_def toLowerChar_def Let_def)

lemma trim_map: "(\<And>c. isSpace (f c) = isSpace c) \<Longrightarrow> trim (map f s) = map f (trim s)"
  by (simp add: trim_def rev_map dropWhile_map comp_def)

lemma trim_trim [simp]: "trim (trim s) = trim s"
proof -
  have "dropWhile isSpace (rev (dropWhile isSpace (rev (dropWhile isSpace s)))) = rev (dropWhile isSpace (rev (dropWhile isSpace s)))"
  proof (cases "rev (dropWhile isSpace (rev (dropWhile isSpace s)))")
    case (Cons c cs)
    moreover have "rev (dropWhile isSpace (rev t)) = c # cs \<Longrightarrow> \<exists>u. t = c # u" for t
      by (metis append_Cons rev_append rev_rev_ident takeWhile_dropWhile_id)
    ultimately obtain u where "dropWhile isSpace s = c # u" by blast
    then have "\<not> isSpace c" by (simp add: dropWhile_eq_Cons_conv)
    with Cons show ?thesis by simp
  next
    case Nil
    then show ?thesis by (metis dropWhile.simps(1))
  qed
  then show ?thesis by (simp add: trim_def)
qed

lemma trim_toUpperCase [simp]: "trim (toUpperCase s) = toUpperCase (trim s)"
  by (simp add: toUpperCase_def trim_map)

lemma trim_toLowerCase [simp]: "trim (toLowerCase s) = toLowerCase (trim s)"
  by (simp add: toLowerCase_def trim_map)

lemma filter_dropWhile: "(\<And>c. P c \<Longrightarrow> \<not> Q c) \<Longrightarrow> filter Q (dropWhile P s) = filter Q s"
  by (induction s) auto

lemma filter_trim: "(\<And>c. isSpace c \<Longrightarrow> \<not> Q c) \<Longrightarrow> filter Q (trim s) = filter Q s"
  by (simp add: trim_def filter_dropWhile flip: rev_filter)

lemma not_space_digit: "isSpace c \<Longrightarrow> \<not> isDigit c"
  by (auto simp: isSpace_def isDigit_def)

lemma not_space_alnum: "isSpace c \<Longrightarrow> \<not> (isUpper c \<or> isLower c \<or> isDigit c)"
  by (auto simp: isSpace_def isDigit_def isUpper_def isLower_def)

lemma replaceRuns_filter: "replaceRuns P [] s = filter (\<lambda>c. \<not> P c) s"
  by (induction P "[] :: string" s rule: replaceRuns.induct) (auto simp: filter_dropWhile)

lemma filter_replaceRuns:
  "(\<And>c. P c \<Longrightarrow> \<not> Q c) \<Longrightarrow> filter Q r = [] \<Longrightarrow> filter Q (replaceRuns P r s) = filter Q s"
  by (induction P r s rule: replaceRuns.induct) (auto simp: filter_dropWhile)

lemma length_replaceRuns: "length r \<le> 1 \<Longrightarrow> length (replaceRuns P r s) \<le> length s"
proof (induction P r s rule: replaceRuns.induct)
  case (2 P r x xs)
  then show ?case using length_dropWhile_le [of P xs] by (auto intro: order_trans)
qed simp

lemma set_replaceRuns: "set (replaceRuns P r s) \<subseteq> set r \<union> set s"
  by (induction P r s rule: replaceRuns.induct) (auto dest: set_dropWhileD)

lemma length_trim: "length (trim s) \<le> length s"
  by (simp add: trim_def) (metis length_dropWhile_le length_rev order_trans)

lemma set_trim: "set (trim s) \<subseteq> set s"
  by (auto simp: trim_def dest!: set_dropWhileD)

lemma toUpperCase_id: "(\<And>c. c \<in> set s \<Longrightarrow> toUpperChar c = c) \<Longrightarrow> toUpperCase s = s"
  by (simp add: toUpperCase_def map_idI)

lemma set_toUpperCase: "c \<in> set (toUpperCase s) \<Longrightarrow> toUpperChar c = c"
  by (auto simp: toUpperCase_def)

lemma alnum_upper: "isUpper c \<or> isLower c \<or> isDigit c \<Longrightarrow> isUpper (toUpperChar c) \<or> isLower (toUpperChar c) \<or> isDigit (toUpperChar c)"
  by (auto simp: isUpper_def isLower_def isDigit_def toUpperChar_def Let_def)

lemma onlyDigits_idem [normal_forms]: "onlyDigits (onlyDigits s) = onlyDigits s"
  by (simp add: onlyDigits_def)

lemma onlyDigits_trim [normal_forms]: "onlyDigits (trim s) = onlyDigits s"
  by (simp add: onlyDigits_def filter_trim not_space_digit)

lemma onlyDigits_take [normal_forms]: "onlyDigits (take n (onlyDigits s)) = take n (onlyDigits s)"
  by (auto simp: onlyDigits_def filter_id_conv dest: in_set_takeD)

lemma normalizeTaxCode_idem [normal_forms]: "normalizeTaxCode (Some (normalizeTaxCode v)) = normalizeTaxCode v"
proof -
  have "trim (filter (\<lambda>c. \<not> isSpace c) t) = filter (\<lambda>c. \<not> isSpace c) t" for t
    by (rule trim_no_space) simp
  moreover have "toUpperCase (filter (\<lambda>c. \<not> isSpace c) (toUpperCase (filter (\<lambda>c. \<not> isSpace c) t))) = toUpperCase (filter (\<lambda>c. \<not> isSpace c) t)" for t
    by (simp add: toUpperCase_def filter_map comp_def)
  ultimately show ?thesis by (simp add: normalizeTaxCode_def replaceRuns_filter filter_trim)
qed

lemma normalizeSdiCode_idem [normal_forms]: "normalizeSdiCode (Some (normalizeSdiCode v)) = normalizeSdiCode v"
proof -
  define w where "w = take 7 (toUpperCase (onlyAlnum (trim (textOf v))))"
  have "isUpper c \<or> isLower c \<or> isDigit c" and "toUpperChar c = c" if "c \<in> set w" for c
    using that unfolding w_def onlyAlnum_def toUpperCase_def by (auto dest!: in_set_takeD simp del: de_Morgan_disj) (metis alnum_upper)+
  moreover from this have "trim w = w" by (metis not_space_alnum trim_no_space)
  ultimately have "take 7 (toUpperCase (onlyAlnum (trim w))) = take 7 w"
    by (simp add: onlyAlnum_def toUpperCase_id filter_id_conv)
  then show ?thesis by (simp add: normalizeSdiCode_def w_def)
qed

lemma normalizeCountryCode_idem [normal_forms]: "normalizeCountryCode (Some (normalizeCountryCode v)) = normalizeCountryCode v"
  by (simp add: normalizeCountryCode_def)

lemma hasText_trim [normal_forms]: "hasText (Some (trim s)) = hasText (Some s)"
  by (simp add: hasText_def)

lemma comparable_trim [normal_forms]: "comparable (Some (trim s)) = comparable (Some s)"
  by (simp add: comparable_def)

lemma accentBase_ascii: "n < 192 \<Longrightarrow> accentBase n = None"
  by (simp add: accentBase_def Let_def)

lemma foldChar_upper [simp]: "foldChar (toUpperChar c) = foldChar c"
proof (cases "97 \<le> (of_char c :: nat) \<and> (of_char c :: nat) \<le> 122")
  case True
  define n :: nat where "n = of_char c - 32"
  have "toUpperChar c = char_of n" and n: "65 \<le> n" "n \<le> 90" and c: "c = char_of (n + 32)"
    using True by (auto simp: toUpperChar_def Let_def n_def)
  moreover have "of_char (char_of n :: char) = n" "of_char (char_of (n + 32) :: char) = n + 32" using n by simp_all
  ultimately show ?thesis by (simp add: foldChar_def accentBase_ascii toLowerChar_def Let_def)
next
  case False
  then have "toUpperChar c = c" by (auto simp: toUpperChar_def Let_def)
  then show ?thesis by simp
qed

lemma comparable_upper [normal_forms]: "comparable (Some (toUpperCase s)) = comparable (Some s)"
  by (simp add: comparable_def toUpperCase_def trim_map comp_def)

lemma placeholder_trim [normal_forms]: "isLikelyPlaceholderText (Some (trim s)) = isLikelyPlaceholderText (Some s)"
  by (simp add: isLikelyPlaceholderText_def comparable_trim)

lemma placeholder_upper [normal_forms]: "isLikelyPlaceholderText (Some (toUpperCase s)) = isLikelyPlaceholderText (Some s)"
  by (simp add: isLikelyPlaceholderText_def comparable_upper)

text \<open>A foreign postal code is cut at sixteen characters and may then end in a blank; what is left of it without blanks is stable.\<close>

lemma foreign_postal_compact [normal_forms]:
  defines "keep \<equiv> filter (\<lambda>c. isUpper c \<or> isDigit c)"
  shows "keep (normalizePostalCodeForCountry (Some (normalizePostalCodeForCountry v c)) c) = keep (normalizePostalCodeForCountry v c)"
proof (cases "normalizeCountryCode c = ''IT''")
  case True
  then show ?thesis by (simp add: normalizePostalCodeForCountry_def normalizePostalCode_def onlyDigits_take)
next
  case False
  define y where "y = take 16 (toUpperCase (replaceRuns isSpace '' '' (trim (textOf v))))"
  let ?z = "replaceRuns isSpace '' '' (trim y)"
  have "length ?z \<le> 16"
    using length_replaceRuns [of "'' ''" isSpace "trim y"] length_trim [of y] by (simp add: y_def)
  moreover have "toUpperCase ?z = ?z"
  proof (rule toUpperCase_id)
    fix c assume "c \<in> set ?z"
    then have "c = CHR '' '' \<or> c \<in> set y" using set_replaceRuns [of isSpace "'' ''" "trim y"] set_trim [of y] by auto
    then show "toUpperChar c = c"
    proof
      assume "c \<in> set y"
      then show ?thesis unfolding y_def by (blast dest: in_set_takeD set_toUpperCase)
    qed (simp add: toUpperChar_def)
  qed
  moreover have "keep ?z = keep y"
  proof -
    have blank: "\<not> (isUpper c \<or> isDigit c)" if "isSpace c" for c using not_space_alnum [OF that] by blast
    then have "keep '' '' = []" by (simp add: keep_def isSpace_def)
    with blank show ?thesis unfolding keep_def by (simp add: filter_replaceRuns filter_trim)
  qed
  ultimately show ?thesis using False by (simp add: normalizePostalCodeForCountry_def flip: y_def)
qed

section \<open>A refused place\<close>

text \<open>
  90123 is a postal code of the city of Palermo.  Its digits stand in the ramp \<open>...8901234...\<close>, which the check for made-up
  numbers searches, so no company with this address can be registered.
\<close>
theorem real_postal_code_rejected:
  assumes "normalizeCountryCode (cg_country d) = ''IT''" and "normalizePostalCode (cg_postalCode d) \<in> {''90123'', ''89012''}"
  shows "\<lparr>ve_field = ''postalCode'', ve_code = ''POSTAL_CODE_INVALID''\<rparr> \<in> set (validateCompanyRegistrationDraft d)"
proof -
  have ramps: "isNumericRamp ''90123''" "isNumericRamp ''89012''" by code_simp+
  have compact: "filter (\<lambda>c. isUpper c \<or> isDigit c) (normalizePostalCode v) = normalizePostalCode v" for v
    by (auto simp: normalizePostalCode_def onlyDigits_def filter_id_conv dest: in_set_takeD)
  have "isLikelyPlaceholderPostalCode (cg_postalCode d) (Some ''IT'')"
    using assms(2) ramps by (auto simp: isLikelyPlaceholderPostalCode_def normalizePostalCodeForCountry_def normalizeCountryCode_def
        toUpperCase_def trim_def toUpperChar_def isSpace_def compact)
  then show ?thesis
    using assms(1) by (simp add: validateCompanyRegistrationDraft_def validateItalian_def Let_def check_def [of True])
qed

end
