(* ===== verification/Storage_Provider.thy ===== *)
theory Storage_Provider
  imports Company_Registration Auth_Session
begin

text \<open>
  Stored files: the local provider of \<^verbatim>\<open>backend/src/infrastructure/storage/storage-provider.ts\<close> on a model of the file
  system, and the storage keys of \<^verbatim>\<open>upload-lifecycle.ts\<close>.  A path is a string; the disk maps absolute paths to files,
  directories and symbolic links, which are never followed.  Whether a system call fails for a reason outside the model (permissions,
  a full disk) is the parameter \<open>dk_fault\<close>; a failed write may leave a torn file, \<open>dk_torn\<close>.  Metrics are not modelled.
\<close>

section \<open>Paths\<close>

text \<open>\<open>path.posix\<close>: splitting, joining and the removal of \<open>.\<close> and \<open>..\<close>.\<close>

fun splitChar :: "char \<Rightarrow> string \<Rightarrow> string list" where
  "splitChar c [] = [[]]"
| "splitChar c (x # xs) =
     (if x = c then [] # splitChar c xs
      else case splitChar c xs of [] \<Rightarrow> [[x]] | y # ys \<Rightarrow> (x # y) # ys)"

fun joinWith :: "string \<Rightarrow> string list \<Rightarrow> string" where
  "joinWith sep [] = []"
| "joinWith sep [x] = x"
| "joinWith sep (x # xs) = x @ sep @ joinWith sep xs"

fun normSegments :: "bool \<Rightarrow> string list \<Rightarrow> string list \<Rightarrow> string list" where
  "normSegments up acc [] = rev acc"
| "normSegments up acc (x # xs) =
     (if x = [] \<or> x = ''.'' then normSegments up acc xs
      else if x = ''..'' then
        (case acc of
           y # ys \<Rightarrow> if y \<noteq> ''..'' then normSegments up ys xs
                    else normSegments up (if up then x # acc else acc) xs
         | [] \<Rightarrow> normSegments up (if up then [x] else []) xs)
      else normSegments up (x # acc) xs)"

definition normalizeString :: "string \<Rightarrow> bool \<Rightarrow> string" where
  "normalizeString p up = joinWith ''/'' (normSegments up [] (splitChar CHR ''/'' p))"

definition posixNormalize :: "string \<Rightarrow> string" where
  "posixNormalize p =
     (if p = [] then ''.''
      else let absolute = (p ! 0 = CHR ''/''); trailing = (last p = CHR ''/''); q = normalizeString p (\<not> absolute) in
        if q = [] then (if absolute then ''/'' else if trailing then ''./'' else ''.'')
        else (if absolute then ''/'' else []) @ q @ (if trailing then ''/'' else []))"

definition posixJoin :: "string list \<Rightarrow> string" where
  "posixJoin args = (let xs = filter (\<lambda>x. x \<noteq> []) args in if xs = [] then ''.'' else posixNormalize (joinWith ''/'' xs))"

definition startsWith :: "string \<Rightarrow> string \<Rightarrow> bool" where
  "startsWith s p \<longleftrightarrow> take (length p) s = p"

text \<open>\<open>path.resolve(base, p)\<close> for an absolute base.\<close>

definition posixResolve :: "string \<Rightarrow> string \<Rightarrow> string" where
  "posixResolve base p = ''/'' @ normalizeString (if startsWith p ''/'' then p else base @ ''/'' @ p) False"

definition dirname :: "string \<Rightarrow> string" where
  "dirname p = ''/'' @ joinWith ''/'' (butlast (filter (\<lambda>x. x \<noteq> []) (splitChar CHR ''/'' p)))"

text \<open>The path and the directories above it, from the root down.\<close>

definition pathPrefixes :: "string \<Rightarrow> string list" where
  "pathPrefixes p =
     (let segments = filter (\<lambda>x. x \<noteq> []) (splitChar CHR ''/'' p)
      in map (\<lambda>i. ''/'' @ joinWith ''/'' (take (Suc i) segments)) [0..<length segments])"

section \<open>Keys\<close>

definition backslash :: char where "backslash = char_of (92 :: nat)"

definition unixSlashes :: "string \<Rightarrow> string" where
  "unixSlashes = map (\<lambda>c. if c = backslash then CHR ''/'' else c)"

definition normalizeSegment :: "string \<Rightarrow> string" where
  "normalizeSegment s = rev (dropWhile (\<lambda>c. c = CHR ''/'') (rev (dropWhile (\<lambda>c. c = CHR ''/'') (unixSlashes s))))"

definition buildKey :: "string list \<Rightarrow> string" where
  "buildKey segments = posixJoin (filter (\<lambda>x. x \<noteq> []) (map normalizeSegment segments))"

definition assertSafeStorageKey :: "string \<Rightarrow> app_error + string" where
  "assertSafeStorageKey key =
     (let normalized = unixSlashes key in
      if normalized = [] \<or> startsWith normalized ''/'' \<or> includesText normalized ''..'' \<or> includesText normalized ''//''
      then Inl (AppError 400 ''INVALID_STORAGE_KEY'') else Inr normalized)"

definition mimeExtensions :: "(string \<times> string) list" where
  "mimeExtensions = [(''image/jpeg'', ''.jpg''), (''image/png'', ''.png''), (''image/webp'', ''.webp''), (''application/pdf'', ''.pdf''),
     (''text/plain'', ''.txt''), (''text/csv'', ''.csv''), (''application/msword'', ''.doc''),
     (''application/vnd.openxmlformats-officedocument.wordprocessingml.document'', ''.docx''), (''application/vnd.ms-excel'', ''.xls''),
     (''application/vnd.openxmlformats-officedocument.spreadsheetml.sheet'', ''.xlsx'')]"

definition trustedExtensionForMime :: "string \<Rightarrow> string" where
  "trustedExtensionForMime mimeType = orElse (map_of mimeExtensions mimeType) ''.bin''"

definition tenantSegment :: "string \<Rightarrow> bool" where
  "tenantSegment s \<longleftrightarrow> s \<noteq> [] \<and> list_all (\<lambda>c. isUpper c \<or> isLower c \<or> isDigit c \<or> c = CHR ''_'' \<or> c = CHR ''-'') s"

definition categorySegment :: "string \<Rightarrow> bool" where
  "categorySegment s \<longleftrightarrow> s \<noteq> [] \<and> list_all (\<lambda>c. isLower c \<or> isDigit c \<or> c = CHR ''-'') s"

text \<open>\<open>uuid\<close> is the result of \<open>crypto.randomUUID()\<close>.\<close>

definition buildTenantStorageKey :: "string \<Rightarrow> string \<Rightarrow> string \<Rightarrow> string \<Rightarrow> app_error + string" where
  "buildTenantStorageKey uuid tenantId category mimeType =
     (if \<not> tenantSegment tenantId then Inl (AppError 500 ''INVALID_STORAGE_TENANT'')
      else if \<not> categorySegment category then Inl (AppError 500 ''INVALID_STORAGE_CATEGORY'')
      else Inr (buildKey [''tenants'', tenantId, category, uuid @ trustedExtensionForMime mimeType]))"

section \<open>The file system\<close>

datatype fsEntry = FileEntry string | DirEntry | LinkEntry

datatype diskFault = EACCES | EIO | ENOSPC | EROFS | EMFILE | EBUSY

fun faultCode :: "diskFault \<Rightarrow> string" where
  "faultCode EACCES = ''EACCES''"
| "faultCode EIO = ''EIO''"
| "faultCode ENOSPC = ''ENOSPC''"
| "faultCode EROFS = ''EROFS''"
| "faultCode EMFILE = ''EMFILE''"
| "faultCode EBUSY = ''EBUSY''"

record disk_db = auth_db +
  diskEntries :: "string \<rightharpoonup> fsEntry"

record disk_env =
  dk_cwd :: string
  dk_uploadDir :: string
  dk_realpath :: "string \<Rightarrow> string option"
  dk_fault :: "string \<Rightarrow> string \<Rightarrow> diskFault option"
  dk_torn :: "string \<Rightarrow> string option"

definition fileIn :: "(string \<rightharpoonup> fsEntry) \<Rightarrow> string \<Rightarrow> string option" where
  "fileIn d p = (case d p of Some (FileEntry c) \<Rightarrow> Some c | _ \<Rightarrow> None)"

abbreviation fileAt :: "'z disk_db_scheme \<Rightarrow> string \<Rightarrow> string option" where
  "fileAt s \<equiv> fileIn (diskEntries s)"

definition putEntry :: "string \<Rightarrow> fsEntry \<Rightarrow> (app_error, 'z disk_db_scheme, unit) prog" where
  "putEntry p e = modifyP (\<lambda>s. s\<lparr>diskEntries := (diskEntries s)(p \<mapsto> e)\<rparr>)"

text \<open>A system call that may fail for outside reasons, and the calls the provider uses.\<close>

definition faultP :: "disk_env \<Rightarrow> string \<Rightarrow> string \<Rightarrow> (app_error, 's, unit) prog" where
  "faultP E call p = (case dk_fault E call p of None \<Rightarrow> returnP () | Some c \<Rightarrow> throwP (SystemError (faultCode c)))"

definition lstatP :: "disk_env \<Rightarrow> string \<Rightarrow> (app_error, 'z disk_db_scheme, fsEntry) prog" where
  "lstatP E p =
     seqP (faultP E ''lstat'' p)
       (bindP (getsP diskEntries) (\<lambda>d.
          case d (dirname p) of Some (FileEntry _) \<Rightarrow> throwP (SystemError ''ENOTDIR'')
          | _ \<Rightarrow> ofOptionP (SystemError ''ENOENT'') (d p)))"

fun mkdirAll :: "string \<Rightarrow> string list \<Rightarrow> (app_error, 'z disk_db_scheme, unit) prog" where
  "mkdirAll dir [] = returnP ()"
| "mkdirAll dir (p # ps) =
     bindP (getsP diskEntries) (\<lambda>d.
       case d p of
         None \<Rightarrow> seqP (putEntry p DirEntry) (mkdirAll dir ps)
       | Some (FileEntry _) \<Rightarrow> throwP (SystemError (if p = dir then ''EEXIST'' else ''ENOTDIR''))
       | Some _ \<Rightarrow> mkdirAll dir ps)"

definition mkdirP :: "disk_env \<Rightarrow> string \<Rightarrow> (app_error, 'z disk_db_scheme, unit) prog" where
  "mkdirP E dir = seqP (faultP E ''mkdir'' dir) (mkdirAll dir (pathPrefixes dir))"

definition readFileP :: "disk_env \<Rightarrow> string \<Rightarrow> (app_error, 'z disk_db_scheme, string) prog" where
  "readFileP E p =
     seqP (faultP E ''read'' p)
       (bindP (getsP diskEntries) (\<lambda>d.
          case d p of Some (FileEntry c) \<Rightarrow> returnP c | Some DirEntry \<Rightarrow> throwP (SystemError ''EISDIR'') | _ \<Rightarrow> throwP (SystemError ''ENOENT'')))"

text \<open>A write that fails may leave the torn beginning of the new content.\<close>

definition putFile :: "disk_env \<Rightarrow> string \<Rightarrow> string \<Rightarrow> (app_error, 'z disk_db_scheme, unit) prog" where
  "putFile E p c =
     (case dk_fault E ''write'' p of
        None \<Rightarrow> putEntry p (FileEntry c)
      | Some code \<Rightarrow> seqP (case dk_torn E p of None \<Rightarrow> returnP () | Some t \<Rightarrow> putEntry p (FileEntry t)) (throwP (SystemError (faultCode code))))"

definition writeFileP :: "disk_env \<Rightarrow> string \<Rightarrow> string \<Rightarrow> (app_error, 'z disk_db_scheme, unit) prog" where
  "writeFileP E p c =
     bindP (getsP diskEntries) (\<lambda>d. if d p = Some DirEntry then throwP (SystemError ''EISDIR'') else putFile E p c)"

definition writeFileExclP :: "disk_env \<Rightarrow> string \<Rightarrow> string \<Rightarrow> (app_error, 'z disk_db_scheme, unit) prog" where
  "writeFileExclP E p c =
     bindP (getsP diskEntries) (\<lambda>d. if d p \<noteq> None then throwP (SystemError ''EEXIST'') else putFile E p c)"

text \<open>A failed copy removes its destination.\<close>

definition copyFileExclP :: "disk_env \<Rightarrow> string \<Rightarrow> string \<Rightarrow> (app_error, 'z disk_db_scheme, unit) prog" where
  "copyFileExclP E src p =
     bindP (readFileP E src) (\<lambda>c.
       bindP (getsP diskEntries) (\<lambda>d.
         if d p \<noteq> None then throwP (SystemError ''EEXIST'')
         else seqP (faultP E ''copy'' p) (putEntry p (FileEntry c))))"

definition unlinkP :: "disk_env \<Rightarrow> string \<Rightarrow> (app_error, 'z disk_db_scheme, unit) prog" where
  "unlinkP E p =
     seqP (faultP E ''unlink'' p)
       (bindP (getsP diskEntries) (\<lambda>d.
          case d p of None \<Rightarrow> throwP (SystemError ''ENOENT'')
          | Some DirEntry \<Rightarrow> throwP (SystemError ''EPERM'')
          | Some _ \<Rightarrow> modifyP (\<lambda>s. s\<lparr>diskEntries := (diskEntries s)(p := None)\<rparr>)))"

definition statP :: "disk_env \<Rightarrow> string \<Rightarrow> (app_error, 'z disk_db_scheme, unit) prog" where
  "statP E p = seqP (faultP E ''stat'' p) (bindP (getsP diskEntries) (\<lambda>d. assertP (d p \<noteq> None) (SystemError ''ENOENT'')))"

section \<open>The local provider\<close>

definition rootAliases :: "(string \<times> string) list" where
  "rootAliases = [(''/tmp'', ''/private/tmp''), (''/var'', ''/private/var'')]"

definition canonicalUploadRoot :: "disk_env \<Rightarrow> string" where
  "canonicalUploadRoot E =
     (let resolved = posixResolve (dk_cwd E) (dk_uploadDir E) in
      case List.find (\<lambda>(alias, canonical). (resolved = alias \<or> startsWith resolved (alias @ ''/'')) \<and> dk_realpath E alias = Some canonical) rootAliases of
        Some (alias, canonical) \<Rightarrow> canonical @ drop (length alias) resolved
      | None \<Rightarrow> resolved)"

text \<open>Sorting by descending length is stable.\<close>

definition legacyRelativePrefixes :: "disk_env \<Rightarrow> string list" where
  "legacyRelativePrefixes E =
     (let own = (if startsWith (dk_uploadDir E) ''/'' then []
                 else let p = normalizeSegment (posixNormalize (unixSlashes (dk_uploadDir E)))
                      in [if startsWith p ''./'' then drop 2 p else p])
      in sort_key (\<lambda>p. - int (length p)) (filter (\<lambda>p. p \<noteq> [] \<and> p \<noteq> ''.'') (setOf (''uploads'' # own))))"

fun assertNoSymlinks :: "disk_env \<Rightarrow> string list \<Rightarrow> (app_error, 'z disk_db_scheme, unit) prog" where
  "assertNoSymlinks E [] = returnP ()"
| "assertNoSymlinks E (current # ps) =
     bindP (tryP (bindP (lstatP E current) (\<lambda>e. returnP (Some e)))
                 (\<lambda>e. if e = SystemError ''ENOENT'' then returnP None else throwP e))
       (\<lambda>entry. case entry of
          None \<Rightarrow> returnP ()
        | Some LinkEntry \<Rightarrow> throwP (AppError 400 ''INVALID_FILE_PATH'')
        | Some _ \<Rightarrow> assertNoSymlinks E ps)"

definition legacyPrefixOf :: "disk_env \<Rightarrow> string \<Rightarrow> string option" where
  "legacyPrefixOf E safeKey = List.find (\<lambda>prefix. safeKey = prefix \<or> startsWith safeKey (prefix @ ''/'')) (legacyRelativePrefixes E)"

definition rootRelativeKey :: "disk_env \<Rightarrow> string \<Rightarrow> string" where
  "rootRelativeKey E safeKey =
     (case legacyPrefixOf E safeKey of
        None \<Rightarrow> safeKey
      | Some prefix \<Rightarrow> let r = drop (length prefix) safeKey in if startsWith r ''/'' then drop 1 r else r)"

definition localPath :: "disk_env \<Rightarrow> string \<Rightarrow> string" where
  "localPath E key = posixResolve (canonicalUploadRoot E) (rootRelativeKey E (unixSlashes key))"

definition assertUnambiguous :: "disk_env \<Rightarrow> string \<Rightarrow> (app_error, 'z disk_db_scheme, unit) prog" where
  "assertUnambiguous E safeKey =
     tryP (seqP (lstatP E (posixResolve (canonicalUploadRoot E) safeKey)) (throwP (AppError 409 ''AMBIGUOUS_STORAGE_KEY'')))
       (\<lambda>e. if e = SystemError ''ENOENT'' then returnP () else throwP e)"

definition resolveLocalPath :: "disk_env \<Rightarrow> string \<Rightarrow> (app_error, 'z disk_db_scheme, string) prog" where
  "resolveLocalPath E key =
     (case assertSafeStorageKey key of
        Inl e \<Rightarrow> throwP e
      | Inr safeKey \<Rightarrow>
          let rootDir = canonicalUploadRoot E; fullPath = posixResolve rootDir (rootRelativeKey E safeKey) in
          seqP (assertP (fullPath = rootDir \<or> startsWith fullPath (rootDir @ ''/'')) (AppError 400 ''INVALID_FILE_PATH''))
            (seqP (assertNoSymlinks E (pathPrefixes fullPath))
               (seqP (whenP (legacyPrefixOf E safeKey \<noteq> None) (assertUnambiguous E safeKey))
                  (returnP fullPath))))"

definition storageExists :: "disk_env \<Rightarrow> string \<Rightarrow> (app_error, 'z disk_db_scheme, bool) prog" where
  "storageExists E key =
     tryP (bindP (resolveLocalPath E key) (\<lambda>p. seqP (statP E p) (returnP True))) (\<lambda>_. returnP False)"

definition storageRead :: "disk_env \<Rightarrow> string \<Rightarrow> (app_error, 'z disk_db_scheme, string) prog" where
  "storageRead E key = bindP (resolveLocalPath E key) (readFileP E)"

definition storageWrite :: "disk_env \<Rightarrow> string \<Rightarrow> string \<Rightarrow> (app_error, 'z disk_db_scheme, unit) prog" where
  "storageWrite E key content =
     bindP (resolveLocalPath E key) (\<lambda>fullPath. seqP (mkdirP E (dirname fullPath)) (writeFileP E fullPath content))"

definition writeFromFile :: "disk_env \<Rightarrow> string \<Rightarrow> string \<Rightarrow> (app_error, 'z disk_db_scheme, unit) prog" where
  "writeFromFile E key filePath =
     bindP (resolveLocalPath E key) (\<lambda>fullPath.
       let sourcePath = posixResolve (dk_cwd E) filePath in
       if sourcePath = fullPath then statP E fullPath
       else seqP (mkdirP E (dirname fullPath))
              (seqP (bindP (readFileP E sourcePath) (writeFileP E fullPath)) (statP E fullPath)))"

definition existsOr :: "app_error \<Rightarrow> (app_error, 's, unit) prog" where
  "existsOr e = (if e = SystemError ''EEXIST'' then throwP (AppError 409 ''STORAGE_OBJECT_EXISTS'') else throwP e)"

definition writeNew :: "disk_env \<Rightarrow> string \<Rightarrow> string \<Rightarrow> (app_error, 'z disk_db_scheme, unit) prog" where
  "writeNew E key content =
     bindP (resolveLocalPath E key) (\<lambda>fullPath.
       seqP (mkdirP E (dirname fullPath)) (tryP (writeFileExclP E fullPath content) existsOr))"

definition writeNewFromFile :: "disk_env \<Rightarrow> string \<Rightarrow> string \<Rightarrow> (app_error, 'z disk_db_scheme, unit) prog" where
  "writeNewFromFile E key filePath =
     bindP (resolveLocalPath E key) (\<lambda>fullPath.
       seqP (mkdirP E (dirname fullPath))
         (seqP (tryP (seqP (copyFileExclP E (posixResolve (dk_cwd E) filePath) fullPath)
                           (tryP (faultP E ''chmod'' fullPath)
                              (\<lambda>e. seqP (tryP (unlinkP E fullPath) (\<lambda>_. returnP ())) (throwP e))))
                  existsOr)
            (statP E fullPath)))"

definition storageDelete :: "disk_env \<Rightarrow> string \<Rightarrow> (app_error, 'z disk_db_scheme, unit) prog" where
  "storageDelete E key =
     tryP (bindP (resolveLocalPath E key) (unlinkP E)) (\<lambda>e. if e = SystemError ''ENOENT'' then returnP () else throwP e)"

section \<open>What the calls leave alone\<close>

text \<open>\<open>touches A s t\<close>: from \<open>s\<close> to \<open>t\<close> only the disk changed, and the files outside the paths \<open>A\<close> are as they were.\<close>

definition touches :: "string set \<Rightarrow> 'z disk_db_scheme \<Rightarrow> 'z disk_db_scheme \<Rightarrow> bool" where
  "touches A s t \<longleftrightarrow> (\<exists>d. t = s\<lparr>diskEntries := d\<rparr> \<and> (\<forall>p. p \<notin> A \<longrightarrow> fileIn d p = fileAt s p))"

lemma fileIn_upd [simp]:
  "fileIn (d(p \<mapsto> FileEntry c)) q = (if q = p then Some c else fileIn d q)"
  "fileIn (d(p := None)) q = (if q = p then None else fileIn d q)"
  "d p = None \<Longrightarrow> fileIn (d(p \<mapsto> DirEntry)) = fileIn d"
  "q \<noteq> p \<Longrightarrow> fileIn (d(p := e)) q = fileIn d q"
  by (auto simp: fileIn_def fun_eq_iff)

lemma touches_refl [simp]: "touches A s s"
  unfolding touches_def by (rule exI [of _ "diskEntries s"]) simp

lemma touches_trans: "touches A s t \<Longrightarrow> touches A t u \<Longrightarrow> touches A s u"
  by (auto simp: touches_def)

lemma touches_mono: "touches A s t \<Longrightarrow> A \<subseteq> B \<Longrightarrow> touches B s t"
  by (auto simp: touches_def)

lemma touches_fileAt: "touches A s t \<Longrightarrow> p \<notin> A \<Longrightarrow> fileAt t p = fileAt s p"
  by (auto simp: touches_def)

lemma touches_disk:
  "touches A s t \<Longrightarrow> (\<And>p. p \<notin> A \<Longrightarrow> fileIn d p = fileAt t p) \<Longrightarrow> touches A s (t\<lparr>diskEntries := d\<rparr>)"
  by (auto simp: touches_def)

lemma touches_put:
  assumes "p \<in> A \<or> (diskEntries t p = None \<and> e = DirEntry)" and "touches A s t"
  shows "touches A s (t\<lparr>diskEntries := (diskEntries t)(p \<mapsto> e)\<rparr>)"
  using assms(1) by (intro touches_disk [OF assms(2)]) (metis fileIn_upd(3,4))

lemma touches_remove: "p \<in> A \<Longrightarrow> touches A s t \<Longrightarrow> touches A s (t\<lparr>diskEntries := (diskEntries t)(p := None)\<rparr>)"
  by (auto intro: touches_disk)

text \<open>Programs that keep the frame \<open>touches A\<close> of the state they start in.\<close>

definition confined :: "string set \<Rightarrow> (app_error, 'z disk_db_scheme, 'a) prog \<Rightarrow> bool" where
  "confined A m \<longleftrightarrow> (\<forall>s. keeps (touches A s) m)"

named_theorems confined_intros "introduction rules for confined"

lemma confinedD: "confined A m \<Longrightarrow> m s = (r, t) \<Longrightarrow> touches A s t"
  unfolding confined_def by (meson keepsD touches_refl)

lemma confinedI: "(\<And>s. touches A s (snd (m s))) \<Longrightarrow> confined A m"
  unfolding confined_def keeps_def by (blast intro: touches_trans)

lemma confined_combinators [confined_intros]:
  "confined A (returnP x)" "confined A (throwP e)" "confined A (getsP g)" "confined A (assertP b e)" "confined A (ofOptionP e y)" "confined A (faultP E c p)"
  by (simp_all add: confined_def keeps_intros faultP_def split: option.split)

lemma confined_bindP [confined_intros]: "confined A m \<Longrightarrow> (\<And>x. confined A (f x)) \<Longrightarrow> confined A (bindP m f)"
  by (simp add: confined_def keeps_bindP)

lemma confined_seqP [confined_intros]: "confined A m \<Longrightarrow> confined A n \<Longrightarrow> confined A (seqP m n)"
  by (simp add: confined_def keeps_seqP)

lemma confined_tryP [confined_intros]: "confined A m \<Longrightarrow> (\<And>e. confined A (h e)) \<Longrightarrow> confined A (tryP m h)"
  by (simp add: confined_def keeps_tryP)

lemma confined_if [confined_intros]: "(b \<Longrightarrow> confined A m) \<Longrightarrow> (\<not> b \<Longrightarrow> confined A n) \<Longrightarrow> confined A (if b then m else n)"
  by simp

lemma confined_whenP [confined_intros]: "confined A m \<Longrightarrow> confined A (whenP b m)"
  by (simp add: confined_def keeps_whenP)

lemma confined_option [confined_intros]:
  "confined A m \<Longrightarrow> (\<And>y. x = Some y \<Longrightarrow> confined A (n y)) \<Longrightarrow> confined A (case x of None \<Rightarrow> m | Some y \<Rightarrow> n y)"
  by (cases x) simp_all

lemma confined_entry [confined_intros]:
  "(\<And>c. confined A (f c)) \<Longrightarrow> confined A d \<Longrightarrow> confined A l \<Longrightarrow> confined A (case e of FileEntry c \<Rightarrow> f c | DirEntry \<Rightarrow> d | LinkEntry \<Rightarrow> l)"
  by (cases e) simp_all

lemma confined_sum [confined_intros]:
  "(\<And>e. confined A (f e)) \<Longrightarrow> (\<And>y. confined A (g y)) \<Longrightarrow> confined A (case x of Inl e \<Rightarrow> f e | Inr y \<Rightarrow> g y)"
  by (cases x) simp_all

lemma confined_putEntry [confined_intros]: "p \<in> A \<Longrightarrow> confined A (putEntry p e)"
  by (simp add: confined_def putEntry_def keeps_modifyP touches_put)

lemma confined_lstatP [confined_intros]: "confined A (lstatP E p)"
  unfolding lstatP_def by (intro confined_intros)

lemma confined_statP [confined_intros]: "confined A (statP E p)"
  unfolding statP_def by (intro confined_intros)

lemma confined_readFileP [confined_intros]: "confined A (readFileP E p)"
  unfolding readFileP_def by (intro confined_intros)

lemma confined_putFile [confined_intros]: "p \<in> A \<Longrightarrow> confined A (putFile E p c)"
  unfolding putFile_def by (intro confined_intros)

lemma confined_writeFileP [confined_intros]: "p \<in> A \<Longrightarrow> confined A (writeFileP E p c)"
  unfolding writeFileP_def by (intro confined_intros)

lemma confined_writeFileExclP [confined_intros]: "p \<in> A \<Longrightarrow> confined A (writeFileExclP E p c)"
  unfolding writeFileExclP_def by (intro confined_intros)

lemma confined_copyFileExclP [confined_intros]: "p \<in> A \<Longrightarrow> confined A (copyFileExclP E src p)"
  unfolding copyFileExclP_def by (intro confined_intros)

lemma confined_unlinkP [confined_intros]: "p \<in> A \<Longrightarrow> confined A (unlinkP E p)"
  unfolding unlinkP_def by (intro confined_intros) (simp_all add: confined_def keeps_modifyP touches_remove)

lemma confined_mkdirAll [confined_intros]: "confined A (mkdirAll dir ps :: (app_error, 'z disk_db_scheme, unit) prog)"
proof (induction ps)
  case (Cons p ps)
  show ?case
  proof (rule confinedI)
    fix s :: "'z disk_db_scheme"
    have put: "touches A s (s\<lparr>diskEntries := (diskEntries s)(p \<mapsto> DirEntry)\<rparr>)" if "diskEntries s p = None"
      using that by (simp add: touches_put)
    have IH: "touches A t (snd (mkdirAll dir ps t))" for t :: "'z disk_db_scheme"
      using confinedD [OF Cons.IH surjective_pairing] .
    show "touches A s (snd (mkdirAll dir (p # ps) s))"
    proof (cases "diskEntries s p")
      case None
      then show ?thesis using touches_trans [OF put IH] by (simp add: prog_defs putEntry_def)
    next
      case (Some e)
      then show ?thesis using IH by (cases e) (simp_all add: prog_defs)
    qed
  qed
qed (simp add: confined_intros)

lemma confined_mkdirP [confined_intros]: "confined A (mkdirP E dir)"
  unfolding mkdirP_def by (intro confined_intros)

lemma confined_assertNoSymlinks [confined_intros]: "confined A (assertNoSymlinks E ps)"
  by (induction ps) (auto intro!: confined_intros)

lemma confined_resolveLocalPath [confined_intros]: "confined A (resolveLocalPath E key)"
  unfolding resolveLocalPath_def assertUnambiguous_def Let_def by (intro confined_intros)

lemma confined_existsOr [confined_intros]: "confined A (existsOr e)"
  unfolding existsOr_def by (intro confined_intros)

section \<open>What the provider promises\<close>

lemma resolveLocalPath_Inr: "resolveLocalPath E key s = (Inr p, t) \<Longrightarrow> p = localPath E key"
  by (auto simp: resolveLocalPath_def localPath_def assertSafeStorageKey_def Let_def seqP_Inr split: if_splits)

lemma resolve_bind_confined:
  assumes "\<And>p. p = localPath E key \<Longrightarrow> confined A (f p)"
  shows "confined A (bindP (resolveLocalPath E key) f :: (app_error, 'z disk_db_scheme, 'b) prog)"
proof (rule confinedI)
  fix s :: "'z disk_db_scheme"
  obtain r t where r: "resolveLocalPath E key s = (r, t)" by fastforce
  then have st: "touches A s t" by (rule confinedD [OF confined_resolveLocalPath])
  show "touches A s (snd (bindP (resolveLocalPath E key) f s))"
  proof (cases r)
    case (Inl e)
    with r st show ?thesis by (simp add: bindP_def)
  next
    case (Inr p)
    with r have "p = localPath E key" using resolveLocalPath_Inr by blast
    then have "touches A t (snd (f p t))" by (rule confinedD [OF assms surjective_pairing])
    with r Inr touches_trans [OF st] show ?thesis by (simp add: bindP_def)
  qed
qed

lemma writeNewFromFile_confined: "confined {localPath E key} (writeNewFromFile E key src)"
  unfolding writeNewFromFile_def by (rule resolve_bind_confined) (intro confined_intros; simp)

lemma writeNew_confined: "confined {localPath E key} (writeNew E key c)"
  unfolding writeNew_def by (rule resolve_bind_confined) (intro confined_intros; simp)

lemma storageDelete_confined: "confined {localPath E key} (storageDelete E key)"
  unfolding storageDelete_def by (intro confined_intros resolve_bind_confined; simp)

lemma resolve_keeps_files: "resolveLocalPath E key s = (r, t) \<Longrightarrow> fileAt t = fileAt s"
  using confinedD [OF confined_resolveLocalPath, of E key s r t "{}"] by (auto simp: touches_def)

lemma mkdir_keeps_files: "mkdirP E dir s = (r, t) \<Longrightarrow> fileAt t = fileAt s"
  using confinedD [OF confined_mkdirP, of E dir s r t "{}"] by (auto simp: touches_def)

lemma existsOr_Inr [simp]: "existsOr e s \<noteq> (Inr y, t)"
  by (simp add: existsOr_def)

lemma copyFileExclP_Inr:
  "copyFileExclP E src p s = (Inr y, t) \<Longrightarrow>
     \<exists>c. fileAt s src = Some c \<and> fileAt s p = None \<and> t = s\<lparr>diskEntries := (diskEntries s)(p \<mapsto> FileEntry c)\<rparr>"
  by (auto simp: copyFileExclP_def readFileP_def bindP_Inr seqP_Inr faultP_def putEntry_def fileIn_def
      split: option.splits fsEntry.splits if_splits)

lemma writeNewFromFile_Inr:
  assumes "writeNewFromFile E key file s = (Inr (), t)"
  shows "fileAt s (localPath E key) = None \<and> fileAt s (posixResolve (dk_cwd E) file) \<noteq> None \<and>
         fileAt t (localPath E key) = fileAt s (posixResolve (dk_cwd E) file)"
proof -
  let ?p = "localPath E key" and ?src = "posixResolve (dk_cwd E) file"
  obtain s1 s2 s3 where r: "resolveLocalPath E key s = (Inr ?p, s1)" "mkdirP E (dirname ?p) s1 = (Inr (), s2)"
    and c: "copyFileExclP E ?src ?p s2 = (Inr (), s3)" and t: "t = s3"
  proof -
    obtain p s1 where r: "resolveLocalPath E key s = (Inr p, s1)"
      using assms by (auto simp: writeNewFromFile_def bindP_Inr)
    moreover from r have "p = localPath E key" by (rule resolveLocalPath_Inr)
    ultimately show ?thesis
      using assms that by (auto simp: writeNewFromFile_def bindP_Inr seqP_Inr tryP_Inr faultP_def statP_def split: option.splits)
  qed
  have "fileAt s2 = fileAt s" using resolve_keeps_files [OF r(1)] mkdir_keeps_files [OF r(2)] by simp
  with copyFileExclP_Inr [OF c] t show ?thesis by auto
qed

lemma writeNew_Inr:
  assumes "writeNew E key c s = (Inr (), t)"
  shows "fileAt s (localPath E key) = None \<and> fileAt t (localPath E key) = Some c"
proof -
  obtain p s1 where r: "resolveLocalPath E key s = (Inr p, s1)"
    using assms by (auto simp: writeNew_def bindP_Inr)
  moreover from r have p: "p = localPath E key" by (rule resolveLocalPath_Inr)
  ultimately obtain s2 where m: "mkdirP E (dirname p) s1 = (Inr (), s2)" and w: "writeFileExclP E p c s2 = (Inr (), t)"
    using assms by (auto simp: writeNew_def bindP_Inr seqP_Inr tryP_Inr)
  have "fileAt s2 = fileAt s" using resolve_keeps_files [OF r] mkdir_keeps_files [OF m] by simp
  moreover have "fileAt s2 p = None \<and> fileAt t p = Some c"
    using w by (auto simp: writeFileExclP_def putFile_def putEntry_def bindP_Inr seqP_Inr fileIn_def split: option.splits if_splits)
  ultimately show ?thesis using p by simp
qed

text \<open>A refused write leaves a file that was already there.\<close>

lemma excl_present:
  "diskEntries s p \<noteq> None \<Longrightarrow> copyFileExclP E src p s = (r, t) \<Longrightarrow> t = s \<and> (\<exists>e. r = Inl e)"
  "diskEntries s p \<noteq> None \<Longrightarrow> writeFileExclP E p c s = (r, t) \<Longrightarrow> t = s \<and> (\<exists>e. r = Inl e)"
  by (auto simp: copyFileExclP_def writeFileExclP_def readFileP_def prog_defs faultP_def split: option.splits fsEntry.splits)

lemma fileAt_entry: "fileAt s p \<noteq> None \<Longrightarrow> diskEntries s p \<noteq> None"
  unfolding fileIn_def by (auto split: option.splits)

lemma bindP_frame:
  assumes "bindP m f s = (r, u)" and "\<And>q t. m s = (q, t) \<Longrightarrow> R t" and "\<And>x t. m s = (Inr x, t) \<Longrightarrow> f x t = (r, u) \<Longrightarrow> R u"
  shows "R u"
proof (cases "m s")
  case (Pair q t)
  with assms show ?thesis by (cases q) (auto simp: bindP_def)
qed

lemma existsOr_state [simp]: "snd (existsOr e s) = s"
  by (simp add: existsOr_def throwP_def)

lemma exclusive_write_present:
  assumes "fileAt s (localPath E key) \<noteq> None"
  shows "writeNewFromFile E key src s = (r, t) \<Longrightarrow> fileAt t = fileAt s"
    and "writeNew E key c s = (r, t) \<Longrightarrow> fileAt t = fileAt s"
proof -
  have step: "fileAt u = fileAt s"
    if run: "bindP (resolveLocalPath E key) (\<lambda>p. seqP (mkdirP E (dirname p)) (g p)) s = (q, u)"
      and g: "\<And>v w x. diskEntries v (localPath E key) \<noteq> None \<Longrightarrow> g (localPath E key) v = (x, w) \<Longrightarrow> w = v" for g q u
    using run
  proof (rule bindP_frame)
    fix p s1 assume r: "resolveLocalPath E key s = (Inr p, s1)" and run: "seqP (mkdirP E (dirname p)) (g p) s1 = (q, u)"
    have p: "p = localPath E key" using r by (rule resolveLocalPath_Inr)
    have f1: "fileAt s1 = fileAt s" using r by (rule resolve_keeps_files)
    show "fileAt u = fileAt s"
      using run unfolding seqP_def
    proof (rule bindP_frame)
      fix s2 y assume m: "mkdirP E (dirname p) s1 = (Inr y, s2)" and run: "g p s2 = (q, u)"
      have f2: "fileAt s2 = fileAt s" using mkdir_keeps_files [OF m] f1 by simp
      with assms have "diskEntries s2 p \<noteq> None" unfolding p by (metis fileAt_entry)
      with g run f2 show "fileAt u = fileAt s" unfolding p by blast
    qed (metis mkdir_keeps_files f1)
  qed (rule resolve_keeps_files)
  show "fileAt t = fileAt s" if "writeNewFromFile E key src s = (r, t)"
    using that unfolding writeNewFromFile_def
  proof (rule step)
    fix v w x
    assume "diskEntries v (localPath E key) \<noteq> None"
    then obtain e where "copyFileExclP E (posixResolve (dk_cwd E) src) (localPath E key) v = (Inl e, v)"
      using excl_present(1) by (metis surj_pair)
    moreover assume "seqP (tryP (seqP (copyFileExclP E (posixResolve (dk_cwd E) src) (localPath E key))
          (tryP (faultP E ''chmod'' (localPath E key)) (\<lambda>e. seqP (tryP (unlinkP E (localPath E key)) (\<lambda>_. returnP ())) (throwP e)))) existsOr)
        (statP E (localPath E key)) v = (x, w)"
    ultimately show "w = v"
      by (auto simp: seqP_def bindP_def tryP_def existsOr_def throwP_def split: if_splits)
  qed
  show "fileAt t = fileAt s" if "writeNew E key c s = (r, t)"
    using that unfolding writeNew_def
  proof (rule step)
    fix v w x
    assume "diskEntries v (localPath E key) \<noteq> None"
    then obtain e where "writeFileExclP E (localPath E key) c v = (Inl e, v)"
      using excl_present(2) by (metis surj_pair)
    moreover assume "tryP (writeFileExclP E (localPath E key) c) existsOr v = (x, w)"
    ultimately show "w = v"
      by (auto simp: tryP_def existsOr_def throwP_def split: if_splits)
  qed
qed

lemma faultCode_fixed [simp]: "faultCode c \<noteq> ''ENOENT''"
  by (cases c) simp_all

lemma lookup_no_ENOENT:
  "assertNoSymlinks E ps s \<noteq> (Inl (SystemError ''ENOENT''), t)" "assertUnambiguous E k s \<noteq> (Inl (SystemError ''ENOENT''), t)"
proof -
  show "assertNoSymlinks E ps s \<noteq> (Inl (SystemError ''ENOENT''), t)"
  proof (induction ps arbitrary: s)
    case (Cons p ps)
    then show ?case
      by (auto simp: bindP_Inl tryP_Inl throwP_def returnP_def split: option.splits fsEntry.splits if_splits)
  qed (simp add: returnP_def)
  show "assertUnambiguous E k s \<noteq> (Inl (SystemError ''ENOENT''), t)"
    by (auto simp: assertUnambiguous_def tryP_Inl throwP_def returnP_def split: if_splits)
qed

lemma resolve_no_ENOENT: "resolveLocalPath E key s \<noteq> (Inl (SystemError ''ENOENT''), t)"
  by (auto simp: lookup_no_ENOENT resolveLocalPath_def assertSafeStorageKey_def Let_def seqP_def bindP_Inl assertP_def whenP_def throwP_def returnP_def
      split: if_splits sum.splits)

lemma unlinkP_result:
  "unlinkP E p s = (Inr (), t) \<or> unlinkP E p s = (Inl (SystemError ''ENOENT''), t) \<Longrightarrow> fileAt t p = None"
  by (cases "diskEntries s p"; cases "dk_fault E ''unlink'' p")
     (auto simp: unlinkP_def prog_defs faultP_def fileIn_def split: fsEntry.splits)

lemma storageDelete_Inr: "storageDelete E key s = (Inr (), t) \<Longrightarrow> fileAt t (localPath E key) = None"
proof -
  assume del: "storageDelete E key s = (Inr (), t)"
  then consider p s1 where "resolveLocalPath E key s = (Inr p, s1)" "unlinkP E p s1 = (Inr (), t)"
    | p s1 where "resolveLocalPath E key s = (Inr p, s1)" "unlinkP E p s1 = (Inl (SystemError ''ENOENT''), t)"
    | "resolveLocalPath E key s = (Inl (SystemError ''ENOENT''), t)"
    by (auto simp: storageDelete_def tryP_Inr bindP_Inr bindP_def split: prod.splits sum.splits if_splits)
  then show ?thesis
  proof cases
    case (1 p s1)
    then show ?thesis using unlinkP_result resolveLocalPath_Inr by blast
  next
    case (2 p s1)
    then show ?thesis using unlinkP_result resolveLocalPath_Inr by blast
  next
    case 3
    then show ?thesis using resolve_no_ENOENT by blast
  qed
qed

lemma unlinkP_absent: "fileAt u p = None \<Longrightarrow> fileAt (snd (unlinkP E f u)) p = None"
  by (auto simp: unlinkP_def prog_defs faultP_def split: option.split fsEntry.split)

lemma storageDelete_absent: "storageDelete E key s = (r, t) \<Longrightarrow> fileAt s p = None \<Longrightarrow> fileAt t p = None"
proof -
  assume del: "storageDelete E key s = (r, t)" and none: "fileAt s p = None"
  have "fileAt (snd (bindP (resolveLocalPath E key) (unlinkP E) s)) p = None"
    using none resolve_keeps_files [of E key s]
    by (cases "resolveLocalPath E key s"; cases "fst (resolveLocalPath E key s)") (auto simp: bindP_def unlinkP_absent)
  then show ?thesis
    using del by (auto simp: storageDelete_def tryP_def returnP_def throwP_def split: prod.splits sum.splits if_splits)
qed

section \<open>Where the key of a tenant leads\<close>

text \<open>A plain segment has no slash and is none of the names that a path gives a meaning.\<close>

definition plainSegment :: "string \<Rightarrow> bool" where
  "plainSegment x \<longleftrightarrow> x \<notin> {[], ''.'', ''..''} \<and> CHR ''/'' \<notin> set x"

definition plainPath :: "string \<Rightarrow> bool" where
  "plainPath p \<longleftrightarrow> (\<exists>xs. xs \<noteq> [] \<and> list_all plainSegment xs \<and> p = ''/'' @ joinWith ''/'' xs)"

lemma splitChar_not_Nil: "splitChar c s \<noteq> []"
  by (induction s) (auto split: list.split)

lemma splitChar_free: "c \<notin> set x \<Longrightarrow> splitChar c x = [x]"
  by (induction x) auto

lemma splitChar_app: "c \<notin> set x \<Longrightarrow> splitChar c (x @ c # y) = x # splitChar c y"
  by (induction x) auto

lemma joinWith_Cons: "xs \<noteq> [] \<Longrightarrow> joinWith sep (x # xs) = x @ sep @ joinWith sep xs"
  by (cases xs) simp_all

lemma splitChar_join: "xs \<noteq> [] \<Longrightarrow> (\<And>x. x \<in> set xs \<Longrightarrow> c \<notin> set x) \<Longrightarrow> splitChar c (joinWith [c] xs) = xs"
proof (induction xs)
  case (Cons x xs)
  then show ?case by (cases "xs = []") (auto simp: splitChar_free splitChar_app joinWith_Cons)
qed simp

lemma splitChar_segments: "x \<in> set (splitChar c s) \<Longrightarrow> c \<notin> set x"
  by (induction s arbitrary: x) (auto split: list.splits if_splits)

lemma joinWith_append: "xs \<noteq> [] \<Longrightarrow> ys \<noteq> [] \<Longrightarrow> joinWith sep (xs @ ys) = joinWith sep xs @ sep @ joinWith sep ys"
proof (induction xs)
  case (Cons x xs)
  then show ?case by (cases "xs = []") (simp_all add: joinWith_Cons)
qed simp

lemma joinWith_Nil_iff: "list_all plainSegment xs \<Longrightarrow> joinWith ''/'' xs = [] \<longleftrightarrow> xs = []"
  by (cases xs; cases "tl xs = []") (auto simp: joinWith_Cons plainSegment_def)

lemma join_first:
  assumes "xs \<noteq> []" and "list_all plainSegment xs"
  shows "\<exists>c r. joinWith ''/'' xs = c # r \<and> c \<noteq> CHR ''/''"
proof -
  obtain x ys where x: "xs = x # ys" "plainSegment x" using assms by (cases xs) auto
  then obtain c r where "x = c # r" "c \<noteq> CHR ''/''" by (cases x) (auto simp: plainSegment_def)
  with x show ?thesis by (cases "ys = []") (simp_all add: joinWith_Cons)
qed

lemma join_last:
  assumes "xs \<noteq> []" and "list_all plainSegment xs"
  shows "last (joinWith ''/'' xs) \<noteq> CHR ''/''"
  using assms
proof (induction xs)
  case (Cons x xs)
  have "x \<noteq> []" "CHR ''/'' \<notin> set x" using Cons.prems(2) by (simp_all add: plainSegment_def)
  then have "last x \<noteq> CHR ''/''" by (metis last_in_set)
  with Cons show ?case by (cases "xs = []") (simp_all add: joinWith_Cons joinWith_Nil_iff)
qed simp

lemma normSegments_plain: "list_all plainSegment xs \<Longrightarrow> normSegments up acc xs = rev acc @ xs"
  by (induction xs arbitrary: acc) (auto simp: plainSegment_def)

lemma normSegments_result:
  assumes "list_all plainSegment acc" and "\<And>x. x \<in> set xs \<Longrightarrow> CHR ''/'' \<notin> set x"
  shows "list_all plainSegment (normSegments False acc xs)"
  using assms
proof (induction xs arbitrary: acc)
  case (Cons x xs)
  have IH: "list_all plainSegment (normSegments False b xs)" if "list_all plainSegment b" for b
    using Cons.IH [OF that] Cons.prems(2) by simp
  consider "x \<in> {[], ''.''}" | "x = ''..''" | "x \<notin> {[], ''.'', ''..''}" by blast
  then show ?case
  proof cases
    case 1
    then show ?thesis using IH [OF Cons.prems(1)] by auto
  next
    case 2
    moreover have "a \<noteq> ''..''" if "plainSegment a" for a using that by (simp add: plainSegment_def)
    ultimately show ?thesis using IH [OF Cons.prems(1)] IH Cons.prems(1) by (cases acc) auto
  next
    case 3
    then have "plainSegment x" using Cons.prems(2) by (simp add: plainSegment_def)
    then show ?thesis using 3 IH [of "x # acc"] Cons.prems(1) by simp
  qed
qed (simp add: list_all_iff)

lemma normalizeString_plain:
  "xs \<noteq> [] \<Longrightarrow> list_all plainSegment xs \<Longrightarrow> normalizeString (joinWith ''/'' xs) up = joinWith ''/'' xs"
  by (simp add: normalizeString_def splitChar_join normSegments_plain plainSegment_def list_all_iff)

lemma normalizeString_rooted:
  "xs \<noteq> [] \<Longrightarrow> list_all plainSegment xs \<Longrightarrow> normalizeString (''/'' @ joinWith ''/'' xs) up = joinWith ''/'' xs"
  using splitChar_app [of "CHR ''/''" "[]" "joinWith ''/'' xs"]
  by (simp add: normalizeString_def splitChar_join normSegments_plain plainSegment_def list_all_iff)

lemma posixResolve_shape: "\<exists>xs. list_all plainSegment xs \<and> posixResolve base p = ''/'' @ joinWith ''/'' xs"
  unfolding posixResolve_def normalizeString_def
  by (intro exI conjI, rule normSegments_result) (simp_all add: splitChar_segments)

lemma canonical_alias:
  defines "r E \<equiv> posixResolve (dk_cwd E) (dk_uploadDir E)"
  shows "canonicalUploadRoot E = r E \<or> canonicalUploadRoot E = ''/private'' @ r E \<and> r E \<noteq> ''/''"
proof (cases "List.find (\<lambda>(alias, canonical). (r E = alias \<or> startsWith (r E) (alias @ ''/'')) \<and> dk_realpath E alias = Some canonical) rootAliases")
  case None
  then show ?thesis by (simp add: canonicalUploadRoot_def r_def Let_def)
next
  case (Some ac)
  then obtain a c where ac: "ac = (a, c)" "(a, c) \<in> set rootAliases" "r E = a \<or> startsWith (r E) (a @ ''/'')"
    using find_Some_iff_mem [OF Some] by (cases ac) auto
  then have c: "c = ''/private'' @ a" and a: "1 < length a" by (auto simp: rootAliases_def)
  have "take (length a) (r E) = a"
    using ac(3) unfolding startsWith_def by (metis append_eq_conv_conj append_take_drop_id append_assoc order_refl take_all)
  then have split: "a @ drop (length a) (r E) = r E" by (metis append_take_drop_id)
  have "canonicalUploadRoot E = c @ drop (length a) (r E)"
    using Some ac(1) by (simp add: canonicalUploadRoot_def r_def Let_def)
  then have "canonicalUploadRoot E = ''/private'' @ r E" using c split by simp
  moreover have "r E \<noteq> ''/''" using split a by (metis One_nat_def length_append list.size(3,4) add_0 not_add_less1)
  ultimately show ?thesis by blast
qed

lemma root_plain:
  assumes "canonicalUploadRoot E \<noteq> ''/''"
  shows "plainPath (canonicalUploadRoot E)"
proof -
  obtain xs where xs: "list_all plainSegment xs" "posixResolve (dk_cwd E) (dk_uploadDir E) = ''/'' @ joinWith ''/'' xs"
    using posixResolve_shape by blast
  have "canonicalUploadRoot E = ''/'' @ joinWith ''/'' xs \<and> xs \<noteq> [] \<or> canonicalUploadRoot E = ''/'' @ joinWith ''/'' (''private'' # xs) \<and> xs \<noteq> []"
    using canonical_alias [of E] xs(2) assms by (cases "xs = []") (auto simp: joinWith_Cons)
  moreover have "plainSegment ''private''" by (simp add: plainSegment_def)
  ultimately show ?thesis using xs(1) unfolding plainPath_def by (metis list.distinct(1) list.pred_inject(2))
qed

lemma resolve_plain:
  assumes "plainPath base" and "xs \<noteq> []" and "list_all plainSegment xs"
  shows "posixResolve base (joinWith ''/'' xs) = base @ ''/'' @ joinWith ''/'' xs"
proof -
  obtain ys where ys: "ys \<noteq> []" "list_all plainSegment ys" "base = ''/'' @ joinWith ''/'' ys" using assms(1) by (auto simp: plainPath_def)
  have "\<not> startsWith (joinWith ''/'' xs) ''/''"
    using join_first [OF assms(2,3)] by (auto simp: startsWith_def)
  then show ?thesis
    using normalizeString_rooted [of "ys @ xs" False] ys assms(2,3) by (simp add: posixResolve_def joinWith_append)
qed

lemma includesText_iff: "includesText s p \<longleftrightarrow> (\<exists>u v. s = u @ p @ v)"
proof
  assume "includesText s p"
  then obtain i where "take (length p) (drop i s) = p" by (auto simp: includesText_def list_ex_iff)
  then have "s = take i s @ p @ drop (length p) (drop i s)" by (metis append_take_drop_id)
  then show "\<exists>u v. s = u @ p @ v" by blast
next
  assume "\<exists>u v. s = u @ p @ v"
  then obtain u v where "s = u @ p @ v" by blast
  then have "take (length p) (drop (length u) s) = p \<and> length u \<in> set [0..<Suc (length s)]" by simp
  then show "includesText s p" unfolding includesText_def list_ex_iff by blast
qed

lemma splitChar_double: "[] \<in> set (tl (splitChar c (u @ c # c # v)))"
proof (induction u)
  case Nil
  then show ?case by simp
next
  case (Cons x u)
  then show ?case by (cases "splitChar c (u @ c # c # v)") (auto simp: splitChar_not_Nil)
qed

lemma join_no_double: "xs \<noteq> [] \<Longrightarrow> list_all plainSegment xs \<Longrightarrow> \<not> includesText (joinWith ''/'' xs) ''//''"
proof
  assume xs: "xs \<noteq> []" "list_all plainSegment xs" and "includesText (joinWith ''/'' xs) ''//''"
  then obtain u v where "joinWith ''/'' xs = u @ CHR ''/'' # CHR ''/'' # v" by (auto simp: includesText_iff)
  then have "[] \<in> set (tl (splitChar (CHR ''/'') (joinWith ''/'' xs)))" using splitChar_double by metis
  then show False using xs by (auto simp: splitChar_join plainSegment_def list_all_iff dest: list.set_sel(2))
qed

lemma one_dot_no_up: "count_list s CHR ''.'' \<le> 1 \<Longrightarrow> \<not> includesText s ''..''"
  by (auto simp: includesText_iff)

definition uuidText :: "string \<Rightarrow> bool" where
  "uuidText u \<longleftrightarrow> u \<noteq> [] \<and> list_all (\<lambda>c. isLower c \<or> isDigit c \<or> c = CHR ''-'') u"

lemma extension_shape:
  "count_list (trustedExtensionForMime m) CHR ''.'' = 1 \<and> CHR ''/'' \<notin> set (trustedExtensionForMime m) \<and> backslash \<notin> set (trustedExtensionForMime m)"
proof -
  have "trustedExtensionForMime m \<in> insert ''.bin'' (snd ` set mimeExtensions)"
    by (auto simp: trustedExtensionForMime_def split: option.splits dest!: map_of_SomeD intro: rev_image_eqI)
  moreover have "list_all (\<lambda>e. count_list e CHR ''.'' = 1 \<and> CHR ''/'' \<notin> set e \<and> backslash \<notin> set e) (''.bin'' # map snd mimeExtensions)"
    by code_simp
  ultimately show ?thesis by (auto simp: list_all_iff)
qed

lemma no_special:
  assumes "isUpper c \<or> isLower c \<or> isDigit c \<or> c = CHR ''_'' \<or> c = CHR ''-''"
  shows "c \<noteq> CHR ''.'' \<and> c \<noteq> CHR ''/'' \<and> c \<noteq> backslash"
proof -
  have "c = CHR ''_'' \<longrightarrow> of_char c = (95 :: nat)" "c = CHR ''-'' \<longrightarrow> of_char c = (45 :: nat)"
    "c = CHR ''.'' \<longrightarrow> of_char c = (46 :: nat)" "c = CHR ''/'' \<longrightarrow> of_char c = (47 :: nat)" "c = backslash \<longrightarrow> of_char c = (92 :: nat)"
    by (simp_all add: backslash_def)
  with assms show ?thesis unfolding isUpper_def isLower_def isDigit_def by (elim disjE) linarith+
qed

lemma segment_shape:
  assumes "x \<noteq> []" and "list_all (\<lambda>c. isUpper c \<or> isLower c \<or> isDigit c \<or> c = CHR ''_'' \<or> c = CHR ''-'') x"
  shows "plainSegment x \<and> count_list x CHR ''.'' = 0 \<and> backslash \<notin> set x"
proof -
  have "c \<noteq> CHR ''.'' \<and> c \<noteq> CHR ''/'' \<and> c \<noteq> backslash" if "c \<in> set x" for c
    using assms(2) that no_special unfolding list_all_iff by blast
  then have "CHR ''.'' \<notin> set x" "CHR ''/'' \<notin> set x" "backslash \<notin> set x" by blast+
  moreover from this have "x \<noteq> ''.''" "x \<noteq> ''..''" by auto
  ultimately show ?thesis using assms(1) by (simp add: plainSegment_def count_list_0_iff)
qed

lemma unixSlashes_id: "backslash \<notin> set x \<Longrightarrow> unixSlashes x = x"
  by (auto simp: unixSlashes_def intro: map_idI)

lemma normalizeSegment_id: "backslash \<notin> set x \<Longrightarrow> CHR ''/'' \<notin> set x \<Longrightarrow> normalizeSegment x = x"
proof -
  assume "backslash \<notin> set x" and x: "CHR ''/'' \<notin> set x"
  have "dropWhile (\<lambda>c. c = CHR ''/'') y = y" if "set y = set x" for y
    using that x by (cases y) auto
  then show ?thesis using \<open>backslash \<notin> set x\<close> by (simp add: normalizeSegment_def unixSlashes_id)
qed

lemma buildKey_plain:
  assumes "xs \<noteq> []" and "list_all plainSegment xs" and "\<And>x. x \<in> set xs \<Longrightarrow> backslash \<notin> set x"
  shows "buildKey xs = joinWith ''/'' xs"
proof -
  have "map normalizeSegment xs = xs" using assms(2,3) by (auto simp: list_all_iff plainSegment_def normalizeSegment_id intro: map_idI)
  moreover have ne: "filter (\<lambda>x. x \<noteq> []) xs = xs" using assms(2) by (auto simp: list_all_iff plainSegment_def filter_id_conv)
  moreover have "posixNormalize (joinWith ''/'' xs) = joinWith ''/'' xs"
  proof -
    obtain c r where "joinWith ''/'' xs = c # r" "c \<noteq> CHR ''/''" using join_first [OF assms(1,2)] by blast
    moreover note join_last [OF assms(1,2)]
    ultimately show ?thesis using normalizeString_plain [OF assms(1,2)] by (simp add: posixNormalize_def Let_def)
  qed
  ultimately show ?thesis using assms(1) by (simp add: buildKey_def posixJoin_def)
qed


section \<open>A sample\<close>

definition sampleDisk :: disk_env where
  "sampleDisk = \<lparr>dk_cwd = ''/app'', dk_uploadDir = ''uploads'', dk_realpath = (\<lambda>_. None), dk_fault = (\<lambda>_ _. None), dk_torn = (\<lambda>_. None)\<rparr>"


end
