(* ===== verification/Upload_Persistence.thy ===== *)
theory Upload_Persistence
  imports Storage_Provider
begin

text \<open>
  Persisting uploads: \<^verbatim>\<open>backend/src/infrastructure/storage/upload-persistence.ts\<close>.  An upload is written to the storage first
  and then linked by rows of the database in one transaction; the code compensates when a step fails.  Parameters stand for what
  the code cannot decide: the requests that run in between (\<open>ue_others\<close>), the fate of a transaction and of its reply
  (\<open>ue_outcome\<close>), failures of single statements, random identifiers, the digest and the clock.  The uploads of one request are
  written one after the other.  Metrics and log lines are not modelled.
\<close>

section \<open>Rows, files and outcomes\<close>

record StoredFileObject =
  fo_id :: string
  fo_tenantId :: string
  fo_provider :: string
  fo_bucket :: "string option"
  fo_storageKey :: string
  fo_originalName :: "string option"
  fo_mimeType :: "string option"
  fo_sizeBytes :: int
  fo_checksumSha256 :: "string option"
  fo_resourceType :: "string option"
  fo_resourceId :: "string option"
  fo_visibility :: string
  fo_createdAt :: instant
  fo_deletedAt :: "instant option"

record file_db = disk_db +
  storedFiles :: "StoredFileObject list"

record UploadedFile =
  mf_path :: string
  mf_originalname :: string
  mf_mimetype :: string
  mf_size :: int

record WrittenUpload =
  wu_file :: UploadedFile
  wu_key :: string
  wu_checksumSha256 :: string

record PersistedUpload = WrittenUpload +
  pu_stored :: StoredFileObject

record CompensationCandidate =
  cc_key :: string
  cc_checksumSha256 :: string
  cc_originalName :: "string option"
  cc_mimeType :: "string option"
  cc_sizeBytes :: int

record UploadCommitProof =
  cp_id :: string
  cp_storageKey :: string
  cp_checksumSha256 :: string
  cp_sizeBytes :: int

record 's storage_provider =
  sp_name :: string
  sp_writeNew :: "string \<Rightarrow> string \<Rightarrow> (app_error, 's, unit) prog"
  sp_writeNewFromFile :: "string \<Rightarrow> string \<Rightarrow> (app_error, 's, unit) prog"
  sp_delete :: "string \<Rightarrow> (app_error, 's, unit) prog"

definition localProvider :: "disk_env \<Rightarrow> 'z disk_db_scheme storage_provider" where
  "localProvider E = \<lparr>sp_name = ''local'', sp_writeNew = writeNew E, sp_writeNewFromFile = writeNewFromFile E, sp_delete = storageDelete E\<rparr>"

record 's upload_env =
  ue_disk :: disk_env
  ue_sha :: "string \<Rightarrow> string"
  ue_uuid :: "nat \<Rightarrow> nat \<Rightarrow> string"
  ue_fileId :: "string \<Rightarrow> string"
  ue_now :: instant
  ue_quotaMb :: int
  ue_s3Bucket :: "string option"
  ue_others :: "'s \<Rightarrow> 's"
  ue_outcome :: "'s \<Rightarrow> txOutcome"
  ue_readFault :: "app_error option"
  ue_writeFault :: "app_error option"

section \<open>Statements\<close>

definition storageBucket :: "'s upload_env \<Rightarrow> 's storage_provider \<Rightarrow> string" where
  "storageBucket U sp = (if sp_name sp = ''s3'' then orElse (ue_s3Bucket U) ''s3'' else ''local'')"

definition tenantQuotaBytes :: "'s upload_env \<Rightarrow> int" where
  "tenantQuotaBytes U = ue_quotaMb U * 1024 * 1024"

definition othersP :: "'s upload_env \<Rightarrow> (app_error, 's, unit) prog" where
  "othersP U = modifyP (ue_others U)"

definition dbFaultP :: "app_error option \<Rightarrow> (app_error, 's, unit) prog" where
  "dbFaultP f = (case f of None \<Rightarrow> returnP () | Some e \<Rightarrow> throwP e)"

text \<open>The unique indexes of the table; a missing bucket is never equal to another.\<close>

definition clashes :: "StoredFileObject \<Rightarrow> StoredFileObject \<Rightarrow> bool" where
  "clashes r q \<longleftrightarrow> fo_id r = fo_id q \<or>
     fo_provider r = fo_provider q \<and> fo_bucket r = fo_bucket q \<and> fo_bucket r \<noteq> None \<and> fo_storageKey r = fo_storageKey q"

definition createStored :: "StoredFileObject \<Rightarrow> (app_error, 'z file_db_scheme, StoredFileObject) prog" where
  "createStored row =
     bindP (getsP storedFiles) (\<lambda>rows.
       if \<exists>r \<in> set rows. clashes r row then throwP (PrismaError ''P2002'')
       else seqP (modifyP (\<lambda>s. s\<lparr>storedFiles := storedFiles s @ [row]\<rparr>)) (returnP row))"

definition skipDuplicates :: "StoredFileObject list \<Rightarrow> StoredFileObject list \<Rightarrow> StoredFileObject list" where
  "skipDuplicates rows new = foldl (\<lambda>acc row. if \<exists>r \<in> set acc. clashes r row then acc else acc @ [row]) rows new"

definition liveBytes :: "string \<Rightarrow> StoredFileObject list \<Rightarrow> int" where
  "liveBytes tenantId rows = (\<Sum>r\<leftarrow>filter (\<lambda>r. fo_tenantId r = tenantId \<and> fo_deletedAt r = None) rows. fo_sizeBytes r)"

definition assertTenantStorageQuota :: "'z file_db_scheme upload_env \<Rightarrow> string \<Rightarrow> (app_error, 'z file_db_scheme, unit) prog" where
  "assertTenantStorageQuota U tenantId =
     bindP (getsP (\<lambda>s. liveBytes tenantId (storedFiles s))) (\<lambda>currentBytes.
       assertP (\<not> currentBytes > tenantQuotaBytes U) (AppError 413 ''TENANT_STORAGE_QUOTA_EXCEEDED''))"

definition checksumFile :: "'z disk_db_scheme upload_env \<Rightarrow> string \<Rightarrow> (app_error, 'z disk_db_scheme, string) prog" where
  "checksumFile U filePath =
     bindP (readFileP (ue_disk U) (posixResolve (dk_cwd (ue_disk U)) filePath)) (\<lambda>c. returnP (ue_sha U c))"

section \<open>Compensation\<close>

definition cleanupPhysicalObjects ::
  "'s upload_env \<Rightarrow> 's storage_provider \<Rightarrow> string list \<Rightarrow> (app_error, 's, string list \<times> string list) prog" where
  "cleanupPhysicalObjects U sp keys =
     bindP (forEachP (\<lambda>key. seqP (othersP U) (settleP (sp_delete sp key))) keys) (\<lambda>results.
       returnP (map fst (filter (\<lambda>(key, r). \<not> isl r) (zip keys results)), map fst (filter (\<lambda>(key, r). isl r) (zip keys results))))"

definition isSerializationRollback :: "app_error \<Rightarrow> bool" where
  "isSerializationRollback e = (case e of AppError _ c \<Rightarrow> c = ''P2034'' | PrismaError c \<Rightarrow> c = ''P2034'' | SystemError c \<Rightarrow> c = ''P2034'')"

definition proofMatches :: "UploadCommitProof \<Rightarrow> StoredFileObject \<Rightarrow> bool" where
  "proofMatches ob row \<longleftrightarrow> fo_id row = cp_id ob \<and> fo_storageKey row = cp_storageKey ob \<and>
     fo_checksumSha256 row = Some (cp_checksumSha256 ob) \<and> fo_sizeBytes row = cp_sizeBytes ob"

definition recoverCompletedUploadCommit ::
  "'z file_db_scheme upload_env \<Rightarrow> 'z file_db_scheme storage_provider \<Rightarrow> string \<Rightarrow> string \<Rightarrow> UploadCommitProof list \<Rightarrow>
    (app_error, 'z file_db_scheme, unit) prog" where
  "recoverCompletedUploadCommit U sp tenantId resourceType objects =
     bindP
       (tryP
          (if objects = [] then returnP False
           else seqP (othersP U)
             (seqP (dbFaultP (ue_readFault U))
               (bindP (getsP (\<lambda>s. filter (\<lambda>r. fo_tenantId r = tenantId \<and> fo_provider r = sp_name sp \<and>
                   fo_bucket r = Some (storageBucket U sp) \<and> fo_resourceType r = Some resourceType \<and>
                   fo_id r \<in> set (map cp_id objects) \<and> fo_storageKey r \<in> set (map cp_storageKey objects) \<and> fo_deletedAt r = None) (storedFiles s)))
                 (\<lambda>committed. returnP (length committed = length objects \<and>
                    list_all (\<lambda>ob. list_ex (proofMatches ob) committed) objects)))))
          (\<lambda>_. returnP False))
       (\<lambda>complete. if complete then returnP () else throwP (AppError 503 ''UPLOAD_COMMIT_UNCERTAIN''))"

definition storedRow ::
  "'s upload_env \<Rightarrow> 's storage_provider \<Rightarrow> string \<Rightarrow> string \<Rightarrow> string option \<Rightarrow> CompensationCandidate \<Rightarrow> instant option \<Rightarrow> StoredFileObject" where
  "storedRow U sp tenantId resourceType resourceId c deletedAt =
     \<lparr>fo_id = ue_fileId U (cc_key c), fo_tenantId = tenantId, fo_provider = sp_name sp, fo_bucket = Some (storageBucket U sp), fo_storageKey = cc_key c,
      fo_originalName = cc_originalName c, fo_mimeType = cc_mimeType c, fo_sizeBytes = cc_sizeBytes c,
      fo_checksumSha256 = Some (cc_checksumSha256 c), fo_resourceType = Some resourceType, fo_resourceId = resourceId,
      fo_visibility = ''private'', fo_createdAt = ue_now U, fo_deletedAt = deletedAt\<rparr>"

definition recordFailedCompensationObjects ::
  "'z file_db_scheme upload_env \<Rightarrow> 'z file_db_scheme storage_provider \<Rightarrow> string \<Rightarrow> string \<Rightarrow> string option \<Rightarrow> string list \<Rightarrow>
    CompensationCandidate list \<Rightarrow> (app_error, 'z file_db_scheme, unit) prog" where
  "recordFailedCompensationObjects U sp tenantId resourceType resourceId failedKeys candidates =
     (if failedKeys = [] then returnP ()
      else tryP
        (seqP (othersP U) (seqP (dbFaultP (ue_writeFault U))
          (modifyP (\<lambda>s. s\<lparr>storedFiles := skipDuplicates (storedFiles s)
             (map (\<lambda>c. storedRow U sp tenantId resourceType resourceId c (Some (ue_now U)))
                (filter (\<lambda>c. cc_key c \<in> set failedKeys) candidates))\<rparr>))))
        (\<lambda>_. returnP ()))"

definition candidateOf :: "('a :: type) WrittenUpload_scheme \<Rightarrow> CompensationCandidate" where
  "candidateOf w = \<lparr>cc_key = wu_key w, cc_checksumSha256 = wu_checksumSha256 w, cc_originalName = Some (mf_originalname (wu_file w)),
     cc_mimeType = Some (mf_mimetype (wu_file w)), cc_sizeBytes = mf_size (wu_file w)\<rparr>"

definition compensate ::
  "'z file_db_scheme upload_env \<Rightarrow> 'z file_db_scheme storage_provider \<Rightarrow> string \<Rightarrow> string \<Rightarrow> string option \<Rightarrow>
    CompensationCandidate list \<Rightarrow> (app_error, 'z file_db_scheme, unit) prog" where
  "compensate U sp tenantId resourceType resourceId candidates =
     bindP (cleanupPhysicalObjects U sp (map cc_key candidates)) (\<lambda>(removedKeys, failedKeys).
       recordFailedCompensationObjects U sp tenantId resourceType resourceId failedKeys candidates)"

section \<open>Writing\<close>

definition objectExists :: "app_error \<Rightarrow> bool" where
  "objectExists e = (case e of AppError _ c \<Rightarrow> c = ''STORAGE_OBJECT_EXISTS'' | _ \<Rightarrow> False)"

text \<open>The loop over three attempts; \<open>left\<close> counts the attempts that remain.\<close>

fun writeAttempts ::
  "'s upload_env \<Rightarrow> (string \<Rightarrow> (app_error, 's, unit) prog) \<Rightarrow> nat \<Rightarrow> string \<Rightarrow> string \<Rightarrow> string \<Rightarrow> nat \<Rightarrow> (app_error, 's, string) prog" where
  "writeAttempts U wr i tenantId category mimeType 0 = throwP (AppError 500 ''STORAGE_KEY_ALLOCATION_FAILED'')"
| "writeAttempts U wr i tenantId category mimeType (Suc left) =
     (let attempt = 2 - left in
      case buildTenantStorageKey (ue_uuid U i attempt) tenantId category mimeType of
        Inl e \<Rightarrow> throwP e
      | Inr key \<Rightarrow>
          tryP (seqP (othersP U) (seqP (wr key) (returnP key)))
            (\<lambda>e. if \<not> objectExists e \<or> attempt = 2 then throwP e else writeAttempts U wr i tenantId category mimeType left))"

definition writeNewFileWithRetry ::
  "'z disk_db_scheme upload_env \<Rightarrow> 'z disk_db_scheme storage_provider \<Rightarrow> nat \<Rightarrow> string \<Rightarrow> string \<Rightarrow> UploadedFile \<Rightarrow>
    (app_error, 'z disk_db_scheme, WrittenUpload) prog" where
  "writeNewFileWithRetry U sp i tenantId category file =
     seqP (othersP U)
       (bindP (checksumFile U (mf_path file)) (\<lambda>checksum.
          bindP (writeAttempts U (\<lambda>key. sp_writeNewFromFile sp key (mf_path file)) i tenantId category (mf_mimetype file) 3) (\<lambda>key.
            returnP \<lparr>wu_file = file, wu_key = key, wu_checksumSha256 = checksum\<rparr>)))"

definition linkUpload ::
  "'z file_db_scheme upload_env \<Rightarrow> 'z file_db_scheme storage_provider \<Rightarrow> string \<Rightarrow> string \<Rightarrow> string option \<Rightarrow> WrittenUpload \<Rightarrow>
    (app_error, 'z file_db_scheme, PersistedUpload) prog" where
  "linkUpload U sp tenantId resourceType resourceId w =
     bindP (createStored (storedRow U sp tenantId resourceType resourceId (candidateOf w) None)) (\<lambda>stored.
       returnP (WrittenUpload.extend w \<lparr>pu_stored = stored\<rparr>))"

definition commitProof :: "PersistedUpload \<Rightarrow> UploadCommitProof" where
  "commitProof u = \<lparr>cp_id = fo_id (pu_stored u), cp_storageKey = wu_key u, cp_checksumSha256 = wu_checksumSha256 u, cp_sizeBytes = mf_size (wu_file u)\<rparr>"

definition linkAll ::
  "'z file_db_scheme upload_env \<Rightarrow> 'z file_db_scheme storage_provider \<Rightarrow> string \<Rightarrow> string \<Rightarrow> string option \<Rightarrow>
    (PersistedUpload list \<Rightarrow> (app_error, 'z file_db_scheme, 'r) prog) \<Rightarrow> WrittenUpload list \<Rightarrow>
    (app_error, 'z file_db_scheme, 'r \<times> PersistedUpload list) prog" where
  "linkAll U sp tenantId resourceType resourceId commit written =
     bindP (forEachP (linkUpload U sp tenantId resourceType resourceId) written) (\<lambda>uploads.
       bindP (commit uploads) (\<lambda>result.
         seqP (assertTenantStorageQuota U tenantId) (returnP (result, uploads))))"

definition persistNewUploadedFiles ::
  "'z file_db_scheme upload_env \<Rightarrow> 'z file_db_scheme storage_provider \<Rightarrow> string \<Rightarrow> string \<Rightarrow> string \<Rightarrow> string option \<Rightarrow> UploadedFile list \<Rightarrow>
    (PersistedUpload list \<Rightarrow> (app_error, 'z file_db_scheme, 'r) prog) \<Rightarrow> (app_error, 'z file_db_scheme, 'r \<times> PersistedUpload list) prog" where
  "persistNewUploadedFiles U sp tenantId category resourceType resourceId files commit =
     bindP (forEachP (\<lambda>(i, file). settleP (writeNewFileWithRetry U sp i tenantId category file)) (enumerate 0 files)) (\<lambda>writeResults.
       let written = map projr (filter (\<lambda>r. \<not> isl r) writeResults); candidates = map candidateOf written in
       case List.find isl writeResults of
         Some failed \<Rightarrow> seqP (compensate U sp tenantId resourceType resourceId candidates) (throwP (projl failed))
       | None \<Rightarrow>
           seqP (othersP U)
             (catchP (transactionP (ue_outcome U) (linkAll U sp tenantId resourceType resourceId commit written))
               (\<lambda>(completed, e).
                  case completed of
                    Some v \<Rightarrow>
                      if \<not> isSerializationRollback e
                      then seqP (recoverCompletedUploadCommit U sp tenantId resourceType (map commitProof (snd v))) (returnP v)
                      else seqP (compensate U sp tenantId resourceType resourceId candidates) (throwP e)
                  | None \<Rightarrow> seqP (compensate U sp tenantId resourceType resourceId candidates) (throwP e))))"

definition bufferCandidate :: "'s upload_env \<Rightarrow> string \<Rightarrow> string \<Rightarrow> string \<Rightarrow> string \<Rightarrow> CompensationCandidate" where
  "bufferCandidate U key originalName mimeType buffer =
     \<lparr>cc_key = key, cc_checksumSha256 = ue_sha U buffer, cc_originalName = Some originalName, cc_mimeType = Some mimeType, cc_sizeBytes = int (length buffer)\<rparr>"

text \<open>Returns the key, the checksum and the identifier of the row.\<close>

definition persistNewBuffer ::
  "'z file_db_scheme upload_env \<Rightarrow> 'z file_db_scheme storage_provider \<Rightarrow> string \<Rightarrow> string \<Rightarrow> string \<Rightarrow> string option \<Rightarrow> string \<Rightarrow> string \<Rightarrow> string \<Rightarrow>
    (app_error, 'z file_db_scheme, string \<times> string \<times> string) prog" where
  "persistNewBuffer U sp tenantId category resourceType resourceId originalName mimeType buffer =
     bindP (writeAttempts U (\<lambda>key. sp_writeNew sp key buffer) 0 tenantId category mimeType 3) (\<lambda>key.
       let candidate = bufferCandidate U key originalName mimeType buffer; checksum = ue_sha U buffer in
       seqP (othersP U)
         (bindP (catchP
           (transactionP (ue_outcome U)
              (bindP (createStored (storedRow U sp tenantId resourceType resourceId candidate None)) (\<lambda>stored.
                 seqP (assertTenantStorageQuota U tenantId) (returnP (fo_id stored)))))
           (\<lambda>(completed, e).
              case completed of
                Some fid \<Rightarrow>
                  if \<not> isSerializationRollback e
                  then seqP (recoverCompletedUploadCommit U sp tenantId resourceType
                         [\<lparr>cp_id = fid, cp_storageKey = key, cp_checksumSha256 = checksum, cp_sizeBytes = int (length buffer)\<rparr>]) (returnP fid)
                  else seqP (compensate U sp tenantId resourceType resourceId [candidate]) (throwP e)
              | None \<Rightarrow> seqP (compensate U sp tenantId resourceType resourceId [candidate]) (throwP e)))
           (\<lambda>fid. returnP (key, checksum, fid))))"

definition deleteRetiredPhysicalObject :: "'s upload_env \<Rightarrow> 's storage_provider \<Rightarrow> string \<Rightarrow> (app_error, 's, bool) prog" where
  "deleteRetiredPhysicalObject U sp key =
     bindP (cleanupPhysicalObjects U sp [key]) (\<lambda>(removedKeys, failedKeys). returnP (length failedKeys = 0))"

definition compensateCommittedUpload ::
  "'z file_db_scheme upload_env \<Rightarrow> 'z file_db_scheme storage_provider \<Rightarrow> string \<Rightarrow> string \<Rightarrow> (app_error, 'z file_db_scheme, bool) prog" where
  "compensateCommittedUpload U sp tenantId key =
     bindP (tryP
         (seqP (othersP U) (seqP (dbFaultP (ue_writeFault U))
           (seqP (modifyP (\<lambda>s. s\<lparr>storedFiles := updateMany
               (\<lambda>r. fo_tenantId r = tenantId \<and> fo_provider r = sp_name sp \<and> fo_bucket r = Some (storageBucket U sp) \<and>
                    fo_storageKey r = key \<and> fo_deletedAt r = None)
               (\<lambda>r. r\<lparr>fo_deletedAt := Some (ue_now U)\<rparr>) (storedFiles s)\<rparr>)) (returnP True))))
         (\<lambda>_. returnP False))
       (\<lambda>retired. if retired then deleteRetiredPhysicalObject U sp key else returnP False)"

end
