(* ===== verification/Upload_Guarantee.thy ===== *)
theory Upload_Guarantee
  imports Upload_Persistence
begin

text \<open>
  What the persistence of uploads guarantees.  The storage is an interface, \<open>object_store\<close>, interpreted on the local provider.
  \<open>backed\<close> is the invariant that ties the two stores together: every live row has its file, with the recorded digest.  Requests that
  run in between keep it and leave alone the paths of this request, its staged files and its random keys (\<open>relyOk\<close>).
\<close>

section \<open>Rows and files\<close>

definition liveRow :: "string \<Rightarrow> StoredFileObject \<Rightarrow> bool" where
  "liveRow nm r \<longleftrightarrow> fo_provider r = nm \<and> fo_deletedAt r = None"

definition backed :: "(string \<Rightarrow> string) \<Rightarrow> (string \<Rightarrow> string) \<Rightarrow> string \<Rightarrow> 'z file_db_scheme \<Rightarrow> bool" where
  "backed sha addr nm s \<longleftrightarrow> (\<forall>r \<in> set (storedFiles s). liveRow nm r \<longrightarrow>
     (\<exists>c. fileAt s (addr (fo_storageKey r)) = Some c \<and> (\<forall>h. fo_checksumSha256 r = Some h \<longrightarrow> sha c = h)))"

definition unlinked :: "(string \<Rightarrow> string) \<Rightarrow> string \<Rightarrow> 'z file_db_scheme \<Rightarrow> string \<Rightarrow> bool" where
  "unlinked addr nm s p \<longleftrightarrow> (\<forall>r \<in> set (storedFiles s). liveRow nm r \<longrightarrow> addr (fo_storageKey r) \<noteq> p)"

definition relyOk :: "(string \<Rightarrow> string) \<Rightarrow> (string \<Rightarrow> string) \<Rightarrow> string \<Rightarrow> string set \<Rightarrow> ('z file_db_scheme \<Rightarrow> 'z file_db_scheme) \<Rightarrow> bool" where
  "relyOk sha addr nm M rely \<longleftrightarrow> (\<forall>s. (backed sha addr nm s \<longrightarrow> backed sha addr nm (rely s)) \<and>
     (\<forall>p \<in> M. fileAt (rely s) p = fileAt s p) \<and>
     (\<forall>r. addr (fo_storageKey r) \<in> M \<longrightarrow> (r \<in> set (storedFiles (rely s)) \<longleftrightarrow> r \<in> set (storedFiles s))))"

definition ownKeys :: "'s upload_env \<Rightarrow> string \<Rightarrow> string \<Rightarrow> string set" where
  "ownKeys U tenantId category = {key. \<exists>i a m. buildTenantStorageKey (ue_uuid U i a) tenantId category m = Inr key}"

text \<open>A transaction that reports a serialization failure was rolled back.\<close>

definition honestOutcome :: "'s upload_env \<Rightarrow> bool" where
  "honestOutcome U \<longleftrightarrow> (\<forall>s e. ue_outcome U s = ReplyLost e \<longrightarrow> \<not> isSerializationRollback e)"

text \<open>What the callback of the transaction may do: change rows, not files, and keep the rows of the new uploads.\<close>

definition commitOk ::
  "(string \<Rightarrow> string) \<Rightarrow> (string \<Rightarrow> string) \<Rightarrow> string \<Rightarrow> (PersistedUpload list \<Rightarrow> (app_error, 'z file_db_scheme, 'r) prog) \<Rightarrow> bool" where
  "commitOk sha addr nm commit \<longleftrightarrow> (\<forall>ups s x t. commit ups s = (Inr x, t) \<longrightarrow>
     diskEntries t = diskEntries s \<and> (backed sha addr nm s \<longrightarrow> backed sha addr nm t) \<and>
     (\<forall>r \<in> set (storedFiles s). fo_storageKey r \<in> wu_key ` set ups \<longrightarrow> r \<in> set (storedFiles t)))"

lemma touches_rows: "touches A s t \<Longrightarrow> storedFiles t = storedFiles s"
  by (auto simp: touches_def)

lemma backed_touch:
  assumes "backed sha addr nm s" and "touches A s t" and "\<And>r. r \<in> set (storedFiles s) \<Longrightarrow> liveRow nm r \<Longrightarrow> addr (fo_storageKey r) \<notin> A"
  shows "backed sha addr nm t"
  using assms(1,3) touches_rows [OF assms(2)] touches_fileAt [OF assms(2)] unfolding backed_def by metis

lemma unlinked_touch: "touches A s t \<Longrightarrow> unlinked addr nm t p = unlinked addr nm s p"
  by (simp add: unlinked_def touches_rows)

lemma backed_unlinked: "backed sha addr nm s \<Longrightarrow> fileAt s p = None \<Longrightarrow> unlinked addr nm s p"
  by (force simp: backed_def unlinked_def)

lemma backed_same_files: "backed sha addr nm s \<Longrightarrow> storedFiles t = storedFiles s \<Longrightarrow> fileAt t = fileAt s \<Longrightarrow> backed sha addr nm t"
  by (simp add: backed_def)

lemma relyD:
  assumes "relyOk sha addr nm M rely"
  shows "backed sha addr nm s \<Longrightarrow> backed sha addr nm (rely s)" and "p \<in> M \<Longrightarrow> fileAt (rely s) p = fileAt s p"
    and "p \<in> M \<Longrightarrow> unlinked addr nm (rely s) p = unlinked addr nm s p"
    and "addr (fo_storageKey r) \<in> M \<Longrightarrow> r \<in> set (storedFiles (rely s)) \<longleftrightarrow> r \<in> set (storedFiles s)"
  using assms unfolding relyOk_def unlinked_def by blast+

text \<open>
  A step is calm when it keeps the invariant, the files on the private paths \<open>M\<close>, and does not link a file there that no row names.
  \<open>held\<close>: a private path with its file, named by no live row.
\<close>

definition calm :: "(string \<Rightarrow> string) \<Rightarrow> (string \<Rightarrow> string) \<Rightarrow> string \<Rightarrow> string set \<Rightarrow> 'z file_db_scheme \<Rightarrow> 'z file_db_scheme \<Rightarrow> bool" where
  "calm sha addr nm M s t \<longleftrightarrow> (backed sha addr nm s \<longrightarrow> backed sha addr nm t) \<and>
     (\<forall>p \<in> M. (fileAt s p \<noteq> None \<longrightarrow> fileAt t p = fileAt s p) \<and> (unlinked addr nm s p \<longrightarrow> unlinked addr nm t p))"

definition held :: "(string \<Rightarrow> string) \<Rightarrow> string \<Rightarrow> string set \<Rightarrow> 'z file_db_scheme \<Rightarrow> string \<Rightarrow> string \<Rightarrow> bool" where
  "held addr nm M s k c \<longleftrightarrow> addr k \<in> M \<and> unlinked addr nm s (addr k) \<and> fileAt s (addr k) = Some c"

definition exclusiveWrite ::
  "(string \<Rightarrow> string) \<Rightarrow> string \<Rightarrow> ('z file_db_scheme \<Rightarrow> bool) \<Rightarrow> (string \<Rightarrow> (app_error, 'z file_db_scheme, unit) prog) \<Rightarrow> bool" where
  "exclusiveWrite addr c Q wr \<longleftrightarrow> (\<forall>k s r t. wr k s = (r, t) \<longrightarrow> touches {addr k} s t \<and> (fileAt s (addr k) \<noteq> None \<longrightarrow> fileAt t = fileAt s) \<and>
     (r = Inr () \<longrightarrow> Q s \<longrightarrow> fileAt s (addr k) = None \<and> fileAt t (addr k) = Some c))"

section \<open>The storage interface\<close>

locale object_store =
  fixes sp :: "'z file_db_scheme storage_provider" and addr :: "string \<Rightarrow> string" and stage :: "string \<Rightarrow> string"
  assumes copy_touches: "sp_writeNewFromFile sp k f s = (r, t) \<Longrightarrow> touches {addr k} s t"
    and copy_present: "sp_writeNewFromFile sp k f s = (r, t) \<Longrightarrow> fileAt s (addr k) \<noteq> None \<Longrightarrow> fileAt t = fileAt s"
    and copy_done: "sp_writeNewFromFile sp k f s = (Inr (), t) \<Longrightarrow>
      fileAt s (addr k) = None \<and> fileAt s (stage f) \<noteq> None \<and> fileAt t (addr k) = fileAt s (stage f)"
    and write_touches: "sp_writeNew sp k c s = (r, t) \<Longrightarrow> touches {addr k} s t"
    and write_present: "sp_writeNew sp k c s = (r, t) \<Longrightarrow> fileAt s (addr k) \<noteq> None \<Longrightarrow> fileAt t = fileAt s"
    and write_done: "sp_writeNew sp k c s = (Inr (), t) \<Longrightarrow> fileAt s (addr k) = None \<and> fileAt t (addr k) = Some c"
    and delete_touches: "sp_delete sp k s = (q, t) \<Longrightarrow> touches {addr k} s t"
    and delete_done: "sp_delete sp k s = (Inr (), t) \<Longrightarrow> fileAt t (addr k) = None"
    and delete_absent: "sp_delete sp k s = (q, t) \<Longrightarrow> fileAt s p = None \<Longrightarrow> fileAt t p = None"

definition writtenOk ::
  "'s upload_env \<Rightarrow> (string \<Rightarrow> string) \<Rightarrow> string \<Rightarrow> string set \<Rightarrow> (string \<Rightarrow> string) \<Rightarrow> string set \<Rightarrow> 'z file_db_scheme \<Rightarrow> UploadedFile \<Rightarrow> WrittenUpload \<Rightarrow> bool" where
  "writtenOk U addr nm M stage keys t f w \<longleftrightarrow> (\<exists>c. fileAt t (stage (mf_path f)) = Some c \<and> stage (mf_path f) \<in> M \<and> wu_file w = f \<and>
     wu_checksumSha256 w = ue_sha U c \<and> wu_key w \<in> keys \<and> held addr nm M t (wu_key w) c)"

lemma calm_refl [simp]: "calm sha addr nm M s s"
  by (simp add: calm_def)

lemma calm_trans: "calm sha addr nm M s t \<Longrightarrow> calm sha addr nm M t u \<Longrightarrow> calm sha addr nm M s u"
  unfolding calm_def by metis

lemma calm_held: "calm sha addr nm M s t \<Longrightarrow> held addr nm M s k c \<Longrightarrow> held addr nm M t k c"
  by (auto simp: calm_def held_def)

lemma calm_file: "calm sha addr nm M s t \<Longrightarrow> p \<in> M \<Longrightarrow> fileAt s p = Some c \<Longrightarrow> fileAt t p = Some c"
  by (auto simp: calm_def)

lemma calm_backed: "calm sha addr nm M s t \<Longrightarrow> backed sha addr nm s \<Longrightarrow> backed sha addr nm t"
  by (simp add: calm_def)

lemma calm_rely: "relyOk sha addr nm M rely \<Longrightarrow> calm sha addr nm M s (rely s)"
  unfolding calm_def using relyD by metis

lemma calm_write:
  assumes "exclusiveWrite addr c Q wr" and "wr k s = (r, t)"
  shows "calm sha addr nm M s t"
proof (cases "fileAt s (addr k) = None")
  case True
  have tc: "touches {addr k} s t" using assms by (auto simp: exclusiveWrite_def)
  have "backed sha addr nm t" if "backed sha addr nm s"
    using that tc by (rule backed_touch) (use backed_unlinked [OF that True] in \<open>auto simp: unlinked_def\<close>)
  then show ?thesis
    unfolding calm_def unlinked_touch [OF tc] using True touches_fileAt [OF tc] by (metis singletonD)
next
  case False
  then have "touches {addr k} s t" "fileAt t = fileAt s" using assms unfolding exclusiveWrite_def by blast+
  then show ?thesis unfolding calm_def unlinked_touch [OF \<open>touches {addr k} s t\<close>] using touches_rows backed_same_files by metis
qed

lemma write_held:
  assumes "exclusiveWrite addr c Q wr" and "wr k s = (Inr (), t)" and "Q s" and "backed sha addr nm s" and "addr k \<in> M"
  shows "held addr nm M t k c"
proof -
  have "touches {addr k} s t" "fileAt s (addr k) = None" "fileAt t (addr k) = Some c" using assms unfolding exclusiveWrite_def by blast+
  then show ?thesis using assms(4,5) backed_unlinked unlinked_touch unfolding held_def by blast
qed

lemma calm_written: "calm sha addr nm M s t \<Longrightarrow> writtenOk U addr nm M stage keys s f w \<Longrightarrow> writtenOk U addr nm M stage keys t f w"
  unfolding writtenOk_def using calm_held calm_file by blast

text \<open>Programs whose steps are calm, from every state on.\<close>

definition calmProg :: "(string \<Rightarrow> string) \<Rightarrow> (string \<Rightarrow> string) \<Rightarrow> string \<Rightarrow> string set \<Rightarrow> (app_error, 'z file_db_scheme, 'a) prog \<Rightarrow> bool" where
  "calmProg sha addr nm M m \<longleftrightarrow> (\<forall>s. keeps (calm sha addr nm M s) m)"

lemma calmProgI: "(\<And>s r t. m s = (r, t) \<Longrightarrow> calm sha addr nm M s t) \<Longrightarrow> calmProg sha addr nm M m"
  unfolding calmProg_def keeps_def by (metis calm_trans prod.collapse)

lemma calmProgD: "calmProg sha addr nm M m \<Longrightarrow> m s = (r, t) \<Longrightarrow> calm sha addr nm M s t"
  unfolding calmProg_def by (meson keepsD calm_refl)

named_theorems calm_intros "introduction rules for calmProg"

lemma calm_combinators [calm_intros]:
  "calmProg sha addr nm M (returnP x)" "calmProg sha addr nm M (throwP e)" "calmProg sha addr nm M (getsP g)"
  by (simp_all add: calmProg_def keeps_intros)

lemma calm_bindP [calm_intros]:
  "calmProg sha addr nm M m \<Longrightarrow> (\<And>x. calmProg sha addr nm M (f x)) \<Longrightarrow> calmProg sha addr nm M (bindP m f)"
  by (simp add: calmProg_def keeps_bindP)

lemma calm_seqP [calm_intros]: "calmProg sha addr nm M m \<Longrightarrow> calmProg sha addr nm M n \<Longrightarrow> calmProg sha addr nm M (seqP m n)"
  by (simp add: calmProg_def keeps_seqP)

lemma calm_tryP [calm_intros]:
  "calmProg sha addr nm M m \<Longrightarrow> (\<And>e. calmProg sha addr nm M (h e)) \<Longrightarrow> calmProg sha addr nm M (tryP m h)"
  by (simp add: calmProg_def keeps_tryP)

lemma calm_if [calm_intros]:
  "(b \<Longrightarrow> calmProg sha addr nm M m) \<Longrightarrow> (\<not> b \<Longrightarrow> calmProg sha addr nm M n) \<Longrightarrow> calmProg sha addr nm M (if b then m else n)"
  by simp

lemma calm_sum [calm_intros]:
  "(\<And>e. calmProg sha addr nm M (f e)) \<Longrightarrow> (\<And>y. calmProg sha addr nm M (g y)) \<Longrightarrow> calmProg sha addr nm M (case x of Inl e \<Rightarrow> f e | Inr y \<Rightarrow> g y)"
  by (cases x) simp_all

lemma calm_settleP [calm_intros]: "calmProg sha addr nm M m \<Longrightarrow> calmProg sha addr nm M (settleP m)"
  by (rule calmProgI) (auto simp: settleP_def split: prod.splits dest: calmProgD)

lemma calm_forEachP [calm_intros]: "(\<And>x. x \<in> set xs \<Longrightarrow> calmProg sha addr nm M (f x)) \<Longrightarrow> calmProg sha addr nm M (forEachP f xs)"
  by (induction xs) (auto intro!: calm_intros)

lemma calm_othersP: "relyOk sha addr nm M (ue_others U) \<Longrightarrow> calmProg sha addr nm M (othersP U)"
  by (rule calmProgI) (auto simp: othersP_def modifyP_def calm_rely)

lemma checksumFile_same: "checksumFile U f s = (r, t) \<Longrightarrow> t = s"
  by (auto simp: checksumFile_def readFileP_def prog_defs faultP_def split: option.splits fsEntry.splits)

lemma checksumFile_Inr:
  "checksumFile U f s = (Inr h, t) \<Longrightarrow> \<exists>c. fileAt s (posixResolve (dk_cwd (ue_disk U)) f) = Some c \<and> h = ue_sha U c"
  by (auto simp: checksumFile_def readFileP_def bindP_Inr seqP_Inr fileIn_def faultP_def split: option.splits fsEntry.splits)

lemma calm_checksumFile [calm_intros]: "calmProg sha addr nm M (checksumFile U f)"
  by (rule calmProgI) (drule checksumFile_same, simp)

lemma calm_writeAttempts:
  assumes "relyOk sha addr nm M (ue_others U)" and "exclusiveWrite addr c Q wr"
  shows "calmProg sha addr nm M (writeAttempts U wr i tenantId category mime left)"
proof (induction left)
  case (Suc left)
  have wr: "calmProg sha addr nm M (wr k)" for k
    using calm_write [OF assms(2)] by (rule calmProgI)
  have "calmProg sha addr nm M (tryP (seqP (othersP U) (seqP (wr k) (returnP k)))
      (\<lambda>e. if \<not> objectExists e \<or> 2 - left = 2 then throwP e else writeAttempts U wr i tenantId category mime left))" for k
    by (intro calm_tryP calm_seqP calm_othersP [OF assms(1)] wr calm_combinators calm_if Suc.IH)
  then show ?case unfolding writeAttempts.simps Let_def by (intro calm_sum calm_combinators)
qed (simp add: calm_combinators)

text \<open>The key a write returns is one of the request's and its file is held.\<close>

lemma writeAttempts_held:
  assumes rely: "relyOk sha addr nm M (ue_others U)" and excl: "exclusiveWrite addr c Q wr"
    and Q: "\<And>s t. calm sha addr nm M s t \<Longrightarrow> Q s \<Longrightarrow> Q t" and own: "addr ` ownKeys U tenantId category \<subseteq> M"
  shows "writeAttempts U wr i tenantId category mime left s = (Inr key, t) \<Longrightarrow> Q s \<Longrightarrow> backed sha addr nm s \<Longrightarrow>
     key \<in> ownKeys U tenantId category \<and> held addr nm M t key c"
proof (induction left arbitrary: s)
  case (Suc left)
  obtain k where k: "buildTenantStorageKey (ue_uuid U i (2 - left)) tenantId category mime = Inr k"
    using Suc.prems(1) unfolding writeAttempts.simps Let_def
    by (cases "buildTenantStorageKey (ue_uuid U i (2 - left)) tenantId category mime") simp_all
  then have kk: "k \<in> ownKeys U tenantId category" by (auto simp: ownKeys_def)
  let ?s = "ue_others U s"
  have s1: "Q ?s" "backed sha addr nm ?s" using Q [OF calm_rely [OF rely]] calm_backed [OF calm_rely [OF rely]] Suc.prems(2,3) by blast+
  have run: "tryP (seqP (othersP U) (seqP (wr k) (returnP k)))
      (\<lambda>e. if \<not> objectExists e \<or> 2 - left = 2 then throwP e else writeAttempts U wr i tenantId category mime left) s = (Inr key, t)"
    using Suc.prems(1) unfolding writeAttempts.simps Let_def k by simp
  have body: "seqP (othersP U) (seqP (wr k) (returnP k)) s = bindP (wr k) (\<lambda>_. returnP k) ?s"
    by (simp add: othersP_def seqP_def bindP_def modifyP_def)
  consider "wr k ?s = (Inr (), t)" "key = k"
    | e u where "wr k ?s = (Inl e, u)" "writeAttempts U wr i tenantId category mime left u = (Inr key, t)"
  proof (cases "wr k ?s")
    case (Pair q u)
    with run show ?thesis
      by (cases q; cases "objectExists (projl q) \<and> 2 - left \<noteq> 2") (auto simp: tryP_def body bindP_def returnP_def throwP_def intro: that)
  qed
  then show ?case
  proof cases
    case 1
    have "held addr nm M t k c" by (rule write_held [OF excl 1(1) s1]) (use own kk in blast)
    with 1(2) kk show ?thesis by simp
  next
    case (2 e u)
    have cu: "calm sha addr nm M ?s u" by (rule calm_write [OF excl 2(1)])
    show ?thesis by (rule Suc.IH [OF 2(2) Q [OF cu s1(1)] calm_backed [OF cu s1(2)]])
  qed
qed simp

text \<open>Paths of this request that no live row names.\<close>

definition released :: "(string \<Rightarrow> string) \<Rightarrow> (string \<Rightarrow> string) \<Rightarrow> string \<Rightarrow> string set \<Rightarrow> string set \<Rightarrow> 'z file_db_scheme \<Rightarrow> bool" where
  "released sha addr nm M ks s \<longleftrightarrow> backed sha addr nm s \<and> (\<forall>k \<in> ks. addr k \<in> M \<and> unlinked addr nm s (addr k))"

lemma keeps_released_rely: "relyOk sha addr nm M (ue_others U) \<Longrightarrow> keeps (released sha addr nm M ks) (othersP U)"
  unfolding othersP_def released_def by (rule keeps_modifyP) (simp add: relyD)

lemma skipDuplicates_rows: "r \<in> set (skipDuplicates rows new) \<Longrightarrow> r \<in> set rows \<or> r \<in> set new"
proof (induction new arbitrary: rows)
  case (Cons n new)
  then show ?case by (auto simp: skipDuplicates_def split: if_splits dest!: Cons.IH [unfolded skipDuplicates_def])
qed (simp add: skipDuplicates_def)

lemma skipDuplicates_old: "r \<in> set rows \<Longrightarrow> r \<in> set (skipDuplicates rows new)"
  by (induction new arbitrary: rows) (auto simp: skipDuplicates_def)

lemma skipDuplicates_covers: "row \<in> set new \<Longrightarrow> \<exists>r \<in> set (skipDuplicates rows new). r = row \<or> clashes r row"
proof (induction new arbitrary: rows)
  case (Cons n new)
  let ?rows = "if \<exists>r \<in> set rows. clashes r n then rows else rows @ [n]"
  have step: "skipDuplicates rows (n # new) = skipDuplicates ?rows new" by (simp add: skipDuplicates_def)
  show ?case
  proof (cases "row = n")
    case True
    then obtain r where "r \<in> set ?rows" "r = row \<or> clashes r row" by (cases "\<exists>r \<in> set rows. clashes r n") auto
    then show ?thesis unfolding step using skipDuplicates_old by blast
  next
    case False
    then show ?thesis unfolding step using Cons by simp
  qed
qed simp

lemma retired_rows:
  "r \<in> set (updateMany P (\<lambda>r. r\<lparr>fo_deletedAt := Some n\<rparr>) rows) \<Longrightarrow> fo_deletedAt r = None \<Longrightarrow> r \<in> set rows \<and> \<not> P r"
proof -
  assume "r \<in> set (updateMany P (\<lambda>r. r\<lparr>fo_deletedAt := Some n\<rparr>) rows)" and live: "fo_deletedAt r = None"
  then obtain q where q: "q \<in> set rows" "r = (if P q then q\<lparr>fo_deletedAt := Some n\<rparr> else q)" by (auto simp: in_updateMany)
  have "\<not> P q"
  proof
    assume "P q"
    with q(2) have "fo_deletedAt r = Some n" by simp
    with live show False by simp
  qed
  with q show ?thesis by simp
qed

text \<open>Rows that are dead or were there before keep every claim about live rows.\<close>

lemma released_dead_rows:
  assumes "released sha addr nm M ks s" and "\<And>r. r \<in> set rows \<Longrightarrow> r \<in> set (storedFiles s) \<or> \<not> liveRow nm r"
  shows "released sha addr nm M ks (s\<lparr>storedFiles := rows\<rparr>)"
  using assms unfolding released_def backed_def unlinked_def by fastforce

lemma record_keeps_released:
  "relyOk sha addr nm M (ue_others U) \<Longrightarrow> keeps (released sha addr nm M ks) (recordFailedCompensationObjects U sp tenantId rt rid failed cs)"
  unfolding recordFailedCompensationObjects_def dbFaultP_def
  by (intro keeps_if keeps_tryP keeps_seqP keeps_case_option keeps_throwP keeps_returnP keeps_released_rely keeps_modifyP released_dead_rows; assumption?)
    (auto dest!: skipDuplicates_rows simp: liveRow_def storedRow_def)

text \<open>A row that is linked to the file it was written for.\<close>

lemma backed_link:
  assumes "backed sha addr nm s" and "fileAt s (addr (fo_storageKey row)) = Some c" and "fo_checksumSha256 row = Some (sha c)"
  shows "backed sha addr nm (s\<lparr>storedFiles := storedFiles s @ [row]\<rparr>)"
  using assms by (auto simp: backed_def)

lemma createStored_Inr:
  "createStored row s = (Inr q, t) \<Longrightarrow> q = row \<and> t = s\<lparr>storedFiles := storedFiles s @ [row]\<rparr>"
  by (auto simp: createStored_def bindP_Inr seqP_Inr split: if_splits)

lemma linkUpload_Inr:
  assumes "linkUpload U sp tenantId rt rid w s = (Inr u, t)"
  shows "t = s\<lparr>storedFiles := storedFiles s @ [pu_stored u]\<rparr> \<and> pu_stored u = storedRow U sp tenantId rt rid (candidateOf w) None \<and>
     WrittenUpload.truncate u = w"
  using assms by (auto simp: linkUpload_def bindP_Inr WrittenUpload.defs dest!: createStored_Inr)

definition linkedTo :: "'z file_db_scheme upload_env \<Rightarrow> 'z file_db_scheme storage_provider \<Rightarrow> string \<Rightarrow> string \<Rightarrow> string option \<Rightarrow> WrittenUpload \<Rightarrow> PersistedUpload \<Rightarrow> bool" where
  "linkedTo U sp tenantId rt rid w u \<longleftrightarrow> WrittenUpload.truncate u = w \<and> pu_stored u = storedRow U sp tenantId rt rid (candidateOf w) None"

lemma linkedTo_sel:
  assumes "linkedTo U sp tenantId rt rid w u"
  shows "wu_key u = wu_key w" "wu_file u = wu_file w" "wu_checksumSha256 u = wu_checksumSha256 w" "candidateOf u = candidateOf w"
    "fo_storageKey (pu_stored u) = wu_key w"
proof -
  have w: "w = WrittenUpload.truncate u" and stored: "pu_stored u = storedRow U sp tenantId rt rid (candidateOf w) None"
    using assms by (auto simp: linkedTo_def)
  show "wu_key u = wu_key w" "wu_file u = wu_file w" "wu_checksumSha256 u = wu_checksumSha256 w" "candidateOf u = candidateOf w"
    by (simp_all add: w WrittenUpload.truncate_def candidateOf_def)
  show "fo_storageKey (pu_stored u) = wu_key w" by (simp add: stored storedRow_def candidateOf_def)
qed

lemma linkEach_Inr:
  assumes "backed sha addr nm s" and "ue_sha U = sha"
    and "\<forall>w \<in> set ws. \<exists>c. fileAt s (addr (wu_key w)) = Some c \<and> wu_checksumSha256 w = sha c"
    and "forEachP (linkUpload U sp tenantId rt rid) ws s = (Inr us, t)"
  shows "backed sha addr nm t \<and> diskEntries t = diskEntries s \<and> storedFiles t = storedFiles s @ map pu_stored us \<and>
     list_all2 (linkedTo U sp tenantId rt rid) ws us"
  using assms
proof (induction ws arbitrary: s us)
  case (Cons w ws)
  obtain u s1 us' where u: "linkUpload U sp tenantId rt rid w s = (Inr u, s1)" and us: "us = u # us'"
    and rest: "forEachP (linkUpload U sp tenantId rt rid) ws s1 = (Inr us', t)"
    using Cons.prems(4) by (auto simp: bindP_Inr)
  note l = linkUpload_Inr [OF u]
  obtain c where c: "fileAt s (addr (wu_key w)) = Some c" "wu_checksumSha256 w = sha c" using Cons.prems(3) by auto
  have "backed sha addr nm s1"
    using l backed_link [OF Cons.prems(1), of "pu_stored u" c] c by (simp add: storedRow_def candidateOf_def)
  then have "backed sha addr nm t \<and> diskEntries t = diskEntries s1 \<and> storedFiles t = storedFiles s1 @ map pu_stored us' \<and>
     list_all2 (linkedTo U sp tenantId rt rid) ws us'"
    by (rule Cons.IH [OF _ Cons.prems(2) _ rest]) (use Cons.prems(3) l in simp)
  moreover have "linkedTo U sp tenantId rt rid w u" using l by (simp add: linkedTo_def)
  ultimately show ?case using l us by simp
qed (auto simp: returnP_def)

section \<open>The transaction\<close>

lemma list_all2_right: "list_all2 P xs ys \<Longrightarrow> y \<in> set ys \<Longrightarrow> \<exists>x \<in> set xs. P x y"
  by (induction rule: list_all2_induct) auto

lemma linkAll_Inr:
  assumes bk: "backed sha addr nm s" and sha: "ue_sha U = sha" and ok: "commitOk sha addr nm commit"
    and files: "\<forall>w \<in> set ws. \<exists>c. fileAt s (addr (wu_key w)) = Some c \<and> wu_checksumSha256 w = sha c"
    and run: "linkAll U sp tenantId rt rid commit ws s = (Inr (x, us), t)"
  shows "backed sha addr nm t \<and> diskEntries t = diskEntries s \<and> list_all2 (linkedTo U sp tenantId rt rid) ws us \<and>
     (\<forall>u \<in> set us. pu_stored u \<in> set (storedFiles t)) \<and> liveBytes tenantId (storedFiles t) \<le> tenantQuotaBytes U"
proof -
  obtain s1 where each: "forEachP (linkUpload U sp tenantId rt rid) ws s = (Inr us, s1)" and c: "commit us s1 = (Inr x, t)"
    and q: "liveBytes tenantId (storedFiles t) \<le> tenantQuotaBytes U"
    using run by (auto simp: linkAll_def bindP_Inr seqP_Inr assertTenantStorageQuota_def)
  note l = linkEach_Inr [OF bk sha files each]
  have "fo_storageKey (pu_stored u) = wu_key u" if u: "u \<in> set us" for u
  proof -
    obtain w where w: "linkedTo U sp tenantId rt rid w u" using list_all2_right [of "linkedTo U sp tenantId rt rid" ws us u] l u by blast
    show ?thesis using linkedTo_sel(1,5) [OF w] by simp
  qed
  then have "\<forall>u \<in> set us. pu_stored u \<in> set (storedFiles s1) \<and> fo_storageKey (pu_stored u) \<in> wu_key ` set us" using l by auto
  then have "\<forall>u \<in> set us. pu_stored u \<in> set (storedFiles t)" using ok c unfolding commitOk_def by blast
  moreover have "diskEntries t = diskEntries s1 \<and> backed sha addr nm t" using ok c l unfolding commitOk_def by blast
  ultimately show ?thesis using l q by simp
qed

lemma calm_recover:
  "relyOk sha addr nm M (ue_others U) \<Longrightarrow> calmProg sha addr nm M (recoverCompletedUploadCommit U sp tenantId rt obs)"
  unfolding recoverCompletedUploadCommit_def dbFaultP_def
  by (cases "ue_readFault U") (auto intro!: calm_intros calm_othersP)

lemma recover_state: "recoverCompletedUploadCommit U sp tenantId rt obs s = (r, t) \<Longrightarrow> t = s \<or> t = ue_others U s"
  by (auto simp: recoverCompletedUploadCommit_def dbFaultP_def othersP_def tryP_def prog_defs split: option.splits if_splits)

lemma recover_rows:
  assumes "relyOk sha addr nm M (ue_others U)" and "recoverCompletedUploadCommit U sp tenantId rt obs s = (r, t)"
    and "addr (fo_storageKey row) \<in> M"
  shows "row \<in> set (storedFiles t) \<longleftrightarrow> row \<in> set (storedFiles s)"
  using recover_state [OF assms(2)] relyD(4) [where addr = addr, OF assms(1,3)] by blast

lemma recover_error:
  "recoverCompletedUploadCommit U sp tenantId rt obs s = (Inl e, t) \<Longrightarrow> e = AppError 503 ''UPLOAD_COMMIT_UNCERTAIN''"
  by (auto simp: recoverCompletedUploadCommit_def dbFaultP_def othersP_def tryP_def prog_defs split: option.splits if_splits)

text \<open>A recovered commit has live rows with the keys of the uploads.\<close>

lemma recover_Inr:
  assumes "recoverCompletedUploadCommit U sp tenantId rt obs s = (Inr (), t)"
  shows "\<exists>row \<in> set (storedFiles t). liveRow (sp_name sp) row \<and> fo_storageKey row \<in> cp_storageKey ` set obs"
proof -
  have ne: "obs \<noteq> []" and "\<exists>cs. length cs = length obs \<and> (\<forall>row \<in> set cs. row \<in> set (storedFiles t) \<and> liveRow (sp_name sp) row \<and> fo_storageKey row \<in> cp_storageKey ` set obs)"
    using assms by (auto simp: recoverCompletedUploadCommit_def dbFaultP_def othersP_def tryP_def prog_defs liveRow_def split: option.splits if_splits)
  then obtain cs where cs: "length cs = length obs" "\<forall>row \<in> set cs. row \<in> set (storedFiles t) \<and> liveRow (sp_name sp) row \<and> fo_storageKey row \<in> cp_storageKey ` set obs"
    by blast
  then show ?thesis using ne by (cases cs) auto
qed

text \<open>
  The specification of a request to persist files.  When it returns, every file has a live row of the tenant and its content is in the
  storage.  When it throws, either no key of the request has become the key of a live row, or the outcome is reported as uncertain and
  all files are kept.
\<close>

definition fileKept :: "(string \<Rightarrow> string) \<Rightarrow> (string \<Rightarrow> string) \<Rightarrow> 'z file_db_scheme \<Rightarrow> 'z file_db_scheme \<Rightarrow> UploadedFile \<Rightarrow> string \<Rightarrow> bool" where
  "fileKept addr stage s t f key \<longleftrightarrow> fileAt t (addr key) \<noteq> None \<and> (\<forall>c. fileAt s (stage (mf_path f)) = Some c \<longrightarrow> fileAt t (addr key) = Some c)"

definition uploadsLinked ::
  "'z file_db_scheme upload_env \<Rightarrow> 'z file_db_scheme storage_provider \<Rightarrow> (string \<Rightarrow> string) \<Rightarrow> (string \<Rightarrow> string) \<Rightarrow> string \<Rightarrow> string \<Rightarrow> string \<Rightarrow>
    string option \<Rightarrow> UploadedFile list \<Rightarrow> 'z file_db_scheme \<Rightarrow> 'z file_db_scheme \<Rightarrow> PersistedUpload list \<Rightarrow> bool" where
  "uploadsLinked U sp addr stage tenantId category rt rid files s t us \<longleftrightarrow> map wu_file us = files \<and>
     (\<forall>u \<in> set us. wu_key u \<in> ownKeys U tenantId category \<and> pu_stored u \<in> set (storedFiles t) \<and>
        pu_stored u = storedRow U sp tenantId rt rid (candidateOf u) None \<and> fileKept addr stage s t (wu_file u) (wu_key u))"

definition persistSpec ::
  "'z file_db_scheme upload_env \<Rightarrow> 'z file_db_scheme storage_provider \<Rightarrow> (string \<Rightarrow> string) \<Rightarrow> (string \<Rightarrow> string) \<Rightarrow> string \<Rightarrow> string \<Rightarrow> string \<Rightarrow>
    string option \<Rightarrow> UploadedFile list \<Rightarrow> 'z file_db_scheme \<Rightarrow> (app_error + 'r \<times> PersistedUpload list) \<Rightarrow> 'z file_db_scheme \<Rightarrow> bool" where
  "persistSpec U sp addr stage tenantId category rt rid files s r t \<longleftrightarrow>
     backed (ue_sha U) addr (sp_name sp) t \<and>
     (case r of
        Inr (x, us) \<Rightarrow> uploadsLinked U sp addr stage tenantId category rt rid files s t us
      | Inl e \<Rightarrow>
          (\<forall>key \<in> ownKeys U tenantId category. unlinked addr (sp_name sp) s (addr key) \<longrightarrow> unlinked addr (sp_name sp) t (addr key)) \<or>
          e = AppError 503 ''UPLOAD_COMMIT_UNCERTAIN'' \<and>
          (\<exists>keys. list_all2 (\<lambda>f key. key \<in> ownKeys U tenantId category \<and> fileKept addr stage s t f key) files keys))"

lemma catch_transaction:
  assumes "honestOutcome U" and "I s" and "\<And>x t. body s = (Inr x, t) \<Longrightarrow> I t" and "\<And>e. I (snd (h (None, e) s))"
    and "\<And>x e u. (if isSerializationRollback e then u = s else I u) \<Longrightarrow> I (snd (h (Some x, e) u))"
  shows "I (snd (catchP (transactionP (ue_outcome U) body) h s))"
proof (cases "body s")
  case (Pair b t)
  show ?thesis
  proof (cases b)
    case (Inl e)
    with Pair assms(4) show ?thesis by (simp add: catchP_def transactionP_def)
  next
    case (Inr x)
    with Pair assms(3) have "I t" by simp
    with Pair Inr assms show ?thesis by (cases "ue_outcome U t") (auto simp: catchP_def transactionP_def honestOutcome_def)
  qed
qed

lemma snd_seq_throw: "snd (seqP m (throwP e) s) = snd (m s)"
  by (simp add: seqP_def bindP_def throwP_def split: prod.split sum.split)

lemma snd_seq_return: "snd (seqP m (returnP x) s) = snd (m s)"
  by (simp add: seqP_def bindP_def returnP_def split: prod.split sum.split)

lemma bindP_state: "m s = (Inr x, t) \<Longrightarrow> bindP m f s = f x t"
  by (simp add: bindP_def)

lemma snd_bind_return: "snd (bindP m (\<lambda>x. returnP (g x)) s) = snd (m s)"
  by (simp add: bindP_def returnP_def split: prod.split sum.split)

section \<open>Writing and taking back\<close>

context object_store
begin

lemma copy_exclusive:
  "exclusiveWrite addr c (\<lambda>s. fileAt s (stage f) = Some c) (\<lambda>k. sp_writeNewFromFile sp k f)"
  unfolding exclusiveWrite_def using copy_touches copy_present copy_done by metis

lemma buffer_exclusive: "exclusiveWrite addr c (\<lambda>_. True) (\<lambda>k. sp_writeNew sp k c)"
  unfolding exclusiveWrite_def using write_touches write_present write_done by metis

lemma calm_writeFile:
  "relyOk sha addr nm M (ue_others U) \<Longrightarrow> calmProg sha addr nm M (writeNewFileWithRetry U sp i tenantId category file)"
  unfolding writeNewFileWithRetry_def by (intro calm_intros calm_othersP calm_writeAttempts [OF _ copy_exclusive])

text \<open>A written file holds the content that was staged, with its digest.\<close>

lemma writeFile_held:
  assumes rely: "relyOk sha addr nm M (ue_others U)" and own: "addr ` ownKeys U tenantId category \<subseteq> M"
    and st: "stage = posixResolve (dk_cwd (ue_disk U))" and staged: "stage (mf_path f) \<in> M"
    and bk: "backed sha addr nm s" and run: "writeNewFileWithRetry U sp i tenantId category f s = (Inr w, t)"
  shows "writtenOk U addr nm M stage (ownKeys U tenantId category) t f w"
proof -
  let ?s = "ue_others U s"
  obtain h k where h: "checksumFile U (mf_path f) ?s = (Inr h, ?s)"
    and k: "writeAttempts U (\<lambda>k. sp_writeNewFromFile sp k (mf_path f)) i tenantId category (mf_mimetype f) 3 ?s = (Inr k, t)"
    and w: "w = \<lparr>wu_file = f, wu_key = k, wu_checksumSha256 = h\<rparr>"
    using run by (auto simp: writeNewFileWithRetry_def othersP_def run_seq_modify bindP_Inr dest: checksumFile_same)
  obtain c where c: "fileAt ?s (stage (mf_path f)) = Some c" "h = ue_sha U c" using checksumFile_Inr [OF h] st by blast
  have "backed sha addr nm ?s" using bk relyD(1) [OF rely] by blast
  then have "k \<in> ownKeys U tenantId category \<and> held addr nm M t k c"
    using writeAttempts_held [OF rely copy_exclusive _ own k c(1)] calm_file staged by blast
  moreover have "fileAt t (stage (mf_path f)) = Some c"
    using calm_file [OF calmProgD [OF calm_writeAttempts [OF rely copy_exclusive] k] staged c(1)] .
  ultimately show ?thesis using c(2) w by (simp add: writtenOk_def staged)
qed

text \<open>All files of a request.\<close>

lemma writeAll_held:
  assumes rely: "relyOk sha addr nm M (ue_others U)" and own: "addr ` ownKeys U tenantId category \<subseteq> M"
    and st: "stage = posixResolve (dk_cwd (ue_disk U))"
  shows "forEachP (\<lambda>(i, file). settleP (writeNewFileWithRetry U sp i tenantId category file)) fs s = (r, t) \<Longrightarrow>
     \<forall>f \<in> set fs. stage (mf_path (snd f)) \<in> M \<Longrightarrow> backed sha addr nm s \<Longrightarrow>
     calm sha addr nm M s t \<and> (\<exists>rs. r = Inr rs \<and>
       list_all2 (\<lambda>f q. \<forall>w. q = Inr w \<longrightarrow> writtenOk U addr nm M stage (ownKeys U tenantId category) t (snd f) w) fs rs)"
proof (induction fs arbitrary: s r t)
  case (Cons f fs)
  obtain i g where f: "f = (i, g)" by fastforce
  obtain q u where q: "writeNewFileWithRetry U sp i tenantId category g s = (q, u)" by fastforce
  have su: "calm sha addr nm M s u" using calmProgD [OF calm_writeFile [OF rely] q] .
  have bu: "backed sha addr nm u" using calm_backed [OF su Cons.prems(3)] .
  obtain r' t' where rest: "forEachP (\<lambda>(i, file). settleP (writeNewFileWithRetry U sp i tenantId category file)) fs u = (r', t')" by fastforce
  then obtain rs where rs: "calm sha addr nm M u t'" "r' = Inr rs"
    "list_all2 (\<lambda>f q. \<forall>w. q = Inr w \<longrightarrow> writtenOk U addr nm M stage (ownKeys U tenantId category) t' (snd f) w) fs rs"
    using Cons.IH [OF rest _ bu] Cons.prems(2) by auto
  have "r = Inr (q # rs)" "t = t'"
    using Cons.prems(1) rest rs(2) settleP_run [where m = "writeNewFileWithRetry U sp i tenantId category g", OF q] by (simp_all add: f bindP_def returnP_def)
  moreover have "writtenOk U addr nm M stage (ownKeys U tenantId category) t' g w" if "q = Inr w" for w
    using writeFile_held [OF rely own st _ Cons.prems(3), of g i w u] q that Cons.prems(2) calm_written [OF rs(1)] by (simp add: f)
  ultimately show ?case using calm_trans [OF su rs(1)] rs(3) by (simp add: f)
qed (auto simp: returnP_def)

text \<open>Taking back: the files of rows that no live row names may go.\<close>

lemma delete_keeps_released:
  assumes "k \<in> K"
  shows "keeps (released sha addr nm M K) (settleP (sp_delete sp k))"
proof (rule keepsI)
  fix s :: "'z file_db_scheme" assume rel: "released sha addr nm M K s"
  obtain q t where q: "sp_delete sp k s = (q, t)" by fastforce
  have tc: "touches {addr k} s t" using delete_touches [OF q] .
  have ul: "unlinked addr nm s (addr k)" and bk: "backed sha addr nm s" using rel assms by (simp_all add: released_def)
  have "backed sha addr nm t"
    using bk tc by (rule backed_touch) (use ul in \<open>auto simp: unlinked_def\<close>)
  then have "released sha addr nm M K t" using rel by (simp add: released_def unlinked_touch [OF tc])
  then show "released sha addr nm M K (snd (settleP (sp_delete sp k) s))" by (simp add: settleP_def q)
qed

lemma cleanup_keeps_released:
  assumes "relyOk sha addr nm M (ue_others U)" and "set ks \<subseteq> K"
  shows "keeps (released sha addr nm M K) (cleanupPhysicalObjects U sp ks)"
proof -
  have "keeps (released sha addr nm M K) (settleP (sp_delete sp k))" if "k \<in> set ks" for k
    using that assms(2) by (intro delete_keeps_released) blast
  then show ?thesis
    unfolding cleanupPhysicalObjects_def
    by (intro keeps_bindP keeps_forEachP_set keeps_seqP keeps_released_rely assms(1) keeps_returnP)
qed

lemma compensate_keeps_released:
  assumes "relyOk sha addr nm M (ue_others U)" and "cc_key ` set cs \<subseteq> K"
  shows "keeps (released sha addr nm M K) (compensate U sp tenantId rt rid cs)"
  unfolding compensate_def case_prod_beta
  by (intro keeps_bindP record_keeps_released cleanup_keeps_released assms(1)) (use assms(2) in auto)

lemma compensate_undone:
  assumes rely: "relyOk sha addr nm M (ue_others U)" and own: "addr ` keys \<subseteq> M" and bk: "backed sha addr nm s"
    and ws: "\<forall>w \<in> set ws. \<exists>f. writtenOk U addr nm M stage keys s f w"
    and run: "compensate U sp tenantId rt rid (map candidateOf ws) s = (q, t)"
  shows "backed sha addr nm t \<and> (\<forall>k \<in> keys. unlinked addr nm s (addr k) \<longrightarrow> unlinked addr nm t (addr k))"
proof -
  let ?K = "{k \<in> keys. unlinked addr nm s (addr k)}"
  have "cc_key ` set (map candidateOf ws) \<subseteq> ?K" using ws by (auto simp: writtenOk_def held_def candidateOf_def)
  moreover have "released sha addr nm M ?K s" using own bk by (auto simp: released_def)
  ultimately have "released sha addr nm M ?K t" using keepsD [OF compensate_keeps_released [OF rely] _ run] by blast
  then show ?thesis by (auto simp: released_def)
qed

end

lemma seqP_throwP: "seqP m (throwP e) s = (r, t) \<Longrightarrow> t = snd (m s) \<and> (\<exists>e'. r = Inl e')"
  by (auto simp: seqP_def bindP_def throwP_def split: prod.splits sum.splits)

lemma seqP_throw_not_Inr [simp]: "seqP m (throwP e) s \<noteq> (Inr y, t)"
  by (simp add: seqP_Inr)

lemma committed_run:
  assumes "\<forall>s. ue_outcome U s = Commits" and "catchP (transactionP (ue_outcome U) body) h s = (Inr y, t)"
  shows "body s = (Inr y, t) \<or> (\<exists>e. h (None, e) s = (Inr y, t))"
  using assms by (cases "body s"; cases "fst (body s)") (auto simp: catchP_def transactionP_def)

lemma writtenOk_kept:
  assumes "calm sha addr nm M s t" and "writtenOk U addr nm M stage keys t f w"
  shows "wu_key w \<in> keys \<and> wu_file w = f \<and> fileKept addr stage s t f (wu_key w)"
proof -
  obtain c where "fileAt t (stage (mf_path f)) = Some c" "stage (mf_path f) \<in> M" "fileAt t (addr (wu_key w)) = Some c" "wu_key w \<in> keys" "wu_file w = f"
    using assms(2) by (auto simp: writtenOk_def held_def)
  then show ?thesis using calm_file [OF assms(1)] by (fastforce simp: fileKept_def)
qed

lemma files_of_links:
  assumes "list_all2 (writtenOk U addr nm M stage keys s) files ws" and "list_all2 (linkedTo U sp tenantId rt rid) ws us"
  shows "map wu_file us = files"
proof -
  have "length us = length files" using assms by (metis list_all2_lengthD)
  moreover have "wu_file (us ! i) = files ! i" if "i < length files" for i
    using list_all2_nthD [OF assms(1), of i] list_all2_nthD [OF assms(2), of i] that assms(1)
    by (auto simp: writtenOk_def list_all2_lengthD dest: linkedTo_sel(2))
  ultimately show ?thesis by (simp add: list_eq_iff_nth_eq)
qed

lemma fileKept_same: "fileKept addr stage s t f k \<Longrightarrow> diskEntries u = diskEntries t \<Longrightarrow> fileKept addr stage s u f k"
  by (simp add: fileKept_def)

lemma fileKept_calm: "fileKept addr stage s t f k \<Longrightarrow> calm sha addr nm M t u \<Longrightarrow> addr k \<in> M \<Longrightarrow> fileKept addr stage s u f k"
  by (auto simp: fileKept_def calm_def)

text \<open>The reply of a committed transaction is lost.\<close>

lemma recover_committed:
  assumes rely: "relyOk (ue_sha U) addr (sp_name sp) M (ue_others U)" and own: "addr ` ownKeys U tenantId category \<subseteq> M"
    and bk: "backed (ue_sha U) addr (sp_name sp) t1" and us: "uploadsLinked U sp addr stage tenantId category rt rid files s t1 us"
    and run: "seqP (recoverCompletedUploadCommit U sp tenantId rt (map commitProof us)) (returnP (x, us)) t1 = (r, t)"
  shows "persistSpec U sp addr stage tenantId category rt rid files s r t"
proof -
  obtain q where q: "recoverCompletedUploadCommit U sp tenantId rt (map commitProof us) t1 = (q, t)"
    and r: "q = Inr () \<and> r = Inr (x, us) \<or> (\<exists>e. q = Inl e \<and> r = Inl e)"
    using run by (cases "recoverCompletedUploadCommit U sp tenantId rt (map commitProof us) t1"; cases "fst (recoverCompletedUploadCommit U sp tenantId rt (map commitProof us) t1)")
      (auto simp: seqP_def bindP_def returnP_def)
  have c: "calm (ue_sha U) addr (sp_name sp) M t1 t" using calmProgD [OF calm_recover [OF rely] q] .
  have linked: "uploadsLinked U sp addr stage tenantId category rt rid files s t us"
    unfolding uploadsLinked_def
  proof (intro conjI ballI)
    show "map wu_file us = files" using us by (simp add: uploadsLinked_def)
    fix u assume "u \<in> set us"
    with us have u: "wu_key u \<in> ownKeys U tenantId category" "pu_stored u \<in> set (storedFiles t1)"
      "pu_stored u = storedRow U sp tenantId rt rid (candidateOf u) None" "fileKept addr stage s t1 (wu_file u) (wu_key u)"
      by (auto simp: uploadsLinked_def)
    have "addr (wu_key u) \<in> M" using u(1) own by blast
    moreover have "fo_storageKey (pu_stored u) = wu_key u" unfolding u(3) by (simp add: storedRow_def candidateOf_def)
    ultimately show "wu_key u \<in> ownKeys U tenantId category" "pu_stored u \<in> set (storedFiles t)"
      "pu_stored u = storedRow U sp tenantId rt rid (candidateOf u) None" "fileKept addr stage s t (wu_file u) (wu_key u)"
      using u recover_rows [where addr = addr, OF rely q, of "pu_stored u"] fileKept_calm [OF u(4) c] by auto
  qed
  then have "list_all2 (\<lambda>f key. key \<in> ownKeys U tenantId category \<and> fileKept addr stage s t f key) files (map wu_key us)"
    by (auto simp: uploadsLinked_def list_all2_conv_all_nth)
  then have kept: "\<exists>keys. list_all2 (\<lambda>f key. key \<in> ownKeys U tenantId category \<and> fileKept addr stage s t f key) files keys" by (rule exI)
  from r show ?thesis
  proof (elim disjE conjE exE)
    assume "r = Inr (x, us)"
    then show ?thesis using linked calm_backed [OF c bk] by (simp add: persistSpec_def)
  next
    fix e assume e: "q = Inl e" "r = Inl e"
    then have "e = AppError 503 ''UPLOAD_COMMIT_UNCERTAIN''" using q recover_error by blast
    then show ?thesis unfolding persistSpec_def e(2) sum.case using kept calm_backed [OF c bk] by (intro conjI disjI2)
  qed
qed

text \<open>A transaction that was rolled back is not recovered.\<close>

lemma rolled_back_unrecovered:
  assumes "relyOk (ue_sha U) addr (sp_name sp) M (ue_others U)"
    and free: "\<forall>u \<in> set us. addr (wu_key u) \<in> M \<and> unlinked addr (sp_name sp) s1 (addr (wu_key u))"
    and q: "recoverCompletedUploadCommit U sp tenantId rt (map commitProof us) s1 = (q, t2)"
  shows "q \<noteq> Inr ()"
proof
  assume "q = Inr ()"
  then obtain row where row: "row \<in> set (storedFiles t2)" "liveRow (sp_name sp) row" "fo_storageKey row \<in> cp_storageKey ` set (map commitProof us)"
    using recover_Inr q by blast
  then obtain u where "u \<in> set us" "fo_storageKey row = wu_key u" by (auto simp: commitProof_def)
  with free calmProgD [OF calm_recover [OF assms(1)] q] have "unlinked addr (sp_name sp) t2 (addr (fo_storageKey row))" unfolding calm_def by metis
  with row show False by (auto simp: unlinked_def)
qed

lemma recover_rolled_back:
  assumes rely: "relyOk (ue_sha U) addr (sp_name sp) M (ue_others U)" and own: "addr ` ownKeys U tenantId category \<subseteq> M"
    and bk: "backed (ue_sha U) addr (sp_name sp) s1" and s: "calm (ue_sha U) addr (sp_name sp) M s s1"
    and free: "\<forall>u \<in> set us. addr (wu_key u) \<in> M \<and> unlinked addr (sp_name sp) s1 (addr (wu_key u))"
    and run: "seqP (recoverCompletedUploadCommit U sp tenantId rt (map commitProof us)) (returnP (x, us)) s1 = (r, t)"
  shows "persistSpec U sp addr stage tenantId category rt rid files s r t"
proof -
  obtain q t2 where q: "recoverCompletedUploadCommit U sp tenantId rt (map commitProof us) s1 = (q, t2)" by fastforce
  have c: "calm (ue_sha U) addr (sp_name sp) M s1 t2" using calmProgD [OF calm_recover [OF rely] q] .
  have "q \<noteq> Inr ()" by (rule rolled_back_unrecovered [OF rely free q])
  then obtain e where "r = Inl e" "t = t2" using q run by (cases q) (auto simp: seqP_def bindP_def)
  moreover have "unlinked addr (sp_name sp) t2 (addr k)" if "k \<in> ownKeys U tenantId category" "unlinked addr (sp_name sp) s (addr k)" for k
    using s c own that unfolding calm_def by blast
  ultimately show ?thesis using calm_backed [OF c bk] by (simp add: persistSpec_def)
qed

context object_store
begin

lemma compensation_ends:
  assumes rely: "relyOk (ue_sha U) addr (sp_name sp) M (ue_others U)" and own: "addr ` ownKeys U tenantId category \<subseteq> M"
    and bk: "backed (ue_sha U) addr (sp_name sp) s1" and s: "calm (ue_sha U) addr (sp_name sp) M s s1"
    and each: "\<forall>w \<in> set ws. \<exists>f. writtenOk U addr (sp_name sp) M stage (ownKeys U tenantId category) s1 f w"
    and run: "seqP (compensate U sp tenantId rt rid (map candidateOf ws)) (throwP e) s1 = (r, t)"
  shows "persistSpec U sp addr stage tenantId category rt rid files s r t"
proof -
  obtain e' where r: "r = Inl e'" and t: "t = snd (compensate U sp tenantId rt rid (map candidateOf ws) s1)" using seqP_throwP [OF run] by blast
  have "backed (ue_sha U) addr (sp_name sp) t \<and>
      (\<forall>k \<in> ownKeys U tenantId category. unlinked addr (sp_name sp) s1 (addr k) \<longrightarrow> unlinked addr (sp_name sp) t (addr k))"
    unfolding t by (rule compensate_undone [OF rely own bk each surjective_pairing])
  moreover have "unlinked addr (sp_name sp) s1 (addr k)" if "k \<in> ownKeys U tenantId category" "unlinked addr (sp_name sp) s (addr k)" for k
    using s own that unfolding calm_def by blast
  ultimately show ?thesis by (simp add: persistSpec_def r)
qed

lemma links_linked:
  assumes own: "addr ` ownKeys U tenantId category \<subseteq> M" and s: "calm (ue_sha U) addr (sp_name sp) M s s1"
    and ws: "list_all2 (writtenOk U addr (sp_name sp) M stage (ownKeys U tenantId category) s1) files ws"
    and links: "list_all2 (linkedTo U sp tenantId rt rid) ws us"
    and disk: "diskEntries t1 = diskEntries s1" and rows: "\<forall>u \<in> set us. pu_stored u \<in> set (storedFiles t1)"
  shows "uploadsLinked U sp addr stage tenantId category rt rid files s t1 us"
    and "\<forall>u \<in> set us. addr (wu_key u) \<in> M \<and> unlinked addr (sp_name sp) s1 (addr (wu_key u))"
proof -
  have u: "wu_key u \<in> ownKeys U tenantId category \<and> fileKept addr stage s s1 (wu_file u) (wu_key u) \<and>
      pu_stored u = storedRow U sp tenantId rt rid (candidateOf u) None \<and> unlinked addr (sp_name sp) s1 (addr (wu_key u))" if us: "u \<in> set us" for u
  proof -
    obtain w where w: "w \<in> set ws" "linkedTo U sp tenantId rt rid w u" using list_all2_right [OF links us] by blast
    then obtain f where f: "writtenOk U addr (sp_name sp) M stage (ownKeys U tenantId category) s1 f w" using list_all2_right [OF ws] by blast
    then have "unlinked addr (sp_name sp) s1 (addr (wu_key w))" by (auto simp: writtenOk_def held_def)
    then show ?thesis using writtenOk_kept [OF s f] linkedTo_sel(1,2,4) [OF w(2)] w(2) by (simp add: linkedTo_def)
  qed
  then show "uploadsLinked U sp addr stage tenantId category rt rid files s t1 us"
    using files_of_links [OF ws links] fileKept_same [OF _ disk] rows by (simp add: uploadsLinked_def)
  show "\<forall>u \<in> set us. addr (wu_key u) \<in> M \<and> unlinked addr (sp_name sp) s1 (addr (wu_key u))" using u own by blast
qed

text \<open>The part of a request after its files are written, from the state in which the transaction starts.\<close>

lemma transaction_outcome:
  assumes rely: "relyOk (ue_sha U) addr (sp_name sp) M (ue_others U)" and own: "addr ` ownKeys U tenantId category \<subseteq> M"
    and ok: "commitOk (ue_sha U) addr (sp_name sp) commit" and honest: "honestOutcome U"
    and bk: "backed (ue_sha U) addr (sp_name sp) s1" and s: "calm (ue_sha U) addr (sp_name sp) M s s1"
    and ws: "list_all2 (writtenOk U addr (sp_name sp) M stage (ownKeys U tenantId category) s1) files ws"
    and run: "catchP (transactionP (ue_outcome U) (linkAll U sp tenantId rt rid commit ws))
        (\<lambda>(completed, e). case completed of
             Some v \<Rightarrow> if \<not> isSerializationRollback e
               then seqP (recoverCompletedUploadCommit U sp tenantId rt (map commitProof (snd v))) (returnP v)
               else seqP (compensate U sp tenantId rt rid (map candidateOf ws)) (throwP e)
           | None \<Rightarrow> seqP (compensate U sp tenantId rt rid (map candidateOf ws)) (throwP e)) s1 = (r, t)"
  shows "persistSpec U sp addr stage tenantId category rt rid files s r t"
proof -
  have each: "\<forall>w \<in> set ws. \<exists>f. writtenOk U addr (sp_name sp) M stage (ownKeys U tenantId category) s1 f w"
    using list_all2_right [OF ws] by blast
  note undone = compensation_ends [OF rely own bk s each]
  obtain b t1 where b: "linkAll U sp tenantId rt rid commit ws s1 = (b, t1)" by fastforce
  show ?thesis
  proof (cases b)
    case (Inl e)
    then show ?thesis using run b undone by (simp add: catchP_def transactionP_def)
  next
    case (Inr v)
    obtain x us where v: "v = (x, us)" by fastforce
    have files: "\<forall>w \<in> set ws. \<exists>c. fileAt s1 (addr (wu_key w)) = Some c \<and> wu_checksumSha256 w = ue_sha U c"
      using each by (auto simp: writtenOk_def held_def)
    note l = linkAll_Inr [OF bk refl ok files b [unfolded Inr v]]
    have linked: "uploadsLinked U sp addr stage tenantId category rt rid files s t1 us"
      and free: "\<forall>u \<in> set us. addr (wu_key u) \<in> M \<and> unlinked addr (sp_name sp) s1 (addr (wu_key u))"
      using links_linked [OF own s ws] l by blast+
    show ?thesis
    proof (cases "ue_outcome U t1")
      case Commits
      then have "r = Inr v" "t = t1" using run b Inr by (simp_all add: catchP_def transactionP_def)
      then show ?thesis using linked l by (simp add: persistSpec_def v)
    next
      case (ReplyLost e)
      then show ?thesis
        using run b Inr honest l recover_committed [OF rely own _ linked] by (simp add: catchP_def transactionP_def honestOutcome_def v)
    next
      case (RollsBack e)
      then show ?thesis
        using run b Inr undone recover_rolled_back [OF rely own bk s free]
        by (cases "isSerializationRollback e") (simp_all add: catchP_def transactionP_def v)
    next
      case (Aborts e)
      then show ?thesis using run b undone Inr by (simp add: catchP_def transactionP_def)
    qed
  qed
qed

text \<open>
  The two ways a request goes on after it has written its files: the writes succeeded and the transaction follows, or some failed and
  are compensated.  \<open>I\<close> is any property that writes to the storage and other requests keep.
\<close>

lemma keeps_writeFile:
  assumes "\<And>A s t. touches A s t \<Longrightarrow> I s \<Longrightarrow> I t" and "\<And>s. I s \<Longrightarrow> I (ue_others U s)"
  shows "keeps I (writeNewFileWithRetry U sp i tenantId category file)"
proof -
  have w: "keeps I (sp_writeNewFromFile sp k f)" for k f
    by (rule keepsI) (metis assms(1) copy_touches surjective_pairing)
  have o: "keeps I (othersP U)" unfolding othersP_def by (rule keeps_modifyP) (rule assms(2))
  have c: "keeps I (checksumFile U f)" for f
    by (rule keepsI) (metis checksumFile_same surjective_pairing)
  have "keeps I (writeAttempts U (\<lambda>key. sp_writeNewFromFile sp key f) i tenantId category m n)" for f m n
  proof (induction n)
    case (Suc n)
    show ?case
      by (cases "buildTenantStorageKey (ue_uuid U i (2 - n)) tenantId category m")
        (auto simp: Let_def intro!: keeps_intros w o Suc)
  qed (simp add: keeps_throwP)
  then show ?thesis unfolding writeNewFileWithRetry_def by (intro keeps_intros o c)
qed

lemma persist_phases:
  assumes rely: "relyOk (ue_sha U) addr (sp_name sp) M (ue_others U)" and own: "addr ` ownKeys U tenantId category \<subseteq> M"
    and st: "stage = posixResolve (dk_cwd (ue_disk U))" and staged: "\<forall>f \<in> set files. stage (mf_path f) \<in> M"
    and bk: "backed (ue_sha U) addr (sp_name sp) s"
    and I: "I s" "\<And>A s t. touches A s t \<Longrightarrow> I s \<Longrightarrow> I t" "\<And>s. I s \<Longrightarrow> I (ue_others U s)"
    and run: "persistNewUploadedFiles U sp tenantId category rt rid files commit s = (r, t)"
  obtains s1 ws where "calm (ue_sha U) addr (sp_name sp) M s s1" and "backed (ue_sha U) addr (sp_name sp) s1" and "I s1"
    and "(\<forall>w \<in> set ws. \<exists>f. writtenOk U addr (sp_name sp) M stage (ownKeys U tenantId category) s1 f w) \<and>
        (\<exists>e. seqP (compensate U sp tenantId rt rid (map candidateOf ws)) (throwP e) s1 = (r, t)) \<or>
      list_all2 (writtenOk U addr (sp_name sp) M stage (ownKeys U tenantId category) s1) files ws \<and>
        catchP (transactionP (ue_outcome U) (linkAll U sp tenantId rt rid commit ws))
          (\<lambda>(completed, e). case completed of
               Some v \<Rightarrow> if \<not> isSerializationRollback e
                 then seqP (recoverCompletedUploadCommit U sp tenantId rt (map commitProof (snd v))) (returnP v)
                 else seqP (compensate U sp tenantId rt rid (map candidateOf ws)) (throwP e)
             | None \<Rightarrow> seqP (compensate U sp tenantId rt rid (map candidateOf ws)) (throwP e)) s1 = (r, t)"
proof -
  let ?wr = "\<lambda>s f q. \<forall>w. q = Inr w \<longrightarrow> writtenOk U addr (sp_name sp) M stage (ownKeys U tenantId category) s f w"
  obtain q s1 where q: "forEachP (\<lambda>(i, file). settleP (writeNewFileWithRetry U sp i tenantId category file)) (enumerate 0 files) s = (q, s1)" by fastforce
  have "\<forall>f \<in> set (enumerate 0 files). stage (mf_path (snd f)) \<in> M" using staged by (auto simp: enumerate_eq_zip dest: set_zip_rightD)
  then obtain rs where c1: "calm (ue_sha U) addr (sp_name sp) M s s1" and rs: "q = Inr rs" "list_all2 (\<lambda>f q. ?wr s1 (snd f) q) (enumerate 0 files) rs"
    using writeAll_held [OF rely own st q _ bk] by blast
  have written: "list_all2 (?wr s1) files rs"
    using rs(2) by (simp add: list_all2_conv_all_nth nth_enumerate_eq)
  have b1: "backed (ue_sha U) addr (sp_name sp) s1" using calm_backed [OF c1 bk] .
  have ki: "keeps I (forEachP (\<lambda>(i, file). settleP (writeNewFileWithRetry U sp i tenantId category file)) (enumerate 0 files))"
    by (rule keeps_forEachP) (simp add: keeps_settleP keeps_writeFile [where I = I and U = U, OF I(2) I(3)] split: prod.split)
  have i1: "I s1" by (rule keepsD [OF ki I(1) q])
  define ws where "ws = map projr (filter (\<lambda>r. \<not> isl r) rs)"
  note run = run [unfolded persistNewUploadedFiles_def bindP_def q rs(1) prod.case sum.case Let_def, folded ws_def]
  show thesis
  proof (cases "List.find isl rs")
    case (Some failed)
    have "\<exists>f. writtenOk U addr (sp_name sp) M stage (ownKeys U tenantId category) s1 f w" if w: "w \<in> set ws" for w
    proof -
      obtain q where "q \<in> set rs" "q = Inr w" using w by (auto simp: ws_def isl_def)
      then show ?thesis using list_all2_right [OF written] by blast
    qed
    moreover have "seqP (compensate U sp tenantId rt rid (map candidateOf ws)) (throwP (projl failed)) s1 = (r, t)"
      using run Some by (simp add: ws_def)
    ultimately show thesis by (intro that [OF c1 b1 i1] disjI1) blast
  next
    case None
    then have all: "\<forall>q \<in> set rs. \<not> isl q" by (simp add: find_None_iff)
    then have "ws = map projr rs" by (simp add: ws_def)
    then have w: "list_all2 (writtenOk U addr (sp_name sp) M stage (ownKeys U tenantId category) s1) files ws"
      using written all by (auto simp: list_all2_conv_all_nth)
    have c2: "calm (ue_sha U) addr (sp_name sp) M s1 (ue_others U s1)" by (rule calm_rely [OF rely])
    have "list_all2 (writtenOk U addr (sp_name sp) M stage (ownKeys U tenantId category) (ue_others U s1)) files ws"
      using w calm_written [OF c2, where U = U] by (simp add: list_all2_conv_all_nth)
    moreover note run [unfolded None option.case othersP_def run_seq_modify]
    ultimately show thesis by (intro that [OF calm_trans [OF c1 c2] calm_backed [OF c2 b1] I(3) [OF i1]] disjI2 conjI)
  qed
qed

lemma persist_outcome:
  assumes rely: "relyOk (ue_sha U) addr (sp_name sp) M (ue_others U)" and own: "addr ` ownKeys U tenantId category \<subseteq> M"
    and st: "stage = posixResolve (dk_cwd (ue_disk U))" and staged: "\<forall>f \<in> set files. stage (mf_path f) \<in> M"
    and ok: "commitOk (ue_sha U) addr (sp_name sp) commit" and honest: "honestOutcome U"
    and bk: "backed (ue_sha U) addr (sp_name sp) s"
    and run: "persistNewUploadedFiles U sp tenantId category rt rid files commit s = (r, t)"
  shows "persistSpec U sp addr stage tenantId category rt rid files s r t"
proof (rule persist_phases [OF rely own st staged bk TrueI TrueI TrueI run])
  fix s1 ws
  assume c: "calm (ue_sha U) addr (sp_name sp) M s s1" and b: "backed (ue_sha U) addr (sp_name sp) s1"
    and "(\<forall>w \<in> set ws. \<exists>f. writtenOk U addr (sp_name sp) M stage (ownKeys U tenantId category) s1 f w) \<and>
        (\<exists>e. seqP (compensate U sp tenantId rt rid (map candidateOf ws)) (throwP e) s1 = (r, t)) \<or>
      list_all2 (writtenOk U addr (sp_name sp) M stage (ownKeys U tenantId category) s1) files ws \<and>
        catchP (transactionP (ue_outcome U) (linkAll U sp tenantId rt rid commit ws))
          (\<lambda>(completed, e). case completed of
               Some v \<Rightarrow> if \<not> isSerializationRollback e
                 then seqP (recoverCompletedUploadCommit U sp tenantId rt (map commitProof (snd v))) (returnP v)
                 else seqP (compensate U sp tenantId rt rid (map candidateOf ws)) (throwP e)
             | None \<Rightarrow> seqP (compensate U sp tenantId rt rid (map candidateOf ws)) (throwP e)) s1 = (r, t)"
  then show ?thesis
    using compensation_ends [OF rely own b c] transaction_outcome [OF rely own ok honest b c] by blast
qed

text \<open>
  What the callback did when the request returns: it ran in the transaction, on a state with \<open>I\<close> and the new rows, and the
  request ends in the state it left, or in one that others reached from there.
\<close>

lemma persist_committed:
  assumes rely: "relyOk (ue_sha U) addr (sp_name sp) M (ue_others U)" and own: "addr ` ownKeys U tenantId category \<subseteq> M"
    and st: "stage = posixResolve (dk_cwd (ue_disk U))" and staged: "\<forall>f \<in> set files. stage (mf_path f) \<in> M"
    and ok: "commitOk (ue_sha U) addr (sp_name sp) commit" and honest: "honestOutcome U"
    and bk: "backed (ue_sha U) addr (sp_name sp) s"
    and I: "I s" "\<And>A s t. touches A s t \<Longrightarrow> I s \<Longrightarrow> I t" "\<And>s. I s \<Longrightarrow> I (ue_others U s)"
    and run: "persistNewUploadedFiles U sp tenantId category rt rid files commit s = (Inr (x, us), t)"
  obtains s1 t1 ws where "backed (ue_sha U) addr (sp_name sp) s1" and "I s1"
    and "list_all2 (writtenOk U addr (sp_name sp) M stage (ownKeys U tenantId category) s1) files ws"
    and "linkAll U sp tenantId rt rid commit ws s1 = (Inr (x, us), t1)" and "t = t1 \<or> t = ue_others U t1"
proof -
  let ?handler = "\<lambda>ws. \<lambda>(completed, e). case completed of
       Some v \<Rightarrow> if \<not> isSerializationRollback e
         then seqP (recoverCompletedUploadCommit U sp tenantId rt (map commitProof (snd v))) (returnP v)
         else seqP (compensate U sp tenantId rt rid (map candidateOf ws)) (throwP e)
     | None \<Rightarrow> seqP (compensate U sp tenantId rt rid (map candidateOf ws)) (throwP e)"
  obtain s1 ws where c: "calm (ue_sha U) addr (sp_name sp) M s s1" and b: "backed (ue_sha U) addr (sp_name sp) s1" and i: "I s1"
    and phase: "(\<forall>w \<in> set ws. \<exists>f. writtenOk U addr (sp_name sp) M stage (ownKeys U tenantId category) s1 f w) \<and>
        (\<exists>e. seqP (compensate U sp tenantId rt rid (map candidateOf ws)) (throwP e) s1 = (Inr (x, us), t)) \<or>
      list_all2 (writtenOk U addr (sp_name sp) M stage (ownKeys U tenantId category) s1) files ws \<and>
        catchP (transactionP (ue_outcome U) (linkAll U sp tenantId rt rid commit ws)) (?handler ws) s1 = (Inr (x, us), t)"
    by (rule persist_phases [where I = I, OF rely own st staged bk I(1) I(2) I(3) run])
  then have ws: "list_all2 (writtenOk U addr (sp_name sp) M stage (ownKeys U tenantId category) s1) files ws"
    and tx: "catchP (transactionP (ue_outcome U) (linkAll U sp tenantId rt rid commit ws)) (?handler ws) s1 = (Inr (x, us), t)"
    by simp_all
  obtain v t1 where l: "linkAll U sp tenantId rt rid commit ws s1 = (Inr v, t1)"
    using tx by (cases "linkAll U sp tenantId rt rid commit ws s1"; cases "fst (linkAll U sp tenantId rt rid commit ws s1)") (auto simp: catchP_def transactionP_def)
  obtain y vs where v: "v = (y, vs)" by fastforce
  have files: "\<forall>w \<in> set ws. \<exists>c. fileAt s1 (addr (wu_key w)) = Some c \<and> wu_checksumSha256 w = ue_sha U c"
    using list_all2_right [OF ws] by (force simp: writtenOk_def held_def)
  note linked = linkAll_Inr [OF b refl ok files l [unfolded v]]
  have free: "\<forall>u \<in> set vs. addr (wu_key u) \<in> M \<and> unlinked addr (sp_name sp) s1 (addr (wu_key u))"
    using links_linked(2) [OF own c ws] linked by blast
  have "v = (x, us) \<and> (t = t1 \<or> t = ue_others U t1)"
  proof (cases "ue_outcome U t1")
    case Commits
    then show ?thesis using tx l by (simp add: catchP_def transactionP_def)
  next
    case (ReplyLost e)
    then show ?thesis using tx l honest by (auto simp: catchP_def transactionP_def honestOutcome_def seqP_Inr dest!: recover_state)
  next
    case (RollsBack e)
    then show ?thesis
      using tx l rolled_back_unrecovered [OF rely free] v
      by (cases "isSerializationRollback e") (auto simp: catchP_def transactionP_def seqP_Inr)
  next
    case (Aborts e)
    then show ?thesis using tx l by (simp add: catchP_def transactionP_def)
  qed
  then show thesis using that [OF b i ws] l by blast
qed

text \<open>A generated document.\<close>

lemma buffer_candidate_released:
  "held addr nm M s key c \<Longrightarrow> backed sha addr nm s \<Longrightarrow> released sha addr nm M (cc_key ` set [bufferCandidate U key name mime c]) s"
  by (simp add: released_def held_def bufferCandidate_def)

lemma buffer_link_backed:
  assumes "backed (ue_sha U) addr nm s" and "held addr nm M s key c"
    and "bindP (createStored (storedRow U sp tenantId rt rid (bufferCandidate U key name mime c) None)) (\<lambda>stored.
           seqP (assertTenantStorageQuota U tenantId) (returnP (fo_id stored))) s = (Inr fid, t)"
  shows "backed (ue_sha U) addr nm t"
proof -
  let ?row = "storedRow U sp tenantId rt rid (bufferCandidate U key name mime c) None"
  obtain q s1 where q: "createStored ?row s = (Inr q, s1)" "t = s1"
    using assms(3) by (auto simp: bindP_Inr seqP_Inr assertTenantStorageQuota_def)
  show ?thesis
    using createStored_Inr [OF q(1)] q(2) backed_link [OF assms(1), of ?row c] assms(2) by (simp add: storedRow_def bufferCandidate_def held_def)
qed

lemma buffer_transaction_backed:
  assumes rely: "relyOk (ue_sha U) addr (sp_name sp) M (ue_others U)" and honest: "honestOutcome U"
    and bk: "backed (ue_sha U) addr (sp_name sp) s" and h: "held addr (sp_name sp) M s key buffer"
    and cand: "cand = bufferCandidate U key name mime buffer"
  shows "backed (ue_sha U) addr (sp_name sp) (snd (catchP
      (transactionP (ue_outcome U) (bindP (createStored (storedRow U sp tenantId rt rid cand None)) (\<lambda>stored.
         seqP (assertTenantStorageQuota U tenantId) (returnP (fo_id stored)))))
      (\<lambda>(completed, e). case completed of
           Some fid \<Rightarrow> if \<not> isSerializationRollback e
             then seqP (recoverCompletedUploadCommit U sp tenantId rt (obs fid)) (returnP fid)
             else seqP (compensate U sp tenantId rt rid [cand]) (throwP e)
         | None \<Rightarrow> seqP (compensate U sp tenantId rt rid [cand]) (throwP e)) s))"
proof (rule catch_transaction [where I = "backed (ue_sha U) addr (sp_name sp)", OF honest bk])
  show "backed (ue_sha U) addr (sp_name sp) t"
    if "bindP (createStored (storedRow U sp tenantId rt rid cand None)) (\<lambda>stored.
         seqP (assertTenantStorageQuota U tenantId) (returnP (fo_id stored))) s = (Inr fid, t)" for fid t
    using buffer_link_backed [OF bk h] that cand by blast
  have undone: "backed (ue_sha U) addr (sp_name sp) (snd (seqP (compensate U sp tenantId rt rid [cand]) (throwP e :: (_, _, string) prog) s))" for e
  proof -
    have "released (ue_sha U) addr (sp_name sp) M (cc_key ` set [cand]) (snd (compensate U sp tenantId rt rid [cand] s))"
      using compensate_keeps_released [OF rely order_refl] buffer_candidate_released [OF h bk] cand unfolding keeps_def by blast
    then show ?thesis by (simp add: released_def snd_seq_throw)
  qed
  then show "backed (ue_sha U) addr (sp_name sp) (snd ((case (None, e) of (completed, e) \<Rightarrow> case completed of
           Some fid \<Rightarrow> if \<not> isSerializationRollback e
             then seqP (recoverCompletedUploadCommit U sp tenantId rt (obs fid)) (returnP fid)
             else seqP (compensate U sp tenantId rt rid [cand]) (throwP e)
         | None \<Rightarrow> seqP (compensate U sp tenantId rt rid [cand]) (throwP e)) s))" for e by simp
  show "backed (ue_sha U) addr (sp_name sp) (snd ((case (Some x, e) of (completed, e) \<Rightarrow> case completed of
           Some fid \<Rightarrow> if \<not> isSerializationRollback e
             then seqP (recoverCompletedUploadCommit U sp tenantId rt (obs fid)) (returnP fid)
             else seqP (compensate U sp tenantId rt rid [cand]) (throwP e)
         | None \<Rightarrow> seqP (compensate U sp tenantId rt rid [cand]) (throwP e)) u))"
    if "if isSerializationRollback e then u = s else backed (ue_sha U) addr (sp_name sp) u" for x e u
  proof (cases "isSerializationRollback e")
    case True
    with that undone show ?thesis by simp
  next
    case False
    with that have "backed (ue_sha U) addr (sp_name sp) (snd (recoverCompletedUploadCommit U sp tenantId rt (obs x) u))"
      using calm_backed [OF calmProgD [OF calm_recover [OF rely] surjective_pairing]] by auto
    with False show ?thesis by (simp add: snd_seq_return)
  qed
qed

lemma buffer_keeps_backed:
  assumes rely: "relyOk (ue_sha U) addr (sp_name sp) M (ue_others U)" and own: "addr ` ownKeys U tenantId category \<subseteq> M"
    and honest: "honestOutcome U"
  shows "keeps (backed (ue_sha U) addr (sp_name sp)) (persistNewBuffer U sp tenantId category rt rid name mime buffer)"
proof (rule keepsI)
  fix s :: "'z file_db_scheme"
  assume bk: "backed (ue_sha U) addr (sp_name sp) s"
  obtain q s1 where q: "writeAttempts U (\<lambda>key. sp_writeNew sp key buffer) 0 tenantId category mime 3 s = (q, s1)" by fastforce
  have c1: "calm (ue_sha U) addr (sp_name sp) M s s1" using calmProgD [OF calm_writeAttempts [OF rely buffer_exclusive] q] .
  have b1: "backed (ue_sha U) addr (sp_name sp) s1" using calm_backed [OF c1 bk] .
  show "backed (ue_sha U) addr (sp_name sp) (snd (persistNewBuffer U sp tenantId category rt rid name mime buffer s))"
  proof (cases q)
    case (Inl e)
    then show ?thesis using q b1 by (simp add: persistNewBuffer_def bindP_def)
  next
    case (Inr key)
    let ?s = "ue_others U s1"
    have c2: "calm (ue_sha U) addr (sp_name sp) M s1 ?s" by (rule calm_rely [OF rely])
    have "held addr (sp_name sp) M s1 key buffer"
      using writeAttempts_held [OF rely buffer_exclusive _ own q [unfolded Inr]] bk by blast
    note tx = buffer_transaction_backed [OF rely honest calm_backed [OF c2 b1] calm_held [OF c2 this] refl]
    show ?thesis
      unfolding persistNewBuffer_def bindP_state [where m = "writeAttempts U (\<lambda>key. sp_writeNew sp key buffer) 0 tenantId category mime 3", OF q [unfolded Inr]] Let_def othersP_def run_seq_modify snd_bind_return by (rule tx)
  qed
qed

text \<open>Objects whose row was retired before.\<close>

lemma retired_keeps_released:
  "relyOk sha addr nm M (ue_others U) \<Longrightarrow> key \<in> K \<Longrightarrow> keeps (released sha addr nm M K) (deleteRetiredPhysicalObject U sp key)"
  unfolding deleteRetiredPhysicalObject_def case_prod_beta by (intro keeps_bindP cleanup_keeps_released keeps_returnP) auto

lemma committed_compensation_backed:
  assumes rely: "relyOk sha addr (sp_name sp) M (ue_others U)" and key: "addr key \<in> M" and bk: "backed sha addr (sp_name sp) s"
    and ours: "\<forall>r \<in> set (storedFiles s). liveRow (sp_name sp) r \<and> addr (fo_storageKey r) = addr key \<longrightarrow>
      fo_tenantId r = tenantId \<and> fo_bucket r = Some (storageBucket U sp) \<and> fo_storageKey r = key"
  shows "backed sha addr (sp_name sp) (snd (compensateCommittedUpload U sp tenantId key s))"
proof (cases "ue_writeFault U")
  case (Some e)
  then show ?thesis
    using relyD(1) [OF rely bk] by (simp add: compensateCommittedUpload_def dbFaultP_def othersP_def tryP_def prog_defs)
next
  case None
  define s1 where "s1 = ue_others U s"
  define s2 where "s2 = s1\<lparr>storedFiles := updateMany
     (\<lambda>r. fo_tenantId r = tenantId \<and> fo_provider r = sp_name sp \<and> fo_bucket r = Some (storageBucket U sp) \<and> fo_storageKey r = key \<and> fo_deletedAt r = None)
     (\<lambda>r. r\<lparr>fo_deletedAt := Some (ue_now U)\<rparr>) (storedFiles s1)\<rparr>"
  have b1: "backed sha addr (sp_name sp) s1" using relyD(1) [OF rely bk] by (simp add: s1_def)
  have ours1: "fo_tenantId r = tenantId \<and> fo_bucket r = Some (storageBucket U sp) \<and> fo_storageKey r = key"
    if "r \<in> set (storedFiles s1)" "liveRow (sp_name sp) r" "addr (fo_storageKey r) = addr key" for r
  proof -
    have "r \<in> set (storedFiles s)" using that(1,3) relyD(4) [where addr = addr, OF rely, of r s] key by (simp add: s1_def)
    then show ?thesis using ours that(2,3) by blast
  qed
  have "released sha addr (sp_name sp) M {} s1" using b1 by (simp add: released_def)
  then have "released sha addr (sp_name sp) M {} s2"
    unfolding s2_def by (rule released_dead_rows) (auto simp: in_updateMany liveRow_def)
  moreover have "unlinked addr (sp_name sp) s2 (addr key)"
    unfolding unlinked_def
  proof (intro ballI impI notI)
    fix r assume "r \<in> set (storedFiles s2)" and live: "liveRow (sp_name sp) r" "addr (fo_storageKey r) = addr key"
    then have "r \<in> set (storedFiles s1) \<and> \<not> (fo_tenantId r = tenantId \<and> fo_bucket r = Some (storageBucket U sp) \<and> fo_storageKey r = key)"
      using retired_rows [of r] unfolding s2_def by (simp add: liveRow_def) blast
    with ours1 live show False by blast
  qed
  ultimately have "released sha addr (sp_name sp) M {key} s2" using key by (simp add: released_def)
  then have "released sha addr (sp_name sp) M {key} (snd (deleteRetiredPhysicalObject U sp key s2))"
    using retired_keeps_released [OF rely, of key "{key}"] unfolding keeps_def by blast
  moreover have "compensateCommittedUpload U sp tenantId key s = deleteRetiredPhysicalObject U sp key s2"
    using None by (simp add: compensateCommittedUpload_def dbFaultP_def othersP_def tryP_def prog_defs s2_def s1_def)
  ultimately show ?thesis by (simp add: released_def)
qed

text \<open>What was deleted stays away, and what could not be deleted is reported.\<close>

lemma deleteEach_absent:
  assumes rely: "relyOk sha addr nm M (ue_others U)"
  shows "forEachP (\<lambda>key. seqP (othersP U) (settleP (sp_delete sp key))) ks s = (q, t) \<Longrightarrow> addr ` set ks \<subseteq> M \<Longrightarrow>
     (\<forall>p \<in> M. fileAt s p = None \<longrightarrow> fileAt t p = None) \<and>
     (\<exists>rs. q = Inr rs \<and> length rs = length ks \<and> (\<forall>i < length ks. \<not> isl (rs ! i) \<longrightarrow> fileAt t (addr (ks ! i)) = None))"
proof (induction ks arbitrary: s q t)
  case (Cons k ks)
  let ?s = "ue_others U s"
  obtain d u where d: "sp_delete sp k ?s = (d, u)" by fastforce
  obtain q' t' where rest: "forEachP (\<lambda>key. seqP (othersP U) (settleP (sp_delete sp key))) ks u = (q', t')" by fastforce
  obtain rs where rs: "\<forall>p \<in> M. fileAt u p = None \<longrightarrow> fileAt t' p = None" "q' = Inr rs" "length rs = length ks"
    "\<forall>i < length ks. \<not> isl (rs ! i) \<longrightarrow> fileAt t' (addr (ks ! i)) = None"
    using Cons.IH [OF rest] Cons.prems(2) by auto
  have "seqP (othersP U) (settleP (sp_delete sp k)) s = (Inr d, u)" by (simp add: othersP_def run_seq_modify settleP_def d)
  then have "q = Inr (d # rs) \<and> t = t'" using Cons.prems(1) rest rs(2) by (simp add: bindP_def returnP_def)
  moreover have "\<forall>p \<in> M. fileAt s p = None \<longrightarrow> fileAt u p = None" using relyD(2) [OF rely] delete_absent [OF d] by metis
  moreover have "\<not> isl d \<longrightarrow> fileAt u (addr k) = None" using delete_done d by (cases d) auto
  ultimately show ?case using rs Cons.prems(2) by (auto simp: nth_Cons split: nat.split)
qed (auto simp: returnP_def)

lemma cleanup_reports:
  assumes rely: "relyOk sha addr nm M (ue_others U)" and "addr ` set ks \<subseteq> M"
    and run: "cleanupPhysicalObjects U sp ks s = (q, t)"
  shows "\<exists>removed failed. q = Inr (removed, failed) \<and> (\<forall>k \<in> set ks. k \<in> set failed \<or> fileAt t (addr k) = None)"
proof -
  obtain p u where p: "forEachP (\<lambda>key. seqP (othersP U) (settleP (sp_delete sp key))) ks s = (p, u)" by fastforce
  then obtain rs where rs: "p = Inr rs" "length rs = length ks" "\<forall>i < length ks. \<not> isl (rs ! i) \<longrightarrow> fileAt u (addr (ks ! i)) = None"
    using deleteEach_absent [OF rely p assms(2)] by blast
  define F where "F = map fst (filter (\<lambda>(key, r). isl r) (zip ks rs))"
  have "k \<in> set F \<or> fileAt u (addr k) = None" if k: "k \<in> set ks" for k
  proof -
    obtain i where i: "i < length ks" "ks ! i = k" using k by (auto simp: in_set_conv_nth)
    then have "(k, rs ! i) \<in> set (zip ks rs)" using rs(2) by (force simp: in_set_zip)
    then show ?thesis using rs(3) i by (cases "isl (rs ! i)") (force simp: F_def)+
  qed
  moreover obtain removed where "q = Inr (removed, F)" "u = t"
    using run p rs(1) by (auto simp: cleanupPhysicalObjects_def bindP_def returnP_def F_def)
  ultimately show ?thesis by auto
qed

text \<open>Compensation leaves a trace of every file it could not delete.\<close>

lemma compensate_trace:
  assumes rely: "relyOk sha addr nm M (ue_others U)" and M: "addr ` cc_key ` set cs \<subseteq> M" and up: "ue_writeFault U = None"
    and run: "compensate U sp tenantId rt rid cs s = (q, t)" and c: "c \<in> set cs"
  shows "fileAt t (addr (cc_key c)) = None \<or>
     (\<exists>r \<in> set (storedFiles t). r = storedRow U sp tenantId rt rid c (Some (ue_now U)) \<or> clashes r (storedRow U sp tenantId rt rid c (Some (ue_now U))))"
proof -
  obtain q1 s1 where q1: "cleanupPhysicalObjects U sp (map cc_key cs) s = (q1, s1)" by fastforce
  obtain removed failed where rf: "q1 = Inr (removed, failed)" "\<forall>k \<in> set (map cc_key cs). k \<in> set failed \<or> fileAt s1 (addr k) = None"
    using cleanup_reports [OF rely _ q1] M by auto
  have t: "t = (if failed = [] then s1 else (ue_others U s1)\<lparr>storedFiles := skipDuplicates (storedFiles (ue_others U s1))
      (map (\<lambda>c. storedRow U sp tenantId rt rid c (Some (ue_now U))) (filter (\<lambda>c. cc_key c \<in> set failed) cs))\<rparr>)"
    using run q1 rf(1) up
    by (auto simp: compensate_def recordFailedCompensationObjects_def dbFaultP_def othersP_def tryP_def prog_defs split: if_splits)
  show ?thesis
  proof (cases "cc_key c \<in> set failed")
    case True
    then have "storedRow U sp tenantId rt rid c (Some (ue_now U)) \<in>
        set (map (\<lambda>c. storedRow U sp tenantId rt rid c (Some (ue_now U))) (filter (\<lambda>c. cc_key c \<in> set failed) cs))" using c by simp
    then show ?thesis using skipDuplicates_covers t True by (auto split: if_splits)
  next
    case False
    then have "fileAt s1 (addr (cc_key c)) = None" using rf(2) c by auto
    moreover have "addr (cc_key c) \<in> M" using M c by blast
    ultimately have "fileAt t (addr (cc_key c)) = None" using t relyD(2) [OF rely] by auto
    then show ?thesis ..
  qed
qed

end

lemma localProvider_sel [simp]:
  "sp_name (localProvider E) = ''local''" "sp_writeNew (localProvider E) = writeNew E"
  "sp_writeNewFromFile (localProvider E) = writeNewFromFile E" "sp_delete (localProvider E) = storageDelete E"
  by (simp_all add: localProvider_def)

interpretation disk: object_store "localProvider E" "localPath E" "posixResolve (dk_cwd E)"
  by unfold_locales
    (unfold localProvider_sel,
     (rule confinedD [OF writeNewFromFile_confined] exclusive_write_present writeNewFromFile_Inr
        confinedD [OF writeNew_confined] writeNew_Inr confinedD [OF storageDelete_confined] storageDelete_Inr storageDelete_absent; assumption)+)


section \<open>A sample\<close>

definition sampleFile :: UploadedFile where
  "sampleFile = \<lparr>mf_path = ''/tmp/up/a.png'', mf_originalname = ''logo.png'', mf_mimetype = ''image/png'', mf_size = 4\<rparr>"

definition sampleFileDb :: file_db where
  "sampleFileDb = \<lparr>auditLogs = [], subscriptions = [], tenants = [\<lparr>tn_id = ''t1'', tn_isActive = True, tn_name = ''Rossi'', tn_vatNumber = None, tn_deletedAt = None\<rparr>],
     users = [], refreshSessions = [], resetTokens = [],
     diskEntries = [''/app'' \<mapsto> DirEntry, ''/app/uploads'' \<mapsto> DirEntry, ''/tmp'' \<mapsto> DirEntry, ''/tmp/up'' \<mapsto> DirEntry, ''/tmp/up/a.png'' \<mapsto> FileEntry ''logo''],
     storedFiles = []\<rparr>"

definition sampleUpload :: "txOutcome \<Rightarrow> 's upload_env" where
  "sampleUpload out = \<lparr>ue_disk = sampleDisk, ue_sha = (\<lambda>c. c), ue_uuid = (\<lambda>i a. ''0a-1b''), ue_fileId = (\<lambda>key. ''f1''), ue_now = 5, ue_quotaMb = 1,
     ue_s3Bucket = None, ue_others = (\<lambda>s. s), ue_outcome = (\<lambda>s. out), ue_readFault = None, ue_writeFault = None\<rparr>"

definition sampleUploadRun :: "txOutcome \<Rightarrow> (app_error + unit \<times> PersistedUpload list) \<times> file_db" where
  "sampleUploadRun out = persistNewUploadedFiles (sampleUpload out) (localProvider sampleDisk) ''t1'' ''branding'' ''TenantBranding'' (Some ''t1'')
     [sampleFile] (\<lambda>_. returnP ()) sampleFileDb"

text \<open>A disk that refuses to delete, with the file of an upload whose transaction failed.\<close>

definition busyDisk :: disk_env where
  "busyDisk = sampleDisk\<lparr>dk_fault := (\<lambda>call p. if call = ''unlink'' then Some EBUSY else None)\<rparr>"

definition strandedDb :: file_db where
  "strandedDb = sampleFileDb\<lparr>diskEntries := (diskEntries sampleFileDb)(''/app/uploads/tenants/t1/branding/0a-1b.png'' \<mapsto> FileEntry ''logo'')\<rparr>"

definition strandedCandidate :: CompensationCandidate where
  "strandedCandidate = \<lparr>cc_key = ''tenants/t1/branding/0a-1b.png'', cc_checksumSha256 = ''logo'', cc_originalName = Some ''logo.png'',
     cc_mimeType = Some ''image/png'', cc_sizeBytes = 4\<rparr>"

definition strandedRun :: "(app_error + unit) \<times> file_db" where
  "strandedRun = compensate (sampleUpload Commits) (localProvider busyDisk) ''t1'' ''TenantBranding'' (Some ''t1'') [strandedCandidate] strandedDb"

lemma sample_upload_sel [simp]:
  "ue_disk (sampleUpload out) = sampleDisk" "ue_sha (sampleUpload out) = (\<lambda>c. c)" "ue_others (sampleUpload out) = (\<lambda>s. s)"
  "ue_outcome (sampleUpload out) = (\<lambda>s. out)" "ue_writeFault (sampleUpload out) = None"
  by (simp_all add: sampleUpload_def)

lemma sample_upload_ok:
  "relyOk sha addr nm UNIV (\<lambda>s. s)" "commitOk sha addr nm (\<lambda>_. returnP ())" "backed sha addr nm sampleFileDb"
  "honestOutcome (sampleUpload Commits)" "honestOutcome (sampleUpload (ReplyLost (SystemError ''ECONNRESET'')))"
  by (simp_all add: relyOk_def commitOk_def backed_def sampleFileDb_def honestOutcome_def isSerializationRollback_def)

lemma sample_upload_returns:
  "\<not> isl (fst (sampleUploadRun Commits))" "\<not> isl (fst (sampleUploadRun (ReplyLost (SystemError ''ECONNRESET''))))"
  by code_simp+

lemma stranded_run:
  "fileAt (snd strandedRun) ''/app/uploads/tenants/t1/branding/0a-1b.png'' \<noteq> None"
  "list_all (\<lambda>r. fo_storageKey r = ''tenants/t1/branding/0a-1b.png'') (storedFiles (snd strandedRun))"
  "localPath busyDisk ''tenants/t1/branding/0a-1b.png'' = ''/app/uploads/tenants/t1/branding/0a-1b.png''"
  by code_simp+

section \<open>The guarantees on the local storage\<close>

text \<open>
  C11: The storage operations keep the two stores together: whatever fails, also when the reply of a committed transaction is lost and
  while other requests run, after each of them every live row of the local storage still has its file with the recorded digest.
\<close>
theorem storage_operations_keep_backed:
  assumes "ue_disk U = E" and "relyOk (ue_sha U) (localPath E) ''local'' M (ue_others U)" and "localPath E ` ownKeys U tenantId category \<subseteq> M"
    and "\<forall>f \<in> set files. posixResolve (dk_cwd E) (mf_path f) \<in> M" and "commitOk (ue_sha U) (localPath E) ''local'' commit"
    and "honestOutcome U" and "localPath E key \<in> M" and "backed (ue_sha U) (localPath E) ''local'' s"
  shows "backed (ue_sha U) (localPath E) ''local'' (snd (persistNewUploadedFiles U (localProvider E) tenantId category rt rid files commit s)) \<and>
    backed (ue_sha U) (localPath E) ''local'' (snd (persistNewBuffer U (localProvider E) tenantId category rt rid name mime buffer s)) \<and>
    ((\<forall>r \<in> set (storedFiles s). liveRow ''local'' r \<and> localPath E (fo_storageKey r) = localPath E key \<longrightarrow>
        fo_tenantId r = tenantId \<and> fo_bucket r = Some ''local'' \<and> fo_storageKey r = key) \<longrightarrow>
      backed (ue_sha U) (localPath E) ''local'' (snd (compensateCommittedUpload U (localProvider E) tenantId key s))) \<and>
    (unlinked (localPath E) ''local'' s (localPath E key) \<longrightarrow>
      backed (ue_sha U) (localPath E) ''local'' (snd (deleteRetiredPhysicalObject U (localProvider E) key s)))"
proof -
  have bucket: "storageBucket U (localProvider E) = ''local''" by (simp add: storageBucket_def)
  have "persistSpec U (localProvider E) (localPath E) (posixResolve (dk_cwd E)) tenantId category rt rid files s
      (fst (persistNewUploadedFiles U (localProvider E) tenantId category rt rid files commit s))
      (snd (persistNewUploadedFiles U (localProvider E) tenantId category rt rid files commit s))"
    by (rule disk.persist_outcome [where M = M]) (use assms in simp_all)
  moreover have "keeps (backed (ue_sha U) (localPath E) ''local'') (persistNewBuffer U (localProvider E) tenantId category rt rid name mime buffer)"
    by (rule disk.buffer_keeps_backed [unfolded localProvider_sel, OF assms(2,3,6)])
  moreover have "backed (ue_sha U) (localPath E) ''local'' (snd (compensateCommittedUpload U (localProvider E) tenantId key s))"
    if "\<forall>r \<in> set (storedFiles s). liveRow ''local'' r \<and> localPath E (fo_storageKey r) = localPath E key \<longrightarrow>
        fo_tenantId r = tenantId \<and> fo_bucket r = Some ''local'' \<and> fo_storageKey r = key"
    using disk.committed_compensation_backed [unfolded localProvider_sel, OF assms(2,7,8)] that unfolding bucket by blast
  moreover have "backed (ue_sha U) (localPath E) ''local'' (snd (deleteRetiredPhysicalObject U (localProvider E) key s))"
    if "unlinked (localPath E) ''local'' s (localPath E key)"
  proof -
    have "released (ue_sha U) (localPath E) ''local'' M {key} s" using that assms(7,8) by (simp add: released_def)
    then have "released (ue_sha U) (localPath E) ''local'' M {key} (snd (deleteRetiredPhysicalObject U (localProvider E) key s))"
      using disk.retired_keeps_released [OF assms(2), of key "{key}"] unfolding keeps_def by blast
    then show ?thesis by (simp add: released_def)
  qed
  ultimately show ?thesis using assms(8) by (simp add: persistSpec_def keeps_def)
qed

text \<open>Witness of C11: the logo of the sample, with a lost reply and with a clean commit.\<close>
theorem storage_operations_keep_backed_witness:
  "backed (\<lambda>c. c) (localPath sampleDisk) ''local'' (snd (sampleUploadRun (ReplyLost (SystemError ''ECONNRESET'')))) \<and>
   backed (\<lambda>c. c) (localPath sampleDisk) ''local'' (snd (sampleUploadRun Commits))"
proof -
  have "backed (\<lambda>c. c) (localPath sampleDisk) ''local'' (snd (sampleUploadRun out))" if "honestOutcome (sampleUpload out :: file_db upload_env)" for out
    unfolding sampleUploadRun_def
    using storage_operations_keep_backed [where U = "sampleUpload out :: file_db upload_env" and E = sampleDisk and M = UNIV and files = "[sampleFile]"
        and commit = "\<lambda>_. returnP ()" and s = sampleFileDb, THEN conjunct1] that
    by (simp add: sample_upload_ok)
  then show ?thesis by (simp add: sample_upload_ok)
qed



text \<open>
  A tenant stays within its storage quota: when a request to persist files returns after its transaction committed, the live
  rows of the tenant, the new ones included, are not larger than the quota.
\<close>
theorem upload_within_quota:
  assumes "persistNewUploadedFiles U sp tenantId category rt rid files commit s = (Inr (x, us), t)" and "\<forall>s. ue_outcome U s = Commits"
  shows "liveBytes tenantId (storedFiles t) \<le> ue_quotaMb U * 1048576"
proof -
  obtain ws s1 where "linkAll U sp tenantId rt rid commit ws s1 = (Inr (x, us), t)"
    using assms(1) by (auto simp: persistNewUploadedFiles_def Let_def bindP_Inr seqP_Inr dest!: committed_run [OF assms(2)] split: option.splits)
  then have "liveBytes tenantId (storedFiles t) \<le> tenantQuotaBytes U"
    by (auto simp: linkAll_def bindP_Inr seqP_Inr assertTenantStorageQuota_def)
  then show ?thesis by (simp add: tenantQuotaBytes_def)
qed

text \<open>An instance of the preceding theorem: the logo of the sample under a quota of one megabyte.\<close>
theorem upload_within_quota_witness:
  "liveBytes ''t1'' (storedFiles (snd (sampleUploadRun Commits))) \<le> 1048576"
proof -
  obtain x us where "sampleUploadRun Commits = (Inr (x, us), snd (sampleUploadRun Commits))"
    using sample_upload_returns(1) by (cases "fst (sampleUploadRun Commits)") (auto simp: prod_eq_iff)
  note upload_within_quota [OF this [unfolded sampleUploadRun_def]]
  then show ?thesis by (simp add: sampleUploadRun_def) (simp add: sampleUpload_def)
qed

text \<open>
  Compensation forgets no file: a file that a failed request wrote is gone afterwards, or a row of its key is left from
  which the retention job can find it, unless the database refuses the row.
\<close>
theorem compensation_leaves_trace:
  assumes "relyOk sha (localPath E) ''local'' M (ue_others U)" and "localPath E ` cc_key ` set cs \<subseteq> M" and "ue_writeFault U = None"
    and "compensate U (localProvider E) tenantId rt rid cs s = (q, t)" and "c \<in> set cs"
    and "\<forall>r \<in> set (storedFiles t). fo_id r = ue_fileId U (cc_key c) \<longrightarrow> fo_storageKey r = cc_key c"
  shows "fileAt t (localPath E (cc_key c)) = None \<or> (\<exists>r \<in> set (storedFiles t). fo_storageKey r = cc_key c)"
  using disk.compensate_trace [OF assms(1-5)] assms(6) by (auto simp: clashes_def storedRow_def)

text \<open>An instance of the preceding theorem: the disk refuses to delete the file of the sample, and a row of its key is left.\<close>
theorem compensation_leaves_trace_witness:
  "fileAt (snd strandedRun) ''/app/uploads/tenants/t1/branding/0a-1b.png'' \<noteq> None \<and>
   (\<exists>r \<in> set (storedFiles (snd strandedRun)). fo_storageKey r = ''tenants/t1/branding/0a-1b.png'')"
proof -
  have run: "compensate (sampleUpload Commits) (localProvider busyDisk) ''t1'' ''TenantBranding'' (Some ''t1'') [strandedCandidate] strandedDb = (fst strandedRun, snd strandedRun)"
    by (simp add: strandedRun_def)
  have key: "cc_key strandedCandidate = ''tenants/t1/branding/0a-1b.png''" by (simp add: strandedCandidate_def)
  show ?thesis
    using compensation_leaves_trace [where M = UNIV and sha = "\<lambda>c. c", OF _ _ _ run, of strandedCandidate] stranded_run
    by (simp add: key sample_upload_ok list_all_iff)
qed

end
