(* ===== verification/Tenant_Profile.thy ===== *)
theory Tenant_Profile
  imports Upload_Guarantee
begin

text \<open>
  The profile of a tenant: \<^verbatim>\<open>backend/src/application/services/tenant-profile-service.ts\<close>, over the tables of the profile, the branding, the
  legal settings and the sites.  Identifiers of new rows are given by a function of the table and the tenant; the columns
  \<open>createdAt\<close> and \<open>updatedAt\<close> and the columns no operation of the service touches are not kept.  The parameters of the uploads
  (\<open>upload_env\<close>) also give the clock, the requests in between and the fate of transactions.  Case conversion acts on the letters A to Z.
\<close>

section \<open>Rows and inputs\<close>

text \<open>
  \<open>ProfileData\<close> is what \<open>profileData\<close> returns.  The column \<open>legalName\<close> is required: the database client refuses a row without it.
\<close>

record ProfileData =
  pd_legalName :: "string option"
  pd_tradeName :: "string option"
  pd_legalForm :: "string option"
  pd_vatNumber :: "string option"
  pd_taxCode :: "string option"
  pd_pec :: "string option"
  pd_sdiCode :: "string option"
  pd_rea :: "string option"
  pd_legalAddress :: "string option"
  pd_city :: "string option"
  pd_province :: "string option"
  pd_postalCode :: "string option"
  pd_country :: string
  pd_phone :: "string option"
  pd_email :: "string option"
  pd_website :: "string option"
  pd_adminFirstName :: "string option"
  pd_adminLastName :: "string option"
  pd_adminEmail :: "string option"
  pd_adminPhone :: "string option"
  pd_adminRole :: "string option"

record TenantProfile = ProfileData +
  tp_id :: string
  tp_tenantId :: string
  tp_profileCompletedAt :: "instant option"

record TenantBranding =
  tb_id :: string
  tb_tenantId :: string
  tb_logoFilePath :: "string option"
  tb_logoFileName :: "string option"
  tb_logoMimeType :: "string option"
  tb_primaryColor :: "string option"
  tb_accentColor :: "string option"
  tb_fontFamily :: "string option"

record TenantLegalSettings =
  ls_id :: string
  ls_tenantId :: string
  ls_contractFooterText :: "string option"
  ls_defaultContractTerms :: "string option"
  ls_privacyNoticeVersion :: "string option"
  ls_termsVersion :: "string option"
  ls_dpaVersion :: "string option"

record Site =
  st_id :: string
  st_tenantId :: string
  st_name :: string
  st_address :: string
  st_city :: string
  st_email :: "string option"
  st_phone :: "string option"
  st_deletedAt :: "instant option"

record profile_db = file_db +
  profiles :: "TenantProfile list"
  brandings :: "TenantBranding list"
  legalSettings :: "TenantLegalSettings list"
  sites :: "Site list"

record TenantCompanyProfileInput =
  in_legalName :: "string option"
  in_tradeName :: "string option"
  in_legalForm :: "string option"
  in_vatNumber :: "string option"
  in_taxCode :: "string option"
  in_pec :: "string option"
  in_sdiCode :: "string option"
  in_rea :: "string option"
  in_legalAddress :: "string option"
  in_city :: "string option"
  in_province :: "string option"
  in_postalCode :: "string option"
  in_country :: "string option"
  in_phone :: "string option"
  in_email :: "string option"
  in_website :: "string option"
  in_adminFirstName :: "string option"
  in_adminLastName :: "string option"
  in_adminEmail :: "string option"
  in_adminPhone :: "string option"
  in_adminRole :: "string option"
  in_primaryColor :: "string option"
  in_accentColor :: "string option"
  in_fontFamily :: "string option"
  in_contractFooterText :: "string option"
  in_defaultContractTerms :: "string option"
  in_termsVersion :: "string option"
  in_dpaVersion :: "string option"

record ProfileCompleteness =
  pc_percentage :: int
  pc_completed :: bool
  pc_missing :: "string list"

text \<open>The rows a request returns.\<close>

record ProfileView =
  pv_profile :: "TenantProfile option"
  pv_branding :: "TenantBranding option"
  pv_legalSettings :: "TenantLegalSettings option"
  pv_completeness :: ProfileCompleteness

section \<open>Normal forms\<close>

definition normalizeText :: "string option \<Rightarrow> string option" where
  "normalizeText value = (let normalized = trim (textOf value) in if length normalized > 0 then Some normalized else None)"

definition normalizeCountry :: "string option \<Rightarrow> string" where
  "normalizeCountry value = toUpperCase (orElse (normalizeText value) ''IT'')"

text \<open>\<open>value || null\<close>.\<close>

definition orNull :: "string \<Rightarrow> string option" where
  "orNull s = (if s = [] then None else Some s)"

definition normalizeVat :: "string option \<Rightarrow> string option \<Rightarrow> string option" where
  "normalizeVat value country =
     (if normalizeCountry country = ''IT'' then orNull (normalizeItalianVatNumber value)
      else map_option (\<lambda>v. toUpperCase (replaceRuns isSpace [] v)) (normalizeText value))"

definition profileRequiredKeys :: "(string \<times> ('a ProfileData_scheme \<Rightarrow> string option)) list" where
  "profileRequiredKeys =
     [(''legalName'', pd_legalName), (''vatNumber'', pd_vatNumber), (''legalAddress'', pd_legalAddress), (''city'', pd_city), (''province'', pd_province),
      (''postalCode'', pd_postalCode), (''email'', pd_email), (''phone'', pd_phone), (''adminFirstName'', pd_adminFirstName),
      (''adminLastName'', pd_adminLastName), (''adminEmail'', pd_adminEmail)]"

definition draftOf :: "TenantCompanyProfileInput \<Rightarrow> CompanyRegistrationDraft" where
  "draftOf input = \<lparr>cg_country = in_country input, cg_tenantName = in_legalName input, cg_vatNumber = in_vatNumber input, cg_taxCode = in_taxCode input,
     cg_pec = in_pec input, cg_sdiCode = in_sdiCode input, cg_legalAddress = in_legalAddress input, cg_city = in_city input, cg_province = in_province input,
     cg_postalCode = in_postalCode input, cg_companyEmail = in_email input, cg_companyPhone = in_phone input\<rparr>"

definition validateBusinessRules :: "TenantCompanyProfileInput \<Rightarrow> (app_error, 's, unit) prog" where
  "validateBusinessRules input =
     (case validateCompanyRegistrationDraft (draftOf input) of
        [] \<Rightarrow> returnP ()
      | first # _ \<Rightarrow> throwP (AppError 400 (ve_code first)))"

text \<open>\<open>branding\<close> is the path of the logo of the branding row, if there is one.\<close>

definition profileCompleteness :: "'a ProfileData_scheme option \<Rightarrow> string option \<Rightarrow> ProfileCompleteness" where
  "profileCompleteness profile logo =
     (case profile of
        None \<Rightarrow> \<lparr>pc_percentage = 0, pc_completed = False, pc_missing = map fst (profileRequiredKeys :: (string \<times> (ProfileData \<Rightarrow> string option)) list) @ [''logo'']\<rparr>
      | Some p \<Rightarrow>
          let missing = map fst (filter (\<lambda>(key, col). normalizeText (col p) = None) profileRequiredKeys) @ (if truthy logo then [] else [''logo'']);
              total = length (profileRequiredKeys :: (string \<times> ('a ProfileData_scheme \<Rightarrow> string option)) list) + 1
          in \<lparr>pc_percentage = jround (jmul (jdiv (of_nat total - of_nat (length missing)) (of_nat total)) 100),
              pc_completed = (length missing = 0), pc_missing = missing\<rparr>)"

definition profileData :: "TenantCompanyProfileInput \<Rightarrow> ProfileData" where
  "profileData input =
     (let country = normalizeCountry (in_country input) in
      \<lparr>pd_legalName = normalizeText (in_legalName input), pd_tradeName = normalizeText (in_tradeName input), pd_legalForm = normalizeText (in_legalForm input),
       pd_vatNumber = normalizeVat (in_vatNumber input) (Some country), pd_taxCode = orNull (normalizeTaxCode (in_taxCode input)),
       pd_pec = map_option toLowerCase (normalizeText (in_pec input)), pd_sdiCode = orNull (normalizeSdiCode (in_sdiCode input)),
       pd_rea = normalizeText (in_rea input), pd_legalAddress = normalizeText (in_legalAddress input), pd_city = normalizeText (in_city input),
       pd_province = map_option toUpperCase (normalizeText (in_province input)),
       pd_postalCode = orNull (normalizePostalCodeForCountry (in_postalCode input) (Some country)), pd_country = country,
       pd_phone = normalizeText (in_phone input), pd_email = map_option toLowerCase (normalizeText (in_email input)), pd_website = normalizeText (in_website input),
       pd_adminFirstName = normalizeText (in_adminFirstName input), pd_adminLastName = normalizeText (in_adminLastName input),
       pd_adminEmail = map_option toLowerCase (normalizeText (in_adminEmail input)), pd_adminPhone = normalizeText (in_adminPhone input),
       pd_adminRole = normalizeText (in_adminRole input)\<rparr>)"

section \<open>Statements\<close>

text \<open>
  \<open>upsert\<close> on a table with one row per tenant: the row of the tenant is updated, or the new row is inserted, which needs the tenant.
\<close>

definition upsertP ::
  "('z profile_db_scheme \<Rightarrow> 'r list) \<Rightarrow> (('r list \<Rightarrow> 'r list) \<Rightarrow> 'z profile_db_scheme \<Rightarrow> 'z profile_db_scheme) \<Rightarrow> ('r \<Rightarrow> string) \<Rightarrow>
    string \<Rightarrow> 'r \<Rightarrow> ('r \<Rightarrow> 'r) \<Rightarrow> (app_error, 'z profile_db_scheme, 'r) prog" where
  "upsertP tab upd key tenantId new change =
     bindP (getsP (\<lambda>s. findFirst (\<lambda>r. key r = tenantId) (tab s))) (\<lambda>found.
       case found of
         Some r \<Rightarrow> seqP (modifyP (upd (updateMany (\<lambda>r. key r = tenantId) change))) (returnP (change r))
       | None \<Rightarrow>
           bindP (getsP tenants) (\<lambda>ts.
             seqP (assertP (\<exists>t \<in> set ts. tn_id t = tenantId) (PrismaError ''P2003''))
               (seqP (modifyP (upd (\<lambda>rows. rows @ [new]))) (returnP new))))"

abbreviation upsertProfile :: "string \<Rightarrow> TenantProfile \<Rightarrow> (TenantProfile \<Rightarrow> TenantProfile) \<Rightarrow> (app_error, 'z profile_db_scheme, TenantProfile) prog" where
  "upsertProfile \<equiv> upsertP profiles profiles_update tp_tenantId"

abbreviation upsertBranding :: "string \<Rightarrow> TenantBranding \<Rightarrow> (TenantBranding \<Rightarrow> TenantBranding) \<Rightarrow> (app_error, 'z profile_db_scheme, TenantBranding) prog" where
  "upsertBranding \<equiv> upsertP brandings brandings_update tb_tenantId"

abbreviation upsertLegal ::
  "string \<Rightarrow> TenantLegalSettings \<Rightarrow> (TenantLegalSettings \<Rightarrow> TenantLegalSettings) \<Rightarrow> (app_error, 'z profile_db_scheme, TenantLegalSettings) prog" where
  "upsertLegal \<equiv> upsertP legalSettings legalSettings_update ls_tenantId"

definition findProfile :: "string \<Rightarrow> 'z profile_db_scheme \<Rightarrow> TenantProfile option" where
  "findProfile tenantId s = findFirst (\<lambda>p. tp_tenantId p = tenantId) (profiles s)"

definition findBranding :: "string \<Rightarrow> 'z profile_db_scheme \<Rightarrow> TenantBranding option" where
  "findBranding tenantId s = findFirst (\<lambda>b. tb_tenantId b = tenantId) (brandings s)"

definition findLegal :: "string \<Rightarrow> 'z profile_db_scheme \<Rightarrow> TenantLegalSettings option" where
  "findLegal tenantId s = findFirst (\<lambda>l. ls_tenantId l = tenantId) (legalSettings s)"

text \<open>A transaction whose failure, known or not, is passed on to the caller.\<close>

definition txP :: "'s upload_env \<Rightarrow> (app_error, 's, 'a) prog \<Rightarrow> (app_error, 's, 'a) prog" where
  "txP U body = seqP (othersP U) (catchP (transactionP (ue_outcome U) body) (\<lambda>(completed, e). throwP e))"

definition logoOf :: "TenantBranding option \<Rightarrow> string option" where
  "logoOf b = Option.bind b tb_logoFilePath"

definition profileRow :: "(string \<Rightarrow> string) \<Rightarrow> string \<Rightarrow> ProfileData \<Rightarrow> TenantProfile" where
  "profileRow newId tenantId d =
     ProfileData.extend d \<lparr>tp_id = newId ''TenantProfile'', tp_tenantId = tenantId, tp_profileCompletedAt = None\<rparr>"

definition brandingRow :: "(string \<Rightarrow> string) \<Rightarrow> string \<Rightarrow> string option \<Rightarrow> string option \<Rightarrow> string option \<Rightarrow> TenantBranding" where
  "brandingRow newId tenantId primary accent font =
     \<lparr>tb_id = newId ''TenantBranding'', tb_tenantId = tenantId, tb_logoFilePath = None, tb_logoFileName = None, tb_logoMimeType = None,
      tb_primaryColor = Some (orElse primary ''#21375d''), tb_accentColor = Some (orElse accent ''#5d82c2''), tb_fontFamily = Some (orElse font ''helvetica'')\<rparr>"

section \<open>The service\<close>

definition ensureDefaultsForTenant ::
  "'z profile_db_scheme upload_env \<Rightarrow> (string \<Rightarrow> string) \<Rightarrow> string \<Rightarrow> TenantCompanyProfileInput option \<Rightarrow> (app_error, 'z profile_db_scheme, unit) prog" where
  "ensureDefaultsForTenant U newId tenantId company =
     seqP (othersP U)
       (seqP (upsertBranding tenantId
                (brandingRow newId tenantId (Option.bind company in_primaryColor) (Option.bind company in_accentColor) (Option.bind company in_fontFamily))
                (\<lambda>b. b))
          (seqP (othersP U)
             (seqP (upsertLegal tenantId
                      \<lparr>ls_id = newId ''TenantLegalSettings'', ls_tenantId = tenantId,
                       ls_contractFooterText = Some ''Contratto generato dal gestionale aziendale. Verificare i dati prima della sottoscrizione.'',
                       ls_defaultContractTerms = None, ls_privacyNoticeVersion = Some ''2026-05-05'', ls_termsVersion = None, ls_dpaVersion = None\<rparr>
                      (\<lambda>l. l))
                (returnP ()))))"

definition emptyInput :: TenantCompanyProfileInput where
  "emptyInput = \<lparr>in_legalName = None, in_tradeName = None, in_legalForm = None, in_vatNumber = None, in_taxCode = None, in_pec = None, in_sdiCode = None,
     in_rea = None, in_legalAddress = None, in_city = None, in_province = None, in_postalCode = None, in_country = None, in_phone = None, in_email = None,
     in_website = None, in_adminFirstName = None, in_adminLastName = None, in_adminEmail = None, in_adminPhone = None, in_adminRole = None,
     in_primaryColor = None, in_accentColor = None, in_fontFamily = None, in_contractFooterText = None, in_defaultContractTerms = None,
     in_termsVersion = None, in_dpaVersion = None\<rparr>"

text \<open>\<open>a ?? b\<close> where both may be missing.\<close>

definition coalesce :: "'a option \<Rightarrow> 'a option \<Rightarrow> 'a option" where
  "coalesce a b = (case a of None \<Rightarrow> b | Some x \<Rightarrow> Some x)"

definition hasCompanyOnboardingPayload :: "TenantCompanyProfileInput \<Rightarrow> bool" where
  "hasCompanyOnboardingPayload c \<longleftrightarrow> truthy (in_vatNumber c) \<or> truthy (in_taxCode c) \<or> truthy (in_pec c) \<or> truthy (in_sdiCode c) \<or>
     truthy (in_legalAddress c) \<or> truthy (in_city c) \<or> truthy (in_province c) \<or> truthy (in_postalCode c) \<or> truthy (in_email c) \<or> truthy (in_phone c)"

definition ensureForTenant ::
  "'z profile_db_scheme upload_env \<Rightarrow> (string \<Rightarrow> string) \<Rightarrow> string \<Rightarrow> string \<Rightarrow> string option \<Rightarrow> string option \<Rightarrow> string option \<Rightarrow>
    TenantCompanyProfileInput option \<Rightarrow> (app_error, 'z profile_db_scheme, TenantProfile) prog" where
  "ensureForTenant U newId tenantId tenantName adminFirstName adminLastName adminEmail company =
     (let c = orElse company emptyInput;
          legalName = orElse (normalizeText (in_legalName c)) tenantName;
          d = profileData (c\<lparr>in_legalName := Some legalName, in_tradeName := Some (orElse (in_tradeName c) tenantName),
                in_adminFirstName := coalesce (in_adminFirstName c) adminFirstName, in_adminLastName := coalesce (in_adminLastName c) adminLastName,
                in_adminEmail := coalesce (in_adminEmail c) adminEmail\<rparr>)
      in seqP (whenP (hasCompanyOnboardingPayload c) (validateBusinessRules (c\<lparr>in_legalName := Some legalName\<rparr>)))
           (seqP (othersP U)
              (seqP (assertP (pd_legalName d \<noteq> None) (PrismaError ''PrismaClientValidationError''))
                 (bindP (upsertProfile tenantId (profileRow newId tenantId d) (\<lambda>p. p)) (\<lambda>profile.
                    seqP (ensureDefaultsForTenant U newId tenantId company) (returnP profile))))))"

definition getProfile ::
  "'z profile_db_scheme upload_env \<Rightarrow> (string \<Rightarrow> string) \<Rightarrow> string \<Rightarrow> (app_error, 'z profile_db_scheme, ProfileView) prog" where
  "getProfile U newId tenantId =
     seqP (othersP U)
       (bindP (getsP tenants) (\<lambda>ts.
          seqP (assertP (\<exists>t \<in> set ts. tn_id t = tenantId) (AppError 404 ''TENANT_NOT_FOUND''))
            (seqP (ensureDefaultsForTenant U newId tenantId None)
               (seqP (othersP U)
                  (bindP (getsP (findProfile tenantId)) (\<lambda>profile.
                     bindP (getsP (findBranding tenantId)) (\<lambda>branding.
                       bindP (getsP (findLegal tenantId)) (\<lambda>legal.
                         returnP \<lparr>pv_profile = profile, pv_branding = branding, pv_legalSettings = legal,
                           pv_completeness = profileCompleteness profile (logoOf branding)\<rparr>))))))))"

definition completenessJson :: "ProfileCompleteness \<Rightarrow> json" where
  "completenessJson c = JObj [(''percentage'', JNum (of_int (pc_percentage c))), (''completed'', JBool (pc_completed c)), (''missing'', JArr (map JStr (pc_missing c)))]"

definition updateTenant :: "string \<Rightarrow> string \<Rightarrow> string option \<Rightarrow> (app_error, 'z profile_db_scheme, unit) prog" where
  "updateTenant tenantId nm vat =
     bindP (getsP tenants) (\<lambda>ts.
       seqP (assertP (\<exists>t \<in> set ts. tn_id t = tenantId) (PrismaError ''P2025''))
         (modifyP (\<lambda>s. s\<lparr>tenants := updateMany (\<lambda>t. tn_id t = tenantId) (\<lambda>t. t\<lparr>tn_name := nm, tn_vatNumber := vat\<rparr>) (tenants s)\<rparr>)))"

definition firstSite :: "(string \<Rightarrow> string) \<Rightarrow> string \<Rightarrow> ProfileData \<Rightarrow> (app_error, 'z profile_db_scheme, unit) prog" where
  "firstSite newId tenantId d =
     bindP (getsP (\<lambda>s. findFirst (\<lambda>x. st_tenantId x = tenantId \<and> st_deletedAt x = None) (sites s))) (\<lambda>existingSite.
       whenP (existingSite = None \<and> truthy (pd_legalAddress d) \<and> truthy (pd_city d))
         (modifyP (\<lambda>s. s\<lparr>sites := sites s @
            [\<lparr>st_id = newId ''Site'', st_tenantId = tenantId, st_name = orElse (pd_tradeName d) (textOf (pd_legalName d)),
              st_address = textOf (pd_legalAddress d), st_city = textOf (pd_city d), st_email = pd_email d, st_phone = pd_phone d, st_deletedAt = None\<rparr>]\<rparr>)))"

text \<open>The statements of the transaction of \<open>updateProfile\<close>.\<close>

definition writeProfile ::
  "'z profile_db_scheme upload_env \<Rightarrow> (string \<Rightarrow> string) \<Rightarrow> string \<Rightarrow> ProfileData \<Rightarrow> (app_error, 'z profile_db_scheme, TenantProfile) prog" where
  "writeProfile U newId tenantId d =
     seqP (assertP (pd_legalName d \<noteq> None) (PrismaError ''PrismaClientValidationError''))
       (upsertProfile tenantId (profileRow newId tenantId d)
          (\<lambda>p. ProfileData.extend d \<lparr>tp_id = tp_id p, tp_tenantId = tp_tenantId p,
             tp_profileCompletedAt = (if pc_completed (profileCompleteness (Some d) None) then Some (ue_now U) else None)\<rparr>))"

definition writeBranding :: "(string \<Rightarrow> string) \<Rightarrow> string \<Rightarrow> TenantCompanyProfileInput \<Rightarrow> (app_error, 'z profile_db_scheme, TenantBranding) prog" where
  "writeBranding newId tenantId input =
     upsertBranding tenantId (brandingRow newId tenantId (in_primaryColor input) (in_accentColor input) (in_fontFamily input))
       (\<lambda>b. b\<lparr>tb_primaryColor := in_primaryColor input, tb_accentColor := in_accentColor input, tb_fontFamily := in_fontFamily input\<rparr>)"

definition writeLegal :: "(string \<Rightarrow> string) \<Rightarrow> string \<Rightarrow> TenantCompanyProfileInput \<Rightarrow> (app_error, 'z profile_db_scheme, TenantLegalSettings) prog" where
  "writeLegal newId tenantId input =
     upsertLegal tenantId
       \<lparr>ls_id = newId ''TenantLegalSettings'', ls_tenantId = tenantId, ls_contractFooterText = in_contractFooterText input,
        ls_defaultContractTerms = in_defaultContractTerms input, ls_privacyNoticeVersion = Some ''2026-05-05'',
        ls_termsVersion = in_termsVersion input, ls_dpaVersion = in_dpaVersion input\<rparr>
       (\<lambda>l. l\<lparr>ls_contractFooterText := in_contractFooterText input, ls_defaultContractTerms := in_defaultContractTerms input,
              ls_termsVersion := in_termsVersion input, ls_dpaVersion := in_dpaVersion input\<rparr>)"

definition updateProfile ::
  "'z profile_db_scheme upload_env \<Rightarrow> (string \<Rightarrow> string) \<Rightarrow> string \<Rightarrow> string \<Rightarrow> TenantCompanyProfileInput \<Rightarrow> (app_error, 'z profile_db_scheme, ProfileView) prog" where
  "updateProfile U newId tenantId actorUserId input =
     seqP (validateBusinessRules input)
       (let d = profileData input in
        txP U
          (bindP (writeProfile U newId tenantId d) (\<lambda>profile.
             bindP (writeBranding newId tenantId input) (\<lambda>branding.
               seqP (updateTenant tenantId (orElse (pd_tradeName d) (textOf (pd_legalName d))) (pd_vatNumber d))
                 (seqP (firstSite newId tenantId d)
                    (bindP (writeLegal newId tenantId input) (\<lambda>legal.
                       let completeness = profileCompleteness (Some profile) (tb_logoFilePath branding) in
                       seqP (rawAudit (ue_now U) tenantId actorUserId ''TENANT_PROFILE_UPDATED'' ''TenantProfile'' (Some (tp_id profile))
                               (JObj [(''legalName'', jstrOrNull (pd_legalName profile)), (''completeness'', completenessJson completeness)]))
                         (returnP \<lparr>pv_profile = Some profile, pv_branding = Some branding, pv_legalSettings = Some legal, pv_completeness = completeness\<rparr>))))))))"

section \<open>The logo\<close>

text \<open>The rows of the file objects of a tenant with a key are retired; an old row of the local storage may have no bucket.\<close>

definition retireObjects ::
  "'z file_db_scheme upload_env \<Rightarrow> 'z file_db_scheme storage_provider \<Rightarrow> string \<Rightarrow> string \<Rightarrow> (app_error, 'z file_db_scheme, unit) prog" where
  "retireObjects U sp tenantId key =
     modifyP (\<lambda>s. s\<lparr>storedFiles := updateMany
       (\<lambda>r. fo_tenantId r = tenantId \<and> fo_provider r = sp_name sp \<and>
            (fo_bucket r = Some (storageBucket U sp) \<or> sp_name sp = ''local'' \<and> fo_bucket r = None) \<and> fo_storageKey r = key \<and> fo_deletedAt r = None)
       (\<lambda>r. r\<lparr>fo_deletedAt := Some (ue_now U)\<rparr>) (storedFiles s)\<rparr>)"

text \<open>
  The callback of \<open>setLogo\<close> returns the branding row and the key to delete.  One file is given, so there is one upload.
\<close>

definition logoCommit ::
  "'z profile_db_scheme upload_env \<Rightarrow> 'z profile_db_scheme storage_provider \<Rightarrow> (string \<Rightarrow> string) \<Rightarrow> string \<Rightarrow> string \<Rightarrow> UploadedFile \<Rightarrow>
    PersistedUpload list \<Rightarrow> (app_error, 'z profile_db_scheme, TenantBranding \<times> string option) prog" where
  "logoCommit U sp newId tenantId actorUserId file uploads =
     (case uploads of
        [upload] \<Rightarrow>
          bindP (getsP (findBranding tenantId)) (\<lambda>current.
            bindP (upsertBranding tenantId
                ((brandingRow newId tenantId None None None)\<lparr>tb_logoFilePath := Some (wu_key upload), tb_logoFileName := Some (mf_originalname file),
                   tb_logoMimeType := Some (mf_mimetype file)\<rparr>)
                (\<lambda>b. b\<lparr>tb_logoFilePath := Some (wu_key upload), tb_logoFileName := Some (mf_originalname file), tb_logoMimeType := Some (mf_mimetype file)\<rparr>))
              (\<lambda>branding.
                 let replaced = (case logoOf current of Some old \<Rightarrow> if old \<noteq> [] \<and> old \<noteq> wu_key upload then Some old else None | None \<Rightarrow> None) in
                 seqP (case replaced of Some old \<Rightarrow> retireObjects U sp tenantId old | None \<Rightarrow> returnP ())
                   (seqP (rawAudit (ue_now U) tenantId actorUserId ''TENANT_BRANDING_LOGO_UPDATED'' ''TenantBranding'' (Some (tb_id branding))
                            (JObj [(''fileName'', JStr (mf_originalname file)), (''mimeType'', JStr (mf_mimetype file)), (''sizeBytes'', JNum (of_int (mf_size file)))]))
                      (bindP (getsP (findProfile tenantId)) (\<lambda>nextProfile.
                         seqP (case nextProfile of
                                 None \<Rightarrow> returnP ()
                               | Some p \<Rightarrow>
                                   modifyP (\<lambda>s. s\<lparr>profiles := updateMany (\<lambda>q. tp_tenantId q = tenantId)
                                     (\<lambda>q. q\<lparr>tp_profileCompletedAt :=
                                        if pc_completed (profileCompleteness (Some p) (tb_logoFilePath branding)) then Some (ue_now U) else None\<rparr>) (profiles s)\<rparr>))
                           (returnP (branding, replaced)))))))
      | _ \<Rightarrow> throwP (SystemError ''TypeError''))"

definition setLogo ::
  "'z profile_db_scheme upload_env \<Rightarrow> 'z profile_db_scheme storage_provider \<Rightarrow> (string \<Rightarrow> string) \<Rightarrow> string \<Rightarrow> string \<Rightarrow> UploadedFile \<Rightarrow>
    (app_error, 'z profile_db_scheme, ProfileView) prog" where
  "setLogo U sp newId tenantId actorUserId file =
     bindP (persistNewUploadedFiles U sp tenantId ''branding'' ''TenantBranding'' (Some tenantId) [file] (logoCommit U sp newId tenantId actorUserId file))
       (\<lambda>((branding, retiredKey), uploads).
          seqP (case retiredKey of Some key \<Rightarrow> seqP (deleteRetiredPhysicalObject U sp key) (returnP ()) | None \<Rightarrow> returnP ())
            (getProfile U newId tenantId))"

definition verificationCommit ::
  "'z profile_db_scheme upload_env \<Rightarrow> string \<Rightarrow> string \<Rightarrow> UploadedFile \<Rightarrow> PersistedUpload list \<Rightarrow> (app_error, 'z profile_db_scheme, StoredFileObject) prog" where
  "verificationCommit U tenantId actorUserId file uploads =
     (case uploads of
        [upload] \<Rightarrow>
          seqP (rawAudit (ue_now U) tenantId actorUserId ''TENANT_COMPANY_VERIFICATION_DOCUMENT_UPLOADED'' ''StoredFileObject'' (Some (fo_id (pu_stored upload)))
                  (JObj [(''fileName'', JStr (mf_originalname file)), (''mimeType'', JStr (mf_mimetype file)), (''sizeBytes'', JNum (of_int (mf_size file))),
                         (''checksumSha256'', JStr (wu_checksumSha256 upload))]))
            (returnP (pu_stored upload))
      | _ \<Rightarrow> throwP (SystemError ''TypeError''))"

text \<open>The returned row; the request shows six of its columns.\<close>

definition setCompanyVerificationDocument ::
  "'z profile_db_scheme upload_env \<Rightarrow> 'z profile_db_scheme storage_provider \<Rightarrow> string \<Rightarrow> string \<Rightarrow> UploadedFile \<Rightarrow>
    (app_error, 'z profile_db_scheme, StoredFileObject) prog" where
  "setCompanyVerificationDocument U sp tenantId actorUserId file =
     bindP (persistNewUploadedFiles U sp tenantId ''company-verification-documents'' ''TenantCompanyVerificationDocument'' (Some tenantId) [file]
              (verificationCommit U tenantId actorUserId file))
       (\<lambda>(storedFile, uploads). returnP storedFile)"

definition dropLogo ::
  "'z profile_db_scheme upload_env \<Rightarrow> 'z profile_db_scheme storage_provider \<Rightarrow> string \<Rightarrow> string \<Rightarrow> (app_error, 'z profile_db_scheme, string option) prog" where
  "dropLogo U sp tenantId actorUserId =
     bindP (getsP (findBranding tenantId)) (\<lambda>current.
       case current of
         None \<Rightarrow> returnP None
       | Some b \<Rightarrow>
           seqP (modifyP (\<lambda>s. s\<lparr>brandings := updateMany (\<lambda>x. tb_tenantId x = tenantId)
                    (\<lambda>x. x\<lparr>tb_logoFilePath := None, tb_logoFileName := None, tb_logoMimeType := None\<rparr>) (brandings s)\<rparr>))
             (seqP (case tb_logoFilePath b of Some key \<Rightarrow> if key \<noteq> [] then retireObjects U sp tenantId key else returnP () | None \<Rightarrow> returnP ())
                (seqP (modifyP (\<lambda>s. s\<lparr>profiles := updateMany (\<lambda>p. tp_tenantId p = tenantId) (\<lambda>p. p\<lparr>tp_profileCompletedAt := None\<rparr>) (profiles s)\<rparr>))
                   (seqP (rawAudit (ue_now U) tenantId actorUserId ''TENANT_BRANDING_LOGO_REMOVED'' ''TenantBranding'' (Some (tb_id b)) (JObj []))
                      (returnP (tb_logoFilePath b))))))"

definition removeLogo ::
  "'z profile_db_scheme upload_env \<Rightarrow> 'z profile_db_scheme storage_provider \<Rightarrow> (string \<Rightarrow> string) \<Rightarrow> string \<Rightarrow> string \<Rightarrow>
    (app_error, 'z profile_db_scheme, ProfileView) prog" where
  "removeLogo U sp newId tenantId actorUserId =
     bindP (txP U (dropLogo U sp tenantId actorUserId)) (\<lambda>retiredKey.
       seqP (case retiredKey of Some key \<Rightarrow> if key \<noteq> [] then seqP (deleteRetiredPhysicalObject U sp key) (returnP ()) else returnP () | None \<Rightarrow> returnP ())
         (getProfile U newId tenantId))"

section \<open>Contracts\<close>

record ContractBranding =
  cb_companyName :: "string option"
  cb_companyAddress :: string
  cb_companyVat :: string
  cb_companyEmail :: "string option"
  cb_companyPhone :: "string option"
  cb_logoFilePath :: "string option"
  cb_logoFileName :: "string option"
  cb_brandPrimary :: "string option"
  cb_brandAccent :: "string option"
  cb_brandFont :: "string option"
  cb_contractFooterText :: "string option"
  cb_defaultContractTerms :: "string option"

text \<open>\<open>filter(Boolean).join(separator)\<close>; the separator of the fiscal codes holds a middle dot.\<close>

definition joinTexts :: "string \<Rightarrow> string option list \<Rightarrow> string" where
  "joinTexts sep xs = joinWith sep (map textOf (filter truthy xs))"

definition middleDot :: string where
  "middleDot = [CHR 0x20, CHR 0xB7, CHR 0x20]"

definition prefixed :: "string \<Rightarrow> string option \<Rightarrow> string option" where
  "prefixed p v = (if truthy v then Some (p @ textOf v) else None)"

definition brandingView :: "TenantProfile option \<Rightarrow> TenantBranding option \<Rightarrow> TenantLegalSettings option \<Rightarrow> ContractBranding" where
  "brandingView profile branding legal =
     (let col = Option.bind profile; mark = Option.bind branding; law = Option.bind legal in
      \<lparr>cb_companyName = coalesce (col pd_tradeName) (col pd_legalName),
       cb_companyAddress = joinTexts '', '' [col pd_legalAddress, col pd_postalCode, col pd_city, col pd_province, map_option pd_country profile],
       cb_companyVat = joinTexts middleDot [prefixed ''P.IVA '' (col pd_vatNumber), prefixed ''CF '' (col pd_taxCode)],
       cb_companyEmail = coalesce (col pd_email) (col pd_pec), cb_companyPhone = col pd_phone,
       cb_logoFilePath = mark tb_logoFilePath, cb_logoFileName = mark tb_logoFileName,
       cb_brandPrimary = mark tb_primaryColor, cb_brandAccent = mark tb_accentColor, cb_brandFont = mark tb_fontFamily,
       cb_contractFooterText = law ls_contractFooterText, cb_defaultContractTerms = law ls_defaultContractTerms\<rparr>)"

definition contractBranding ::
  "'z profile_db_scheme upload_env \<Rightarrow> (string \<Rightarrow> string) \<Rightarrow> string \<Rightarrow> bool \<Rightarrow> (app_error, 'z profile_db_scheme, ContractBranding) prog" where
  "contractBranding U newId tenantId ensureDefaults =
     (if \<not> ensureDefaults
      then seqP (othersP U)
        (bindP (getsP tenants) (\<lambda>ts.
           seqP (assertP (\<exists>t \<in> set ts. tn_id t = tenantId) (AppError 404 ''TENANT_NOT_FOUND''))
             (bindP (getsP (\<lambda>s. (findProfile tenantId s, findBranding tenantId s, findLegal tenantId s))) (\<lambda>(profile, branding, legal).
                returnP (brandingView profile branding legal)))))
      else bindP (getProfile U newId tenantId) (\<lambda>v. returnP (brandingView (pv_profile v) (pv_branding v) (pv_legalSettings v))))"

end
