(* ===== verification/Profile_Guarantee.thy ===== *)
theory Profile_Guarantee
  imports Tenant_Profile
begin

text \<open>
  What the service of the tenant profile guarantees: the rows it stores pass the validation their inputs passed, have the shape the
  rules ask for (\<open>profileOk\<close>), and are fixed points of saving.
\<close>

section \<open>Stored profiles\<close>

definition storedDraft :: "'a ProfileData_scheme \<Rightarrow> CompanyRegistrationDraft" where
  "storedDraft d = \<lparr>cg_country = Some (pd_country d), cg_tenantName = pd_legalName d, cg_vatNumber = pd_vatNumber d, cg_taxCode = pd_taxCode d,
     cg_pec = pd_pec d, cg_sdiCode = pd_sdiCode d, cg_legalAddress = pd_legalAddress d, cg_city = pd_city d, cg_province = pd_province d,
     cg_postalCode = pd_postalCode d, cg_companyEmail = pd_email d, cg_companyPhone = pd_phone d\<rparr>"

lemma textOf_orNull [simp]: "textOf (orNull s) = s"
  by (simp add: orNull_def)

lemma textOf_normalizeText [simp]: "textOf (normalizeText v) = trim (textOf v)"
  by (simp add: normalizeText_def Let_def)

lemma case_Nil [simp]: "toUpperCase s = [] \<longleftrightarrow> s = []" "toLowerCase s = [] \<longleftrightarrow> s = []" "trim [] = []" "toUpperCase [] = []" "toLowerCase [] = []"
  by (simp_all add: toUpperCase_def toLowerCase_def trim_def)

lemma country_kept:
  assumes "c = None \<or> hasText c"
  shows "normalizeCountry c = normalizeCountryCode c"
proof (cases c)
  case None
  then show ?thesis by (simp add: normalizeCountry_def normalizeCountryCode_def normalizeText_def trim_def isSpace_def)
next
  case (Some v)
  with assms show ?thesis by (simp add: normalizeCountry_def normalizeCountryCode_def normalizeText_def hasText_def Let_def)
qed

text \<open>Every check reads the normal form of a column like the column itself.\<close>

named_theorems stored_column "reading the normal form of a column"

lemma normalizeText_cases: "normalizeText v = None \<and> trim (textOf v) = [] \<or> normalizeText v = Some (trim (textOf v)) \<and> trim (textOf v) \<noteq> []"
  by (simp add: normalizeText_def Let_def)

lemma normalizeText_None [simp]: "normalizeText None = None"
  by (simp add: normalizeText_def trim_def)

lemma hasText_normal [stored_column]:
  "hasText (normalizeText v) = hasText v" "hasText (map_option toLowerCase (normalizeText v)) = hasText v"
  "hasText (map_option toUpperCase (normalizeText v)) = hasText v"
  using normalizeText_cases [of v] by (auto simp: hasText_def)

lemma placeholder_normal [stored_column]:
  "isLikelyPlaceholderText (normalizeText v) = isLikelyPlaceholderText v"
  "isLikelyPlaceholderText (map_option toUpperCase (normalizeText v)) = isLikelyPlaceholderText v"
proof -
  have v: "isLikelyPlaceholderText v = isLikelyPlaceholderText (Some (trim (textOf v)))"
    by (cases v) (simp_all add: normal_forms, simp add: isLikelyPlaceholderText_def comparable_def trim_def)
  have "isLikelyPlaceholderText None = isLikelyPlaceholderText (Some [])" by (simp add: isLikelyPlaceholderText_def comparable_def)
  then show "isLikelyPlaceholderText (normalizeText v) = isLikelyPlaceholderText v"
    "isLikelyPlaceholderText (map_option toUpperCase (normalizeText v)) = isLikelyPlaceholderText v"
    using normalizeText_cases [of v] v by (auto simp: placeholder_upper)
qed

lemma phone_normal [stored_column]: "isLikelyPlaceholderPhone (normalizeText v) = isLikelyPlaceholderPhone v"
  using normalizeText_cases [of v] onlyDigits_trim [of "textOf v"]
  by (auto simp: isLikelyPlaceholderPhone_def)

lemma text_normal [stored_column]:
  "toLowerCase (trim (textOf (map_option toLowerCase (normalizeText v)))) = toLowerCase (trim (textOf v))"
  "toUpperCase (trim (textOf (map_option toUpperCase (normalizeText v)))) = toUpperCase (trim (textOf v))"
  using normalizeText_cases [of v] by (auto simp: normal_forms trim_toLowerCase trim_toUpperCase)

lemma own_country [stored_column]: "hasText (Some C) \<Longrightarrow> normalizeCountry (Some C) = normalizeCountryCode (Some C)"
  by (simp add: country_kept)

lemma vat_normal [stored_column]:
  assumes "hasText (Some C)"
  shows "normalizeVatNumberForCountry (normalizeVat v (Some C)) (Some C) = normalizeVatNumberForCountry v (Some C)"
proof (cases "normalizeCountryCode (Some C) = ''IT''")
  case True
  then show ?thesis by (simp add: normalizeVatNumberForCountry_def normalizeVat_def own_country [OF assms] normalizeItalianVatNumber_def normal_forms)
next
  case False
  have "textOf (normalizeVat v (Some C)) = normalizeTaxCode v"
    using normalizeText_cases [of v] False by (auto simp: normalizeVat_def own_country [OF assms] normalizeTaxCode_def)
  then have "normalizeTaxCode (normalizeVat v (Some C)) = normalizeTaxCode v"
    using normalizeTaxCode_idem [of v] by (simp add: normalizeTaxCode_def)
  with False show ?thesis by (simp add: normalizeVatNumberForCountry_def flip: normalizeTaxCode_def)
qed

lemma codes_normal [stored_column]:
  "normalizeTaxCode (orNull (normalizeTaxCode v)) = normalizeTaxCode v" "normalizeSdiCode (orNull (normalizeSdiCode v)) = normalizeSdiCode v"
proof -
  have "normalizeTaxCode (orNull s) = normalizeTaxCode (Some s)" "normalizeSdiCode (orNull s) = normalizeSdiCode (Some s)" for s
    by (simp_all add: normalizeTaxCode_def normalizeSdiCode_def)
  then show "normalizeTaxCode (orNull (normalizeTaxCode v)) = normalizeTaxCode v" "normalizeSdiCode (orNull (normalizeSdiCode v)) = normalizeSdiCode v"
    by (simp_all add: normal_forms)
qed

lemma fiscal_normal [stored_column]: "isValidItalianFiscalCode (orNull (normalizeTaxCode v)) = isValidItalianFiscalCode v"
  by (simp add: isValidItalianFiscalCode_def codes_normal)

lemma trim_head: "trim t = c # cs \<Longrightarrow> \<not> isSpace c"
proof
  assume t: "trim t = c # cs" and "isSpace c"
  then have "trim (c # cs) = trim cs" by (simp add: trim_def)
  moreover have "trim (c # cs) = c # cs" using trim_trim [of t] unfolding t .
  ultimately have "length (c # cs) \<le> length cs" using length_trim [of cs] by (metis length_trim)
  then show False by simp
qed

lemma postal_normal [stored_column]:
  "isLikelyPlaceholderPostalCode (orNull (normalizePostalCodeForCountry v (Some C))) (Some C) = isLikelyPlaceholderPostalCode v (Some C)"
  "normalizeCountryCode (Some C) = ''IT'' \<Longrightarrow> normalizePostalCode (orNull (normalizePostalCodeForCountry v (Some C))) = normalizePostalCode v"
  "normalizeCountryCode (Some C) \<noteq> ''IT'' \<Longrightarrow> hasText (orNull (normalizePostalCodeForCountry v (Some C))) = hasText v"
proof -
  have "normalizePostalCodeForCountry (orNull s) c = normalizePostalCodeForCountry (Some s) c" for s c
    by (simp add: normalizePostalCodeForCountry_def normalizePostalCode_def)
  then show "isLikelyPlaceholderPostalCode (orNull (normalizePostalCodeForCountry v (Some C))) (Some C) = isLikelyPlaceholderPostalCode v (Some C)"
    by (simp add: isLikelyPlaceholderPostalCode_def foreign_postal_compact)
  show "normalizeCountryCode (Some C) = ''IT'' \<Longrightarrow> normalizePostalCode (orNull (normalizePostalCodeForCountry v (Some C))) = normalizePostalCode v"
    by (simp add: normalizePostalCodeForCountry_def normalizePostalCode_def normal_forms)
  show "hasText (orNull (normalizePostalCodeForCountry v (Some C))) = hasText v" if "normalizeCountryCode (Some C) \<noteq> ''IT''"
  proof (cases "trim (textOf v)")
    case Nil
    then show ?thesis using that by (simp add: hasText_def normalizePostalCodeForCountry_def)
  next
    case (Cons c cs)
    then have "\<not> isSpace c" by (rule trim_head)
    with that Cons show ?thesis by (simp add: hasText_def normalizePostalCodeForCountry_def trim_eq_Nil toUpperCase_def)
  qed
qed

lemma italy [simp]: "hasText (Some ''IT'')" "normalizeCountryCode (Some ''IT'') = ''IT''"
  by code_simp+

lemma stored_country: "in_country i = None \<or> hasText (in_country i) \<Longrightarrow> pd_country (profileData i) = normalizeCountryCode (in_country i)"
  by (simp add: profileData_def Let_def country_kept)

lemma country_text: "c = None \<or> hasText c \<Longrightarrow> hasText (Some (normalizeCountryCode c))"
  by (cases c) (auto simp: hasText_def normalizeCountryCode_def, code_simp)

lemma common_checks_kept:
  assumes "in_country i = None \<or> hasText (in_country i)"
  shows "validateCommon (storedDraft (profileData i)) = validateCommon (draftOf i)"
  by (simp add: validateCommon_def storedDraft_def draftOf_def profileData_def Let_def country_kept [OF assms] normal_forms stored_column
      del: case_map_option)

lemma italian_checks_kept:
  assumes "in_country i = None \<or> hasText (in_country i)" and "normalizeCountryCode (in_country i) = ''IT''"
  shows "validateItalian (storedDraft (profileData i)) ''IT'' = validateItalian (draftOf i) ''IT''"
  using assms(2)
  by (simp add: validateItalian_def storedDraft_def draftOf_def profileData_def Let_def country_kept [OF assms(1)] normal_forms stored_column
      del: case_map_option)

lemma foreign_checks_kept:
  assumes "in_country i = None \<or> hasText (in_country i)" and "normalizeCountryCode (in_country i) \<noteq> ''IT''"
  shows "validateForeign (storedDraft (profileData i)) (normalizeCountryCode (in_country i)) = validateForeign (draftOf i) (normalizeCountryCode (in_country i))"
  using assms(2) country_text [OF assms(1)]
  by (simp add: validateForeign_def storedDraft_def draftOf_def profileData_def Let_def country_kept [OF assms(1)] normal_forms stored_column
      del: case_map_option)

lemma stored_validation:
  assumes "in_country i = None \<or> hasText (in_country i)"
  shows "validateCompanyRegistrationDraft (storedDraft (profileData i)) = validateCompanyRegistrationDraft (draftOf i)"
proof -
  have c: "normalizeCountryCode (cg_country (storedDraft (profileData i))) = normalizeCountryCode (in_country i)"
    "normalizeCountryCode (cg_country (draftOf i)) = normalizeCountryCode (in_country i)"
    by (simp_all add: storedDraft_def draftOf_def stored_country [OF assms] normal_forms)
  show ?thesis
    unfolding validateCompanyRegistrationDraft_def c Let_def common_checks_kept [OF assms]
    using italian_checks_kept [OF assms] foreign_checks_kept [OF assms] by simp
qed

text \<open>The shape of a stored profile that the validation accepts.\<close>

definition profileOk :: "'a ProfileData_scheme \<Rightarrow> bool" where
  "profileOk d \<longleftrightarrow> countryCodePattern (pd_country d) \<and>
     (\<exists>x. pd_legalName d = Some x \<and> trim x = x \<and> x \<noteq> []) \<and> (\<exists>x. pd_email d = Some x \<and> emailPattern x \<and> toLowerCase x = x) \<and>
     (\<exists>x. pd_phone d = Some x \<and> 6 \<le> length (onlyDigits x)) \<and> pd_legalAddress d \<noteq> None \<and> pd_city d \<noteq> None \<and>
     (if pd_country d = ''IT''
      then (\<exists>x. pd_vatNumber d = Some x \<and> digits11 x \<and> checkSum x mod 10 = 0) \<and> (\<exists>x. pd_province d = Some x \<and> allOf isUpper 2 x) \<and>
           (\<exists>x. pd_postalCode d = Some x \<and> allOf isDigit 5 x) \<and> (\<exists>x. pd_pec d = Some x \<and> emailPattern x \<and> toLowerCase x = x) \<and>
           isValidItalianFiscalCode (pd_taxCode d) \<and> (\<forall>x. pd_sdiCode d = Some x \<longrightarrow> sdiPattern x)
      else pd_vatNumber d \<noteq> None \<and> pd_province d \<noteq> None \<and> pd_postalCode d \<noteq> None)"

lemma check_Nil [simp]: "check b f c = [] \<longleftrightarrow> \<not> b"
  by (simp add: check_def)

lemma accepted_country: "validateCompanyRegistrationDraft (draftOf i) = [] \<Longrightarrow> in_country i = None \<or> hasText (in_country i)"
  by (cases "in_country i")
    (auto simp: validateCompanyRegistrationDraft_def validateCommon_def draftOf_def Let_def countryCodePattern_def allOf_def normalizeCountryCode_def hasText_def)

lemma normalizeText_Some: "hasText v \<Longrightarrow> \<exists>x. normalizeText v = Some x \<and> trim x = x \<and> x \<noteq> []"
  using normalizeText_cases [of v] by (auto simp: hasText_def)

lemma vat_digits:
  assumes "isValidItalianVatNumber (Some (normalizeVatNumberForCountry v (Some ''IT'')))"
  shows "\<exists>x. normalizeVat v (Some ''IT'') = Some x \<and> digits11 x \<and> checkSum x mod 10 = 0"
proof -
  define x where "x = onlyDigits (textOf v)"
  have v: "isValidItalianVatNumber (Some x)"
    using assms by (simp add: normalizeVatNumberForCountry_def normalizeItalianVatNumber_def x_def)
  have "onlyDigits x = x" by (simp add: x_def normal_forms)
  then have d: "digits11 x" using v by (auto simp: isValidItalianVatNumber_def normalizeItalianVatNumber_def Let_def allOf_def digits11_def)
  then have "x \<noteq> []" by (auto simp: digits11_def)
  then have "normalizeVat v (Some ''IT'') = Some x"
    by (simp add: normalizeVat_def own_country orNull_def normalizeItalianVatNumber_def flip: x_def)
  with v d show ?thesis by (simp add: valid_vat_iff)
qed

lemma sdi_shape:
  assumes "normalizeSdiCode v = [] \<or> isValidSdiCodeFormat (Some (normalizeSdiCode v))" and "orNull (normalizeSdiCode v) = Some x"
  shows "sdiPattern x"
  using assms by (auto simp: orNull_def isValidSdiCodeFormat_def normal_forms split: if_splits)

lemma postal_shape:
  assumes "italianPostalCodePattern (normalizePostalCode v)"
  shows "\<exists>x. orNull (normalizePostalCodeForCountry v (Some ''IT'')) = Some x \<and> allOf isDigit 5 x"
  using assms by (auto simp: orNull_def normalizePostalCodeForCountry_def italianPostalCodePattern_def allOf_def)

lemma email_shape:
  assumes "hasText v" and "emailPattern (toLowerCase (trim (textOf v)))"
  shows "\<exists>x. map_option toLowerCase (normalizeText v) = Some x \<and> emailPattern x \<and> toLowerCase x = x"
  using assms normalizeText_cases [of v] by (auto simp: hasText_def)

lemma hasText_trimmed: "hasText v \<longleftrightarrow> trim (textOf v) \<noteq> []"
  by (simp add: hasText_def)

lemma upper_shape: "allOf isUpper 2 (toUpperCase (trim (textOf v))) \<Longrightarrow> \<exists>x. map_option toUpperCase (normalizeText v) = Some x \<and> allOf isUpper 2 x"
  using normalizeText_cases [of v] by (auto simp: allOf_def)

lemma phone_shape: "hasText v \<Longrightarrow> \<not> isLikelyPlaceholderPhone v \<Longrightarrow> \<exists>x. normalizeText v = Some x \<and> 6 \<le> length (onlyDigits x)"
  using normalizeText_cases [of v] by (auto simp: hasText_def isLikelyPlaceholderPhone_def Let_def normal_forms)

lemma foreign_id_present:
  assumes "hasEnoughIdentifierEntropy (Some (normalizeVatNumberForCountry v (Some C)))" and "hasText (Some C)" and "normalizeCountryCode (Some C) \<noteq> ''IT''"
  shows "normalizeVat v (Some C) \<noteq> None"
proof
  assume "normalizeVat v (Some C) = None"
  then have "trim (textOf v) = []"
    using normalizeText_cases [of v] assms(2,3) by (auto simp: normalizeVat_def own_country)
  then show False using assms(1,3) by (simp add: normalizeVatNumberForCountry_def hasEnoughIdentifierEntropy_def Let_def onlyAlnum_def)
qed

lemma accepted_shape:
  assumes "validateCompanyRegistrationDraft (draftOf i) = []"
  shows "profileOk (profileData i)"
proof -
  note c = accepted_country [OF assms]
  let ?C = "normalizeCountryCode (in_country i)"
  have common: "validateCommon (draftOf i) = []" using assms by (simp add: validateCompanyRegistrationDraft_def Let_def)
  have it: "validateItalian (draftOf i) ''IT'' = []" if "?C = ''IT''"
    using assms that by (simp add: validateCompanyRegistrationDraft_def Let_def draftOf_def)
  have foreign: "validateForeign (draftOf i) ?C = []" if "?C \<noteq> ''IT''"
    using assms that by (simp add: validateCompanyRegistrationDraft_def Let_def draftOf_def)
  have d: "pd_country (profileData i) = ?C" by (rule stored_country [OF c])
  have all: "countryCodePattern ?C" "hasText (in_legalName i)" "hasText (in_email i)" "emailPattern (toLowerCase (trim (textOf (in_email i))))"
      "hasText (in_phone i)" "\<not> isLikelyPlaceholderPhone (in_phone i)" "hasText (in_legalAddress i)"
    using common by (simp_all add: validateCommon_def draftOf_def Let_def)
  have city: "hasText (in_city i)"
    using it foreign by (cases "?C = ''IT''") (simp_all add: validateItalian_def validateForeign_def draftOf_def Let_def)
  note phone = phone_shape [OF all(5,6)]
  show ?thesis
  proof (cases "?C = ''IT''")
    case True
    have c': "normalizeCountry (in_country i) = ''IT''" using True country_kept [OF c] by simp
    have "isValidItalianVatNumber (Some (normalizeVatNumberForCountry (in_vatNumber i) (Some ''IT'')))" "isValidItalianFiscalCode (in_taxCode i)"
      "allOf isUpper 2 (toUpperCase (trim (textOf (in_province i))))" "italianPostalCodePattern (normalizePostalCode (in_postalCode i))"
      "trim (textOf (in_pec i)) \<noteq> []" "emailPattern (toLowerCase (trim (textOf (in_pec i))))"
      "normalizeSdiCode (in_sdiCode i) = [] \<or> isValidSdiCodeFormat (Some (normalizeSdiCode (in_sdiCode i)))"
      using it [OF True] by (simp_all add: validateItalian_def draftOf_def Let_def)
    note vat_digits [OF this(1)] this(2) upper_shape [OF this(3)] postal_shape [OF this(4)] email_shape [OF this(5) [folded hasText_trimmed] this(6)] sdi_shape [OF this(7)]
    with True c' all city phone show ?thesis
      using normalizeText_Some [OF all(2)] normalizeText_Some [OF all(7)] normalizeText_Some [OF city] email_shape [OF all(3,4)]
      by (simp add: profileOk_def profileData_def Let_def fiscal_normal) blast
  next
    case False
    have c': "normalizeCountry (in_country i) = ?C" by (rule country_kept [OF c])
    have C: "hasText (Some ?C)" "normalizeCountryCode (Some ?C) \<noteq> ''IT''" using country_text [OF c] False by (simp_all add: normal_forms)
    have "hasEnoughIdentifierEntropy (Some (normalizeVatNumberForCountry (in_vatNumber i) (Some ?C)))" "hasText (in_province i)" "hasText (in_postalCode i)"
      using foreign [OF False] by (simp_all add: validateForeign_def draftOf_def)
    moreover from this have "orNull (normalizePostalCodeForCountry (in_postalCode i) (Some ?C)) \<noteq> None"
      using postal_normal(3) [OF C(2), of "in_postalCode i"] by (auto simp: hasText_def orNull_def)
    ultimately show ?thesis
      using False c' all city phone foreign_id_present [OF _ C] normalizeText_Some [OF all(2)] normalizeText_Some [OF all(7)] normalizeText_Some [OF city]
        normalizeText_Some [of "in_province i"] email_shape [OF all(3,4)]
      by (simp add: profileOk_def profileData_def Let_def) blast
  qed
qed

section \<open>Updates of a profile\<close>

lemma find_changed:
  assumes "List.find P rows = Some r" and "\<And>r. P r \<Longrightarrow> P (f r)"
  shows "List.find P (updateMany P f rows) = Some (f r)"
  using assms by (induction rows) (auto simp: updateMany_def split: if_splits)

lemma find_new: "List.find P rows = None \<Longrightarrow> P r \<Longrightarrow> List.find P (rows @ [r]) = Some r"
  by (induction rows) (auto split: if_splits)

lemma upsertP_Inr:
  "upsertP tab upd key tenantId new change s = (Inr y, t) \<longleftrightarrow>
     (\<exists>r. List.find (\<lambda>r. key r = tenantId) (tab s) = Some r \<and> y = change r \<and> t = upd (updateMany (\<lambda>r. key r = tenantId) change) s) \<or>
     List.find (\<lambda>r. key r = tenantId) (tab s) = None \<and> (\<exists>x \<in> set (tenants s). tn_id x = tenantId) \<and> y = new \<and> t = upd (\<lambda>rows. rows @ [new]) s"
  by (auto simp: upsertP_def bindP_Inr seqP_Inr split: option.splits)

text \<open>An upsert of a row of the tenant leaves the rows of others alone and returns the row a lookup finds afterwards.\<close>

lemma upserted:
  assumes "upsertP tab upd key tenantId new change s = (Inr y, t)" and "key new = tenantId" and "\<And>r. key (change r) = key r"
    and "\<And>f. tab (upd f s) = f (tab s)"
  shows "List.find (\<lambda>r. key r = tenantId) (tab t) = Some y \<and> filter (\<lambda>r. key r \<noteq> tenantId) (tab t) = filter (\<lambda>r. key r \<noteq> tenantId) (tab s)"
  using assms by (auto simp: upsertP_Inr find_changed find_new filter_updateMany)

lemma txP_Inr: "txP U body s = (Inr y, t) \<longleftrightarrow> body (ue_others U s) = (Inr y, t) \<and> ue_outcome U t = Commits"
  by (auto simp: txP_def othersP_def run_seq_modify catchP_def transactionP_def prog_defs split: prod.splits sum.splits txOutcome.splits)

lemma txP_Inl:
  "txP U body s = (Inl e, t) \<Longrightarrow> t = ue_others U s \<or> (\<exists>y. body (ue_others U s) = (Inr y, t) \<and> (\<exists>e. ue_outcome U t = ReplyLost e))"
  by (auto simp: txP_def othersP_def run_seq_modify catchP_def transactionP_def prog_defs split: prod.splits sum.splits txOutcome.splits)

lemma validate_Inr: "validateBusinessRules i s = (Inr y, t) \<longleftrightarrow> validateCompanyRegistrationDraft (draftOf i) = [] \<and> t = s"
  by (auto simp: validateBusinessRules_def split: list.splits)

lemma extend_sel [simp]:
  "ProfileData.truncate (ProfileData.extend d m) = d" "tp_id (ProfileData.extend d \<lparr>tp_id = a, tp_tenantId = b, tp_profileCompletedAt = c\<rparr>) = a"
  "tp_tenantId (ProfileData.extend d \<lparr>tp_id = a, tp_tenantId = b, tp_profileCompletedAt = c\<rparr>) = b"
  "tp_profileCompletedAt (ProfileData.extend d \<lparr>tp_id = a, tp_tenantId = b, tp_profileCompletedAt = c\<rparr>) = c"
  by (simp_all add: ProfileData.defs)

lemma profileOk_truncate: "profileOk (ProfileData.truncate p) = profileOk p" "storedDraft (ProfileData.truncate p) = storedDraft p"
  by (simp_all add: profileOk_def storedDraft_def ProfileData.defs)

lemma upsertP_frame: "upsertP tab upd key tenantId new change s = (Inr y, t) \<Longrightarrow> \<exists>f. t = upd f s"
  by (auto simp: upsertP_Inr)

lemma unfinished [simp]: "\<not> pc_completed (profileCompleteness (Some d) None)"
  by (simp add: profileCompleteness_def Let_def truthy_def)

lemma writeProfile_Inr:
  assumes "writeProfile U newId tenantId d s = (Inr p, t)"
  shows "findProfile tenantId t = Some p \<and> ProfileData.truncate p = d \<and> tp_profileCompletedAt p = None \<and>
     filter (\<lambda>q. tp_tenantId q \<noteq> tenantId) (profiles t) = filter (\<lambda>q. tp_tenantId q \<noteq> tenantId) (profiles s) \<and> (\<exists>f. t = profiles_update f s)"
proof -
  have u: "upsertProfile tenantId (profileRow newId tenantId d)
      (\<lambda>p. ProfileData.extend d \<lparr>tp_id = tp_id p, tp_tenantId = tp_tenantId p, tp_profileCompletedAt = None\<rparr>) s = (Inr p, t)"
    using assms by (simp add: writeProfile_def seqP_Inr)
  have "ProfileData.truncate p = d \<and> tp_profileCompletedAt p = None"
    using u by (auto simp: upsertP_Inr profileRow_def)
  then show ?thesis
    using upserted [OF u] upsertP_frame [OF u] by (simp add: findProfile_def profileRow_def)
qed

lemma writeBranding_Inr:
  assumes "writeBranding newId tenantId i s = (Inr b, t)"
  shows "findBranding tenantId t = Some b \<and> tb_logoFilePath b = logoOf (findBranding tenantId s) \<and> (\<exists>f. t = brandings_update f s)"
proof -
  note u = assms [unfolded writeBranding_def]
  have "tb_logoFilePath b = logoOf (findBranding tenantId s)"
    using u by (auto simp: upsertP_Inr findBranding_def logoOf_def brandingRow_def)
  then show ?thesis
    using upserted [OF u] upsertP_frame [OF u] by (simp add: findBranding_def brandingRow_def)
qed

lemma truncate_sel:
  "pd_tradeName (ProfileData.truncate p) = pd_tradeName p" "pd_legalName (ProfileData.truncate p) = pd_legalName p"
  "pd_vatNumber (ProfileData.truncate p) = pd_vatNumber p"
  by (simp_all add: ProfileData.defs)

text \<open>The state and the view of a successful update.\<close>

lemma updateProfile_Inr:
  assumes "updateProfile U newId tenantId actorUserId i s = (Inr v, t)"
  obtains p b l where "validateCompanyRegistrationDraft (draftOf i) = []" and "v = \<lparr>pv_profile = Some p, pv_branding = Some b, pv_legalSettings = Some l,
      pv_completeness = profileCompleteness (Some p) (tb_logoFilePath b)\<rparr>"
    and "findProfile tenantId t = Some p" and "ProfileData.truncate p = profileData i" and "tp_profileCompletedAt p = None"
    and "filter (\<lambda>q. tp_tenantId q \<noteq> tenantId) (profiles t) = filter (\<lambda>q. tp_tenantId q \<noteq> tenantId) (profiles (ue_others U s))"
    and "findBranding tenantId t = Some b" and "tb_logoFilePath b = logoOf (findBranding tenantId (ue_others U s))"
    and "tenants t = updateMany (\<lambda>x. tn_id x = tenantId)
      (\<lambda>x. x\<lparr>tn_name := orElse (pd_tradeName p) (textOf (pd_legalName p)), tn_vatNumber := pd_vatNumber p\<rparr>) (tenants (ue_others U s))"
    and "\<exists>x \<in> set (tenants (ue_others U s)). tn_id x = tenantId"
proof -
  obtain s1 s2 s3 s4 s5 p b l where ok: "validateCompanyRegistrationDraft (draftOf i) = []"
    and 1: "writeProfile U newId tenantId (profileData i) (ue_others U s) = (Inr p, s1)"
    and 2: "writeBranding newId tenantId i s1 = (Inr b, s2)"
    and 3: "updateTenant tenantId (orElse (pd_tradeName (profileData i)) (textOf (pd_legalName (profileData i)))) (pd_vatNumber (profileData i)) s2 = (Inr (), s3)"
    and 4: "firstSite newId tenantId (profileData i) s3 = (Inr (), s4)" and 5: "writeLegal newId tenantId i s4 = (Inr l, s5)"
    and t: "rawAudit (ue_now U) tenantId actorUserId ''TENANT_PROFILE_UPDATED'' ''TenantProfile'' (Some (tp_id p))
      (JObj [(''legalName'', jstrOrNull (pd_legalName p)), (''completeness'', completenessJson (profileCompleteness (Some p) (tb_logoFilePath b)))]) s5 = (Inr (), t)"
    and v: "v = \<lparr>pv_profile = Some p, pv_branding = Some b, pv_legalSettings = Some l, pv_completeness = profileCompleteness (Some p) (tb_logoFilePath b)\<rparr>"
    using assms by (auto simp: updateProfile_def seqP_Inr bindP_Inr validate_Inr txP_Inr Let_def)
  note w1 = writeProfile_Inr [OF 1]
  note w2 = writeBranding_Inr [OF 2]
  have w3: "(\<exists>x \<in> set (tenants s2). tn_id x = tenantId) \<and> s3 = s2\<lparr>tenants := updateMany (\<lambda>x. tn_id x = tenantId)
      (\<lambda>x. x\<lparr>tn_name := orElse (pd_tradeName (profileData i)) (textOf (pd_legalName (profileData i))), tn_vatNumber := pd_vatNumber (profileData i)\<rparr>) (tenants s2)\<rparr>"
    using 3 by (auto simp: updateTenant_def bindP_Inr seqP_Inr)
  have w4: "profiles s4 = profiles s3 \<and> brandings s4 = brandings s3 \<and> tenants s4 = tenants s3"
    using 4 by (auto simp: firstSite_def bindP_Inr whenP_Inr split: if_splits)
  have w5: "profiles s5 = profiles s4 \<and> brandings s5 = brandings s4 \<and> tenants s5 = tenants s4"
    using upsertP_frame [OF 5 [unfolded writeLegal_def]] by auto
  have w6: "profiles t = profiles s5 \<and> brandings t = brandings s5 \<and> tenants t = tenants s5"
    using t by (simp add: rawAudit_def)
  have p: "pd_tradeName p = pd_tradeName (profileData i)" "pd_legalName p = pd_legalName (profileData i)" "pd_vatNumber p = pd_vatNumber (profileData i)"
    using w1 by (metis truncate_sel)+
  show thesis
  proof (rule that [OF ok v])
    show "findProfile tenantId t = Some p" "ProfileData.truncate p = profileData i" "tp_profileCompletedAt p = None"
      "filter (\<lambda>q. tp_tenantId q \<noteq> tenantId) (profiles t) = filter (\<lambda>q. tp_tenantId q \<noteq> tenantId) (profiles (ue_others U s))"
      using w1 w2 w3 w4 w5 w6 by (auto simp: findProfile_def)
    show "findBranding tenantId t = Some b" "tb_logoFilePath b = logoOf (findBranding tenantId (ue_others U s))"
      using w1 w2 w3 w4 w5 w6 by (auto simp: findBranding_def)
    show "tenants t = updateMany (\<lambda>x. tn_id x = tenantId)
      (\<lambda>x. x\<lparr>tn_name := orElse (pd_tradeName p) (textOf (pd_legalName p)), tn_vatNumber := pd_vatNumber p\<rparr>) (tenants (ue_others U s))"
      "\<exists>x \<in> set (tenants (ue_others U s)). tn_id x = tenantId"
      unfolding p using w1 w2 w3 w4 w5 w6 by auto
  qed
qed

text \<open>An accepted update of an existing tenant returns when its transaction commits.\<close>

lemma upsertP_returns:
  assumes "\<exists>x \<in> set (tenants s). tn_id x = tenantId"
  shows "\<exists>y f. upsertP tab upd key tenantId new change s = (Inr y, upd f s)"
  using assms by (cases "List.find (\<lambda>r. key r = tenantId) (tab s)") (auto simp: upsertP_def prog_defs)

lemma firstSite_returns: "\<exists>t. firstSite newId tenantId d s = (Inr (), t) \<and> tenants t = tenants s"
  unfolding firstSite_def whenP_def
  by (cases "List.find (\<lambda>x. st_tenantId x = tenantId \<and> st_deletedAt x = None) (sites s) = None \<and> truthy (pd_legalAddress d) \<and> truthy (pd_city d)")
    (simp_all add: bindP_def getsP_def modifyP_def returnP_def)

lemma updateProfile_returns:
  assumes "validateCompanyRegistrationDraft (draftOf i) = []" and "\<exists>x \<in> set (tenants (ue_others U s)). tn_id x = tenantId"
    and "\<And>t. ue_outcome U t = Commits"
  shows "\<exists>v t. updateProfile U newId tenantId actorUserId i s = (Inr v, t)"
proof -
  let ?d = "profileData i"
  have nm: "pd_legalName ?d \<noteq> None" using accepted_shape [OF assms(1)] by (auto simp: profileOk_def)
  have "\<exists>p f. writeProfile U newId tenantId ?d (ue_others U s) = (Inr p, profiles_update f (ue_others U s))"
    using nm by (simp add: writeProfile_def seqP_def assertP_def bindP_def returnP_def upsertP_returns [OF assms(2)])
  then obtain p f1 where 1: "writeProfile U newId tenantId ?d (ue_others U s) = (Inr p, profiles_update f1 (ue_others U s))" by blast
  define s1 where "s1 = profiles_update f1 (ue_others U s)"
  have x1: "\<exists>x \<in> set (tenants s1). tn_id x = tenantId" using assms(2) by (simp add: s1_def)
  have "\<exists>b f. writeBranding newId tenantId i s1 = (Inr b, brandings_update f s1)"
    unfolding writeBranding_def by (rule upsertP_returns [OF x1])
  then obtain b f2 where 2: "writeBranding newId tenantId i s1 = (Inr b, brandings_update f2 s1)" by blast
  define s2 where "s2 = brandings_update f2 s1"
  have x2: "\<exists>x \<in> set (tenants s2). tn_id x = tenantId" using x1 by (simp add: s2_def)
  obtain s3 where 3: "updateTenant tenantId (orElse (pd_tradeName ?d) (textOf (pd_legalName ?d))) (pd_vatNumber ?d) s2 = (Inr (), s3)"
    and t3: "map tn_id (tenants s3) = map tn_id (tenants s2)"
    using x2 by (simp add: updateTenant_def prog_defs map_key_updateMany)
  obtain s4 where 4: "firstSite newId tenantId ?d s3 = (Inr (), s4)" and t4: "tenants s4 = tenants s3"
    using firstSite_returns by blast
  have "tenantId \<in> set (map tn_id (tenants s4))" using x2 unfolding t4 t3 by auto
  then have x4: "\<exists>x \<in> set (tenants s4). tn_id x = tenantId" by auto
  have "\<exists>l f. writeLegal newId tenantId i s4 = (Inr l, legalSettings_update f s4)"
    unfolding writeLegal_def by (rule upsertP_returns [OF x4])
  then obtain l s5 where 5: "writeLegal newId tenantId i s4 = (Inr l, s5)" by blast
  show ?thesis
    using assms(1,3) 1 2 3 4 5
    by (simp add: updateProfile_def validateBusinessRules_def txP_def othersP_def run_seq_modify catchP_def transactionP_def Let_def rawAudit_def
        prog_defs flip: s1_def s2_def)
qed

lemma completed_iff:
  "pc_completed (profileCompleteness (Some p) logo) \<longleftrightarrow> list_all (\<lambda>(key, col). normalizeText (col p) \<noteq> None) profileRequiredKeys \<and> truthy logo"
  by (auto simp: profileCompleteness_def Let_def list_all_iff filter_empty_conv split: if_splits)

lemma completed_truncate: "pc_completed (profileCompleteness (Some (ProfileData.truncate p)) logo) = pc_completed (profileCompleteness (Some p) logo)"
  by (simp add: completed_iff profileRequiredKeys_def ProfileData.defs)

section \<open>Saving a stored profile again\<close>

text \<open>The form shows the stored columns and sends them back.\<close>

definition resubmit :: "'a ProfileData_scheme \<Rightarrow> TenantCompanyProfileInput" where
  "resubmit d = emptyInput\<lparr>in_legalName := pd_legalName d, in_tradeName := pd_tradeName d, in_legalForm := pd_legalForm d, in_vatNumber := pd_vatNumber d,
     in_taxCode := pd_taxCode d, in_pec := pd_pec d, in_sdiCode := pd_sdiCode d, in_rea := pd_rea d, in_legalAddress := pd_legalAddress d, in_city := pd_city d,
     in_province := pd_province d, in_postalCode := pd_postalCode d, in_country := Some (pd_country d), in_phone := pd_phone d, in_email := pd_email d,
     in_website := pd_website d, in_adminFirstName := pd_adminFirstName d, in_adminLastName := pd_adminLastName d, in_adminEmail := pd_adminEmail d,
     in_adminPhone := pd_adminPhone d, in_adminRole := pd_adminRole d\<rparr>"

lemma draft_resubmit: "draftOf (resubmit d) = storedDraft d"
  by (simp add: draftOf_def resubmit_def storedDraft_def)

lemma normalizeText_again [simp]:
  "normalizeText (normalizeText v) = normalizeText v"
  "map_option toLowerCase (normalizeText (map_option toLowerCase (normalizeText v))) = map_option toLowerCase (normalizeText v)"
  "map_option toUpperCase (normalizeText (map_option toUpperCase (normalizeText v))) = map_option toUpperCase (normalizeText v)"
  using normalizeText_cases [of v] by (auto simp: normalizeText_def Let_def)

lemma vat_again:
  assumes "hasText (Some C)"
  shows "normalizeVat (normalizeVat v (Some C)) (Some C) = normalizeVat v (Some C)"
proof (cases "normalizeCountryCode (Some C) = ''IT''")
  case True
  then show ?thesis by (simp add: normalizeVat_def own_country [OF assms] normalizeItalianVatNumber_def normal_forms)
next
  case False
  define T where "T = toUpperCase (replaceRuns isSpace [] (trim (textOf v)))"
  have "trim (textOf v) = [] \<or> T \<noteq> []"
    using trim_head by (cases "trim (textOf v)") (auto simp: T_def replaceRuns_filter filter_empty_conv)
  moreover have "trim T = T" by (rule trim_no_space) (auto simp: T_def replaceRuns_filter toUpperCase_def)
  moreover have "toUpperCase (replaceRuns isSpace [] T) = T"
    using normalizeTaxCode_idem [of v] calculation(2) by (simp add: normalizeTaxCode_def flip: T_def)
  ultimately show ?thesis
    using normalizeText_cases [of v] False by (auto simp: normalizeVat_def own_country [OF assms] normalizeText_def [of "Some T"] Let_def simp flip: T_def)
qed

text \<open>Collapsing the blanks of a trimmed text twice.\<close>

abbreviation oneBlank :: "string \<Rightarrow> string" where
  "oneBlank \<equiv> replaceRuns isSpace '' ''"

lemma blank_space [simp]: "isSpace CHR '' ''" "toUpperChar CHR '' '' = CHR '' ''"
  by (simp_all add: isSpace_def toUpperChar_def)

lemma oneBlank_head: "dropWhile isSpace (oneBlank (dropWhile isSpace xs)) = oneBlank (dropWhile isSpace xs)"
proof (cases "dropWhile isSpace xs")
  case (Cons y ys)
  then have "\<not> isSpace y" by (simp add: dropWhile_eq_Cons_conv)
  with Cons show ?thesis by simp
next
  case Nil
  show ?thesis unfolding Nil by simp
qed

lemma oneBlank_idem: "oneBlank (oneBlank xs) = oneBlank xs"
  by (induction isSpace "'' ''" xs rule: replaceRuns.induct) (simp_all add: oneBlank_head)

lemma oneBlank_upper: "oneBlank (toUpperCase xs) = toUpperCase (oneBlank xs)"
proof (induction isSpace "'' ''" xs rule: replaceRuns.induct)
  case (2 x xs)
  have "dropWhile isSpace (toUpperCase xs) = toUpperCase (dropWhile isSpace xs)" by (simp add: toUpperCase_def dropWhile_map comp_def)
  with 2 show ?case by (auto simp: toUpperCase_def)
qed (simp add: toUpperCase_def)

lemma oneBlank_last: "xs \<noteq> [] \<Longrightarrow> \<not> isSpace (last xs) \<Longrightarrow> oneBlank xs \<noteq> [] \<and> last (oneBlank xs) = last xs"
proof (induction isSpace "'' ''" xs rule: replaceRuns.induct)
  case (2 x xs)
  show ?case
  proof (cases "xs = []")
    case False
    then have e: "\<exists>y \<in> set xs. \<not> isSpace y" using 2(4) by (metis last_ConsR last_in_set)
    then have "dropWhile isSpace xs \<noteq> []" by simp
    moreover have "last (dropWhile isSpace xs) = last xs" using calculation by (metis last_append takeWhile_dropWhile_id)
    ultimately show ?thesis using 2 False by auto
  qed (use 2 in simp)
qed simp

lemma trimmed_iff: "trim xs = xs \<longleftrightarrow> xs = [] \<or> \<not> isSpace (hd xs) \<and> \<not> isSpace (last xs)"
proof (cases xs rule: rev_cases)
  case (snoc ys z)
  have front: "dropWhile isSpace xs = xs" if "\<not> isSpace (hd xs)" using that by (cases xs) simp_all
  show ?thesis
  proof
    assume t: "trim xs = xs"
    have "xs \<noteq> []" using snoc by simp
    then obtain c cs where xs: "xs = c # cs" by (cases xs) auto
    have h: "\<not> isSpace (hd xs)" using trim_head [OF trans [OF t xs]] xs by simp
    have "\<not> isSpace z"
    proof
      assume "isSpace z"
      then have "xs = rev (dropWhile isSpace (rev ys))" using t front [OF h] snoc by (simp add: trim_def)
      then have "length xs \<le> length ys" using length_dropWhile_le [of isSpace "rev ys"] by (metis length_rev)
      then show False using snoc by simp
    qed
    with h snoc show "xs = [] \<or> \<not> isSpace (hd xs) \<and> \<not> isSpace (last xs)" by simp
  next
    assume "xs = [] \<or> \<not> isSpace (hd xs) \<and> \<not> isSpace (last xs)"
    then show "trim xs = xs" using front snoc by (simp add: trim_def)
  qed
qed simp

lemma oneBlank_trimmed: "trim xs = xs \<Longrightarrow> trim (oneBlank xs) = oneBlank xs"
  using oneBlank_last [of xs] by (cases xs) (auto simp: trimmed_iff)

lemma postal_again:
  assumes "normalizeCountryCode (Some C) = ''IT'' \<or> length (trim (textOf v)) \<le> 16"
  shows "normalizePostalCodeForCountry (orNull (normalizePostalCodeForCountry v (Some C))) (Some C) = normalizePostalCodeForCountry v (Some C)"
proof (cases "normalizeCountryCode (Some C) = ''IT''")
  case True
  then show ?thesis by (simp add: normalizePostalCodeForCountry_def normalizePostalCode_def normal_forms)
next
  case False
  define w where "w = trim (textOf v)"
  have "length (oneBlank w) \<le> 16" using assms False length_replaceRuns [of "'' ''" isSpace w] by (simp add: w_def)
  then have "take 16 (toUpperCase (oneBlank w)) = toUpperCase (oneBlank w)" by (simp add: toUpperCase_def)
  moreover have "trim (oneBlank w) = oneBlank w" by (rule oneBlank_trimmed) (simp add: w_def)
  ultimately show ?thesis
    using False by (simp add: normalizePostalCodeForCountry_def oneBlank_upper oneBlank_idem flip: w_def)
qed

lemma profileData_again:
  assumes "in_country i = None \<or> hasText (in_country i)"
    and "normalizeCountryCode (in_country i) = ''IT'' \<or> length (trim (textOf (in_postalCode i))) \<le> 16"
  shows "profileData (resubmit (profileData i)) = profileData i"
proof -
  have c: "normalizeCountry (in_country i) = normalizeCountryCode (in_country i)" by (rule country_kept [OF assms(1)])
  have C: "hasText (Some (normalizeCountryCode (in_country i)))" by (rule country_text [OF assms(1)])
  have "normalizeCountry (Some (normalizeCountryCode (in_country i))) = normalizeCountryCode (in_country i)" using own_country [OF C] by (simp add: normal_forms)
  then show ?thesis
    using assms(2) by (simp add: profileData_def resubmit_def Let_def c vat_again [OF C] postal_again codes_normal normal_forms)
qed

section \<open>A sample\<close>

definition sampleInput :: TenantCompanyProfileInput where
  "sampleInput = emptyInput\<lparr>in_legalName := Some '' Rossi Noleggi S.r.l. '', in_vatNumber := Some ''IT 0764 3520 567'', in_taxCode := Some ''RSS MRA 80A01 H501U'',
     in_pec := Some ''Rossi@PEC.rossinoleggi.it'', in_sdiCode := Some ''m5uxcr1'', in_legalAddress := Some ''Via Roma 5'', in_city := Some ''Palermo'',
     in_province := Some ''pa'', in_postalCode := Some ''90121'', in_email := Some ''info@rossinoleggi.it'', in_phone := Some ''+39 091 555 2841'',
     in_adminFirstName := Some ''Anna'', in_adminLastName := Some ''Rossi'', in_adminEmail := Some ''anna@rossinoleggi.it''\<rparr>"

definition sampleIds :: "string \<Rightarrow> string" where
  "sampleIds tab = tab @ ''-1''"

text \<open>The tenant of the sample, with its profile and a logo.\<close>

definition sampleLogo :: StoredFileObject where
  "sampleLogo = \<lparr>fo_id = ''f0'', fo_tenantId = ''t1'', fo_provider = ''local'', fo_bucket = Some ''local'', fo_storageKey = ''tenants/t1/branding/00-ff.png'',
     fo_originalName = Some ''old.png'', fo_mimeType = Some ''image/png'', fo_sizeBytes = 3, fo_checksumSha256 = Some ''old'', fo_resourceType = Some ''TenantBranding'',
     fo_resourceId = Some ''t1'', fo_visibility = ''private'', fo_createdAt = 1, fo_deletedAt = None\<rparr>"

definition sampleProfileDb :: profile_db where
  "sampleProfileDb = file_db.extend
     (sampleFileDb\<lparr>diskEntries := (diskEntries sampleFileDb)(''/app/uploads/tenants/t1/branding/00-ff.png'' \<mapsto> FileEntry ''old''), storedFiles := [sampleLogo]\<rparr>)
     \<lparr>profiles = [(profileRow sampleIds ''t1'' (profileData sampleInput))\<lparr>tp_profileCompletedAt := Some 2\<rparr>],
      brandings = [(brandingRow sampleIds ''t1'' None None None)\<lparr>tb_logoFilePath := Some ''tenants/t1/branding/00-ff.png''\<rparr>],
      legalSettings = [], sites = []\<rparr>"

definition sampleUpdate :: "(app_error + ProfileView) \<times> profile_db" where
  "sampleUpdate = updateProfile (sampleUpload Commits) sampleIds ''t1'' ''u1'' sampleInput sampleProfileDb"

lemma sample_input_ok:
  "validateCompanyRegistrationDraft (draftOf sampleInput) = []"
  "list_all (\<lambda>(key, col). normalizeText (col (profileData sampleInput)) \<noteq> None) profileRequiredKeys"
  by code_simp+

lemma sample_update: "\<exists>v. sampleUpdate = (Inr v, snd sampleUpdate) \<and> pc_completed (pv_completeness v)"
proof -
  obtain v t where run: "sampleUpdate = (Inr v, t)"
    using updateProfile_returns [OF sample_input_ok(1), where tenantId = "''t1''" and U = "sampleUpload Commits" and s = sampleProfileDb and newId = sampleIds and actorUserId = "''u1''"]
    by (auto simp: sampleUpdate_def sampleProfileDb_def file_db.defs sampleFileDb_def)
  moreover have "pc_completed (pv_completeness v)"
    using run unfolding sampleUpdate_def
  proof (rule updateProfile_Inr)
    fix p b l
    assume "v = \<lparr>pv_profile = Some p, pv_branding = Some b, pv_legalSettings = Some l, pv_completeness = profileCompleteness (Some p) (tb_logoFilePath b)\<rparr>"
      and "ProfileData.truncate p = profileData sampleInput"
      and "tb_logoFilePath b = logoOf (findBranding ''t1'' (ue_others (sampleUpload Commits) sampleProfileDb))"
    moreover have "logoOf (findBranding ''t1'' (ue_others (sampleUpload Commits) sampleProfileDb)) = Some ''tenants/t1/branding/00-ff.png''"
      by (simp add: findBranding_def sampleProfileDb_def file_db.defs brandingRow_def logoOf_def)
    moreover have "pc_completed (profileCompleteness (Some (profileData sampleInput)) (Some ''tenants/t1/branding/00-ff.png''))"
      unfolding completed_iff using sample_input_ok(2) by (simp add: truthy_def)
    ultimately show ?thesis using completed_truncate [of p] by simp
  qed
  ultimately show ?thesis unfolding run snd_conv by blast
qed

section \<open>The guarantees on profiles\<close>

text \<open>
  C24: A profile that an update stores is well formed: it has the texts and the numbers the rules ask for, in normal form, and the rules
  accept it as they accepted the input.  The tenant takes over its name and VAT number; the profiles of other tenants stay.
\<close>
theorem updated_profile_well_formed:
  assumes "updateProfile U newId tenantId actorUserId i s = (Inr v, t)"
  shows "\<exists>p. findProfile tenantId t = Some p \<and> pv_profile v = Some p \<and> profileOk p \<and> validateCompanyRegistrationDraft (storedDraft p) = [] \<and>
    (\<forall>x \<in> set (tenants t). tn_id x = tenantId \<longrightarrow> tn_vatNumber x = pd_vatNumber p \<and> tn_name x = orElse (pd_tradeName p) (textOf (pd_legalName p))) \<and>
    filter (\<lambda>q. tp_tenantId q \<noteq> tenantId) (profiles t) = filter (\<lambda>q. tp_tenantId q \<noteq> tenantId) (profiles (ue_others U s))"
  using assms
proof (rule updateProfile_Inr)
  fix p b l
  assume ok: "validateCompanyRegistrationDraft (draftOf i) = []" and p: "ProfileData.truncate p = profileData i"
    and rest: "v = \<lparr>pv_profile = Some p, pv_branding = Some b, pv_legalSettings = Some l, pv_completeness = profileCompleteness (Some p) (tb_logoFilePath b)\<rparr>"
      "findProfile tenantId t = Some p"
      "filter (\<lambda>q. tp_tenantId q \<noteq> tenantId) (profiles t) = filter (\<lambda>q. tp_tenantId q \<noteq> tenantId) (profiles (ue_others U s))"
    and names: "tenants t = updateMany (\<lambda>x. tn_id x = tenantId)
      (\<lambda>x. x\<lparr>tn_name := orElse (pd_tradeName p) (textOf (pd_legalName p)), tn_vatNumber := pd_vatNumber p\<rparr>) (tenants (ue_others U s))"
  have "profileOk p" "validateCompanyRegistrationDraft (storedDraft p) = []"
    using accepted_shape [OF ok] stored_validation [OF accepted_country [OF ok]] ok unfolding p [symmetric] profileOk_truncate by simp_all
  moreover have "\<forall>x \<in> set (tenants t). tn_id x = tenantId \<longrightarrow> tn_vatNumber x = pd_vatNumber p \<and> tn_name x = orElse (pd_tradeName p) (textOf (pd_legalName p))"
    unfolding names ball_updateMany by simp
  ultimately show ?thesis using rest by simp
qed

text \<open>Witness of C24: the profile of the sample, saved again.\<close>
theorem updated_profile_well_formed_witness:
  "\<exists>p. findProfile ''t1'' (snd sampleUpdate) = Some p \<and> profileOk p"
proof -
  obtain v where v: "sampleUpdate = (Inr v, snd sampleUpdate)" using sample_update by blast
  show ?thesis using updated_profile_well_formed [OF v [unfolded sampleUpdate_def]] unfolding sampleUpdate_def by blast
qed

text \<open>
  C25: Saving is idempotent: an accepted profile that is shown and saved again is accepted and stored as it was, unless it has a foreign
  postal code of more than sixteen characters.
\<close>
theorem resubmitted_profile_unchanged:
  assumes "validateCompanyRegistrationDraft (draftOf i) = []"
    and "normalizeCountryCode (in_country i) = ''IT'' \<or> length (trim (textOf (in_postalCode i))) \<le> 16"
  shows "validateCompanyRegistrationDraft (draftOf (resubmit (profileData i))) = [] \<and> profileData (resubmit (profileData i)) = profileData i"
  using stored_validation [OF accepted_country [OF assms(1)]] assms(1) profileData_again [OF accepted_country [OF assms(1)] assms(2)]
  by (simp add: draft_resubmit)

text \<open>Witness of C25: the input of the sample, which is not in normal form.\<close>
theorem resubmitted_profile_unchanged_witness:
  "profileData (resubmit (profileData sampleInput)) = profileData sampleInput \<and> in_vatNumber (resubmit (profileData sampleInput)) = Some ''07643520567''"
proof -
  have "normalizeCountryCode (in_country sampleInput) = ''IT''"
    "in_vatNumber (resubmit (profileData sampleInput)) = Some ''07643520567''" by code_simp+
  then show ?thesis using resubmitted_profile_unchanged [OF sample_input_ok(1)] by simp
qed

text \<open>
  Saving forgets that a profile is complete: the time of completion is judged without the logo, so every update clears it, also when the
  completeness the request returns, and the one the console computes, says that nothing is missing.
\<close>
theorem update_forgets_completion:
  assumes "updateProfile U newId tenantId actorUserId i s = (Inr v, t)"
  shows "\<exists>p. findProfile tenantId t = Some p \<and> tp_profileCompletedAt p = None \<and>
    pv_completeness v = profileCompleteness (Some p) (logoOf (findBranding tenantId t))"
  using assms by (rule updateProfile_Inr) (simp add: logoOf_def)

text \<open>An instance of the preceding theorem: the sample is complete, and its time of completion is gone.\<close>
theorem update_forgets_completion_witness:
  "\<exists>v p. fst sampleUpdate = Inr v \<and> pc_completed (pv_completeness v) \<and> findProfile ''t1'' (snd sampleUpdate) = Some p \<and> tp_profileCompletedAt p = None"
proof -
  obtain v where v: "sampleUpdate = (Inr v, snd sampleUpdate)" "pc_completed (pv_completeness v)" using sample_update by blast
  then show ?thesis using update_forgets_completion [OF v(1) [unfolded sampleUpdate_def]] unfolding sampleUpdate_def by (metis fst_conv)
qed

end
