(* ===== verification/Logo_Guarantee.thy ===== *)
theory Logo_Guarantee
  imports Profile_Guarantee
begin

text \<open>
  Changing and removing the logo of a tenant: the two operations of \<^verbatim>\<open>tenant-profile-service.ts\<close> that work on files and rows together, on
  the guarantees of the uploads.
\<close>

section \<open>What the statements change\<close>

text \<open>
  The logo of a tenant is its own: the live rows at its path are rows of the tenant with the key the branding names.  The path is private
  to the requests on this tenant's logo (\<open>M\<close>) and none of the paths \<open>F\<close> of the new keys of this request.
\<close>

definition logoOwned :: "(string \<Rightarrow> string) \<Rightarrow> string set \<Rightarrow> string set \<Rightarrow> string \<Rightarrow> 'z profile_db_scheme \<Rightarrow> bool" where
  "logoOwned addr M F tenantId s \<longleftrightarrow> (\<forall>k. logoOf (findBranding tenantId s) = Some k \<longrightarrow> addr k \<in> M \<and> addr k \<notin> F \<and>
     (\<forall>r \<in> set (storedFiles s). liveRow ''local'' r \<and> addr (fo_storageKey r) = addr k \<longrightarrow>
        fo_tenantId r = tenantId \<and> fo_storageKey r = k \<and> (fo_bucket r = Some ''local'' \<or> fo_bucket r = None)))"

lemma logoOwned_touches: "touches A s t \<Longrightarrow> logoOwned addr M F tenantId s \<Longrightarrow> logoOwned addr M F tenantId t"
  unfolding touches_def by (elim exE conjE) (simp add: logoOwned_def findBranding_def)

lemma keeps_upsert: "(\<And>s f. I s \<Longrightarrow> I (upd f s)) \<Longrightarrow> keeps I (upsertP tab upd key tenantId new change)"
  unfolding upsertP_def by (intro keeps_bindP keeps_seqP keeps_getsP keeps_case_option keeps_modifyP keeps_returnP keeps_assertP) simp_all

lemma getProfile_keeps:
  assumes others: "\<And>s. I s \<Longrightarrow> I (ue_others U s)" and "\<And>s f. I s \<Longrightarrow> I (brandings_update f s)" and "\<And>s f. I s \<Longrightarrow> I (legalSettings_update f s)"
  shows "keeps I (getProfile U newId tenantId)"
proof -
  have o: "keeps I (othersP U)" unfolding othersP_def by (rule keeps_modifyP) (rule others)
  have b: "keeps I (upsertBranding x y z)" "keeps I (upsertLegal x' y' z')" for x y z x' y' z'
    by (rule keeps_upsert, rule assms(2), assumption) (rule keeps_upsert, rule assms(3), assumption)
  have "keeps I (ensureDefaultsForTenant U newId tenantId c)" for c
    unfolding ensureDefaultsForTenant_def by (intro keeps_seqP keeps_returnP o b)
  then show ?thesis unfolding getProfile_def by (intro keeps_seqP keeps_bindP keeps_getsP keeps_assertP keeps_returnP o)
qed

text \<open>Retiring rows.\<close>

definition retires :: "'s upload_env \<Rightarrow> string \<Rightarrow> string \<Rightarrow> StoredFileObject list \<Rightarrow> StoredFileObject list" where
  "retires U tenantId key = updateMany
     (\<lambda>r. fo_tenantId r = tenantId \<and> fo_provider r = ''local'' \<and> (fo_bucket r = Some ''local'' \<or> fo_bucket r = None) \<and> fo_storageKey r = key \<and> fo_deletedAt r = None)
     (\<lambda>r. r\<lparr>fo_deletedAt := Some (ue_now U)\<rparr>)"

lemma retireObjects_local: "retireObjects U (localProvider E) tenantId key = modifyP (\<lambda>s. s\<lparr>storedFiles := retires U tenantId key (storedFiles s)\<rparr>)"
  by (simp add: retireObjects_def retires_def storageBucket_def)

lemma retires_live: "r \<in> set (retires U tenantId key rows) \<Longrightarrow> liveRow ''local'' r \<Longrightarrow>
    r \<in> set rows \<and> \<not> (fo_tenantId r = tenantId \<and> (fo_bucket r = Some ''local'' \<or> fo_bucket r = None) \<and> fo_storageKey r = key)"
  unfolding retires_def by (drule retired_rows) (auto simp: liveRow_def)

lemma retires_other: "r \<in> set rows \<Longrightarrow> fo_storageKey r \<noteq> key \<Longrightarrow> r \<in> set (retires U tenantId key rows)"
  unfolding retires_def by (rule mem_updateMany) auto

lemma backed_retired:
  assumes "backed sha addr ''local'' s" and "storedFiles t = retires U tenantId key (storedFiles s)" and "diskEntries t = diskEntries s"
  shows "backed sha addr ''local'' t"
  using assms(1,3) retires_live [where U = U] unfolding backed_def assms(2) by metis

lemma unlinked_retired:
  assumes "\<And>r. r \<in> set (storedFiles s) \<Longrightarrow> liveRow ''local'' r \<Longrightarrow> addr (fo_storageKey r) = addr key \<Longrightarrow>
      fo_tenantId r = tenantId \<and> fo_storageKey r = key \<and> (fo_bucket r = Some ''local'' \<or> fo_bucket r = None)"
    and "storedFiles t = retires U tenantId key (storedFiles s)"
  shows "unlinked addr ''local'' t (addr key)"
  using assms(1) retires_live [where U = U] unfolding unlinked_def assms(2) by metis

lemma logoCommit_Inr:
  assumes "logoCommit U (localProvider E) newId tenantId actorUserId file ups s = (Inr x, t)"
  shows "\<exists>u. ups = [u] \<and> diskEntries t = diskEntries s \<and>
    (case snd x of None \<Rightarrow> storedFiles t = storedFiles s
     | Some old \<Rightarrow> logoOf (findBranding tenantId s) = Some old \<and> old \<noteq> wu_key u \<and> storedFiles t = retires U tenantId old (storedFiles s))"
proof -
  obtain u where u: "ups = [u]" using assms by (auto simp: logoCommit_def split: list.splits)
  show ?thesis
    using assms unfolding u
    by (auto simp: logoCommit_def bindP_Inr seqP_Inr Let_def upsertP_Inr retireObjects_local rawAudit_def split: option.splits if_splits)
qed

lemma dropLogo_Inr:
  assumes "dropLogo U (localProvider E) tenantId actorUserId s = (Inr x, t)"
  shows "diskEntries t = diskEntries s \<and>
    (case x of Some old \<Rightarrow> logoOf (findBranding tenantId s) = Some old \<and> (old \<noteq> [] \<longrightarrow> storedFiles t = retires U tenantId old (storedFiles s)) \<and>
       (old = [] \<longrightarrow> storedFiles t = storedFiles s) | None \<Rightarrow> storedFiles t = storedFiles s)"
  using assms
  by (auto simp: dropLogo_def bindP_Inr seqP_Inr retireObjects_local rawAudit_def logoOf_def split: option.splits if_splits)

section \<open>Changing the logo\<close>

lemma logo_commit_ok: "commitOk sha addr ''local'' (logoCommit U (localProvider E) newId tenantId actorUserId file)"
  unfolding commitOk_def
proof (intro allI impI)
  fix ups s x t assume "logoCommit U (localProvider E) newId tenantId actorUserId file ups s = (Inr x, t)"
  then obtain u where u: "ups = [u]" "diskEntries t = diskEntries s"
    and rows: "case snd x of None \<Rightarrow> storedFiles t = storedFiles s
      | Some old \<Rightarrow> logoOf (findBranding tenantId s) = Some old \<and> old \<noteq> wu_key u \<and> storedFiles t = retires U tenantId old (storedFiles s)"
    using logoCommit_Inr by blast
  show "diskEntries t = diskEntries s \<and> (backed sha addr ''local'' s \<longrightarrow> backed sha addr ''local'' t) \<and>
    (\<forall>r \<in> set (storedFiles s). fo_storageKey r \<in> wu_key ` set ups \<longrightarrow> r \<in> set (storedFiles t))"
  proof (cases "snd x")
    case None
    with rows u show ?thesis using backed_same_files [of sha addr "''local''" s t] by simp
  next
    case (Some old)
    with rows u show ?thesis using backed_retired [of sha addr s t U tenantId old] retires_other [of _ "storedFiles s" old U tenantId] by auto
  qed
qed

lemma linkUpload_branding: "keeps (\<lambda>s. findBranding tenantId s = B) (forEachP (linkUpload U sp tn rt rid) ws)"
  unfolding linkUpload_def createStored_def
  by (intro keeps_forEachP keeps_bindP keeps_getsP keeps_if keeps_throwP keeps_seqP keeps_modifyP keeps_returnP) (simp add: findBranding_def)

lemma logo_retired:
  assumes rely: "relyOk (ue_sha U) addr ''local'' M (ue_others U)" and addr: "addr = localPath (ue_disk U)"
    and own: "addr ` ownKeys U tenantId ''branding'' \<subseteq> M" and staged: "posixResolve (dk_cwd (ue_disk U)) (mf_path file) \<in> M"
    and honest: "honestOutcome U" and bk: "backed (ue_sha U) addr ''local'' s"
    and logo: "logoOwned addr M (addr ` ownKeys U tenantId ''branding'') tenantId s"
      "\<And>s. logoOwned addr M (addr ` ownKeys U tenantId ''branding'') tenantId s \<Longrightarrow> logoOwned addr M (addr ` ownKeys U tenantId ''branding'') tenantId (ue_others U s)"
    and run: "persistNewUploadedFiles U (localProvider (ue_disk U)) tenantId ''branding'' rt rid [file]
      (logoCommit U (localProvider (ue_disk U)) newId tenantId actorUserId file) s = (Inr ((b, Some old), us), t)"
  shows "addr old \<in> M \<and> unlinked addr ''local'' t (addr old)"
proof -
  let ?E = "ue_disk U" and ?F = "addr ` ownKeys U tenantId ''branding''"
  let ?commit = "logoCommit U (localProvider ?E) newId tenantId actorUserId file"
  obtain s1 t1 ws where b1: "backed (ue_sha U) addr ''local'' s1" and i1: "logoOwned addr M ?F tenantId s1"
    and ws: "list_all2 (writtenOk U addr ''local'' M (posixResolve (dk_cwd ?E)) (ownKeys U tenantId ''branding'') s1) [file] ws"
    and link: "linkAll U (localProvider ?E) tenantId rt rid ?commit ws s1 = (Inr ((b, Some old), us), t1)" and t: "t = t1 \<or> t = ue_others U t1"
    by (rule disk.persist_committed [unfolded localProvider_sel, where I = "logoOwned addr M ?F tenantId" and s = s and E = ?E and M = M, folded addr,
          OF rely own refl _ logo_commit_ok honest bk logo(1) logoOwned_touches logo(2) run])
      (use staged in auto)
  obtain s2 where each: "forEachP (linkUpload U (localProvider ?E) tenantId rt rid) ws s1 = (Inr us, s2)" and c: "?commit us s2 = (Inr (b, Some old), t1)"
    using link by (auto simp: linkAll_def bindP_Inr seqP_Inr assertTenantStorageQuota_def)
  have files: "\<forall>w \<in> set ws. \<exists>c. fileAt s1 (addr (wu_key w)) = Some c \<and> wu_checksumSha256 w = ue_sha U c"
    and keys: "\<forall>w \<in> set ws. wu_key w \<in> ownKeys U tenantId ''branding''"
    using list_all2_right [OF ws] by (force simp: writtenOk_def held_def)+
  note l = linkEach_Inr [OF b1 refl files each]
  have br: "findBranding tenantId s2 = findBranding tenantId s1"
    by (rule keepsD [OF linkUpload_branding refl each])
  have old: "logoOf (findBranding tenantId s1) = Some old" "storedFiles t1 = retires U tenantId old (storedFiles s2)"
    using logoCommit_Inr [OF c] by (auto simp: br)
  have inM: "addr old \<in> M" "addr old \<notin> ?F" using i1 old(1) by (auto simp: logoOwned_def)
  have "fo_tenantId r = tenantId \<and> fo_storageKey r = old \<and> (fo_bucket r = Some ''local'' \<or> fo_bucket r = None)"
    if r: "r \<in> set (storedFiles s2)" "liveRow ''local'' r" "addr (fo_storageKey r) = addr old" for r
  proof -
    have "r \<notin> set (map pu_stored us)"
    proof
      assume "r \<in> set (map pu_stored us)"
      then obtain u where u: "u \<in> set us" "r = pu_stored u" by auto
      obtain w where "w \<in> set ws" "linkedTo U (localProvider ?E) tenantId rt rid w u" using list_all2_right l u(1) by metis
      then have "fo_storageKey r \<in> ownKeys U tenantId ''branding''" using linkedTo_sel(5) u(2) keys by metis
      with inM(2) r(3) show False by (metis image_eqI)
    qed
    then have "r \<in> set (storedFiles s1)" using l r(1) by simp
    with i1 old(1) r(2,3) show ?thesis by (simp add: logoOwned_def)
  qed
  then have "unlinked addr ''local'' t1 (addr old)" using old(2) by (rule unlinked_retired)
  with t show ?thesis using relyD(3) [OF rely inM(1)] inM(1) by auto
qed

text \<open>What happens after the rows are written: the old file is deleted and the profile is read.\<close>

lemma keeps_conj: "keeps I m \<Longrightarrow> keeps J m \<Longrightarrow> keeps (\<lambda>s. I s \<and> J s) m"
  by (simp add: keeps_def)

lemma retired_keeps_row:
  fixes U :: "'z file_db_scheme upload_env"
  assumes rely: "relyOk sha (localPath E) nm M (ue_others U)" and "localPath E (fo_storageKey row) \<in> M"
  shows "keeps (\<lambda>s. row \<in> set (storedFiles s)) (deleteRetiredPhysicalObject U (localProvider E) key)"
proof -
  have d: "keeps (\<lambda>s :: 'z file_db_scheme. row \<in> set (storedFiles s)) (settleP (sp_delete (localProvider E) k))" for k
  proof (rule keepsI)
    fix s :: "'z file_db_scheme" assume "row \<in> set (storedFiles s)"
    moreover obtain q t where q: "sp_delete (localProvider E) k s = (q, t)" by fastforce
    ultimately show "row \<in> set (storedFiles (snd (settleP (sp_delete (localProvider E) k) s)))"
      using touches_rows [OF disk.delete_touches [OF q]] by (simp add: settleP_def q)
  qed
  have "keeps (\<lambda>s. row \<in> set (storedFiles s)) (othersP U)"
    unfolding othersP_def by (rule keeps_modifyP) (simp add: relyD(4) [where addr = "localPath E", OF rely assms(2)])
  with d show ?thesis
    unfolding deleteRetiredPhysicalObject_def cleanupPhysicalObjects_def case_prod_beta
    by (intro keeps_bindP keeps_forEachP keeps_seqP keeps_returnP)
qed

lemma seq_keeps_from: "keeps K n \<Longrightarrow> K (snd (m t)) \<Longrightarrow> K (snd (seqP m n t))"
  by (cases "m t"; cases "fst (m t)") (auto simp: seqP_def bindP_def keeps_def)

text \<open>The end of a logo request keeps the invariant and a row \<open>row\<close> the request has written.\<close>

lemma finish_logo:
  fixes U :: "'z profile_db_scheme upload_env"
  assumes rely: "relyOk (ue_sha U) (localPath E) ''local'' M (ue_others U)" and row: "\<forall>r \<in> R. localPath E (fo_storageKey r) \<in> M"
    and t: "backed (ue_sha U) (localPath E) ''local'' t" "R \<subseteq> set (storedFiles t)"
    and ret: "\<And>key. ret = Some key \<Longrightarrow> localPath E key \<in> M \<and> unlinked (localPath E) ''local'' t (localPath E key)"
    and run: "seqP (case ret of Some key \<Rightarrow> seqP (deleteRetiredPhysicalObject U (localProvider E) key) (returnP ()) | None \<Rightarrow> returnP ())
      (getProfile U newId tenantId) t = (q, u)"
  shows "backed (ue_sha U) (localPath E) ''local'' u \<and> R \<subseteq> set (storedFiles u)"
proof -
  let ?K = "\<lambda>s :: 'z profile_db_scheme. backed (ue_sha U) (localPath E) ''local'' s \<and> R \<subseteq> set (storedFiles s)"
  have "keeps ?K (getProfile U newId tenantId)"
  proof (rule getProfile_keeps)
    show "?K (ue_others U s)" if "?K s" for s
      using that relyD(1) [OF rely] relyD(4) [where addr = "localPath E", OF rely] row by blast
  qed (auto intro: backed_same_files)
  moreover have "?K (snd ((case ret of Some key \<Rightarrow> seqP (deleteRetiredPhysicalObject U (localProvider E) key) (returnP ()) | None \<Rightarrow> returnP ()) t))"
  proof (cases ret)
    case (Some key)
    have "released (ue_sha U) (localPath E) ''local'' M {key} t" using ret [OF Some] t(1) by (simp add: released_def)
    then have "released (ue_sha U) (localPath E) ''local'' M {key} (snd (deleteRetiredPhysicalObject U (localProvider E) key t))"
      using disk.retired_keeps_released [OF rely, of key "{key}"] unfolding keeps_def by blast
    moreover have "R \<subseteq> set (storedFiles (snd (deleteRetiredPhysicalObject U (localProvider E) key t)))"
      using retired_keeps_row [OF rely] row t(2) unfolding keeps_def by blast
    ultimately show ?thesis using Some by (simp add: released_def snd_seq_return)
  qed (use t in \<open>simp add: returnP_def\<close>)
  ultimately show ?thesis using seq_keeps_from run by (metis (no_types, lifting) snd_conv)
qed

text \<open>The hypotheses under which the logo requests run.\<close>

definition logoRely :: "'z profile_db_scheme upload_env \<Rightarrow> string set \<Rightarrow> string \<Rightarrow> 'z profile_db_scheme \<Rightarrow> bool" where
  "logoRely U M tenantId s \<longleftrightarrow>
     (let addr = localPath (ue_disk U); F = addr ` ownKeys U tenantId ''branding'' in
      relyOk (ue_sha U) addr ''local'' M (ue_others U) \<and> F \<subseteq> M \<and> honestOutcome U \<and> backed (ue_sha U) addr ''local'' s \<and>
      logoOwned addr M F tenantId s \<and> (\<forall>s. logoOwned addr M F tenantId s \<longrightarrow> logoOwned addr M F tenantId (ue_others U s)))"

lemma setLogo_files:
  assumes logo: "logoRely U M tenantId s" and staged: "posixResolve (dk_cwd (ue_disk U)) (mf_path file) \<in> M"
    and run: "setLogo U (localProvider (ue_disk U)) newId tenantId actorUserId file s = (q, u)"
  shows "backed (ue_sha U) (localPath (ue_disk U)) ''local'' u \<and>
    (\<forall>v. q = Inr v \<longrightarrow> (\<exists>r \<in> set (storedFiles u). liveRow ''local'' r \<and> fo_tenantId r = tenantId \<and> fo_storageKey r \<in> ownKeys U tenantId ''branding''))"
proof -
  let ?E = "ue_disk U"
  let ?commit = "logoCommit U (localProvider ?E) newId tenantId actorUserId file"
  let ?persist = "persistNewUploadedFiles U (localProvider ?E) tenantId ''branding'' ''TenantBranding'' (Some tenantId) [file] ?commit"
  have rely: "relyOk (ue_sha U) (localPath ?E) ''local'' M (ue_others U)" and own: "localPath ?E ` ownKeys U tenantId ''branding'' \<subseteq> M"
    and honest: "honestOutcome U" and bk: "backed (ue_sha U) (localPath ?E) ''local'' s"
    and owned: "logoOwned (localPath ?E) M (localPath ?E ` ownKeys U tenantId ''branding'') tenantId s"
      "\<And>s. logoOwned (localPath ?E) M (localPath ?E ` ownKeys U tenantId ''branding'') tenantId s \<Longrightarrow>
        logoOwned (localPath ?E) M (localPath ?E ` ownKeys U tenantId ''branding'') tenantId (ue_others U s)"
    using logo by (simp_all add: logoRely_def Let_def)
  obtain r t where p: "?persist s = (r, t)" by fastforce
  have spec: "persistSpec U (localProvider ?E) (localPath ?E) (posixResolve (dk_cwd ?E)) tenantId ''branding'' ''TenantBranding'' (Some tenantId) [file] s r t"
    by (rule disk.persist_outcome [unfolded localProvider_sel, OF rely own refl _ logo_commit_ok honest bk p]) (simp add: staged)
  show ?thesis
  proof (cases r)
    case (Inl e)
    then show ?thesis using run p spec by (auto simp: setLogo_def bindP_def persistSpec_def)
  next
    case (Inr z)
    obtain b ret us where z: "z = ((b, ret), us)" by (metis surj_pair)
    obtain x where x: "us = [x]" "wu_key x \<in> ownKeys U tenantId ''branding''" "pu_stored x \<in> set (storedFiles t)"
      "pu_stored x = storedRow U (localProvider ?E) tenantId ''TenantBranding'' (Some tenantId) (candidateOf x) None"
      using spec by (auto simp: persistSpec_def Inr z uploadsLinked_def)
    have row: "liveRow ''local'' (pu_stored x)" "fo_tenantId (pu_stored x) = tenantId" "fo_storageKey (pu_stored x) = wu_key x"
      using x(4) by (simp_all add: storedRow_def candidateOf_def liveRow_def)
    have retired: "localPath ?E key \<in> M \<and> unlinked (localPath ?E) ''local'' t (localPath ?E key)" if "ret = Some key" for key
      by (rule logo_retired [OF rely refl own staged honest bk owned(1) owned(2) p [unfolded Inr z that]])
    have "backed (ue_sha U) (localPath ?E) ''local'' u \<and> {pu_stored x} \<subseteq> set (storedFiles u)"
    proof (rule finish_logo [OF rely])
      show "seqP (case ret of Some key \<Rightarrow> seqP (deleteRetiredPhysicalObject U (localProvider ?E) key) (returnP ()) | None \<Rightarrow> returnP ())
          (getProfile U newId tenantId) t = (q, u)"
        using run p by (simp add: setLogo_def bindP_def Inr z)
    qed (use spec x row own retired in \<open>auto simp: persistSpec_def\<close>)
    then show ?thesis using row x(2) by auto
  qed
qed

lemma removeLogo_files:
  assumes logo: "logoRely U M tenantId s"
  shows "backed (ue_sha U) (localPath (ue_disk U)) ''local'' (snd (removeLogo U (localProvider (ue_disk U)) newId tenantId actorUserId s))"
proof -
  let ?E = "ue_disk U" and ?s = "ue_others U s"
  have rely: "relyOk (ue_sha U) (localPath ?E) ''local'' M (ue_others U)" and bk: "backed (ue_sha U) (localPath ?E) ''local'' ?s"
    and owned: "logoOwned (localPath ?E) M (localPath ?E ` ownKeys U tenantId ''branding'') tenantId ?s"
    using logo relyD(1) by (auto simp: logoRely_def Let_def)
  have kept: "backed (ue_sha U) (localPath ?E) ''local'' t" if "dropLogo U (localProvider ?E) tenantId actorUserId ?s = (Inr x, t)" for x t
    using dropLogo_Inr [OF that] backed_same_files [OF bk, of t] backed_retired [OF bk, of t U tenantId] by (auto split: option.splits)
  obtain r t where run: "txP U (dropLogo U (localProvider ?E) tenantId actorUserId) s = (r, t)" by fastforce
  show ?thesis
  proof (cases r)
    case (Inl e)
    then show ?thesis using txP_Inl run bk kept by (fastforce simp: removeLogo_def bindP_def)
  next
    case (Inr x)
    have d: "dropLogo U (localProvider ?E) tenantId actorUserId ?s = (Inr x, t)" using run by (simp add: Inr txP_Inr)
    define ret where "ret = (case x of Some key \<Rightarrow> if key \<noteq> [] then Some key else None | None \<Rightarrow> None)"
    have free: "localPath ?E key \<in> M \<and> unlinked (localPath ?E) ''local'' t (localPath ?E key)" if "ret = Some key" for key
    proof -
      have x: "x = Some key" "key \<noteq> []" using that by (auto simp: ret_def split: option.splits if_splits)
      then have k: "logoOf (findBranding tenantId ?s) = Some key" "storedFiles t = retires U tenantId key (storedFiles ?s)" using dropLogo_Inr [OF d] by auto
      have "unlinked (localPath ?E) ''local'' t (localPath ?E key)"
        by (rule unlinked_retired [OF _ k(2)]) (use owned k(1) in \<open>auto simp: logoOwned_def\<close>)
      with owned k(1) show ?thesis by (simp add: logoOwned_def)
    qed
    obtain q u where u: "removeLogo U (localProvider ?E) newId tenantId actorUserId s = (q, u)" by fastforce
    have rest: "seqP (case ret of Some key \<Rightarrow> seqP (deleteRetiredPhysicalObject U (localProvider ?E) key) (returnP ()) | None \<Rightarrow> returnP ()) (getProfile U newId tenantId) t = (q, u)"
      using run u by (auto simp: removeLogo_def bindP_def Inr ret_def split: option.splits if_splits)
    have "backed (ue_sha U) (localPath ?E) ''local'' u \<and> {} \<subseteq> set (storedFiles u)"
      by (rule finish_logo [where R = "{}", OF rely _ kept [OF d] _ free rest]) simp_all
    then show ?thesis using u by simp
  qed
qed

section \<open>A sample\<close>

definition sampleKeys :: "string list" where
  "sampleKeys = map (\<lambda>e. buildKey [''tenants'', ''t1'', ''branding'', ''0a-1b'' @ e]) (''.bin'' # map snd mimeExtensions)"

lemma sample_keys:
  assumes "key \<in> ownKeys (sampleUpload out) ''t1'' ''branding''"
  shows "key \<in> set sampleKeys"
proof -
  obtain m where m: "key = buildKey [''tenants'', ''t1'', ''branding'', ''0a-1b'' @ trustedExtensionForMime m]"
    using assms by (auto simp: ownKeys_def buildTenantStorageKey_def sampleUpload_def split: if_splits)
  have "trustedExtensionForMime m \<in> set (''.bin'' # map snd mimeExtensions)"
    by (auto simp: trustedExtensionForMime_def split: option.splits dest!: map_of_SomeD intro: rev_image_eqI)
  then show ?thesis unfolding m sampleKeys_def set_map by (rule imageI)
qed

lemma sample_fresh:
  assumes "key \<in> ownKeys (sampleUpload out) ''t1'' ''branding''"
  shows "localPath sampleDisk key \<noteq> localPath sampleDisk ''tenants/t1/branding/00-ff.png''"
proof -
  have "list_all (\<lambda>key. localPath sampleDisk key \<noteq> localPath sampleDisk ''tenants/t1/branding/00-ff.png'') sampleKeys" by code_simp
  with sample_keys [OF assms] show ?thesis by (simp add: list_all_iff)
qed

definition sampleLogoChange :: "(app_error + ProfileView) \<times> profile_db" where
  "sampleLogoChange = setLogo (sampleUpload Commits) (localProvider sampleDisk) sampleIds ''t1'' ''u1'' sampleFile sampleProfileDb"

lemma sample_logo_path: "localPath sampleDisk ''tenants/t1/branding/00-ff.png'' = ''/app/uploads/tenants/t1/branding/00-ff.png''"
  by code_simp

lemma sample_logo_rely: "logoRely (sampleUpload Commits) UNIV ''t1'' sampleProfileDb"
proof -
  have rows: "storedFiles sampleProfileDb = [sampleLogo]" "logoOf (findBranding ''t1'' sampleProfileDb) = Some ''tenants/t1/branding/00-ff.png''"
    "fileAt sampleProfileDb ''/app/uploads/tenants/t1/branding/00-ff.png'' = Some ''old''"
    by (simp_all add: sampleProfileDb_def file_db.defs findBranding_def brandingRow_def logoOf_def)
  have "backed (\<lambda>c. c) (localPath sampleDisk) ''local'' sampleProfileDb"
    using rows sample_logo_path by (simp add: backed_def sampleLogo_def)
  moreover have "logoOwned (localPath sampleDisk) UNIV (localPath sampleDisk ` ownKeys (sampleUpload Commits :: profile_db upload_env) ''t1'' ''branding'') ''t1'' sampleProfileDb"
    using rows sample_fresh [where out = Commits] by (fastforce simp: logoOwned_def sampleLogo_def)
  ultimately show ?thesis by (simp add: logoRely_def Let_def sample_upload_ok)
qed

lemma sample_logo_run:
  "\<not> isl (fst sampleLogoChange)" "fileAt (snd sampleLogoChange) ''/app/uploads/tenants/t1/branding/00-ff.png'' = None"
  by code_simp+

section \<open>The guarantee\<close>

text \<open>
  C13: Changing and removing a logo keep the files and the rows together: whatever fails, and while other requests run, every live row still
  has its file; the replaced logo is deleted only after no live row names it, and a request that returns has a live row for the new
  logo, whose file is there.
\<close>
theorem logo_requests_keep_files:
  assumes "logoRely U M tenantId s" and "posixResolve (dk_cwd (ue_disk U)) (mf_path file) \<in> M"
    and "setLogo U (localProvider (ue_disk U)) newId tenantId actorUserId file s = (q, u)"
  shows "backed (ue_sha U) (localPath (ue_disk U)) ''local'' u \<and>
    (\<forall>v. q = Inr v \<longrightarrow> (\<exists>r \<in> set (storedFiles u). liveRow ''local'' r \<and> fo_tenantId r = tenantId \<and>
       fo_storageKey r \<in> ownKeys U tenantId ''branding'' \<and> fileAt u (localPath (ue_disk U) (fo_storageKey r)) \<noteq> None)) \<and>
    backed (ue_sha U) (localPath (ue_disk U)) ''local'' (snd (removeLogo U (localProvider (ue_disk U)) newId tenantId actorUserId s))"
  using setLogo_files [OF assms] removeLogo_files [OF assms(1), of newId actorUserId] unfolding backed_def by fastforce

text \<open>Witness of C13: the sample replaces its logo, and the old file is gone.\<close>
theorem logo_requests_keep_files_witness:
  "(\<exists>r \<in> set (storedFiles (snd sampleLogoChange)). liveRow ''local'' r \<and> fo_tenantId r = ''t1'' \<and> fileAt (snd sampleLogoChange) (localPath sampleDisk (fo_storageKey r)) \<noteq> None) \<and>
   fileAt (snd sampleLogoChange) ''/app/uploads/tenants/t1/branding/00-ff.png'' = None"
proof -
  obtain v where v: "fst sampleLogoChange = Inr v" using sample_logo_run(1) by (cases "fst sampleLogoChange") auto
  have run: "setLogo (sampleUpload Commits) (localProvider (ue_disk (sampleUpload Commits :: profile_db upload_env))) sampleIds ''t1'' ''u1'' sampleFile sampleProfileDb =
      (Inr v, snd sampleLogoChange)"
    using v by (simp add: sampleLogoChange_def prod_eq_iff)
  show ?thesis using logo_requests_keep_files [OF sample_logo_rely UNIV_I run] sample_logo_run(2) by auto
qed

end
