(* ===== verification/Email_Outbox.thy ===== *)
theory Email_Outbox
  imports Auth_Session
begin

text \<open>
  The email outbox: its rows, the sender \<^verbatim>\<open>backend/src/infrastructure/email/email-sender.ts\<close>, and the operations of
  \<^verbatim>\<open>email-queue-service.ts\<close> that put messages into the queue.  The provider's client is a parameter that answers every request
  (\<open>me_resend\<close>); the requests it received are kept in the state, so that the theorems can speak of them.  Between two
  statements of the database, and while the provider is awaited, other requests and other workers run (\<open>me_others\<close>); statements may fail
  (\<open>me_fault\<close>), and the commit of a transaction may fail or its reply be lost (\<open>me_outcome\<close>).  A transaction runs in one step.  The clock
  is part of the state.  Identifiers and timestamps that the database generates for inserted rows are left out where nothing reads them;
  so are log lines.  A plain \<open>Error\<close> is a \<open>SystemError\<close> with its message; the messages of other errors are a parameter
  (\<open>me_message\<close>).
\<close>

section \<open>Rows\<close>

datatype EmailQueueStatus = PENDING | SENT | FAILED

record EmailRow =
  em_id :: string
  em_tenantId :: "string option"
  em_type :: string
  em_deduplicationKey :: "string option"
  em_recipient :: string
  em_subject :: string
  em_body :: string
  em_meta :: "json option"
  em_status :: EmailQueueStatus
  em_attempts :: nat
  em_maxAttempts :: nat
  em_nextAttemptAt :: instant
  em_processingToken :: "string option"
  em_processingStartedAt :: "instant option"
  em_leaseExpiresAt :: "instant option"
  em_lastError :: "string option"
  em_createdAt :: instant

text \<open>The other tables the worker writes; their statuses are kept by name.\<close>

record ContractDeliveryRow =
  cd_id :: string
  cd_tenantId :: string
  cd_bookingId :: string
  cd_contractId :: string
  cd_status :: string
  cd_sentAt :: "instant option"
  cd_errorMessage :: "string option"

record ContractRow =
  ct_id :: string
  ct_tenantId :: string
  ct_bookingId :: string
  ct_status :: string
  ct_emailTo :: "string option"
  ct_emailSubject :: "string option"
  ct_emailBody :: "string option"
  ct_lastSentAt :: "instant option"
  ct_errorMessage :: "string option"
  ct_updatedByUserId :: "string option"

record ContractEventRow =
  ce_tenantId :: string
  ce_bookingId :: string
  ce_contractId :: string
  ce_actorUserId :: "string option"
  ce_type :: string
  ce_message :: string
  ce_details :: json

record InvoiceRow =
  iv_id :: string
  iv_tenantId :: string
  iv_status :: string
  iv_sentAt :: "instant option"

record InvoiceDeliveryRow =
  vd_id :: string
  vd_invoiceId :: string
  vd_status :: string
  vd_provider :: "string option"
  vd_providerMessageId :: "string option"
  vd_errorMessage :: "string option"
  vd_sentAt :: "instant option"

record StoppageRow =
  sg_id :: string
  sg_tenantId :: string
  sg_siteId :: string
  sg_vehicleId :: string
  sg_workshopId :: string
  sg_createdByUserId :: string
  sg_assignedToUserId :: "string option"
  sg_status :: string
  sg_openedAt :: instant
  sg_reminderAfterDays :: "int option"
  sg_lastReminderSentAt :: "instant option"
  sg_totalRemindersSent :: int
  sg_workshopEmailSnapshot :: "string option"
  sg_deletedAt :: "instant option"

record ReminderRow =
  rm_tenantId :: string
  rm_stoppageId :: string
  rm_type :: string
  rm_channel :: string
  rm_recipient :: string
  rm_subject :: "string option"
  rm_body :: string
  rm_sentAt :: instant
  rm_success :: bool
  rm_errorMessage :: "string option"

record SiteRow =
  st_id :: string
  st_tenantId :: string
  st_deletedAt :: "instant option"

record VehicleRow =
  vh_id :: string
  vh_tenantId :: string
  vh_siteId :: string
  vh_deletedAt :: "instant option"

record WorkshopRow =
  ws_id :: string
  ws_tenantId :: string
  ws_email :: "string option"
  ws_isActive :: bool
  ws_deletedAt :: "instant option"

record ExtraChargeRow =
  ex_id :: string
  ex_tenantId :: string
  ex_bookingId :: string
  ex_rentalCustomerId :: string
  ex_vehicleId :: "string option"
  ex_type :: string
  ex_description :: string
  ex_amountCents :: int
  ex_adminFeeCents :: int
  ex_totalAmountCents :: int
  ex_currency :: string
  ex_status :: string
  ex_notifiedAt :: "instant option"
  ex_createdByUserId :: "string option"
  ex_approvedByUserId :: "string option"
  ex_deletedAt :: "instant option"

record BookingRow =
  bk_id :: string
  bk_tenantId :: string
  bk_vehicleId :: string
  bk_customerId :: "string option"
  bk_createdByUserId :: "string option"
  bk_code :: string
  bk_status :: string
  bk_customerName :: string
  bk_customerEmail :: "string option"
  bk_deletedAt :: "instant option"

record CustomerRow =
  cu_id :: string
  cu_tenantId :: string
  cu_email :: "string option"
  cu_deletedAt :: "instant option"

section \<open>The provider\<close>

text \<open>\<open>String(value)\<close> of the file name and the type of an attachment is left to the parameters that read them.\<close>

record EmailAttachment =
  at_filename :: json
  at_content :: string
  at_contentType :: "json option"

record SendEmailInput =
  se_to :: string
  se_subject :: string
  se_text :: string
  se_html :: "string option"
  se_fromName :: "string option"
  se_replyTo :: "string option"
  se_attachments :: "EmailAttachment list"
  se_idempotencyKey :: "string option"

record ResendMessage =
  rs_from :: string
  rs_to :: "string list"
  rs_subject :: string
  rs_text :: string
  rs_replyTo :: "string option"
  rs_html :: "string option"
  rs_attachments :: "EmailAttachment list"

text \<open>The client resolves with data, which may lack the message id, or with an error, or it rejects.\<close>

datatype ResendReply = ResendData "string option" | ResendError | ResendRejects app_error

record ProviderCall =
  pc_message :: ResendMessage
  pc_key :: "string option"
  pc_reply :: ResendReply

record Receipt =
  rc_provider :: string
  rc_id :: "string option"

record EmailSenderConfig =
  sc_environment :: string
  sc_provider :: string
  sc_resendApiKey :: "string option"
  sc_resendFrom :: "string option"

record mail_db = auth_db +
  emailQueue :: "EmailRow list"
  contractDeliveries :: "ContractDeliveryRow list"
  bookingContracts :: "ContractRow list"
  contractEvents :: "ContractEventRow list"
  invoices :: "InvoiceRow list"
  invoiceDeliveries :: "InvoiceDeliveryRow list"
  stoppages :: "StoppageRow list"
  reminders :: "ReminderRow list"
  sites :: "SiteRow list"
  vehicles :: "VehicleRow list"
  workshops :: "WorkshopRow list"
  extraCharges :: "ExtraChargeRow list"
  rentalBookings :: "BookingRow list"
  rentalCustomers :: "CustomerRow list"
  providerCalls :: "ProviderCall list"
  wallClock :: instant

record 's mail_env =
  me_config :: EmailSenderConfig
  me_resend :: "'s \<Rightarrow> ResendMessage \<Rightarrow> string option \<Rightarrow> ResendReply"
  me_base64 :: "json \<Rightarrow> string"
  me_dateParse :: "string \<Rightarrow> instant option"
  me_hashOf :: "json \<Rightarrow> string"
  me_message :: "app_error \<Rightarrow> string"
  me_uuid :: "nat \<Rightarrow> string"
  me_others :: "'s \<Rightarrow> 's"
  me_fault :: "'s \<Rightarrow> app_error option"
  me_outcome :: "'s \<Rightarrow> txOutcome"

text \<open>Other requests run, then a statement may fail.\<close>

definition pauseP :: "'s mail_env \<Rightarrow> (app_error, 's, unit) prog" where
  "pauseP U = modifyP (me_others U)"

definition stmtP :: "'s mail_env \<Rightarrow> (app_error, 's, unit) prog" where
  "stmtP U = seqP (pauseP U) (bindP (getsP (me_fault U)) (\<lambda>f. case f of None \<Rightarrow> returnP () | Some e \<Rightarrow> throwP e))"

definition mailTxP :: "'s mail_env \<Rightarrow> (app_error, 's, 'a) prog \<Rightarrow> ('a option \<times> app_error, 's, 'a) prog" where
  "mailTxP U body s = transactionP (me_outcome U) body (me_others U s)"

text \<open>\<open>error instanceof Error ? error.message : ...\<close>.\<close>

definition messageOf :: "'s mail_env \<Rightarrow> app_error \<Rightarrow> string" where
  "messageOf U e = (case e of SystemError m \<Rightarrow> m | _ \<Rightarrow> me_message U e)"

section \<open>The sender\<close>

text \<open>The spaces a run of which becomes one; the expression \<^verbatim>\<open><([^>]+)>\<close>: the text after the first \<^verbatim>\<open><\<close> that is followed by a
  character other than \<^verbatim>\<open>></\<close> up to the next \<^verbatim>\<open>>\<close>.\<close>

fun collapseSpaces :: "string \<Rightarrow> string" where
  "collapseSpaces [] = []"
| "collapseSpaces (c # cs) =
     (if isSpace c then (case cs of d # _ \<Rightarrow> if isSpace d then collapseSpaces cs else CHR '' '' # collapseSpaces cs | [] \<Rightarrow> [CHR '' ''])
      else c # collapseSpaces cs)"

definition sanitizeDisplayName :: "string option \<Rightarrow> string" where
  "sanitizeDisplayName value =
     trim (collapseSpaces (map (\<lambda>c. if c \<in> {CHR ''<'', CHR ''>'', CHR 0x0D, CHR 0x0A, CHR 0x22} then CHR '' '' else c) (orElse value '''')))"

fun angleAddress :: "string \<Rightarrow> string option" where
  "angleAddress [] = None"
| "angleAddress (c # cs) =
     (if c = CHR ''<'' \<and> takeWhile (\<lambda>d. d \<noteq> CHR ''>'') cs \<noteq> [] \<and> CHR ''>'' \<in> set cs
      then Some (takeWhile (\<lambda>d. d \<noteq> CHR ''>'') cs) else angleAddress cs)"

definition resolveFrom :: "EmailSenderConfig \<Rightarrow> string option \<Rightarrow> app_error + string" where
  "resolveFrom c fromName =
     (if \<not> truthy (sc_resendFrom c) then Inl (AppError 503 ''EMAIL_PROVIDER_NOT_CONFIGURED'')
      else let base = the (sc_resendFrom c);
               email = orElse (angleAddress base) base;
               displayName = sanitizeDisplayName fromName
           in Inr (if displayName \<noteq> [] then displayName @ '' <'' @ email @ ''>'' else base))"

definition normalizeRecipients :: "string \<Rightarrow> string list" where
  "normalizeRecipients to = filter (\<lambda>t. t \<noteq> []) [to]"

definition truthyText :: "string option \<Rightarrow> string option" where
  "truthyText x = (if truthy x then x else None)"

definition callProvider ::
  "'z mail_db_scheme mail_env \<Rightarrow> ResendMessage \<Rightarrow> string option \<Rightarrow> (app_error, 'z mail_db_scheme, ResendReply) prog" where
  "callProvider U msg key =
     bindP (getsP (\<lambda>s. me_resend U s msg key)) (\<lambda>reply.
       seqP (modifyP (\<lambda>s. s\<lparr>providerCalls := providerCalls s @ [\<lparr>pc_message = msg, pc_key = key, pc_reply = reply\<rparr>]\<rparr>))
         (seqP (pauseP U) (returnP reply)))"

definition sendRequest ::
  "'z mail_db_scheme mail_env \<Rightarrow> ResendMessage \<Rightarrow> string option \<Rightarrow> (app_error, 'z mail_db_scheme, Receipt) prog" where
  "sendRequest U msg key =
     bindP (callProvider U msg key) (\<lambda>reply.
       case reply of
         ResendRejects e \<Rightarrow> throwP e
       | ResendError \<Rightarrow> throwP (AppError 502 ''RESEND_EMAIL_FAILED'')
       | ResendData i \<Rightarrow> returnP \<lparr>rc_provider = ''resend'', rc_id = i\<rparr>)"

definition sendEmail ::
  "'z mail_db_scheme mail_env \<Rightarrow> SendEmailInput \<Rightarrow> (app_error, 'z mail_db_scheme, Receipt) prog" where
  "sendEmail U input =
     (let config = me_config U in
      if sc_environment config = ''staging'' then throwP (AppError 503 ''STAGING_EMAIL_DISABLED'')
      else if sc_environment config = ''provider-qa'' then throwP (AppError 503 ''PROVIDER_QA_EMAIL_DISABLED'')
      else if sc_provider config = ''disabled'' then throwP (AppError 503 ''EMAIL_PROVIDER_DISABLED'')
      else if \<not> truthy (sc_resendApiKey config) then throwP (AppError 503 ''EMAIL_PROVIDER_NOT_CONFIGURED'')
      else case resolveFrom config (se_fromName input) of
        Inl e \<Rightarrow> throwP e
      | Inr from \<Rightarrow>
          sendRequest U
            \<lparr>rs_from = from, rs_to = normalizeRecipients (se_to input), rs_subject = se_subject input, rs_text = se_text input,
             rs_replyTo = truthyText (se_replyTo input), rs_html = truthyText (se_html input), rs_attachments = se_attachments input\<rparr>
            (truthyText (se_idempotencyKey input)))"

section \<open>Putting messages into the queue\<close>

record QueueEmailInput =
  qi_tenantId :: "string option"
  qi_type :: string
  qi_recipient :: string
  qi_subject :: string
  qi_body :: string
  qi_meta :: "json option"

text \<open>The columns the code leaves out get the defaults of the schema; \<open>null\<close> as \<open>meta\<close> is no \<open>meta\<close>.\<close>

definition queuedRow :: "instant \<Rightarrow> string \<Rightarrow> string option \<Rightarrow> QueueEmailInput \<Rightarrow> EmailRow" where
  "queuedRow now newId key input =
     \<lparr>em_id = newId, em_tenantId = qi_tenantId input, em_type = qi_type input, em_deduplicationKey = key,
      em_recipient = qi_recipient input, em_subject = qi_subject input, em_body = qi_body input,
      em_meta = (if qi_meta input = Some JNull then None else qi_meta input), em_status = PENDING, em_attempts = 0, em_maxAttempts = 5,
      em_nextAttemptAt = now, em_processingToken = None, em_processingStartedAt = None, em_leaseExpiresAt = None,
      em_lastError = None, em_createdAt = now\<rparr>"

definition sameEmail :: "EmailRow \<Rightarrow> EmailRow \<Rightarrow> bool" where
  "sameEmail r q \<longleftrightarrow> em_id r = em_id q \<or> (em_deduplicationKey r \<noteq> None \<and> em_deduplicationKey r = em_deduplicationKey q)"

definition enqueue :: "string \<Rightarrow> QueueEmailInput \<Rightarrow> (app_error, 'z mail_db_scheme, EmailRow) prog" where
  "enqueue newId input =
     bindP (getsP (\<lambda>s. (emailQueue s, queuedRow (wallClock s) newId None input))) (\<lambda>(rows, row).
       if \<exists>r \<in> set rows. sameEmail r row then throwP (PrismaError ''P2002'')
       else seqP (modifyP (\<lambda>s. s\<lparr>emailQueue := emailQueue s @ [row]\<rparr>)) (returnP row))"

definition insertOnce :: "EmailRow list \<Rightarrow> EmailRow list \<Rightarrow> EmailRow list" where
  "insertOnce rows new = foldl (\<lambda>acc row. if \<exists>r \<in> set acc. sameEmail r row then acc else acc @ [row]) rows new"

definition enqueueManyOnce ::
  "(nat \<Rightarrow> string) \<Rightarrow> (QueueEmailInput \<times> string) list \<Rightarrow> (app_error, 'z mail_db_scheme, nat) prog" where
  "enqueueManyOnce newId inputs =
     (if inputs = [] then returnP 0
      else bindP (getsP (\<lambda>s. (emailQueue s,
          insertOnce (emailQueue s) (map (\<lambda>(i, input, key). queuedRow (wallClock s) (newId i) (Some key) input) (enumerate 0 inputs)))))
        (\<lambda>(rows, rows').
          seqP (modifyP (\<lambda>s. s\<lparr>emailQueue := rows'\<rparr>)) (returnP (length rows' - length rows))))"

section \<open>Metadata and the ownership of a row\<close>

text \<open>\<open>(item.meta ?? {})\<close> as an object, a property that is a text and not empty, and \<open>{ ...meta, key: value }\<close>.\<close>

definition metaFields :: "json option \<Rightarrow> (string \<times> json) list" where
  "metaFields meta =
     (case meta of
        Some (JObj fs) \<Rightarrow> fs
      | Some (JArr vs) \<Rightarrow> zip (map decimalOfNat [0..<length vs]) vs
      | Some (JStr t) \<Rightarrow> zip (map decimalOfNat [0..<length t]) (map (\<lambda>c. JStr [c]) t)
      | _ \<Rightarrow> [])"

definition metaOf :: "EmailRow \<Rightarrow> json" where
  "metaOf item = JObj (metaFields (em_meta item))"

definition metaString :: "json \<Rightarrow> string \<Rightarrow> string option" where
  "metaString meta key = truthyText (jstring (jprop meta key))"

definition jset :: "(string \<times> json) list \<Rightarrow> string \<Rightarrow> json \<Rightarrow> (string \<times> json) list" where
  "jset fs k v = (if k \<in> fst ` set fs then map (\<lambda>f. if fst f = k then (k, v) else f) fs else fs @ [(k, v)])"

definition withMeta :: "EmailRow \<Rightarrow> (string \<times> json) list \<Rightarrow> json" where
  "withMeta item new = JObj (foldl (\<lambda>fs (k, v). jset fs k v) (metaFields (em_meta item)) new)"

fun jtruthy :: "json option \<Rightarrow> bool" where
  "jtruthy None = False"
| "jtruthy (Some JNull) = False"
| "jtruthy (Some (JBool b)) = b"
| "jtruthy (Some (JNum n)) = (n \<noteq> 0)"
| "jtruthy (Some (JStr t)) = (t \<noteq> [])"
| "jtruthy (Some _) = True"

text \<open>The predicate of every write a worker makes to a row it has claimed.\<close>

definition ownedBy :: "string \<Rightarrow> string \<Rightarrow> EmailRow \<Rightarrow> bool" where
  "ownedBy newId token r \<longleftrightarrow> em_id r = newId \<and> em_status r = PENDING \<and> em_processingToken r = Some token"

definition releasedRow :: "EmailRow \<Rightarrow> EmailRow" where
  "releasedRow r = r\<lparr>em_processingToken := None, em_processingStartedAt := None, em_leaseExpiresAt := None\<rparr>"

text \<open>An update of the rows a predicate selects; the result is their number.\<close>

definition updateQueue :: "(EmailRow \<Rightarrow> bool) \<Rightarrow> (EmailRow \<Rightarrow> EmailRow) \<Rightarrow> (app_error, 'z mail_db_scheme, nat) prog" where
  "updateQueue P f =
     bindP (getsP (\<lambda>s. countWhere P (emailQueue s))) (\<lambda>n.
       seqP (modifyP (\<lambda>s. s\<lparr>emailQueue := updateMany P f (emailQueue s)\<rparr>)) (returnP n))"

end
