(* ===== verification/Email_Dispatch.thy ===== *)
theory Email_Dispatch
  imports Email_Outbox
begin

text \<open>
  Authorising a message right before it is sent: \<^verbatim>\<open>backend/src/infrastructure/email/scheduled-report-dispatch.ts\<close> and
  \<^verbatim>\<open>reminder-email-dispatch.ts\<close>, with \<open>stoppageHistoricalUsersOwned\<close> of \<^verbatim>\<open>repositories/stoppage-tenant-scope.ts\<close>.  A transaction
  checks the message against the state, renews the lease of its row, and either blocks the row or starts the request to the
  provider; the reply is awaited after the transaction, whatever its fate.  The model sends after the body of the transaction,
  which is where the code starts the request.  Errors carry whether the request had started.
\<close>

section \<open>Steps the dispatchers share\<close>

definition beforeStart :: "(app_error, 's, 'a) prog \<Rightarrow> (bool \<times> app_error, 's, 'a) prog" where
  "beforeStart m = catchP m (\<lambda>e. throwP (False, e))"

definition subscriptionReader :: "'z lic_db_scheme subscriptionReader" where
  "subscriptionReader t s = map_option snapshotFromRow (findByTenant t (subscriptions s))"

definition hadSubscription :: "'z mail_db_scheme mail_env \<Rightarrow> string option \<Rightarrow> (app_error, 'z mail_db_scheme, bool) prog" where
  "hadSubscription U tenantId =
     (case tenantId of None \<Rightarrow> returnP False
      | Some t \<Rightarrow> seqP (stmtP U) (getsP (\<lambda>s. findByTenant t (subscriptions s) \<noteq> None)))"

definition statusChangedSince :: "string \<Rightarrow> instant \<Rightarrow> 'z mail_db_scheme \<Rightarrow> bool" where
  "statusChangedSince t since s \<longleftrightarrow> list_ex (\<lambda>r. al_tenantId r = t \<and> al_resource r = ''tenant'' \<and>
     al_action r = ''PLATFORM_TENANT_STATUS_CHANGED'' \<and> since \<le> al_createdAt r) (auditLogs s)"

text \<open>Why the tenant cannot be served.\<close>

definition tenantReason :: "TenantRow option \<Rightarrow> string option" where
  "tenantReason row =
     (case row of None \<Rightarrow> Some ''TENANT_MISSING''
      | Some r \<Rightarrow> if tn_deletedAt r \<noteq> None then Some ''TENANT_DELETED'' else if \<not> tn_isActive r then Some ''TENANT_INACTIVE'' else None)"

definition tenantRow :: "string \<Rightarrow> 'z mail_db_scheme \<Rightarrow> TenantRow option" where
  "tenantRow t s = findFirst (\<lambda>r. tn_id r = t) (tenants s)"

definition renewLease :: "string \<Rightarrow> string \<Rightarrow> instant \<Rightarrow> int \<Rightarrow> (app_error, 'z mail_db_scheme, bool) prog" where
  "renewLease itemId token checkedAt leaseMs =
     bindP (updateQueue
         (\<lambda>r. ownedBy itemId token r \<and> (case em_leaseExpiresAt r of None \<Rightarrow> False | Some e \<Rightarrow> checkedAt < e))
         (\<lambda>r. r\<lparr>em_leaseExpiresAt := Some (checkedAt + leaseMs)\<rparr>))
       (\<lambda>n. returnP (n = 1))"

definition blockedRow :: "EmailRow \<Rightarrow> string \<Rightarrow> string \<Rightarrow> instant \<Rightarrow> EmailRow \<Rightarrow> EmailRow" where
  "blockedRow item label reason blockedAt r =
     (releasedRow r)\<lparr>em_status := FAILED, em_lastError := Some (label @ reason),
       em_meta := Some (withMeta item [(''dispatchBlockedReason'', JStr reason), (''dispatchBlockedAt'', JStr (toISOString blockedAt))])\<rparr>"

text \<open>
  The end of every dispatcher's transaction: the row must still be owned, with a lease that has not ended; a reason blocks it.  The
  result says whether to send.
\<close>

definition startOrBlock ::
  "('z mail_db_scheme \<Rightarrow> instant) \<Rightarrow> EmailRow \<Rightarrow> string \<Rightarrow> string \<Rightarrow> int \<Rightarrow> (app_error, 'z mail_db_scheme, string option) prog \<Rightarrow>
    (app_error, 'z mail_db_scheme, bool) prog" where
  "startOrBlock currentTime item token label leaseMs lateReason =
     bindP (getsP currentTime) (\<lambda>checkedAt.
     bindP (renewLease (em_id item) token checkedAt leaseMs) (\<lambda>owned.
       if \<not> owned then returnP False
       else bindP lateReason (\<lambda>reason.
         case reason of
           Some why \<Rightarrow>
             bindP (getsP currentTime) (\<lambda>blockedAt.
               seqP (updateQueue (ownedBy (em_id item) token) (blockedRow item label why blockedAt)) (returnP False))
         | None \<Rightarrow> returnP True)))"

definition deliverAfter ::
  "'z mail_db_scheme mail_env \<Rightarrow> (app_error, 'z mail_db_scheme, bool) prog \<Rightarrow> (app_error, 'z mail_db_scheme, Receipt) prog \<Rightarrow>
    (bool \<times> app_error, 'z mail_db_scheme, Receipt option) prog" where
  "deliverAfter U body startDelivery =
     bindP (catchP (mailTxP U body) (\<lambda>(started, e). if started = Some True then returnP True else throwP (False, e)))
       (\<lambda>started. if \<not> started then returnP None
          else bindP (catchP startDelivery (\<lambda>e. throwP (True, e))) (\<lambda>receipt. returnP (Some receipt)))"

section \<open>Scheduled reports\<close>

definition reportTenantReason :: "bool \<Rightarrow> string option \<Rightarrow> 'z mail_db_scheme \<Rightarrow> app_error + string option" where
  "reportTenantReason had tenantId s =
     (case tenantId of
        None \<Rightarrow> Inr (Some ''TENANT_MISSING'')
      | Some t \<Rightarrow>
          if t = [] then Inr (Some ''TENANT_MISSING'')
          else if tenantRow t s \<noteq> None \<and> had \<and> findByTenant t (subscriptions s) = None
          then Inl (SystemError ''Scheduled report subscription changed before dispatch'')
          else Inr (tenantReason (tenantRow t s)))"

definition reportLicenseReason :: "'z mail_db_scheme mail_env \<Rightarrow> string \<Rightarrow> instant \<Rightarrow> 'z mail_db_scheme \<Rightarrow> string option" where
  "reportLicenseReason U t createdAt s =
     (if statusChangedSince t createdAt s then Some ''TENANT_STATUS_CHANGED''
      else let entitlements = getTenantEntitlements (me_dateParse U) subscriptionReader (wallClock s) t s;
               status = l_status (te_license entitlements)
           in if status \<noteq> TenantSubscriptionStatus.ACTIVE \<and> status \<noteq> TRIAL then Some (''LICENSE_'' @ statusName status)
              else if \<not> hasFeature (Some (planCode (te_plan entitlements))) ''scheduled_reports'' then Some ''FEATURE_UNAVAILABLE''
              else None)"

definition reportBody ::
  "'z mail_db_scheme mail_env \<Rightarrow> ('z mail_db_scheme \<Rightarrow> instant) \<Rightarrow> int \<Rightarrow> EmailRow \<Rightarrow> string \<Rightarrow> bool \<Rightarrow> (app_error, 'z mail_db_scheme, bool) prog" where
  "reportBody U currentTime leaseMs item token had =
     bindP (getsP (reportTenantReason had (em_tenantId item))) (\<lambda>r.
       case r of
         Inl e \<Rightarrow> throwP e
       | Inr reason \<Rightarrow>
           startOrBlock currentTime item token ''SCHEDULED_REPORT_DISPATCH_BLOCKED:'' leaseMs
             (case (reason, em_tenantId item) of
                (None, Some t) \<Rightarrow> getsP (reportLicenseReason U t (em_createdAt item))
              | _ \<Rightarrow> returnP reason))"

definition dispatchScheduledReport ::
  "'z mail_db_scheme mail_env \<Rightarrow> ('z mail_db_scheme \<Rightarrow> instant) \<Rightarrow> int \<Rightarrow> EmailRow \<Rightarrow> string \<Rightarrow>
    (app_error, 'z mail_db_scheme, Receipt) prog \<Rightarrow> (bool \<times> app_error, 'z mail_db_scheme, Receipt option) prog" where
  "dispatchScheduledReport U currentTime leaseMs item token startDelivery =
     bindP (beforeStart (hadSubscription U (em_tenantId item))) (\<lambda>had.
       deliverAfter U (reportBody U currentTime leaseMs item token had) startDelivery)"

section \<open>Reminders\<close>

definition automaticReminderTypes :: "string list" where
  "automaticReminderTypes = [''AUTOMATIC'', ''AUTOMATIC_RETRY'', ''ESCALATION'']"

definition manualReminderTypes :: "string list" where
  "manualReminderTypes = [''MANUAL'', ''MANUAL_RETRY'']"

definition openReminderStatuses :: "string list" where
  "openReminderStatuses = [''OPEN'', ''IN_PROGRESS'', ''WAITING_PARTS'', ''SOLICITED'']"

definition stoppageHistoricalUsersOwned :: "string \<Rightarrow> StoppageRow \<Rightarrow> 'z mail_db_scheme \<Rightarrow> bool" where
  "stoppageHistoricalUsersOwned t links s =
     (let ids = setOf (sg_createdByUserId links # (case sg_assignedToUserId links of None \<Rightarrow> [] | Some u \<Rightarrow> [u]))
      in length (filter (\<lambda>u. u_tenantId u = t \<and> u_id u \<in> set ids) (users s)) = length ids)"

definition licenseReason :: "'z mail_db_scheme mail_env \<Rightarrow> string \<Rightarrow> 'z mail_db_scheme \<Rightarrow> string option" where
  "licenseReason U t s =
     (let status = l_status (getTenantLicense (me_dateParse U) subscriptionReader (wallClock s) t s)
      in if status \<noteq> TenantSubscriptionStatus.ACTIVE \<and> status \<noteq> TRIAL then Some (''LICENSE_'' @ statusName status) else None)"

text \<open>A linked row that exists, belongs to the tenant and is not deleted.\<close>

definition linkedRow :: "('r \<Rightarrow> string) \<Rightarrow> ('r \<Rightarrow> string) \<Rightarrow> ('r \<Rightarrow> instant option) \<Rightarrow> string \<Rightarrow> string \<Rightarrow> 'r list \<Rightarrow> bool" where
  "linkedRow idOf tenantOf deletedOf t i rows =
     (case findFirst (\<lambda>r. idOf r = i) rows of None \<Rightarrow> False | Some r \<Rightarrow> tenantOf r = t \<and> deletedOf r = None)"

definition stoppageReason :: "string \<Rightarrow> StoppageRow \<Rightarrow> 'z mail_db_scheme \<Rightarrow> string option" where
  "stoppageReason t stoppage s =
     (let vehicle = findFirst (\<lambda>v. vh_id v = sg_vehicleId stoppage) (vehicles s);
          workshop = findFirst (\<lambda>w. ws_id w = sg_workshopId stoppage) (workshops s)
      in if \<not> (linkedRow st_id st_tenantId st_deletedAt t (sg_siteId stoppage) (sites s) \<and>
               linkedRow vh_id vh_tenantId vh_deletedAt t (sg_vehicleId stoppage) (vehicles s) \<and>
               linkedRow ws_id ws_tenantId ws_deletedAt t (sg_workshopId stoppage) (workshops s)) then Some ''STOPPAGE_RELATION_INVALID''
         else if (case findFirst (\<lambda>x. st_id x = vh_siteId (the vehicle)) (sites s) of None \<Rightarrow> True | Some x \<Rightarrow> st_tenantId x \<noteq> t)
         then Some ''STOPPAGE_RELATION_INVALID''
         else if \<not> ws_isActive (the workshop) then Some ''WORKSHOP_INACTIVE''
         else if \<not> stoppageHistoricalUsersOwned t stoppage s then Some ''STOPPAGE_RELATION_INVALID''
         else None)"

definition lockReminderContext ::
  "'z mail_db_scheme mail_env \<Rightarrow> bool \<Rightarrow> string \<Rightarrow> string \<Rightarrow> 'z mail_db_scheme \<Rightarrow> app_error + (string + StoppageRow)" where
  "lockReminderContext U had t stoppageId s =
     (case tenantReason (tenantRow t s) of
        Some reason \<Rightarrow> Inr (Inl reason)
      | None \<Rightarrow>
          if had \<and> findByTenant t (subscriptions s) = None
          then Inl (SystemError ''Reminder subscription changed before authorization'')
          else case licenseReason U t s of
            Some reason \<Rightarrow> Inr (Inl reason)
          | None \<Rightarrow>
              (case findFirst (\<lambda>g. sg_id g = stoppageId \<and> sg_tenantId g = t) (stoppages s) of
                 None \<Rightarrow> Inr (Inl ''STOPPAGE_MISSING'')
               | Some stoppage \<Rightarrow>
                   if sg_deletedAt stoppage \<noteq> None then Inr (Inl ''STOPPAGE_DELETED'')
                   else case stoppageReason t stoppage s of Some reason \<Rightarrow> Inr (Inl reason) | None \<Rightarrow> Inr (Inr stoppage)))"

definition daysBetween :: "instant \<Rightarrow> instant \<Rightarrow> int" where
  "daysBetween from to = \<lfloor>jdiv (of_int (to - from)) 86400000\<rfloor>"

text \<open>The days between two reminders: the stoppage's own number, or the playbook's if it is enabled and shorter.\<close>

definition effectiveDays :: "json option \<Rightarrow> int \<Rightarrow> number" where
  "effectiveDays playbook threshold =
     (let prop = (\<lambda>k. case playbook of None \<Rightarrow> None | Some p \<Rightarrow> jprop p k);
          playbookDays = (if jtruthy (prop ''enabled'') then toNumber (case prop ''reminderEveryDays'' of None \<Rightarrow> JNum 0 | Some JNull \<Rightarrow> JNum 0 | Some v \<Rightarrow> v)
                          else Some 0)
      in case playbookDays of
           Some d \<Rightarrow> if 0 < d then min (if threshold = 0 then d else of_int threshold) d else of_int threshold
         | None \<Rightarrow> of_int threshold)"

definition automaticReminderIsDue :: "StoppageRow \<Rightarrow> instant \<Rightarrow> 'z mail_db_scheme \<Rightarrow> bool" where
  "automaticReminderIsDue stoppage now s =
     (case sg_reminderAfterDays stoppage of
        None \<Rightarrow> False
      | Some threshold \<Rightarrow>
          sg_status stoppage \<in> set openReminderStatuses \<and>
          (let row = getLatestByAction (sg_tenantId stoppage) ''playbooks'' ''SETTINGS_PLAYBOOKS'' s;
               playbook = (case row of None \<Rightarrow> None | Some r \<Rightarrow> jprop (al_details r) (sg_status stoppage));
               effective = effectiveDays playbook threshold
           in of_int (daysBetween (sg_openedAt stoppage) now) \<ge> effective \<and>
              (case sg_lastReminderSentAt stoppage of None \<Rightarrow> True | Some t \<Rightarrow> of_int (daysBetween t now) \<ge> effective)))"

definition reminderTenant :: "EmailRow \<Rightarrow> (string \<times> string \<times> bool) option" where
  "reminderTenant item =
     (let meta = metaOf item;
          stoppageId = orElse (jstring (jprop meta ''stoppageId'')) '''';
          reminderType = orElse (jstring (jprop meta ''reminderType'')) '''';
          isAutomatic = (reminderType \<in> set automaticReminderTypes)
      in case em_tenantId item of
           None \<Rightarrow> None
         | Some t \<Rightarrow>
             if t = [] \<or> jprop meta ''tenantId'' \<noteq> Some (JStr t) \<or> stoppageId = [] \<or>
                (\<not> isAutomatic \<and> reminderType \<notin> set manualReminderTypes) then None
             else Some (t, stoppageId, isAutomatic))"

definition reminderReason ::
  "'z mail_db_scheme mail_env \<Rightarrow> ('z mail_db_scheme \<Rightarrow> instant) \<Rightarrow> EmailRow \<Rightarrow> bool \<Rightarrow> 'z mail_db_scheme \<Rightarrow> app_error + string option" where
  "reminderReason U currentTime item had s =
     (case reminderTenant item of
        None \<Rightarrow> Inr (Some ''METADATA_INVALID'')
      | Some (t, stoppageId, isAutomatic) \<Rightarrow>
          (case lockReminderContext U had t stoppageId s of
             Inl e \<Rightarrow> Inl e
           | Inr (Inl reason) \<Rightarrow> Inr (Some reason)
           | Inr (Inr stoppage) \<Rightarrow>
               let workshop = findFirst (\<lambda>w. ws_id w = sg_workshopId stoppage) (workshops s);
                   address = (if truthy (sg_workshopEmailSnapshot stoppage) then sg_workshopEmailSnapshot stoppage
                              else case workshop of None \<Rightarrow> None | Some w \<Rightarrow> ws_email w)
               in Inr (if statusChangedSince t (em_createdAt item) s then Some ''TENANT_STATUS_CHANGED''
                       else if address \<noteq> Some (em_recipient item) then Some ''RECIPIENT_CHANGED''
                       else if isAutomatic \<and> \<not> automaticReminderIsDue stoppage (currentTime s) s then Some ''STOPPAGE_NOT_DUE''
                       else None)))"

definition reminderBody ::
  "'z mail_db_scheme mail_env \<Rightarrow> ('z mail_db_scheme \<Rightarrow> instant) \<Rightarrow> int \<Rightarrow> EmailRow \<Rightarrow> string \<Rightarrow> bool \<Rightarrow> (app_error, 'z mail_db_scheme, bool) prog" where
  "reminderBody U currentTime leaseMs item token had =
     bindP (getsP (reminderReason U currentTime item had)) (\<lambda>r.
       case r of
         Inl e \<Rightarrow> throwP e
       | Inr reason \<Rightarrow> startOrBlock currentTime item token ''REMINDER_DISPATCH_BLOCKED:'' leaseMs (returnP reason))"

definition dispatchReminderEmail ::
  "'z mail_db_scheme mail_env \<Rightarrow> ('z mail_db_scheme \<Rightarrow> instant) \<Rightarrow> int \<Rightarrow> EmailRow \<Rightarrow> string \<Rightarrow>
    (app_error, 'z mail_db_scheme, Receipt) prog \<Rightarrow> (bool \<times> app_error, 'z mail_db_scheme, Receipt option) prog" where
  "dispatchReminderEmail U currentTime leaseMs item token startDelivery =
     bindP (beforeStart (hadSubscription U (map_option fst (reminderTenant item)))) (\<lambda>had.
       deliverAfter U (reminderBody U currentTime leaseMs item token had) startDelivery)"

end
