(* ===== verification/Extra_Notice.thy ===== *)
theory Extra_Notice
  imports Email_Dispatch
begin

text \<open>
  The notice a customer gets before an extra charge is collected: \<^verbatim>\<open>backend/src/infrastructure/email/extra-charge-notice.ts\<close>.  The
  request freezes the context of the notice in the metadata of the queued row, with a digest; the dispatcher compares it with the
  current state, and the finalization marks the charge and writes the audit entry of the acceptance.  The digest of the JSON text of a
  document is the parameter \<open>me_hashOf\<close>, the reading of a date text is \<open>me_dateParse\<close>.
\<close>

section \<open>The context of a notice\<close>

definition noticeType :: string where "noticeType = ''RENTAL_EXTRA_CHARGE_NOTICE''"
definition noticeResource :: string where "noticeResource = ''rental-extra-charge''"
definition queuedAction :: string where "queuedAction = ''RENTAL_EXTRA_CHARGE_NOTICE_QUEUED''"
definition acceptedAction :: string where "acceptedAction = ''RENTAL_EXTRA_CHARGE_NOTIFIED''"

record NoticeContext =
  nc_tenantId :: string
  nc_extraChargeId :: string
  nc_bookingId :: string
  nc_rentalCustomerId :: string
  nc_vehicleId :: "string option"
  nc_bookingVehicleId :: string
  nc_siteId :: string
  nc_type :: string
  nc_currency :: string
  nc_amountCents :: int
  nc_adminFeeCents :: int
  nc_totalAmountCents :: int
  nc_description :: string

record NoticePayload =
  np_recipient :: string
  np_subject :: string
  np_body :: string

definition stringOf :: "json option \<Rightarrow> string option" where
  "stringOf v = (case jstring v of None \<Rightarrow> None | Some t \<Rightarrow> if trim t = [] then None else Some t)"

definition keyFor :: "string \<Rightarrow> string \<Rightarrow> string" where
  "keyFor t extraId = ''extra-notice:v1:'' @ t @ '':'' @ extraId"

definition noticeFields :: "NoticeContext \<Rightarrow> NoticePayload \<Rightarrow> json" where
  "noticeFields c p = JArr
     [JStr (nc_tenantId c), JStr (nc_extraChargeId c), JStr (nc_bookingId c), JStr (nc_rentalCustomerId c),
      jstrOrNull (nc_vehicleId c), JStr (nc_bookingVehicleId c), JStr (nc_siteId c), JStr (nc_type c), JStr (nc_currency c),
      JNum (of_int (nc_amountCents c)), JNum (of_int (nc_adminFeeCents c)), JNum (of_int (nc_totalAmountCents c)), JStr (nc_description c),
      JStr (np_recipient p), JStr (np_subject p), JStr (np_body p)]"

definition fingerprint :: "'s mail_env \<Rightarrow> NoticeContext \<Rightarrow> NoticePayload \<Rightarrow> string" where
  "fingerprint U c p = me_hashOf U (noticeFields c p)"

definition itemPayload :: "EmailRow \<Rightarrow> NoticePayload" where
  "itemPayload item = \<lparr>np_recipient = em_recipient item, np_subject = em_subject item, np_body = em_body item\<rparr>"

definition denied :: "string \<Rightarrow> app_error" where
  "denied reason = AppError 409 (''EXTRA_NOTICE_'' @ reason)"

text \<open>\<open>(cents / 100).toFixed(2)\<close> of an integer.\<close>

definition centsText :: "int \<Rightarrow> string" where
  "centsText cents = (if cents < 0 then ''-'' else []) @ decimalOfNat (nat \<bar>cents\<bar> div 100) @ ''.'' @ decimalDigits 2 (nat \<bar>cents\<bar> mod 100)"

definition paragraphs :: "string list \<Rightarrow> string" where
  "paragraphs ls = concat (map (\<lambda>(i, l). if i = 0 then l else [CHR 0x0A, CHR 0x0A] @ l) (enumerate 0 ls))"

definition noticePayload :: "string \<Rightarrow> BookingRow \<Rightarrow> ExtraChargeRow \<Rightarrow> NoticePayload" where
  "noticePayload recipient booking extra =
     \<lparr>np_recipient = recipient,
      np_subject = ''Preavviso addebito extra noleggio '' @ bk_code booking,
      np_body = paragraphs
        [''Gentile '' @ bk_customerName booking @ '','',
         ''ti informiamo che e stato registrato un importo extra collegato al tuo noleggio.'',
         ''Causale: '' @ ex_description extra,
         ''Importo: '' @ centsText (ex_totalAmountCents extra) @ '' '' @ ex_currency extra,
         ''Se hai domande contatta l'autonoleggio prima dell'addebito.'']\<rparr>"

record LockedContext =
  lk_extra :: ExtraChargeRow
  lk_context :: NoticeContext
  lk_payload :: NoticePayload
  lk_licenseExpiresAt :: "instant option"

definition licenseEnd :: "'s mail_env \<Rightarrow> LicenseInfo \<Rightarrow> instant option" where
  "licenseEnd U license = (case l_expiresAt license of None \<Rightarrow> None | Some (Iso t) \<Rightarrow> Some t | Some (RawDate d) \<Rightarrow> me_dateParse U d)"

definition actorsOwned :: "string \<Rightarrow> ExtraChargeRow \<Rightarrow> BookingRow \<Rightarrow> 'z mail_db_scheme \<Rightarrow> bool" where
  "actorsOwned t extra booking s \<longleftrightarrow>
     list_all (\<lambda>i. \<not> truthy i \<or> list_ex (\<lambda>u. Some (u_id u) = i \<and> u_tenantId u = t) (users s))
       [ex_createdByUserId extra, ex_approvedByUserId extra, bk_createdByUserId booking]"

definition lockContext ::
  "'z mail_db_scheme mail_env \<Rightarrow> bool \<Rightarrow> string \<Rightarrow> string \<Rightarrow> 'z mail_db_scheme \<Rightarrow> app_error + LockedContext" where
  "lockContext U had t extraId s =
     (if tenantReason (tenantRow t s) \<noteq> None then Inl (denied ''TENANT_UNAVAILABLE'')
      else if had \<and> findByTenant t (subscriptions s) = None then Inl (denied ''LICENSE_CHANGED'')
      else case licenseReason U t s of
        Some reason \<Rightarrow> Inl (denied reason)
      | None \<Rightarrow>
      (case findFirst (\<lambda>x. ex_id x = extraId \<and> ex_tenantId x = t \<and> ex_deletedAt x = None) (extraCharges s) of
        None \<Rightarrow> Inl (AppError 404 ''EXTRA_NOTICE_NOT_FOUND'')
      | Some extra \<Rightarrow>
      (case findFirst (\<lambda>b. bk_id b = ex_bookingId extra \<and> bk_tenantId b = t \<and> bk_deletedAt b = None) (rentalBookings s) of
        None \<Rightarrow> Inl (denied ''BOOKING_UNAVAILABLE'')
      | Some booking \<Rightarrow>
      (case findFirst (\<lambda>v. vh_id v = bk_vehicleId booking \<and> vh_tenantId v = t) (vehicles s) of
        None \<Rightarrow> Inl (denied ''VEHICLE_UNAVAILABLE'')
      | Some vehicle \<Rightarrow>
        if \<not> list_ex (\<lambda>x. st_id x = vh_siteId vehicle \<and> st_tenantId x = t) (sites s) then Inl (denied ''SITE_UNAVAILABLE'')
        else if bk_status booking = ''CANCELED'' then Inl (denied ''BOOKING_CHANGED'')
        else if bk_customerId booking \<noteq> Some (ex_rentalCustomerId extra) \<or> (truthy (ex_vehicleId extra) \<and> ex_vehicleId extra \<noteq> Some (vh_id vehicle))
        then Inl (denied ''RELATION_MISMATCH'')
        else case findFirst (\<lambda>c. cu_id c = ex_rentalCustomerId extra \<and> cu_tenantId c = t \<and> cu_deletedAt c = None) (rentalCustomers s) of
          None \<Rightarrow> Inl (denied ''CUSTOMER_UNAVAILABLE'')
        | Some customer \<Rightarrow>
            if \<not> actorsOwned t extra booking s then Inl (denied ''ACTOR_OWNERSHIP'')
            else case (case cu_email customer of None \<Rightarrow> bk_customerEmail booking | Some m \<Rightarrow> Some m) of
              None \<Rightarrow> Inl (denied ''RECIPIENT_MISSING'')
            | Some recipient \<Rightarrow>
                if recipient = [] then Inl (denied ''RECIPIENT_MISSING'')
                else Inr
                  \<lparr>lk_extra = extra,
                   lk_context = \<lparr>nc_tenantId = t, nc_extraChargeId = ex_id extra, nc_bookingId = bk_id booking,
                     nc_rentalCustomerId = ex_rentalCustomerId extra, nc_vehicleId = ex_vehicleId extra, nc_bookingVehicleId = vh_id vehicle,
                     nc_siteId = vh_siteId vehicle, nc_type = ex_type extra, nc_currency = ex_currency extra,
                     nc_amountCents = ex_amountCents extra, nc_adminFeeCents = ex_adminFeeCents extra,
                     nc_totalAmountCents = ex_totalAmountCents extra, nc_description = ex_description extra\<rparr>,
                   lk_payload = noticePayload recipient booking extra,
                   lk_licenseExpiresAt = licenseEnd U (getTenantLicense (me_dateParse U) subscriptionReader (wallClock s) t s)\<rparr>))))"

section \<open>The context a row carries\<close>

definition safeInteger :: "json option \<Rightarrow> int option" where
  "safeInteger v = (case jnumber v of None \<Rightarrow> None
     | Some n \<Rightarrow> if of_int \<lfloor>n\<rfloor> = n \<and> \<bar>n\<bar> \<le> 9007199254740991 then Some \<lfloor>n\<rfloor> else None)"

definition contextOf :: "json \<Rightarrow> NoticeContext option" where
  "contextOf raw =
     (case (jstring (jprop raw ''tenantId''), jstring (jprop raw ''extraChargeId''), jstring (jprop raw ''bookingId''),
            jstring (jprop raw ''rentalCustomerId''), jstring (jprop raw ''bookingVehicleId''), jstring (jprop raw ''siteId''),
            jstring (jprop raw ''type''), jstring (jprop raw ''currency''), jstring (jprop raw ''description''),
            safeInteger (jprop raw ''amountCents''), safeInteger (jprop raw ''adminFeeCents''), safeInteger (jprop raw ''totalAmountCents'')) of
        (Some t, Some x, Some b, Some c, Some bv, Some st, Some ty, Some cur, Some d, Some a, Some f, Some tot) \<Rightarrow>
          if t = [] \<or> x = [] \<or> \<not> (jprop raw ''vehicleId'' = Some JNull \<or> jstring (jprop raw ''vehicleId'') \<noteq> None) then None
          else Some \<lparr>nc_tenantId = t, nc_extraChargeId = x, nc_bookingId = b, nc_rentalCustomerId = c,
                 nc_vehicleId = jstring (jprop raw ''vehicleId''), nc_bookingVehicleId = bv, nc_siteId = st, nc_type = ty, nc_currency = cur,
                 nc_amountCents = a, nc_adminFeeCents = f, nc_totalAmountCents = tot, nc_description = d\<rparr>
      | _ \<Rightarrow> None)"

definition verifiedContext :: "'s mail_env \<Rightarrow> EmailRow \<Rightarrow> NoticeContext option" where
  "verifiedContext U item =
     (let meta = metaOf item in
      case jprop meta ''noticeContext'' of
        Some (JObj fs) \<Rightarrow>
          (case contextOf (JObj fs) of
             None \<Rightarrow> None
           | Some c \<Rightarrow>
               if jprop meta ''contextVersion'' = Some (JNum 1) \<and> em_tenantId item = Some (nc_tenantId c) \<and>
                  jprop meta ''tenantId'' = Some (JStr (nc_tenantId c)) \<and> jprop meta ''extraChargeId'' = Some (JStr (nc_extraChargeId c)) \<and>
                  jprop meta ''bookingId'' = Some (JStr (nc_bookingId c)) \<and>
                  jprop meta ''rentalCustomerId'' = Some (JStr (nc_rentalCustomerId c)) \<and> jprop meta ''type'' = Some (JStr (nc_type c)) \<and>
                  em_deduplicationKey item = Some (keyFor (nc_tenantId c) (nc_extraChargeId c)) \<and>
                  jprop meta ''contextHash'' = Some (JStr (fingerprint U c (itemPayload item)))
               then Some c else None)
      | _ \<Rightarrow> None)"

definition contextJson :: "NoticeContext \<Rightarrow> json" where
  "contextJson c = JObj
     [(''tenantId'', JStr (nc_tenantId c)), (''extraChargeId'', JStr (nc_extraChargeId c)), (''bookingId'', JStr (nc_bookingId c)),
      (''rentalCustomerId'', JStr (nc_rentalCustomerId c)), (''vehicleId'', jstrOrNull (nc_vehicleId c)),
      (''bookingVehicleId'', JStr (nc_bookingVehicleId c)), (''siteId'', JStr (nc_siteId c)), (''type'', JStr (nc_type c)),
      (''currency'', JStr (nc_currency c)), (''amountCents'', JNum (of_int (nc_amountCents c))),
      (''adminFeeCents'', JNum (of_int (nc_adminFeeCents c))), (''totalAmountCents'', JNum (of_int (nc_totalAmountCents c))),
      (''description'', JStr (nc_description c))]"

section \<open>The state of a notice\<close>

datatype ExtraNoticeStatus = NoNotice | NoticePending | NoticeSent | NoticeFailed | NoticeBlocked | LegacyUnverified

definition acceptedEntry :: "'s mail_env \<Rightarrow> AuditLogRow \<Rightarrow> bool" where
  "acceptedEntry U r \<longleftrightarrow>
     (let d = al_details r in
      al_action r = acceptedAction \<and> jprop d ''contextVersion'' = Some (JNum 1) \<and> jprop d ''emailProvider'' = Some (JStr ''resend'') \<and>
      stringOf (jprop d ''providerMessageId'') \<noteq> None \<and>
      (case jstring (jprop d ''providerAcceptedAt'') of None \<Rightarrow> False | Some t \<Rightarrow> me_dateParse U t \<noteq> None))"

definition queueOf :: "AuditLogRow \<Rightarrow> string option" where
  "queueOf r = stringOf (jprop (al_details r) ''queueEmailId'')"

definition noticeState ::
  "'s mail_env \<Rightarrow> AuditLogRow list \<Rightarrow> EmailRow list \<Rightarrow> ExtraChargeRow \<Rightarrow> ExtraChargeRow \<times> ExtraNoticeStatus \<times> instant option" where
  "noticeState U audits queues row =
     (let own = filter (\<lambda>r. al_resourceId r = Some (ex_id row)) audits;
          accepted = List.find (acceptedEntry U) own;
          command = List.find (\<lambda>r. al_action r = queuedAction) own;
          queue = (case command of None \<Rightarrow> None | Some c \<Rightarrow> List.find (\<lambda>q. Some (em_id q) = queueOf c) queues);
          status =
            (if accepted \<noteq> None then NoticeSent
             else if command \<noteq> None then
               (case queue of None \<Rightarrow> LegacyUnverified
                | Some q \<Rightarrow> (case em_status q of
                    PENDING \<Rightarrow> NoticePending
                  | FAILED \<Rightarrow> if jtruthy (jprop (metaOf q) ''dispatchBlockedReason'') then NoticeBlocked else NoticeFailed
                  | SENT \<Rightarrow> LegacyUnverified))
             else if ex_status row = ''NOTIFIED'' then LegacyUnverified else NoNotice)
      in (row, status,
          case accepted of None \<Rightarrow> None | Some a \<Rightarrow> me_dateParse U (orElse (jstring (jprop (al_details a) ''providerAcceptedAt'')) '''')))"

definition withExtraChargeNoticeStates ::
  "'z mail_db_scheme mail_env \<Rightarrow> string \<Rightarrow> ExtraChargeRow list \<Rightarrow>
    (app_error, 'z mail_db_scheme, (ExtraChargeRow \<times> ExtraNoticeStatus \<times> instant option) list) prog" where
  "withExtraChargeNoticeStates U t rows =
     (if rows = [] then returnP []
      else bindP (seqP (stmtP U) (getsP (\<lambda>s. rev (sort_key al_createdAt (filter (\<lambda>r. al_tenantId r = t \<and> al_resource r = noticeResource \<and>
          (\<exists>x \<in> set rows. al_resourceId r = Some (ex_id x)) \<and> al_action r \<in> {queuedAction, acceptedAction}) (auditLogs s)))))) (\<lambda>audits.
        bindP (seqP (stmtP U) (getsP (\<lambda>s. filter (\<lambda>q. em_tenantId q = Some t \<and> em_type q = noticeType \<and>
            Some (em_id q) \<in> set (map queueOf (filter (\<lambda>r. al_action r = queuedAction) audits))) (emailQueue s)))) (\<lambda>queues.
          returnP (map (noticeState U audits queues) rows))))"

section \<open>Requesting a notice\<close>

definition noticeMeta :: "'s mail_env \<Rightarrow> string \<Rightarrow> LockedContext \<Rightarrow> json" where
  "noticeMeta U userId locked = JObj
     [(''tenantId'', JStr (nc_tenantId (lk_context locked))), (''extraChargeId'', JStr (ex_id (lk_extra locked))),
      (''bookingId'', JStr (ex_bookingId (lk_extra locked))), (''rentalCustomerId'', JStr (ex_rentalCustomerId (lk_extra locked))),
      (''type'', JStr (ex_type (lk_extra locked))), (''actorUserId'', JStr userId), (''contextVersion'', JNum 1),
      (''noticeContext'', contextJson (lk_context locked)), (''contextHash'', JStr (fingerprint U (lk_context locked) (lk_payload locked)))]"

definition queueNotice ::
  "'z mail_db_scheme mail_env \<Rightarrow> string \<Rightarrow> string \<Rightarrow> string \<Rightarrow> LockedContext \<Rightarrow> (app_error, 'z mail_db_scheme, ExtraChargeRow) prog" where
  "queueNotice U newId t userId locked =
     (let key = keyFor t (ex_id (lk_extra locked)); p = lk_payload locked in
      seqP (enqueueManyOnce (\<lambda>_. newId)
             [(\<lparr>qi_tenantId = Some t, qi_type = noticeType, qi_recipient = np_recipient p, qi_subject = np_subject p, qi_body = np_body p,
                qi_meta = Some (noticeMeta U userId locked)\<rparr>, key)])
        (bindP (getsP (\<lambda>s. findFirst (\<lambda>q. em_tenantId q = Some t \<and> em_type q = noticeType \<and> em_deduplicationKey q = Some key) (emailQueue s))) (\<lambda>queued.
          case queued of
            None \<Rightarrow> throwP (denied ''COMMAND_INVALID'')
          | Some q \<Rightarrow>
              if verifiedContext U q = None then throwP (denied ''COMMAND_INVALID'')
              else bindP (getsP wallClock) (\<lambda>now.
                seqP (createAuditLog (me_hashOf U) now
                    \<lparr>ai_tenantId = t, ai_userId = Some userId, ai_action = queuedAction, ai_resource = noticeResource,
                     ai_resourceId = Some (ex_id (lk_extra locked)),
                     ai_details = Some (JObj [(''bookingId'', JStr (ex_bookingId (lk_extra locked))), (''queueEmailId'', JStr (em_id q)),
                       (''contextVersion'', JNum 1)])\<rparr> None)
                  (returnP (lk_extra locked))))))"

definition requestBody ::
  "'z mail_db_scheme mail_env \<Rightarrow> string \<Rightarrow> string \<Rightarrow> string \<Rightarrow> string \<Rightarrow> bool \<Rightarrow> (app_error, 'z mail_db_scheme, ExtraChargeRow) prog" where
  "requestBody U newId t extraId userId had =
     bindP (getsP (lockContext U had t extraId)) (\<lambda>r. case r of Inl e \<Rightarrow> throwP e | Inr locked \<Rightarrow>
       bindP (getsP (\<lambda>s. (wallClock s,
           list_ex (\<lambda>u. u_id u = userId \<and> u_tenantId u = t \<and> u_status u = UserStatus.ACTIVE \<and> u_deletedAt u = None) (users s),
           list_ex (\<lambda>r. al_tenantId r = t \<and> al_action r = queuedAction \<and> al_resource r = noticeResource \<and>
             al_resourceId r = Some (ex_id (lk_extra locked))) (auditLogs s)))) (\<lambda>(now, actor, command).
         let status = ex_status (lk_extra locked) in
         if \<not> actor then throwP (denied ''ACTOR_UNAVAILABLE'')
         else if command then
           (if status \<noteq> ''APPROVED'' \<and> status \<noteq> ''NOTIFIED'' then throwP (denied ''STATUS_INVALID'') else returnP (lk_extra locked))
         else if status \<noteq> ''APPROVED'' then throwP (denied ''STATUS_INVALID'')
         else if (case lk_licenseExpiresAt locked of None \<Rightarrow> False | Some e \<Rightarrow> e < now) then throwP (denied ''LICENSE_EXPIRED'')
         else queueNotice U newId t userId locked))"

definition requestExtraChargeNotice ::
  "'z mail_db_scheme mail_env \<Rightarrow> string \<Rightarrow> string \<Rightarrow> string \<Rightarrow> string \<Rightarrow>
    (app_error, 'z mail_db_scheme, ExtraChargeRow \<times> ExtraNoticeStatus \<times> instant option) prog" where
  "requestExtraChargeNotice U newId t extraId userId =
     bindP (hadSubscription U (Some t)) (\<lambda>had.
     bindP (catchP (mailTxP U (requestBody U newId t extraId userId had)) (\<lambda>(_, e). throwP e)) (\<lambda>extra.
     bindP (withExtraChargeNoticeStates U t [extra]) (\<lambda>states. returnP (hd states))))"

section \<open>Dispatching and finalizing a notice\<close>

definition noticeReason ::
  "'z mail_db_scheme mail_env \<Rightarrow> EmailRow \<Rightarrow> bool \<Rightarrow> 'z mail_db_scheme \<Rightarrow> app_error + (string option \<times> instant option)" where
  "noticeReason U item had s =
     (case verifiedContext U item of
        None \<Rightarrow> Inr (Some ''METADATA_INVALID'', None)
      | Some c \<Rightarrow>
          if list_ex (\<lambda>k. jprop (metaOf item) k \<noteq> None) [''html'', ''replyTo'', ''fromName'', ''attachments''] then Inr (Some ''METADATA_INVALID'', None)
          else case lockContext U had (nc_tenantId c) (nc_extraChargeId c) s of
            Inl (AppError _ code) \<Rightarrow> Inr (Some code, None)
          | Inl e \<Rightarrow> Inl e
          | Inr current \<Rightarrow>
              Inr (if ex_status (lk_extra current) \<noteq> ''APPROVED'' then Some ''EXTRA_STATUS_CHANGED''
                   else if jprop (metaOf item) ''contextHash'' \<noteq> Some (JStr (fingerprint U (lk_context current) (lk_payload current))) then Some ''CONTEXT_CHANGED''
                   else if statusChangedSince (nc_tenantId c) (em_createdAt item) s then Some ''TENANT_STATUS_CHANGED''
                   else None, lk_licenseExpiresAt current))"

definition noticeBody ::
  "'z mail_db_scheme mail_env \<Rightarrow> ('z mail_db_scheme \<Rightarrow> instant) \<Rightarrow> int \<Rightarrow> EmailRow \<Rightarrow> string \<Rightarrow> bool \<Rightarrow> (app_error, 'z mail_db_scheme, bool) prog" where
  "noticeBody U currentTime leaseMs item token had =
     bindP (getsP (noticeReason U item had)) (\<lambda>r.
       case r of
         Inl e \<Rightarrow> throwP e
       | Inr (reason, licenseExpiresAt) \<Rightarrow>
           startOrBlock currentTime item token ''EXTRA_NOTICE_DISPATCH_BLOCKED:'' leaseMs
             (getsP (\<lambda>s. if reason = None \<and> (case licenseExpiresAt of None \<Rightarrow> False | Some e \<Rightarrow> e < wallClock s)
                        then Some ''LICENSE_EXPIRED'' else reason)))"

definition dispatchExtraChargeNotice ::
  "'z mail_db_scheme mail_env \<Rightarrow> ('z mail_db_scheme \<Rightarrow> instant) \<Rightarrow> int \<Rightarrow> EmailRow \<Rightarrow> string \<Rightarrow>
    (app_error, 'z mail_db_scheme, Receipt) prog \<Rightarrow> (bool \<times> app_error, 'z mail_db_scheme, Receipt option) prog" where
  "dispatchExtraChargeNotice U currentTime leaseMs item token startDelivery =
     bindP (beforeStart (hadSubscription U (map_option nc_tenantId (verifiedContext U item)))) (\<lambda>had.
       deliverAfter U (noticeBody U currentTime leaseMs item token had) startDelivery)"

record ExtraFinalization =
  xf_extra :: "ExtraChargeRow option"
  xf_skipReason :: "string option"
  xf_actorUserId :: "string option"

definition skipExtra :: "string \<Rightarrow> ExtraFinalization" where
  "skipExtra reason = \<lparr>xf_extra = None, xf_skipReason = Some reason, xf_actorUserId = None\<rparr>"

definition bookingUnchanged :: "NoticeContext \<Rightarrow> 'z mail_db_scheme \<Rightarrow> bool" where
  "bookingUnchanged c s \<longleftrightarrow> list_ex (\<lambda>b. bk_id b = nc_bookingId c \<and> bk_tenantId b = nc_tenantId c \<and> bk_deletedAt b = None \<and>
     bk_customerId b = Some (nc_rentalCustomerId c) \<and> bk_vehicleId b = nc_bookingVehicleId c \<and>
     list_ex (\<lambda>v. vh_id v = bk_vehicleId b \<and> vh_tenantId v = nc_tenantId c \<and>
       list_ex (\<lambda>x. st_id x = vh_siteId v \<and> st_tenantId x = nc_tenantId c) (sites s)) (vehicles s) \<and>
     list_ex (\<lambda>k. Some (cu_id k) = bk_customerId b \<and> cu_tenantId k = nc_tenantId c \<and> cu_deletedAt k = None) (rentalCustomers s)) (rentalBookings s)"

definition lockExtraNoticeFinalization :: "'z mail_db_scheme mail_env \<Rightarrow> EmailRow \<Rightarrow> 'z mail_db_scheme \<Rightarrow> ExtraFinalization" where
  "lockExtraNoticeFinalization U item s =
     (case verifiedContext U item of
        None \<Rightarrow> skipExtra ''CONTEXT_UNVERIFIED''
      | Some c \<Rightarrow>
          (case findFirst (\<lambda>x. ex_id x = nc_extraChargeId c \<and> ex_tenantId x = nc_tenantId c \<and> ex_deletedAt x = None) (extraCharges s) of
             None \<Rightarrow> skipExtra ''TARGET_CHANGED''
           | Some extra \<Rightarrow>
               let acceptedAt = stringOf (jprop (metaOf item) ''providerAcceptedAt'');
                   actorId = stringOf (jprop (metaOf item) ''actorUserId'')
               in if ex_bookingId extra \<noteq> nc_bookingId c \<or> ex_rentalCustomerId extra \<noteq> nc_rentalCustomerId c \<or>
                     ex_vehicleId extra \<noteq> nc_vehicleId c \<or> ex_type extra \<noteq> nc_type c then skipExtra ''TARGET_CHANGED''
                  else if \<not> bookingUnchanged c s then skipExtra ''TARGET_CHANGED''
                  else if jtruthy (jprop (metaOf item) ''emailProvider'') \<and>
                     (case acceptedAt of None \<Rightarrow> True | Some t \<Rightarrow> me_dateParse U t = None) then skipExtra ''ACCEPTED_AT_UNVERIFIED''
                  else \<lparr>xf_extra = Some extra, xf_skipReason = None,
                        xf_actorUserId = (case actorId of None \<Rightarrow> None
                          | Some a \<Rightarrow> if list_ex (\<lambda>u. u_id u = a \<and> u_tenantId u = nc_tenantId c) (users s) then Some a else None)\<rparr>))"

definition finalizeExtraNotice ::
  "'z mail_db_scheme mail_env \<Rightarrow> EmailRow \<Rightarrow> ExtraFinalization \<Rightarrow> Receipt \<Rightarrow> instant option \<Rightarrow> (app_error, 'z mail_db_scheme, unit) prog" where
  "finalizeExtraNotice U item context receipt acceptedAt =
     (case xf_extra context of
        None \<Rightarrow> returnP ()
      | Some extra \<Rightarrow>
          (case (stringOf (map_option JStr (rc_id receipt)), acceptedAt) of
             (Some _, Some accepted) \<Rightarrow>
               let P = (\<lambda>x. ex_id x = ex_id extra \<and> ex_tenantId x = ex_tenantId extra \<and> ex_deletedAt x = None) in
               bindP (getsP (\<lambda>s. (wallClock s, countWhere P (extraCharges s)))) (\<lambda>(now, n).
                 seqP (modifyP (\<lambda>s. s\<lparr>extraCharges := updateMany P
                     (\<lambda>x. x\<lparr>ex_notifiedAt := Some accepted, ex_status := (if ex_status extra = ''APPROVED'' then ''NOTIFIED'' else ex_status x)\<rparr>)
                     (extraCharges s)\<rparr>))
                   (if n \<noteq> 1 then throwP (SystemError ''Extra notice target changed during finalization'')
                    else seqP (createAuditLog (me_hashOf U) now
                        \<lparr>ai_tenantId = ex_tenantId extra, ai_userId = xf_actorUserId context, ai_action = acceptedAction, ai_resource = noticeResource,
                         ai_resourceId = Some (ex_id extra),
                         ai_details = Some (JObj [(''bookingId'', JStr (ex_bookingId extra)), (''queueEmailId'', JStr (em_id item)),
                           (''contextVersion'', JNum 1), (''emailProvider'', JStr (rc_provider receipt)),
                           (''providerMessageId'', jstrOrNull (rc_id receipt)), (''providerAcceptedAt'', JStr (toISOString accepted))])\<rparr> None)
                      (returnP ())))
           | _ \<Rightarrow> throwP (SystemError ''Extra notice receipt is not verifiable'')))"

end
