(* ===== verification/Email_Worker.thy ===== *)
theory Email_Worker
  imports Extra_Notice
begin

text \<open>
  The worker of the email queue: \<open>processPending\<close> of \<^verbatim>\<open>backend/src/infrastructure/email/email-queue-service.ts\<close>.  A worker claims a
  due row with a token and a lease, sends its message, and commits the row's new status together with every local effect of the
  message.  A message the provider has accepted is never sent again: when the commit fails its receipt is stored in the row.  A message
  that failed is retried later, or given up after its last attempt.
\<close>

section \<open>Leases and retries\<close>

definition EMAIL_QUEUE_LEASE_MS :: int where "EMAIL_QUEUE_LEASE_MS = 15 * 60 * 1000"

definition EMAIL_QUEUE_RETRY_MAX_DELAY_MINUTES :: int where "EMAIL_QUEUE_RETRY_MAX_DELAY_MINUTES = 60"

definition leaseIsAvailable :: "instant \<Rightarrow> EmailRow \<Rightarrow> bool" where
  "leaseIsAvailable now r \<longleftrightarrow> (case em_leaseExpiresAt r of None \<Rightarrow> True | Some e \<Rightarrow> e \<le> now)"

definition providerIdempotencyKey :: "string \<Rightarrow> string" where
  "providerIdempotencyKey queueId = ''fleetum-email-queue:'' @ queueId"

definition retryDelayMs :: "nat \<Rightarrow> int" where
  "retryDelayMs attempt = min (2 ^ attempt) EMAIL_QUEUE_RETRY_MAX_DELAY_MINUTES * 60 * 1000"

definition due :: "instant \<Rightarrow> EmailRow \<Rightarrow> bool" where
  "due now r \<longleftrightarrow> em_status r = PENDING \<and> em_nextAttemptAt r \<le> now \<and> leaseIsAvailable now r"

section \<open>Targets of a message\<close>

definition tenantBoundTarget :: "string option \<Rightarrow> json \<Rightarrow> string \<Rightarrow> string list \<Rightarrow> app_error + string" where
  "tenantBoundTarget queueTenantId meta label keys =
     (if \<not> truthy queueTenantId \<or> metaString meta ''tenantId'' \<noteq> queueTenantId \<or> list_ex (\<lambda>k. metaString meta k = None) keys
      then Inl (SystemError (''Metadati coda '' @ label @ '' non validi'')) else Inr (the queueTenantId))"

record ContractTarget =
  kt_tenantId :: string
  kt_deliveryId :: string
  kt_contractId :: string
  kt_bookingId :: string

record ReminderTarget =
  rt_tenantId :: string
  rt_stoppageId :: string
  rt_reminderType :: string

record InvoiceTarget =
  vt_tenantId :: string
  vt_deliveryId :: string
  vt_invoiceId :: string

datatype Target = NoTarget | OfContract ContractTarget | OfReminder ReminderTarget | OfInvoice InvoiceTarget

definition metaText :: "json \<Rightarrow> string \<Rightarrow> string" where
  "metaText meta k = orElse (metaString meta k) ''''"

definition targetOf :: "EmailRow \<Rightarrow> app_error + Target" where
  "targetOf item =
     (let meta = metaOf item in
      if em_type item = ''BOOKING_CONTRACT'' then
        (case tenantBoundTarget (em_tenantId item) meta ''contratto'' [''contractDeliveryId'', ''contractId'', ''bookingId''] of
           Inl e \<Rightarrow> Inl e
         | Inr t \<Rightarrow> Inr (OfContract \<lparr>kt_tenantId = t, kt_deliveryId = metaText meta ''contractDeliveryId'',
             kt_contractId = metaText meta ''contractId'', kt_bookingId = metaText meta ''bookingId''\<rparr>))
      else if em_type item = ''REMINDER_EMAIL'' then
        (case tenantBoundTarget (em_tenantId item) meta ''sollecito'' [''stoppageId'', ''reminderType''] of
           Inl e \<Rightarrow> Inl e
         | Inr t \<Rightarrow> Inr (OfReminder \<lparr>rt_tenantId = t, rt_stoppageId = metaText meta ''stoppageId'', rt_reminderType = metaText meta ''reminderType''\<rparr>))
      else if em_type item = ''SAAS_INVOICE_EMAIL'' then
        (case tenantBoundTarget (em_tenantId item) meta ''fattura'' [''invoiceDeliveryId'', ''invoiceId''] of
           Inl e \<Rightarrow> Inl e
         | Inr t \<Rightarrow> Inr (OfInvoice \<lparr>vt_tenantId = t, vt_deliveryId = metaText meta ''invoiceDeliveryId'', vt_invoiceId = metaText meta ''invoiceId''\<rparr>))
      else Inr NoTarget)"

text \<open>Reading a property of \<open>null\<close> throws.\<close>

definition attachmentsOf :: "'s mail_env \<Rightarrow> json \<Rightarrow> app_error + EmailAttachment list" where
  "attachmentsOf U meta =
     (let raw = (case jprop meta ''attachments'' of Some (JArr vs) \<Rightarrow> vs | _ \<Rightarrow> []) in
      if JNull \<in> set raw then Inl (SystemError ''TypeError'')
      else Inr (map (\<lambda>x. \<lparr>at_filename = the (jprop x ''filename''), at_content = me_base64 U (the (jprop x ''contentBase64'')),
            at_contentType = (if jtruthy (jprop x ''contentType'') then jprop x ''contentType'' else None)\<rparr>)
          (filter (\<lambda>x. jtruthy (jprop x ''filename'') \<and> jtruthy (jprop x ''contentBase64'')) raw)))"

definition storedReceipt :: "EmailRow \<Rightarrow> Receipt option" where
  "storedReceipt item =
     (let meta = metaOf item; messageId = metaString meta ''providerMessageId'' in
      if metaString meta ''emailProvider'' = Some ''resend'' \<and> messageId \<noteq> None \<and>
         (em_type item = noticeType \<longrightarrow> trim (the messageId) \<noteq> [])
      then Some \<lparr>rc_provider = ''resend'', rc_id = messageId\<rparr> else None)"

definition startDelivery :: "'z mail_db_scheme mail_env \<Rightarrow> EmailRow \<Rightarrow> EmailAttachment list \<Rightarrow> (app_error, 'z mail_db_scheme, Receipt) prog" where
  "startDelivery U item attachments =
     (let meta = metaOf item in
      sendEmail U \<lparr>se_to = em_recipient item, se_subject = em_subject item, se_text = em_body item,
        se_html = jstring (jprop meta ''html''), se_fromName = jstring (jprop meta ''fromName''), se_replyTo = jstring (jprop meta ''replyTo''),
        se_attachments = attachments, se_idempotencyKey = Some (providerIdempotencyKey (em_id item))\<rparr>)"

definition obtainReceipt ::
  "'z mail_db_scheme mail_env \<Rightarrow> ('z mail_db_scheme \<Rightarrow> instant) \<Rightarrow> EmailRow \<Rightarrow> string \<Rightarrow> EmailAttachment list \<Rightarrow>
    (bool \<times> app_error, 'z mail_db_scheme, Receipt option) prog" where
  "obtainReceipt U currentTime item token attachments =
     (let start = startDelivery U item attachments in
      case storedReceipt item of
        Some receipt \<Rightarrow> returnP (Some receipt)
      | None \<Rightarrow>
          if em_type item = ''SCHEDULED_REPORT'' then dispatchScheduledReport U currentTime EMAIL_QUEUE_LEASE_MS item token start
          else if em_type item = ''REMINDER_EMAIL'' then dispatchReminderEmail U currentTime EMAIL_QUEUE_LEASE_MS item token start
          else if em_type item = noticeType then dispatchExtraChargeNotice U currentTime EMAIL_QUEUE_LEASE_MS item token start
          else bindP (catchP start (\<lambda>e. throwP (True, e))) (\<lambda>receipt. returnP (Some receipt)))"

section \<open>Local effects of a message\<close>

definition requireSingleUpdate :: "string \<Rightarrow> nat \<Rightarrow> (app_error, 's, unit) prog" where
  "requireSingleUpdate label n = assertP (n = 1) (SystemError (''Finalizzazione coda non riuscita: '' @ label))"

definition updateDelivery :: "ContractTarget \<Rightarrow> string \<Rightarrow> (ContractDeliveryRow \<Rightarrow> ContractDeliveryRow) \<Rightarrow> (app_error, 'z mail_db_scheme, unit) prog" where
  "updateDelivery k label f =
     (let P = (\<lambda>d. cd_id d = kt_deliveryId k \<and> cd_tenantId d = kt_tenantId k \<and> cd_bookingId d = kt_bookingId k \<and> cd_contractId d = kt_contractId k) in
      bindP (getsP (\<lambda>s. countWhere P (contractDeliveries s))) (\<lambda>n.
        seqP (modifyP (\<lambda>s. s\<lparr>contractDeliveries := updateMany P f (contractDeliveries s)\<rparr>)) (requireSingleUpdate label n)))"

definition updateContract :: "ContractTarget \<Rightarrow> string \<Rightarrow> (ContractRow \<Rightarrow> ContractRow) \<Rightarrow> (app_error, 'z mail_db_scheme, unit) prog" where
  "updateContract k label f =
     (let P = (\<lambda>c. ct_id c = kt_contractId k \<and> ct_tenantId c = kt_tenantId k \<and> ct_bookingId c = kt_bookingId k) in
      bindP (getsP (\<lambda>s. countWhere P (bookingContracts s))) (\<lambda>n.
        seqP (modifyP (\<lambda>s. s\<lparr>bookingContracts := updateMany P f (bookingContracts s)\<rparr>)) (requireSingleUpdate label n)))"

definition createContractEvent :: "ContractEventRow \<Rightarrow> (app_error, 'z mail_db_scheme, unit) prog" where
  "createContractEvent e = modifyP (\<lambda>s. s\<lparr>contractEvents := contractEvents s @ [e]\<rparr>)"

definition sentEvent :: "EmailRow \<Rightarrow> ContractTarget \<Rightarrow> Receipt \<Rightarrow> ContractEventRow" where
  "sentEvent item k accepted =
     \<lparr>ce_tenantId = kt_tenantId k, ce_bookingId = kt_bookingId k, ce_contractId = kt_contractId k,
      ce_actorUserId = metaString (metaOf item) ''actorUserId'', ce_type = ''EMAIL_SENT'', ce_message = ''Contratto inviato a '' @ em_recipient item,
      ce_details = JObj [(''deliveryId'', JStr (kt_deliveryId k)), (''queueEmailId'', JStr (em_id item)),
        (''emailProvider'', JStr (rc_provider accepted)), (''providerMessageId'', jstrOrNull (rc_id accepted))]\<rparr>"

definition finalizeContract :: "EmailRow \<Rightarrow> ContractTarget \<Rightarrow> Receipt \<Rightarrow> instant \<Rightarrow> (app_error, 'z mail_db_scheme, unit) prog" where
  "finalizeContract item k accepted finalizedAt =
     seqP (updateDelivery k ''consegna contratto'' (\<lambda>d. d\<lparr>cd_status := ''SENT'', cd_sentAt := Some finalizedAt, cd_errorMessage := None\<rparr>))
     (seqP (updateContract k ''contratto'' (\<lambda>c. c\<lparr>ct_emailTo := Some (em_recipient item), ct_emailSubject := Some (em_subject item),
          ct_emailBody := Some (em_body item), ct_status := ''SENT'', ct_lastSentAt := Some finalizedAt, ct_errorMessage := None,
          ct_updatedByUserId := (case metaString (metaOf item) ''actorUserId'' of None \<Rightarrow> ct_updatedByUserId c | Some a \<Rightarrow> Some a)\<rparr>))
       (createContractEvent (sentEvent item k accepted)))"

text \<open>The locked stoppage of a reminder.\<close>

definition lockReminderFinalization :: "ReminderTarget \<Rightarrow> 'z mail_db_scheme \<Rightarrow> StoppageRow option" where
  "lockReminderFinalization g s = findFirst (\<lambda>x. sg_id x = rt_stoppageId g \<and> sg_tenantId x = rt_tenantId g) (stoppages s)"

definition createReminder :: "EmailRow \<Rightarrow> ReminderTarget \<Rightarrow> bool \<Rightarrow> instant \<Rightarrow> string option \<Rightarrow> (app_error, 'z mail_db_scheme, unit) prog" where
  "createReminder item g success moment err =
     modifyP (\<lambda>s. s\<lparr>reminders := reminders s @ [\<lparr>rm_tenantId = rt_tenantId g, rm_stoppageId = rt_stoppageId g, rm_type = rt_reminderType g,
       rm_channel = ''EMAIL'', rm_recipient = em_recipient item, rm_subject = Some (em_subject item), rm_body = em_body item,
       rm_sentAt = moment, rm_success = success, rm_errorMessage = err\<rparr>]\<rparr>)"

definition finalizeReminder :: "EmailRow \<Rightarrow> ReminderTarget \<Rightarrow> StoppageRow \<Rightarrow> instant \<Rightarrow> (app_error, 'z mail_db_scheme, unit) prog" where
  "finalizeReminder item g stoppage finalizedAt =
     (let P = (\<lambda>x. sg_id x = rt_stoppageId g \<and> sg_tenantId x = rt_tenantId g) in
      seqP (whenP (sg_deletedAt stoppage = None)
        (bindP (getsP (\<lambda>s. countWhere P (stoppages s))) (\<lambda>n.
          seqP (modifyP (\<lambda>s. s\<lparr>stoppages := updateMany P (\<lambda>x. x\<lparr>sg_lastReminderSentAt := Some finalizedAt,
              sg_totalRemindersSent := sg_totalRemindersSent x + 1,
              sg_status := (if sg_status stoppage \<in> set openReminderStatuses then ''SOLICITED'' else sg_status x)\<rparr>) (stoppages s)\<rparr>))
            (requireSingleUpdate ''fermo per sollecito'' n))))
        (createReminder item g True finalizedAt None))"

definition updateInvoice :: "InvoiceTarget \<Rightarrow> string \<Rightarrow> (InvoiceRow \<Rightarrow> InvoiceRow) \<Rightarrow> (app_error, 'z mail_db_scheme, unit) prog" where
  "updateInvoice v label f =
     (let P = (\<lambda>i. iv_id i = vt_invoiceId v \<and> iv_tenantId i = vt_tenantId v) in
      bindP (getsP (\<lambda>s. countWhere P (invoices s))) (\<lambda>n.
        seqP (modifyP (\<lambda>s. s\<lparr>invoices := updateMany P f (invoices s)\<rparr>)) (requireSingleUpdate label n)))"

definition updateInvoiceDelivery :: "InvoiceTarget \<Rightarrow> string \<Rightarrow> (InvoiceDeliveryRow \<Rightarrow> InvoiceDeliveryRow) \<Rightarrow> (app_error, 'z mail_db_scheme, unit) prog" where
  "updateInvoiceDelivery v label f =
     (let P = (\<lambda>d. vd_id d = vt_deliveryId v \<and> vd_invoiceId d = vt_invoiceId v) in
      bindP (getsP (\<lambda>s. countWhere P (invoiceDeliveries s))) (\<lambda>n.
        seqP (modifyP (\<lambda>s. s\<lparr>invoiceDeliveries := updateMany P f (invoiceDeliveries s)\<rparr>)) (requireSingleUpdate label n)))"

definition finalizeInvoice :: "InvoiceTarget \<Rightarrow> Receipt \<Rightarrow> instant \<Rightarrow> (app_error, 'z mail_db_scheme, unit) prog" where
  "finalizeInvoice v accepted finalizedAt =
     seqP (updateInvoice v ''fattura'' (\<lambda>i. i\<lparr>iv_status := ''SENT'', iv_sentAt := Some finalizedAt\<rparr>))
       (updateInvoiceDelivery v ''consegna fattura'' (\<lambda>d. d\<lparr>vd_status := ''SENT'', vd_provider := Some (rc_provider accepted),
          vd_providerMessageId := rc_id accepted, vd_sentAt := Some finalizedAt, vd_errorMessage := None\<rparr>))"

section \<open>Finalization\<close>

definition receiptFields :: "Receipt \<Rightarrow> string option \<Rightarrow> (string \<times> json) list" where
  "receiptFields accepted providerAcceptedAt =
     [(''emailProvider'', JStr (rc_provider accepted)), (''providerMessageId'', jstrOrNull (rc_id accepted)),
      (''providerAcceptedAt'', jstrOrNull providerAcceptedAt)]"

definition sentRow :: "EmailRow \<Rightarrow> Receipt \<Rightarrow> string option \<Rightarrow> (string \<times> json) list \<Rightarrow> EmailRow \<Rightarrow> EmailRow" where
  "sentRow item accepted providerAcceptedAt skipped r =
     (releasedRow r)\<lparr>em_status := SENT, em_attempts := em_attempts r + 1, em_lastError := None,
       em_meta := Some (withMeta item (receiptFields accepted providerAcceptedAt @ [(''sentAt'', jstrOrNull providerAcceptedAt)] @ skipped))\<rparr>"

definition skippedFields :: "Target \<Rightarrow> StoppageRow option \<Rightarrow> ExtraFinalization option \<Rightarrow> (string \<times> json) list" where
  "skippedFields target stoppage extra =
     (case target of OfReminder _ \<Rightarrow> (if stoppage = None then [(''localFinalizationSkippedReason'', JStr ''STOPPAGE_MISSING_OR_FOREIGN'')] else []) | _ \<Rightarrow> []) @
     (case extra of None \<Rightarrow> [] | Some x \<Rightarrow>
        (case xf_skipReason x of None \<Rightarrow> [] | Some reason \<Rightarrow> if reason = [] then [] else [(''localFinalizationSkippedReason'', JStr reason)]))"

definition finalizeTarget :: "EmailRow \<Rightarrow> Target \<Rightarrow> StoppageRow option \<Rightarrow> Receipt \<Rightarrow> instant \<Rightarrow> (app_error, 'z mail_db_scheme, unit) prog" where
  "finalizeTarget item target stoppage accepted finalizedAt =
     (case target of
        NoTarget \<Rightarrow> returnP ()
      | OfContract k \<Rightarrow> finalizeContract item k accepted finalizedAt
      | OfReminder g \<Rightarrow> (case stoppage of None \<Rightarrow> returnP () | Some x \<Rightarrow> finalizeReminder item g x finalizedAt)
      | OfInvoice v \<Rightarrow> finalizeInvoice v accepted finalizedAt)"

definition extraContextOf ::
  "'z mail_db_scheme mail_env \<Rightarrow> EmailRow \<Rightarrow> EmailRow \<Rightarrow> Receipt \<Rightarrow> 'z mail_db_scheme \<Rightarrow> ExtraFinalization option" where
  "extraContextOf U item finalizationItem accepted s =
     (if em_type item \<noteq> noticeType then None
      else let locked = lockExtraNoticeFinalization U finalizationItem s in
        Some (if stringOf (map_option JStr (rc_id accepted)) = None
              then locked\<lparr>xf_extra := None, xf_skipReason := Some ''RECEIPT_UNVERIFIED''\<rparr> else locked))"

text \<open>The row's transition to \<open>SENT\<close> and all its local effects, in one transaction; false when the row is not owned any more.\<close>

definition finalizeBody ::
  "'z mail_db_scheme mail_env \<Rightarrow> EmailRow \<Rightarrow> EmailRow \<Rightarrow> string \<Rightarrow> Target \<Rightarrow> Receipt \<Rightarrow> string option \<Rightarrow> instant \<Rightarrow> (app_error, 'z mail_db_scheme, bool) prog" where
  "finalizeBody U item finalizationItem token target accepted providerAcceptedAt finalizedAt =
     bindP (getsP (\<lambda>s. ((case target of OfReminder g \<Rightarrow> lockReminderFinalization g s | _ \<Rightarrow> None),
         extraContextOf U item finalizationItem accepted s))) (\<lambda>(stoppage, extra).
     bindP (updateQueue (ownedBy (em_id item) token)
         (sentRow item accepted providerAcceptedAt (skippedFields target stoppage extra))) (\<lambda>n.
       if n \<noteq> 1 then returnP False
       else seqP (case extra of None \<Rightarrow> returnP ()
             | Some x \<Rightarrow> finalizeExtraNotice U finalizationItem x accepted
                 (case truthyText providerAcceptedAt of None \<Rightarrow> None | Some t \<Rightarrow> me_dateParse U t))
         (seqP (finalizeTarget item target stoppage accepted finalizedAt) (returnP True))))"

section \<open>Failures\<close>

definition failContract :: "EmailRow \<Rightarrow> ContractTarget \<Rightarrow> bool \<Rightarrow> string \<Rightarrow> (app_error, 'z mail_db_scheme, unit) prog" where
  "failContract item k hasAttemptsLeft errorMessage =
     seqP (updateDelivery k ''consegna contratto fallita''
         (\<lambda>d. d\<lparr>cd_status := (if hasAttemptsLeft then ''PENDING'' else ''FAILED''), cd_errorMessage := Some errorMessage\<rparr>))
       (whenP (\<not> hasAttemptsLeft)
         (seqP (updateContract k ''contratto fallito'' (\<lambda>c. c\<lparr>ct_status := ''ERROR'', ct_errorMessage := Some errorMessage\<rparr>))
           (createContractEvent \<lparr>ce_tenantId = kt_tenantId k, ce_bookingId = kt_bookingId k, ce_contractId = kt_contractId k,
              ce_actorUserId = metaString (metaOf item) ''actorUserId'', ce_type = ''EMAIL_FAILED'',
              ce_message = ''Invio contratto fallito verso '' @ em_recipient item,
              ce_details = JObj [(''deliveryId'', JStr (kt_deliveryId k)), (''queueEmailId'', JStr (em_id item)), (''error'', JStr errorMessage)]\<rparr>)))"

definition failInvoice :: "InvoiceTarget \<Rightarrow> bool \<Rightarrow> string \<Rightarrow> (app_error, 'z mail_db_scheme, unit) prog" where
  "failInvoice v hasAttemptsLeft errorMessage =
     seqP (updateInvoiceDelivery v ''consegna fattura fallita''
         (\<lambda>d. d\<lparr>vd_status := (if hasAttemptsLeft then ''PENDING'' else ''FAILED''), vd_errorMessage := Some errorMessage\<rparr>))
       (whenP (\<not> hasAttemptsLeft) (updateInvoice v ''fattura fallita'' (\<lambda>i. i\<lparr>iv_status := ''ERROR''\<rparr>)))"

definition failTarget :: "EmailRow \<Rightarrow> Target \<Rightarrow> StoppageRow option \<Rightarrow> bool \<Rightarrow> instant \<Rightarrow> string \<Rightarrow> (app_error, 'z mail_db_scheme, unit) prog" where
  "failTarget item target stoppage hasAttemptsLeft failureAt errorMessage =
     (case target of
        NoTarget \<Rightarrow> returnP ()
      | OfContract k \<Rightarrow> failContract item k hasAttemptsLeft errorMessage
      | OfReminder g \<Rightarrow> (case stoppage of None \<Rightarrow> returnP () | Some _ \<Rightarrow> createReminder item g False failureAt (Some errorMessage))
      | OfInvoice v \<Rightarrow> failInvoice v hasAttemptsLeft errorMessage)"

definition failedRow :: "EmailRow \<Rightarrow> bool \<Rightarrow> instant \<Rightarrow> string \<Rightarrow> EmailRow \<Rightarrow> EmailRow" where
  "failedRow item hasAttemptsLeft nextAttemptAt errorMessage r =
     (releasedRow r)\<lparr>em_attempts := em_attempts r + 1, em_status := (if hasAttemptsLeft then PENDING else FAILED),
       em_nextAttemptAt := (if hasAttemptsLeft then nextAttemptAt else em_nextAttemptAt item), em_lastError := Some errorMessage\<rparr>"

definition failBody ::
  "EmailRow \<Rightarrow> string \<Rightarrow> Target \<Rightarrow> bool \<Rightarrow> bool \<Rightarrow> instant \<Rightarrow> instant \<Rightarrow> string \<Rightarrow> (app_error, 'z mail_db_scheme, unit) prog" where
  "failBody item token target providerStarted hasAttemptsLeft failureAt nextAttemptAt errorMessage =
     bindP (getsP (\<lambda>s. case target of OfReminder g \<Rightarrow> if providerStarted then lockReminderFinalization g s else None | _ \<Rightarrow> None)) (\<lambda>stoppage.
     bindP (updateQueue (ownedBy (em_id item) token) (failedRow item hasAttemptsLeft nextAttemptAt errorMessage)) (\<lambda>n.
       if n \<noteq> 1 then returnP () else failTarget item target stoppage hasAttemptsLeft failureAt errorMessage))"

text \<open>The handler of an error before the provider accepted the message.\<close>

definition failDelivery ::
  "'z mail_db_scheme mail_env \<Rightarrow> ('z mail_db_scheme \<Rightarrow> instant) \<Rightarrow> EmailRow \<Rightarrow> string \<Rightarrow> Target \<Rightarrow> bool \<Rightarrow> app_error \<Rightarrow> (app_error, 'z mail_db_scheme, unit) prog" where
  "failDelivery U currentTime item token target providerStarted e =
     bindP (getsP currentTime) (\<lambda>failureAt.
       let nextAttempts = em_attempts item + 1;
           nextAttemptAt = failureAt + retryDelayMs nextAttempts;
           errorMessage = messageOf U e;
           hasAttemptsLeft = (nextAttempts < em_maxAttempts item)
       in catchP (mailTxP U (failBody item token target providerStarted hasAttemptsLeft failureAt nextAttemptAt errorMessage))
            (\<lambda>(_, e'). seqP (stmtP U) (bindP (updateQueue (ownedBy (em_id item) token)
                (failedRow item True nextAttemptAt (errorMessage @ ''; '' @ messageOf U e'))) (\<lambda>_. returnP ()))))"

text \<open>The handler of an error after the provider accepted the message: the receipt is kept in the row.\<close>

definition receiptRow :: "EmailRow \<Rightarrow> Receipt \<Rightarrow> string option \<Rightarrow> instant \<Rightarrow> string \<Rightarrow> EmailRow \<Rightarrow> EmailRow" where
  "receiptRow item sent providerAcceptedAt nextAttemptAt errorMessage r =
     (releasedRow r)\<lparr>em_attempts := em_attempts r + 1, em_status := PENDING, em_nextAttemptAt := nextAttemptAt,
       em_lastError := Some (''Finalizzazione locale email non riuscita: '' @ errorMessage),
       em_meta := Some (withMeta item (receiptFields sent providerAcceptedAt))\<rparr>"

definition keepReceipt ::
  "'z mail_db_scheme mail_env \<Rightarrow> ('z mail_db_scheme \<Rightarrow> instant) \<Rightarrow> EmailRow \<Rightarrow> string \<Rightarrow> Receipt \<Rightarrow> string option \<Rightarrow> app_error \<Rightarrow> (app_error, 'z mail_db_scheme, unit) prog" where
  "keepReceipt U currentTime item token sent providerAcceptedAt e =
     bindP (getsP currentTime) (\<lambda>failureAt.
       seqP (stmtP U) (bindP (updateQueue (ownedBy (em_id item) token)
           (receiptRow item sent providerAcceptedAt (failureAt + retryDelayMs (em_attempts item + 1)) (messageOf U e))) (\<lambda>_. returnP ())))"

section \<open>The worker\<close>

definition finalizeSent ::
  "'z mail_db_scheme mail_env \<Rightarrow> ('z mail_db_scheme \<Rightarrow> instant) \<Rightarrow> EmailRow \<Rightarrow> string \<Rightarrow> Target \<Rightarrow> Receipt \<Rightarrow> string option \<Rightarrow> (app_error, 'z mail_db_scheme, unit) prog" where
  "finalizeSent U currentTime item token target accepted providerAcceptedAt =
     (let finalizationItem = (if em_type item = noticeType then item\<lparr>em_meta := Some (withMeta item (receiptFields accepted providerAcceptedAt))\<rparr> else item) in
      bindP (getsP currentTime) (\<lambda>finalizedAt.
        catchP (bindP (mailTxP U (finalizeBody U item finalizationItem token target accepted providerAcceptedAt finalizedAt)) (\<lambda>_. returnP ()))
          (\<lambda>(_, e). keepReceipt U currentTime item token accepted providerAcceptedAt e)))"

definition acceptedTime ::
  "('z mail_db_scheme \<Rightarrow> instant) \<Rightarrow> EmailRow \<Rightarrow> 'z mail_db_scheme \<Rightarrow> string option" where
  "acceptedTime currentTime item s =
     (case metaString (metaOf item) ''providerAcceptedAt'' of
        Some t \<Rightarrow> Some t
      | None \<Rightarrow> if em_type item = noticeType then None else Some (toISOString (currentTime s)))"

text \<open>One claimed row: its message is sent, or its receipt is taken, and the outcome is committed.\<close>

definition settleItem ::
  "'z mail_db_scheme mail_env \<Rightarrow> ('z mail_db_scheme \<Rightarrow> instant) \<Rightarrow> EmailRow \<Rightarrow> string \<Rightarrow> Target \<Rightarrow> EmailAttachment list \<Rightarrow> string option \<Rightarrow>
    (app_error, 'z mail_db_scheme, unit) prog" where
  "settleItem U currentTime item token target attachments early =
     bindP (settleP (obtainReceipt U currentTime item token attachments)) (\<lambda>outcome.
       case outcome of
         Inl (started, e) \<Rightarrow> failDelivery U currentTime item token target started e
       | Inr None \<Rightarrow> returnP ()
       | Inr (Some accepted) \<Rightarrow>
           bindP (getsP (\<lambda>s. if em_type item = noticeType \<and> storedReceipt item = None then Some (toISOString (currentTime s)) else early))
             (finalizeSent U currentTime item token target accepted))"

definition processItem ::
  "'z mail_db_scheme mail_env \<Rightarrow> ('z mail_db_scheme \<Rightarrow> instant) \<Rightarrow> EmailRow \<Rightarrow> string \<Rightarrow> (app_error, 'z mail_db_scheme, unit) prog" where
  "processItem U currentTime item token =
     (case targetOf item of
        Inl e \<Rightarrow> failDelivery U currentTime item token NoTarget False e
      | Inr target \<Rightarrow>
          (case attachmentsOf U (metaOf item) of
             Inl e \<Rightarrow> failDelivery U currentTime item token target False e
           | Inr attachments \<Rightarrow> bindP (getsP (acceptedTime currentTime item)) (settleItem U currentTime item token target attachments)))"

definition claimRow :: "string \<Rightarrow> instant \<Rightarrow> EmailRow \<Rightarrow> EmailRow" where
  "claimRow token claimedAt r =
     r\<lparr>em_processingToken := Some token, em_processingStartedAt := Some claimedAt, em_leaseExpiresAt := Some (claimedAt + EMAIL_QUEUE_LEASE_MS)\<rparr>"

definition workOn ::
  "'z mail_db_scheme mail_env \<Rightarrow> ('z mail_db_scheme \<Rightarrow> instant) \<Rightarrow> string \<Rightarrow> string \<Rightarrow> (app_error, 'z mail_db_scheme, bool) prog" where
  "workOn U currentTime candidateId token =
     bindP (getsP (\<lambda>s. findFirst (ownedBy candidateId token) (emailQueue s))) (\<lambda>found.
       case found of
         None \<Rightarrow> throwP (PrismaError ''P2025'')
       | Some item \<Rightarrow> seqP (processItem U currentTime item token) (returnP True))"

definition processCandidate ::
  "'z mail_db_scheme mail_env \<Rightarrow> ('z mail_db_scheme \<Rightarrow> instant) \<Rightarrow> string \<Rightarrow> string \<Rightarrow> (app_error, 'z mail_db_scheme, bool) prog" where
  "processCandidate U currentTime candidateId token =
     bindP (getsP currentTime) (\<lambda>claimedAt.
     seqP (stmtP U)
     (bindP (updateQueue (\<lambda>r. em_id r = candidateId \<and> due claimedAt r) (claimRow token claimedAt)) (\<lambda>n.
       if n \<noteq> 1 then returnP False
       else seqP (stmtP U) (workOn U currentTime candidateId token))))"

definition clockSince :: "instant \<Rightarrow> instant \<Rightarrow> 'z mail_db_scheme \<Rightarrow> instant" where
  "clockSince now invocationWallClock s = now + max 0 (wallClock s - invocationWallClock)"

definition processPending ::
  "'z mail_db_scheme mail_env \<Rightarrow> instant \<Rightarrow> string list \<Rightarrow> nat option \<Rightarrow> (app_error, 'z mail_db_scheme, nat) prog" where
  "processPending U now ids limit =
     bindP (getsP wallClock) (\<lambda>invocationWallClock.
     seqP (stmtP U)
     (bindP (getsP (\<lambda>s. take (orElse limit 30) (sort_key em_createdAt
         (filter (\<lambda>r. due now r \<and> (ids \<noteq> [] \<longrightarrow> em_id r \<in> set ids)) (emailQueue s))))) (\<lambda>candidates.
       bindP (forEachP (\<lambda>(i, candidate). processCandidate U (clockSince now invocationWallClock) (em_id candidate) (me_uuid U i)) (enumerate 0 candidates))
         (\<lambda>claimed. returnP (length (filter (\<lambda>c. c) claimed))))))"

end
