(* ===== verification/Email_Guarantee.thy ===== *)
theory Email_Guarantee
  imports Email_Worker
begin

text \<open>
  What the email queue guarantees while other workers and requests run beside it.  The locale \<open>queue_invariant\<close> states when an invariant of the
  tables is kept by a worker: it is kept by claims, by updates of a claimed row that do not send it, by requests to the provider, and by
  the commit of a sent row.  It is interpreted on the invariants of the queue.
\<close>

section \<open>Metadata\<close>

lemma map_of_replaced:
  "map_of (map (\<lambda>f. if fst f = k then (k, v) else f) fs) b = (if b = k then map_option (\<lambda>_. v) (map_of fs k) else map_of fs b)"
  by (induction fs) auto

lemma map_of_jset: "map_of (jset fs k v) a = (if a = k then Some v else map_of fs a)"
proof (cases "map_of fs k")
  case None
  then have "k \<notin> fst ` set fs" by (simp add: map_of_eq_None_iff)
  with None show ?thesis by (auto simp: jset_def map_add_def split: option.split)
next
  case (Some w)
  then have "k \<in> fst ` set fs" by (metis map_of_eq_None_iff option.distinct(1))
  with Some show ?thesis by (simp add: jset_def map_of_replaced)
qed

lemma map_of_jsets: "map_of (foldl (\<lambda>fs (k, v). jset fs k v) fs new) a = (case map_of (rev new) a of None \<Rightarrow> map_of fs a | Some v \<Rightarrow> Some v)"
  by (induction new rule: rev_induct) (auto simp: map_of_jset split: option.split)

lemma jprop_withMeta: "jprop (withMeta item new) k = (case map_of (rev new) k of None \<Rightarrow> jprop (metaOf item) k | Some v \<Rightarrow> Some v)"
  by (simp add: withMeta_def jprop_def metaOf_def map_of_jsets split: option.split)

lemma metaOf_withMeta [simp]: "em_meta r = Some (withMeta item new) \<Longrightarrow> metaOf r = withMeta item new"
  by (simp add: metaOf_def metaFields_def withMeta_def)

text \<open>A receipt is a function of the type and the metadata; storing the receipt a row has keeps it.\<close>

lemma storedReceipt_cong: "em_type r = em_type q \<Longrightarrow> em_meta r = em_meta q \<Longrightarrow> storedReceipt r = storedReceipt q"
  by (simp add: storedReceipt_def metaOf_def)

lemma storedReceipt_withMeta:
  assumes "em_type r = em_type item" and "em_meta r = Some (withMeta item (receiptFields receipt pa @ rest))"
    and "\<And>v. (''emailProvider'', v) \<notin> set rest" and "\<And>v. (''providerMessageId'', v) \<notin> set rest"
  shows "storedReceipt r = (if rc_provider receipt = ''resend'' \<and> truthy (rc_id receipt) \<and> (em_type item = noticeType \<longrightarrow> trim (the (rc_id receipt)) \<noteq> [])
    then Some receipt else None)"
proof -
  have n: "map_of (rev rest) ''emailProvider'' = None" "map_of (rev rest) ''providerMessageId'' = None"
    using assms(3,4) by (auto simp: map_of_eq_None_iff)
  then have "jprop (metaOf r) ''emailProvider'' = Some (JStr (rc_provider receipt))"
    "jprop (metaOf r) ''providerMessageId'' = Some (jstrOrNull (rc_id receipt))"
    using assms(2) by (simp_all add: jprop_withMeta receiptFields_def map_add_def)
  then show ?thesis
    using assms(1) by (cases receipt) (auto simp: storedReceipt_def Let_def metaString_def truthyText_def truthy_def jstrOrNull_def split: option.split)
qed

lemma storedReceipt_Some:
  "storedReceipt item = Some receipt \<Longrightarrow> rc_provider receipt = ''resend'' \<and> truthy (rc_id receipt) \<and>
    (em_type item = noticeType \<longrightarrow> trim (the (rc_id receipt)) \<noteq> [])"
  by (auto simp: storedReceipt_def Let_def metaString_def truthyText_def split: if_splits)

definition usableReceipt :: "string \<Rightarrow> Receipt \<Rightarrow> bool" where
  "usableReceipt ty receipt \<longleftrightarrow> rc_provider receipt = ''resend'' \<and> truthy (rc_id receipt) \<and> (ty = noticeType \<longrightarrow> trim (the (rc_id receipt)) \<noteq> [])"

lemma sentRow_receipt:
  assumes "fst ` set skipped \<subseteq> {''localFinalizationSkippedReason''}" and "em_type q = em_type item"
  shows "storedReceipt (sentRow item accepted pa skipped q) = (if usableReceipt (em_type item) accepted then Some accepted else None)"
proof -
  have k: "(''emailProvider'', v) \<notin> set skipped" "(''providerMessageId'', v) \<notin> set skipped" for v
    using assms(1) by force+
  have "storedReceipt (sentRow item accepted pa skipped q) = (if rc_provider accepted = ''resend'' \<and> truthy (rc_id accepted) \<and>
      (em_type item = noticeType \<longrightarrow> trim (the (rc_id accepted)) \<noteq> []) then Some accepted else None)"
    by (rule storedReceipt_withMeta [where rest = "(''sentAt'', jstrOrNull pa) # skipped" and pa = pa])
      (use assms(2) k in \<open>simp_all add: sentRow_def releasedRow_def\<close>)
  then show ?thesis by (simp add: usableReceipt_def)
qed

section \<open>What the parts of a run change\<close>

text \<open>The tables the invariants speak of: the queue, the requests to the provider, the contract events and the audit log.\<close>

definition mailFrame :: "'z mail_db_scheme \<Rightarrow> 'z mail_db_scheme \<Rightarrow> ContractEventRow list \<Rightarrow> AuditLogRow list \<Rightarrow> bool" where
  "mailFrame s t es as \<longleftrightarrow> emailQueue t = emailQueue s \<and> providerCalls t = providerCalls s \<and> contractEvents t = contractEvents s @ es \<and>
     auditLogs t = auditLogs s @ as"

lemma mailFrame_trans: "mailFrame s t es as \<Longrightarrow> mailFrame t u es' as' \<Longrightarrow> mailFrame s u (es @ es') (as @ as')"
  by (simp add: mailFrame_def)

lemma mailFrame_refl [simp]: "mailFrame s s [] []"
  by (simp add: mailFrame_def)

lemmas run_simps = bindP_Inr seqP_Inr whenP_Inr

lemma update_frames:
  "updateDelivery k l d s = (Inr x, t) \<Longrightarrow> mailFrame s t [] []"
  "updateContract k l c s = (Inr x, t) \<Longrightarrow> mailFrame s t [] []"
  "updateInvoice v l i s = (Inr x, t) \<Longrightarrow> mailFrame s t [] []"
  "updateInvoiceDelivery v l j s = (Inr x, t) \<Longrightarrow> mailFrame s t [] []"
  "createContractEvent e s = (Inr x, t) \<Longrightarrow> mailFrame s t [e] []"
  "createReminder item g b m err s = (Inr x, t) \<Longrightarrow> mailFrame s t [] []"
  by (auto simp: updateDelivery_def updateContract_def updateInvoice_def updateInvoiceDelivery_def createContractEvent_def createReminder_def
      requireSingleUpdate_def Let_def run_simps mailFrame_def)

definition eventsOf :: "EmailRow \<Rightarrow> Target \<Rightarrow> Receipt \<Rightarrow> ContractEventRow list" where
  "eventsOf item target accepted = (case target of OfContract k \<Rightarrow> [sentEvent item k accepted] | _ \<Rightarrow> [])"

lemma finalizeReminder_frame: "finalizeReminder item g stoppage moment s = (Inr x, t) \<Longrightarrow> mailFrame s t [] []"
  unfolding finalizeReminder_def Let_def run_simps requireSingleUpdate_def
  by (elim exE conjE) (drule update_frames, auto simp: mailFrame_def run_simps split: if_splits)

lemma finalizeTarget_frame:
  assumes "finalizeTarget item target stoppage accepted moment s = (Inr x, t)"
  shows "mailFrame s t (eventsOf item target accepted) []"
proof (cases target)
  case (OfContract k)
  then obtain u v where "mailFrame s u [] []" "mailFrame u v [] []" "mailFrame v t [sentEvent item k accepted] []"
    using assms by (auto simp: finalizeTarget_def finalizeContract_def seqP_Inr dest!: update_frames)
  then show ?thesis by (simp add: mailFrame_def OfContract eventsOf_def)
next
  case (OfReminder g)
  with assms show ?thesis by (cases stoppage) (auto simp: finalizeTarget_def eventsOf_def dest: finalizeReminder_frame)
next
  case (OfInvoice v)
  then obtain u where "mailFrame s u [] []" "mailFrame u t [] []"
    using assms by (auto simp: finalizeTarget_def finalizeInvoice_def seqP_Inr dest!: update_frames)
  then show ?thesis by (simp add: mailFrame_def OfInvoice eventsOf_def)
qed (use assms in \<open>auto simp: finalizeTarget_def eventsOf_def\<close>)

definition unsent :: "ContractEventRow list \<Rightarrow> bool" where
  "unsent es \<longleftrightarrow> list_all (\<lambda>e. ce_type e \<noteq> ''EMAIL_SENT'') es"

lemma failTarget_frame:
  assumes "failTarget item target stoppage hasAttemptsLeft moment msg s = (Inr x, t)"
  obtains es where "mailFrame s t es []" "unsent es"
proof (cases target)
  case (OfContract k)
  then obtain u where u: "mailFrame s u [] []" and rest: "if hasAttemptsLeft then t = u
      else \<exists>v e. mailFrame u v [] [] \<and> mailFrame v t [e] [] \<and> ce_type e = ''EMAIL_FAILED''"
    using assms by (fastforce simp: failTarget_def failContract_def seqP_Inr whenP_Inr split: if_splits dest!: update_frames)
  show thesis
  proof (cases hasAttemptsLeft)
    case True
    with u rest that [of "[]"] show thesis by (simp add: unsent_def)
  next
    case False
    with rest obtain v e where "mailFrame u v [] []" "mailFrame v t [e] []" "ce_type e = ''EMAIL_FAILED''" by auto
    with u that [of "[e]"] show thesis by (simp add: mailFrame_def unsent_def)
  qed
next
  case (OfReminder g)
  have "mailFrame s t [] []"
    using assms by (cases stoppage) (auto simp: OfReminder failTarget_def dest: update_frames)
  with that [of "[]"] show thesis by (simp add: unsent_def)
next
  case (OfInvoice v)
  then have "mailFrame s t [] []"
    using assms by (auto simp: failTarget_def failInvoice_def seqP_Inr whenP_Inr mailFrame_def split: if_splits dest!: update_frames)
  with that [of "[]"] show thesis by (simp add: unsent_def)
qed (use assms that [of "[]"] in \<open>auto simp: failTarget_def unsent_def\<close>)

lemma finalizeExtra_frame:
  assumes "finalizeExtraNotice U item context receipt acceptedAt s = (Inr x, t)"
  obtains as where "mailFrame s t [] as" "length as \<le> 1" "\<forall>r \<in> set as. jprop (al_details r) ''queueEmailId'' = Some (JStr (em_id item))"
proof -
  have "\<exists>as. mailFrame s t [] as \<and> length as \<le> 1 \<and> (\<forall>r \<in> set as. jprop (al_details r) ''queueEmailId'' = Some (JStr (em_id item)))"
    using assms
    by (auto simp: finalizeExtraNotice_def run_simps mailFrame_def createAuditLog_def Let_def jprop_def spreadFields_def
        split: option.splits if_splits)
  with that show thesis by blast
qed

definition finalStep ::
  "EmailRow \<Rightarrow> string \<Rightarrow> Target \<Rightarrow> Receipt \<Rightarrow> string option \<Rightarrow> 'z mail_db_scheme \<Rightarrow> 'z mail_db_scheme \<Rightarrow> bool" where
  "finalStep item token target accepted providerAcceptedAt s t \<longleftrightarrow>
     (\<exists>skipped as. countWhere (ownedBy (em_id item) token) (emailQueue s) = 1 \<and>
        fst ` set skipped \<subseteq> {''localFinalizationSkippedReason''} \<and>
        mailFrame (s\<lparr>emailQueue := updateMany (ownedBy (em_id item) token) (sentRow item accepted providerAcceptedAt skipped) (emailQueue s)\<rparr>)
          t (eventsOf item target accepted) as \<and>
        length as \<le> (if em_type item = noticeType then 1 else 0) \<and>
        (\<forall>r \<in> set as. jprop (al_details r) ''queueEmailId'' = Some (JStr (em_id item))))"

lemma skippedFields_keys: "fst ` set (skippedFields target stoppage extra) \<subseteq> {''localFinalizationSkippedReason''}"
  by (auto simp: skippedFields_def split: Target.splits option.splits if_splits)

lemma finalizeBody_step:
  assumes run: "finalizeBody U item fi token target accepted pa moment s = (Inr b, t)" and "em_id fi = em_id item"
  shows "if b then finalStep item token target accepted pa s t
    else countWhere (ownedBy (em_id item) token) (emailQueue s) \<noteq> 1 \<and>
      (\<exists>f. t = s\<lparr>emailQueue := updateMany (ownedBy (em_id item) token) f (emailQueue s)\<rparr>)"
proof -
  define n where "n = countWhere (ownedBy (em_id item) token) (emailQueue s)"
  define stoppage where "stoppage = (case target of OfReminder g \<Rightarrow> lockReminderFinalization g s | _ \<Rightarrow> None)"
  define extra where "extra = extraContextOf U item fi accepted s"
  define u where "u = s\<lparr>emailQueue := updateMany (ownedBy (em_id item) token) (sentRow item accepted pa (skippedFields target stoppage extra)) (emailQueue s)\<rparr>"
  from run have "(if n \<noteq> 1 then \<not> b \<and> t = u else b \<and> (\<exists>v x y. (case extra of None \<Rightarrow> returnP () | Some x \<Rightarrow> finalizeExtraNotice U fi x accepted
      (case truthyText pa of None \<Rightarrow> None | Some t \<Rightarrow> me_dateParse U t)) u = (Inr x, v) \<and> finalizeTarget item target stoppage accepted moment v = (Inr y, t)))"
    by (auto simp: finalizeBody_def run_simps updateQueue_def n_def stoppage_def extra_def u_def split: if_splits)
  then show ?thesis
  proof (cases "n = 1")
    case True
    with \<open>if n \<noteq> 1 then _ else _\<close> obtain v x y where b: b
      and ex: "(case extra of None \<Rightarrow> returnP () | Some x \<Rightarrow> finalizeExtraNotice U fi x accepted
        (case truthyText pa of None \<Rightarrow> None | Some t \<Rightarrow> me_dateParse U t)) u = (Inr x, v)"
      and tg: "finalizeTarget item target stoppage accepted moment v = (Inr y, t)" by auto
    have "\<exists>as. mailFrame u v [] as \<and> length as \<le> (if em_type item = noticeType then 1 else 0) \<and>
      (\<forall>r \<in> set as. jprop (al_details r) ''queueEmailId'' = Some (JStr (em_id item)))"
    proof (cases extra)
      case None
      with ex show ?thesis by (intro exI [of _ "[]"]) simp
    next
      case (Some c)
      then have "em_type item = noticeType" by (auto simp: extra_def extraContextOf_def split: if_splits)
      moreover from Some ex have "finalizeExtraNotice U fi c accepted (case truthyText pa of None \<Rightarrow> None | Some t \<Rightarrow> me_dateParse U t) u = (Inr x, v)" by simp
      then obtain as where "mailFrame u v [] as" "length as \<le> 1" "\<forall>r \<in> set as. jprop (al_details r) ''queueEmailId'' = Some (JStr (em_id fi))"
        by (rule finalizeExtra_frame)
      ultimately show ?thesis using assms(2) by auto
    qed
    then obtain as where as: "mailFrame u v [] as" "length as \<le> (if em_type item = noticeType then 1 else 0)"
      "\<forall>r \<in> set as. jprop (al_details r) ''queueEmailId'' = Some (JStr (em_id item))" by blast
    have "mailFrame u t (eventsOf item target accepted) as"
      using mailFrame_trans [OF as(1) finalizeTarget_frame [OF tg]] by simp
    then have "finalStep item token target accepted pa s t"
      unfolding finalStep_def u_def by (intro exI conjI) (use True as(2,3) skippedFields_keys [of target stoppage extra] in \<open>simp_all add: n_def\<close>)
    with b show ?thesis by simp
  next
    case False
    with \<open>if n \<noteq> 1 then _ else _\<close> show ?thesis by (auto simp: u_def n_def)
  qed
qed

section \<open>Invariants of the queue\<close>

text \<open>
  An update of a claimed row that does not send it: it concerns the pending row of the message alone, leaves its identifier and
  its type, and drops no receipt that the message had when it was claimed.
\<close>

definition mildUpdate :: "EmailRow \<Rightarrow> (EmailRow \<Rightarrow> bool) \<Rightarrow> (EmailRow \<Rightarrow> EmailRow) \<Rightarrow> bool" where
  "mildUpdate item P f \<longleftrightarrow> (\<forall>r. P r \<longrightarrow> em_id r = em_id item \<and> em_status r = PENDING \<and> em_id (f r) = em_id r \<and> em_type (f r) = em_type r \<and>
     em_status (f r) \<noteq> SENT \<and>
     (em_meta (f r) = em_meta r \<or> (storedReceipt item \<noteq> None \<longrightarrow> storedReceipt (item\<lparr>em_meta := em_meta (f r)\<rparr>) \<noteq> None)))"

lemma mild_claimed_row: "mildUpdate item (ownedBy (em_id item) token) (failedRow item b n m)"
  by (simp add: mildUpdate_def ownedBy_def failedRow_def releasedRow_def)

lemma mild_blocked_row: "storedReceipt item = None \<Longrightarrow> mildUpdate item (ownedBy (em_id item) token) (blockedRow item l w b)"
  by (simp add: mildUpdate_def ownedBy_def blockedRow_def releasedRow_def)

lemma mild_receipt_row:
  assumes "storedReceipt item = None \<or> storedReceipt item = Some accepted"
  shows "mildUpdate item (ownedBy (em_id item) token) (receiptRow item accepted pa n m)"
proof -
  have "storedReceipt (item\<lparr>em_meta := Some (withMeta item (receiptFields accepted pa))\<rparr>) \<noteq> None" if "storedReceipt item \<noteq> None"
    using that assms storedReceipt_Some [of item accepted] storedReceipt_withMeta [of "item\<lparr>em_meta := Some (withMeta item (receiptFields accepted pa))\<rparr>" item accepted pa "[]"]
    by auto
  then show ?thesis by (simp add: mildUpdate_def ownedBy_def receiptRow_def releasedRow_def)
qed

locale queue_invariant =
  fixes U :: "'z mail_db_scheme mail_env" and I :: "'z mail_db_scheme \<Rightarrow> bool" and Seen :: "EmailRow \<Rightarrow> bool"
  assumes keys: "I s \<Longrightarrow> distinct (map em_id (emailQueue s))"
    and seen: "I s \<Longrightarrow> r \<in> set (emailQueue s) \<Longrightarrow> Seen r"
    and others: "I s \<Longrightarrow> I (me_others U s)"
    and claimed: "I s \<Longrightarrow> I (s\<lparr>emailQueue := updateMany (\<lambda>r. em_id r = i \<and> due m r) (claimRow token m) (emailQueue s)\<rparr>)"
    and mild: "I s \<Longrightarrow> Seen item \<Longrightarrow> mildUpdate item P f \<Longrightarrow> I (s\<lparr>emailQueue := updateMany P f (emailQueue s)\<rparr>)"
    and called: "I s \<Longrightarrow> Seen item \<Longrightarrow> storedReceipt item = None \<Longrightarrow> pc_key c = Some (providerIdempotencyKey (em_id item)) \<Longrightarrow>
      I (s\<lparr>providerCalls := providerCalls s @ [c]\<rparr>)"
    and sent: "I s \<Longrightarrow> Seen item \<Longrightarrow> storedReceipt item = None \<or> storedReceipt item = Some accepted \<Longrightarrow> targetOf item = Inr target \<Longrightarrow>
      finalStep item token target accepted pa s t \<Longrightarrow> I t"
    and frame: "I s \<Longrightarrow> mailFrame s t es [] \<Longrightarrow> unsent es \<Longrightarrow> I t"
begin

lemma keeps_pauseP: "keeps I (pauseP U)"
  unfolding pauseP_def by (rule keeps_modifyP) (rule others)

lemma keeps_stmtP: "keeps I (stmtP U)"
  unfolding stmtP_def by (intro keeps_intros keeps_pauseP)

lemma keeps_mailTxP: "yields I body (\<lambda>_. I) \<Longrightarrow> keeps I (mailTxP U body)"
  using keeps_transactionP [of I body "me_outcome U"] others by (simp add: keeps_def mailTxP_def)

lemma keeps_updateQueue: "(\<And>s. I s \<Longrightarrow> I (s\<lparr>emailQueue := updateMany P f (emailQueue s)\<rparr>)) \<Longrightarrow> keeps I (updateQueue P f)"
  unfolding updateQueue_def by (intro keeps_intros keeps_modifyP)

lemma keeps_mild: "Seen item \<Longrightarrow> mildUpdate item P f \<Longrightarrow> keeps I (updateQueue P f)"
  by (rule keeps_updateQueue) (rule mild)

lemma keeps_gets_bind: "(\<And>s. I s \<Longrightarrow> I (snd (g (f s) s))) \<Longrightarrow> keeps I (bindP (getsP f) g)"
  by (simp add: keeps_def bindP_def getsP_def)

lemma keeps_sendEmail:
  assumes "Seen item" and "storedReceipt item = None"
  shows "keeps I (startDelivery U item atts)"
proof -
  have "keeps I (callProvider U msg (Some (providerIdempotencyKey (em_id item))))" for msg
    unfolding callProvider_def by (intro keeps_intros keeps_modifyP keeps_pauseP) (simp add: called [OF _ assms])
  moreover have "truthyText (Some (providerIdempotencyKey (em_id item))) = Some (providerIdempotencyKey (em_id item))"
    by (simp add: truthyText_def truthy_def providerIdempotencyKey_def)
  ultimately show ?thesis
    unfolding startDelivery_def sendEmail_def sendRequest_def Let_def by (auto intro!: keeps_intros split: ResendReply.split)
qed

lemma keeps_startOrBlock:
  assumes "Seen item" and "storedReceipt item = None" and "keeps I late"
  shows "keeps I (startOrBlock currentTime item token label lease late)"
  unfolding startOrBlock_def renewLease_def
  by (intro keeps_intros assms(3) keeps_mild [OF assms(1)] mild_blocked_row [OF assms(2)])
     (auto simp: mildUpdate_def ownedBy_def)

lemma keeps_hadSubscription: "keeps I (beforeStart (hadSubscription U t))"
  unfolding beforeStart_def hadSubscription_def by (intro keeps_intros keeps_stmtP)

lemma keeps_deliverAfter:
  assumes "keeps I body" and "keeps I start"
  shows "keeps I (deliverAfter U body start)"
  unfolding deliverAfter_def
  by (intro keeps_intros assms(2) keeps_mailTxP keeps_yields [OF assms(1)])

lemma keeps_obtainReceipt:
  assumes "Seen item"
  shows "keeps I (obtainReceipt U currentTime item token atts)"
proof (cases "storedReceipt item")
  case None
  note start = keeps_sendEmail [OF assms None]
  note sob = keeps_startOrBlock [OF assms None]
  have "keeps I (reportBody U currentTime EMAIL_QUEUE_LEASE_MS item token had)"
    "keeps I (reminderBody U currentTime EMAIL_QUEUE_LEASE_MS item token had)"
    "keeps I (noticeBody U currentTime EMAIL_QUEUE_LEASE_MS item token had)" for had
    unfolding reportBody_def reminderBody_def noticeBody_def by (intro keeps_intros sob)+
  then show ?thesis
    unfolding obtainReceipt_def Let_def None option.case dispatchScheduledReport_def dispatchReminderEmail_def dispatchExtraChargeNotice_def
    by (intro keeps_intros keeps_hadSubscription keeps_deliverAfter start)
next
  case (Some r)
  then show ?thesis by (simp add: obtainReceipt_def keeps_intros)
qed

lemma keeps_failDelivery:
  assumes "Seen item"
  shows "keeps I (failDelivery U currentTime item token target started e)"
proof -
  have "yields I (failBody item token target started left m n msg) (\<lambda>_. I)" for left m n msg
  proof (rule yieldsI)
    fix s x t assume s: "I s" and run: "failBody item token target started left m n msg s = (Inr x, t)"
    define u where "u = s\<lparr>emailQueue := updateMany (ownedBy (em_id item) token) (failedRow item left n msg) (emailQueue s)\<rparr>"
    have u: "I u" unfolding u_def by (rule mild [OF s assms mild_claimed_row])
    from run have "t = u \<or> (\<exists>st. failTarget item target st left m msg u = (Inr x, t))"
      by (auto simp: failBody_def run_simps updateQueue_def u_def split: if_splits)
    then show "I t"
    proof
      assume "\<exists>st. failTarget item target st left m msg u = (Inr x, t)"
      then obtain st where "failTarget item target st left m msg u = (Inr x, t)" ..
      then obtain es where "mailFrame u t es []" "unsent es" by (rule failTarget_frame)
      with u show "I t" by (rule frame)
    qed (simp add: u)
  qed
  then show ?thesis
    unfolding failDelivery_def Let_def
    by (intro keeps_intros keeps_mailTxP keeps_stmtP keeps_mild [OF assms mild_claimed_row])
qed

lemma keeps_finalizeSent:
  assumes "Seen item" and "storedReceipt item = None \<or> storedReceipt item = Some accepted" and "targetOf item = Inr target"
  shows "keeps I (finalizeSent U currentTime item token target accepted pa)"
proof -
  have "yields I (finalizeBody U item fi token target accepted pa m) (\<lambda>_. I)" if "em_id fi = em_id item" for fi m
  proof (rule yieldsI)
    fix s b t assume s: "I s" and run: "finalizeBody U item fi token target accepted pa m s = (Inr b, t)"
    show "I t"
    proof (cases b)
      case True
      with finalizeBody_step [OF run that] have "finalStep item token target accepted pa s t" by simp
      then show "I t" by (rule sent [OF s assms])
    next
      case False
      with finalizeBody_step [OF run that] obtain f where n: "countWhere (ownedBy (em_id item) token) (emailQueue s) \<noteq> 1"
        and t: "t = s\<lparr>emailQueue := updateMany (ownedBy (em_id item) token) f (emailQueue s)\<rparr>" by auto
      have "\<not> ownedBy (em_id item) token r" if r: "r \<in> set (emailQueue s)" for r
      proof
        assume o: "ownedBy (em_id item) token r"
        have "countWhere (ownedBy (em_id item) token) (emailQueue s) = 1"
          by (rule countWhere_key [where key = em_id and P = "ownedBy (em_id item) token", OF keys [OF s] r o]) (use o in \<open>simp add: ownedBy_def\<close>)
        with n show False by simp
      qed
      then have "updateMany (ownedBy (em_id item) token) f (emailQueue s) = emailQueue s" by (rule updateMany_id)
      then have "t = s" by (simp add: t)
      with s show "I t" by simp
    qed
  qed
  then show ?thesis
    unfolding finalizeSent_def Let_def keepReceipt_def
    by (intro keeps_intros keeps_mailTxP keeps_stmtP keeps_mild [OF assms(1) mild_receipt_row [OF assms(2)]]) simp
qed

lemma keeps_settleItem:
  assumes "Seen item" and t: "targetOf item = Inr target"
  shows "keeps I (settleItem U currentTime item token target atts early)"
proof (cases "storedReceipt item")
  case None
  then show ?thesis
    unfolding settleItem_def by (intro keeps_intros keeps_obtainReceipt keeps_failDelivery keeps_finalizeSent assms) simp
next
  case (Some r)
  have "keeps I (bindP (getsP (\<lambda>s. early)) (finalizeSent U currentTime item token target r))"
    by (intro keeps_intros keeps_finalizeSent assms) (simp add: Some)
  then show ?thesis by (simp add: settleItem_def obtainReceipt_def Some keeps_def settleP_def bindP_def returnP_def)
qed

lemma keeps_processItem: "Seen item \<Longrightarrow> keeps I (processItem U currentTime item token)"
  unfolding processItem_def by (intro keeps_intros keeps_failDelivery keeps_settleItem)

lemma keeps_workOn: "keeps I (workOn U currentTime i token)"
  unfolding workOn_def
proof (rule keeps_gets_bind)
  fix s assume s: "I s"
  show "I (snd ((case findFirst (ownedBy i token) (emailQueue s) of None \<Rightarrow> throwP (PrismaError ''P2025'')
    | Some item \<Rightarrow> seqP (processItem U currentTime item token) (returnP True)) s))"
  proof (cases "findFirst (ownedBy i token) (emailQueue s)")
    case (Some item)
    then have "Seen item" using seen [OF s] by (auto dest: find_Some_iff_mem)
    then have "keeps I (seqP (processItem U currentTime item token) (returnP True))"
      by (intro keeps_intros keeps_processItem)
    with s Some show ?thesis by (simp add: keeps_def)
  qed (simp add: throwP_def s)
qed

lemma keeps_processCandidate: "keeps I (processCandidate U currentTime i token)"
  unfolding processCandidate_def
  by (intro keeps_intros keeps_stmtP keeps_updateQueue claimed keeps_workOn)

lemma keeps_processPending: "keeps I (processPending U now ids limit)"
  unfolding processPending_def
  by (intro keeps_intros keeps_stmtP keeps_processCandidate)

lemma processPending_keeps: "processPending U now ids limit s = (q, t) \<Longrightarrow> I s \<Longrightarrow> I t"
  using keeps_processPending [of now ids limit] unfolding keeps_def by (metis snd_conv)

end

text \<open>An environment whose other requests keep an invariant.\<close>

definition othersKeep :: "('z mail_db_scheme \<Rightarrow> bool) \<Rightarrow> 'z mail_db_scheme mail_env \<Rightarrow> bool" where
  "othersKeep I U \<longleftrightarrow> (\<forall>s. I s \<longrightarrow> I (me_others U s))"

definition respecting :: "('z mail_db_scheme \<Rightarrow> bool) \<Rightarrow> 'z mail_db_scheme mail_env \<Rightarrow> 'z mail_db_scheme mail_env" where
  "respecting I U = U\<lparr>me_others := (\<lambda>s. if I s \<and> \<not> I (me_others U s) then s else me_others U s)\<rparr>"

lemma respecting_others: "I s \<Longrightarrow> I (me_others (respecting I U) s)"
  by (simp add: respecting_def)

lemma respecting_id: "othersKeep I U \<Longrightarrow> respecting I U = U"
  unfolding respecting_def othersKeep_def by (cases U) (auto simp: fun_eq_iff)

section \<open>Finished rows\<close>

definition finishedRow :: "EmailRow \<Rightarrow> 'z mail_db_scheme \<Rightarrow> bool" where
  "finishedRow r s \<longleftrightarrow> em_status r \<noteq> PENDING \<and> distinct (map em_id (emailQueue s)) \<and> r \<in> set (emailQueue s)"

lemma finishedRow_update:
  assumes "finishedRow r s" and "\<And>q. P q \<Longrightarrow> em_status q = PENDING" and "\<And>q. P q \<Longrightarrow> em_id (f q) = em_id q" and "emailQueue t = updateMany P f (emailQueue s)"
  shows "finishedRow r t"
proof -
  have "\<not> P r" using assms(1,2) by (auto simp: finishedRow_def)
  with assms show ?thesis by (simp add: finishedRow_def map_key_updateMany mem_updateMany)
qed

lemma finalStep_queue:
  assumes "finalStep item token target accepted pa s t"
  obtains skipped where "emailQueue t = updateMany (ownedBy (em_id item) token) (sentRow item accepted pa skipped) (emailQueue s)"
    "fst ` set skipped \<subseteq> {''localFinalizationSkippedReason''}" "providerCalls t = providerCalls s"
  using assms by (auto simp: finalStep_def mailFrame_def)

interpretation finished: queue_invariant "respecting (finishedRow r) U" "finishedRow r" "\<lambda>_. True" for r U
proof
  fix s :: "'a mail_db_scheme" and i m token
  assume "finishedRow r s"
  then show "finishedRow r (s\<lparr>emailQueue := updateMany (\<lambda>q. em_id q = i \<and> due m q) (claimRow token m) (emailQueue s)\<rparr>)"
    by (rule finishedRow_update) (auto simp: due_def claimRow_def)
next
  fix s :: "'a mail_db_scheme" and item P f
  assume "finishedRow r s" and "mildUpdate item P f"
  then show "finishedRow r (s\<lparr>emailQueue := updateMany P f (emailQueue s)\<rparr>)"
    by (elim finishedRow_update) (auto simp: mildUpdate_def)
next
  fix s t :: "'a mail_db_scheme" and item token target accepted pa
  assume "finishedRow r s" and "finalStep item token target accepted pa s t"
  then show "finishedRow r t"
    by (elim finalStep_queue finishedRow_update) (auto simp: ownedBy_def sentRow_def releasedRow_def)
next
  fix s :: "'a mail_db_scheme"
  assume "finishedRow r s"
  then show "finishedRow r (me_others (respecting (finishedRow r) U) s)" by (rule respecting_others)
qed (auto simp: finishedRow_def mailFrame_def)

section \<open>Stored receipts\<close>

definition callsFor :: "string \<Rightarrow> 'z mail_db_scheme \<Rightarrow> nat" where
  "callsFor i s = countWhere (\<lambda>c. pc_key c = Some (providerIdempotencyKey i)) (providerCalls s)"

lemma providerIdempotencyKey_inj: "providerIdempotencyKey i = providerIdempotencyKey j \<longleftrightarrow> i = j"
  by (simp add: providerIdempotencyKey_def)

definition hasReceipt :: "string \<Rightarrow> string \<Rightarrow> EmailRow \<Rightarrow> bool" where
  "hasReceipt i ty r \<longleftrightarrow> (em_id r = i \<longrightarrow> em_type r = ty \<and> storedReceipt r \<noteq> None)"

definition receiptStored :: "string \<Rightarrow> string \<Rightarrow> nat \<Rightarrow> 'z mail_db_scheme \<Rightarrow> bool" where
  "receiptStored i ty n s \<longleftrightarrow> distinct (map em_id (emailQueue s)) \<and> (\<forall>r \<in> set (emailQueue s). hasReceipt i ty r) \<and> callsFor i s = n"

lemma receiptStored_update:
  assumes "receiptStored i ty n s" and "emailQueue t = updateMany P f (emailQueue s)" and "providerCalls t = providerCalls s"
    and "\<And>r. P r \<Longrightarrow> em_id (f r) = em_id r" and "\<And>r. P r \<Longrightarrow> em_type (f r) = em_type r"
    and "\<And>r. r \<in> set (emailQueue s) \<Longrightarrow> P r \<Longrightarrow> em_id r = i \<Longrightarrow> storedReceipt (f r) \<noteq> None"
  shows "receiptStored i ty n t"
  using assms by (auto simp: receiptStored_def hasReceipt_def callsFor_def map_key_updateMany in_updateMany)

interpretation receipts: queue_invariant "respecting (receiptStored i ty n) U" "receiptStored i ty n" "hasReceipt i ty" for i ty n U
proof
  fix s :: "'a mail_db_scheme" and j m token
  assume s: "receiptStored i ty n s"
  show "receiptStored i ty n (s\<lparr>emailQueue := updateMany (\<lambda>q. em_id q = j \<and> due m q) (claimRow token m) (emailQueue s)\<rparr>)"
  proof (rule receiptStored_update [where P = "\<lambda>q. em_id q = j \<and> due m q" and f = "claimRow token m", OF s])
    fix r assume "r \<in> set (emailQueue s)" "em_id r = i"
    moreover have "storedReceipt (claimRow token m r) = storedReceipt r" by (rule storedReceipt_cong) (simp_all add: claimRow_def)
    ultimately show "storedReceipt (claimRow token m r) \<noteq> None" using s by (simp add: receiptStored_def hasReceipt_def)
  qed (simp_all add: claimRow_def)
next
  fix s :: "'a mail_db_scheme" and item P f
  assume s: "receiptStored i ty n s" and item: "hasReceipt i ty item" and mild: "mildUpdate item P f"
  show "receiptStored i ty n (s\<lparr>emailQueue := updateMany P f (emailQueue s)\<rparr>)"
  proof (rule receiptStored_update [where P = P and f = f, OF s])
    fix r assume r: "r \<in> set (emailQueue s)" "P r" "em_id r = i"
    with s have rr: "em_type r = ty" "storedReceipt r \<noteq> None" by (auto simp: receiptStored_def hasReceipt_def)
    have "em_id item = i" using mild r by (simp add: mildUpdate_def)
    with item have it: "em_type item = ty" "storedReceipt item \<noteq> None" by (simp_all add: hasReceipt_def)
    show "storedReceipt (f r) \<noteq> None"
    proof (cases "em_meta (f r) = em_meta r")
      case True
      then have "storedReceipt (f r) = storedReceipt r" using mild r(2) by (intro storedReceipt_cong) (simp_all add: mildUpdate_def)
      with rr(2) show ?thesis by simp
    next
      case False
      then have "storedReceipt (item\<lparr>em_meta := em_meta (f r)\<rparr>) \<noteq> None" using mild r(2) it(2) by (auto simp: mildUpdate_def)
      moreover have "storedReceipt (f r) = storedReceipt (item\<lparr>em_meta := em_meta (f r)\<rparr>)"
        using mild r(2) rr(1) it(1) by (intro storedReceipt_cong) (simp_all add: mildUpdate_def)
      ultimately show ?thesis by simp
    qed
  qed (use mild in \<open>simp_all add: mildUpdate_def\<close>)
next
  fix s :: "'a mail_db_scheme" and item and c :: ProviderCall
  assume "receiptStored i ty n s" "hasReceipt i ty item" "storedReceipt item = None" "pc_key c = Some (providerIdempotencyKey (em_id item))"
  then show "receiptStored i ty n (s\<lparr>providerCalls := providerCalls s @ [c]\<rparr>)"
    by (auto simp: receiptStored_def hasReceipt_def callsFor_def countWhere_def providerIdempotencyKey_inj)
next
  fix s t :: "'a mail_db_scheme" and item accepted target token pa
  assume s: "receiptStored i ty n s" and item: "hasReceipt i ty item" and r: "storedReceipt item = None \<or> storedReceipt item = Some accepted"
    and step: "finalStep item token target accepted pa s t"
  obtain skipped where q: "emailQueue t = updateMany (ownedBy (em_id item) token) (sentRow item accepted pa skipped) (emailQueue s)"
    "fst ` set skipped \<subseteq> {''localFinalizationSkippedReason''}" "providerCalls t = providerCalls s"
    using step by (rule finalStep_queue)
  show "receiptStored i ty n t"
  proof (rule receiptStored_update [OF s q(1,3)])
    fix q' assume q': "q' \<in> set (emailQueue s)" "ownedBy (em_id item) token q'" "em_id q' = i"
    then have i: "em_id item = i" by (simp add: ownedBy_def)
    with item r have it: "em_type item = ty" "storedReceipt item = Some accepted" by (auto simp: hasReceipt_def)
    have "em_type q' = ty" using s q' by (simp add: receiptStored_def hasReceipt_def)
    then have "storedReceipt (sentRow item accepted pa skipped q') = Some accepted"
      using sentRow_receipt [OF q(2), of q' item accepted pa] storedReceipt_Some [OF it(2)] it(1) by (simp add: usableReceipt_def)
    then show "storedReceipt (sentRow item accepted pa skipped q') \<noteq> None" by simp
  qed (simp_all add: sentRow_def releasedRow_def)
next
  fix s :: "'a mail_db_scheme"
  assume "receiptStored i ty n s"
  then show "receiptStored i ty n (me_others (respecting (receiptStored i ty n) U) s)" by (rule respecting_others)
qed (auto simp: receiptStored_def mailFrame_def callsFor_def)

section \<open>Local effects happen once\<close>

definition isSent :: "string \<Rightarrow> EmailRow list \<Rightarrow> bool" where
  "isSent i rows \<longleftrightarrow> list_ex (\<lambda>r. em_id r = i \<and> em_status r = SENT) rows"

definition sentCount :: "string \<Rightarrow> ContractEventRow list \<Rightarrow> nat" where
  "sentCount i es = countWhere (\<lambda>e. ce_type e = ''EMAIL_SENT'' \<and> jprop (ce_details e) ''queueEmailId'' = Some (JStr i)) es"

definition noticeCount :: "string \<Rightarrow> AuditLogRow list \<Rightarrow> nat" where
  "noticeCount i as = countWhere (\<lambda>r. al_action r = acceptedAction \<and> jprop (al_details r) ''queueEmailId'' = Some (JStr i)) as"

text \<open>\<open>T\<close> gives the type of each message, which never changes.\<close>

definition accounted :: "(string \<Rightarrow> string) \<Rightarrow> 'z mail_db_scheme \<Rightarrow> bool" where
  "accounted T s \<longleftrightarrow> distinct (map em_id (emailQueue s)) \<and> (\<forall>r \<in> set (emailQueue s). em_type r = T (em_id r)) \<and>
     (\<forall>i. sentCount i (contractEvents s) = (if isSent i (emailQueue s) \<and> T i = ''BOOKING_CONTRACT'' then 1 else 0)) \<and>
     (\<forall>i. noticeCount i (auditLogs s) \<le> (if isSent i (emailQueue s) \<and> T i = noticeType then 1 else 0))"

lemma isSent_update:
  assumes "\<And>r. P r \<Longrightarrow> em_status r = PENDING" and "\<And>r. P r \<Longrightarrow> em_id (f r) = em_id r" and "\<And>r. P r \<Longrightarrow> em_status (f r) \<noteq> SENT"
  shows "isSent i (updateMany P f rows) \<longleftrightarrow> isSent i rows"
  using assms by (induction rows) (auto simp: isSent_def updateMany_def)

lemma accounted_update:
  assumes "accounted T s" and "\<And>r. P r \<Longrightarrow> em_status r = PENDING" and "\<And>r. P r \<Longrightarrow> em_id (f r) = em_id r" and "\<And>r. P r \<Longrightarrow> em_type (f r) = em_type r"
    and "\<And>r. P r \<Longrightarrow> em_status (f r) \<noteq> SENT"
  shows "accounted T (s\<lparr>emailQueue := updateMany P f (emailQueue s)\<rparr>)"
  using assms(1) isSent_update [where P = P and f = f, OF assms(2,3,5)] assms(3,4) by (simp add: accounted_def map_key_updateMany ball_updateMany)

lemma targetOf_contract: "targetOf item = Inr target \<Longrightarrow> (\<exists>k. target = OfContract k) \<longleftrightarrow> em_type item = ''BOOKING_CONTRACT''"
  by (auto simp: targetOf_def Let_def split: if_splits sum.splits)

lemma unsent_count: "unsent es \<Longrightarrow> sentCount i (rows @ es) = sentCount i rows"
  by (induction es arbitrary: rows) (auto simp: unsent_def sentCount_def countWhere_def filter_empty_conv)

lemma eventsOf_count:
  assumes "targetOf item = Inr target"
  shows "sentCount i (rows @ eventsOf item target accepted) =
    sentCount i rows + (if i = em_id item \<and> em_type item = ''BOOKING_CONTRACT'' then 1 else 0)"
proof (cases "em_type item = ''BOOKING_CONTRACT''")
  case True
  then obtain k where "target = OfContract k" using targetOf_contract [OF assms] by blast
  with True show ?thesis by (auto simp: sentCount_def countWhere_def eventsOf_def sentEvent_def jprop_def)
next
  case False
  then have "eventsOf item target accepted = []" using targetOf_contract [OF assms] by (auto simp: eventsOf_def split: Target.splits)
  with False show ?thesis by simp
qed

lemma noticeCount_append:
  assumes "length as \<le> (if em_type item = noticeType then 1 else 0)" and "\<forall>r \<in> set as. jprop (al_details r) ''queueEmailId'' = Some (JStr (em_id item))"
  shows "noticeCount i (rows @ as) \<le> noticeCount i rows + (if i = em_id item \<and> em_type item = noticeType then 1 else 0)"
proof -
  have "noticeCount i as \<le> (if i = em_id item \<and> em_type item = noticeType then 1 else 0)"
  proof (cases "i = em_id item")
    case True
    have "noticeCount i as \<le> length as" by (simp add: noticeCount_def countWhere_def)
    with True assms(1) show ?thesis by (auto intro: le_trans split: if_splits)
  next
    case False
    then have "filter (\<lambda>r. al_action r = acceptedAction \<and> jprop (al_details r) ''queueEmailId'' = Some (JStr i)) as = []"
      using assms(2) by (auto simp: filter_empty_conv)
    then show ?thesis by (simp add: noticeCount_def countWhere_def)
  qed
  then show ?thesis by (simp add: noticeCount_def countWhere_def)
qed

lemma accounted_sent:
  assumes s: "accounted T s" and ty: "em_type item = T (em_id item)" and target: "targetOf item = Inr target" and step: "finalStep item token target accepted pa s t"
  shows "accounted T t"
proof -
  define P where "P = ownedBy (em_id item) token"
  from step obtain skipped as where n: "countWhere P (emailQueue s) = 1"
    and fr: "emailQueue t = updateMany P (sentRow item accepted pa skipped) (emailQueue s)"
      "contractEvents t = contractEvents s @ eventsOf item target accepted" "auditLogs t = auditLogs s @ as"
    and as: "length as \<le> (if em_type item = noticeType then 1 else 0)" "\<forall>r \<in> set as. jprop (al_details r) ''queueEmailId'' = Some (JStr (em_id item))"
    by (auto simp: finalStep_def mailFrame_def P_def)
  obtain r where r: "r \<in> set (emailQueue s)" "P r" using n countWhere_pos [of P "emailQueue s"] by auto
  have new: "isSent i (emailQueue t) \<longleftrightarrow> isSent i (emailQueue s) \<or> i = em_id item" for i
  proof -
    have "isSent i (emailQueue t) \<longleftrightarrow> (\<exists>q \<in> set (emailQueue s). em_id q = i \<and> (P q \<or> em_status q = SENT))"
      unfolding isSent_def list_ex_iff fr(1) ex_updateMany by (rule bex_cong) (simp_all add: sentRow_def releasedRow_def)
    then show ?thesis using r by (auto simp: isSent_def list_ex_iff P_def ownedBy_def)
  qed
  have old: "\<not> isSent (em_id item) (emailQueue s)"
  proof
    assume "isSent (em_id item) (emailQueue s)"
    then obtain q where "q \<in> set (emailQueue s)" "em_id q = em_id item" "em_status q = SENT" by (auto simp: isSent_def list_ex_iff)
    moreover from this r have "q = r"
      using s distinct_key_unique [of em_id "emailQueue s" q r] by (auto simp: accounted_def P_def ownedBy_def)
    ultimately show False using r(2) by (simp add: P_def ownedBy_def)
  qed
  have keys: "map em_id (emailQueue t) = map em_id (emailQueue s)"
    unfolding fr(1) by (rule map_key_updateMany) (simp add: sentRow_def releasedRow_def)
  have types: "\<forall>q \<in> set (emailQueue t). em_type q = T (em_id q)"
    using s by (auto simp: accounted_def fr(1) ball_updateMany sentRow_def releasedRow_def)
  have events: "sentCount i (contractEvents t) = (if isSent i (emailQueue t) \<and> T i = ''BOOKING_CONTRACT'' then 1 else 0)" for i
    using s old by (auto simp: fr(2) eventsOf_count [OF target] new ty accounted_def)
  have notices: "noticeCount i (auditLogs t) \<le> (if isSent i (emailQueue t) \<and> T i = noticeType then 1 else 0)" for i
  proof -
    have "noticeCount i (auditLogs s) \<le> (if isSent i (emailQueue s) \<and> T i = noticeType then 1 else 0)" using s by (simp add: accounted_def)
    then show ?thesis
      using noticeCount_append [OF as, of i "auditLogs s"] old by (cases "i = em_id item") (auto simp: fr(3) new ty split: if_splits)
  qed
  show ?thesis using s keys types events notices by (simp add: accounted_def)
qed

interpretation accounting: queue_invariant "respecting (accounted T) U" "accounted T" "\<lambda>item. em_type item = T (em_id item)" for T U
proof
  fix s :: "'a mail_db_scheme" and i m token
  assume "accounted T s"
  then show "accounted T (s\<lparr>emailQueue := updateMany (\<lambda>q. em_id q = i \<and> due m q) (claimRow token m) (emailQueue s)\<rparr>)"
    by (rule accounted_update) (auto simp: due_def claimRow_def)
next
  fix s :: "'a mail_db_scheme" and item P f
  assume "accounted T s" "mildUpdate item P f"
  then show "accounted T (s\<lparr>emailQueue := updateMany P f (emailQueue s)\<rparr>)"
    by (elim accounted_update) (auto simp: mildUpdate_def)
next
  fix s t :: "'a mail_db_scheme" and item accepted target token pa
  assume "accounted T s" "em_type item = T (em_id item)" "targetOf item = Inr target" "finalStep item token target accepted pa s t"
  then show "accounted T t" by (rule accounted_sent)
next
  fix s t :: "'a mail_db_scheme" and es
  assume "accounted T s" "mailFrame s t es []" "unsent es"
  then show "accounted T t" by (simp add: accounted_def mailFrame_def unsent_count)
next
  fix s :: "'a mail_db_scheme"
  assume "accounted T s"
  then show "accounted T (me_others (respecting (accounted T) U) s)" by (rule respecting_others)
qed (auto simp: accounted_def)

end
