(* ===== verification/Email_Delivery.thy ===== *)
theory Email_Delivery
  imports Email_Guarantee
begin

text \<open>
  Properties of the email queue: finished rows never change, a message whose receipt is stored is never sent again, local effects happen
  once, and a message the provider has accepted keeps its receipt whatever becomes of the transaction that finalizes it.
\<close>

section \<open>Samples\<close>

definition samplePlain :: EmailRow where
  "samplePlain = \<lparr>em_id = ''q1'', em_tenantId = Some ''t1'', em_type = ''WELCOME'', em_deduplicationKey = None, em_recipient = ''a@b.it'',
     em_subject = ''s'', em_body = ''b'', em_meta = None, em_status = PENDING, em_attempts = 0, em_maxAttempts = 5, em_nextAttemptAt = 0,
     em_processingToken = None, em_processingStartedAt = None, em_leaseExpiresAt = None, em_lastError = None, em_createdAt = 0\<rparr>"

definition sampleMail :: "EmailRow list \<Rightarrow> mail_db" where
  "sampleMail rows = \<lparr>auditLogs = [], subscriptions = [], tenants = [], users = [], refreshSessions = [], resetTokens = [], emailQueue = rows,
     contractDeliveries = [], bookingContracts = [], contractEvents = [], invoices = [], invoiceDeliveries = [], stoppages = [], reminders = [],
     sites = [], vehicles = [], workshops = [], extraCharges = [], rentalBookings = [], rentalCustomers = [], providerCalls = [], wallClock = 0\<rparr>"

definition sampleMailEnv :: "'z mail_db_scheme mail_env" where
  "sampleMailEnv = \<lparr>me_config = \<lparr>sc_environment = ''production'', sc_provider = ''resend'', sc_resendApiKey = Some ''k'', sc_resendFrom = Some ''f@b.it''\<rparr>,
     me_resend = (\<lambda>_ _ _. ResendData (Some ''m1'')), me_base64 = (\<lambda>_. []), me_dateParse = (\<lambda>_. None), me_hashOf = (\<lambda>_. ''h''),
     me_message = (\<lambda>_. ''e''), me_uuid = (\<lambda>_. ''w''), me_others = (\<lambda>s. s), me_fault = (\<lambda>_. None), me_outcome = (\<lambda>_. Commits)\<rparr>"

lemma sample_calm: "othersKeep I sampleMailEnv"
  by (simp add: othersKeep_def sampleMailEnv_def)

section \<open>Finished rows\<close>



section \<open>Local effects\<close>

lemma accounted_enqueue:
  assumes "accounted T s" and "T newId = qi_type input"
  shows "accounted T (snd (enqueue newId input s))"
proof (cases "\<exists>r \<in> set (emailQueue s). sameEmail r (queuedRow (wallClock s) newId None input)")
  case True
  then show ?thesis using assms(1) by (simp add: enqueue_def bindP_def getsP_def throwP_def)
next
  case False
  then have "newId \<notin> em_id ` set (emailQueue s)" by (auto simp: sameEmail_def queuedRow_def)
  with False assms show ?thesis
    by (auto simp: enqueue_def bindP_def getsP_def seqP_def modifyP_def returnP_def accounted_def isSent_def queuedRow_def)
qed



section \<open>Accepted messages\<close>



text \<open>Every row of a message is owned by the worker or has a receipt.\<close>

definition heldOrSent :: "string \<Rightarrow> string \<Rightarrow> string \<Rightarrow> 'z mail_db_scheme \<Rightarrow> bool" where
  "heldOrSent i ty token s \<longleftrightarrow> distinct (map em_id (emailQueue s)) \<and>
     (\<forall>r \<in> set (emailQueue s). em_id r = i \<longrightarrow> em_type r = ty \<and> (ownedBy i token r \<or> storedReceipt r \<noteq> None))"

text \<open>While a worker has the row, nobody else sends its message or takes the row away.\<close>

definition undisturbed :: "string \<Rightarrow> string \<Rightarrow> string \<Rightarrow> 'z mail_db_scheme mail_env \<Rightarrow> bool" where
  "undisturbed i ty token U \<longleftrightarrow> othersKeep (heldOrSent i ty token) U \<and> (\<forall>s. callsFor i (me_others U s) = callsFor i s)"

definition acceptsAll :: "string \<Rightarrow> 'z mail_db_scheme mail_env \<Rightarrow> bool" where
  "acceptsAll ty U \<longleftrightarrow> (\<forall>s msg key. case me_resend U s msg key of ResendData i \<Rightarrow> usableReceipt ty \<lparr>rc_provider = ''resend'', rc_id = i\<rparr> | _ \<Rightarrow> False)"

lemma heldOrSent_update:
  assumes "heldOrSent i ty token s" and "emailQueue t = updateMany P f (emailQueue s)"
    and "\<And>r. P r \<Longrightarrow> em_id (f r) = em_id r" and "\<And>r. P r \<Longrightarrow> em_type (f r) = em_type r"
    and "\<And>r. r \<in> set (emailQueue s) \<Longrightarrow> P r \<Longrightarrow> em_id r = i \<Longrightarrow> em_type r = ty \<Longrightarrow> ownedBy i token (f r) \<or> storedReceipt (f r) \<noteq> None"
  shows "heldOrSent i ty token t"
proof -
  have "em_type r = ty \<and> (ownedBy i token r \<or> storedReceipt r \<noteq> None)" if r: "r \<in> set (emailQueue t)" "em_id r = i" for r
  proof -
    from r(1) obtain q where q: "q \<in> set (emailQueue s)" "r = (if P q then f q else q)" unfolding assms(2) in_updateMany by blast
    have "em_id q = i" using r(2) q(2) assms(3) [of q] by (simp split: if_splits)
    then have h: "em_type q = ty" "ownedBy i token q \<or> storedReceipt q \<noteq> None" using assms(1) q(1) unfolding heldOrSent_def by blast+
    show ?thesis
    proof (cases "P q")
      case True
      with q assms(4) [OF True] assms(5) [OF q(1) True \<open>em_id q = i\<close> h(1)] h(1) show ?thesis by simp
    qed (use q h in simp)
  qed
  then show ?thesis using assms(1,3) by (simp add: heldOrSent_def assms(2) map_key_updateMany)
qed

lemma undisturbedD:
  assumes "undisturbed i ty token U"
  shows "heldOrSent i ty token s \<Longrightarrow> heldOrSent i ty token (me_others U s)" and "callsFor i (me_others U s) = callsFor i s"
  using assms by (auto simp: undisturbed_def othersKeep_def)

lemma callsFor_cong: "providerCalls t = providerCalls s \<Longrightarrow> callsFor i t = callsFor i s"
  by (simp add: callsFor_def)

text \<open>The requests for a message that a program makes are the only ones while nobody else sends it.\<close>

lemma calls_stmtP: "undisturbed i ty token U \<Longrightarrow> keeps (\<lambda>s. callsFor i s = n) (stmtP U)"
  unfolding stmtP_def pauseP_def by (intro keeps_intros keeps_modifyP) (simp add: undisturbedD)

lemma calls_updateQueue: "keeps (\<lambda>s. callsFor i s = n) (updateQueue P f)"
  unfolding updateQueue_def by (intro keeps_intros keeps_modifyP) (simp add: callsFor_def)

lemma calls_startOrBlock:
  "keeps (\<lambda>s. callsFor i s = n) late \<Longrightarrow> keeps (\<lambda>s. callsFor i s = n) (startOrBlock currentTime item token label lease late)"
  unfolding startOrBlock_def renewLease_def by (intro keeps_intros calls_updateQueue)

lemma calls_mailTxP:
  "undisturbed i ty token U \<Longrightarrow> yields (\<lambda>s. callsFor i s = n) body (\<lambda>_ s. callsFor i s = n) \<Longrightarrow> keeps (\<lambda>s. callsFor i s = n) (mailTxP U body)"
  using keeps_transactionP [of "\<lambda>s. callsFor i s = n" body "me_outcome U"] by (simp add: keeps_def mailTxP_def undisturbedD)

lemma calls_finalizeSent:
  assumes "undisturbed i ty token' U"
  shows "keeps (\<lambda>s. callsFor i s = n) (finalizeSent U currentTime item token target accepted pa)"
proof -
  have "yields (\<lambda>s. callsFor i s = n) (finalizeBody U item fi token target accepted pa m) (\<lambda>_ s. callsFor i s = n)" if "em_id fi = em_id item" for fi m
  proof (rule yieldsI)
    fix s b t assume n: "callsFor i s = n" and run: "finalizeBody U item fi token target accepted pa m s = (Inr b, t)"
    have "providerCalls t = providerCalls s"
      using finalizeBody_step [OF run that] by (auto simp: finalStep_def mailFrame_def split: if_splits)
    then show "callsFor i t = n" using n callsFor_cong by metis
  qed
  then show ?thesis
    unfolding finalizeSent_def Let_def keepReceipt_def by (intro keeps_intros calls_mailTxP [OF assms] calls_stmtP [OF assms] calls_updateQueue) simp
qed

lemma calls_failDelivery:
  assumes "undisturbed i ty token' U"
  shows "keeps (\<lambda>s. callsFor i s = n) (failDelivery U currentTime item token target started e)"
proof -
  have "yields (\<lambda>s. callsFor i s = n) (failBody item token target started left m w msg) (\<lambda>_ s. callsFor i s = n)" for left m w msg
  proof (rule yieldsI)
    fix s x t assume n: "callsFor i s = n" and run: "failBody item token target started left m w msg s = (Inr x, t)"
    define u where "u = s\<lparr>emailQueue := updateMany (ownedBy (em_id item) token) (failedRow item left w msg) (emailQueue s)\<rparr>"
    from run have "t = u \<or> (\<exists>st. failTarget item target st left m msg u = (Inr x, t))"
      by (auto simp: failBody_def run_simps updateQueue_def u_def split: if_splits)
    then have "providerCalls t = providerCalls u"
    proof
      assume "\<exists>st. failTarget item target st left m msg u = (Inr x, t)"
      then obtain st where "failTarget item target st left m msg u = (Inr x, t)" ..
      then obtain es where "mailFrame u t es []" by (rule failTarget_frame)
      then show ?thesis by (simp add: mailFrame_def)
    qed simp
    then show "callsFor i t = n" using n by (simp add: callsFor_def u_def)
  qed
  then show ?thesis
    unfolding failDelivery_def Let_def by (intro keeps_intros calls_mailTxP [OF assms] calls_stmtP [OF assms] calls_updateQueue)
qed

text \<open>A request that reaches the provider is accepted, and the row is still held then.\<close>

definition acceptedOnce :: "string \<Rightarrow> string \<Rightarrow> string \<Rightarrow> 'z mail_db_scheme \<Rightarrow> 'z mail_db_scheme \<Rightarrow> Receipt option \<Rightarrow> bool" where
  "acceptedOnce i ty token s t r \<longleftrightarrow>
     (case r of None \<Rightarrow> callsFor i t = callsFor i s
      | Some accepted \<Rightarrow> callsFor i t = Suc (callsFor i s) \<and> heldOrSent i ty token t \<and> usableReceipt ty accepted)"

lemma startDelivery_cases:
  assumes "startDelivery U item atts s = (r, t)"
  obtains "isl r" "t = s" | msg where "sendRequest U msg (Some (providerIdempotencyKey (em_id item))) s = (r, t)"
proof -
  have key: "truthyText (Some (providerIdempotencyKey i)) = Some (providerIdempotencyKey i)" for i
    by (simp add: truthyText_def truthy_def providerIdempotencyKey_def)
  from assms that show thesis
    unfolding startDelivery_def sendEmail_def Let_def SendEmailInput.simps key
    by (simp split: if_splits sum.splits; auto simp: throwP_def)
qed

lemma sendRequest_accepted:
  assumes "undisturbed i ty token U" and "acceptsAll ty U" and "heldOrSent i ty token s"
    and run: "sendRequest U msg (Some (providerIdempotencyKey i)) s = (r, t)"
  shows "acceptedOnce i ty token s t (case r of Inl e \<Rightarrow> None | Inr a \<Rightarrow> Some a)"
proof -
  define reply where "reply = me_resend U s msg (Some (providerIdempotencyKey i))"
  define u where "u = s\<lparr>providerCalls := providerCalls s @ [\<lparr>pc_message = msg, pc_key = Some (providerIdempotencyKey i), pc_reply = reply\<rparr>]\<rparr>"
  have "case reply of ResendData j \<Rightarrow> usableReceipt ty \<lparr>rc_provider = ''resend'', rc_id = j\<rparr> | _ \<Rightarrow> False"
    using assms(2) by (simp add: acceptsAll_def reply_def)
  then obtain j where j: "reply = ResendData j" "usableReceipt ty \<lparr>rc_provider = ''resend'', rc_id = j\<rparr>" by (cases reply) simp_all
  have "r = Inr \<lparr>rc_provider = ''resend'', rc_id = j\<rparr>" "t = me_others U u"
    using run j(1) by (simp_all add: sendRequest_def callProvider_def bindP_def getsP_def seqP_def modifyP_def pauseP_def returnP_def reply_def [symmetric] u_def)
  moreover have "callsFor i u = Suc (callsFor i s)" by (simp add: callsFor_def countWhere_def u_def)
  moreover have "heldOrSent i ty token u" using assms(3) by (simp add: heldOrSent_def u_def)
  ultimately show ?thesis using j(2) undisturbedD [OF assms(1)] by (simp add: acceptedOnce_def)
qed

lemma startDelivery_accepted:
  assumes "undisturbed (em_id item) ty token U" and "acceptsAll ty U" and "heldOrSent (em_id item) ty token s"
    and "startDelivery U item atts s = (r, t)"
  shows "acceptedOnce (em_id item) ty token s t (case r of Inl e \<Rightarrow> None | Inr a \<Rightarrow> Some a)"
  using assms(4)
proof (cases rule: startDelivery_cases)
  case 1
  then show ?thesis by (cases r) (simp_all add: acceptedOnce_def)
qed (rule sendRequest_accepted [OF assms(1-3)])

text \<open>A dispatcher's transaction that says to send keeps the row held.\<close>

definition guardOk :: "string \<Rightarrow> string \<Rightarrow> string \<Rightarrow> (app_error, 'z mail_db_scheme, bool) prog \<Rightarrow> bool" where
  "guardOk i ty token body \<longleftrightarrow> (\<forall>s r t. body s = (r, t) \<longrightarrow> callsFor i t = callsFor i s \<and> (r = Inr True \<longrightarrow> heldOrSent i ty token s \<longrightarrow> heldOrSent i ty token t))"

lemma guardOk_startOrBlock:
  assumes late: "\<And>s r t. late s = (r, t) \<Longrightarrow> t = s"
  shows "guardOk (em_id item) ty token (startOrBlock currentTime item token label lease late)"
  unfolding guardOk_def
proof (intro allI impI conjI)
  fix s r t assume run: "startOrBlock currentTime item token label lease late s = (r, t)"
  have "keeps (\<lambda>u. callsFor (em_id item) u = callsFor (em_id item) s) late"
    using late by (auto simp: keeps_def) (metis prod.collapse)
  from keepsD [OF calls_startOrBlock [OF this] refl run] show "callsFor (em_id item) t = callsFor (em_id item) s" .
  assume True: "r = Inr True" and held: "heldOrSent (em_id item) ty token s"
  define P where "P = (\<lambda>q. ownedBy (em_id item) token q \<and> (case em_leaseExpiresAt q of None \<Rightarrow> False | Some e \<Rightarrow> currentTime s < e))"
  define u where "u = s\<lparr>emailQueue := updateMany P (\<lambda>q. q\<lparr>em_leaseExpiresAt := Some (currentTime s + lease)\<rparr>) (emailQueue s)\<rparr>"
  have rl: "renewLease (em_id item) token (currentTime s) lease s = (Inr (countWhere P (emailQueue s) = 1), u)"
    by (simp add: renewLease_def updateQueue_def prog_defs P_def u_def)
  obtain lr u' where l: "late u = (lr, u')" by (cases "late u")
  with late have l: "late u = (lr, u)" by blast
  note steps = startOrBlock_def run_bindP(2) [where m = "getsP f" for f, OF run_getsP]
    run_bindP(2) [where m = "renewLease (em_id item) token (currentTime s) lease", OF rl]
  have "t = u"
  proof (cases "countWhere P (emailQueue s) = 1")
    case False
    then show ?thesis using run True by (simp add: steps run_returnP)
  next
    case ok: True
    show ?thesis
    proof (cases lr)
      case (Inl e)
      then show ?thesis using run True ok by (simp add: steps run_bindP(1) [where m = late, OF l [unfolded Inl]])
    next
      case (Inr reason)
      note late_run = run_bindP(2) [where m = late, OF l [unfolded Inr]]
      show ?thesis
      proof (cases reason)
        case None
        then show ?thesis using run True ok by (simp add: steps late_run run_returnP)
      next
        case (Some why)
        obtain w where w: "bindP (getsP currentTime) (\<lambda>blockedAt.
            seqP (updateQueue (ownedBy (em_id item) token) (blockedRow item label why blockedAt)) (returnP False)) u = (Inr False, w)"
          by (simp add: updateQueue_def prog_defs)
        have "startOrBlock currentTime item token label lease late s = (Inr False, w)"
          using ok w by (simp add: steps late_run Some)
        then show ?thesis using run True by simp
      qed
    qed
  qed
  then have "emailQueue t = updateMany P (\<lambda>q. q\<lparr>em_leaseExpiresAt := Some (currentTime s + lease)\<rparr>) (emailQueue s)" by (simp add: u_def)
  then show "heldOrSent (em_id item) ty token t"
    by (rule heldOrSent_update [OF held]) (auto simp: P_def ownedBy_def)
qed

lemma deliverAfter_accepted:
  assumes und: "undisturbed i ty token U" and body: "guardOk i ty token body" and held: "heldOrSent i ty token s"
    and start: "\<And>s r t. start s = (r, t) \<Longrightarrow> heldOrSent i ty token s \<Longrightarrow> acceptedOnce i ty token s t (case r of Inl e \<Rightarrow> None | Inr a \<Rightarrow> Some a)"
    and run: "deliverAfter U body start s = (r, t)"
  shows "acceptedOnce i ty token s t (case r of Inr (Some a) \<Rightarrow> Some a | _ \<Rightarrow> None)"
proof -
  define s0 where "s0 = me_others U s"
  have s0: "heldOrSent i ty token s0" "callsFor i s0 = callsFor i s" by (simp_all add: s0_def undisturbedD [OF und] held)
  obtain q u where q: "body s0 = (q, u)" by (cases "body s0")
  have u: "callsFor i u = callsFor i s" "q = Inr True \<Longrightarrow> heldOrSent i ty token u"
    using body [unfolded guardOk_def, rule_format, OF q] s0 by simp_all
  obtain g v where g: "catchP (mailTxP U body) (\<lambda>(started, e). if started = Some True then returnP True else throwP (False, e)) s = (g, v)"
    by (cases "catchP (mailTxP U body) (\<lambda>(started, e). if started = Some True then returnP True else throwP (False, e)) s")
  have "(v = s0 \<or> v = u) \<and> (g = Inr True \<longrightarrow> q = Inr True)"
  proof (cases q)
    case (Inl e)
    with q g show ?thesis by (auto simp: catchP_def mailTxP_def transactionP_def s0_def [symmetric] throwP_def)
  next
    case (Inr b)
    with q g show ?thesis
      by (cases "me_outcome U u"; cases b) (auto simp: catchP_def mailTxP_def transactionP_def s0_def [symmetric] throwP_def returnP_def)
  qed
  then have v: "callsFor i v = callsFor i s" "g = Inr True \<Longrightarrow> heldOrSent i ty token v" using s0 u by auto
  show ?thesis
  proof (cases "g = Inr True")
    case True
    obtain r1 w where st: "start v = (r1, w)" by (cases "start v")
    have "r = (case r1 of Inl e \<Rightarrow> Inl (True, e) | Inr a \<Rightarrow> Inr (Some a)) \<and> t = w"
      using run g True st by (cases r1) (simp_all add: deliverAfter_def bindP_def catchP_def throwP_def returnP_def)
    then show ?thesis using start [OF st v(2) [OF True]] v(1) by (cases r1) (auto simp: acceptedOnce_def)
  next
    case False
    then have "t = v \<and> (\<forall>a. r \<noteq> Inr (Some a))"
      using run g by (cases g) (auto simp: deliverAfter_def bindP_def returnP_def)
    with v(1) show ?thesis by (auto simp: acceptedOnce_def split: sum.split option.split)
  qed
qed

lemma guardOk_gets: "(\<And>x. guardOk i ty token (f x)) \<Longrightarrow> guardOk i ty token (bindP (getsP g) f)"
  by (simp add: guardOk_def bindP_def getsP_def)

lemma guardOk_throw: "guardOk i ty token (throwP e)"
  by (simp add: guardOk_def throwP_def)

lemma guardOk_sum: "(\<And>e. guardOk i ty token (f e)) \<Longrightarrow> (\<And>y. guardOk i ty token (g y)) \<Longrightarrow> guardOk i ty token (case x of Inl e \<Rightarrow> f e | Inr y \<Rightarrow> g y)"
  by (cases x) simp_all

lemma guardOk_bodies:
  "guardOk (em_id item) ty token (reportBody U currentTime lease item token had)"
  "guardOk (em_id item) ty token (reminderBody U currentTime lease item token had)"
  "guardOk (em_id item) ty token (noticeBody U currentTime lease item token had)"
  unfolding reportBody_def reminderBody_def noticeBody_def case_prod_beta
  by (intro guardOk_gets guardOk_sum guardOk_throw guardOk_startOrBlock;
      auto simp: prog_defs split: option.splits)+

lemma hadSubscription_held:
  assumes "undisturbed i ty token U" and "heldOrSent i ty token s" and "beforeStart (hadSubscription U tid) s = (r, t)"
  shows "heldOrSent i ty token t \<and> callsFor i t = callsFor i s"
proof -
  have "t = s \<or> t = me_others U s"
    using assms(3) by (auto simp: beforeStart_def hadSubscription_def catchP_def stmtP_def pauseP_def prog_defs
        split: option.splits prod.splits sum.splits)
  then show ?thesis using assms(1,2) undisturbedD by metis
qed

lemma obtainReceipt_accepted:
  assumes und: "undisturbed (em_id item) ty token U" and acc: "acceptsAll ty U" and held: "heldOrSent (em_id item) ty token s"
    and none: "storedReceipt item = None" and run: "obtainReceipt U currentTime item token atts s = (r, t)"
  shows "acceptedOnce (em_id item) ty token s t (case r of Inr (Some a) \<Rightarrow> Some a | _ \<Rightarrow> None)"
proof -
  let ?start = "startDelivery U item atts"
  note start = startDelivery_accepted [OF und acc]
  have guarded: "acceptedOnce (em_id item) ty token s t (case r of Inr (Some a) \<Rightarrow> Some a | _ \<Rightarrow> None)"
    if body: "\<And>had. guardOk (em_id item) ty token (body had)"
      and d: "bindP (beforeStart (hadSubscription U tid)) (\<lambda>had. deliverAfter U (body had) ?start) s = (r, t)" for tid body
  proof -
    obtain h u where h: "beforeStart (hadSubscription U tid) s = (h, u)" by (cases "beforeStart (hadSubscription U tid) s")
    have u: "heldOrSent (em_id item) ty token u" "callsFor (em_id item) u = callsFor (em_id item) s"
      using hadSubscription_held [OF und held h] by simp_all
    show ?thesis
    proof (cases h)
      case (Inl e)
      then show ?thesis using d u(2) h by (auto simp: bindP_def acceptedOnce_def)
    next
      case (Inr had)
      then have "deliverAfter U (body had) ?start u = (r, t)" using d h by (simp add: bindP_def)
      from deliverAfter_accepted [OF und body u(1) start this] u(2) show ?thesis
        by (auto simp: acceptedOnce_def split: sum.splits option.splits)
    qed
  qed
  show ?thesis
  proof (cases "em_type item = ''SCHEDULED_REPORT'' \<or> em_type item = ''REMINDER_EMAIL'' \<or> em_type item = noticeType")
    case True
    then show ?thesis
      using run guarded [OF guardOk_bodies(1)] guarded [OF guardOk_bodies(2)] guarded [OF guardOk_bodies(3)]
      by (auto simp: obtainReceipt_def none Let_def dispatchScheduledReport_def dispatchReminderEmail_def dispatchExtraChargeNotice_def split: if_splits)
  next
    case False
    obtain r1 w where st: "?start s = (r1, w)" by (cases "?start s")
    have "r = (case r1 of Inl e \<Rightarrow> Inl (True, e) | Inr a \<Rightarrow> Inr (Some a)) \<and> t = w"
      using run False st by (cases r1) (simp_all add: obtainReceipt_def none Let_def bindP_def catchP_def throwP_def returnP_def)
    then show ?thesis using start [OF held st] by (cases r1) auto
  qed
qed

text \<open>Storing a usable receipt in the held row leaves no row of the message without one.\<close>

definition allReceipts :: "string \<Rightarrow> string \<Rightarrow> 'z mail_db_scheme \<Rightarrow> bool" where
  "allReceipts i ty s \<longleftrightarrow> distinct (map em_id (emailQueue s)) \<and> (\<forall>r \<in> set (emailQueue s). hasReceipt i ty r)"

lemma allReceipts_held: "allReceipts i ty s \<Longrightarrow> heldOrSent i ty token s"
  by (auto simp: allReceipts_def heldOrSent_def hasReceipt_def)

lemma held_stores:
  assumes w: "heldOrSent i ty token w" and v: "emailQueue v = updateMany (ownedBy i token) f (emailQueue w)"
    and f: "\<And>r. em_id (f r) = em_id r" "\<And>r. em_type (f r) = em_type r" "\<And>r. em_type r = ty \<Longrightarrow> storedReceipt (f r) \<noteq> None"
  shows "allReceipts i ty v"
proof -
  have "hasReceipt i ty r" if r: "r \<in> set (emailQueue v)" for r
  proof -
    from r obtain q where q: "q \<in> set (emailQueue w)" "r = (if ownedBy i token q then f q else q)" unfolding v in_updateMany by blast
    have "em_id q = em_id r" using q(2) f(1) by simp
    then show ?thesis
      using w q f(2) [of q] f(3) [of q] by (cases "ownedBy i token q") (auto simp: heldOrSent_def hasReceipt_def)
  qed
  then show ?thesis using w f(1) by (simp add: allReceipts_def heldOrSent_def v map_key_updateMany)
qed

lemma finalizeBody_receipt:
  assumes held: "heldOrSent (em_id item) ty token s" and ty: "em_type item = ty" and usable: "usableReceipt ty accepted"
    and fi: "em_id fi = em_id item" and run: "finalizeBody U item fi token target accepted pa m s = (Inr b, t)"
  shows "allReceipts (em_id item) ty t"
proof (cases b)
  case True
  with finalizeBody_step [OF run fi] have "finalStep item token target accepted pa s t" by simp
  then obtain skipped where k: "emailQueue t = updateMany (ownedBy (em_id item) token) (sentRow item accepted pa skipped) (emailQueue s)"
    "fst ` set skipped \<subseteq> {''localFinalizationSkippedReason''}" by (rule finalStep_queue)
  show ?thesis
    by (rule held_stores [OF held k(1)]) (use sentRow_receipt [OF k(2)] ty usable in \<open>simp_all add: sentRow_def releasedRow_def\<close>)
next
  case False
  with finalizeBody_step [OF run fi] obtain f where n: "countWhere (ownedBy (em_id item) token) (emailQueue s) \<noteq> 1"
    and t: "emailQueue t = updateMany (ownedBy (em_id item) token) f (emailQueue s)" by auto
  have no: "\<not> ownedBy (em_id item) token r" if r: "r \<in> set (emailQueue s)" for r
  proof
    assume o: "ownedBy (em_id item) token r"
    have "countWhere (ownedBy (em_id item) token) (emailQueue s) = 1"
      by (rule countWhere_key [where key = em_id and P = "ownedBy (em_id item) token" and t = "emailQueue s" and r = r])
        (use held r o in \<open>simp_all add: heldOrSent_def ownedBy_def\<close>)
    with n show False by simp
  qed
  then have "emailQueue t = emailQueue s" unfolding t by (rule updateMany_id)
  with held no show ?thesis by (auto simp: allReceipts_def heldOrSent_def hasReceipt_def)
qed

lemma keepReceipt_receipt:
  assumes und: "undisturbed (em_id item) ty token U" and held: "heldOrSent (em_id item) ty token s" and ty: "em_type item = ty"
    and usable: "usableReceipt ty accepted" and nofault: "\<forall>s. me_fault U s = None"
    and run: "keepReceipt U currentTime item token accepted pa e s = (q, t)"
  shows "allReceipts (em_id item) ty t"
proof -
  define f where "f = receiptRow item accepted pa (currentTime s + retryDelayMs (em_attempts item + 1)) (messageOf U e)"
  have q: "emailQueue t = updateMany (ownedBy (em_id item) token) f (emailQueue (me_others U s))"
    using run nofault by (auto simp: keepReceipt_def stmtP_def pauseP_def updateQueue_def prog_defs f_def)
  have r: "storedReceipt (f r) \<noteq> None" if "em_type r = ty" for r
    using storedReceipt_withMeta [of "f r" item accepted pa "[]"] that ty usable
    by (simp add: f_def receiptRow_def releasedRow_def usableReceipt_def)
  show ?thesis
    by (rule held_stores [OF undisturbedD(1) [OF und held] q _ _ r]) (simp_all add: f_def receiptRow_def releasedRow_def)
qed

lemma finalizeSent_receipt:
  assumes und: "undisturbed (em_id item) ty token U" and held: "heldOrSent (em_id item) ty token s" and ty: "em_type item = ty"
    and usable: "usableReceipt ty accepted" and nofault: "\<forall>s. me_fault U s = None"
    and run: "finalizeSent U currentTime item token target accepted pa s = (q, t)"
  shows "receiptStored (em_id item) ty (callsFor (em_id item) s) t"
proof -
  let ?i = "em_id item"
  define fi where "fi = (if em_type item = noticeType then item\<lparr>em_meta := Some (withMeta item (receiptFields accepted pa))\<rparr> else item)"
  define body where "body = finalizeBody U item fi token target accepted pa (currentTime s)"
  define s0 where "s0 = me_others U s"
  have s0: "heldOrSent ?i ty token s0" using held undisturbedD [OF und] by (simp add: s0_def)
  obtain b u where b: "body s0 = (b, u)" by (cases "body s0")
  have u: "allReceipts ?i ty u" if "b = Inr x" for x
    by (rule finalizeBody_receipt [OF s0 ty usable _ b [unfolded that body_def]]) (simp add: fi_def)
  have "(\<exists>x. b = Inr x \<and> t = u) \<or> (\<exists>w e. (w = s0 \<or> w = u \<and> (\<exists>x. b = Inr x)) \<and> keepReceipt U currentTime item token accepted pa e w = (q, t))"
  proof (cases b)
    case (Inl e)
    then show ?thesis
      using run b by (simp add: finalizeSent_def Let_def fi_def [symmetric] body_def [symmetric] bindP_def getsP_def catchP_def mailTxP_def
          transactionP_def s0_def [symmetric]) blast
  next
    case (Inr x)
    then show ?thesis
      using run b by (cases "me_outcome U u") (auto simp: finalizeSent_def Let_def fi_def [symmetric] body_def [symmetric] bindP_def getsP_def
          catchP_def mailTxP_def transactionP_def s0_def [symmetric] returnP_def)
  qed
  then have "allReceipts ?i ty t"
  proof (elim disjE exE conjE)
    fix x assume "b = Inr x" "t = u"
    with u show ?thesis by simp
  next
    fix w e assume w: "w = s0" and k: "keepReceipt U currentTime item token accepted pa e w = (q, t)"
    show ?thesis by (rule keepReceipt_receipt [OF und _ ty usable nofault k]) (simp add: w s0)
  next
    fix w e x assume "w = u" "b = Inr x" and k: "keepReceipt U currentTime item token accepted pa e w = (q, t)"
    then show ?thesis using keepReceipt_receipt [OF und allReceipts_held [OF u] ty usable nofault, of x] by blast
  qed
  moreover have "callsFor ?i t = callsFor ?i s" by (rule keepsD [OF calls_finalizeSent [OF und] refl run])
  ultimately show ?thesis by (simp add: receiptStored_def allReceipts_def)
qed

lemma processItem_accepted:
  assumes und: "undisturbed (em_id item) ty token U" and acc: "acceptsAll ty U" and held: "heldOrSent (em_id item) ty token s"
    and ty: "em_type item = ty" and nofault: "\<forall>s. me_fault U s = None" and run: "processItem U currentTime item token s = (q, t)"
    and called: "callsFor (em_id item) t \<noteq> callsFor (em_id item) s"
  shows "receiptStored (em_id item) ty (Suc (callsFor (em_id item) s)) t"
proof -
  let ?i = "em_id item"
  have fails: False if "failDelivery U currentTime item token target started e u = (q, t)" "callsFor ?i u = callsFor ?i s" for target started e u
    using keepsD [OF calls_failDelivery [OF und, where n = "callsFor ?i s"] that(2,1)] called by simp
  obtain target atts where tg: "targetOf item = Inr target" "attachmentsOf U (metaOf item) = Inr atts"
    using run fails [OF _ refl] unfolding processItem_def by (auto split: sum.splits)
  then have settle: "settleItem U currentTime item token target atts (acceptedTime currentTime item s) s = (q, t)"
    using run by (simp add: processItem_def bindP_def getsP_def)
  obtain r u where r: "obtainReceipt U currentTime item token atts s = (r, u)" by (cases "obtainReceipt U currentTime item token atts s")
  have run': "(case r of Inl (started, e) \<Rightarrow> failDelivery U currentTime item token target started e u = (q, t)
      | Inr None \<Rightarrow> u = t | Inr (Some accepted) \<Rightarrow> \<exists>pa. finalizeSent U currentTime item token target accepted pa u = (q, t))"
    using settle r by (cases r) (auto simp: settleItem_def settleP_def bindP_def getsP_def returnP_def split: option.splits)
  have none: "storedReceipt item = None"
  proof (rule ccontr)
    assume "storedReceipt item \<noteq> None"
    then obtain a where "r = Inr (Some a)" "u = s" using r by (auto simp: obtainReceipt_def returnP_def)
    with run' obtain pa where "finalizeSent U currentTime item token target a pa s = (q, t)" by auto
    from keepsD [OF calls_finalizeSent [OF und] refl this] called show False by simp
  qed
  note once = obtainReceipt_accepted [OF und acc held none r]
  show ?thesis
  proof (cases r)
    case (Inl e)
    then show ?thesis using once run' fails by (cases e) (auto simp: acceptedOnce_def)
  next
    case (Inr x)
    show ?thesis
    proof (cases x)
      case None
      then show ?thesis using once run' Inr called by (simp add: acceptedOnce_def)
    next
      case (Some a)
      with once Inr have a: "callsFor ?i u = Suc (callsFor ?i s)" "heldOrSent ?i ty token u" "usableReceipt ty a" by (auto simp: acceptedOnce_def)
      from run' Inr Some obtain pa where "finalizeSent U currentTime item token target a pa u = (q, t)" by auto
      from finalizeSent_receipt [OF und a(2) ty a(3) nofault this] a(1) show ?thesis by simp
    qed
  qed
qed


definition sampleClaimed :: EmailRow where
  "sampleClaimed = samplePlain\<lparr>em_processingToken := Some ''w'', em_leaseExpiresAt := Some 100\<rparr>"


end
