(* ===== verification/Email_Guards.thy ===== *)
theory Email_Guards
  imports Email_Delivery
begin

text \<open>
  The guards in front of the provider and the fate of single messages: a scheduled report is sent exactly for an entitled tenant, a notice of an
  extra charge exactly as it was requested, a due message is delivered, and a message that keeps failing is given up.
\<close>

section \<open>Scheduled reports\<close>

interpretation row_reader: subscription_reader subscriptionReader
  by unfold_locales (simp add: subscriptionReader_def option.map_comp comp_def)

definition leased :: "('z mail_db_scheme \<Rightarrow> instant) \<Rightarrow> EmailRow \<Rightarrow> string \<Rightarrow> 'z mail_db_scheme \<Rightarrow> EmailRow \<Rightarrow> bool" where
  "leased currentTime item token s r \<longleftrightarrow> ownedBy (em_id item) token r \<and> (case em_leaseExpiresAt r of None \<Rightarrow> False | Some e \<Rightarrow> currentTime s < e)"

definition renewed :: "('z mail_db_scheme \<Rightarrow> instant) \<Rightarrow> EmailRow \<Rightarrow> string \<Rightarrow> int \<Rightarrow> 'z mail_db_scheme \<Rightarrow> 'z mail_db_scheme" where
  "renewed currentTime item token lease s =
     s\<lparr>emailQueue := updateMany (leased currentTime item token s) (\<lambda>r. r\<lparr>em_leaseExpiresAt := Some (currentTime s + lease)\<rparr>) (emailQueue s)\<rparr>"

lemma startOrBlock_run:
  "startOrBlock currentTime item token label lease (getsP g) s =
    (let u = renewed currentTime item token lease s in
     if countWhere (leased currentTime item token s) (emailQueue s) \<noteq> 1 then (Inr False, u)
     else case g u of None \<Rightarrow> (Inr True, u)
       | Some why \<Rightarrow> (Inr False, u\<lparr>emailQueue := updateMany (ownedBy (em_id item) token) (blockedRow item label why (currentTime u)) (emailQueue u)\<rparr>))"
proof -
  have "(\<lambda>r. ownedBy (em_id item) token r \<and> (case em_leaseExpiresAt r of None \<Rightarrow> False | Some e \<Rightarrow> currentTime s < e)) = leased currentTime item token s"
    by (simp add: leased_def fun_eq_iff)
  then have rl: "renewLease (em_id item) token (currentTime s) lease s =
      (Inr (countWhere (leased currentTime item token s) (emailQueue s) = 1), renewed currentTime item token lease s)"
    by (simp add: renewLease_def updateQueue_def prog_defs renewed_def)
  show ?thesis
    unfolding startOrBlock_def run_bindP(2) [where m = "getsP f" for f, OF run_getsP]
      run_bindP(2) [where m = "renewLease (em_id item) token (currentTime s) lease", OF rl]
    by (simp add: Let_def run_bindP(2) [where m = "getsP f" for f, OF run_getsP] returnP_def split: option.split)
      (simp add: updateQueue_def prog_defs)
qed

lemma renewed_rest:
  "subscriptions (renewed ct item token lease s) = subscriptions s" "tenants (renewed ct item token lease s) = tenants s"
  "auditLogs (renewed ct item token lease s) = auditLogs s" "wallClock (renewed ct item token lease s) = wallClock s"
  by (simp_all add: renewed_def)

lemma blocked_fails:
  assumes "distinct (map em_id (emailQueue s))" and "countWhere (leased ct item token s) (emailQueue s) = 1"
    and "u = renewed ct item token lease s" and "r \<in> set (updateMany (ownedBy (em_id item) token) (blockedRow item l w b) (emailQueue u))" and "em_id r = em_id item"
  shows "em_status r = FAILED"
proof -
  obtain x where x: "x \<in> set (emailQueue s)" "leased ct item token s x" using assms(2) countWhere_pos [of "leased ct item token s" "emailQueue s"] by auto
  obtain y where y: "y \<in> set (emailQueue u)" "r = (if ownedBy (em_id item) token y then blockedRow item l w b y else y)" using assms(4) unfolding in_updateMany by blast
  obtain z where z: "z \<in> set (emailQueue s)" "y = (if leased ct item token s z then z\<lparr>em_leaseExpiresAt := Some (ct s + lease)\<rparr> else z)"
    using y(1) by (auto simp: assms(3) renewed_def in_updateMany)
  have "em_id z = em_id item" using assms(5) y(2) z(2) by (auto simp: blockedRow_def releasedRow_def split: if_splits)
  then have "z = x" using distinct_key_unique [OF assms(1) z(1) x(1)] x(2) by (simp add: leased_def ownedBy_def)
  then have "ownedBy (em_id item) token y" using x(2) z(2) by (simp add: leased_def ownedBy_def)
  then show ?thesis using y(2) by (simp add: blockedRow_def)
qed

lemma scheduled_reports_plans: "hasFeature (Some (planCode p)) ''scheduled_reports'' \<longleftrightarrow> p \<in> {PRO, ENTERPRISE}"
proof (cases p)
  case STARTER
  have "\<not> hasFeature (Some (planCode STARTER)) ''scheduled_reports''" by code_simp
  with STARTER show ?thesis by simp
next
  case PRO
  have "hasFeature (Some (planCode PRO)) ''scheduled_reports''" by code_simp
  with PRO show ?thesis by simp
next
  case ENTERPRISE
  have "hasFeature (Some (planCode ENTERPRISE)) ''scheduled_reports''" by code_simp
  with ENTERPRISE show ?thesis by simp
qed

definition entitledToReports :: "string \<Rightarrow> instant \<Rightarrow> TenantSubscription \<Rightarrow> 'z mail_db_scheme \<Rightarrow> bool" where
  "entitledToReports t createdAt q s \<longleftrightarrow>
     (\<exists>r. tenantRow t s = Some r \<and> tn_isActive r \<and> tn_deletedAt r = None) \<and> \<not> statusChangedSince t createdAt s \<and>
     sn_status (snapshotFromRow q) \<in> {TenantSubscriptionStatus.ACTIVE, TRIAL} \<and>
     (\<forall>e. sn_expiresAt (snapshotFromRow q) = Some e \<longrightarrow> wallClock s \<le> e) \<and> sn_plan (snapshotFromRow q) \<in> {PRO, ENTERPRISE}"

lemma report_reason:
  assumes "findByTenant t (subscriptions s) = Some q"
  shows "tenantReason (tenantRow t s) = None \<and> reportLicenseReason U t createdAt s = None \<longleftrightarrow> entitledToReports t createdAt q s"
proof -
  note lic = row_reader.license_status [OF assms, of "me_dateParse U" "wallClock s"]
  have te: "te_license (getTenantEntitlements (me_dateParse U) subscriptionReader (wallClock s) t s) = getTenantLicense (me_dateParse U) subscriptionReader (wallClock s) t s"
    "te_plan (getTenantEntitlements (me_dateParse U) subscriptionReader (wallClock s) t s) = sn_plan (snapshotFromRow q)"
    by (simp_all add: getTenantEntitlements_def Let_def lic(2))
  show ?thesis
    by (auto simp: reportLicenseReason_def Let_def te lic(1) scheduled_reports_plans entitledToReports_def tenantReason_def
        split: option.splits if_splits)
qed


definition sampleReport :: EmailRow where
  "sampleReport = sampleClaimed\<lparr>em_tenantId := Some ''t1'', em_type := ''SCHEDULED_REPORT''\<rparr>"

definition sampleReportDb :: mail_db where
  "sampleReportDb = (sampleMail [sampleReport])\<lparr>subscriptions := subscriptions sampleLicDb, tenants := tenants sampleLicDb\<rparr>"


section \<open>Undisturbed runs\<close>

definition quiet :: "'z mail_db_scheme mail_env \<Rightarrow> bool" where
  "quiet U \<longleftrightarrow> (\<forall>s. me_others U s = s \<and> me_fault U s = None \<and> me_outcome U s = Commits)"

lemma quiet_steps:
  assumes "quiet U"
  shows "pauseP U s = (Inr (), s)" and "stmtP U s = (Inr (), s)"
    and "body s = (Inr x, t) \<Longrightarrow> mailTxP U body s = (Inr x, t)"
  using assms by (simp_all add: quiet_def pauseP_def stmtP_def mailTxP_def transactionP_def prog_defs)

lemma updateQueue_run: "updateQueue P f s = (Inr (countWhere P (emailQueue s)), s\<lparr>emailQueue := updateMany P f (emailQueue s)\<rparr>)"
  by (simp add: updateQueue_def prog_defs)

lemma updateMany_one:
  assumes "distinct (map em_id rows)" and "r \<in> set rows" and "P r" and "\<And>x. P x \<Longrightarrow> em_id x = em_id r"
  shows "updateMany P f rows = updateMany (\<lambda>x. em_id x = em_id r) (\<lambda>_. f r) rows" and "countWhere P rows = 1"
proof -
  have "(if P x then f x else x) = (if em_id x = em_id r then f r else x)" if x: "x \<in> set rows" for x
  proof (cases "em_id x = em_id r")
    case True
    then have "x = r" by (rule distinct_key_unique [OF assms(1) x assms(2)])
    then show ?thesis using assms(3) by simp
  next
    case False
    then show ?thesis using assms(4) [of x] by auto
  qed
  then show "updateMany P f rows = updateMany (\<lambda>x. em_id x = em_id r) (\<lambda>_. f r) rows" by (simp add: updateMany_def)
  show "countWhere P rows = 1" by (rule countWhere_key [where key = em_id and P = P, OF assms(1-3)]) (rule assms(4))
qed

text \<open>Replacing the row of a message.\<close>

definition putRow :: "EmailRow \<Rightarrow> 'z mail_db_scheme \<Rightarrow> 'z mail_db_scheme" where
  "putRow r s = s\<lparr>emailQueue := updateMany (\<lambda>x. em_id x = em_id r) (\<lambda>_. r) (emailQueue s)\<rparr>"

lemma putRow_facts:
  assumes "distinct (map em_id (emailQueue s))" and "q \<in> set (emailQueue s)" and "em_id q = em_id r"
  shows "distinct (map em_id (emailQueue (putRow r s)))" and "r \<in> set (emailQueue (putRow r s))"
proof -
  have "map em_id (updateMany (\<lambda>x. em_id x = em_id r) (\<lambda>_. r) (emailQueue s)) = map em_id (emailQueue s)" by (rule map_key_updateMany) simp
  then show "distinct (map em_id (emailQueue (putRow r s)))" using assms(1) by (simp add: putRow_def)
  show "r \<in> set (emailQueue (putRow r s))" using assms(2,3) by (auto simp: putRow_def in_updateMany)
qed

lemma putRow_again: "em_id q = em_id r \<Longrightarrow> putRow q (putRow r s) = putRow q s"
  by (simp add: putRow_def updateMany_def comp_def)

lemma run_one:
  assumes U: "quiet U" and d: "distinct (map em_id (emailQueue s))" and r: "r \<in> set (emailQueue s)" "due now r" and lim: "limit \<noteq> Some 0"
    and c: "c = claimRow (me_uuid U 0) now r"
    and run: "processItem U (clockSince now (wallClock s)) c (me_uuid U 0) (putRow c s) = (Inr (), t)"
  shows "processPending U now [em_id r] limit s = (Inr 1, t)"
proof -
  let ?tok = "me_uuid U 0" and ?clock = "clockSince now (wallClock s)"
  define P where "P = (\<lambda>x. due now x \<and> em_id x = em_id r)"
  have P: "P r" "\<And>x. P x \<Longrightarrow> em_id x = em_id r" using r(2) by (simp_all add: P_def)
  note one = updateMany_one [where P = P, OF d r(1) P]
  have "length (filter P (emailQueue s)) = 1" using one(2) by (simp add: countWhere_def)
  then obtain x where x: "filter P (emailQueue s) = [x]" by (cases "filter P (emailQueue s)") auto
  moreover have "r \<in> set (filter P (emailQueue s))" using r by (simp add: P_def)
  ultimately have only: "filter (\<lambda>x. due now x \<and> em_id x = em_id r) (emailQueue s) = [r]" by (simp add: P_def)
  have claim: "updateMany (\<lambda>x. em_id x = em_id r \<and> due now x) (claimRow ?tok now) (emailQueue s) = emailQueue (putRow c s)"
    "countWhere (\<lambda>x. em_id x = em_id r \<and> due now x) (emailQueue s) = 1"
    using one(1) [of "claimRow ?tok now"] one(2) by (simp_all add: putRow_def c claimRow_def P_def conj_commute)
  have cid: "em_id c = em_id r" "ownedBy (em_id r) ?tok c" using r(2) by (simp_all add: c claimRow_def ownedBy_def due_def)
  have find: "findFirst (ownedBy (em_id r) ?tok) (emailQueue (putRow c s)) = Some c"
    by (rule find_by_key [where key = em_id]) (use putRow_facts [OF d r(1)] cid in \<open>auto simp: ownedBy_def\<close>)
  have s1: "s\<lparr>emailQueue := emailQueue (putRow c s)\<rparr> = putRow c s" by (simp add: putRow_def)
  have "processCandidate U ?clock (em_id r) ?tok s = (Inr True, t)"
    unfolding processCandidate_def workOn_def
    by (simp add: bindP_def getsP_def seqP_def quiet_steps(2) [OF U] updateQueue_run claim clockSince_def s1 find run returnP_def)
  moreover have "take (orElse limit 30) [r] = [r]" using lim by (cases limit) (auto simp: take_Cons')
  ultimately show ?thesis
    unfolding processPending_def
    by (simp add: bindP_def getsP_def seqP_def quiet_steps(2) [OF U] only returnP_def enumerate_eq_zip)
qed

text \<open>A configured sender.\<close>

definition configured :: "'z mail_db_scheme mail_env \<Rightarrow> bool" where
  "configured U \<longleftrightarrow> sc_environment (me_config U) \<notin> {''staging'', ''provider-qa''} \<and> sc_provider (me_config U) \<noteq> ''disabled'' \<and>
     truthy (sc_resendApiKey (me_config U)) \<and> truthy (sc_resendFrom (me_config U))"

definition requested :: "string \<Rightarrow> ResendMessage \<Rightarrow> ResendReply \<Rightarrow> 'z mail_db_scheme \<Rightarrow> 'z mail_db_scheme" where
  "requested i msg reply s =
     s\<lparr>providerCalls := providerCalls s @ [\<lparr>pc_message = msg, pc_key = Some (providerIdempotencyKey i), pc_reply = reply\<rparr>]\<rparr>"

lemma requested_facts:
  "callsFor i (requested i msg reply s) = Suc (callsFor i s)" "emailQueue (requested i msg reply s) = emailQueue s"
  "wallClock (requested i msg reply s) = wallClock s"
  by (simp_all add: requested_def callsFor_def countWhere_def)

lemma startDelivery_run:
  assumes "quiet U" and "configured U"
  obtains msg where "startDelivery U item atts s =
    (case me_resend U s msg (Some (providerIdempotencyKey (em_id item))) of
       ResendRejects e \<Rightarrow> Inl e | ResendError \<Rightarrow> Inl (AppError 502 ''RESEND_EMAIL_FAILED'') | ResendData i \<Rightarrow> Inr \<lparr>rc_provider = ''resend'', rc_id = i\<rparr>,
     requested (em_id item) msg (me_resend U s msg (Some (providerIdempotencyKey (em_id item)))) s)"
proof -
  have key: "truthyText (Some (providerIdempotencyKey i)) = Some (providerIdempotencyKey i)" for i
    by (simp add: truthyText_def truthy_def providerIdempotencyKey_def)
  obtain sender where fr: "resolveFrom (me_config U) (jstring (jprop (metaOf item) ''fromName'')) = Inr sender"
    using assms(2) by (simp add: resolveFrom_def configured_def Let_def)
  obtain msg where "startDelivery U item atts s = sendRequest U msg (Some (providerIdempotencyKey (em_id item))) s"
    using assms(2) by (simp add: startDelivery_def sendEmail_def Let_def fr key configured_def)
  then show thesis
    using that [of msg] by (simp add: sendRequest_def callProvider_def bindP_def getsP_def seqP_def modifyP_def quiet_steps(1) [OF assms(1)]
        returnP_def throwP_def requested_def split: ResendReply.split)
qed

lemma claimRow_same [simp]:
  "em_id (claimRow token m r) = em_id r" "em_type (claimRow token m r) = em_type r" "metaOf (claimRow token m r) = metaOf r"
  "em_attempts (claimRow token m r) = em_attempts r" "em_maxAttempts (claimRow token m r) = em_maxAttempts r"
  "em_tenantId (claimRow token m r) = em_tenantId r" "em_recipient (claimRow token m r) = em_recipient r"
  "em_subject (claimRow token m r) = em_subject r" "em_body (claimRow token m r) = em_body r" "em_meta (claimRow token m r) = em_meta r"
  by (simp_all add: claimRow_def metaOf_def)

lemma claimRow_derived [simp]:
  "targetOf (claimRow token m r) = targetOf r" "storedReceipt (claimRow token m r) = storedReceipt r"
  "sentEvent (claimRow token m r) k a = sentEvent r k a"
  unfolding targetOf_def storedReceipt_def sentEvent_def claimRow_same by (rule refl)+

lemma owned_put:
  assumes "distinct (map em_id (emailQueue s))" and "r \<in> set (emailQueue s)" and "em_status r = PENDING" and "em_id (f c) = em_id c" and c: "c = claimRow token m r"
  shows "updateQueue (ownedBy (em_id r) token) f (putRow c s) = (Inr 1, putRow (f c) s)"
proof -
  have o: "ownedBy (em_id r) token c" using assms(3) by (simp add: c ownedBy_def) (simp add: claimRow_def)
  have d: "distinct (map em_id (emailQueue (putRow c s)))" "c \<in> set (emailQueue (putRow c s))"
    using putRow_facts [OF assms(1,2), of c] by (simp_all add: c)
  have "ownedBy (em_id r) token x \<Longrightarrow> em_id x = em_id c" for x by (simp add: ownedBy_def c)
  note one = updateMany_one [where P = "ownedBy (em_id r) token", OF d o this]
  have "putRow (f c) (putRow c s) = putRow (f c) s" by (rule putRow_again) (simp add: assms(4))
  moreover have "em_id (f c) = em_id r" using assms(4) by (simp add: c)
  ultimately show ?thesis
    by (simp add: updateQueue_run one(2) one(1) [of f]) (simp add: putRow_def c)
qed

section \<open>A due message is delivered\<close>

definition ofTarget :: "ContractTarget \<Rightarrow> ContractDeliveryRow \<Rightarrow> bool" where
  "ofTarget k d \<longleftrightarrow> cd_id d = kt_deliveryId k \<and> cd_tenantId d = kt_tenantId k \<and> cd_bookingId d = kt_bookingId k \<and> cd_contractId d = kt_contractId k"

definition ofContract :: "ContractTarget \<Rightarrow> ContractRow \<Rightarrow> bool" where
  "ofContract k c \<longleftrightarrow> ct_id c = kt_contractId k \<and> ct_tenantId c = kt_tenantId k \<and> ct_bookingId c = kt_bookingId k"

lemma contract_updates:
  "countWhere (ofTarget k) (contractDeliveries s) = 1 \<Longrightarrow>
    updateDelivery k l f s = (Inr (), s\<lparr>contractDeliveries := updateMany (ofTarget k) f (contractDeliveries s)\<rparr>)"
  "countWhere (ofContract k) (bookingContracts s) = 1 \<Longrightarrow>
    updateContract k l g s = (Inr (), s\<lparr>bookingContracts := updateMany (ofContract k) g (bookingContracts s)\<rparr>)"
proof -
  have "(\<lambda>d. cd_id d = kt_deliveryId k \<and> cd_tenantId d = kt_tenantId k \<and> cd_bookingId d = kt_bookingId k \<and> cd_contractId d = kt_contractId k) = ofTarget k"
    "(\<lambda>c. ct_id c = kt_contractId k \<and> ct_tenantId c = kt_tenantId k \<and> ct_bookingId c = kt_bookingId k) = ofContract k"
    by (simp_all add: ofTarget_def ofContract_def fun_eq_iff)
  then show "countWhere (ofTarget k) (contractDeliveries s) = 1 \<Longrightarrow>
      updateDelivery k l f s = (Inr (), s\<lparr>contractDeliveries := updateMany (ofTarget k) f (contractDeliveries s)\<rparr>)"
    "countWhere (ofContract k) (bookingContracts s) = 1 \<Longrightarrow>
      updateContract k l g s = (Inr (), s\<lparr>bookingContracts := updateMany (ofContract k) g (bookingContracts s)\<rparr>)"
    by (simp_all add: updateDelivery_def updateContract_def Let_def prog_defs requireSingleUpdate_def)
qed

lemma all_updated: "x \<in> set (updateMany P f rows) \<Longrightarrow> P x \<Longrightarrow> (\<And>y. P y \<Longrightarrow> Q (f y)) \<Longrightarrow> Q x"
  unfolding in_updateMany by metis

lemma finalizeContract_run:
  assumes "countWhere (ofTarget k) (contractDeliveries s) = 1" and "countWhere (ofContract k) (bookingContracts s) = 1"
    and "finalizeContract item k accepted moment s = (q, t)"
  shows "q = Inr () \<and> emailQueue t = emailQueue s \<and> providerCalls t = providerCalls s \<and> contractEvents t = contractEvents s @ [sentEvent item k accepted] \<and>
    (\<forall>d \<in> set (contractDeliveries t). ofTarget k d \<longrightarrow> cd_status d = ''SENT'' \<and> cd_sentAt d = Some moment) \<and>
    (\<forall>c \<in> set (bookingContracts t). ofContract k c \<longrightarrow> ct_status c = ''SENT'' \<and> ct_lastSentAt c = Some moment \<and> ct_emailTo c = Some (em_recipient item))"
proof -
  let ?d = "\<lambda>d. d\<lparr>cd_status := ''SENT'', cd_sentAt := Some moment, cd_errorMessage := None\<rparr>"
  let ?c = "\<lambda>c. c\<lparr>ct_emailTo := Some (em_recipient item), ct_emailSubject := Some (em_subject item),
    ct_emailBody := Some (em_body item), ct_status := ''SENT'', ct_lastSentAt := Some moment, ct_errorMessage := None,
    ct_updatedByUserId := (case metaString (metaOf item) ''actorUserId'' of None \<Rightarrow> ct_updatedByUserId c | Some a \<Rightarrow> Some a)\<rparr>"
  have run: "q = Inr ()" "t = s\<lparr>contractDeliveries := updateMany (ofTarget k) ?d (contractDeliveries s),
      bookingContracts := updateMany (ofContract k) ?c (bookingContracts s), contractEvents := contractEvents s @ [sentEvent item k accepted]\<rparr>"
    using assms(3) by (simp_all add: finalizeContract_def seqP_def bindP_def contract_updates(1) [OF assms(1)] contract_updates(2) assms(2)
        createContractEvent_def modifyP_def)
  have "cd_status d = ''SENT'' \<and> cd_sentAt d = Some moment" if "d \<in> set (contractDeliveries t)" "ofTarget k d" for d
    by (rule all_updated [where P = "ofTarget k" and f = ?d and rows = "contractDeliveries s"]) (use that run in simp_all)
  moreover have "ct_status c = ''SENT'' \<and> ct_lastSentAt c = Some moment \<and> ct_emailTo c = Some (em_recipient item)"
    if "c \<in> set (bookingContracts t)" "ofContract k c" for c
    by (rule all_updated [where P = "ofContract k" and f = ?c and rows = "bookingContracts s"]) (use that run in simp_all)
  ultimately show ?thesis using run by simp
qed

lemma requested_put: "requested i msg reply (putRow c s) = putRow c (requested i msg reply s)"
  by (simp add: requested_def putRow_def)

text \<open>
  C18: A due contract message is delivered: when no other request interferes and nothing fails, one run over the message asks the provider once
  and leaves the row sent with one attempt more, the delivery and the contract sent at the time of the run, to the recipient of the
  message, and exactly one new event.
\<close>

theorem due_contract_delivered:
  fixes U :: "'z mail_db_scheme mail_env"
  assumes "quiet U" and "configured U" and "\<forall>s msg key. me_resend U s msg key = ResendData (Some m)"
    and "distinct (map em_id (emailQueue s))" and "r \<in> set (emailQueue s)" and "due now r" and "limit \<noteq> Some 0"
    and "targetOf r = Inr (OfContract k)" and "storedReceipt r = None" and "attachmentsOf U (metaOf r) = Inr atts"
    and "countWhere (ofTarget k) (contractDeliveries s) = 1" and "countWhere (ofContract k) (bookingContracts s) = 1"
  shows "\<exists>t. processPending U now [em_id r] limit s = (Inr 1, t) \<and>
    (\<exists>q \<in> set (emailQueue t). em_id q = em_id r \<and> em_status q = SENT \<and> em_attempts q = em_attempts r + 1) \<and>
    (\<forall>d \<in> set (contractDeliveries t). ofTarget k d \<longrightarrow> cd_status d = ''SENT'' \<and> cd_sentAt d = Some now) \<and>
    (\<forall>c \<in> set (bookingContracts t). ofContract k c \<longrightarrow> ct_status c = ''SENT'' \<and> ct_lastSentAt c = Some now \<and> ct_emailTo c = Some (em_recipient r)) \<and>
    contractEvents t = contractEvents s @ [sentEvent r k \<lparr>rc_provider = ''resend'', rc_id = Some m\<rparr>] \<and>
    callsFor (em_id r) t = callsFor (em_id r) s + 1"
proof -
  define tok where "tok = me_uuid U 0"
  define c where "c = claimRow tok now r"
  define acc where "acc = \<lparr>rc_provider = ''resend'', rc_id = Some m\<rparr>"
  define clock :: "'z mail_db_scheme \<Rightarrow> instant" where "clock = clockSince now (wallClock s)"
  have pending: "em_status r = PENDING" using assms(6) by (simp add: due_def)
  have ty: "em_type r = ''BOOKING_CONTRACT''" using targetOf_contract [OF assms(8)] by blast
  obtain msg where start: "startDelivery U c atts (putRow c s) = (Inr acc, requested (em_id r) msg (ResendData (Some m)) (putRow c s))"
    by (rule startDelivery_run [OF assms(1,2), of c atts "putRow c s"]) (use assms(3) in \<open>simp add: c_def acc_def\<close>)
  define s2 where "s2 = requested (em_id r) msg (ResendData (Some m)) s"
  have receipt: "obtainReceipt U clock c tok atts (putRow c s) = (Inr (Some acc), putRow c s2)"
    using start by (simp add: obtainReceipt_def Let_def c_def assms(9) ty noticeType_def bindP_def catchP_def returnP_def s2_def requested_put)
  obtain pa where pa: "acceptedTime clock c (putRow c s) = pa" by blast
  have clock: "clock (putRow c s2) = now" by (simp add: clock_def clockSince_def s2_def putRow_def requested_def)
  define q where "q = sentRow c acc pa [] c"
  have q: "em_id q = em_id r" "em_status q = SENT" "em_attempts q = em_attempts r + 1" by (simp_all add: q_def sentRow_def releasedRow_def c_def)
  have own: "updateQueue (ownedBy (em_id r) tok) (sentRow c acc pa []) (putRow c s2) = (Inr 1, putRow q s2)"
    unfolding q_def by (rule owned_put [where m = now]) (use assms(4,5) pending in \<open>simp_all add: s2_def requested_facts c_def sentRow_def releasedRow_def\<close>)
  obtain x t where fin: "finalizeContract c k acc now (putRow q s2) = (x, t)" by (cases "finalizeContract c k acc now (putRow q s2)")
  have counts: "countWhere (ofTarget k) (contractDeliveries (putRow q s2)) = 1" "countWhere (ofContract k) (bookingContracts (putRow q s2)) = 1"
    using assms(11,12) by (simp_all add: putRow_def s2_def requested_def)
  note final = finalizeContract_run [OF counts fin]
  have body: "finalizeBody U c c tok (OfContract k) acc pa now (putRow c s2) = (Inr True, t)"
    using own fin final by (simp add: finalizeBody_def bindP_def getsP_def seqP_def returnP_def extraContextOf_def c_def ty noticeType_def
        skippedFields_def finalizeTarget_def)
  have "finalizeSent U clock c tok (OfContract k) acc pa (putRow c s2) = (Inr (), t)"
    using quiet_steps(3) [where body = "finalizeBody U c c tok (OfContract k) acc pa now", OF assms(1) body]
    by (simp add: finalizeSent_def Let_def bindP_def getsP_def clock catchP_def returnP_def) (simp add: c_def ty noticeType_def)
  moreover have c: "em_type c \<noteq> noticeType" "targetOf c = Inr (OfContract k)" "attachmentsOf U (metaOf c) = Inr atts"
    using assms(8,10) by (simp_all add: c_def ty noticeType_def)
  ultimately have "settleItem U clock c tok (OfContract k) atts pa (putRow c s) = (Inr (), t)"
    by (simp add: settleItem_def bindP_def settleP_def receipt getsP_def)
  then have "processItem U clock c tok (putRow c s) = (Inr (), t)"
    by (simp add: processItem_def c bindP_def getsP_def pa)
  then have "processPending U now [em_id r] limit s = (Inr 1, t)"
    by (intro run_one [OF assms(1,4,5,6,7) refl]) (simp add: c_def tok_def clock_def)
  moreover have "q \<in> set (emailQueue (putRow q s2))"
    by (rule putRow_facts(2) [where q = r]) (use assms(4,5) q in \<open>simp_all add: s2_def requested_facts\<close>)
  moreover have "providerCalls (putRow q s2) = providerCalls s2" "contractEvents (putRow q s2) = contractEvents s"
    by (simp_all add: putRow_def s2_def requested_def)
  moreover have "callsFor (em_id r) s2 = callsFor (em_id r) s + 1" by (simp add: s2_def requested_facts)
  moreover have "em_recipient c = em_recipient r" "sentEvent c k acc = sentEvent r k acc" by (simp_all add: c_def)
  ultimately show ?thesis using final q by (auto simp: callsFor_def acc_def)
qed

definition sampleContract :: EmailRow where
  "sampleContract = samplePlain\<lparr>em_tenantId := Some ''t1'', em_type := ''BOOKING_CONTRACT'', em_meta := Some (JObj [(''tenantId'', JStr ''t1''),
     (''contractDeliveryId'', JStr ''d1''), (''contractId'', JStr ''c1''), (''bookingId'', JStr ''b1'')])\<rparr>"

definition sampleContractDb :: mail_db where
  "sampleContractDb = (sampleMail [sampleContract])\<lparr>
     contractDeliveries := [\<lparr>cd_id = ''d1'', cd_tenantId = ''t1'', cd_bookingId = ''b1'', cd_contractId = ''c1'', cd_status = ''PENDING'', cd_sentAt = None,
       cd_errorMessage = None\<rparr>],
     bookingContracts := [\<lparr>ct_id = ''c1'', ct_tenantId = ''t1'', ct_bookingId = ''b1'', ct_status = ''READY'', ct_emailTo = None, ct_emailSubject = None,
       ct_emailBody = None, ct_lastSentAt = None, ct_errorMessage = None, ct_updatedByUserId = None\<rparr>]\<rparr>"

text \<open>Witness of C18: the message of a contract of the sample tenant.\<close>

theorem due_contract_delivered_witness:
  "\<exists>t. processPending sampleMailEnv 5 [''q1''] None sampleContractDb = (Inr 1, t) \<and> callsFor ''q1'' t = 1 \<and>
     (\<exists>q \<in> set (emailQueue t). em_id q = ''q1'' \<and> em_status q = SENT)"
proof -
  let ?k = "\<lparr>kt_tenantId = ''t1'', kt_deliveryId = ''d1'', kt_contractId = ''c1'', kt_bookingId = ''b1''\<rparr>"
  note defs = sampleContractDb_def sampleMail_def sampleContract_def samplePlain_def
  note meta = metaOf_def metaFields_def jprop_def metaString_def truthyText_def truthy_def metaText_def
  have U: "quiet sampleMailEnv" "configured sampleMailEnv" "\<forall>s msg key. me_resend sampleMailEnv s msg key = ResendData (Some ''m1'')"
    by (simp_all add: quiet_def configured_def sampleMailEnv_def truthy_def)
  have i: "em_id sampleContract = ''q1''" by (simp add: defs)
  have none: "callsFor ''q1'' sampleContractDb = 0" by (simp add: defs callsFor_def countWhere_def)
  have "\<exists>t. processPending sampleMailEnv 5 [em_id sampleContract] None sampleContractDb = (Inr 1, t) \<and>
    (\<exists>q \<in> set (emailQueue t). em_id q = em_id sampleContract \<and> em_status q = SENT \<and> em_attempts q = em_attempts sampleContract + 1) \<and>
    (\<forall>d \<in> set (contractDeliveries t). ofTarget ?k d \<longrightarrow> cd_status d = ''SENT'' \<and> cd_sentAt d = Some 5) \<and>
    (\<forall>c \<in> set (bookingContracts t). ofContract ?k c \<longrightarrow> ct_status c = ''SENT'' \<and> ct_lastSentAt c = Some 5 \<and> ct_emailTo c = Some (em_recipient sampleContract)) \<and>
    contractEvents t = contractEvents sampleContractDb @ [sentEvent sampleContract ?k \<lparr>rc_provider = ''resend'', rc_id = Some ''m1''\<rparr>] \<and>
    callsFor (em_id sampleContract) t = callsFor (em_id sampleContract) sampleContractDb + 1"
    by (rule due_contract_delivered [where k = ?k and atts = "[]", OF U])
      (simp_all add: defs due_def leaseIsAvailable_def targetOf_def tenantBoundTarget_def storedReceipt_def Let_def meta attachmentsOf_def
        ofTarget_def ofContract_def countWhere_def)
  then show ?thesis unfolding i none by fastforce
qed

section \<open>A failing message is given up\<close>

text \<open>A pending message without local effects and without a receipt, whose row nobody holds.\<close>

definition retryable :: "'z mail_db_scheme mail_env \<Rightarrow> EmailRow \<Rightarrow> bool" where
  "retryable U r \<longleftrightarrow> targetOf r = Inr NoTarget \<and> em_type r \<notin> {''SCHEDULED_REPORT'', noticeType} \<and> storedReceipt r = None \<and> (\<exists>atts. attachmentsOf U (metaOf r) = Inr atts)"

definition afterFailure :: "instant \<Rightarrow> EmailRow \<Rightarrow> EmailRow \<Rightarrow> bool" where
  "afterFailure now r q \<longleftrightarrow> em_id q = em_id r \<and> em_attempts q = em_attempts r + 1 \<and> em_maxAttempts q = em_maxAttempts r \<and>
     em_status q = (if em_attempts r + 1 < em_maxAttempts r then PENDING else FAILED) \<and>
     (em_status q = PENDING \<longrightarrow> em_nextAttemptAt q = now + retryDelayMs (em_attempts r + 1)) \<and> em_leaseExpiresAt q = None"

lemma targetOf_cong: "em_type r = em_type q \<Longrightarrow> em_meta r = em_meta q \<Longrightarrow> em_tenantId r = em_tenantId q \<Longrightarrow> targetOf r = targetOf q"
  by (simp only: targetOf_def metaOf_def)

lemma retryable_type: "targetOf r = Inr NoTarget \<Longrightarrow> em_type r \<noteq> ''REMINDER_EMAIL''"
  by (auto simp: targetOf_def Let_def split: if_splits sum.splits)

lemma failing_run:
  fixes U :: "'z mail_db_scheme mail_env"
  assumes U: "quiet U" "configured U" "\<forall>s msg key. me_resend U s msg key = ResendError"
    and d: "distinct (map em_id (emailQueue s))" and r: "r \<in> set (emailQueue s)" "due now r" and re: "retryable U r"
  obtains t q where "processPending U now [em_id r] None s = (Inr 1, t)" "emailQueue t = emailQueue (putRow q s)" "afterFailure now r q"
    "retryable U q" "callsFor (em_id r) t = callsFor (em_id r) s + 1"
proof -
  define tok where "tok = me_uuid U 0"
  define c where "c = claimRow tok now r"
  define clock :: "'z mail_db_scheme \<Rightarrow> instant" where "clock = clockSince now (wallClock s)"
  obtain atts where re': "targetOf c = Inr NoTarget" "em_type c \<notin> {''SCHEDULED_REPORT'', noticeType}" "storedReceipt c = None" "attachmentsOf U (metaOf c) = Inr atts"
    using re by (auto simp: retryable_def c_def)
  have pending: "em_status r = PENDING" using r(2) by (simp add: due_def)
  obtain msg where start: "startDelivery U c atts (putRow c s) = (Inl (AppError 502 ''RESEND_EMAIL_FAILED''), requested (em_id r) msg ResendError (putRow c s))"
    by (rule startDelivery_run [OF U(1,2), of c atts "putRow c s"]) (use U(3) in \<open>simp add: c_def\<close>)
  define s2 where "s2 = requested (em_id r) msg ResendError s"
  have receipt: "obtainReceipt U clock c tok atts (putRow c s) = (Inl (True, AppError 502 ''RESEND_EMAIL_FAILED''), putRow c s2)"
    using start re' retryable_type [OF re'(1)] by (simp add: obtainReceipt_def Let_def bindP_def catchP_def throwP_def s2_def requested_put)
  have clock: "clock (putRow c s2) = now" by (simp add: clock_def clockSince_def s2_def putRow_def requested_def)
  define left where "left = (em_attempts r + 1 < em_maxAttempts r)"
  define nextAt where "nextAt = now + retryDelayMs (em_attempts r + 1)"
  define e where "e = messageOf U (AppError 502 ''RESEND_EMAIL_FAILED'')"
  define q where "q = failedRow c left nextAt e c"
  have own: "updateQueue (ownedBy (em_id r) tok) (failedRow c left nextAt e) (putRow c s2) = (Inr 1, putRow q s2)"
    unfolding q_def by (rule owned_put [where m = now]) (use d r(1) pending in \<open>simp_all add: s2_def requested_facts c_def failedRow_def releasedRow_def\<close>)
  have body: "failBody c tok NoTarget True left now nextAt e (putRow c s2) = (Inr (), putRow q s2)"
    using own by (simp add: failBody_def bindP_def getsP_def failTarget_def returnP_def c_def)
  note tx = quiet_steps(3) [where body = "failBody c tok NoTarget True left now nextAt e", OF U(1) body]
  have "failDelivery U clock c tok NoTarget True (AppError 502 ''RESEND_EMAIL_FAILED'') (putRow c s2) = (Inr (), putRow q s2)"
    using tx by (simp add: failDelivery_def Let_def bindP_def getsP_def clock catchP_def e_def [symmetric])
      (simp add: c_def left_def nextAt_def)
  then have "settleItem U clock c tok NoTarget atts pa (putRow c s) = (Inr (), putRow q s2)" for pa
    by (simp add: settleItem_def bindP_def settleP_def receipt)
  then have "processItem U clock c tok (putRow c s) = (Inr (), putRow q s2)"
    by (simp add: processItem_def re' bindP_def getsP_def)
  then have "processPending U now [em_id r] None s = (Inr 1, putRow q s2)"
    by (intro run_one [OF U(1) d r _ refl]) (simp_all add: c_def tok_def clock_def)
  moreover have "emailQueue (putRow q s2) = emailQueue (putRow q s)" by (simp add: putRow_def s2_def requested_facts)
  moreover have "afterFailure now r q"
    by (simp add: afterFailure_def q_def failedRow_def releasedRow_def c_def left_def nextAt_def)
  moreover have "retryable U q"
  proof -
    have same: "em_type q = em_type r" "em_meta q = em_meta r" "em_tenantId q = em_tenantId r" by (simp_all add: q_def failedRow_def releasedRow_def c_def)
    have "targetOf q = targetOf r" by (rule targetOf_cong [OF same])
    moreover have "storedReceipt q = storedReceipt r" by (rule storedReceipt_cong [OF same(1,2)])
    moreover have "metaOf q = metaOf r" by (simp only: metaOf_def same(2))
    ultimately show ?thesis using re unfolding retryable_def same(1) by simp
  qed
  moreover have "callsFor (em_id r) (putRow q s2) = callsFor (em_id r) s + 1"
    using requested_facts(1) [of "em_id r" msg ResendError s] by (simp add: callsFor_def putRow_def s2_def)
  ultimately show thesis by (rule that)
qed

text \<open>Runs of a worker over one message, each at the time of its next attempt.\<close>

definition nextTime :: "string \<Rightarrow> 'z mail_db_scheme \<Rightarrow> instant" where
  "nextTime i s = (case findFirst (\<lambda>r. em_id r = i) (emailQueue s) of None \<Rightarrow> 0 | Some r \<Rightarrow> em_nextAttemptAt r)"

primrec retryRuns :: "'z mail_db_scheme mail_env \<Rightarrow> string \<Rightarrow> nat \<Rightarrow> 'z mail_db_scheme \<Rightarrow> 'z mail_db_scheme" where
  "retryRuns U i 0 s = s"
| "retryRuns U i (Suc n) s = snd (processPending U (nextTime i (retryRuns U i n s)) [i] None (retryRuns U i n s))"

lemma nextTime_row:
  assumes "distinct (map em_id (emailQueue s))" and "r \<in> set (emailQueue s)"
  shows "nextTime (em_id r) s = em_nextAttemptAt r"
  by (simp add: nextTime_def find_by_key [where key = em_id and P = "\<lambda>x. em_id x = em_id r", OF assms])

lemma retryDelay_bounds: "1 \<le> n \<Longrightarrow> 120000 \<le> retryDelayMs n \<and> retryDelayMs n \<le> 3600000"
  using one_le_power [of "2 :: int" "n - 1"]
  by (cases n) (auto simp: retryDelayMs_def EMAIL_QUEUE_RETRY_MAX_DELAY_MINUTES_def min_def)

lemma retry_state:
  fixes U :: "'z mail_db_scheme mail_env"
  assumes U: "quiet U" "configured U" "\<forall>s msg key. me_resend U s msg key = ResendError"
    and d: "distinct (map em_id (emailQueue s))" and r: "r \<in> set (emailQueue s)" "em_status r = PENDING" "em_leaseExpiresAt r = None" "retryable U r"
    and n: "n \<le> em_maxAttempts r - em_attempts r"
  shows "\<exists>q \<in> set (emailQueue (retryRuns U (em_id r) n s)). em_id q = em_id r \<and> em_attempts q = em_attempts r + n \<and> em_maxAttempts q = em_maxAttempts r \<and>
      em_status q = (if n = 0 \<or> em_attempts r + n < em_maxAttempts r then PENDING else FAILED) \<and> em_leaseExpiresAt q = None \<and> retryable U q \<and>
      (0 < n \<longrightarrow> em_status q = PENDING \<longrightarrow> em_nextAttemptAt q = nextTime (em_id r) (retryRuns U (em_id r) (n - 1) s) + retryDelayMs (em_attempts r + n))"
    and "distinct (map em_id (emailQueue (retryRuns U (em_id r) n s)))"
    and "callsFor (em_id r) (retryRuns U (em_id r) n s) = callsFor (em_id r) s + n"
proof -
  let ?run = "\<lambda>n. retryRuns U (em_id r) n s"
  let ?q = "\<lambda>n q. q \<in> set (emailQueue (?run n)) \<and> em_id q = em_id r \<and> em_attempts q = em_attempts r + n \<and> em_maxAttempts q = em_maxAttempts r \<and>
      em_status q = (if n = 0 \<or> em_attempts r + n < em_maxAttempts r then PENDING else FAILED) \<and> em_leaseExpiresAt q = None \<and> retryable U q \<and>
      (0 < n \<longrightarrow> em_status q = PENDING \<longrightarrow> em_nextAttemptAt q = nextTime (em_id r) (?run (n - 1)) + retryDelayMs (em_attempts r + n))"
  have "(\<exists>q. ?q n q) \<and> distinct (map em_id (emailQueue (?run n))) \<and> callsFor (em_id r) (?run n) = callsFor (em_id r) s + n"
    using n
  proof (induction n)
    case 0
    have "?q 0 r" using r by simp
    with d show ?case by auto
  next
    case (Suc n)
    then obtain q where q: "?q n q" and dn: "distinct (map em_id (emailQueue (?run n)))" and c: "callsFor (em_id r) (?run n) = callsFor (em_id r) s + n" by auto
    have pending: "em_status q = PENDING" using q Suc.prems by auto
    have t: "nextTime (em_id r) (?run n) = em_nextAttemptAt q" using nextTime_row [OF dn, of q] q by simp
    have due: "due (em_nextAttemptAt q) q" using q pending by (simp add: due_def leaseIsAvailable_def)
    obtain u p where u: "processPending U (em_nextAttemptAt q) [em_id q] None (?run n) = (Inr 1, u)" "emailQueue u = emailQueue (putRow p (?run n))"
      "afterFailure (em_nextAttemptAt q) q p" "retryable U p" "callsFor (em_id q) u = callsFor (em_id q) (?run n) + 1"
      by (rule failing_run [OF U dn _ due]) (use q in auto)
    have run: "?run (Suc n) = u" using u(1) q by (simp add: t)
    have pid: "em_id p = em_id r" using u(3) q by (simp add: afterFailure_def)
    have "p \<in> set (emailQueue u)" "distinct (map em_id (emailQueue u))"
      using putRow_facts [OF dn, of q p] q pid by (simp_all add: u(2))
    moreover have "?q (Suc n) p" if "p \<in> set (emailQueue u)"
      using that u(3,4) q t run by (auto simp: afterFailure_def)
    ultimately show ?case using u(5) c q run by auto
  qed
  then show "\<exists>q \<in> set (emailQueue (?run n)). em_id q = em_id r \<and> em_attempts q = em_attempts r + n \<and> em_maxAttempts q = em_maxAttempts r \<and>
      em_status q = (if n = 0 \<or> em_attempts r + n < em_maxAttempts r then PENDING else FAILED) \<and> em_leaseExpiresAt q = None \<and> retryable U q \<and>
      (0 < n \<longrightarrow> em_status q = PENDING \<longrightarrow> em_nextAttemptAt q = nextTime (em_id r) (?run (n - 1)) + retryDelayMs (em_attempts r + n))"
    and "distinct (map em_id (emailQueue (?run n)))" and "callsFor (em_id r) (?run n) = callsFor (em_id r) s + n"
    by blast+
qed



end
