(* ===== verification/Notice_Guard.thy ===== *)
theory Notice_Guard
  imports Email_Guards
begin

text \<open>
  What the guard of the extra charge notices promises: the context a request freezes in the queued row is read back as it was, and the
  request to the provider is started exactly while the charge, the booking, the customer, the tenant and the message are as they were
  when the notice was queued.
\<close>

section \<open>The frozen context\<close>

definition safeAmounts :: "NoticeContext \<Rightarrow> bool" where
  "safeAmounts c \<longleftrightarrow> list_all (\<lambda>n. \<bar>n\<bar> \<le> 9007199254740991) [nc_amountCents c, nc_adminFeeCents c, nc_totalAmountCents c]"

lemma safeInteger_of_int: "\<bar>n\<bar> \<le> 9007199254740991 \<Longrightarrow> safeInteger (Some (JNum (of_int n))) = Some n"
proof -
  assume "\<bar>n\<bar> \<le> 9007199254740991"
  then have "\<bar>of_int n :: rat\<bar> \<le> of_int 9007199254740991" by (simp only: of_int_abs [symmetric] of_int_le_iff)
  then show ?thesis by (simp add: safeInteger_def)
qed

lemma contextOf_contextJson:
  assumes "nc_tenantId c \<noteq> []" and "nc_extraChargeId c \<noteq> []" and "safeAmounts c"
  shows "contextOf (contextJson c) = Some c"
proof -
  have safe: "safeInteger (Some (JNum (of_int (nc_amountCents c)))) = Some (nc_amountCents c)"
    "safeInteger (Some (JNum (of_int (nc_adminFeeCents c)))) = Some (nc_adminFeeCents c)"
    "safeInteger (Some (JNum (of_int (nc_totalAmountCents c)))) = Some (nc_totalAmountCents c)"
    using assms(3) by (simp_all add: safeAmounts_def safeInteger_of_int)
  have vehicle: "(jstrOrNull v = JNull \<or> (\<exists>i. v = Some i)) \<and> jstring (Some (jstrOrNull v)) = v" for v
    by (cases v) (simp_all add: jstrOrNull_def)
  show ?thesis
    using assms(1,2) vehicle [of "nc_vehicleId c"] by (simp add: contextOf_def contextJson_def jprop_def safe)
qed

lemma lockContext_frozen:
  assumes "lockContext U had t x s = Inr locked"
  shows "nc_tenantId (lk_context locked) = t \<and> nc_extraChargeId (lk_context locked) = ex_id (lk_extra locked) \<and>
     nc_bookingId (lk_context locked) = ex_bookingId (lk_extra locked) \<and> nc_rentalCustomerId (lk_context locked) = ex_rentalCustomerId (lk_extra locked) \<and>
     nc_type (lk_context locked) = ex_type (lk_extra locked) \<and> nc_totalAmountCents (lk_context locked) = ex_totalAmountCents (lk_extra locked)"
    and "lk_extra locked \<in> set (extraCharges s) \<and> ex_id (lk_extra locked) = x \<and> ex_tenantId (lk_extra locked) = t \<and> ex_deletedAt (lk_extra locked) = None"
    and "tenantReason (tenantRow t s) = None" and "licenseReason U t s = None"
  using assms unfolding lockContext_def
  by (auto split: if_splits option.splits dest!: find_Some_iff [THEN iffD1])

lemma find_last: "\<forall>x \<in> set xs. \<not> P x \<Longrightarrow> P r \<Longrightarrow> List.find P (xs @ [r]) = Some r"
  by (induction xs) auto

lemma noticeFields_inj: "noticeFields c p = noticeFields d q \<longleftrightarrow> c = d \<and> p = q"
proof -
  have "jstrOrNull v = jstrOrNull w \<longleftrightarrow> v = w" for v w by (cases v; cases w) (simp_all add: jstrOrNull_def)
  then show ?thesis by (cases c; cases d; cases p; cases q) (auto simp: noticeFields_def)
qed

definition noticeRow :: "'z mail_db_scheme mail_env \<Rightarrow> instant \<Rightarrow> string \<Rightarrow> string \<Rightarrow> string \<Rightarrow> LockedContext \<Rightarrow> EmailRow" where
  "noticeRow U now newId t userId locked =
     (let p = lk_payload locked in
      queuedRow now newId (Some (keyFor t (ex_id (lk_extra locked))))
        \<lparr>qi_tenantId = Some t, qi_type = noticeType, qi_recipient = np_recipient p, qi_subject = np_subject p, qi_body = np_body p,
         qi_meta = Some (noticeMeta U userId locked)\<rparr>)"

lemma noticeRow_facts:
  "em_id (noticeRow U now newId t userId locked) = newId" "em_tenantId (noticeRow U now newId t userId locked) = Some t"
  "em_type (noticeRow U now newId t userId locked) = noticeType" "em_status (noticeRow U now newId t userId locked) = PENDING"
  "em_deduplicationKey (noticeRow U now newId t userId locked) = Some (keyFor t (ex_id (lk_extra locked)))"
  "itemPayload (noticeRow U now newId t userId locked) = lk_payload locked" "em_createdAt (noticeRow U now newId t userId locked) = now"
  "due now (noticeRow U now newId t userId locked)" "metaOf (noticeRow U now newId t userId locked) = noticeMeta U userId locked"
  by (simp_all add: noticeRow_def Let_def queuedRow_def itemPayload_def due_def leaseIsAvailable_def metaOf_def metaFields_def noticeMeta_def)

lemma noticeRow_verified:
  assumes "lockContext U had t x s = Inr locked" and "t \<noteq> []" and "x \<noteq> []" and "safeAmounts (lk_context locked)"
  shows "verifiedContext U (noticeRow U now newId t userId locked) = Some (lk_context locked)"
proof -
  note frozen = lockContext_frozen(1,2) [OF assms(1)]
  obtain fs where fs: "contextJson (lk_context locked) = JObj fs" by (simp add: contextJson_def)
  have "contextOf (JObj fs) = Some (lk_context locked)"
    using contextOf_contextJson [of "lk_context locked"] frozen assms(2-4) by (simp add: fs)
  then show ?thesis
    using frozen by (simp add: verifiedContext_def Let_def noticeRow_facts) (simp add: noticeRow_facts noticeMeta_def jprop_def fs)
qed

text \<open>
  C22: A requested notice is queued once, with the context it was authorised on: when no row has its key, queueing appends exactly one row,
  which a worker can take at once, and one audit entry, and the context read back from the row is the one that was locked.
\<close>

theorem queued_notice_read_back:
  fixes U :: "'z mail_db_scheme mail_env"
  assumes "lockContext U had t x s = Inr locked" and "t \<noteq> []" and "x \<noteq> []" and "safeAmounts (lk_context locked)"
    and "\<forall>r \<in> set (emailQueue s). em_id r \<noteq> newId \<and> em_deduplicationKey r \<noteq> Some (keyFor t x)"
  shows "\<exists>row a. queueNotice U newId t userId locked s =
      (Inr (lk_extra locked), s\<lparr>emailQueue := emailQueue s @ [row], auditLogs := auditLogs s @ [a]\<rparr>) \<and>
    due (wallClock s) row \<and> itemPayload row = lk_payload locked \<and> verifiedContext U row = Some (lk_context locked) \<and>
    al_action a = queuedAction \<and> al_resourceId a = Some x \<and> jprop (al_details a) ''queueEmailId'' = Some (JStr (em_id row))"
proof -
  define row where "row = noticeRow U (wallClock s) newId t userId locked"
  define key where "key = keyFor t (ex_id (lk_extra locked))"
  note facts = noticeRow_facts [where U = U and now = "wallClock s" and newId = newId and t = t and userId = userId and locked = locked, folded row_def key_def]
  have x: "ex_id (lk_extra locked) = x" using lockContext_frozen(2) [OF assms(1)] by simp
  have v: "verifiedContext U row = Some (lk_context locked)" unfolding row_def by (rule noticeRow_verified [OF assms(1-4)])
  have clash: "\<not> (\<exists>r \<in> set (emailQueue s). sameEmail r row)"
    using assms(5) by (auto simp: sameEmail_def facts(1,5) key_def x)
  define input where "input = \<lparr>qi_tenantId = Some t, qi_type = noticeType, qi_recipient = np_recipient (lk_payload locked),
    qi_subject = np_subject (lk_payload locked), qi_body = np_body (lk_payload locked), qi_meta = Some (noticeMeta U userId locked)\<rparr>"
  have row: "queuedRow (wallClock s) newId (Some key) input = row" by (simp add: row_def noticeRow_def Let_def input_def key_def)
  have q: "enqueueManyOnce (\<lambda>_. newId) [(input, key)] s = (Inr 1, s\<lparr>emailQueue := emailQueue s @ [row]\<rparr>)"
    using clash by (simp add: enqueueManyOnce_def prog_defs enumerate_eq_zip insertOnce_def row)
  let ?P = "\<lambda>q. em_tenantId q = Some t \<and> em_type q = noticeType \<and> em_deduplicationKey q = Some key"
  have found: "findFirst ?P (emailQueue s @ [row]) = Some row"
    using assms(5) by (intro find_last) (auto simp: facts key_def x)
  define entry where "entry = \<lparr>ai_tenantId = t, ai_userId = Some userId, ai_action = queuedAction, ai_resource = noticeResource,
    ai_resourceId = Some (ex_id (lk_extra locked)), ai_details = Some (JObj [(''bookingId'', JStr (ex_bookingId (lk_extra locked))),
      (''queueEmailId'', JStr (em_id row)), (''contextVersion'', JNum 1)])\<rparr>"
  obtain a where a: "createAuditLog (me_hashOf U) (wallClock s) entry None (s\<lparr>emailQueue := emailQueue s @ [row]\<rparr>) =
      (Inr a, s\<lparr>emailQueue := emailQueue s @ [row], auditLogs := auditLogs s @ [a]\<rparr>)"
    "al_action a = queuedAction" "al_resourceId a = Some x" "jprop (al_details a) ''queueEmailId'' = Some (JStr (em_id row))"
    by (simp add: createAuditLog_def prog_defs Let_def entry_def spreadFields_def jprop_def x)
  have "queueNotice U newId t userId locked s = (Inr (lk_extra locked), s\<lparr>emailQueue := emailQueue s @ [row], auditLogs := auditLogs s @ [a]\<rparr>)"
    unfolding queueNotice_def Let_def key_def [symmetric] input_def [symmetric]
    using v by (simp add: seqP_def bindP_def q getsP_def found returnP_def entry_def [symmetric] a(1))
  then show ?thesis using v a(2-4) facts(6,8) by blast
qed

section \<open>The guard\<close>

definition noticeStands :: "'z mail_db_scheme mail_env \<Rightarrow> bool \<Rightarrow> NoticeContext \<Rightarrow> EmailRow \<Rightarrow> 'z mail_db_scheme \<Rightarrow> bool" where
  "noticeStands U had c item s \<longleftrightarrow>
     (\<exists>locked. lockContext U had (nc_tenantId c) (nc_extraChargeId c) s = Inr locked \<and>
        lk_context locked = c \<and> lk_payload locked = itemPayload item \<and> ex_status (lk_extra locked) = ''APPROVED'' \<and>
        (\<forall>e. lk_licenseExpiresAt locked = Some e \<longrightarrow> wallClock s \<le> e)) \<and>
     \<not> statusChangedSince (nc_tenantId c) (em_createdAt item) s"

lemma verifiedContext_cong:
  "metaOf r = metaOf q \<Longrightarrow> em_tenantId r = em_tenantId q \<Longrightarrow> em_deduplicationKey r = em_deduplicationKey q \<Longrightarrow> itemPayload r = itemPayload q \<Longrightarrow>
     verifiedContext U r = verifiedContext U q"
  by (simp only: verifiedContext_def)

lemma verifiedContext_hash:
  "verifiedContext U item = Some c \<Longrightarrow> jprop (metaOf item) ''contextHash'' = Some (JStr (fingerprint U c (itemPayload item)))"
  by (auto simp: verifiedContext_def Let_def split: option.splits json.splits if_splits)

text \<open>The reason the guard finds, the licence's end read after the lease was renewed.\<close>

definition lateReason :: "string option \<times> instant option \<Rightarrow> 'z mail_db_scheme \<Rightarrow> string option" where
  "lateReason p s = (if fst p = None \<and> (case snd p of None \<Rightarrow> False | Some e \<Rightarrow> e < wallClock s) then Some ''LICENSE_EXPIRED'' else fst p)"

lemma noticeBody_run:
  "noticeBody U currentTime lease item token had s =
    (case noticeReason U item had s of Inl e \<Rightarrow> (Inl e, s)
     | Inr p \<Rightarrow> startOrBlock currentTime item token ''EXTRA_NOTICE_DISPATCH_BLOCKED:'' lease (getsP (lateReason p)) s)"
proof -
  have "(\<lambda>s. if reason = None \<and> (case expires of None \<Rightarrow> False | Some e \<Rightarrow> e < wallClock s) then Some ''LICENSE_EXPIRED'' else reason) =
      lateReason (reason, expires)" for reason expires :: "_ option"
    by (rule ext) (simp only: lateReason_def fst_conv snd_conv)
  note late = this
  show ?thesis
    unfolding noticeBody_def late by (simp add: run_bindP(2) [where m = "getsP f" for f, OF run_getsP] throwP_def split: sum.split)
qed


lemma lockContext_queue: "lockContext U had t x (s\<lparr>emailQueue := q\<rparr>) = lockContext U had t x s"
proof -
  have "getLatestByAction t r a (s\<lparr>emailQueue := q\<rparr>) = getLatestByAction t r a s" for r a by (simp add: getLatestByAction_def)
  note same = this
  have "tenantRow t (s\<lparr>emailQueue := q\<rparr>) = tenantRow t s" "actorsOwned t e b (s\<lparr>emailQueue := q\<rparr>) = actorsOwned t e b s"
    "getTenantLicense d subscriptionReader n t (s\<lparr>emailQueue := q\<rparr>) = getTenantLicense d subscriptionReader n t s" for e b d n
    by (simp_all add: tenantRow_def actorsOwned_def getTenantLicense_def subscriptionReader_def same cong: option.case_cong)
  then show ?thesis by (simp add: lockContext_def licenseReason_def cong: option.case_cong if_cong)
qed

lemma lockContext_env:
  assumes "me_dateParse V = me_dateParse U"
  shows "lockContext V had t x s = lockContext U had t x s"
proof -
  have lic: "licenseReason V t s = licenseReason U t s" unfolding licenseReason_def assms ..
  have ends: "licenseEnd V = licenseEnd U" by (rule ext) (simp only: licenseEnd_def assms)
  show ?thesis unfolding lockContext_def lic ends assms ..
qed

definition sampleExtra :: ExtraChargeRow where
  "sampleExtra = \<lparr>ex_id = ''x1'', ex_tenantId = ''t1'', ex_bookingId = ''b1'', ex_rentalCustomerId = ''c1'', ex_vehicleId = None, ex_type = ''FINE'',
     ex_description = ''d'', ex_amountCents = 4000, ex_adminFeeCents = 500, ex_totalAmountCents = 4500, ex_currency = ''EUR'', ex_status = ''APPROVED'',
     ex_notifiedAt = None, ex_createdByUserId = None, ex_approvedByUserId = None, ex_deletedAt = None\<rparr>"

definition sampleBooking :: BookingRow where
  "sampleBooking = \<lparr>bk_id = ''b1'', bk_tenantId = ''t1'', bk_vehicleId = ''v1'', bk_customerId = Some ''c1'', bk_createdByUserId = None,
     bk_code = ''B-1'', bk_status = ''CONFIRMED'', bk_customerName = ''Ada'', bk_customerEmail = None, bk_deletedAt = None\<rparr>"

definition sampleNoticeDb :: mail_db where
  "sampleNoticeDb = sampleReportDb\<lparr>emailQueue := [], extraCharges := [sampleExtra], rentalBookings := [sampleBooking],
     vehicles := [\<lparr>vh_id = ''v1'', vh_tenantId = ''t1'', vh_siteId = ''s1'', vh_deletedAt = None\<rparr>],
     sites := [\<lparr>st_id = ''s1'', st_tenantId = ''t1'', st_deletedAt = None\<rparr>],
     rentalCustomers := [\<lparr>cu_id = ''c1'', cu_tenantId = ''t1'', cu_email = Some ''a'', cu_deletedAt = None\<rparr>]\<rparr>"

definition sampleLocked :: LockedContext where
  "sampleLocked = \<lparr>lk_extra = sampleExtra,
     lk_context = \<lparr>nc_tenantId = ''t1'', nc_extraChargeId = ''x1'', nc_bookingId = ''b1'', nc_rentalCustomerId = ''c1'', nc_vehicleId = None,
       nc_bookingVehicleId = ''v1'', nc_siteId = ''s1'', nc_type = ''FINE'', nc_currency = ''EUR'', nc_amountCents = 4000, nc_adminFeeCents = 500,
       nc_totalAmountCents = 4500, nc_description = ''d''\<rparr>,
     lk_payload = noticePayload ''a'' sampleBooking sampleExtra, lk_licenseExpiresAt = Some 1000\<rparr>"

lemma sample_locked: "lockContext sampleMailEnv True ''t1'' ''x1'' sampleNoticeDb = Inr sampleLocked"
  by code_simp

lemma sample_locked_facts:
  "safeAmounts (lk_context sampleLocked)" "lk_licenseExpiresAt sampleLocked = Some 1000" "ex_status (lk_extra sampleLocked) = ''APPROVED''"
  "ex_id (lk_extra sampleLocked) = ''x1''" "nc_tenantId (lk_context sampleLocked) = ''t1''" "nc_extraChargeId (lk_context sampleLocked) = ''x1''"
  by (simp_all add: sampleLocked_def sampleExtra_def safeAmounts_def)

text \<open>Witness of C22: the notice of the sample charge.\<close>

theorem queued_notice_read_back_witness:
  "\<exists>row a. queueNotice sampleMailEnv ''q1'' ''t1'' ''u1'' sampleLocked sampleNoticeDb =
      (Inr (lk_extra sampleLocked), sampleNoticeDb\<lparr>emailQueue := [row], auditLogs := auditLogs sampleNoticeDb @ [a]\<rparr>) \<and>
    verifiedContext (sampleMailEnv :: mail_db mail_env) row = Some (lk_context sampleLocked)"
proof -
  have "emailQueue sampleNoticeDb = []" by (simp add: sampleNoticeDb_def)
  with queued_notice_read_back [OF sample_locked _ _ sample_locked_facts(1), of "''q1''" "''u1''"]
  obtain row a where "queueNotice sampleMailEnv ''q1'' ''t1'' ''u1'' sampleLocked sampleNoticeDb =
      (Inr (lk_extra sampleLocked), sampleNoticeDb\<lparr>emailQueue := [row], auditLogs := auditLogs sampleNoticeDb @ [a]\<rparr>)"
    "verifiedContext (sampleMailEnv :: mail_db mail_env) row = Some (lk_context sampleLocked)" by fastforce
  then show ?thesis by blast
qed


definition strictEnv :: "'z mail_db_scheme mail_env" where
  "strictEnv = sampleMailEnv\<lparr>me_hashOf := \<lambda>d. if d = noticeFields (lk_context sampleLocked) (lk_payload sampleLocked) then ''h1'' else ''h0''\<rparr>"

definition sampleNotice :: EmailRow where
  "sampleNotice = (noticeRow (strictEnv :: mail_db mail_env) 0 ''q1'' ''t1'' ''u1'' sampleLocked)\<lparr>em_processingToken := Some ''w'', em_leaseExpiresAt := Some 100\<rparr>"


end
