(* ===== verification/Spec2Isabelle.thy ===== *)
theory Spec2Isabelle
  imports Rental_Pricing License_Policy Login_Attempts Auth_Access Payment_Effects Logo_Guarantee Notice_Guard
begin

text \<open>
  Fleetum is a multi-tenant service for car rental companies: a web client, an HTTP backend over a relational database, and
  jobs that run on a schedule.  This development models the backend's core logic, under \<^verbatim>\<open>src/backend/src\<close> (paths below are
  relative to it), and the plan catalog under \<^verbatim>\<open>src/packages\<close>.

  \<^bold>\<open>How the parts interact.\<close>  A request passes \<open>requireAuth\<close> (a live session of an active user), the permission and CSRF guards, then
  \<open>requireValidLicense\<close> and \<open>requireFeature\<close>, which read the tenant's subscription.  The subscription is written by billing webhooks and
  by the dunning job, which suspends tenants that do not pay.  Bookings are priced by the pricing service on terms
  that are frozen in a snapshot.  Guarantee cards, deposits and extra charges of a booking are kept in line with the
  payment provider by the payment service, from requests and from the provider's events.  Sensitive actions write the audit log, in which
  the entries of a tenant form a hash chain.

  \<^bold>\<open>Programs.\<close>  A method is a state transformer that returns a value or throws (\<open>prog\<close> of \<open>Fleetum_Prelude\<close>); a table is a list of records in
  insertion order; a transaction undoes its writes when it throws.  Every throw and early return of the code is a branch.  Numbers
  are binary64 values with the rounding of every operation (\<open>Js_Number\<close>); documents of unknown shape are JSON values (\<open>Js_Value\<close>).
  Time, fresh identifiers, hashes, signatures, the decimal library and the payment provider are parameters.  What other requests
  commit while a lock or the provider is awaited is a parameter too, so that the theorems hold for every interleaving at those points.

  \<^bold>\<open>Theories.\<close>
    \<^item> \<open>Fleetum_Prelude\<close>, \<open>Js_Number\<close>, \<open>Js_Value\<close>: programs, tables, invariants of programs (\<open>keeps\<close>), binary64, strings, JSON.
    \<^item> \<open>Rental_Pricing\<close>: \<^verbatim>\<open>application/services/rental-pricing-service.ts\<close>, \<^verbatim>\<open>rental-pricing-operations.ts\<close>.  Charged days are exact despite
      rounding; amounts are ordered, not negative and monotone in the kilometres; a quote on restored terms is the quote on the agreed ones.
    \<^item> \<open>Plan_Catalog\<close>: \<^verbatim>\<open>feature-entitlements-service.ts\<close> and the catalog.  \<open>Exact_Money\<close>: \<^verbatim>\<open>exact-money-reader.ts\<close>, \<^verbatim>\<open>exact-money-fields.ts\<close>.
    \<^item> \<open>Audit_Log\<close>: \<^verbatim>\<open>prisma-audit-log-repository.ts\<close>, the hash chain.
    \<^item> \<open>Tenant_Subscription\<close>: \<^verbatim>\<open>tenant-subscription-service.ts\<close> and \<^verbatim>\<open>billing-dunning-service.ts\<close>.  Reads agree in all modes, writes are read back, guarded
      writes refuse stale data, the dunning job suspends exactly the overdue tenants.
    \<^item> \<open>License_Policy\<close>: \<^verbatim>\<open>license-policy-service.ts\<close> and its guards, with exactly the requests they admit.
    \<^item> \<open>Login_Attempts\<close>: \<^verbatim>\<open>login-attempt-store-service.ts\<close>, \<^verbatim>\<open>platform-login-guard-service.ts\<close>, \<^verbatim>\<open>auth-threat-detection-service.ts\<close>.
    \<^item> \<open>Auth_Session\<close>, \<open>Auth_Access\<close>: \<^verbatim>\<open>auth-session-service.ts\<close>, the logins, the password reset and the middlewares.  A refresh token is used
      once, a logout closes exactly the chain of a session, a request is admitted exactly on a live session.
    \<^item> \<open>Rental_Payment\<close>: the state and the methods of \<^verbatim>\<open>rental-payment-service.ts\<close> under their names; \<open>defaultDeps\<close> are its database functions.
      \<open>Payment_Guarantee\<close>, \<open>Payment_Service\<close>: the changes the service makes to its tables, and that it makes no others.
      \<open>Payment_Steps\<close>: the abstract step relation \<open>payStep\<close>, the proof that every interleaved run of requests implements it, and what follows by rule
      induction: the invariant, final captures, final payments, evidence for payments, isolation of tenants.
      \<open>Payment_Effects\<close>: provider calls are bounded and not repeated, reconciliation converges, an event takes effect once.
    \<^item> this theory: the dunning job and the licence guard together.

  \<^bold>\<open>Interfaces.\<close>  Locales state what a client uses: \<open>rounding\<close>, \<open>enum_codec\<close>, \<open>money_view\<close>, \<open>subscription_reader\<close>, \<open>attempt_store\<close>, \<open>login_guard\<close> and \<open>payment_guarantee\<close>; each
  is interpreted on the definitions of the component that provides it.

  \<^bold>\<open>Bounds.\<close>  The loops of the payment service make at most five passes in the code; \<open>reconcileExtraLoop\<close>, \<open>reconcileDepositLoop\<close> and \<open>markLinkedLoop\<close>
  recurse on the passes that are left, so the bound is the code's and a run that exhausts it throws the code's error 503.  The walk along
  replaced sessions terminates because every step visits a new session.  Nothing else needs fuel.

  \<^bold>\<open>Not modelled.\<close>  The web client, the HTTP controllers and the repositories behind them (queries and formatting), files, PDF and text
  recognition, emails and notices, statistics, the platform console, privacy exports and social login.  In the modelled
  components: messages of errors, logging and metrics, foreign keys, and interruptions between two plain statements of the database outside
  the points named above.  The billing webhooks, the email queue, the calendar rules and the validation of company data are the
  next candidates.
\<close>

section \<open>The dunning job and the licence guard\<close>

definition sampleOverdue :: lic_db where
  "sampleOverdue = \<lparr>auditLogs = [], subscriptions = [sampleRow], tenants = [\<lparr>tn_id = ''t1'', tn_isActive = True, tn_name = ''Rossi'', tn_vatNumber = None, tn_deletedAt = None\<rparr>]\<rparr>"

lemma dunning_suspended_row:
  assumes "money_ok E" and "subInv s"
    and "suspendOverduePastDueSubscriptions E hashOf notifyOk clock newId graceDays batchSize now s = (Inr res, s')" and "t \<in> set (dr_tenantIds res)"
  shows "\<exists>q. findByTenant t (subscriptions s') = Some q \<and> sn_status (snapshotFromRow q) = TenantSubscriptionStatus.SUSPENDED"
proof -
  define cutoff where "cutoff = now - max 0 graceDays * 24 * 60 * 60 * 1000"
  define rows where "rows = take (nat (max 1 batchSize)) (sort_key ts_updatedAt (filter (overdue cutoff) (subscriptions s)))"
  from dunning_run [OF assms(1,2) cutoff_def rows_def, of hashOf notifyOk clock newId] assms(3)
  have res: "dr_tenantIds res = map ts_tenantId rows"
    and snap: "\<And>t. map_option snapshotFromRow (findByTenant t (subscriptions s')) =
       map_option (\<lambda>r. if r \<in> set rows then suspendedSnapshot clock r else snapshotFromRow r) (findByTenant t (subscriptions s))"
    by auto
  obtain r where r: "r \<in> set rows" "ts_tenantId r = t" using assms(4) res by auto
  have "r \<in> set (subscriptions s)" using r(1) set_take_subset [of "nat (max 1 batchSize)"] by (fastforce simp: rows_def)
  then have "findByTenant t (subscriptions s) = Some r" using assms(2) r(2) by (auto simp: subInv_def intro: findByTenant_mem)
  with snap [of t] r(1) show ?thesis by (auto simp: suspendedSnapshot_def)
qed

text \<open>
  C31: A suspension by the dunning job takes effect at the guard: every tenant a run reports as suspended is refused by the licence guard
  in the state the run leaves, at every time and in every mode of the exact-money reader, as suspended, as expired if the period has
  ended too, or as inactive; and the refused request changes nothing.
\<close>

theorem dunning_closes_access:
  assumes "money_ok E" and "subInv s"
    and "suspendOverduePastDueSubscriptions E hashOf notifyOk clock newId graceDays batchSize now s = (Inr res, s')" and "t \<in> set (dr_tenantIds res)" and "t \<noteq> []"
  shows "\<exists>err. requireValidLicense dateParse (readTenantSubscription E') later (Some t) s' = (Inl err, s') \<and>
    err \<in> {AppError 403 ''TENANT_INACTIVE'', AppError 403 ''LICENSE_SUSPENDED'', AppError 402 ''LICENSE_EXPIRED''}"
proof -
  obtain q where q: "findByTenant t (subscriptions s') = Some q" "sn_status (snapshotFromRow q) = TenantSubscriptionStatus.SUSPENDED"
    using dunning_suspended_row [OF assms(1-4)] by blast
  have "l_status (getTenantLicense dateParse (readTenantSubscription E') later t s') \<in> {TenantSubscriptionStatus.SUSPENDED, EXPIRED}"
    using exact_reader.license_status(1) [OF q(1), of dateParse E' later] q(2) by (simp split: option.split)
  then show ?thesis
    using assms(5) by (auto simp: requireValidLicense_run evaluateAccess_def Let_def)
qed

text \<open>Witness of C31: the overdue tenant of the sample.\<close>

theorem dunning_closes_access_witness:
  "\<exists>res s' err. suspendOverduePastDueSubscriptions sampleEnv (\<lambda>_. ''h'') (\<lambda>_. True) 700 ''n'' 0 10 600 sampleOverdue = (Inr res, s') \<and>
     requireValidLicense (\<lambda>_. None) (readTenantSubscription sampleEnv) 650 (Some ''t1'') s' = (Inl err, s')"
proof -
  have inv: "subInv sampleOverdue" using sample_inv(1) by (simp add: subInv_def sampleDb_def sampleOverdue_def)
  obtain s' where s': "suspendOverduePastDueSubscriptions sampleEnv (\<lambda>_. ''h'') (\<lambda>_. True) 700 ''n'' 0 10 600 sampleOverdue =
      (Inr \<lparr>dr_checked = 1, dr_suspended = 1, dr_tenantIds = [''t1'']\<rparr>, s')"
    using dunning_run [OF sample_money_ok inv refl refl, of "\<lambda>_. ''h''" "\<lambda>_. True" 700 "''n''" 0 10 600]
    by (auto simp: sampleOverdue_def sampleRow_def overdue_def)
  from dunning_closes_access [OF sample_money_ok inv s', of "''t1''" "\<lambda>_. None" sampleEnv 650] s' show ?thesis by auto
qed

end
